(* ===== verification/Prelude.thy ===== *)
theory Prelude
  imports Complex_Main
begin

text \<open>
  Shared base of the development: the exceptions the Python code raises, the
  result type of a fallible call, JSON values with Python's notion of truth
  and equality on them, the string operations the code uses, queries over
  lists of rows (\<open>first_row\<close> is the queryset method \<open>.first()\<close>), and the
  lemmas on them that the components share.  Collections: \<open>query_simps\<close> for
  the queries, \<open>res_simps\<close> for results.
\<close>

named_theorems query_simps \<open>facts about queries over lists of rows\<close>
named_theorems res_simps \<open>facts about results of fallible calls\<close>

section \<open>Exceptions and results\<close>

text \<open>
  A call that may raise returns \<open>Inl\<close> of the exception or \<open>Inr\<close> of its value.
  The string is the message of the exception as the source formats it (or its
  \<open>code\<close> for the validators of custom fields).
\<close>

datatype pyexc =
    ValueError string
  | ValidationError string
  | PermissionDenied string
  | KeyError string
  | TypeError string
  | DoesNotExist string
  | DatabaseError string
  | RecursionError

type_synonym 'a res = "pyexc + 'a"

definition bind_res :: "'a res \<Rightarrow> ('a \<Rightarrow> 'b res) \<Rightarrow> 'b res" where
  "bind_res r f = (case r of Inl e \<Rightarrow> Inl e | Inr a \<Rightarrow> f a)"

lemma bind_res_Inl [simp, res_simps]: "bind_res (Inl e) f = Inl e"
  by (simp add: bind_res_def)

lemma bind_res_Inr [simp, res_simps]: "bind_res (Inr a) f = f a"
  by (simp add: bind_res_def)

lemma bind_res_eq_Inr [res_simps]:
  "bind_res r f = Inr b \<longleftrightarrow> (\<exists>a. r = Inr a \<and> f a = Inr b)"
  by (cases r) auto

lemma bind_res_eq_Inl [res_simps]:
  "bind_res r f = Inl e \<longleftrightarrow> r = Inl e \<or> (\<exists>a. r = Inr a \<and> f a = Inl e)"
  by (cases r) auto

text \<open>Running a fallible step over a list, left to right, stopping at the first exception.\<close>

fun fold_res :: "('a \<Rightarrow> 's \<Rightarrow> 's res) \<Rightarrow> 'a list \<Rightarrow> 's \<Rightarrow> 's res" where
  "fold_res f [] s = Inr s"
| "fold_res f (x # xs) s = bind_res (f x s) (fold_res f xs)"

lemma fold_res_invariant:
  assumes step: "\<And>x s s'. x \<in> set xs \<Longrightarrow> P s \<Longrightarrow> f x s = Inr s' \<Longrightarrow> P s'"
    and start: "P s" and run: "fold_res f xs s = Inr s'"
  shows "P s'"
  using assms
proof (induction xs arbitrary: s)
  case Nil
  then show ?case by simp
next
  case (Cons x xs)
  from Cons.prems(3) obtain t where t: "f x s = Inr t" "fold_res f xs t = Inr s'"
    by (auto simp: bind_res_eq_Inr)
  from Cons.prems(1) [OF _ Cons.prems(2) t(1)] have "P t" by simp
  with Cons.IH Cons.prems(1) t(2) show ?case by (meson list.set_intros(2))
qed

section \<open>Queries over rows\<close>

text \<open>
  A table is the list of its rows in the order the default manager returns
  them.  \<open>first_row p rows\<close> is \<open>rows.filter(p).first()\<close>.
\<close>

definition first_row :: "('a \<Rightarrow> bool) \<Rightarrow> 'a list \<Rightarrow> 'a option" where
  "first_row p rows = List.find p rows"

lemma first_row_Nil [simp]: "first_row p [] = None"
  by (simp add: first_row_def)

lemma first_row_Cons [simp]: "first_row p (x # xs) = (if p x then Some x else first_row p xs)"
  by (simp add: first_row_def)

lemma first_row_SomeD [query_simps]: "first_row p rows = Some r \<Longrightarrow> r \<in> set rows \<and> p r"
  by (induction rows) (auto split: if_splits)

lemma first_row_eq_None [query_simps]: "first_row p rows = None \<longleftrightarrow> (\<forall>r \<in> set rows. \<not> p r)"
  by (induction rows) auto

lemma first_row_filter [query_simps]: "first_row p (filter q rows) = first_row (\<lambda>r. q r \<and> p r) rows"
  by (induction rows) auto

text \<open>
  \<open>order_by(k)\<close> is a stable sort by the key: \<open>sort_key k rows\<close>.  Its head is
  the first row with the least key.
\<close>

definition first_by :: "('a \<Rightarrow> 'k::linorder) \<Rightarrow> 'a list \<Rightarrow> 'a option" where
  "first_by k rows = (case sort_key k rows of [] \<Rightarrow> None | r # _ \<Rightarrow> Some r)"

lemma first_by_eq_None [query_simps]: "first_by k rows = None \<longleftrightarrow> rows = []"
proof -
  have "sort_key k rows = [] \<longleftrightarrow> rows = []" by (metis length_0_conv length_sort)
  then show ?thesis by (auto simp: first_by_def split: list.splits)
qed

lemma first_by_least:
  assumes "first_by k rows = Some r"
  shows "r \<in> set rows" and "\<forall>x \<in> set rows. k r \<le> k x"
proof -
  from assms obtain rs where rs: "sort_key k rows = r # rs"
    by (auto simp: first_by_def split: list.splits)
  then have members: "set rows = insert r (set rs)"
    by (metis list.simps(15) set_sort)
  have "sorted (map k (r # rs))" using rs sorted_sort_key by metis
  then have "\<forall>x \<in> set rs. k r \<le> k x" by simp
  with members show "r \<in> set rows" and "\<forall>x \<in> set rows. k r \<le> k x" by auto
qed

section \<open>Integers split into blocks\<close>

lemma block_bounds:
  fixes x b :: int
  assumes "0 < b"
  shows "x div b * b \<le> x" and "x < (x div b + 1) * b"
proof -
  have eq: "x = x div b * b + x mod b" by simp
  have "0 \<le> x mod b" "x mod b < b" using assms by simp_all
  then show "x div b * b \<le> x" by (simp add: minus_mod_eq_div_mult [symmetric])
  from eq \<open>x mod b < b\<close> show "x < (x div b + 1) * b" unfolding distrib_right by linarith
qed

lemma block_unique:
  fixes x b d :: int
  assumes "d * b \<le> x" and "x < (d + 1) * b"
  shows "x div b = d" and "x mod b = x - d * b"
proof -
  have split: "x = b * d + (x - d * b)" by (simp add: mult.commute)
  have rest: "0 \<le> x - d * b" "x - d * b < b" using assms by (simp_all add: distrib_right)
  show "x div b = d" by (rule int_div_pos_eq [OF split rest])
  show "x mod b = x - d * b" by (rule int_mod_pos_eq [OF split rest])
qed

lemma int_nat_max: "int (nat x) = max 0 x"
  by simp

lemma add_if_less: "(if lo < hi then acc + (hi - lo) else acc) = acc + max 0 (hi - lo)" for lo hi acc :: int
  by auto

end
