(* ===== verification/Tenancy.thy ===== *)
theory Tenancy
  imports Pydata
begin

text \<open>
  Identifiers and the tenant-level rows the components read: the settings row
  of a tenant, its business-hours row with the weekly schedule, its public
  holidays.  Every date and instant is an integer: an instant is the number of
  microseconds since 0001-01-01T00:00 UTC, a date the number of days since
  0001-01-01 (a Monday, so that a date modulo 7 is Python's \<open>weekday()\<close>), a
  time of day the number of microseconds since midnight.
\<close>

type_synonym tenant_id = nat
type_synonym user_id = nat
type_synonym instant = int
type_synonym date = int
type_synonym tod = int

definition day_us :: int where "day_us = 86400000000"
definition minute_us :: int where "minute_us = 60000000"

record business_hours =
  bh_timezone :: string
  schedule :: json

record tenant_settings =
  ts_timezone :: string
  business_hours_start :: tod
  business_hours_end :: tod
  business_days :: "int list"
  auto_transition_on_assign :: bool
  auto_close_days :: int
  csat_delay_minutes :: int
  inbound_email_address :: "string option"
  auto_send_ticket_created_email :: bool
  auto_assign_inbound_email_tickets :: bool
  inbox_hub_enabled :: bool
  inbox_hub_auto_assign :: bool
  inbox_hub_default_department :: "nat option"

record tenant =
  tenant_id :: tenant_id
  tenant_slug :: string
  tenant_active :: bool
  settings :: "tenant_settings option"
  hours_row :: "business_hours option"
  holidays :: "date list"

end
