(* ===== verification/Sla_Clock.thy ===== *)
theory Sla_Clock
  imports Tenancy
begin

text \<open>
  The business-hours clock of \<open>apps/tickets/sla.py\<close>: resolution of a tenant's
  configuration, elapsed business time, deadlines, and the pause-adjusted
  elapsed time used for breach detection.

  A duration in minutes (a Python float) is the exact integer number of
  microseconds it denotes; the rounding of floats below a microsecond is not
  modelled.  The zone database behind \<open>ZoneInfo\<close> is the parameter \<open>zoneinfo\<close>:
  a zone gives the local date-time of an instant (with the \<open>fold\<close> bit) and the
  instant of a local date-time.  Arithmetic and comparison of two date-times of
  the same zone ignore the offset and the fold, as Python's do, so they act on
  \<open>wall\<close>.
\<close>

section \<open>Local date-times and zones\<close>

record local_dt =
  wall :: int
  fold_bit :: bool

record zone =
  astimezone :: "instant \<Rightarrow> local_dt"
  to_utc :: "local_dt \<Rightarrow> instant"

definition utc_zone :: zone where
  "utc_zone = \<lparr>astimezone = (\<lambda>t. \<lparr>wall = t, fold_bit = False\<rparr>), to_utc = wall\<rparr>"

definition date_of :: "local_dt \<Rightarrow> date" where
  "date_of c = wall c div day_us"

definition weekday :: "local_dt \<Rightarrow> int" where
  "weekday c = date_of c mod 7"

definition time_of :: "local_dt \<Rightarrow> tod" where
  "time_of c = wall c mod day_us"

text \<open>\<open>dt + timedelta\<close> clears the fold; \<open>replace(hour, minute, second=0, microsecond=0)\<close> keeps it.\<close>

definition add_delta :: "local_dt \<Rightarrow> int \<Rightarrow> local_dt" where
  "add_delta c us = \<lparr>wall = wall c + us, fold_bit = False\<rparr>"

definition trunc_minute :: "tod \<Rightarrow> tod" where
  "trunc_minute t = t - t mod minute_us"

definition replace_hm :: "local_dt \<Rightarrow> tod \<Rightarrow> local_dt" where
  "replace_hm c t = c\<lparr>wall := date_of c * day_us + trunc_minute t\<rparr>"

definition next_midnight :: "local_dt \<Rightarrow> local_dt" where
  "next_midnight c = replace_hm (add_delta c day_us) 0"

section \<open>Business-hours configuration\<close>

record bconfig =
  tz :: zone
  days :: "(int \<times> tod \<times> tod) list"
  holiday_dates :: "date list"

definition get_tz :: "(string \<Rightarrow> zone option) \<Rightarrow> string \<Rightarrow> zone" where
  "get_tz zoneinfo name = (case zoneinfo name of Some z \<Rightarrow> z | None \<Rightarrow> utc_zone)"

text \<open>\<open>datetime.time.fromisoformat\<close> on the documented format HH:MM (and HH:MM:SS).\<close>

definition two_digits :: "char \<Rightarrow> char \<Rightarrow> int option" where
  "two_digits a b = (if is_digit a \<and> is_digit b then Some (10 * digit_val a + digit_val b) else None)"

fun time_fromisoformat :: "string \<Rightarrow> tod option" where
  "time_fromisoformat [a, b, c, d, e] =
     (case (two_digits a b, two_digits d e) of
        (Some h, Some m) \<Rightarrow>
          if c = CHR '':'' \<and> h < 24 \<and> m < 60 then Some (h * (60 * minute_us) + m * minute_us) else None
      | _ \<Rightarrow> None)"
| "time_fromisoformat [a, b, c, d, e, f, g, i] =
     (case (time_fromisoformat [a, b, c, d, e], two_digits g i) of
        (Some hm, Some s) \<Rightarrow> if f = CHR '':'' \<and> s < 60 then Some (hm + s * 1000000) else None
      | _ \<Rightarrow> None)"
| "time_fromisoformat _ = None"

definition parse_time :: "json option \<Rightarrow> string \<Rightarrow> tod res" where
  "parse_time v key = (case v of
     None \<Rightarrow> Inl (KeyError key)
   | Some (JStr s) \<Rightarrow> (case time_fromisoformat s of
        Some t \<Rightarrow> Inr t | None \<Rightarrow> Inl (ValueError ''Invalid isoformat string''))
   | Some _ \<Rightarrow> Inl (TypeError ''fromisoformat: argument must be str''))"

definition weekday_key :: "int \<Rightarrow> string" where
  "weekday_key w = [char_of (nat w + 48)]"

definition get_day_config :: "business_hours \<Rightarrow> int \<Rightarrow> (bool \<times> tod option \<times> tod option) res" where
  "get_day_config bh w =
     (let day = (case jget (schedule bh) (weekday_key w) of Some d \<Rightarrow> d | None \<Rightarrow> JObj [])
      in if \<not> is_jobj day \<or> \<not> truthy (jget_or_null day ''is_active'') then Inr (False, None, None)
         else bind_res (parse_time (jget day ''open_time'') ''open_time'') (\<lambda>o_t.
              bind_res (parse_time (jget day ''close_time'') ''close_time'') (\<lambda>c_t.
                Inr (True, Some o_t, Some c_t))))"

fun collect_days :: "business_hours \<Rightarrow> int list \<Rightarrow> (int \<times> tod \<times> tod) list res" where
  "collect_days bh [] = Inr []"
| "collect_days bh (w # ws) =
     bind_res (get_day_config bh w) (\<lambda>(is_active, open_t, close_t).
     bind_res (collect_days bh ws) (\<lambda>rest.
       Inr (case (is_active, open_t, close_t) of
              (True, Some o_t, Some c_t) \<Rightarrow> if o_t < c_t then (w, o_t, c_t) # rest else rest
            | _ \<Rightarrow> rest)))"

definition weekdays :: "int list" where
  "weekdays = [0, 1, 2, 3, 4, 5, 6]"

definition get_business_config :: "(string \<Rightarrow> zone option) \<Rightarrow> tenant \<Rightarrow> bconfig option res" where
  "get_business_config zoneinfo t =
     (case hours_row t of
        Some bh \<Rightarrow>
          bind_res (collect_days bh weekdays) (\<lambda>ds.
            if ds = [] then Inr None
            else Inr (Some \<lparr>tz = get_tz zoneinfo (bh_timezone bh), days = ds,
                            holiday_dates = holidays t\<rparr>))
      | None \<Rightarrow>
          (case settings t of
             None \<Rightarrow> Inr None
           | Some ts \<Rightarrow>
               if business_days ts = [] \<or> business_hours_start ts \<ge> business_hours_end ts then Inr None
               else Inr (Some \<lparr>tz = get_tz zoneinfo (ts_timezone ts),
                               days = map (\<lambda>d. (d, business_hours_start ts, business_hours_end ts))
                                          (business_days ts),
                               holiday_dates = holidays t\<rparr>)))"

section \<open>Counting business time\<close>

definition max_dt :: "local_dt \<Rightarrow> local_dt \<Rightarrow> local_dt" where
  "max_dt a b = (if wall b > wall a then b else a)"

definition min_dt :: "local_dt \<Rightarrow> local_dt \<Rightarrow> local_dt" where
  "min_dt a b = (if wall b < wall a then b else a)"

lemma wall_max_dt [simp]: "wall (max_dt a b) = max (wall a) (wall b)"
  by (auto simp: max_dt_def)

lemma wall_min_dt [simp]: "wall (min_dt a b) = min (wall a) (wall b)"
  by (auto simp: min_dt_def)

lemma day_us_pos [simp]: "0 < day_us"
  by (simp add: day_us_def)

lemma day_us_nonzero [simp]: "day_us \<noteq> 0"
  by (simp add: day_us_def)

lemma trunc_minute_0 [simp]: "trunc_minute 0 = 0"
  by (simp add: trunc_minute_def)

lemma wall_next_midnight: "wall (next_midnight c) = (date_of c + 1) * day_us"
proof -
  have "(wall c + day_us) div day_us = wall c div day_us + 1"
    using day_us_pos by (metis add.commute div_add_self1 less_irrefl)
  then show ?thesis
    by (simp add: next_midnight_def replace_hm_def add_delta_def date_of_def)
qed

lemma date_bounds: "date_of c * day_us \<le> wall c" "wall c < (date_of c + 1) * day_us"
  unfolding date_of_def by (rule block_bounds [OF day_us_pos])+

lemma wall_less_next_midnight: "wall c < wall (next_midnight c)"
  by (simp add: wall_next_midnight date_bounds)

function count_loop :: "bconfig \<Rightarrow> local_dt \<Rightarrow> local_dt \<Rightarrow> int \<Rightarrow> int" where
  "count_loop cfg end_local current total_minutes =
     (if wall current < wall end_local then
        if date_of current \<in> set (holiday_dates cfg) then
          count_loop cfg end_local (next_midnight current) total_minutes
        else (case map_of (days cfg) (weekday current) of
            None \<Rightarrow> count_loop cfg end_local (next_midnight current) total_minutes
          | Some (open_t, close_t) \<Rightarrow>
              let day_start = replace_hm current open_t;
                  day_end = replace_hm current close_t;
                  window_start = max_dt current day_start;
                  window_end = min_dt end_local day_end
              in count_loop cfg end_local (next_midnight current)
                   (if wall window_start < wall window_end
                    then total_minutes + (wall window_end - wall window_start)
                    else total_minutes))
      else total_minutes)"
  by pat_completeness auto
termination
  by (relation "measure (\<lambda>(cfg, e, c, tot). nat (wall e - wall c))")
     (use wall_less_next_midnight in \<open>auto simp: nat_less_eq_zless\<close>)

declare count_loop.simps [simp del]

definition count_business_minutes :: "instant \<Rightarrow> instant \<Rightarrow> bconfig \<Rightarrow> int" where
  "count_business_minutes start_utc end_utc cfg =
     (let start_local = astimezone (tz cfg) start_utc;
          end_local = astimezone (tz cfg) end_utc
      in if wall start_local \<ge> wall end_local then 0
         else count_loop cfg end_local start_local 0)"

section \<open>Deadlines\<close>

fun next_start_loop :: "nat \<Rightarrow> bconfig \<Rightarrow> local_dt \<Rightarrow> local_dt" where
  "next_start_loop 0 cfg candidate = candidate"
| "next_start_loop (Suc n) cfg candidate =
     (if date_of candidate \<notin> set (holiday_dates cfg) then
        (case map_of (days cfg) (weekday candidate) of
           Some (open_t, _) \<Rightarrow> replace_hm candidate open_t
         | None \<Rightarrow> next_start_loop n cfg (add_delta candidate day_us))
      else next_start_loop n cfg (add_delta candidate day_us))"

definition next_business_day_start :: "bconfig \<Rightarrow> local_dt \<Rightarrow> local_dt" where
  "next_business_day_start cfg current = next_start_loop 365 cfg (next_midnight current)"

text \<open>One iteration of the deadline loop, and the loop with its bound of 365 * 24 iterations.\<close>

definition add_step :: "bconfig \<Rightarrow> local_dt \<times> int \<Rightarrow> local_dt \<times> int" where
  "add_step cfg = (\<lambda>(current, remaining).
     if date_of current \<in> set (holiday_dates cfg) then (next_business_day_start cfg current, remaining)
     else (case map_of (days cfg) (weekday current) of
         None \<Rightarrow> (next_business_day_start cfg current, remaining)
       | Some (open_t, close_t) \<Rightarrow>
           let day_start = replace_hm current open_t;
               day_end = replace_hm current close_t;
               current = (if wall current < wall day_start then day_start else current)
           in if wall current \<ge> wall day_end then (next_business_day_start cfg current, remaining)
              else let available = wall day_end - wall current
                   in if remaining \<le> available then (add_delta current remaining, 0)
                      else (next_business_day_start cfg current, remaining - available)))"

fun add_loop :: "nat \<Rightarrow> bconfig \<Rightarrow> local_dt \<times> int \<Rightarrow> local_dt \<times> int" where
  "add_loop 0 cfg s = s"
| "add_loop (Suc n) cfg s = (if snd s \<le> 0 then s else add_loop n cfg (add_step cfg s))"

definition loop_limit :: nat where "loop_limit = 365 * 24"

definition add_business_minutes_cfg :: "instant \<Rightarrow> int \<Rightarrow> bconfig \<Rightarrow> instant" where
  "add_business_minutes_cfg start_utc minutes cfg =
     to_utc (tz cfg) (fst (add_loop loop_limit cfg (astimezone (tz cfg) start_utc, minutes)))"

section \<open>The operations of the module\<close>

definition is_within_business_hours ::
  "(string \<Rightarrow> zone option) \<Rightarrow> instant \<Rightarrow> tenant \<Rightarrow> bool res" where
  "is_within_business_hours zoneinfo dt t =
     bind_res (get_business_config zoneinfo t) (\<lambda>config.
       case config of
         None \<Rightarrow> Inr True
       | Some cfg \<Rightarrow>
           let local_dt = astimezone (tz cfg) dt
           in if date_of local_dt \<in> set (holiday_dates cfg) then Inr False
              else (case map_of (days cfg) (weekday local_dt) of
                  None \<Rightarrow> Inr False
                | Some (open_t, close_t) \<Rightarrow>
                    Inr (open_t \<le> time_of local_dt \<and> time_of local_dt < close_t)))"

text \<open>
  The argument \<open>tenant_or_settings\<close>: nothing, a tenant, a settings row (which
  leads to its tenant), or an object with neither attribute.  A tenant with no
  settings row has no attribute \<open>settings\<close>.
\<close>

datatype tenant_arg = NoArg | TenantArg tenant | SettingsArg tenant | OtherArg

fun resolve_tenant :: "tenant_arg \<Rightarrow> tenant option" where
  "resolve_tenant NoArg = None"
| "resolve_tenant (SettingsArg t) = Some t"
| "resolve_tenant (TenantArg t) = (if settings t \<noteq> None then Some t else None)"
| "resolve_tenant OtherArg = None"

definition elapsed_business_minutes ::
  "(string \<Rightarrow> zone option) \<Rightarrow> instant \<Rightarrow> instant \<Rightarrow> tenant_arg \<Rightarrow> int res" where
  "elapsed_business_minutes zoneinfo start_utc end_utc arg =
     (case resolve_tenant arg of
        None \<Rightarrow> Inr (end_utc - start_utc)
      | Some t \<Rightarrow>
          bind_res (get_business_config zoneinfo t) (\<lambda>config.
            case config of
              None \<Rightarrow> Inr (end_utc - start_utc)
            | Some cfg \<Rightarrow> Inr (count_business_minutes start_utc end_utc cfg)))"

definition add_business_minutes ::
  "(string \<Rightarrow> zone option) \<Rightarrow> instant \<Rightarrow> int \<Rightarrow> tenant \<Rightarrow> instant res" where
  "add_business_minutes zoneinfo start_utc minutes t =
     bind_res (get_business_config zoneinfo t) (\<lambda>config.
       case config of
         None \<Rightarrow> Inr (start_utc + minutes)
       | Some cfg \<Rightarrow> Inr (add_business_minutes_cfg start_utc minutes cfg))"

definition sla_deadline_utc ::
  "(string \<Rightarrow> zone option) \<Rightarrow> instant \<Rightarrow> int \<Rightarrow> tenant_arg \<Rightarrow> bool \<Rightarrow> instant res" where
  "sla_deadline_utc zoneinfo start_utc sla_minutes arg business_hours_only =
     (if \<not> business_hours_only then Inr (start_utc + sla_minutes)
      else case resolve_tenant arg of
          None \<Rightarrow> Inr (start_utc + sla_minutes)
        | Some t \<Rightarrow>
            bind_res (get_business_config zoneinfo t) (\<lambda>config.
              case config of
                None \<Rightarrow> Inr (start_utc + sla_minutes)
              | Some cfg \<Rightarrow> Inr (add_business_minutes_cfg start_utc sla_minutes cfg)))"

text \<open>Pauses, policies, and the pause-adjusted elapsed time.\<close>

record sla_pause =
  pause_id :: nat
  pause_ticket :: nat
  paused_at :: instant
  resumed_at :: "instant option"

record sla_policy =
  policy_id :: nat
  policy_tenant :: tenant_id
  policy_name :: string
  policy_priority :: string
  first_response_minutes :: int
  resolution_minutes :: int
  business_hours_only :: bool
  policy_active :: bool

definition get_total_pause_minutes ::
  "sla_pause list \<Rightarrow> nat \<Rightarrow> instant option \<Rightarrow> instant \<Rightarrow> bconfig option \<Rightarrow> int" where
  "get_total_pause_minutes rows ticket start_utc now config =
     (let pauses = filter (\<lambda>p. pause_ticket p = ticket \<and>
                     (case start_utc of None \<Rightarrow> True | Some s \<Rightarrow> paused_at p \<ge> s)) rows;
          duration = (\<lambda>p. let pause_end = (case resumed_at p of Some r \<Rightarrow> r | None \<Rightarrow> now) in
             case config of
               Some cfg \<Rightarrow> count_business_minutes (paused_at p) pause_end cfg
             | None \<Rightarrow> pause_end - paused_at p)
      in sum_list (map duration pauses))"

definition get_effective_elapsed_minutes ::
  "(string \<Rightarrow> zone option) \<Rightarrow> sla_pause list \<Rightarrow> nat \<Rightarrow> instant \<Rightarrow> sla_policy \<Rightarrow> tenant \<Rightarrow> instant \<Rightarrow> int res" where
  "get_effective_elapsed_minutes zoneinfo rows ticket created_at policy t now =
     bind_res (if business_hours_only policy then get_business_config zoneinfo t else Inr None) (\<lambda>config.
       let raw_elapsed = (case config of
             Some cfg \<Rightarrow> count_business_minutes created_at now cfg
           | None \<Rightarrow> now - created_at);
           pause_minutes = get_total_pause_minutes rows ticket (Some created_at) now config
       in Inr (max 0 (raw_elapsed - pause_minutes)))"

end
