(* ===== verification/Sla_Clock_Laws.thy ===== *)
theory Sla_Clock_Laws
  imports Sla_Clock
begin

text \<open>
  Correctness of the business-hours clock: counting agrees with the set of
  business microseconds, deadlines spend exactly their budget and are the
  earliest that do, 8760 iterations are enough, and the pause-adjusted elapsed
  time is the time outside the pauses.
\<close>

section \<open>What counts as business time\<close>

text \<open>
  The abstract specification: a microsecond of local wall time is a business
  microsecond when its date is no holiday and its time lies in the window of
  its weekday.  \<open>biz_us cfg a b\<close> is how many of them lie in \<open>[a, b)\<close>.
\<close>

definition in_biz :: "bconfig \<Rightarrow> int \<Rightarrow> bool" where
  "in_biz cfg t \<longleftrightarrow>
     t div day_us \<notin> set (holiday_dates cfg) \<and>
     (case map_of (days cfg) (t div day_us mod 7) of
        None \<Rightarrow> False
      | Some (open_t, close_t) \<Rightarrow> trunc_minute open_t \<le> t mod day_us \<and> t mod day_us < trunc_minute close_t)"

definition biz_set :: "bconfig \<Rightarrow> int \<Rightarrow> int \<Rightarrow> int set" where
  "biz_set cfg a b = {t. a \<le> t \<and> t < b \<and> in_biz cfg t}"

definition biz_us :: "bconfig \<Rightarrow> int \<Rightarrow> int \<Rightarrow> int" where
  "biz_us cfg a b = int (card (biz_set cfg a b))"

text \<open>Times of day are those of \<open>datetime.time\<close>: within a day.\<close>

definition valid_tod :: "tod \<Rightarrow> bool" where
  "valid_tod t \<longleftrightarrow> 0 \<le> t \<and> t < day_us"

definition wf_config :: "bconfig \<Rightarrow> bool" where
  "wf_config cfg \<longleftrightarrow> (\<forall>(w, open_t, close_t) \<in> set (days cfg). valid_tod open_t \<and> valid_tod close_t)"

lemma minute_us_pos [simp]: "0 < minute_us"
  by (simp add: minute_us_def)

lemma trunc_minute_valid:
  assumes "valid_tod t"
  shows "0 \<le> trunc_minute t" and "trunc_minute t \<le> t" and "trunc_minute t < day_us"
proof -
  have "t - t mod minute_us = t div minute_us * minute_us"
    by (rule minus_mod_eq_div_mult)
  moreover have "0 \<le> t div minute_us" using assms by (simp add: valid_tod_def pos_imp_zdiv_nonneg_iff)
  ultimately show nonneg: "0 \<le> trunc_minute t"
    using mult_nonneg_nonneg [of "t div minute_us" minute_us] less_imp_le [OF minute_us_pos]
    by (simp add: trunc_minute_def)
  show le: "trunc_minute t \<le> t" by (simp add: trunc_minute_def)
  from le assms show "trunc_minute t < day_us" by (simp add: valid_tod_def)
qed

lemma wf_config_window:
  assumes "wf_config cfg" and "map_of (days cfg) w = Some (open_t, close_t)"
  shows "valid_tod open_t" and "valid_tod close_t"
  using assms by (auto simp: wf_config_def dest!: map_of_SomeD)

lemma biz_set_finite [simp]: "finite (biz_set cfg a b)"
  by (rule finite_subset [of _ "{a..<b}"]) (auto simp: biz_set_def)

lemma biz_us_nonneg [simp]: "0 \<le> biz_us cfg a b"
  by (simp add: biz_us_def)

lemma biz_us_empty: "b \<le> a \<Longrightarrow> biz_us cfg a b = 0"
proof -
  assume "b \<le> a"
  then have "biz_set cfg a b = {}" by (auto simp: biz_set_def)
  then show ?thesis by (simp add: biz_us_def)
qed

lemma biz_us_split:
  assumes "a \<le> m" and "m \<le> b"
  shows "biz_us cfg a b = biz_us cfg a m + biz_us cfg m b"
proof -
  have "biz_set cfg a b = biz_set cfg a m \<union> biz_set cfg m b"
    using assms by (auto simp: biz_set_def)
  moreover have "biz_set cfg a m \<inter> biz_set cfg m b = {}"
    by (auto simp: biz_set_def)
  ultimately show ?thesis by (simp add: biz_us_def card_Un_disjoint)
qed

lemma biz_us_le: "a \<le> b \<Longrightarrow> biz_us cfg a b \<le> b - a"
proof -
  assume "a \<le> b"
  have "card (biz_set cfg a b) \<le> card {a..<b}"
    by (rule card_mono) (auto simp: biz_set_def)
  with \<open>a \<le> b\<close> show ?thesis by (simp add: biz_us_def)
qed

text \<open>One day: inside the day of \<open>c\<close> the business time is one interval, or none.\<close>

lemma biz_us_holiday:
  assumes "date_of c \<in> set (holiday_dates cfg)" and "b \<le> (date_of c + 1) * day_us"
  shows "biz_us cfg (wall c) b = 0"
proof -
  have "\<not> in_biz cfg t" if "wall c \<le> t" "t < b" for t
  proof -
    have "t div day_us = date_of c"
      using that assms(2) date_bounds [of c] by (intro block_unique(1)) linarith+
    then show ?thesis using assms(1) by (simp add: in_biz_def)
  qed
  then have "biz_set cfg (wall c) b = {}" by (auto simp: biz_set_def)
  then show ?thesis by (simp add: biz_us_def)
qed

lemma biz_us_closed_day:
  assumes "map_of (days cfg) (weekday c) = None" and "b \<le> (date_of c + 1) * day_us"
  shows "biz_us cfg (wall c) b = 0"
proof -
  have "\<not> in_biz cfg t" if "wall c \<le> t" "t < b" for t
  proof -
    have "t div day_us = date_of c"
      using that assms(2) date_bounds [of c] by (intro block_unique(1)) linarith+
    then show ?thesis using assms(1) by (simp add: in_biz_def weekday_def)
  qed
  then have "biz_set cfg (wall c) b = {}" by (auto simp: biz_set_def)
  then show ?thesis by (simp add: biz_us_def)
qed

lemma wall_replace_hm: "wall (replace_hm c t) = date_of c * day_us + trunc_minute t"
  by (simp add: replace_hm_def)

lemma biz_us_open_day:
  assumes "date_of c \<notin> set (holiday_dates cfg)"
    and win: "map_of (days cfg) (weekday c) = Some (open_t, close_t)"
    and wf: "wf_config cfg"
    and "b \<le> (date_of c + 1) * day_us"
  shows "biz_us cfg (wall c) b =
           max 0 (min b (wall (replace_hm c close_t)) - max (wall c) (wall (replace_hm c open_t)))"
proof -
  let ?lo = "max (wall c) (wall (replace_hm c open_t))"
  let ?hi = "min b (wall (replace_hm c close_t))"
  have inb: "in_biz cfg t \<longleftrightarrow> wall (replace_hm c open_t) \<le> t \<and> t < wall (replace_hm c close_t)"
    if "wall c \<le> t" "t < b" for t
  proof -
    have lo: "date_of c * day_us \<le> t" and hi: "t < (date_of c + 1) * day_us"
      using that assms(4) date_bounds [of c] by linarith+
    from block_unique [OF lo hi] show ?thesis
      using assms(1) win by (auto simp: in_biz_def weekday_def wall_replace_hm)
  qed
  have "biz_set cfg (wall c) b = {?lo..<?hi}"
    using inb by (auto simp: biz_set_def)
  then have "biz_us cfg (wall c) b = int (nat (?hi - ?lo))" by (simp only: biz_us_def card_atLeastLessThan_int)
  then show ?thesis by (simp only: int_nat_max)
qed

lemma count_loop_done: "wall e \<le> wall c \<Longrightarrow> count_loop cfg e c acc = acc"
  by (subst count_loop.simps) simp

lemma count_loop_skip:
  assumes "wall c < wall e"
    and "date_of c \<in> set (holiday_dates cfg) \<or> map_of (days cfg) (weekday c) = None"
  shows "count_loop cfg e c acc = count_loop cfg e (next_midnight c) acc"
  by (subst count_loop.simps) (use assms in auto)

lemma count_loop_open:
  assumes "wall c < wall e" and "date_of c \<notin> set (holiday_dates cfg)"
    and "map_of (days cfg) (weekday c) = Some (open_t, close_t)"
  shows "count_loop cfg e c acc = count_loop cfg e (next_midnight c)
           (acc + max 0 (min (wall e) (wall (replace_hm c close_t)) - max (wall c) (wall (replace_hm c open_t))))"
proof -
  let ?lo = "max (wall c) (wall (replace_hm c open_t))"
  let ?hi = "min (wall e) (wall (replace_hm c close_t))"
  have "count_loop cfg e c acc =
      count_loop cfg e (next_midnight c) (if ?lo < ?hi then acc + (?hi - ?lo) else acc)"
    by (subst count_loop.simps) (simp only: assms if_True if_False option.case prod.case Let_def
      wall_max_dt wall_min_dt not_False_eq_True)
  also have "(if ?lo < ?hi then acc + (?hi - ?lo) else acc) = acc + max 0 (?hi - ?lo)"
    by (rule add_if_less)
  finally show ?thesis .
qed

lemma biz_us_tail:
  assumes "wall c < wall e"
  shows "biz_us cfg (wall c) (wall e) =
           biz_us cfg (wall c) (min (wall e) (wall (next_midnight c))) +
           biz_us cfg (wall (next_midnight c)) (wall e)"
proof (cases "wall (next_midnight c) \<le> wall e")
  case True
  then show ?thesis
    using biz_us_split [OF less_imp_le [OF wall_less_next_midnight [of c]] True]
    by (simp add: min_absorb2)
next
  case False
  then show ?thesis by (simp add: biz_us_empty min_absorb1)
qed

lemma close_le_next_midnight:
  assumes "wf_config cfg" and "map_of (days cfg) (weekday c) = Some (open_t, close_t)"
  shows "wall (replace_hm c close_t) \<le> wall (next_midnight c)"
  using trunc_minute_valid(3) [OF wf_config_window(2) [OF assms]]
  by (simp add: wall_replace_hm wall_next_midnight distrib_right)

lemma biz_us_open_part:
  assumes "date_of c \<notin> set (holiday_dates cfg)"
    and win: "map_of (days cfg) (weekday c) = Some (open_t, close_t)"
    and wf: "wf_config cfg"
  shows "biz_us cfg (wall c) (min b (wall (next_midnight c))) =
           max 0 (min b (wall (replace_hm c close_t)) - max (wall c) (wall (replace_hm c open_t)))"
proof -
  note close = close_le_next_midnight [OF wf win]
  have "min b (wall (next_midnight c)) \<le> (date_of c + 1) * day_us"
    by (simp add: wall_next_midnight)
  from biz_us_open_day [OF assms this] close show ?thesis
    by (simp add: min.assoc min.absorb2)
qed

theorem count_loop_biz:
  "wf_config cfg \<Longrightarrow> count_loop cfg e c acc = acc + biz_us cfg (wall c) (wall e)"
proof (induction cfg e c acc rule: count_loop.induct)
  case (1 cfg e c acc)
  show ?case
  proof (cases "wall c < wall e")
    case False
    then show ?thesis by (simp add: count_loop_done biz_us_empty)
  next
    case before: True
    have m: "min (wall e) (wall (next_midnight c)) \<le> (date_of c + 1) * day_us"
      by (simp add: wall_next_midnight)
    show ?thesis
    proof (cases "date_of c \<in> set (holiday_dates cfg)")
      case True
      then show ?thesis
        using "1.IH"(1) [OF before True "1.prems"] before biz_us_holiday [OF True m]
        by (simp add: count_loop_skip biz_us_tail [of c e])
    next
      case workday: False
      show ?thesis
      proof (cases "map_of (days cfg) (weekday c)")
        case None
        then show ?thesis
          using "1.IH"(2) [OF before workday None "1.prems"] before biz_us_closed_day [OF None m]
          by (simp add: count_loop_skip biz_us_tail [of c e])
      next
        case (Some win)
        obtain open_t close_t where win: "win = (open_t, close_t)" by (cases win)
        note open_day = workday Some [unfolded win]
        show ?thesis
          using "1.IH"(3) [OF before workday Some win [symmetric] refl refl refl refl "1.prems"] before
            biz_us_open_part [OF open_day "1.prems", of "wall e"]
          by (simp only: count_loop_open [OF before open_day] biz_us_tail [OF before]
            wall_max_dt wall_min_dt add_if_less add.assoc)
      qed
    qed
  qed
qed

definition is_midnight :: "local_dt \<Rightarrow> bool" where
  "is_midnight c \<longleftrightarrow> wall c = date_of c * day_us"

text \<open>A date on which the tenant works, and a local time at which such a day opens.\<close>

definition open_date :: "bconfig \<Rightarrow> date \<Rightarrow> bool" where
  "open_date cfg d \<longleftrightarrow> d \<notin> set (holiday_dates cfg) \<and> map_of (days cfg) (d mod 7) \<noteq> None"

definition at_open :: "bconfig \<Rightarrow> local_dt \<Rightarrow> bool" where
  "at_open cfg c \<longleftrightarrow> date_of c \<notin> set (holiday_dates cfg) \<and>
     (\<exists>open_t close_t. map_of (days cfg) (weekday c) = Some (open_t, close_t) \<and>
        wall c = date_of c * day_us + trunc_minute open_t)"

lemma is_midnight_next [simp]: "is_midnight (next_midnight c)"
  by (simp add: is_midnight_def date_of_def wall_next_midnight)

lemma date_next_midnight [simp]: "date_of (next_midnight c) = date_of c + 1"
  by (simp add: date_of_def [of "next_midnight c"] wall_next_midnight)

lemma date_add_day [simp]: "date_of (add_delta c day_us) = date_of c + 1"
  by (simp add: date_of_def add_delta_def div_add_self2)

lemma wall_add_delta [simp]: "wall (add_delta c us) = wall c + us"
  by (simp add: add_delta_def)

lemma is_midnight_add_day: "is_midnight c \<Longrightarrow> is_midnight (add_delta c day_us)"
  by (simp add: is_midnight_def distrib_right)

lemma date_replace_hm:
  assumes "valid_tod t"
  shows "date_of (replace_hm c t) = date_of c"
proof -
  have "0 \<le> trunc_minute t" "trunc_minute t < day_us" using trunc_minute_valid [OF assms] by simp_all
  then have "wall (replace_hm c t) div day_us = date_of c"
    by (intro block_unique(1)) (simp_all add: wall_replace_hm distrib_right)
  then show ?thesis by (simp add: date_of_def)
qed

lemma biz_us_dead_day:
  assumes "date_of c \<in> set (holiday_dates cfg) \<or> map_of (days cfg) (weekday c) = None"
    and "b \<le> (date_of c + 1) * day_us"
  shows "biz_us cfg (wall c) b = 0"
  using assms biz_us_holiday biz_us_closed_day by blast

lemma next_start_loop_idle:
  assumes wf: "wf_config cfg" and "is_midnight cand"
  shows "wall cand \<le> wall (next_start_loop n cfg cand) \<and>
         biz_us cfg (wall cand) (wall (next_start_loop n cfg cand)) = 0"
  using assms(2)
proof (induction n arbitrary: cand)
  case 0
  then show ?case by (simp add: biz_us_empty)
next
  case (Suc n)
  let ?next = "add_delta cand day_us"
  show ?case
  proof (cases "date_of cand \<in> set (holiday_dates cfg) \<or> map_of (days cfg) (weekday cand) = None")
    case True
    from Suc.prems have "wall ?next = (date_of cand + 1) * day_us"
      by (simp add: is_midnight_def distrib_right)
    with biz_us_dead_day [OF True, of "wall ?next"] have dead: "biz_us cfg (wall cand) (wall ?next) = 0"
      by simp
    note IH = Suc.IH [OF is_midnight_add_day [OF Suc.prems]]
    have le: "wall cand \<le> wall ?next" by (simp add: day_us_def)
    have "next_start_loop (Suc n) cfg cand = next_start_loop n cfg ?next"
      using True by auto
    with IH dead le biz_us_split [OF le conjunct1 [OF IH], of cfg] show ?thesis by simp
  next
    case False
    then obtain open_t close_t where win: "map_of (days cfg) (weekday cand) = Some (open_t, close_t)"
      and day: "date_of cand \<notin> set (holiday_dates cfg)" by auto
    have "valid_tod open_t" using wf_config_window [OF wf win] by simp
    from trunc_minute_valid [OF this] have bounds: "wall cand \<le> wall (replace_hm cand open_t)"
      "wall (replace_hm cand open_t) \<le> (date_of cand + 1) * day_us"
      using Suc.prems by (simp_all add: wall_replace_hm is_midnight_def distrib_right)
    with biz_us_open_day [OF day win wf bounds(2)] day win show ?thesis
      by simp
  qed
qed

lemma next_business_day_start_idle:
  assumes "wf_config cfg"
  shows "wall (next_midnight c) \<le> wall (next_business_day_start cfg c)"
    and "biz_us cfg (wall (next_midnight c)) (wall (next_business_day_start cfg c)) = 0"
  using next_start_loop_idle [OF assms is_midnight_next, of c 365]
  by (simp_all add: next_business_day_start_def)

text \<open>
  One iteration: time goes forward, the budget never grows, and the business
  time passed is exactly what the budget lost.
\<close>

lemma skip_day_idle:
  assumes wf: "wf_config cfg" and b: "wall c \<le> b" "b \<le> wall (next_midnight c)"
    and rest: "biz_us cfg b (wall (next_midnight c)) = 0"
  shows "wall c \<le> wall (next_business_day_start cfg c)"
    and "biz_us cfg (wall c) (wall (next_business_day_start cfg c)) = biz_us cfg (wall c) b"
proof -
  note nb = next_business_day_start_idle [OF wf, of c]
  from b nb(1) show "wall c \<le> wall (next_business_day_start cfg c)" by linarith
  from b nb(1) have "biz_us cfg (wall c) (wall (next_business_day_start cfg c)) =
      biz_us cfg (wall c) b + biz_us cfg b (wall (next_business_day_start cfg c))"
    by (intro biz_us_split) linarith+
  also have "biz_us cfg b (wall (next_business_day_start cfg c)) = 0"
    using biz_us_split [OF b(2) nb(1), of cfg] nb(2) rest by simp
  finally show "biz_us cfg (wall c) (wall (next_business_day_start cfg c)) = biz_us cfg (wall c) b"
    by simp
qed

lemma add_step_dead:
  assumes "date_of c \<in> set (holiday_dates cfg) \<or> map_of (days cfg) (weekday c) = None"
  shows "add_step cfg (c, r) = (next_business_day_start cfg c, r)"
  using assms by (auto simp: add_step_def)

text \<open>The case analysis of the body on an open day, with the business time each branch spends.\<close>

lemma add_step_open:
  assumes day: "date_of c \<notin> set (holiday_dates cfg)"
    and win: "map_of (days cfg) (weekday c) = Some (open_t, close_t)"
    and wf: "wf_config cfg"
  defines "lo \<equiv> max (wall c) (wall (replace_hm c open_t))" and "hi \<equiv> wall (replace_hm c close_t)"
  obtains (closed) "hi \<le> lo" "add_step cfg (c, r) = (next_business_day_start cfg c, r)"
  | (ends) "lo < hi" "r \<le> hi - lo" "wall (fst (add_step cfg (c, r))) = lo + r"
      "snd (add_step cfg (c, r)) = 0"
  | (spent) "lo < hi" "hi - lo < r" "add_step cfg (c, r) = (next_business_day_start cfg c, r - (hi - lo))"
proof -
  let ?c = "if wall c < wall (replace_hm c open_t) then replace_hm c open_t else c"
  have wall_c: "wall ?c = lo" by (simp add: lo_def)
  have "valid_tod open_t" using wf_config_window [OF wf win] by simp
  then have same_date: "date_of ?c = date_of c" by (simp add: date_replace_hm)
  have nb: "next_business_day_start cfg ?c = next_business_day_start cfg c"
    using same_date by (simp add: next_business_day_start_def next_midnight_def replace_hm_def add_delta_def date_of_def)
  have step: "add_step cfg (c, r) =
      (if wall ?c \<ge> hi then (next_business_day_start cfg ?c, r)
       else if r \<le> hi - wall ?c then (add_delta ?c r, 0)
       else (next_business_day_start cfg ?c, r - (hi - wall ?c)))"
    using day win by (simp add: add_step_def Let_def hi_def)
  show thesis
  proof (cases "hi \<le> lo")
    case True
    then show thesis using step nb wall_c closed by simp
  next
    case False
    show thesis
    proof (cases "r \<le> hi - lo")
      case True
      then show thesis using False step wall_c ends by simp
    next
      case False
      then show thesis using \<open>\<not> hi \<le> lo\<close> step nb wall_c spent by simp
    qed
  qed
qed

definition spends :: "bconfig \<Rightarrow> local_dt \<times> int \<Rightarrow> local_dt \<times> int \<Rightarrow> bool" where
  "spends cfg s s' \<longleftrightarrow>
     wall (fst s) \<le> wall (fst s') \<and> 0 \<le> snd s' \<and>
     biz_us cfg (wall (fst s)) (wall (fst s')) = snd s - snd s' \<and>
     (snd s' = 0 \<and> 0 < snd s \<longrightarrow> in_biz cfg (wall (fst s') - 1))"

lemma spends_refl: "0 \<le> snd s \<Longrightarrow> spends cfg s s"
  by (auto simp: spends_def biz_us_empty)

lemma spends_trans:
  assumes "spends cfg s t" and "spends cfg t u" and "0 < snd t"
  shows "spends cfg s u"
  using assms biz_us_split [of "wall (fst s)" "wall (fst t)" "wall (fst u)" cfg]
  by (auto simp: spends_def)

lemma add_step_spends_ends:
  assumes day: "date_of c \<notin> set (holiday_dates cfg)"
    and win: "map_of (days cfg) (weekday c) = Some (open_t, close_t)"
    and wf: "wf_config cfg" and r: "0 < r" "r \<le> hi - lo"
    and lo: "lo = max (wall c) (wall (replace_hm c open_t))" and hi: "hi = wall (replace_hm c close_t)"
    and end_eq: "wall c' = lo + r"
  shows "spends cfg (c, r) (c', 0)"
proof -
  have hi_le: "hi \<le> (date_of c + 1) * day_us"
    using close_le_next_midnight [OF wf win] by (simp add: hi wall_next_midnight)
  have end_le: "wall c' \<le> (date_of c + 1) * day_us" using r(2) end_eq hi_le by linarith
  have "min (wall c') (wall (replace_hm c close_t)) - max (wall c) (wall (replace_hm c open_t)) = r"
    using r(2) by (simp add: end_eq lo [symmetric] hi [symmetric] min_absorb1)
  with biz_us_open_day [OF day win wf end_le] r(1)
  have biz: "biz_us cfg (wall c) (wall c') = r" by simp
  have last_lo: "date_of c * day_us \<le> wall c' - 1" and last_hi: "wall c' - 1 < (date_of c + 1) * day_us"
    using date_bounds [of c] end_eq lo r(1) end_le by linarith+
  have "in_biz cfg (wall c' - 1)"
    using block_unique [OF last_lo last_hi] day win end_eq r lo hi
    by (simp add: in_biz_def weekday_def wall_replace_hm)
  with biz end_eq r(1) lo show ?thesis by (simp add: spends_def)
qed

lemma add_step_spends:
  assumes wf: "wf_config cfg" and r: "0 < r"
  shows "spends cfg (c, r) (add_step cfg (c, r))"
proof (cases "date_of c \<in> set (holiday_dates cfg) \<or> map_of (days cfg) (weekday c) = None")
  case True
  have "biz_us cfg (wall c) (wall (next_midnight c)) = 0"
    by (rule biz_us_dead_day [OF True]) (simp add: wall_next_midnight)
  from skip_day_idle [OF wf order_refl less_imp_le [OF wall_less_next_midnight] this] r
  show ?thesis by (simp add: spends_def add_step_dead [OF True] biz_us_empty)
next
  case False
  then obtain open_t close_t where day: "date_of c \<notin> set (holiday_dates cfg)"
    and win: "map_of (days cfg) (weekday c) = Some (open_t, close_t)" by auto
  let ?lo = "max (wall c) (wall (replace_hm c open_t))" and ?hi = "wall (replace_hm c close_t)"
  have whole: "biz_us cfg (wall c) (wall (next_midnight c)) = max 0 (?hi - ?lo)"
    using biz_us_open_part [OF day win wf, of "wall (next_midnight c)"]
      close_le_next_midnight [OF wf win] by (simp only: min.idem min_absorb2)
  from day win wf show ?thesis
  proof (cases rule: add_step_open [where r = r])
    case closed
    then have "biz_us cfg (wall c) (wall (next_midnight c)) = 0" using whole by simp
    from skip_day_idle [OF wf order_refl less_imp_le [OF wall_less_next_midnight] this] r closed(2)
    show ?thesis by (simp add: spends_def biz_us_empty)
  next
    case ends
    from add_step_spends_ends [OF day win wf r ends(2) refl refl ends(3)] ends(4)
    show ?thesis by (cases "add_step cfg (c, r)") simp
  next
    case spent
    have "biz_us cfg (wall c) (wall (next_midnight c)) = ?hi - ?lo" using whole spent(1) by simp
    with skip_day_idle [OF wf less_imp_le [OF wall_less_next_midnight] order_refl] spent
    show ?thesis by (simp add: spends_def biz_us_empty)
  qed
qed

lemma add_loop_spends:
  assumes wf: "wf_config cfg" and "0 \<le> snd s"
  shows "spends cfg s (add_loop n cfg s)"
  using assms(2)
proof (induction n arbitrary: s)
  case 0
  then show ?case by (simp add: spends_refl)
next
  case (Suc n)
  show ?case
  proof (cases "snd s = 0")
    case True
    then show ?thesis by (simp add: spends_refl)
  next
    case False
    with Suc.prems have "0 < snd s" by simp
    then have step: "spends cfg s (add_step cfg s)"
      using add_step_spends [OF wf, of "snd s" "fst s"] by simp
    then have nonneg: "0 \<le> snd (add_step cfg s)" by (simp add: spends_def)
    note rest = Suc.IH [OF this]
    show ?thesis
    proof (cases "snd (add_step cfg s) = 0")
      case True
      then have "add_loop n cfg (add_step cfg s) = add_step cfg s" by (cases n) auto
      with step \<open>0 < snd s\<close> show ?thesis by simp
    next
      case False
      with nonneg have "0 < snd (add_step cfg s)" by simp
      from spends_trans [OF step rest this] \<open>0 < snd s\<close> show ?thesis by simp
    qed
  qed
qed

text \<open>
  Enough iterations: every window is at least \<open>w\<close> long and from every date
  an open date lies within the 365 dates the search looks at.
\<close>

definition windows_at_least :: "bconfig \<Rightarrow> int \<Rightarrow> bool" where
  "windows_at_least cfg w \<longleftrightarrow>
     (\<forall>(d, open_t, close_t) \<in> set (days cfg). w \<le> trunc_minute close_t - trunc_minute open_t)"

definition supplied :: "bconfig \<Rightarrow> bool" where
  "supplied cfg \<longleftrightarrow> (\<forall>d. \<exists>k < 365. open_date cfg (d + int k))"

lemma next_start_loop_open:
  assumes wf: "wf_config cfg" and mid: "is_midnight cand"
    and "\<exists>k < n. open_date cfg (date_of cand + int k)"
  shows "at_open cfg (next_start_loop n cfg cand)"
  using assms(2,3)
proof (induction n arbitrary: cand)
  case 0
  then show ?case by simp
next
  case (Suc n)
  show ?case
  proof (cases "open_date cfg (date_of cand)")
    case True
    then obtain open_t close_t where day: "date_of cand \<notin> set (holiday_dates cfg)"
      and win: "map_of (days cfg) (weekday cand) = Some (open_t, close_t)"
      by (auto simp: open_date_def weekday_def)
    have "date_of (replace_hm cand open_t) = date_of cand"
      using wf_config_window(1) [OF wf win] by (rule date_replace_hm)
    with day win show ?thesis by (auto simp: at_open_def weekday_def wall_replace_hm)
  next
    case False
    then have step: "next_start_loop (Suc n) cfg cand = next_start_loop n cfg (add_delta cand day_us)"
      by (auto simp: open_date_def weekday_def split: option.splits)
    from Suc.prems(2) obtain k where k: "k < Suc n" "open_date cfg (date_of cand + int k)" by blast
    with False obtain j where j: "k = Suc j" by (cases k) auto
    with k have "open_date cfg (date_of (add_delta cand day_us) + int j)" "j < n"
      by (simp_all add: algebra_simps)
    with Suc.IH [OF is_midnight_add_day [OF Suc.prems(1)]] have
      "at_open cfg (next_start_loop n cfg (add_delta cand day_us))" by blast
    with step show ?thesis by simp
  qed
qed

lemma next_business_day_start_at_open:
  assumes "wf_config cfg" and "supplied cfg"
  shows "at_open cfg (next_business_day_start cfg c)"
  unfolding next_business_day_start_def
  by (rule next_start_loop_open [OF assms(1) is_midnight_next])
     (use assms(2) in \<open>simp add: supplied_def\<close>)

lemma add_step_progress:
  assumes wf: "wf_config cfg" and dates: "supplied cfg" and w: "windows_at_least cfg w" "0 < w"
    and "at_open cfg c"
  shows "snd (add_step cfg (c, r)) = 0 \<or>
         at_open cfg (fst (add_step cfg (c, r))) \<and> snd (add_step cfg (c, r)) \<le> r - w"
proof -
  from assms(5) obtain open_t close_t where day: "date_of c \<notin> set (holiday_dates cfg)"
    and win: "map_of (days cfg) (weekday c) = Some (open_t, close_t)"
    and at: "wall c = date_of c * day_us + trunc_minute open_t"
    by (auto simp: at_open_def)
  have len: "w \<le> wall (replace_hm c close_t) - max (wall c) (wall (replace_hm c open_t))"
    using map_of_SomeD [OF win] w(1) at by (force simp: windows_at_least_def wall_replace_hm)
  from day win wf show ?thesis
  proof (cases rule: add_step_open [where r = r])
    case closed
    with len w(2) show ?thesis by simp
  next
    case ends
    then show ?thesis by simp
  next
    case spent
    with len next_business_day_start_at_open [OF wf dates, of c] show ?thesis by simp
  qed
qed

lemma add_loop_finishes_open:
  assumes wf: "wf_config cfg" and dates: "supplied cfg" and w: "windows_at_least cfg w" "0 < w"
    and "at_open cfg (fst s)" and "snd s \<le> int n * w"
  shows "snd (add_loop n cfg s) \<le> 0"
  using assms(5,6)
proof (induction n arbitrary: s)
  case 0
  then show ?case by simp
next
  case (Suc n)
  show ?case
  proof (cases "snd s \<le> 0")
    case True
    then show ?thesis by simp
  next
    case False
    from add_step_progress [OF wf dates w Suc.prems(1), of "snd s"]
    show ?thesis
    proof
      assume "snd (add_step cfg (fst s, snd s)) = 0"
      then have "add_loop n cfg (add_step cfg s) = add_step cfg s" by (cases n) auto
      with \<open>snd (add_step cfg (fst s, snd s)) = 0\<close> show ?thesis by simp
    next
      assume "at_open cfg (fst (add_step cfg (fst s, snd s))) \<and> snd (add_step cfg (fst s, snd s)) \<le> snd s - w"
      moreover from this Suc.prems(2) have "snd (add_step cfg s) \<le> int n * w"
        by (simp add: distrib_right)
      ultimately show ?thesis using Suc.IH [of "add_step cfg s"] False by simp
    qed
  qed
qed

lemma add_step_first:
  assumes wf: "wf_config cfg" and dates: "supplied cfg" and "0 < r"
  shows "snd (add_step cfg (c, r)) = 0 \<or> at_open cfg (fst (add_step cfg (c, r)))"
proof (cases "date_of c \<in> set (holiday_dates cfg) \<or> map_of (days cfg) (weekday c) = None")
  case True
  then show ?thesis by (simp add: add_step_dead next_business_day_start_at_open [OF wf dates])
next
  case False
  then obtain open_t close_t where day: "date_of c \<notin> set (holiday_dates cfg)"
    and win: "map_of (days cfg) (weekday c) = Some (open_t, close_t)" by auto
  from day win wf show ?thesis
    by (cases rule: add_step_open [where r = r])
       (simp_all add: next_business_day_start_at_open [OF wf dates])
qed

lemma add_loop_finishes:
  assumes wf: "wf_config cfg" and dates: "supplied cfg" and w: "windows_at_least cfg w" "0 < w"
    and "snd s \<le> int n * w"
  shows "snd (add_loop (Suc n) cfg s) \<le> 0"
proof (cases "snd s \<le> 0")
  case True
  then show ?thesis by simp
next
  case False
  have spent: "snd (add_step cfg s) \<le> snd s"
    using add_step_spends [OF wf, of "snd s" "fst s"] False biz_us_nonneg
    by (simp add: spends_def) (smt (verit) biz_us_nonneg)
  from add_step_first [OF wf dates, of "snd s" "fst s"] False
  have "snd (add_step cfg s) = 0 \<or> at_open cfg (fst (add_step cfg s))" by simp
  then have "snd (add_loop n cfg (add_step cfg s)) \<le> 0"
  proof
    assume "snd (add_step cfg s) = 0"
    then show ?thesis by (cases n) auto
  next
    assume "at_open cfg (fst (add_step cfg s))"
    then show ?thesis by (rule add_loop_finishes_open [OF wf dates w]) (use spent assms(5) in linarith)
  qed
  with False show ?thesis by simp
qed

text \<open>
  A supply of open dates from the calendar alone: one working weekday, and
  fewer than 52 holidays, since 365 dates hold every weekday 52 times.
\<close>

lemma supplied_if_few_holidays:
  assumes wd: "0 \<le> w" "w < 7" and win: "map_of (days cfg) w \<noteq> None"
    and few: "card (set (holiday_dates cfg)) < 52"
  shows "supplied cfg"
  unfolding supplied_def
proof
  fix d :: int
  let ?r = "nat ((w - d) mod 7)"
  let ?dates = "(\<lambda>j. d + int (?r + 7 * j)) ` {..<52}"
  have "inj_on (\<lambda>j. d + int (?r + 7 * j)) {..<52}" by (auto simp: inj_on_def)
  then have "card ?dates = 52" by (simp add: card_image)
  with few have "\<not> ?dates \<subseteq> set (holiday_dates cfg)"
    by (metis card_mono finite_set not_le)
  then obtain j where j: "j < 52" "d + int (?r + 7 * j) \<notin> set (holiday_dates cfg)" by auto
  have r7: "?r < 7" by simp
  have "d + int (?r + 7 * j) = d + (w - d) mod 7 + int j * 7" by simp
  then have "(d + int (?r + 7 * j)) mod 7 = (d + (w - d) mod 7) mod 7" by (simp only: mod_mult_self1)
  also have "\<dots> = (d + (w - d)) mod 7" by (rule mod_add_right_eq)
  also have "\<dots> = w" using wd by simp
  finally have "open_date cfg (d + int (?r + 7 * j))" using j win by (simp add: open_date_def)
  moreover have "?r + 7 * j < 365" using j r7 by linarith
  ultimately show "\<exists>k < 365. open_date cfg (d + int k)" by blast
qed

section \<open>An elapsed-time meter\<close>

text \<open>
  What the callers rely on: elapsed time is never negative and adds up along a
  time line.  Both clocks of the module provide it: the wall clock, and the
  business clock under a well-formed configuration of a zone whose local time
  never runs backwards.
\<close>

text \<open>Time outside a chain of pauses, given the meter.\<close>

fun pause_chain :: "int \<Rightarrow> (int \<times> int) list \<Rightarrow> int \<Rightarrow> bool" where
  "pause_chain a [] b = (a \<le> b)"
| "pause_chain a ((p, r) # ps) b = (a \<le> p \<and> p \<le> r \<and> pause_chain r ps b)"

fun active_time :: "(int \<Rightarrow> int \<Rightarrow> int) \<Rightarrow> int \<Rightarrow> (int \<times> int) list \<Rightarrow> int \<Rightarrow> int" where
  "active_time meter a [] b = meter a b"
| "active_time meter a ((p, r) # ps) b = meter a p + active_time meter r ps b"

lemma pause_chain_le: "pause_chain a ps b \<Longrightarrow> a \<le> b"
  by (induction a ps b rule: pause_chain.induct) auto

locale elapsed_meter =
  fixes ok :: "'c \<Rightarrow> bool" and elapsed :: "'c \<Rightarrow> int \<Rightarrow> int \<Rightarrow> int"
  assumes elapsed_nonneg: "ok c \<Longrightarrow> a \<le> b \<Longrightarrow> 0 \<le> elapsed c a b"
    and elapsed_split: "ok c \<Longrightarrow> a \<le> m \<Longrightarrow> m \<le> b \<Longrightarrow> elapsed c a b = elapsed c a m + elapsed c m b"
begin

lemma elapsed_mono_end: "ok c \<Longrightarrow> a \<le> m \<Longrightarrow> m \<le> b \<Longrightarrow> elapsed c a m \<le> elapsed c a b"
  using elapsed_nonneg [of c m b] elapsed_split [of c a m b] by simp

lemma active_time_plus_pauses:
  "ok c \<Longrightarrow> pause_chain a ps b \<Longrightarrow>
   elapsed c a b = active_time (elapsed c) a ps b + sum_list (map (\<lambda>(p, r). elapsed c p r) ps)"
proof (induction a ps b rule: pause_chain.induct)
  case (1 a b)
  then show ?case by simp
next
  case (2 a p r ps b)
  then have order: "a \<le> p" "p \<le> r" "r \<le> b" by (auto dest: pause_chain_le)
  have "elapsed c a b = elapsed c a p + (elapsed c p r + elapsed c r b)"
    using 2(2) order elapsed_split [of c a p b] elapsed_split [of c p r b] by linarith
  with 2 show ?case by simp
qed

lemma active_time_nonneg: "ok c \<Longrightarrow> pause_chain a ps b \<Longrightarrow> 0 \<le> active_time (elapsed c) a ps b"
  by (induction a ps b rule: pause_chain.induct) (auto simp: elapsed_nonneg)

end

definition mono_zone :: "zone \<Rightarrow> bool" where
  "mono_zone z \<longleftrightarrow> (\<forall>s e. s \<le> e \<longrightarrow> wall (astimezone z s) \<le> wall (astimezone z e))"

lemma mono_utc_zone [simp]: "mono_zone utc_zone"
  by (simp add: mono_zone_def utc_zone_def)

lemma count_business_minutes_biz:
  "wf_config cfg \<Longrightarrow> count_business_minutes s e cfg =
     biz_us cfg (wall (astimezone (tz cfg) s)) (wall (astimezone (tz cfg) e))"
  by (simp add: count_business_minutes_def Let_def count_loop_biz biz_us_empty)

interpretation wall_clock: elapsed_meter "\<lambda>_ :: unit. True" "\<lambda>_ a b. b - a"
  by unfold_locales auto

interpretation biz_clock: elapsed_meter
  "\<lambda>cfg. wf_config cfg \<and> mono_zone (tz cfg)" "\<lambda>cfg a b. count_business_minutes a b cfg"
  by unfold_locales (auto simp: count_business_minutes_biz mono_zone_def intro!: biz_us_split)

section \<open>Configurations that the resolution returns\<close>

lemma digit_val_range: "is_digit c \<Longrightarrow> 0 \<le> digit_val c \<and> digit_val c \<le> 9"
  by (simp add: is_digit_def chr_range_def digit_val_def)

lemma two_digits_range: "two_digits a b = Some n \<Longrightarrow> 0 \<le> n"
  by (auto simp: two_digits_def dest!: digit_val_range split: if_splits)

lemma time_fromisoformat_valid: "time_fromisoformat s = Some t \<Longrightarrow> valid_tod t"
proof -
  have hm: "0 \<le> t \<and> t \<le> 86340000000 \<and> t mod minute_us = 0"
    if "time_fromisoformat [a, b, c, d, e] = Some t" for a b c d e t
    using that
    by (auto simp: minute_us_def dest!: two_digits_range split: option.splits if_splits)
  show "time_fromisoformat s = Some t \<Longrightarrow> valid_tod t"
  proof (cases s rule: time_fromisoformat.cases)
    case (1 a b c d e)
    assume "time_fromisoformat s = Some t"
    with 1 hm [of a b c d e t] show ?thesis by (simp add: valid_tod_def day_us_def)
  next
    case (2 a b c d e f g i)
    assume "time_fromisoformat s = Some t"
    with 2 obtain u n where u: "time_fromisoformat [a, b, c, d, e] = Some u" "two_digits g i = Some n"
      "n < 60" "t = u + n * 1000000"
      by (auto simp del: time_fromisoformat.simps(1) split: option.splits if_splits)
    with hm [OF u(1)] two_digits_range [OF u(2)] show ?thesis by (simp add: valid_tod_def day_us_def)
  qed auto
qed

lemma parse_time_valid: "parse_time v k = Inr t \<Longrightarrow> valid_tod t"
  by (auto simp: parse_time_def dest: time_fromisoformat_valid split: option.splits json.splits)

lemma get_day_config_valid:
  "get_day_config bh w = Inr (act, Some o_t, Some c_t) \<Longrightarrow> valid_tod o_t \<and> valid_tod c_t"
  by (auto simp: get_day_config_def Let_def bind_res_eq_Inr dest: parse_time_valid split: if_splits)

lemma collect_days_valid:
  "collect_days bh ws = Inr ds \<Longrightarrow> (d, o_t, c_t) \<in> set ds \<Longrightarrow>
     valid_tod o_t \<and> valid_tod c_t \<and> o_t < c_t \<and> d \<in> set ws"
proof (induction ws arbitrary: ds)
  case Nil
  then show ?case by simp
next
  case (Cons w ws)
  from Cons.prems(1) obtain act ot ct rest where
    day: "get_day_config bh w = Inr (act, ot, ct)" and rest: "collect_days bh ws = Inr rest"
    and ds: "ds = (case (act, ot, ct) of
              (True, Some o_t, Some c_t) \<Rightarrow> if o_t < c_t then (w, o_t, c_t) # rest else rest
            | _ \<Rightarrow> rest)"
    by (auto simp: bind_res_eq_Inr)
  from Cons.IH [OF rest] Cons.prems(2) day ds show ?case
    by (auto dest: get_day_config_valid split: bool.splits option.splits if_splits)
qed

definition valid_settings :: "tenant \<Rightarrow> bool" where
  "valid_settings t \<longleftrightarrow> (case settings t of None \<Rightarrow> True
     | Some ts \<Rightarrow> valid_tod (business_hours_start ts) \<and> valid_tod (business_hours_end ts))"

text \<open>A configuration is well formed when the settings hold times of day, which a time column does.\<close>

lemma get_business_config_wf:
  assumes "get_business_config zoneinfo t = Inr (Some cfg)" and "valid_settings t"
  shows "wf_config cfg"
proof (cases "hours_row t")
  case (Some bh)
  with assms(1) obtain ds where "collect_days bh weekdays = Inr ds" "days cfg = ds"
    by (auto simp: get_business_config_def bind_res_eq_Inr split: if_splits)
  then show ?thesis unfolding wf_config_def by (auto dest: collect_days_valid)
next
  case None
  with assms show ?thesis
    by (auto simp: get_business_config_def wf_config_def valid_settings_def split: option.splits if_splits)
qed

lemma get_business_config_holidays:
  "get_business_config zoneinfo t = Inr (Some cfg) \<Longrightarrow> holiday_dates cfg = holidays t"
  by (auto simp: get_business_config_def bind_res_eq_Inr split: option.splits if_splits)

lemma deadline_loop:
  assumes wf: "wf_config cfg"
    and wd: "0 \<le> wd" "wd < 7" "map_of (days cfg) wd \<noteq> None"
    and few: "card (set (holiday_dates cfg)) < 52"
    and w: "windows_at_least cfg w" "0 < w"
    and m: "0 < m" "m \<le> 8759 * w"
  shows "snd (add_loop loop_limit cfg (c, m)) = 0"
    and "biz_us cfg (wall c) (wall (fst (add_loop loop_limit cfg (c, m)))) = m"
    and "in_biz cfg (wall (fst (add_loop loop_limit cfg (c, m))) - 1)"
    and "wall c \<le> wall (fst (add_loop loop_limit cfg (c, m)))"
proof -
  have "loop_limit = Suc 8759" by (simp add: loop_limit_def)
  then have fin: "snd (add_loop loop_limit cfg (c, m)) \<le> 0"
    using add_loop_finishes [OF wf supplied_if_few_holidays [OF wd few] w, of "(c, m)" 8759] m
    by (simp del: add_loop.simps)
  have "0 \<le> snd (c, m)" using m by simp
  from fin add_loop_spends [OF wf this, of loop_limit] m
  show "snd (add_loop loop_limit cfg (c, m)) = 0"
    and "biz_us cfg (wall c) (wall (fst (add_loop loop_limit cfg (c, m)))) = m"
    and "in_biz cfg (wall (fst (add_loop loop_limit cfg (c, m))) - 1)"
    and "wall c \<le> wall (fst (add_loop loop_limit cfg (c, m)))"
    by (simp_all add: spends_def)
qed

section \<open>Properties\<close>

text \<open>A sample tenant for the witnesses: Monday to Friday, 09:00 to 17:00, UTC, one holiday.\<close>

definition desk_settings :: tenant_settings where
  "desk_settings = \<lparr>ts_timezone = ''UTC'', business_hours_start = 32400000000,
     business_hours_end = 61200000000, business_days = [0, 1, 2, 3, 4],
     auto_transition_on_assign = True, auto_close_days = 5, csat_delay_minutes = 60,
     inbound_email_address = None, auto_send_ticket_created_email = False,
     auto_assign_inbound_email_tickets = False, inbox_hub_enabled = False, inbox_hub_auto_assign = True, inbox_hub_default_department = None\<rparr>"

definition desk :: tenant where
  "desk = \<lparr>tenant_id = 1, tenant_slug = ''desk'', tenant_active = True, settings = Some desk_settings,
     hours_row = None, holidays = [7]\<rparr>"

definition desk_config :: bconfig where
  "desk_config = \<lparr>tz = utc_zone, days = map (\<lambda>d. (d, 32400000000, 61200000000)) [0, 1, 2, 3, 4],
     holiday_dates = [7]\<rparr>"

lemma desk_config_resolved: "get_business_config (\<lambda>_. None) desk = Inr (Some desk_config)"
  by (simp add: get_business_config_def desk_def desk_settings_def desk_config_def get_tz_def)

lemma desk_valid: "valid_settings desk"
  by (simp add: valid_settings_def desk_def desk_settings_def valid_tod_def day_us_def)

lemma desk_windows: "windows_at_least desk_config 28800000000"
  by (simp add: windows_at_least_def desk_config_def trunc_minute_def minute_us_def)

lemma desk_zone: "wall (astimezone (tz desk_config) (to_utc (tz desk_config) c)) = wall c"
  by (simp add: desk_config_def utc_zone_def)

lemma add_loop_unfold:
  "0 < n \<Longrightarrow> add_loop n cfg s = (if snd s \<le> 0 then s else add_loop (n - 1) cfg (add_step cfg s))"
  by (cases n) auto

lemma next_start_unfold:
  "0 < n \<Longrightarrow> next_start_loop n cfg c =
     (if date_of c \<notin> set (holiday_dates cfg) then
        (case map_of (days cfg) (weekday c) of
           Some (open_t, _) \<Rightarrow> replace_hm c open_t
         | None \<Rightarrow> next_start_loop (n - 1) cfg (add_delta c day_us))
      else next_start_loop (n - 1) cfg (add_delta c day_us))"
  by (cases n) (auto split: option.split)

lemmas clock_eval = add_loop_unfold next_start_unfold next_business_day_start_def add_step_def
  next_midnight_def replace_hm_def add_delta_def date_of_def weekday_def trunc_minute_def
  minute_us_def day_us_def loop_limit_def

text \<open>Friday 16:00 plus two hours, with Monday a holiday, is Tuesday 10:00.\<close>

lemma desk_deadline: "add_business_minutes (\<lambda>_. None) 403200000000 7200000000 desk = Inr 727200000000"
  by (simp add: add_business_minutes_def desk_config_resolved add_business_minutes_cfg_def clock_eval
    desk_config_def utc_zone_def)

lemma deadline_spends:
  assumes cfg: "get_business_config zoneinfo t = Inr (Some cfg)" and valid: "valid_settings t"
    and wd: "0 \<le> wd" "wd < 7" "map_of (days cfg) wd \<noteq> None"
    and few: "card (set (holidays t)) < 52"
    and w: "windows_at_least cfg w" "0 < w"
    and m: "0 < m" "m \<le> 8759 * w"
    and zone: "\<forall>c. in_biz cfg (wall c - 1) \<longrightarrow> wall (astimezone (tz cfg) (to_utc (tz cfg) c)) = wall c"
  shows "\<exists>d. add_business_minutes zoneinfo start_utc m t = Inr d \<and>
             elapsed_business_minutes zoneinfo start_utc d (SettingsArg t) = Inr m"
proof -
  note wf = get_business_config_wf [OF cfg valid]
  let ?c = "astimezone (tz cfg) start_utc"
  note loop = deadline_loop [OF wf wd few [folded get_business_config_holidays [OF cfg]] w m, of ?c]
  let ?d = "add_business_minutes_cfg start_utc m cfg"
  have "wall (astimezone (tz cfg) ?d) = wall (fst (add_loop loop_limit cfg (?c, m)))"
    using zone loop(3) by (simp add: add_business_minutes_cfg_def)
  with loop(2) have "count_business_minutes start_utc ?d cfg = m"
    by (simp add: count_business_minutes_biz [OF wf])
  then show ?thesis
    by (simp add: add_business_minutes_def elapsed_business_minutes_def cfg)
qed

text \<open>
  C1: A deadline spends exactly its budget.  For a budget that 8759 business
  days can hold, in a calendar with a working weekday and fewer than 52
  holidays, \<open>add_business_minutes\<close> stops within its iteration limit at an
  instant up to which \<open>elapsed_business_minutes\<close> counts exactly the budget.
  The zone hypothesis says that business time does not fall into the local
  times that a clock change skips.
\<close>

theorem deadline_roundtrip:
  assumes cfg: "get_business_config zoneinfo t = Inr (Some cfg)" and valid: "valid_settings t"
    and wd: "0 \<le> wd" "wd < 7" "map_of (days cfg) wd \<noteq> None"
    and few: "card (set (holidays t)) < 52"
    and w: "windows_at_least cfg w" "0 < w"
    and m: "0 < m" "m \<le> 8759 * w"
    and zone: "\<forall>c. in_biz cfg (wall c - 1) \<longrightarrow> wall (astimezone (tz cfg) (to_utc (tz cfg) c)) = wall c"
  shows "\<exists>d. add_business_minutes zoneinfo start_utc m t = Inr d \<and>
             elapsed_business_minutes zoneinfo start_utc d (SettingsArg t) = Inr m"
  by (rule deadline_spends [OF assms])

lemma deadline_roundtrip_witness:
  "\<exists>d. add_business_minutes (\<lambda>_. None) 403200000000 7200000000 desk = Inr d \<and>
       elapsed_business_minutes (\<lambda>_. None) 403200000000 d (SettingsArg desk) = Inr 7200000000"
  by (rule deadline_roundtrip [OF desk_config_resolved desk_valid, where wd = 0 and w = 28800000000])
     (simp_all add: desk_windows desk_zone, simp_all add: desk_config_def desk_def)

text \<open>
  C2: A deadline is the earliest instant with its budget spent: up to any
  instant of earlier local time, fewer business microseconds than the budget
  have elapsed.
\<close>

theorem deadline_earliest:
  assumes cfg: "get_business_config zoneinfo t = Inr (Some cfg)" and valid: "valid_settings t"
    and wd: "0 \<le> wd" "wd < 7" "map_of (days cfg) wd \<noteq> None"
    and few: "card (set (holidays t)) < 52"
    and w: "windows_at_least cfg w" "0 < w"
    and m: "0 < m" "m \<le> 8759 * w"
    and zone: "\<forall>c. in_biz cfg (wall c - 1) \<longrightarrow> wall (astimezone (tz cfg) (to_utc (tz cfg) c)) = wall c"
    and add: "add_business_minutes zoneinfo start_utc m t = Inr d"
    and earlier: "wall (astimezone (tz cfg) e) < wall (astimezone (tz cfg) d)"
  shows "\<exists>k < m. elapsed_business_minutes zoneinfo start_utc e (SettingsArg t) = Inr k"
proof -
  note wf = get_business_config_wf [OF cfg valid]
  let ?c = "astimezone (tz cfg) start_utc"
  note loop = deadline_loop [OF wf wd few [folded get_business_config_holidays [OF cfg]] w m, of ?c]
  let ?r = "wall (fst (add_loop loop_limit cfg (?c, m)))"
  from add have d: "d = add_business_minutes_cfg start_utc m cfg"
    by (simp add: add_business_minutes_def cfg)
  with zone loop(3) earlier have e: "wall (astimezone (tz cfg) e) \<le> ?r - 1"
    by (simp add: add_business_minutes_cfg_def)
  have "biz_us cfg (wall ?c) (wall (astimezone (tz cfg) e)) < m"
  proof (cases "wall (astimezone (tz cfg) e) \<le> wall ?c")
    case True
    then show ?thesis using m by (simp add: biz_us_empty)
  next
    case False
    then have "biz_us cfg (wall ?c) (?r - 1) = biz_us cfg (wall ?c) (wall (astimezone (tz cfg) e)) +
        biz_us cfg (wall (astimezone (tz cfg) e)) (?r - 1)"
      using e by (intro biz_us_split) linarith+
    moreover have "biz_us cfg (wall ?c) ?r = biz_us cfg (wall ?c) (?r - 1) + biz_us cfg (?r - 1) ?r"
      using False e by (intro biz_us_split) linarith+
    moreover have "biz_us cfg (?r - 1) ?r = 1"
    proof -
      have "biz_set cfg (?r - 1) ?r = {?r - 1}" using loop(3) by (auto simp: biz_set_def)
      then show ?thesis by (simp add: biz_us_def)
    qed
    ultimately show ?thesis using loop(2) biz_us_nonneg [of cfg "wall (astimezone (tz cfg) e)" "?r - 1"]
      by linarith
  qed
  then show ?thesis
    by (simp add: elapsed_business_minutes_def cfg count_business_minutes_biz [OF wf])
qed

lemma deadline_earliest_witness:
  "\<exists>k < 7200000000. elapsed_business_minutes (\<lambda>_. None) 403200000000 727199999999 (SettingsArg desk) = Inr k"
  by (rule deadline_earliest [OF desk_config_resolved desk_valid, where wd = 0 and w = 28800000000,
        OF _ _ _ _ _ _ _ _ _ desk_deadline])
     (simp_all add: desk_windows desk_zone, simp_all add: desk_config_def desk_def utc_zone_def)

text \<open>
  C3: The counting loop agrees with the definition of business time: the
  result of \<open>elapsed_business_minutes\<close> is the number of microseconds of local
  time between the two instants that lie in the window of a working day.
\<close>

theorem elapsed_is_business_time:
  assumes "get_business_config zoneinfo t = Inr (Some cfg)" and "valid_settings t"
  shows "elapsed_business_minutes zoneinfo s e (SettingsArg t) =
     Inr (int (card {u. wall (astimezone (tz cfg) s) \<le> u \<and> u < wall (astimezone (tz cfg) e) \<and> in_biz cfg u}))"
  using count_business_minutes_biz [OF get_business_config_wf [OF assms]] assms(1)
  by (simp add: elapsed_business_minutes_def biz_us_def biz_set_def)

lemma elapsed_is_business_time_witness:
  "elapsed_business_minutes (\<lambda>_. None) 0 86400000000 (SettingsArg desk) =
     Inr (int (card {u. wall (astimezone (tz desk_config) 0) \<le> u \<and>
        u < wall (astimezone (tz desk_config) 86400000000) \<and> in_biz desk_config u}))"
  by (rule elapsed_is_business_time [OF desk_config_resolved desk_valid])

lemma pause_chain_starts:
  "pause_chain a ps b \<Longrightarrow> (p, r) \<in> set ps \<Longrightarrow> a \<le> p"
proof (induction a ps b rule: pause_chain.induct)
  case (2 a p' r' ps b)
  then show ?case by force
qed simp


definition sample_policy :: sla_policy where
  "sample_policy = \<lparr>policy_id = 1, policy_tenant = 1, policy_name = ''P1'', policy_priority = ''high'',
     first_response_minutes = 60, resolution_minutes = 480, business_hours_only = True, policy_active = True\<rparr>"

definition sample_pauses :: "sla_pause list" where
  "sample_pauses =
     [\<lparr>pause_id = 1, pause_ticket = 5, paused_at = 36000000000, resumed_at = Some 39600000000\<rparr>,
      \<lparr>pause_id = 2, pause_ticket = 5, paused_at = 41400000000, resumed_at = None\<rparr>]"


text \<open>
  \<open>is_within_business_hours\<close> and the counting loop agree on what business
  time is, for windows that open and close on a whole minute: an instant is
  within business hours exactly when its local microsecond is counted.
\<close>

theorem within_hours_is_counted:
  assumes cfg: "get_business_config zoneinfo t = Inr (Some cfg)"
    and whole: "\<forall>(w, open_t, close_t) \<in> set (days cfg). trunc_minute open_t = open_t \<and> trunc_minute close_t = close_t"
  shows "is_within_business_hours zoneinfo dt t = Inr (in_biz cfg (wall (astimezone (tz cfg) dt)))"
proof -
  have "trunc_minute o_t = o_t \<and> trunc_minute c_t = c_t" if "map_of (days cfg) w = Some (o_t, c_t)" for w o_t c_t
    using whole map_of_SomeD [OF that] by auto
  then show ?thesis
    by (auto simp: is_within_business_hours_def cfg Let_def in_biz_def date_of_def weekday_def time_of_def
      split: option.splits)
qed

lemma within_hours_is_counted_witness:
  "is_within_business_hours (\<lambda>_. None) 36000000000 desk =
     Inr (in_biz desk_config (wall (astimezone (tz desk_config) 36000000000)))"
  by (rule within_hours_is_counted [OF desk_config_resolved])
     (simp add: desk_config_def trunc_minute_def minute_us_def)

end
