(* ===== verification/Effects.thy ===== *)
theory Effects
  imports Tenancy
begin

text \<open>
  Commands over a store: Python code that reads and writes the database and
  may raise.  A command returns a result together with the store it leaves,
  also when it raises, so that the writes made before an exception are visible
  to a handler; \<open>atomic_on\<close> is \<open>transaction.atomic\<close>, which restores the store
  except for the part that a rollback does not reach.

  The locale \<open>step_law\<close> is the contract every operation of a component is
  checked against: a reflexive and transitive relation between the store
  before and the store after.  Its lemmas, collected in \<open>obeys_intros\<close> by
  each interpretation, derive the law of a command from the laws of its parts.
\<close>

type_synonym ('s, 'a) cmd = "'s \<Rightarrow> 'a res \<times> 's"

definition ret :: "'a \<Rightarrow> ('s, 'a) cmd" where
  "ret a = (\<lambda>s. (Inr a, s))"

definition raise_exc :: "pyexc \<Rightarrow> ('s, 'a) cmd" where
  "raise_exc e = (\<lambda>s. (Inl e, s))"

definition bindc :: "('s, 'a) cmd \<Rightarrow> ('a \<Rightarrow> ('s, 'b) cmd) \<Rightarrow> ('s, 'b) cmd" where
  "bindc c f = (\<lambda>s. case c s of (Inl e, s') \<Rightarrow> (Inl e, s') | (Inr a, s') \<Rightarrow> f a s')"

definition thenc :: "('s, unit) cmd \<Rightarrow> ('s, 'b) cmd \<Rightarrow> ('s, 'b) cmd" where
  "thenc c d = bindc c (\<lambda>_. d)"

definition asks :: "('s \<Rightarrow> 'a) \<Rightarrow> ('s, 'a) cmd" where
  "asks f = (\<lambda>s. (Inr (f s), s))"

definition update :: "('s \<Rightarrow> 's) \<Rightarrow> ('s, unit) cmd" where
  "update f = (\<lambda>s. (Inr (), f s))"

definition whenc :: "bool \<Rightarrow> ('s, unit) cmd \<Rightarrow> ('s, unit) cmd" where
  "whenc b c = (if b then c else ret ())"

text \<open>The value of a pure fallible computation, raised when it is an exception.\<close>

definition lift_res :: "'a res \<Rightarrow> ('s, 'a) cmd" where
  "lift_res r = (\<lambda>s. (r, s))"

text \<open>\<open>try: c  except Exception: h\<close>; the handler starts in the store the exception left.\<close>

definition try_except :: "('s, 'a) cmd \<Rightarrow> (pyexc \<Rightarrow> ('s, 'a) cmd) \<Rightarrow> ('s, 'a) cmd" where
  "try_except c h = (\<lambda>s. case c s of (Inl e, s') \<Rightarrow> h e s' | (Inr a, s') \<Rightarrow> (Inr a, s'))"

definition atomic_on :: "('s \<Rightarrow> 's \<Rightarrow> 's) \<Rightarrow> ('s, 'a) cmd \<Rightarrow> ('s, 'a) cmd" where
  "atomic_on rollback c =
     (\<lambda>s. case c s of (Inl e, s') \<Rightarrow> (Inl e, rollback s s') | (Inr a, s') \<Rightarrow> (Inr a, s'))"

text \<open>\<open>for x in xs: acc = f(x, acc)\<close>\<close>

fun for_each :: "'a list \<Rightarrow> ('a \<Rightarrow> 'b \<Rightarrow> ('s, 'b) cmd) \<Rightarrow> 'b \<Rightarrow> ('s, 'b) cmd" where
  "for_each [] f acc = ret acc"
| "for_each (x # xs) f acc = bindc (f x acc) (for_each xs f)"

named_theorems cmd_simps \<open>running commands\<close>

lemma run_ret [cmd_simps]: "ret a s = (Inr a, s)"
  by (simp add: ret_def)

lemma run_raise [cmd_simps]: "raise_exc e s = (Inl e, s)"
  by (simp add: raise_exc_def)

lemma run_asks [cmd_simps]: "asks f s = (Inr (f s), s)"
  by (simp add: asks_def)

lemma run_update [cmd_simps]: "update f s = (Inr (), f s)"
  by (simp add: update_def)

lemma run_lift [cmd_simps]: "lift_res r s = (r, s)"
  by (simp add: lift_res_def)

lemma run_bind [cmd_simps]: "bindc c f s = (case c s of (Inl e, s') \<Rightarrow> (Inl e, s') | (Inr a, s') \<Rightarrow> f a s')"
  by (simp add: bindc_def)

lemma run_then [cmd_simps]: "thenc c d s = (case c s of (Inl e, s') \<Rightarrow> (Inl e, s') | (Inr a, s') \<Rightarrow> d s')"
  by (simp add: thenc_def bindc_def)

lemma run_when [cmd_simps]: "whenc b c s = (if b then c s else (Inr (), s))"
  by (simp add: whenc_def ret_def)

lemma run_try [cmd_simps]:
  "try_except c h s = (case c s of (Inl e, s') \<Rightarrow> h e s' | (Inr a, s') \<Rightarrow> (Inr a, s'))"
  by (simp add: try_except_def)

lemma run_atomic [cmd_simps]:
  "atomic_on r c s = (case c s of (Inl e, s') \<Rightarrow> (Inl e, r s s') | (Inr a, s') \<Rightarrow> (Inr a, s'))"
  by (simp add: atomic_on_def)

text \<open>A command that returns went through each of its parts.\<close>

lemma bind_returns:
  "bindc c f s = (Inr b, s') \<longleftrightarrow> (\<exists>a s1. c s = (Inr a, s1) \<and> f a s1 = (Inr b, s'))"
  by (auto simp: bindc_def split: prod.splits sum.splits)

lemma then_returns:
  "thenc c d s = (Inr b, s') \<longleftrightarrow> (\<exists>s1. c s = (Inr (), s1) \<and> d s1 = (Inr b, s'))"
  by (auto simp: thenc_def bind_returns)

lemma atomic_returns: "atomic_on r c s = (Inr b, s') \<longleftrightarrow> c s = (Inr b, s')"
  by (auto simp: atomic_on_def split: prod.splits sum.splits)

lemma lift_returns: "lift_res r s = (Inr b, s') \<longleftrightarrow> r = Inr b \<and> s' = s"
  by (auto simp: lift_res_def)

lemma asks_returns: "asks f s = (Inr b, s') \<longleftrightarrow> b = f s \<and> s' = s"
  by (auto simp: asks_def)

lemma ret_returns: "ret a s = (Inr b, s') \<longleftrightarrow> b = a \<and> s' = s"
  by (auto simp: ret_def)

lemma raise_returns: "raise_exc e s \<noteq> (Inr b, s')"
  by (simp add: raise_exc_def)

lemma update_returns: "update f s = (Inr (), s') \<longleftrightarrow> s' = f s"
  by (auto simp: update_def)

lemmas returns = bind_returns then_returns atomic_returns lift_returns asks_returns ret_returns
  raise_returns update_returns

section \<open>Laws of commands\<close>

definition obeys :: "('s \<Rightarrow> 's \<Rightarrow> bool) \<Rightarrow> ('s, 'a) cmd \<Rightarrow> bool" where
  "obeys R c \<longleftrightarrow> (\<forall>s. R s (snd (c s)))"

lemma obeysD: "obeys R c \<Longrightarrow> c s = (r, s') \<Longrightarrow> R s s'"
  unfolding obeys_def by (metis snd_conv)

text \<open>Every value a command returns satisfies \<open>P\<close>.\<close>

definition yields :: "('s, 'a) cmd \<Rightarrow> ('a \<Rightarrow> bool) \<Rightarrow> bool" where
  "yields c P \<longleftrightarrow> (\<forall>s a s'. c s = (Inr a, s') \<longrightarrow> P a)"

lemma yieldsD: "yields c P \<Longrightarrow> c s = (Inr a, s') \<Longrightarrow> P a"
  by (auto simp: yields_def)

lemma yields_ret: "P a \<Longrightarrow> yields (ret a) P"
  by (simp add: yields_def ret_def)

lemma yields_raise: "yields (raise_exc e) P"
  by (simp add: yields_def raise_exc_def)

lemma yields_bind_all: "(\<And>a. yields (f a) P) \<Longrightarrow> yields (bindc c f) P"
  by (fastforce simp: yields_def bindc_def split: prod.splits sum.splits)

lemma yields_bind: "yields c Q \<Longrightarrow> (\<And>a. Q a \<Longrightarrow> yields (f a) P) \<Longrightarrow> yields (bindc c f) P"
  by (fastforce simp: yields_def bindc_def split: prod.splits sum.splits)

lemma yields_then: "yields d P \<Longrightarrow> yields (thenc c d) P"
  by (simp add: thenc_def yields_bind_all)

lemma yields_if: "(b \<Longrightarrow> yields c P) \<Longrightarrow> (\<not> b \<Longrightarrow> yields d P) \<Longrightarrow> yields (if b then c else d) P"
  by simp

lemma yields_option:
  "(x = None \<Longrightarrow> yields c P) \<Longrightarrow> (\<And>a. x = Some a \<Longrightarrow> yields (f a) P) \<Longrightarrow>
   yields (case x of None \<Rightarrow> c | Some a \<Rightarrow> f a) P"
  by (cases x) auto

lemma yields_prod: "(\<And>a b. x = (a, b) \<Longrightarrow> yields (f a b) P) \<Longrightarrow> yields (case x of (a, b) \<Rightarrow> f a b) P"
  by (cases x) auto

lemma yields_let: "yields (f x) P \<Longrightarrow> yields (let y = x in f y) P"
  by simp

lemma yields_atomic: "yields c P \<Longrightarrow> yields (atomic_on r c) P"
  by (fastforce simp: yields_def atomic_on_def split: prod.splits sum.splits)

lemma yields_all: "(\<And>a. P a) \<Longrightarrow> yields c P"
  by (simp add: yields_def)

text \<open>A command that never raises.\<close>

definition safe :: "('s, 'a) cmd \<Rightarrow> bool" where
  "safe c \<longleftrightarrow> (\<forall>s. \<exists>a s'. c s = (Inr a, s'))"

lemma safeD: "safe c \<Longrightarrow> \<exists>a s'. c s = (Inr a, s')"
  by (simp add: safe_def)

lemma safe_basic: "safe (ret a)" "safe (asks f)" "safe (update g)"
  by (simp_all add: safe_def ret_def asks_def update_def)

lemma safe_bind:
  assumes "safe c" "\<And>a. safe (f a)"
  shows "safe (bindc c f)"
proof -
  have "\<exists>b s'. bindc c f s = (Inr b, s')" for s
  proof -
    obtain a s1 where "c s = (Inr a, s1)" using safeD [OF assms(1)] by blast
    moreover obtain b s' where "f a s1 = (Inr b, s')" using safeD [OF assms(2)] by blast
    ultimately show ?thesis by (simp add: bindc_def)
  qed
  then show ?thesis by (simp add: safe_def)
qed

lemma safe_then: "safe c \<Longrightarrow> safe d \<Longrightarrow> safe (thenc c d)"
  by (simp add: thenc_def safe_bind)

lemma safe_when: "(b \<Longrightarrow> safe c) \<Longrightarrow> safe (whenc b c)"
  by (simp add: whenc_def safe_basic)

lemma safe_try:
  assumes "\<And>e. safe (h e)"
  shows "safe (try_except c h)"
proof -
  have "\<exists>b s'. try_except c h s = (Inr b, s')" for s
    using safeD [OF assms] by (cases "c s") (auto simp: try_except_def split: sum.split)
  then show ?thesis by (simp add: safe_def)
qed

lemma safe_if: "(b \<Longrightarrow> safe c) \<Longrightarrow> (\<not> b \<Longrightarrow> safe d) \<Longrightarrow> safe (if b then c else d)"
  by simp

lemma safe_option:
  "(x = None \<Longrightarrow> safe c) \<Longrightarrow> (\<And>a. x = Some a \<Longrightarrow> safe (f a)) \<Longrightarrow> safe (case x of None \<Rightarrow> c | Some a \<Rightarrow> f a)"
  by (cases x) auto

lemma safe_let: "safe (f x) \<Longrightarrow> safe (let y = x in f y)"
  by simp

lemma safe_prod: "(\<And>a b. x = (a, b) \<Longrightarrow> safe (f a b)) \<Longrightarrow> safe (case x of (a, b) \<Rightarrow> f a b)"
  by (cases x) auto

lemmas safe_rules = safe_basic safe_bind safe_then safe_when safe_try safe_if safe_option safe_let safe_prod

locale step_law =
  fixes R :: "'s \<Rightarrow> 's \<Rightarrow> bool"
  assumes step_refl: "R s s"
    and step_trans: "R s t \<Longrightarrow> R t u \<Longrightarrow> R s u"
begin

lemma obeys_ret: "obeys R (ret a)"
  by (simp add: obeys_def ret_def step_refl)

lemma obeys_raise: "obeys R (raise_exc e)"
  by (simp add: obeys_def raise_exc_def step_refl)

lemma obeys_asks: "obeys R (asks f)"
  by (simp add: obeys_def asks_def step_refl)

lemma obeys_lift: "obeys R (lift_res r)"
  by (simp add: obeys_def lift_res_def step_refl)

lemma obeys_update: "(\<And>s. R s (f s)) \<Longrightarrow> obeys R (update f)"
  by (simp add: obeys_def update_def)

lemma obeys_bind: "obeys R c \<Longrightarrow> (\<And>a. obeys R (f a)) \<Longrightarrow> obeys R (bindc c f)"
  unfolding obeys_def bindc_def
  by (metis (mono_tags, lifting) step_trans old.prod.case prod.collapse snd_conv sum.case_eq_if)

lemma obeys_bind_yields:
  assumes "yields c P" "obeys R c" "\<And>a. P a \<Longrightarrow> obeys R (f a)"
  shows "obeys R (bindc c f)"
proof -
  have "R s (snd (bindc c f s))" for s
  proof (cases "c s")
    case (Pair r s')
    with assms(2) have "R s s'" by (metis obeysD)
    then show ?thesis
    proof (cases r)
      case (Inr a)
      with Pair assms(1) have "P a" by (auto dest: yieldsD)
      then have "R s' (snd (f a s'))" using assms(3) by (simp add: obeys_def)
      with \<open>R s s'\<close> show ?thesis by (simp add: bindc_def Pair Inr step_trans [of s s'])
    qed (simp add: bindc_def Pair)
  qed
  then show ?thesis by (simp add: obeys_def)
qed

lemma obeys_then: "obeys R c \<Longrightarrow> obeys R d \<Longrightarrow> obeys R (thenc c d)"
  unfolding thenc_def by (rule obeys_bind)

lemma obeys_when: "(b \<Longrightarrow> obeys R c) \<Longrightarrow> obeys R (whenc b c)"
  by (simp add: whenc_def obeys_ret)

lemma obeys_try: "obeys R c \<Longrightarrow> (\<And>e. obeys R (h e)) \<Longrightarrow> obeys R (try_except c h)"
  unfolding obeys_def try_except_def
  by (metis (mono_tags, lifting) step_trans old.prod.case prod.collapse snd_conv sum.case_eq_if)

lemma obeys_atomic:
  "obeys R c \<Longrightarrow> (\<And>s t. R s t \<Longrightarrow> R s (rb s t)) \<Longrightarrow> obeys R (atomic_on rb c)"
  unfolding obeys_def atomic_on_def
  by (metis (mono_tags, lifting) old.prod.case prod.collapse snd_conv sum.case_eq_if)

lemma obeys_for: "(\<And>x acc. x \<in> set xs \<Longrightarrow> obeys R (f x acc)) \<Longrightarrow> obeys R (for_each xs f acc)"
proof (induction xs arbitrary: acc)
  case Nil
  show ?case by (simp add: obeys_ret)
next
  case (Cons x xs)
  have "obeys R (f x acc)" by (simp add: Cons.prems)
  moreover have "obeys R (for_each xs f a)" for a
    using Cons.IH Cons.prems by simp
  ultimately show ?case by (simp add: obeys_bind)
qed

lemma obeys_if: "(b \<Longrightarrow> obeys R c) \<Longrightarrow> (\<not> b \<Longrightarrow> obeys R d) \<Longrightarrow> obeys R (if b then c else d)"
  by simp

lemma obeys_option:
  "(x = None \<Longrightarrow> obeys R c) \<Longrightarrow> (\<And>a. x = Some a \<Longrightarrow> obeys R (f a)) \<Longrightarrow>
   obeys R (case x of None \<Rightarrow> c | Some a \<Rightarrow> f a)"
  by (cases x) auto

lemma obeys_let: "obeys R (f x) \<Longrightarrow> obeys R (let y = x in f y)"
  by simp

lemma obeys_prod: "(\<And>a b. x = (a, b) \<Longrightarrow> obeys R (f a b)) \<Longrightarrow> obeys R (case x of (a, b) \<Rightarrow> f a b)"
  by (cases x) auto

lemmas obeys_rules = obeys_ret obeys_raise obeys_asks obeys_lift obeys_bind obeys_then
  obeys_when obeys_try obeys_for obeys_if obeys_option obeys_let obeys_prod

end

end
