(* ===== verification/Crm_Data.thy ===== *)
theory Crm_Data
  imports Sla_Clock Effects
begin

text \<open>
  The rows of the ticketing core and the store that holds its tables.

  A foreign key of a ticket is the related row itself, as the instance caches
  it, and two of them are the same row when their primary keys agree; the
  other tables refer to rows by primary key.  Primary keys (UUIDs) are drawn
  from the counter \<open>next_pk\<close>.  \<open>clock\<close> is what \<open>timezone.now()\<close> returns; it
  does not advance within one operation.  \<open>current_tenant\<close> is the tenant
  context the default managers filter by, \<open>zoneinfo_db\<close> the zone database.
  Columns that no modelled operation reads or writes are left out of the rows.
\<close>

section \<open>People\<close>

record user =
  user_id :: user_id
  first_name :: string
  last_name :: string
  email :: string

definition get_full_name :: "user \<Rightarrow> string" where
  "get_full_name u = strip (first_name u @ '' '' @ last_name u)"

text \<open>\<open>u.get_full_name() or str(u)\<close>, where \<open>str(u)\<close> is the email.\<close>

definition display_name :: "user \<Rightarrow> string" where
  "display_name u = (if get_full_name u = [] then email u else get_full_name u)"

record role =
  role_id :: nat
  role_tenant :: tenant_id
  role_slug :: string
  hierarchy_level :: nat
  role_codenames :: "string list"

record membership =
  member_user :: user
  member_tenant :: tenant_id
  member_role :: role
  member_active :: bool
  temporary_role :: "role option"
  temporary_role_expires_at :: "instant option"
  temporary_codenames :: "string list"

section \<open>Ticket vocabulary\<close>

record ticket_status =
  status_id :: nat
  status_tenant :: tenant_id
  status_name :: string
  status_slug :: string
  status_order :: nat
  is_closed :: bool
  is_default :: bool
  pauses_sla :: bool

record queue =
  queue_id :: nat
  queue_tenant :: tenant_id
  queue_name :: string
  queue_default_assignee :: "user_id option"
  queue_department :: "nat option"

record pipeline_stage =
  stage_id :: nat
  stage_pipeline :: nat
  stage_pipeline_name :: string
  stage_name :: string
  is_won :: bool
  is_lost :: bool

record contact =
  contact_id :: nat
  contact_tenant :: tenant_id
  contact_first :: string
  contact_last :: string
  contact_email :: string
  contact_company :: "nat option"
  email_bouncing :: bool
  last_activity_at :: "instant option"

definition contact_full_name :: "contact \<Rightarrow> string" where
  "contact_full_name c = strip (contact_first c @ '' '' @ contact_last c)"

section \<open>Tickets\<close>

text \<open>
  The attributes the signal handlers leave on an instance (read back with
  \<open>getattr(instance, name, False)\<close>) and \<open>_skip_signal_logging\<close>.
\<close>

record save_flags =
  old_status_name :: "string option"
  old_priority :: string
  old_assignee_id :: "user_id option"
  old_assignee_name :: "string option"
  status_changed :: bool
  priority_changed :: bool
  assignee_changed :: bool
  stage_changed :: bool
  old_pauses_sla :: bool
  skip_signal_logging :: bool

definition no_flags :: save_flags where
  "no_flags = \<lparr>old_status_name = None, old_priority = [], old_assignee_id = None,
     old_assignee_name = None, status_changed = False, priority_changed = False,
     assignee_changed = False, stage_changed = False, old_pauses_sla = False,
     skip_signal_logging = False\<rparr>"

record ticket =
  pk :: nat
  ticket_tenant :: tenant
  number :: nat
  subject :: string
  description :: string
  category :: "string option"
  priority :: string
  channel :: string
  status :: "ticket_status option"
  queue_of :: "queue option"
  contact_of :: "contact option"
  company :: "nat option"
  tags :: "string list"
  assignee :: "user option"
  assigned_by :: "user option"
  assigned_at :: "instant option"
  created_by :: user
  created_at :: instant
  updated_at :: instant
  resolved_at :: "instant option"
  closed_at :: "instant option"
  solved_at :: "instant option"
  auto_close_task_id :: "nat option"
  first_responded_at :: "instant option"
  sla_response_breached :: bool
  sla_resolution_breached :: bool
  ticket_policy :: "sla_policy option"
  due_date :: "instant option"
  follow_up_due_at :: "instant option"
  sla_first_response_due :: "instant option"
  sla_resolution_due :: "instant option"
  sla_paused_at :: "instant option"
  sla_extended_at :: "instant option"
  pre_wait_status :: "ticket_status option"
  status_changed_at :: "instant option"
  status_changed_by :: "user option"
  escalation_count :: nat
  escalated_at :: "instant option"
  csat_rating :: "nat option"
  needs_kb_article :: bool
  merged_into :: "nat option"
  ticket_stage :: "pipeline_stage option"
  won_at :: "instant option"
  won_reason :: "string option"
  lost_at :: "instant option"
  lost_reason :: "string option"
  is_deleted :: bool
  deleted_at :: "instant option"
  deleted_by :: "user option"
  flags :: save_flags

text \<open>The columns that \<open>save(update_fields=...)\<close> names.\<close>

datatype tcol = CStatus | CStatusChangedAt | CStatusChangedBy | CUpdatedAt | CPreWaitStatus
  | CSolvedAt | CAutoCloseTaskId | CResolvedAt | CClosedAt | CResolutionBreached | CResponseBreached
  | CAssignee | CAssignedBy | CAssignedAt | CEscalationCount | CEscalatedAt | CQueue
  | CPolicy | CFirstResponseDue | CResolutionDue | CExtendedAt | CPausedAt | CPriority | CTags
  | CIsDeleted | CDeletedAt | CDeletedBy | CMergedInto | CStage | CWonAt | CWonReason
  | CLostAt | CLostReason | CContact

definition pick :: "tcol list \<Rightarrow> tcol \<Rightarrow> (ticket \<Rightarrow> 'v) \<Rightarrow> ticket \<Rightarrow> ticket \<Rightarrow> 'v" where
  "pick uf c field t row = (if c \<in> set uf then field t else field row)"

text \<open>The row after \<open>UPDATE ... SET\<close> of the named columns from the instance \<open>t\<close>.\<close>

definition write_columns :: "tcol list \<Rightarrow> ticket \<Rightarrow> ticket \<Rightarrow> ticket" where
  "write_columns uf t row = row\<lparr>
     status := pick uf CStatus status t row,
     status_changed_at := pick uf CStatusChangedAt status_changed_at t row,
     status_changed_by := pick uf CStatusChangedBy status_changed_by t row,
     updated_at := pick uf CUpdatedAt updated_at t row,
     pre_wait_status := pick uf CPreWaitStatus pre_wait_status t row,
     solved_at := pick uf CSolvedAt solved_at t row,
     auto_close_task_id := pick uf CAutoCloseTaskId auto_close_task_id t row,
     resolved_at := pick uf CResolvedAt resolved_at t row,
     closed_at := pick uf CClosedAt closed_at t row,
     sla_resolution_breached := pick uf CResolutionBreached sla_resolution_breached t row,
     sla_response_breached := pick uf CResponseBreached sla_response_breached t row,
     assignee := pick uf CAssignee assignee t row,
     assigned_by := pick uf CAssignedBy assigned_by t row,
     assigned_at := pick uf CAssignedAt assigned_at t row,
     escalation_count := pick uf CEscalationCount escalation_count t row,
     escalated_at := pick uf CEscalatedAt escalated_at t row,
     queue_of := pick uf CQueue queue_of t row,
     ticket_policy := pick uf CPolicy ticket_policy t row,
     sla_first_response_due := pick uf CFirstResponseDue sla_first_response_due t row,
     sla_resolution_due := pick uf CResolutionDue sla_resolution_due t row,
     sla_extended_at := pick uf CExtendedAt sla_extended_at t row,
     sla_paused_at := pick uf CPausedAt sla_paused_at t row,
     priority := pick uf CPriority priority t row,
     tags := pick uf CTags tags t row,
     is_deleted := pick uf CIsDeleted is_deleted t row,
     deleted_at := pick uf CDeletedAt deleted_at t row,
     deleted_by := pick uf CDeletedBy deleted_by t row,
     merged_into := pick uf CMergedInto merged_into t row,
     ticket_stage := pick uf CStage ticket_stage t row,
     won_at := pick uf CWonAt won_at t row,
     won_reason := pick uf CWonReason won_reason t row,
     lost_at := pick uf CLostAt lost_at t row,
     lost_reason := pick uf CLostReason lost_reason t row,
     contact_of := pick uf CContact contact_of t row\<rparr>"

section \<open>Logs, comments, boards\<close>

datatype action = ACreated | AUpdated | AAssigned | AStatusChanged | ACommented | ADeleted
  | AFieldChanged | AImported | AExported | AClosed | AReopened | AAttachmentAdded
  | AAttachmentRemoved | ASlaUpdated | APipelineStageChanged | AEmailLinked | AEmailActioned
  | AReminderCreated | AReminderCompleted | AReminderCancelled | AReminderRescheduled
  | AOutboundCallLogged | AOutboundCallCompleted | AApiKeyCreated | AApiKeyRegenerated
  | AApiKeyRevoked | AEmailReceived | AEmailCategorised | AEmailQueued | AEmailAgentAssigned
  | AEmailReassigned | AEmailEscalated | AEmailConvertedToTicket | AEmailDismissed

datatype event = ECreated | EAssigned | EUnassigned | EStatusChanged | EPriorityChanged | ECommented
  | EInternalNote | EClosed | EReopened | EEscalated | EEscalatedManual | EAttachmentAdded
  | EAttachmentRemoved | ESlaPaused | ESlaResumed | EAutoClosed | ECsatReceived | EFirstResponse
  | EPipelineStageChanged | EEmailLinked | EEmailActioned | EReminderSet | EReminderCompleted
  | EOutboundCall | EOutboundCallCompleted | EInboundCall | EInboundCallCompleted

datatype webhook_event = WTicketCreated | WTicketUpdated | WTicketAssigned | WTicketClosed
  | WTicketReopened | WTicketComment | WSlaBreached | WTicketEscalated

datatype content_type = TicketCT | InboundEmailCT | OtherCT string

record audit_entry =
  audit_tenant :: tenant_id
  audit_type :: content_type
  audit_object :: nat
  audit_actor :: "user option"
  audit_action :: action
  audit_changes :: json
  audit_ip :: "string option"
  audit_at :: instant

record timeline_entry =
  act_ticket :: nat
  act_contact :: "nat option"
  act_actor :: "user option"
  act_event :: event
  act_metadata :: json
  act_at :: instant

record contact_event =
  ce_tenant :: tenant_id
  ce_contact :: nat
  ce_event :: event
  ce_source :: string
  ce_actor :: "user option"
  ce_metadata :: json
  ce_at :: instant

record comment =
  comment_id :: nat
  comment_tenant :: tenant_id
  comment_type :: content_type
  comment_object :: nat
  comment_author :: user
  comment_body :: string
  is_internal :: bool

record attachment =
  attachment_id :: nat
  attachment_type :: content_type
  attachment_object :: nat

datatype link_type = DuplicateOf | RelatedTo | Blocks | BlockedBy

record ticket_link =
  link_tenant :: tenant_id
  source_ticket :: nat
  target_ticket :: nat
  link_kind :: link_type
  link_by :: "user option"

record assignment =
  asg_ticket :: nat
  asg_to :: user
  asg_by :: "user option"
  asg_note :: string
  asg_tenant :: tenant_id
  asg_at :: instant

datatype resource_type = TicketBoard | DealBoard

record board =
  board_id :: nat
  board_tenant :: tenant_id
  board_resource :: resource_type
  board_default :: bool
  is_personal :: bool

record column =
  column_id :: nat
  column_tenant :: tenant_id
  column_board :: nat
  column_name :: string
  column_order :: nat
  column_status :: "nat option"
  wip_limit :: "nat option"

record card =
  card_id :: nat
  card_tenant :: tenant_id
  card_column :: nat
  card_type :: content_type
  card_object :: nat
  card_order :: int

record webhook =
  webhook_id :: nat
  webhook_tenant :: tenant_id
  webhook_active :: bool
  webhook_events :: "webhook_event list"

record article =
  article_tenant :: tenant_id
  article_category :: string
  article_published :: bool

section \<open>What leaves the database\<close>

text \<open>
  Callbacks registered with \<open>transaction.on_commit\<close>; signals sent to the other
  applications; Celery tasks, which are queued at once and are not undone by a
  rollback.
\<close>

datatype callback =
    Broadcast nat string json
  | ScheduleResolved nat tenant
  | EmitClosed nat json
  | EmitBreach nat
  | PropagatePolicy nat tenant_id "nat list"
  | ConfirmCreated nat tenant_id
  | QueueCsat nat tenant

datatype sent_signal =
    TicketCreated nat user
  | TicketAssigned nat user "user option"
  | FirstResponseBreached nat instant instant
  | TicketClosed nat json
  | ResolutionBreached nat "instant option" "instant option"

datatype task =
    DeliverWebhook nat json
  | RevokeTask nat
  | AutoCloseTask nat nat instant
  | CsatTask nat instant
  | PropagateTask nat tenant_id "nat list"
  | TicketCreatedEmailTask nat tenant_id

record store =
  clock :: instant
  current_tenant :: "tenant_id option"
  zoneinfo_db :: "string \<Rightarrow> zone option"
  next_pk :: nat
  tickets :: "ticket list"
  counters :: "(tenant_id \<times> nat) list"
  users :: "user list"
  memberships :: "membership list"
  statuses :: "ticket_status list"
  queues :: "queue list"
  policies :: "sla_policy list"
  pauses :: "sla_pause list"
  timeline :: "timeline_entry list"
  audits :: "audit_entry list"
  contacts :: "contact list"
  contact_events :: "contact_event list"
  assignments :: "assignment list"
  comments :: "comment list"
  attachments :: "attachment list"
  links :: "ticket_link list"
  boards :: "board list"
  columns :: "column list"
  cards :: "card list"
  webhooks :: "webhook list"
  articles :: "article list"
  on_commit :: "callback list"
  signals :: "sent_signal list"
  outbox :: "task list"

text \<open>\<open>transaction.atomic\<close>: an exception restores everything but the tasks already queued.\<close>

definition rollback :: "store \<Rightarrow> store \<Rightarrow> store" where
  "rollback s s' = s\<lparr>outbox := outbox s'\<rparr>"

abbreviation atomic :: "(store, 'a) cmd \<Rightarrow> (store, 'a) cmd" where
  "atomic \<equiv> atomic_on rollback"

text \<open>The rows a \<open>TenantAwareManager\<close> sees: none without a tenant context.\<close>

definition scoped :: "store \<Rightarrow> ('r \<Rightarrow> tenant_id) \<Rightarrow> 'r list \<Rightarrow> 'r list" where
  "scoped s tenant_of rows = (case current_tenant s of
     None \<Rightarrow> [] | Some t \<Rightarrow> filter (\<lambda>r. tenant_of r = t) rows)"

text \<open>\<open>TicketStatus.objects\<close> in its default ordering, and \<open>.filter(p).first()\<close> on it.\<close>

definition first_status :: "(ticket_status \<Rightarrow> bool) \<Rightarrow> store \<Rightarrow> ticket_status option" where
  "first_status p s = first_by status_order (filter p (scoped s status_tenant (statuses s)))"

definition ticket_row :: "nat \<Rightarrow> store \<Rightarrow> ticket option" where
  "ticket_row i s = first_row (\<lambda>t. pk t = i) (tickets s)"

section \<open>JSON of model values\<close>

text \<open>A primary key, an instant in ISO format, an optional value.\<close>

definition jpk :: "nat \<Rightarrow> json" where
  "jpk i = JInt (int i)"

definition jtime :: "instant \<Rightarrow> json" where
  "jtime t = JInt t"

definition jopt :: "('a \<Rightarrow> json) \<Rightarrow> 'a option \<Rightarrow> json" where
  "jopt f x = (case x of None \<Rightarrow> JNull | Some a \<Rightarrow> f a)"

definition jemail :: "user option \<Rightarrow> json" where
  "jemail u = jopt (\<lambda>a. JStr (email a)) u"

end
