(* ===== verification/Ticket_Save.thy ===== *)
theory Ticket_Save
  imports Crm_Data "HOL-Library.AList"
begin

text \<open>
  Saving a ticket: \<open>Ticket.save\<close>, the \<open>pre_save\<close> and \<open>post_save\<close> receivers
  of \<open>apps/tickets/signals.py\<close> in their order of connection, and the two logs
  they write to (\<open>apps/comments/services.py\<close>, \<open>apps/tickets/services.py\<close>,
  \<open>apps/contacts/services.py\<close>).  Receivers save the ticket again; a nested
  save consumes one unit of the first argument of \<open>save_nested\<close>, and none
  left is Python's \<open>RecursionError\<close>.  Human-readable descriptions of log
  entries are not modelled, their structured data are.
\<close>

type_synonym 'a op = "(store, 'a) cmd"
type_synonym request = "(string \<times> string) list"

definition timezone_now :: "instant op" where
  "timezone_now = asks clock"

definition new_pk :: "nat op" where
  "new_pk = bindc (asks next_pk) (\<lambda>i. thenc (update (\<lambda>s. s\<lparr>next_pk := next_pk s + 1\<rparr>)) (ret i))"

section \<open>The logs\<close>

definition get_client_ip :: "request \<Rightarrow> string option" where
  "get_client_ip META = (case map_of META ''HTTP_X_FORWARDED_FOR'' of
     Some x \<Rightarrow> if x \<noteq> [] then Some (strip (hd (split_on (CHR '','') x))) else map_of META ''REMOTE_ADDR''
   | None \<Rightarrow> map_of META ''REMOTE_ADDR'')"

definition log_activity ::
  "tenant \<Rightarrow> user option \<Rightarrow> content_type \<Rightarrow> nat \<Rightarrow> action \<Rightarrow> json \<Rightarrow> request option \<Rightarrow> unit op" where
  "log_activity tnt actor ct object_id action changes request =
     update (\<lambda>s. s\<lparr>audits := audits s @
       [\<lparr>audit_tenant = tenant_id tnt, audit_type = ct, audit_object = object_id, audit_actor = actor,
         audit_action = action, audit_changes = changes,
         audit_ip = (case request of None \<Rightarrow> None | Some r \<Rightarrow> get_client_ip r), audit_at = clock s\<rparr>]\<rparr>)"

definition log_contact_event ::
  "contact \<Rightarrow> event \<Rightarrow> string \<Rightarrow> user option \<Rightarrow> (string \<times> json) list \<Rightarrow> unit op" where
  "log_contact_event c event_type source actor metadata =
     thenc (update (\<lambda>s. s\<lparr>contact_events := contact_events s @
       [\<lparr>ce_tenant = contact_tenant c, ce_contact = contact_id c, ce_event = event_type, ce_source = source, ce_actor = actor,
         ce_metadata = JObj metadata, ce_at = clock s\<rparr>]\<rparr>))
     (update (\<lambda>s. s\<lparr>contacts := map (\<lambda>r. if contact_id r = contact_id c
         then r\<lparr>last_activity_at := Some (clock s)\<rparr> else r) (contacts s)\<rparr>))"

text \<open>\<open>_create_ticket_activity\<close>\<close>

definition create_timeline_entry ::
  "ticket \<Rightarrow> event \<Rightarrow> user option \<Rightarrow> (string \<times> json) list \<Rightarrow> unit op" where
  "create_timeline_entry t event actor metadata =
     thenc (update (\<lambda>s. s\<lparr>timeline := timeline s @
       [\<lparr>act_ticket = pk t, act_contact = map_option contact_id (contact_of t), act_actor = actor,
         act_event = event, act_metadata = JObj metadata, act_at = clock s\<rparr>]\<rparr>))
     (case contact_of t of
        None \<Rightarrow> ret ()
      | Some c \<Rightarrow> try_except
          (log_contact_event c event ''ticket'' actor
             (dict_merge [(''ticket_id'', jpk (pk t)), (''ticket_number'', JInt (int (number t)))] metadata))
          (\<lambda>_. ret ()))"

definition broadcast_ticket_event :: "ticket \<Rightarrow> string \<Rightarrow> json \<Rightarrow> unit op" where
  "broadcast_ticket_event t event_type extra_data =
     update (\<lambda>s. s\<lparr>on_commit := on_commit s @ [Broadcast (pk t) event_type extra_data]\<rparr>)"

fun webhook_event_name :: "webhook_event \<Rightarrow> string" where
  "webhook_event_name WTicketCreated = ''ticket.created''"
| "webhook_event_name WTicketUpdated = ''ticket.updated''"
| "webhook_event_name WTicketAssigned = ''ticket.assigned''"
| "webhook_event_name WTicketClosed = ''ticket.closed''"
| "webhook_event_name WTicketReopened = ''ticket.reopened''"
| "webhook_event_name WTicketComment = ''ticket.comment''"
| "webhook_event_name WSlaBreached = ''sla.breached''"
| "webhook_event_name WTicketEscalated = ''ticket.escalated''"

definition fire_webhooks :: "tenant \<Rightarrow> webhook_event \<Rightarrow> (string \<times> json) list \<Rightarrow> unit op" where
  "fire_webhooks tnt event_type payload_data =
     update (\<lambda>s.
       let hooks = filter (\<lambda>w. webhook_tenant w = tenant_id tnt \<and> webhook_active w) (webhooks s);
           matching = filter (\<lambda>w. event_type \<in> set (webhook_events w)) hooks;
           payload = JObj [(''event'', JStr (webhook_event_name event_type)), (''timestamp'', jtime (clock s)),
                           (''tenant_id'', jpk (tenant_id tnt)), (''data'', JObj payload_data)]
       in s\<lparr>outbox := outbox s @ map (\<lambda>w. DeliverWebhook (webhook_id w) payload) matching\<rparr>)"

definition log_sla_change ::
  "ticket \<Rightarrow> instant option \<Rightarrow> instant option \<Rightarrow> string \<Rightarrow> user option \<Rightarrow> unit op" where
  "log_sla_change t old_response_due old_resolution_due triggered_by actor =
     (if old_response_due = sla_first_response_due t \<and> old_resolution_due = sla_resolution_due t then ret ()
      else let changes =
             [(''sla_first_response_due'', JObj [(''before'', jopt jtime old_response_due),
                                                 (''after'', jopt jtime (sla_first_response_due t))]),
              (''sla_resolution_due'', JObj [(''before'', jopt jtime old_resolution_due),
                                             (''after'', jopt jtime (sla_resolution_due t))]),
              (''triggered_by'', JStr triggered_by)]
      in try_except
           (thenc (log_activity (ticket_tenant t) actor TicketCT (pk t) ASlaUpdated (JObj changes) None)
                  (create_timeline_entry t EStatusChanged actor changes))
           (\<lambda>_. ret ()))"

section \<open>Before the save\<close>

text \<open>\<open>handle_ticket_status_change\<close>\<close>

definition remember_previous :: "ticket \<Rightarrow> ticket \<Rightarrow> ticket" where
  "remember_previous previous t = t\<lparr>flags := (flags t)\<lparr>
     old_status_name := map_option status_name (status previous),
     old_priority := priority previous,
     old_assignee_id := map_option user_id (assignee previous),
     old_assignee_name := map_option get_full_name (assignee previous),
     status_changed := map_option status_id (status previous) \<noteq> map_option status_id (status t),
     priority_changed := priority previous \<noteq> priority t,
     assignee_changed := map_option user_id (assignee previous) \<noteq> map_option user_id (assignee t),
     stage_changed := map_option stage_id (ticket_stage previous) \<noteq> map_option stage_id (ticket_stage t),
     old_pauses_sla := (case status previous of Some st \<Rightarrow> pauses_sla st | None \<Rightarrow> False)\<rparr>\<rparr>"

text \<open>\<open>x = x or v\<close> on a nullable column.\<close>

definition or_set :: "'a option \<Rightarrow> 'a \<Rightarrow> 'a option" where
  "or_set x v = (case x of None \<Rightarrow> Some v | Some a \<Rightarrow> Some a)"

definition stamp_lifecycle :: "instant \<Rightarrow> ticket \<Rightarrow> ticket" where
  "stamp_lifecycle now t =
     (if (case status t of Some st \<Rightarrow> is_closed st | None \<Rightarrow> False) then
        let t = t\<lparr>resolved_at := or_set (resolved_at t) now, closed_at := or_set (closed_at t) now\<rparr>
        in (case (sla_resolution_breached t, sla_resolution_due t, closed_at t) of
              (False, Some due, Some closed_ts) \<Rightarrow>
                if closed_ts > due then t\<lparr>sla_resolution_breached := True\<rparr> else t
            | _ \<Rightarrow> t)
      else t\<lparr>resolved_at := None, closed_at := None\<rparr>)"

definition handle_ticket_status_change :: "store \<Rightarrow> ticket \<Rightarrow> ticket" where
  "handle_ticket_status_change s t = (case ticket_row (pk t) s of
     None \<Rightarrow> t
   | Some previous \<Rightarrow>
       let t = remember_previous previous t
       in if \<not> status_changed (flags t) then t else stamp_lifecycle (clock s) t)"

section \<open>After the save\<close>

definition send_signal :: "sent_signal \<Rightarrow> unit op" where
  "send_signal sig = update (\<lambda>s. s\<lparr>signals := signals s @ [sig]\<rparr>)"

definition fire_ticket_created_signal :: "bool \<Rightarrow> ticket \<Rightarrow> unit op" where
  "fire_ticket_created_signal created t = whenc created (send_signal (TicketCreated (pk t) (created_by t)))"

definition fire_ticket_assigned_signal :: "bool \<Rightarrow> tcol list option \<Rightarrow> ticket \<Rightarrow> unit op" where
  "fire_ticket_assigned_signal created uf t = (case assignee t of
     None \<Rightarrow> ret ()
   | Some a \<Rightarrow>
       if created then send_signal (TicketAssigned (pk t) a (Some (created_by t)))
       else (case uf of
           Some cs \<Rightarrow> whenc (CAssignee \<in> set cs) (send_signal (TicketAssigned (pk t) a None))
         | None \<Rightarrow> ret ()))"

definition activity_already_logged :: "store \<Rightarrow> ticket \<Rightarrow> action \<Rightarrow> bool" where
  "activity_already_logged s t action =
     (\<exists>a \<in> set (scoped s audit_tenant (audits s)). audit_type a = TicketCT \<and> audit_object a = pk t \<and>
        audit_action a = action \<and> audit_at a \<ge> clock s - 2000000)"

definition log_unless_recent :: "ticket \<Rightarrow> action \<Rightarrow> json \<Rightarrow> unit op" where
  "log_unless_recent t action changes =
     bindc (asks (\<lambda>s. activity_already_logged s t action)) (\<lambda>recent.
       whenc (\<not> recent) (log_activity (ticket_tenant t) None TicketCT (pk t) action changes None))"

definition log_ticket_activity :: "bool \<Rightarrow> ticket \<Rightarrow> unit op" where
  "log_ticket_activity created t =
     (let f = flags t in
      whenc (\<not> created \<and> \<not> skip_signal_logging f)
        (thenc (whenc (status_changed f)
            (log_unless_recent t AStatusChanged
              (JObj [(''status'', JList [jopt JStr (old_status_name f),
                                         jopt (JStr \<circ> status_name) (status t)])])))
        (thenc (whenc (priority_changed f)
            (log_unless_recent t AFieldChanged
              (JObj [(''priority'', JList [JStr (old_priority f), JStr (priority t)])])))
        (whenc (assignee_changed f)
            (log_unless_recent t AAssigned
              (JObj [(''assignee'', JList [jopt jpk (old_assignee_id f),
                                           jopt (jpk \<circ> user_id) (assignee t)])]))))))"

section \<open>The SLA clock at a change of status\<close>

text \<open>The receivers that save the ticket again take the save as \<open>sv\<close>.\<close>

type_synonym saver = "tcol list option \<Rightarrow> ticket \<Rightarrow> ticket op"

definition shift_first_due :: "(string \<Rightarrow> zone option) \<Rightarrow> int \<Rightarrow> ticket \<Rightarrow> (ticket \<times> tcol list) op" where
  "shift_first_due zi mins t = (case sla_first_response_due t of
     None \<Rightarrow> ret (t, [])
   | Some due \<Rightarrow> bindc (lift_res (add_business_minutes zi due mins (ticket_tenant t))) (\<lambda>d.
       ret (t\<lparr>sla_first_response_due := Some d\<rparr>, [CFirstResponseDue])))"

definition shift_resolution_due ::
  "(string \<Rightarrow> zone option) \<Rightarrow> int \<Rightarrow> ticket \<times> tcol list \<Rightarrow> (ticket \<times> tcol list) op" where
  "shift_resolution_due zi mins = (\<lambda>(t, uf). case sla_resolution_due t of
     None \<Rightarrow> ret (t, uf)
   | Some due \<Rightarrow> bindc (lift_res (add_business_minutes zi due mins (ticket_tenant t))) (\<lambda>d.
       ret (t\<lparr>sla_resolution_due := Some d\<rparr>, uf @ [CResolutionDue])))"

definition finish_shift :: "saver \<Rightarrow> ticket \<Rightarrow> ticket \<times> tcol list \<Rightarrow> ticket op" where
  "finish_shift sv old = (\<lambda>(t, uf).
     bindc (sv (Some (uf @ [CUpdatedAt])) t) (\<lambda>saved.
       thenc (log_sla_change saved (sla_first_response_due old) (sla_resolution_due old) ''pause_resume'' None)
         (ret saved)))"

definition shift_sla_deadlines :: "saver \<Rightarrow> ticket \<Rightarrow> instant \<Rightarrow> instant \<Rightarrow> ticket op" where
  "shift_sla_deadlines sv t pause_start pause_end =
     bindc (asks zoneinfo_db) (\<lambda>zi.
     bindc (lift_res (elapsed_business_minutes zi pause_start pause_end (TenantArg (ticket_tenant t)))) (\<lambda>mins.
       if mins \<le> 0 then ret t
       else if sla_first_response_due t = None \<and> sla_resolution_due t = None then ret t
       else bindc (shift_first_due zi mins t) (\<lambda>draft.
            bindc (shift_resolution_due zi mins draft) (finish_shift sv t))))"

definition close_pause :: "sla_pause \<Rightarrow> instant \<Rightarrow> unit op" where
  "close_pause p now = update (\<lambda>s. s\<lparr>pauses := map (\<lambda>r. if pause_id r = pause_id p
     then r\<lparr>resumed_at := Some now\<rparr> else r) (pauses s)\<rparr>)"

definition finish_resume :: "saver \<Rightarrow> sla_pause \<Rightarrow> instant \<Rightarrow> string \<Rightarrow> ticket \<Rightarrow> ticket op" where
  "finish_resume sv p now reason t =
     bindc (sv (Some [CPausedAt, CUpdatedAt]) (t\<lparr>sla_paused_at := None\<rparr>)) (\<lambda>saved.
       thenc (create_timeline_entry saved ESlaResumed None
         [(''pause_id'', jpk (pause_id p)),
          (''duration_minutes'', JInt (trunc_div (now - paused_at p) minute_us)),
          (''reason'', JStr reason)])
       (ret saved))"

definition open_pause :: "nat \<Rightarrow> store \<Rightarrow> sla_pause option" where
  "open_pause i s = first_by (\<lambda>p. - paused_at p)
     (filter (\<lambda>p. pause_ticket p = i \<and> resumed_at p = None) (pauses s))"

definition resume_sla_pause :: "saver \<Rightarrow> ticket \<Rightarrow> instant \<Rightarrow> string \<Rightarrow> ticket op" where
  "resume_sla_pause sv t now reason =
     bindc (asks (open_pause (pk t))) (\<lambda>found. case found of
       None \<Rightarrow> ret t
     | Some p \<Rightarrow> thenc (close_pause p now)
         (bindc (shift_sla_deadlines sv t (paused_at p) now) (finish_resume sv p now reason)))"

text \<open>The pause that a status with \<open>pauses_sla\<close> opens.\<close>

definition open_sla_pause :: "saver \<Rightarrow> ticket \<Rightarrow> instant \<Rightarrow> ticket op" where
  "open_sla_pause sv t now =
     bindc new_pk (\<lambda>i.
     thenc (update (\<lambda>s. s\<lparr>pauses := pauses s @
         [\<lparr>pause_id = i, pause_ticket = pk t, paused_at = now, resumed_at = None\<rparr>]\<rparr>))
     (bindc (sv (Some [CPausedAt, CUpdatedAt]) (t\<lparr>sla_paused_at := Some now\<rparr>)) (\<lambda>saved.
       thenc (create_timeline_entry saved ESlaPaused None
         [(''status'', jopt (JStr \<circ> status_name) (status saved)),
          (''reason'', JStr ''waiting_on_customer'')])
       (ret saved))))"

definition handle_sla_pause_on_status_change :: "saver \<Rightarrow> bool \<Rightarrow> ticket \<Rightarrow> ticket op" where
  "handle_sla_pause_on_status_change sv created t =
     (let old_pauses = old_pauses_sla (flags t);
          new_pauses = (case status t of Some st \<Rightarrow> pauses_sla st | None \<Rightarrow> False)
      in if created \<or> \<not> status_changed (flags t) \<or> old_pauses = new_pauses then ret t
         else bindc timezone_now (\<lambda>now.
           if new_pauses then open_sla_pause sv t now
           else resume_sla_pause sv t now ''status_change''))"

section \<open>The kanban cards of a ticket\<close>

text \<open>\<open>column.cards\<close>, and \<open>card.save(update_fields=["column", "order"])\<close>.\<close>

definition column_cards :: "store \<Rightarrow> nat \<Rightarrow> card list" where
  "column_cards s col = filter (\<lambda>c. card_column c = col) (scoped s card_tenant (cards s))"

definition save_card :: "card \<Rightarrow> unit op" where
  "save_card c = update (\<lambda>s. s\<lparr>cards := map (\<lambda>r. if card_id r = card_id c
     then r\<lparr>card_column := card_column c, card_order := card_order c\<rparr> else r) (cards s)\<rparr>)"

definition ticket_cards :: "store \<Rightarrow> nat \<Rightarrow> card list" where
  "ticket_cards s i = sort_key card_order
     (filter (\<lambda>c. card_type c = TicketCT \<and> card_object c = i) (scoped s card_tenant (cards s)))"

definition board_column :: "store \<Rightarrow> nat \<Rightarrow> (column \<Rightarrow> bool) \<Rightarrow> column option" where
  "board_column s b p =
     first_by column_order (filter (\<lambda>c. column_board c = b \<and> p c) (scoped s column_tenant (columns s)))"

definition create_kanban_card_on_ticket_save :: "bool \<Rightarrow> tcol list option \<Rightarrow> ticket \<Rightarrow> unit op" where
  "create_kanban_card_on_ticket_save created uf t =
     (if \<not> created \<and> \<not> assignee_changed (flags t) \<and>
         (case uf of None \<Rightarrow> True | Some cs \<Rightarrow> CAssignee \<notin> set cs)
      then ret ()
      else try_except
        (bindc (asks (\<lambda>s. first_row (\<lambda>b. board_tenant b = tenant_id (ticket_tenant t) \<and>
             board_resource b = TicketBoard \<and> board_default b) (scoped s board_tenant (boards s)))) (\<lambda>found.
         case found of None \<Rightarrow> ret () | Some b \<Rightarrow>
           bindc (asks (\<lambda>s. \<exists>c \<in> set (ticket_cards s (pk t)). \<exists>k \<in> set (columns s).
               column_id k = card_column c \<and> column_board k = board_id b)) (\<lambda>existing.
             if existing then ret ()
             else bindc (asks (\<lambda>s. case board_column s (board_id b)
                        (\<lambda>k. column_status k = map_option status_id (status t)) of
                      Some k \<Rightarrow> Some k
                    | None \<Rightarrow> board_column s (board_id b) (\<lambda>_. True))) (\<lambda>target.
               case target of None \<Rightarrow> ret () | Some k \<Rightarrow>
                 bindc (asks (\<lambda>s. (int (length (column_cards s (column_id k))), current_tenant s))) (\<lambda>(new_order, ctx).
                   case ctx of
                     None \<Rightarrow> raise_exc (ValueError ''Cannot save CardPosition without a tenant context.'')
                   | Some ten \<Rightarrow> bindc new_pk (\<lambda>i. update (\<lambda>s. s\<lparr>cards := cards s @
                       [\<lparr>card_id = i, card_tenant = ten, card_column = column_id k, card_type = TicketCT,
                         card_object = pk t, card_order = new_order\<rparr>]\<rparr>)))))))
        (\<lambda>_. ret ()))"

definition move_to_matching_column :: "(column \<Rightarrow> bool) \<Rightarrow> card \<Rightarrow> unit \<Rightarrow> unit op" where
  "move_to_matching_column p c _ =
     bindc (asks (\<lambda>s. first_row (\<lambda>k. column_id k = card_column c) (columns s))) (\<lambda>own.
     case own of None \<Rightarrow> ret () | Some k0 \<Rightarrow>
       bindc (asks (\<lambda>s. board_column s (column_board k0) p)) (\<lambda>target.
         case target of None \<Rightarrow> ret () | Some k \<Rightarrow>
           whenc (column_id k \<noteq> card_column c)
             (bindc (asks (\<lambda>s. int (length (column_cards s (column_id k))))) (\<lambda>new_order.
               save_card (c\<lparr>card_column := column_id k, card_order := new_order\<rparr>)))))"

definition sync_kanban_card_on_status_change :: "bool \<Rightarrow> tcol list option \<Rightarrow> ticket \<Rightarrow> unit op" where
  "sync_kanban_card_on_status_change created uf t =
     (if created \<or> (case uf of None \<Rightarrow> False | Some cs \<Rightarrow> cs \<noteq> [] \<and> CStatus \<notin> set cs) then ret ()
      else try_except
        (bindc (asks (\<lambda>s. ticket_cards s (pk t))) (\<lambda>found.
          for_each found (move_to_matching_column
            (\<lambda>k. column_status k = map_option status_id (status t))) ()))
        (\<lambda>_. ret ()))"

definition sync_kanban_card_on_pipeline_stage_change :: "bool \<Rightarrow> ticket \<Rightarrow> unit op" where
  "sync_kanban_card_on_pipeline_stage_change created t =
     (if created \<or> \<not> stage_changed (flags t) then ret ()
      else case ticket_stage t of
          None \<Rightarrow> ret ()
        | Some stage \<Rightarrow> try_except
            (bindc (asks (\<lambda>s. ticket_cards s (pk t))) (\<lambda>found.
              for_each found (move_to_matching_column
                (\<lambda>k. lower (column_name k) = lower (stage_name stage))) ()))
            (\<lambda>_. ret ()))"

definition remove_kanban_cards_on_ticket_delete :: "nat \<Rightarrow> unit op" where
  "remove_kanban_cards_on_ticket_delete i =
     update (\<lambda>s. s\<lparr>cards := filter (\<lambda>c. \<not> (card_type c = TicketCT \<and> card_object c = i)) (cards s)\<rparr>)"

section \<open>The save\<close>

definition next_number :: "tenant_id \<Rightarrow> nat op" where
  "next_number ten =
     bindc (asks (\<lambda>s. map_of (counters s) ten)) (\<lambda>counter.
       let n = (case counter of Some k \<Rightarrow> k | None \<Rightarrow> 0) + 1
       in thenc (update (\<lambda>s. s\<lparr>counters := AList.update ten n (counters s)\<rparr>)) (ret n))"

text \<open>\<open>Ticket.save\<close> up to \<open>super().save\<close>: the number and the company of the contact.\<close>

definition fill_number :: "ticket \<Rightarrow> ticket op" where
  "fill_number t = (if number t = 0
     then bindc (next_number (tenant_id (ticket_tenant t))) (\<lambda>n. ret (t\<lparr>number := n\<rparr>))
     else ret t)"

definition fill_company :: "store \<Rightarrow> ticket \<Rightarrow> ticket" where
  "fill_company s t = (case (contact_of t, company t) of
     (Some c, None) \<Rightarrow>
       (case first_row (\<lambda>r. contact_id r = contact_id c) (contacts s) of
          Some r \<Rightarrow> t\<lparr>company := contact_company r\<rparr>
        | None \<Rightarrow> t)
   | _ \<Rightarrow> t)"

text \<open>
  \<open>INSERT\<close> of a new row or \<open>UPDATE\<close> of the named columns, with the automatic
  \<open>created_at\<close> and \<open>updated_at\<close>; the result says whether the row is new.
\<close>

definition write_row :: "tcol list option \<Rightarrow> ticket \<Rightarrow> (bool \<times> ticket) op" where
  "write_row uf t = bindc timezone_now (\<lambda>now.
     bindc (asks (ticket_row (pk t))) (\<lambda>row.
       case (row, uf) of
         (None, None) \<Rightarrow>
           (let t = t\<lparr>created_at := now, updated_at := now\<rparr>
            in thenc (update (\<lambda>s. s\<lparr>tickets := t\<lparr>flags := no_flags\<rparr> # tickets s\<rparr>)) (ret (True, t)))
       | (None, Some _) \<Rightarrow> raise_exc (DatabaseError ''Save with update_fields did not affect any rows.'')
       | (Some _, None) \<Rightarrow>
           (let t = t\<lparr>updated_at := now\<rparr>
            in thenc (update (\<lambda>s. s\<lparr>tickets := map (\<lambda>r. if pk r = pk t
                  then t\<lparr>flags := no_flags\<rparr> else r) (tickets s)\<rparr>)) (ret (False, t)))
       | (Some _, Some cs) \<Rightarrow>
           (let t = (if CUpdatedAt \<in> set cs then t\<lparr>updated_at := now\<rparr> else t)
            in thenc (update (\<lambda>s. s\<lparr>tickets := map (\<lambda>r. if pk r = pk t
                  then write_columns cs t r else r) (tickets s)\<rparr>)) (ret (False, t)))))"

definition before_save :: "ticket \<Rightarrow> ticket op" where
  "before_save t = bindc (fill_number t) (\<lambda>t.
     bindc (asks (\<lambda>s. handle_ticket_status_change s (fill_company s t))) ret)"

definition post_save :: "saver \<Rightarrow> bool \<Rightarrow> tcol list option \<Rightarrow> ticket \<Rightarrow> ticket op" where
  "post_save sv created uf t =
     thenc (fire_ticket_created_signal created t)
     (thenc (fire_ticket_assigned_signal created uf t)
     (thenc (log_ticket_activity created t)
     (bindc (handle_sla_pause_on_status_change sv created t) (\<lambda>t.
      thenc (create_kanban_card_on_ticket_save created uf t)
     (thenc (sync_kanban_card_on_status_change created uf t)
     (thenc (sync_kanban_card_on_pipeline_stage_change created t)
        (ret t)))))))"

fun save_nested :: "nat \<Rightarrow> saver" where
  "save_nested 0 uf t = raise_exc RecursionError"
| "save_nested (Suc n) uf t =
     bindc (before_save t) (\<lambda>t.
     bindc (write_row uf t) (\<lambda>(created, t).
       post_save (save_nested n) created uf t))"

definition recursion_limit :: nat where "recursion_limit = 100"

definition save_ticket :: saver where
  "save_ticket = save_nested recursion_limit"

declare save_nested.simps(2) [simp del]

end
