(* ===== verification/Ticket_Workflow.thy ===== *)
theory Ticket_Workflow
  imports Ticket_Save
begin

text \<open>
  The ticket operations of \<open>apps/tickets/services.py\<close>: creation log, SLA
  attachment, assignment, status transitions and waiting, closing,
  escalation, priority, comments, first response, bulk updates, merge, split,
  macros, pipeline stages, and the callbacks they register for the commit.  An
  operation takes the instance it works on and returns it as it leaves it.
\<close>

section \<open>Creation and assignment\<close>

definition active_policy :: "ticket \<Rightarrow> store \<Rightarrow> sla_policy option" where
  "active_policy t s = first_row (\<lambda>p. policy_tenant p = tenant_id (ticket_tenant t) \<and>
     policy_priority p = priority t \<and> policy_active p) (policies s)"

definition initialize_sla :: "ticket \<Rightarrow> ticket op" where
  "initialize_sla t =
     bindc (asks (active_policy t)) (\<lambda>found. case found of
       None \<Rightarrow> ret t
     | Some policy \<Rightarrow>
         bindc timezone_now (\<lambda>now.
         bindc (asks zoneinfo_db) (\<lambda>zi.
         bindc (lift_res (add_business_minutes zi now (first_response_minutes policy * minute_us)
                  (ticket_tenant t))) (\<lambda>response_due.
         bindc (lift_res (add_business_minutes zi now (resolution_minutes policy * minute_us)
                  (ticket_tenant t))) (\<lambda>resolution_due.
           save_ticket (Some [CPolicy, CFirstResponseDue, CResolutionDue, CUpdatedAt])
             (t\<lparr>ticket_policy := Some policy, sla_first_response_due := Some response_due,
                sla_resolution_due := Some resolution_due\<rparr>))))))"

definition create_ticket_activity :: "ticket \<Rightarrow> user option \<Rightarrow> request option \<Rightarrow> unit op" where
  "create_ticket_activity t actor request =
     thenc (log_activity (ticket_tenant t) actor TicketCT (pk t) ACreated (JObj []) request)
     (thenc (create_timeline_entry t ECreated actor [])
     (thenc (broadcast_ticket_event t ''ticket_created'' JNull)
     (fire_webhooks (ticket_tenant t) WTicketCreated
        [(''ticket_id'', jpk (pk t)), (''ticket_number'', JInt (int (number t))),
         (''subject'', JStr (subject t)), (''priority'', JStr (priority t)),
         (''created_by'', jemail actor)])))"

definition is_active_member :: "store \<Rightarrow> user \<Rightarrow> tenant \<Rightarrow> bool" where
  "is_active_member s u tnt \<longleftrightarrow> (\<exists>m \<in> set (memberships s).
     user_id (member_user m) = user_id u \<and> member_tenant m = tenant_id tnt \<and> member_active m)"

definition create_assignment :: "ticket \<Rightarrow> user \<Rightarrow> user option \<Rightarrow> string \<Rightarrow> unit op" where
  "create_assignment t u actor note = update (\<lambda>s. s\<lparr>assignments := assignments s @
     [\<lparr>asg_ticket = pk t, asg_to = u, asg_by = actor, asg_note = note,
       asg_tenant = tenant_id (ticket_tenant t), asg_at = clock s\<rparr>]\<rparr>)"

definition not_a_member :: pyexc where
  "not_a_member = ValueError ''Assignee is not an active member of this tenant.''"

definition auto_transition_target :: "store \<Rightarrow> ticket \<Rightarrow> ticket_status option" where
  "auto_transition_target s t =
     (if (case settings (ticket_tenant t) of None \<Rightarrow> True | Some ts \<Rightarrow> auto_transition_on_assign ts)
      then (case status t of
          None \<Rightarrow> None
        | Some st \<Rightarrow>
            if is_default st \<and> \<not> is_closed st then
              (case first_status (\<lambda>x. status_tenant x = tenant_id (ticket_tenant t) \<and>
                                      status_slug x = ''in-progress'') s of
                 None \<Rightarrow> None
               | Some ip \<Rightarrow> if status_id ip \<noteq> status_id st then Some ip else None)
            else None)
      else None)"

definition status_change_message :: "string \<Rightarrow> string \<Rightarrow> string" where
  "status_change_message old new = ''Status changed from '' @ old @ '' to '' @ new"

definition old_status_of_message :: "string \<Rightarrow> string" where
  "old_status_of_message msg = hd (split_sub '' to '' (split_sub '' from '' msg ! 1))"

text \<open>\<open>ticket._skip_signal_logging = True\<close>\<close>

definition quietly :: "ticket \<Rightarrow> ticket" where
  "quietly t = t\<lparr>flags := (flags t)\<lparr>skip_signal_logging := True\<rparr>\<rparr>"

definition assign_ticket ::
  "ticket \<Rightarrow> user \<Rightarrow> user option \<Rightarrow> request option \<Rightarrow> string \<Rightarrow> ticket op" where
  "assign_ticket t new_assignee actor request note = atomic (
     let tnt = ticket_tenant t;
         prev_name = map_option display_name (assignee t);
         new_name = display_name new_assignee
     in bindc (asks (\<lambda>s. is_active_member s new_assignee tnt)) (\<lambda>member.
        if \<not> member then raise_exc not_a_member
        else bindc timezone_now (\<lambda>now.
        bindc (asks (\<lambda>s. auto_transition_target s t)) (\<lambda>in_progress.
        let t1 = t\<lparr>assignee := Some new_assignee, assigned_by := actor, assigned_at := Some now\<rparr>;
            uf = [CAssignee, CAssignedBy, CAssignedAt, CUpdatedAt];
            (t2, uf2, auto_msg) = (case in_progress of
                None \<Rightarrow> (t1, uf, None)
              | Some ip \<Rightarrow> (t1\<lparr>status := Some ip\<rparr>, uf @ [CStatus],
                  Some (status_change_message (case status t of Some st \<Rightarrow> status_name st | None \<Rightarrow> []) (status_name ip))))
        in bindc (save_ticket (Some uf2) (quietly t2)) (\<lambda>t3.
        thenc (create_assignment t3 new_assignee actor note)
        (thenc (log_activity tnt actor TicketCT (pk t3) AAssigned
            (JObj [(''assignee'', JList [jopt JStr prev_name, JStr new_name])]) request)
        (thenc (create_timeline_entry t3 EAssigned actor
            [(''previous_assignee'', jopt JStr prev_name), (''new_assignee'', JStr new_name)])
        (thenc (case auto_msg of
            None \<Rightarrow> ret ()
          | Some msg \<Rightarrow>
              thenc (log_activity tnt actor TicketCT (pk t3) AStatusChanged
                (JObj [(''status'', JList [JStr (old_status_of_message msg),
                                           jopt (JStr \<circ> status_name) (status t3)])]) request)
              (create_timeline_entry t3 EStatusChanged actor
                [(''old_status'', JStr (old_status_of_message msg)),
                 (''new_status'', jopt (JStr \<circ> status_name) (status t3)),
                 (''reason'', JStr ''Auto-transitioned on assignment'')]))
        (thenc (broadcast_ticket_event t3 ''ticket_assigned''
            (JObj [(''previous_assignee'', jopt JStr prev_name), (''new_assignee'', JStr new_name)]))
        (thenc (fire_webhooks tnt WTicketAssigned
            [(''ticket_id'', jpk (pk t3)), (''ticket_number'', JInt (int (number t3))),
             (''assignee'', JStr new_name), (''assigned_by'', jemail actor)])
        (ret t3)))))))))))"

section \<open>Status transitions\<close>

definition ALLOWED_TRANSITIONS :: "(string \<times> string list) list" where
  "ALLOWED_TRANSITIONS =
     [(''open'', [''in-progress'', ''waiting'', ''resolved'', ''closed'']),
      (''in-progress'', [''open'', ''waiting'', ''resolved'', ''closed'']),
      (''waiting'', [''open'', ''in-progress'', ''resolved'', ''closed'']),
      (''resolved'', [''closed'', ''open'']),
      (''closed'', [])]"

definition validate_status_transition :: "ticket \<Rightarrow> ticket_status \<Rightarrow> unit res" where
  "validate_status_transition t new_status = (case status t of
     None \<Rightarrow> Inr ()
   | Some old_status \<Rightarrow>
       if status_id old_status = status_id new_status then Inr ()
       else case map_of ALLOWED_TRANSITIONS (status_slug old_status) of
           None \<Rightarrow> Inr ()
         | Some allowed \<Rightarrow>
             if allowed = [] then Inl (ValidationError
               (''Cannot transition from '' @ quoted (status_name old_status) @ '' '' @ em_dash @ '' ''
                @ quoted (status_slug old_status) @ '' is a terminal status.''))
             else if status_slug new_status \<notin> set allowed then Inl (ValidationError
               (''Cannot transition from '' @ quoted (status_name old_status) @ '' to '' @ quoted (status_name new_status)
                @ ''. Allowed transitions from '' @ quoted (status_slug old_status) @ '': ''
                @ join '', '' allowed @ ''.''))
             else Inr ())"

definition check_resolution_breach :: "instant \<Rightarrow> ticket \<Rightarrow> ticket" where
  "check_resolution_breach now t =
     (if sla_resolution_breached t then t
      else case sla_resolution_due t of
          None \<Rightarrow> t
        | Some due \<Rightarrow>
            if (case closed_at t of Some c \<Rightarrow> c | None \<Rightarrow> now) > due
            then t\<lparr>sla_resolution_breached := True\<rparr> else t)"

definition cancel_auto_close_task :: "ticket \<Rightarrow> unit op" where
  "cancel_auto_close_task t = (case auto_close_task_id t of
     None \<Rightarrow> ret ()
   | Some i \<Rightarrow> update (\<lambda>s. s\<lparr>outbox := outbox s @ [RevokeTask i]\<rparr>))"

text \<open>
  \<open>change_ticket_status\<close> up to the save, one function per stanza: each takes
  the old status and the pair of the instance and the \<open>update_fields\<close>.
\<close>

type_synonym draft = "ticket \<times> tcol list"

definition status_flag :: "(ticket_status \<Rightarrow> bool) \<Rightarrow> ticket_status option \<Rightarrow> bool" where
  "status_flag p st = (case st of Some x \<Rightarrow> p x | None \<Rightarrow> False)"

definition has_slug :: "ticket_status option \<Rightarrow> string \<Rightarrow> bool" where
  "has_slug st slug = status_flag (\<lambda>x. status_slug x = slug) st"

definition set_status :: "instant \<Rightarrow> ticket_status \<Rightarrow> user option \<Rightarrow> ticket \<Rightarrow> draft" where
  "set_status now new actor t =
     (t\<lparr>status := Some new, status_changed_at := Some now, status_changed_by := actor\<rparr>,
      [CStatus, CStatusChangedAt, CStatusChangedBy, CUpdatedAt])"

definition snapshot_wait :: "ticket_status option \<Rightarrow> ticket_status \<Rightarrow> draft \<Rightarrow> draft" where
  "snapshot_wait old new = (\<lambda>(t, uf).
     if pauses_sla new \<and> \<not> status_flag pauses_sla old then (t\<lparr>pre_wait_status := old\<rparr>, uf @ [CPreWaitStatus])
     else if status_flag pauses_sla old \<and> \<not> pauses_sla new then (t\<lparr>pre_wait_status := None\<rparr>, uf @ [CPreWaitStatus])
     else (t, uf))"

definition mark_solved :: "instant \<Rightarrow> ticket_status option \<Rightarrow> ticket_status \<Rightarrow> draft \<Rightarrow> draft" where
  "mark_solved now old new = (\<lambda>(t, uf).
     if status_slug new = ''resolved'' \<and> \<not> has_slug old ''resolved''
     then (t\<lparr>solved_at := Some now\<rparr>, uf @ [CSolvedAt]) else (t, uf))"

definition leaves_resolved :: "ticket_status option \<Rightarrow> ticket_status \<Rightarrow> bool" where
  "leaves_resolved old new \<longleftrightarrow> has_slug old ''resolved'' \<and> status_slug new \<noteq> ''resolved''"

definition unmark_solved :: "ticket_status option \<Rightarrow> ticket_status \<Rightarrow> draft \<Rightarrow> draft" where
  "unmark_solved old new = (\<lambda>(t, uf).
     if leaves_resolved old new
     then (t\<lparr>solved_at := None, auto_close_task_id := None\<rparr>, uf @ [CSolvedAt, CAutoCloseTaskId]) else (t, uf))"

definition stamp_closure :: "instant \<Rightarrow> ticket_status option \<Rightarrow> ticket_status \<Rightarrow> draft \<Rightarrow> draft" where
  "stamp_closure now old new = (\<lambda>(t, uf).
     if is_closed new \<and> \<not> status_flag is_closed old then
       (t\<lparr>resolved_at := or_set (resolved_at t) now, closed_at := or_set (closed_at t) now\<rparr>,
        uf @ [CResolvedAt, CClosedAt])
     else if status_flag is_closed old \<and> \<not> is_closed new then
       (t\<lparr>resolved_at := None, closed_at := None\<rparr>, uf @ [CResolvedAt, CClosedAt])
     else (t, uf))"

definition flag_breach :: "instant \<Rightarrow> ticket_status option \<Rightarrow> ticket_status \<Rightarrow> draft \<Rightarrow> draft" where
  "flag_breach now old new = (\<lambda>(t, uf).
     if is_closed new \<and> \<not> status_flag is_closed old then
       (let t = check_resolution_breach now t
        in (t, if sla_resolution_breached t then uf @ [CResolutionBreached] else uf))
     else (t, uf))"

definition draft_status_change :: "instant \<Rightarrow> ticket_status \<Rightarrow> user option \<Rightarrow> ticket \<Rightarrow> draft" where
  "draft_status_change now new actor t =
     (let old = status t
      in flag_breach now old new (stamp_closure now old new (unmark_solved old new
           (mark_solved now old new (snapshot_wait old new (set_status now new actor t))))))"

definition closure_payload :: "instant \<Rightarrow> ticket \<Rightarrow> json" where
  "closure_payload now t = JObj
     [(''pk'', jpk (pk t)), (''tenant_pk'', jpk (tenant_id (ticket_tenant t))),
      (''resolution_time_us'', JInt (now - created_at t)),
      (''first_response_time_us'', jopt (\<lambda>r. JInt (r - created_at t)) (first_responded_at t)),
      (''sla_first_response_breached'', JBool (sla_response_breached t)),
      (''sla_resolution_breached'', JBool (sla_resolution_breached t)),
      (''csat_rating'', jopt jpk (csat_rating t)),
      (''assignee_id'', jopt (jpk \<circ> user_id) (assignee t)),
      (''team_id'', jopt (jpk \<circ> queue_id) (queue_of t)),
      (''category'', jopt JStr (category t)), (''priority'', JStr (priority t)),
      (''channel'', JStr (channel t)), (''tenant_id'', jpk (tenant_id (ticket_tenant t)))]"

definition register_callback :: "callback \<Rightarrow> unit op" where
  "register_callback cb = update (\<lambda>s. s\<lparr>on_commit := on_commit s @ [cb]\<rparr>)"

text \<open>The part of \<open>change_ticket_status\<close> after the save: both logs, callbacks, feed and webhooks.\<close>

definition record_status_change ::
  "instant \<Rightarrow> ticket_status option \<Rightarrow> ticket_status \<Rightarrow> user option \<Rightarrow> request option \<Rightarrow> tenant \<Rightarrow> ticket \<Rightarrow> unit op" where
  "record_status_change now old_status new_status actor request tnt t =
     (let old_name = map_option status_name old_status; new_name = status_name new_status;
          closing = (is_closed new_status \<and> \<not> status_flag is_closed old_status);
          reopening = (status_flag is_closed old_status \<and> \<not> is_closed new_status);
          resolving = (status_slug new_status = ''resolved'' \<and> \<not> has_slug old_status ''resolved'')
      in thenc (log_activity tnt actor TicketCT (pk t)
            (if closing then AClosed else if reopening then AReopened else AStatusChanged)
            (JObj [(''status'', JList [jopt JStr old_name, JStr new_name])]) request)
        (thenc (create_timeline_entry t
            (if closing then EClosed else if reopening then EReopened else EStatusChanged) actor
            [(''old_status'', jopt JStr old_name), (''new_status'', JStr new_name)])
        (thenc (whenc resolving (register_callback (ScheduleResolved (pk t) tnt)))
        (thenc (whenc closing (register_callback (EmitClosed (pk t) (closure_payload now t))))
        (thenc (whenc (closing \<and> sla_resolution_breached t) (register_callback (EmitBreach (pk t))))
        (thenc (broadcast_ticket_event t (if closing then ''ticket_closed'' else ''ticket_updated'') JNull)
        (fire_webhooks tnt
            (if closing then WTicketClosed else if reopening then WTicketReopened else WTicketUpdated)
            [(''ticket_id'', jpk (pk t)), (''ticket_number'', JInt (int (number t))),
             (''old_status'', jopt JStr old_name), (''new_status'', JStr new_name),
             (''changed_by'', jemail actor)])))))))"

definition change_ticket_status ::
  "ticket \<Rightarrow> ticket_status \<Rightarrow> user option \<Rightarrow> request option \<Rightarrow> ticket op" where
  "change_ticket_status t new_status actor request = atomic (
     if map_option status_id (status t) = Some (status_id new_status) then ret t
     else bindc timezone_now (\<lambda>now.
       thenc (whenc (leaves_resolved (status t) new_status) (cancel_auto_close_task t))
       (let d = draft_status_change now new_status actor t
        in bindc (save_ticket (Some (snd d)) (quietly (fst d))) (\<lambda>t2.
           thenc (record_status_change now (status t) new_status actor request (ticket_tenant t) t2)
             (ret t2)))))"

definition transition_ticket_status ::
  "ticket \<Rightarrow> ticket_status \<Rightarrow> user option \<Rightarrow> request option \<Rightarrow> ticket op" where
  "transition_ticket_status t new_status actor request =
     thenc (lift_res (validate_status_transition t new_status))
       (change_ticket_status t new_status actor request)"

definition resume_target :: "store \<Rightarrow> ticket \<Rightarrow> ticket_status option" where
  "resume_target s t =
     (let snapshot = (case pre_wait_status t of
            None \<Rightarrow> None
          | Some x \<Rightarrow> first_status (\<lambda>r. status_id r = status_id x) s);
          usable = (case snapshot of
            None \<Rightarrow> None
          | Some x \<Rightarrow> if is_closed x \<or> pauses_sla x then None else Some x)
      in case usable of
           None \<Rightarrow> first_status (\<lambda>r. status_slug r = ''open'') s
         | Some x \<Rightarrow> Some x)"

definition resume_from_wait :: "ticket \<Rightarrow> user option \<Rightarrow> request option \<Rightarrow> ticket op" where
  "resume_from_wait t actor request =
     (if \<not> status_flag pauses_sla (status t) then ret t
      else bindc (asks (\<lambda>s. resume_target s t)) (\<lambda>target. case target of
          None \<Rightarrow> ret t
        | Some x \<Rightarrow>
            if map_option status_id (status t) = Some (status_id x) then ret t
            else change_ticket_status t x actor request))"

definition close_ticket :: "ticket \<Rightarrow> user option \<Rightarrow> request option \<Rightarrow> ticket op" where
  "close_ticket t actor request = atomic (
     if status_flag is_closed (status t) then ret t
     else bindc (asks (first_status (\<lambda>x. status_tenant x = tenant_id (ticket_tenant t) \<and> is_closed x))) (\<lambda>found.
       case found of
         None \<Rightarrow> raise_exc (ValueError ''No closed status configured for this tenant. Create a TicketStatus with is_closed=True.'')
       | Some closed_status \<Rightarrow> transition_ticket_status t closed_status actor request))"

section \<open>Callbacks of the commit\<close>

definition schedule_auto_close :: "nat \<Rightarrow> tenant \<Rightarrow> unit op" where
  "schedule_auto_close i tnt =
     (let days = (case settings tnt of Some ts \<Rightarrow> auto_close_days ts | None \<Rightarrow> 5)
      in bindc timezone_now (\<lambda>now. bindc new_pk (\<lambda>task.
         thenc (update (\<lambda>s. s\<lparr>outbox := outbox s @ [AutoCloseTask task i (now + days * day_us)]\<rparr>))
           (update (\<lambda>s. s\<lparr>tickets := map (\<lambda>r. if pk r = i then r\<lparr>auto_close_task_id := Some task\<rparr> else r)
              (tickets s)\<rparr>)))))"

definition schedule_csat_survey :: "nat \<Rightarrow> tenant \<Rightarrow> unit op" where
  "schedule_csat_survey i tnt =
     (let delay_min = (case settings tnt of Some ts \<Rightarrow> csat_delay_minutes ts | None \<Rightarrow> 60)
      in bindc timezone_now (\<lambda>now.
         update (\<lambda>s. s\<lparr>outbox := outbox s @ [CsatTask i (now + delay_min * minute_us)]\<rparr>)))"

definition check_kb_article_coverage :: "ticket \<Rightarrow> unit op" where
  "check_kb_article_coverage t = (case category t of
     None \<Rightarrow> ret ()
   | Some cat \<Rightarrow>
       if cat = [] then ret ()
       else update (\<lambda>s.
         let published = filter (\<lambda>a. article_tenant a = tenant_id (ticket_tenant t) \<and>
               lower (article_category a) = lower cat \<and> article_published a) (articles s)
         in if length published < 3
            then s\<lparr>tickets := map (\<lambda>r. if pk r = pk t then r\<lparr>needs_kb_article := True\<rparr> else r) (tickets s)\<rparr>
            else s))"

text \<open>The callbacks of \<open>transaction.on_commit\<close>, run in the order of registration.\<close>

fun run_callback :: "callback \<Rightarrow> unit op" where
  "run_callback (Broadcast i ev extra) = ret ()"
| "run_callback (ScheduleResolved i tnt) = thenc (schedule_auto_close i tnt) (schedule_csat_survey i tnt)"
| "run_callback (EmitClosed i payload) =
     bindc (asks (ticket_row i)) (\<lambda>fresh. case fresh of
       None \<Rightarrow> ret ()
     | Some t \<Rightarrow> thenc (send_signal (TicketClosed i payload)) (check_kb_article_coverage t))"
| "run_callback (EmitBreach i) =
     bindc (asks (ticket_row i)) (\<lambda>fresh. case fresh of
       None \<Rightarrow> ret ()
     | Some t \<Rightarrow> send_signal (ResolutionBreached i (closed_at t) (sla_resolution_due t)))"
| "run_callback (PropagatePolicy p ten ids) = update (\<lambda>s. s\<lparr>outbox := outbox s @ [PropagateTask p ten ids]\<rparr>)"
| "run_callback (ConfirmCreated i ten) = update (\<lambda>s. s\<lparr>outbox := outbox s @ [TicketCreatedEmailTask i ten]\<rparr>)"
| "run_callback (QueueCsat i tnt) = schedule_csat_survey i tnt"

definition run_on_commit :: "unit op" where
  "run_on_commit =
     bindc (asks on_commit) (\<lambda>cbs.
     thenc (update (\<lambda>s. s\<lparr>on_commit := []\<rparr>)) (for_each cbs (\<lambda>cb _. run_callback cb) ()))"

end
