(* ===== verification/Ticket_Actions.thy ===== *)
theory Ticket_Actions
  imports Ticket_Workflow
begin

text \<open>
  The other operations of \<open>apps/tickets/services.py\<close>: escalation, priority,
  comments, first response, bulk updates, merge, split, macros and pipeline
  stages.
\<close>

section \<open>Escalation\<close>

definition min_extension :: int where
  "min_extension = 15 * minute_us"

text \<open>
  The nested helper \<open>_extend_deadline\<close>, in microseconds.  Half of the remaining
  time is rounded down to a microsecond.
\<close>

definition extension :: "int \<Rightarrow> int \<Rightarrow> int" where
  "extension remaining policy_us = max min_extension (min (remaining div 2) policy_us)"

definition extend_deadline ::
  "(string \<Rightarrow> zone option) \<Rightarrow> tenant \<Rightarrow> instant \<Rightarrow> instant option \<Rightarrow> int \<Rightarrow> instant res" where
  "extend_deadline zi tnt now current_due policy_us = (case current_due of
     None \<Rightarrow> add_business_minutes zi now policy_us tnt
   | Some due \<Rightarrow>
       let remaining = due - now
       in if remaining \<le> 0 then add_business_minutes zi now min_extension tnt
          else add_business_minutes zi due (extension remaining policy_us) tnt)"

definition extend_sla_on_escalation :: "ticket \<Rightarrow> instant \<Rightarrow> user option \<Rightarrow> ticket op" where
  "extend_sla_on_escalation t now actor =
     bindc (asks (active_policy t)) (\<lambda>found. case found of
       None \<Rightarrow> ret t
     | Some new_policy \<Rightarrow>
         let changed = (map_option policy_id (ticket_policy t) \<noteq> Some (policy_id new_policy));
             t1 = (if changed then t\<lparr>ticket_policy := Some new_policy\<rparr> else t);
             uf = (if changed then [CPolicy] else [])
         in bindc (asks zoneinfo_db) (\<lambda>zi.
            bindc (lift_res (extend_deadline zi (ticket_tenant t) now (sla_first_response_due t)
                     (first_response_minutes new_policy * minute_us))) (\<lambda>response_due.
            bindc (lift_res (extend_deadline zi (ticket_tenant t) now (sla_resolution_due t)
                     (resolution_minutes new_policy * minute_us))) (\<lambda>resolution_due.
            bindc (save_ticket (Some (uf @ [CFirstResponseDue, CResolutionDue, CExtendedAt, CUpdatedAt]))
                (t1\<lparr>sla_first_response_due := Some response_due, sla_resolution_due := Some resolution_due,
                    sla_extended_at := Some now\<rparr>)) (\<lambda>saved.
            thenc (log_sla_change saved (sla_first_response_due t) (sla_resolution_due t) ''escalation'' actor)
            (ret saved))))))"

definition post_comment :: "tenant \<Rightarrow> nat \<Rightarrow> user \<Rightarrow> string \<Rightarrow> bool \<Rightarrow> comment op" where
  "post_comment tnt object_id author body internal =
     bindc new_pk (\<lambda>i.
       let c = \<lparr>comment_id = i, comment_tenant = tenant_id tnt, comment_type = TicketCT,
                comment_object = object_id, comment_author = author, comment_body = body,
                is_internal = internal\<rparr>
       in thenc (update (\<lambda>s. s\<lparr>comments := c # comments s\<rparr>)) (ret c))"

definition escalate_ticket ::
  "ticket \<Rightarrow> user \<Rightarrow> string \<Rightarrow> user option \<Rightarrow> queue option \<Rightarrow> request option \<Rightarrow> ticket op" where
  "escalate_ticket t actor reason new_assignee new_queue request = atomic (
     let tnt = ticket_tenant t; old_assignee = assignee t; old_queue = queue_of t
     in bindc timezone_now (\<lambda>now.
        let t1 = t\<lparr>escalation_count := escalation_count t + 1, escalated_at := Some now\<rparr>;
            uf1 = [CEscalationCount, CEscalatedAt, CUpdatedAt]
        in bindc (case new_assignee of
            None \<Rightarrow> ret (t1, uf1)
          | Some a \<Rightarrow>
              bindc (asks (\<lambda>s. is_active_member s a tnt)) (\<lambda>member.
                if \<not> member then raise_exc not_a_member
                else thenc (create_assignment t a (Some actor) (''Escalation: '' @ reason))
                  (ret (t1\<lparr>assignee := Some a, assigned_by := Some actor, assigned_at := Some now\<rparr>,
                        uf1 @ [CAssignee, CAssignedBy, CAssignedAt])))) (\<lambda>(t2, uf2).
        let (t3, uf3) = (case new_queue of
              None \<Rightarrow> (t2, uf2) | Some q \<Rightarrow> (t2\<lparr>queue_of := Some q\<rparr>, uf2 @ [CQueue]))
        in bindc (save_ticket (Some uf3) (quietly t3)) (\<lambda>t4.
        bindc (post_comment tnt (pk t4) actor
            (''**Escalation (#'' @ show_nat (escalation_count t4) @ ''):** '' @ reason) True) (\<lambda>_.
        bindc (extend_sla_on_escalation t4 now (Some actor)) (\<lambda>t5.
        thenc (log_activity tnt (Some actor) TicketCT (pk t5) AFieldChanged
            (JObj [(''escalation_count'', JList [JInt (int (escalation_count t5) - 1),
                                                 JInt (int (escalation_count t5))])]) request)
        (thenc (create_timeline_entry t5 EEscalatedManual (Some actor)
            [(''reason'', JStr reason), (''escalation_number'', JInt (int (escalation_count t5))),
             (''old_assignee'', jopt (jpk \<circ> user_id) old_assignee),
             (''new_assignee'', jopt (jpk \<circ> user_id) new_assignee),
             (''old_queue'', jopt (jpk \<circ> queue_id) old_queue),
             (''new_queue'', jopt (jpk \<circ> queue_id) new_queue)])
        (thenc (fire_webhooks tnt WTicketEscalated
            [(''ticket_id'', jpk (pk t5)), (''ticket_number'', JInt (int (number t5))),
             (''escalation_count'', JInt (int (escalation_count t5))), (''reason'', JStr reason),
             (''assignee'', jopt (jpk \<circ> user_id) new_assignee), (''escalated_by'', JStr (email actor))])
        (ret t5)))))))))"

section \<open>Priority, comments, first response\<close>

definition priority_display :: "string \<Rightarrow> string" where
  "priority_display p = (case map_of [(''low'', ''Low''), (''medium'', ''Medium''), (''high'', ''High''),
     (''urgent'', ''Urgent'')] p of Some d \<Rightarrow> d | None \<Rightarrow> p)"

definition change_ticket_priority ::
  "ticket \<Rightarrow> string \<Rightarrow> user option \<Rightarrow> request option \<Rightarrow> ticket op" where
  "change_ticket_priority t new_priority actor request = atomic (
     if priority t = new_priority then ret t
     else bindc (save_ticket (Some [CPriority, CUpdatedAt])
            (quietly (t\<lparr>priority := new_priority\<rparr>))) (\<lambda>t'.
       thenc (log_activity (ticket_tenant t) actor TicketCT (pk t') AFieldChanged
         (JObj [(''priority'', JList [JStr (priority_display (priority t)),
                                      JStr (priority_display (priority t'))])]) request)
       (thenc (create_timeline_entry t' EPriorityChanged actor
         [(''old_priority'', JStr (priority t)), (''new_priority'', JStr new_priority)])
       (ret t'))))"

definition log_ticket_comment :: "ticket \<Rightarrow> user option \<Rightarrow> bool \<Rightarrow> unit op" where
  "log_ticket_comment t actor internal =
     thenc (create_timeline_entry t (if internal then EInternalNote else ECommented) actor [])
     (whenc (\<not> internal)
       (fire_webhooks (ticket_tenant t) WTicketComment
         [(''ticket_id'', jpk (pk t)), (''ticket_number'', JInt (int (number t))),
          (''is_internal'', JBool False), (''author'', jemail actor)]))"

text \<open>\<open>Ticket.unscoped.filter(pk=..., p).update(f)\<close>: the number of rows changed.\<close>

definition update_rows :: "nat \<Rightarrow> (ticket \<Rightarrow> bool) \<Rightarrow> (ticket \<Rightarrow> ticket) \<Rightarrow> nat op" where
  "update_rows i p f = bindc (asks (\<lambda>s. length (filter (\<lambda>r. pk r = i \<and> p r) (tickets s)))) (\<lambda>n.
     thenc (update (\<lambda>s. s\<lparr>tickets := map (\<lambda>r. if pk r = i \<and> p r then f r else r) (tickets s)\<rparr>)) (ret n))"

text \<open>\<open>refresh_from_db\<close> of the fields that \<open>f\<close> copies from the row.\<close>

definition refresh_from_db :: "(ticket \<Rightarrow> ticket \<Rightarrow> ticket) \<Rightarrow> ticket \<Rightarrow> ticket op" where
  "refresh_from_db f t = bindc (asks (ticket_row (pk t))) (\<lambda>row. case row of
     None \<Rightarrow> raise_exc (DoesNotExist ''Ticket'') | Some r \<Rightarrow> ret (f r t))"

definition check_first_response_breach :: "ticket \<Rightarrow> ticket op" where
  "check_first_response_breach t =
     (if sla_response_breached t then ret t
      else case (sla_first_response_due t, first_responded_at t) of
        (Some due, Some responded) \<Rightarrow>
          if responded > due then
            bindc timezone_now (\<lambda>now.
            bindc (update_rows (pk t) (\<lambda>r. \<not> sla_response_breached r)
                     (\<lambda>r. r\<lparr>sla_response_breached := True, updated_at := now\<rparr>)) (\<lambda>flagged.
              if flagged = 0 then ret t
              else bindc (refresh_from_db (\<lambda>r x. x\<lparr>sla_response_breached := sla_response_breached r,
                            updated_at := updated_at r\<rparr>) t) (\<lambda>t'.
                thenc (send_signal (FirstResponseBreached (pk t') responded due)) (ret t'))))
          else ret t
      | _ \<Rightarrow> ret t)"

definition record_first_response :: "ticket \<Rightarrow> user option \<Rightarrow> ticket op" where
  "record_first_response t actor =
     (if first_responded_at t \<noteq> None \<or> map_option user_id actor = Some (user_id (created_by t)) then ret t
      else bindc timezone_now (\<lambda>now.
        bindc (update_rows (pk t) (\<lambda>r. first_responded_at r = None)
                 (\<lambda>r. r\<lparr>first_responded_at := Some now, updated_at := now\<rparr>)) (\<lambda>updated.
          if updated = 0 then ret t
          else bindc (refresh_from_db (\<lambda>r x. x\<lparr>first_responded_at := first_responded_at r,
                   sla_first_response_due := sla_first_response_due r,
                   sla_response_breached := sla_response_breached r, updated_at := updated_at r\<rparr>) t) (\<lambda>t'.
            thenc (create_timeline_entry t' EFirstResponse actor [(''responded_at'', jtime now)])
            (thenc (log_activity (ticket_tenant t') actor TicketCT (pk t') AFieldChanged
               (JObj [(''first_responded_at'', JList [JNull, jtime now])]) None)
            (check_first_response_breach t'))))))"

section \<open>Bulk updates\<close>

text \<open>The action name with the entries of \<open>params\<close> it reads.\<close>

datatype bulk_action =
    BulkAssign "user_id option"
  | BulkStatus "nat option"
  | BulkPriority "string option"
  | BulkTags "string list"
  | BulkDelete
  | BulkOther string

definition param :: "string \<Rightarrow> 'a option \<Rightarrow> ('s, 'a) cmd" where
  "param key v = (case v of None \<Rightarrow> raise_exc (KeyError key) | Some a \<Rightarrow> ret a)"

definition get_or_raise :: "string \<Rightarrow> (store \<Rightarrow> 'r option) \<Rightarrow> 'r op" where
  "get_or_raise model q = bindc (asks q) (\<lambda>r. case r of None \<Rightarrow> raise_exc (DoesNotExist model) | Some x \<Rightarrow> ret x)"

fun bulk_step :: "bulk_action \<Rightarrow> user \<Rightarrow> request option \<Rightarrow> ticket \<Rightarrow> unit op" where
  "bulk_step (BulkAssign uid) actor request t =
     bindc (param ''user_id'' uid) (\<lambda>i.
     bindc (get_or_raise ''User'' (\<lambda>s. first_row (\<lambda>u. user_id u = i) (users s))) (\<lambda>u.
     bindc (assign_ticket t u (Some actor) request []) (\<lambda>_. ret ())))"
| "bulk_step (BulkStatus sid) actor request t =
     bindc (param ''status_id'' sid) (\<lambda>i.
     bindc (get_or_raise ''TicketStatus'' (first_status (\<lambda>x. status_id x = i))) (\<lambda>st.
     bindc (change_ticket_status t st (Some actor) request) (\<lambda>_. ret ())))"
| "bulk_step (BulkPriority p) actor request t =
     bindc (param ''priority'' p) (\<lambda>new_priority.
     bindc (change_ticket_priority t new_priority (Some actor) request) (\<lambda>_. ret ()))"
| "bulk_step (BulkTags new_tags) actor request t =
     bindc (save_ticket (Some [CTags, CUpdatedAt]) (t\<lparr>tags := remdups (tags t @ new_tags)\<rparr>)) (\<lambda>t'.
     log_activity (ticket_tenant t') (Some actor) TicketCT (pk t') AFieldChanged
       (JObj [(''tags'', JList [JList (map JStr (tags t)), JList (map JStr (tags t'))])]) request)"
| "bulk_step BulkDelete actor request t = atomic (
     bindc timezone_now (\<lambda>now.
     bindc (save_ticket (Some [CIsDeleted, CDeletedAt, CDeletedBy, CUpdatedAt])
       (quietly (t\<lparr>is_deleted := True, deleted_at := Some now, deleted_by := Some actor\<rparr>))) (\<lambda>t'.
     log_activity (ticket_tenant t') (Some actor) TicketCT (pk t') ADeleted (JObj []) request)))"
| "bulk_step (BulkOther a) actor request t = raise_exc (ValueError (''Unknown action: '' @ a))"

fun exc_name :: "pyexc \<Rightarrow> string" where
  "exc_name (ValueError _) = ''ValueError''"
| "exc_name (ValidationError _) = ''ValidationError''"
| "exc_name (PermissionDenied _) = ''PermissionDenied''"
| "exc_name (KeyError _) = ''KeyError''"
| "exc_name (TypeError _) = ''TypeError''"
| "exc_name (DoesNotExist _) = ''DoesNotExist''"
| "exc_name (DatabaseError _) = ''DatabaseError''"
| "exc_name RecursionError = ''RecursionError''"

definition bulk_detail :: "bulk_action \<Rightarrow> ticket \<Rightarrow> string" where
  "bulk_detail act t = (if act = BulkDelete then ''Deleted ticket #'' else ''Updated ticket #'') @ show_nat (number t)"

definition bulk_one ::
  "bulk_action \<Rightarrow> user \<Rightarrow> request option \<Rightarrow> ticket \<Rightarrow> nat \<times> string list \<Rightarrow> (nat \<times> string list) op" where
  "bulk_one act actor request t = (\<lambda>(count, details).
     try_except
       (thenc (bulk_step act actor request t) (ret (count + 1, details @ [bulk_detail act t])))
       (\<lambda>e. ret (count, details @ [''Failed to update ticket #'' @ show_nat (number t) @ '': '' @ exc_name e])))"

definition bulk_update_tickets ::
  "ticket list \<Rightarrow> bulk_action \<Rightarrow> user \<Rightarrow> request option \<Rightarrow> (nat \<times> string list) op" where
  "bulk_update_tickets ts act actor request = for_each ts (bulk_one act actor request) (0, [])"

end
