(* ===== verification/Ticket_Combine.thy ===== *)
theory Ticket_Combine
  imports Ticket_Actions
begin

text \<open>
  Merge and split of tickets, macros and pipeline stages
  (\<open>apps/tickets/services.py\<close>).  The locks taken with \<open>select_for_update\<close> have
  no effect in a sequential model.
\<close>

section \<open>Merge\<close>

definition move_comments :: "(comment \<Rightarrow> bool) \<Rightarrow> nat \<Rightarrow> nat \<Rightarrow> nat op" where
  "move_comments p src dst =
     bindc (asks (\<lambda>s. length (filter (\<lambda>c. p c \<and> comment_type c = TicketCT \<and> comment_object c = src) (comments s)))) (\<lambda>n.
     thenc (update (\<lambda>s. s\<lparr>comments := map (\<lambda>c. if p c \<and> comment_type c = TicketCT \<and> comment_object c = src
        then c\<lparr>comment_object := dst\<rparr> else c) (comments s)\<rparr>)) (ret n))"

definition move_activities :: "nat \<Rightarrow> nat \<Rightarrow> nat op" where
  "move_activities src dst =
     bindc (asks (\<lambda>s. length (filter (\<lambda>a. act_ticket a = src) (timeline s)))) (\<lambda>n.
     thenc (update (\<lambda>s. s\<lparr>timeline := map (\<lambda>a. if act_ticket a = src then a\<lparr>act_ticket := dst\<rparr> else a)
        (timeline s)\<rparr>)) (ret n))"

definition move_attachments :: "nat \<Rightarrow> nat \<Rightarrow> nat op" where
  "move_attachments src dst =
     bindc (asks (\<lambda>s. length (filter (\<lambda>a. attachment_type a = TicketCT \<and> attachment_object a = src) (attachments s)))) (\<lambda>n.
     thenc (update (\<lambda>s. s\<lparr>attachments := map (\<lambda>a. if attachment_type a = TicketCT \<and> attachment_object a = src
        then a\<lparr>attachment_object := dst\<rparr> else a) (attachments s)\<rparr>)) (ret n))"

text \<open>\<open>TicketLink.objects.create\<close>, and \<open>get_or_create\<close> on the three columns that identify a link.\<close>

definition create_link :: "tenant \<Rightarrow> nat \<Rightarrow> nat \<Rightarrow> link_type \<Rightarrow> user option \<Rightarrow> unit op" where
  "create_link tnt src dst kind actor = update (\<lambda>s. s\<lparr>links :=
     \<lparr>link_tenant = tenant_id tnt, source_ticket = src, target_ticket = dst, link_kind = kind,
      link_by = actor\<rparr> # links s\<rparr>)"

definition get_or_create_link :: "tenant \<Rightarrow> nat \<Rightarrow> nat \<Rightarrow> link_type \<Rightarrow> user option \<Rightarrow> unit op" where
  "get_or_create_link tnt src dst kind actor =
     bindc (asks (\<lambda>s. first_row (\<lambda>l. source_ticket l = src \<and> target_ticket l = dst \<and> link_kind l = kind)
              (scoped s link_tenant (links s)))) (\<lambda>found.
       whenc (found = None) (create_link tnt src dst kind actor))"

definition actor_label :: "user \<Rightarrow> string" where
  "actor_label u = (if get_full_name u = [] then email u else get_full_name u)"

definition close_merged :: "instant \<Rightarrow> ticket_status option \<Rightarrow> ticket \<Rightarrow> ticket" where
  "close_merged now closed_status t = (case closed_status of
     None \<Rightarrow> t
   | Some st \<Rightarrow> t\<lparr>status := Some st, closed_at := or_set (closed_at t) now,
                  resolved_at := or_set (resolved_at t) now\<rparr>)"

definition merge_tickets :: "ticket \<Rightarrow> ticket \<Rightarrow> user \<Rightarrow> request option \<Rightarrow> (ticket \<times> ticket) op" where
  "merge_tickets primary secondary actor request = atomic (
     if pk primary = pk secondary then raise_exc (ValueError ''Cannot merge a ticket into itself.'')
     else if tenant_id (ticket_tenant primary) \<noteq> tenant_id (ticket_tenant secondary)
       then raise_exc (ValueError ''Cannot merge tickets from different tenants.'')
     else let tnt = ticket_tenant primary
       in bindc (move_comments (\<lambda>_. True) (pk secondary) (pk primary)) (\<lambda>moved_comments.
          bindc (move_activities (pk secondary) (pk primary)) (\<lambda>moved_activities.
          bindc (move_attachments (pk secondary) (pk primary)) (\<lambda>moved_attachments.
          thenc (get_or_create_link tnt (pk secondary) (pk primary) DuplicateOf (Some actor))
          (bindc (asks (first_status is_closed)) (\<lambda>closed_status.
           bindc timezone_now (\<lambda>now.
           bindc (save_ticket (Some [CStatus, CClosedAt, CResolvedAt, CMergedInto, CUpdatedAt])
             (quietly ((close_merged now closed_status secondary)\<lparr>merged_into := Some (pk primary)\<rparr>))) (\<lambda>saved.
           bindc (post_comment tnt (pk saved) actor
             (''Merged into #'' @ show_nat (number primary) @ '' by '' @ actor_label actor) True) (\<lambda>_.
           thenc (log_activity tnt (Some actor) TicketCT (pk primary) AUpdated
             (JObj [(''merged_ticket'', JInt (int (number saved))),
                    (''comments_transferred'', JInt (int moved_comments)),
                    (''activities_transferred'', JInt (int moved_activities)),
                    (''attachments_transferred'', JInt (int moved_attachments))]) request)
           (thenc (create_timeline_entry primary EStatusChanged (Some actor)
             [(''merged_ticket_id'', jpk (pk saved)), (''merged_ticket_number'', JInt (int (number saved)))])
           (ret (primary, saved))))))))))))"

section \<open>Split\<close>

record split_data =
  split_subject :: "string option"
  split_queue :: "nat option"
  split_priority :: "string option"

text \<open>\<open>Ticket(...)\<close> with the defaults of the model's columns.\<close>

definition new_ticket :: "nat \<Rightarrow> tenant \<Rightarrow> string \<Rightarrow> string \<Rightarrow> string \<Rightarrow> user \<Rightarrow> ticket" where
  "new_ticket i tnt subj descr prio creator =
     \<lparr>pk = i, ticket_tenant = tnt, number = 0, subject = subj, description = descr, category = None,
      priority = prio, channel = ''agent'', status = None, queue_of = None, contact_of = None,
      company = None, tags = [], assignee = None, assigned_by = None, assigned_at = None,
      created_by = creator, created_at = 0, updated_at = 0, resolved_at = None, closed_at = None,
      solved_at = None, auto_close_task_id = None, first_responded_at = None,
      sla_response_breached = False, sla_resolution_breached = False, ticket_policy = None,
      due_date = None, follow_up_due_at = None, sla_first_response_due = None, sla_resolution_due = None, sla_paused_at = None,
      sla_extended_at = None, pre_wait_status = None, status_changed_at = None,
      status_changed_by = None, escalation_count = 0, escalated_at = None, csat_rating = None,
      needs_kb_article = False, merged_into = None, ticket_stage = None, won_at = None,
      won_reason = None, lost_at = None, lost_reason = None, is_deleted = False, deleted_at = None,
      deleted_by = None, flags = no_flags\<rparr>"

definition split_ticket ::
  "ticket \<Rightarrow> nat list \<Rightarrow> user \<Rightarrow> split_data \<Rightarrow> request option \<Rightarrow> ticket op" where
  "split_ticket source comment_ids actor new_ticket_data request = atomic (
     if comment_ids = [] then raise_exc (ValueError ''At least one comment must be selected for the split.'')
     else let tnt = ticket_tenant source; chosen = (\<lambda>c. comment_id c \<in> set comment_ids)
     in bindc (asks (\<lambda>s. length (filter (\<lambda>c. chosen c \<and> comment_type c = TicketCT \<and> comment_object c = pk source)
                       (comments s)))) (\<lambda>n.
        if n \<noteq> length comment_ids
        then raise_exc (ValueError ''One or more comment IDs do not belong to this ticket.'')
        else bindc (asks (\<lambda>s. case first_status is_default s of
                 None \<Rightarrow> first_status (\<lambda>_. True) s | Some st \<Rightarrow> Some st)) (\<lambda>default_status.
        case default_status of
          None \<Rightarrow> raise_exc (ValueError ''No ticket statuses configured for this tenant.'')
        | Some st \<Rightarrow>
        bindc (case split_queue new_ticket_data of
            None \<Rightarrow> ret None
          | Some qid \<Rightarrow> bindc (asks (\<lambda>s. first_row (\<lambda>q. queue_id q = qid) (scoped s queue_tenant (queues s)))) (\<lambda>q.
              case q of None \<Rightarrow> raise_exc (ValueError (''Queue '' @ show_nat qid @ '' not found.'')) | Some x \<Rightarrow> ret (Some x))) (\<lambda>q.
        bindc (param ''subject'' (split_subject new_ticket_data)) (\<lambda>subj.
        bindc timezone_now (\<lambda>now.
        bindc new_pk (\<lambda>i.
        bindc (save_ticket None ((new_ticket i tnt subj
              (''Split from ticket #'' @ show_nat (number source))
              (case split_priority new_ticket_data of Some p \<Rightarrow> p | None \<Rightarrow> priority source) actor)
            \<lparr>status := Some st, queue_of := q, assignee := assignee source, assigned_by := Some actor,
             assigned_at := (if assignee source = None then None else Some now),
             contact_of := contact_of source\<rparr>)) (\<lambda>saved.
        bindc (initialize_sla saved) (\<lambda>child.
        bindc (move_comments chosen (pk source) (pk child)) (\<lambda>moved.
        thenc (create_link tnt (pk child) (pk source) RelatedTo (Some actor))
        (bindc (post_comment tnt (pk source) actor
           (''Ticket split '' @ em_dash @ '' #'' @ show_nat (number child)
            @ '' created by '' @ actor_label actor) True) (\<lambda>_.
         bindc (post_comment tnt (pk child) actor
           (''Split from #'' @ show_nat (number source) @ '' by '' @ actor_label actor) True) (\<lambda>_.
        thenc (log_activity tnt (Some actor) TicketCT (pk source) AUpdated
           (JObj [(''split_child_ticket'', JInt (int (number child))), (''comments_moved'', JInt (int moved))]) request)
        (thenc (create_timeline_entry source EStatusChanged (Some actor)
           [(''child_ticket_id'', jpk (pk child)), (''child_ticket_number'', JInt (int (number child))),
            (''comments_moved'', JInt (int moved))])
        (thenc (log_activity tnt (Some actor) TicketCT (pk child) ACreated
           (JObj [(''split_source_ticket'', JInt (int (number source)))]) request)
        (thenc (create_timeline_entry child ECreated (Some actor)
           [(''source_ticket_id'', jpk (pk source)), (''source_ticket_number'', JInt (int (number source)))])
        (ret child)))))))))))))))))"

section \<open>Macros\<close>

record ticket_macro =
  macro_id :: nat
  macro_tenant :: tenant_id
  macro_name :: string
  macro_body :: string
  macro_actions :: "(string \<times> string) list list"

definition macro_replacements :: "ticket \<Rightarrow> user \<Rightarrow> (string \<times> string) list" where
  "macro_replacements t agent =
     [(''{{ticket.number}}'', show_nat (number t)),
      (''{{ticket.subject}}'', subject t),
      (''{{ticket.queue}}'', case queue_of t of Some q \<Rightarrow> queue_name q | None \<Rightarrow> []),
      (''{{contact.name}}'', case contact_of t of Some c \<Rightarrow> contact_full_name c | None \<Rightarrow> []),
      (''{{contact.first_name}}'', case contact_of t of Some c \<Rightarrow> contact_first c | None \<Rightarrow> []),
      (''{{contact.email}}'', case contact_of t of Some c \<Rightarrow> contact_email c | None \<Rightarrow> []),
      (''{{agent.name}}'', display_name agent),
      (''{{agent.first_name}}'', if first_name agent \<noteq> [] then first_name agent
                                else hd (split_on (CHR ''@'') (email agent))),
      (''{{agent.email}}'', email agent)]"

definition render_macro :: "ticket_macro \<Rightarrow> ticket \<Rightarrow> user \<Rightarrow> string" where
  "render_macro m t agent =
     foldl (\<lambda>body (placeholder, v). py_replace placeholder v body) (macro_body m) (macro_replacements t agent)"

definition macro_step ::
  "user \<Rightarrow> request option \<Rightarrow> (string \<times> string) list \<Rightarrow> ticket \<Rightarrow> ticket op" where
  "macro_step actor request action_def t =
     (let action_type = map_of action_def ''action''; v = map_of action_def ''value''
      in if action_type = Some ''set_status'' then
           bindc (asks (first_status (\<lambda>x. Some (status_slug x) = v))) (\<lambda>found. case found of
             None \<Rightarrow> ret t
           | Some new_status \<Rightarrow>
               if map_option status_id (status t) = Some (status_id new_status) then ret t
               else transition_ticket_status t new_status (Some actor) request)
         else if action_type = Some ''set_priority'' then
           (case v of
              None \<Rightarrow> ret t
            | Some p \<Rightarrow> if p \<noteq> [] \<and> p \<noteq> priority t then change_ticket_priority t p (Some actor) request else ret t)
         else if action_type = Some ''add_tag'' then
           (case v of
              None \<Rightarrow> ret t
            | Some tag \<Rightarrow>
                if tag \<noteq> [] \<and> tag \<notin> set (tags t)
                then save_ticket (Some [CTags, CUpdatedAt]) (t\<lparr>tags := tags t @ [tag]\<rparr>) else ret t)
         else ret t)"

text \<open>\<open>a['action']\<close> and \<open>a['value']\<close> of the summary raise when an entry lacks the key.\<close>

fun macro_summary :: "(string \<times> string) list list \<Rightarrow> unit res" where
  "macro_summary [] = Inr ()"
| "macro_summary (a # as) =
     (if map_of a ''action'' = None then Inl (KeyError ''action'')
      else if map_of a ''value'' = None then Inl (KeyError ''value'')
      else macro_summary as)"

definition apply_macro ::
  "ticket \<Rightarrow> ticket_macro \<Rightarrow> user \<Rightarrow> request option \<Rightarrow> (comment \<times> ticket) op" where
  "apply_macro t m actor request = atomic (
     if macro_tenant m \<noteq> tenant_id (ticket_tenant t)
     then raise_exc (ValueError ''Cannot apply a macro from a different tenant.'')
     else let tnt = ticket_tenant t
       in bindc (post_comment tnt (pk t) actor (render_macro m t actor) False) (\<lambda>c.
          bindc (for_each (macro_actions m) (macro_step actor request) t) (\<lambda>t'.
          thenc (lift_res (macro_summary (macro_actions m)))
          (thenc (log_activity tnt (Some actor) TicketCT (pk t') AUpdated
             (JObj [(''macro'', JStr (macro_name m)),
                    (''actions'', JList (map (\<lambda>a. JObj (map (\<lambda>(k, v). (k, JStr v)) a)) (macro_actions m)))]) request)
          (thenc (create_timeline_entry t' ECommented (Some actor)
             [(''macro_id'', jpk (macro_id m)), (''macro_name'', JStr (macro_name m))])
          (ret (c, t')))))))"

section \<open>Pipeline stages\<close>

text \<open>The terminal stages: \<open>slug\<close> is the status a won or lost deal moves to.\<close>

definition stage_status_change ::
  "instant \<Rightarrow> user option \<Rightarrow> ticket_status option \<Rightarrow> draft \<Rightarrow> draft" where
  "stage_status_change now actor target = (\<lambda>(t, uf). case target of
     None \<Rightarrow> (t, uf)
   | Some st \<Rightarrow>
       if map_option status_id (status t) = Some (status_id st) then (t, uf)
       else (t\<lparr>status := Some st, status_changed_at := Some now, status_changed_by := actor\<rparr>,
             uf @ [CStatus, CStatusChangedAt, CStatusChangedBy]))"

definition draft_stage_change ::
  "store \<Rightarrow> instant \<Rightarrow> pipeline_stage \<Rightarrow> user option \<Rightarrow> string \<Rightarrow> ticket \<Rightarrow> draft" where
  "draft_stage_change s now new_stage actor reason t =
     (let t1 = t\<lparr>ticket_stage := Some new_stage\<rparr>; uf = [CStage, CUpdatedAt];
          note = (if reason = [] then None else Some reason);
          by_slug = (\<lambda>slug. first_status (\<lambda>x. status_tenant x = tenant_id (ticket_tenant t) \<and> status_slug x = slug) s)
      in if is_won new_stage then
           stage_status_change now actor (by_slug ''resolved'')
             (t1\<lparr>won_at := Some now, won_reason := note\<rparr>, uf @ [CWonAt, CWonReason])
         else if is_lost new_stage then
           stage_status_change now actor (by_slug ''closed'')
             (t1\<lparr>lost_at := Some now, lost_reason := note\<rparr>, uf @ [CLostAt, CLostReason])
         else (t1, uf))"

definition transition_pipeline_stage ::
  "ticket \<Rightarrow> pipeline_stage \<Rightarrow> user option \<Rightarrow> string \<Rightarrow> request option \<Rightarrow> ticket op" where
  "transition_pipeline_stage t new_stage actor reason request = atomic (
     let tnt = ticket_tenant t; old_name = map_option stage_name (ticket_stage t)
     in if (case ticket_stage t of None \<Rightarrow> False | Some o_st \<Rightarrow> stage_pipeline o_st \<noteq> stage_pipeline new_stage)
        then raise_exc (ValueError (''Cannot move to stage '' @ quoted (stage_name new_stage) @ '' '' @ em_dash
          @ '' it belongs to a different pipeline than the current stage ''
          @ (case old_name of Some n \<Rightarrow> quoted n | None \<Rightarrow> []) @ ''.''))
        else if map_option stage_id (ticket_stage t) = Some (stage_id new_stage) then ret t
        else bindc timezone_now (\<lambda>now.
        bindc (asks (\<lambda>s. draft_stage_change s now new_stage actor reason t)) (\<lambda>(t1, uf).
        bindc (save_ticket (Some uf) (quietly t1)) (\<lambda>t2.
        thenc (log_activity tnt actor TicketCT (pk t2) APipelineStageChanged
          (JObj [(''pipeline_stage'', JList [jopt JStr old_name, JStr (stage_name new_stage)]),
                 (''pipeline'', JStr (stage_pipeline_name new_stage))]) request)
        (thenc (create_timeline_entry t2 EPipelineStageChanged actor
          ([(''old_stage'', jopt JStr old_name), (''new_stage'', JStr (stage_name new_stage)),
            (''pipeline'', JStr (stage_pipeline_name new_stage))]
           @ (if reason = [] then [] else [(''reason'', JStr reason)])))
        (ret t2))))))"

end
