(* ===== verification/Ticket_Frame.thy ===== *)
theory Ticket_Frame
  imports Ticket_Combine "HOL-Library.Sublist"
begin

text \<open>
  What a save leaves alone.  The locale \<open>log_law\<close> is the contract of the
  writes of the receivers that do not save the ticket again, \<open>save_law\<close> adds
  those of the receivers that do: each assumption is one primitive write, the
  lemmas derive the law of the receivers and of the nested saves.  The locale \<open>instance_law\<close> is the
  contract of a property of the instance that a save hands through.
\<close>

section \<open>The contract of a save\<close>

definition side_columns :: "tcol set" where
  "side_columns = {CFirstResponseDue, CResolutionDue, CPausedAt, CUpdatedAt}"

definition write_ticket :: "nat \<Rightarrow> tcol list \<Rightarrow> ticket \<Rightarrow> store \<Rightarrow> store" where
  "write_ticket i cs t s = s\<lparr>tickets := map (\<lambda>r. if pk r = i then write_columns cs t r else r) (tickets s)\<rparr>"

text \<open>
  An instance whose save logs only entries the law allows, and a saver that
  obeys the law when it writes side columns of such an instance.
\<close>

definition quiet :: "(action \<Rightarrow> bool) \<Rightarrow> ticket \<Rightarrow> bool" where
  "quiet loggable t \<longleftrightarrow> skip_signal_logging (flags t) \<or>
     (loggable AStatusChanged \<and> loggable AFieldChanged \<and> loggable AAssigned)"

definition side_saver :: "(store \<Rightarrow> store \<Rightarrow> bool) \<Rightarrow> (action \<Rightarrow> bool) \<Rightarrow> saver \<Rightarrow> bool" where
  "side_saver R loggable sv \<longleftrightarrow>
     (\<forall>uf t. set uf \<subseteq> side_columns \<longrightarrow> quiet loggable t \<longrightarrow> obeys R (sv (Some uf) t))"

locale log_law = step_law R for R :: "store \<Rightarrow> store \<Rightarrow> bool" +
  fixes loggable :: "action \<Rightarrow> bool"
  assumes law_audit: "loggable (audit_action a) \<Longrightarrow> R s (s\<lparr>audits := audits s @ [a]\<rparr>)"
    and law_sla: "loggable ASlaUpdated"
    and law_timeline: "jget (act_metadata e) ''escalation_rule_id'' = None \<Longrightarrow> R s (s\<lparr>timeline := timeline s @ [e]\<rparr>)"
    and law_contact_events: "R s (s\<lparr>contact_events := ce\<rparr>)"
    and law_contacts: "R s (s\<lparr>contacts := cs\<rparr>)"
    and law_signals: "R s (s\<lparr>signals := signals s @ [sig]\<rparr>)"
    and law_next_pk: "R s (s\<lparr>next_pk := next_pk s + 1\<rparr>)"
    and law_counters: "R s (s\<lparr>counters := k\<rparr>)"
    and law_cards: "R s (s\<lparr>cards := ks\<rparr>)"
begin

lemmas primitive_logs = law_timeline law_contact_events law_contacts law_signals law_next_pk law_counters
  law_cards

lemma new_pk: "obeys R new_pk"
  unfolding new_pk_def by (intro obeys_rules obeys_update law_next_pk)

lemma log_activity: "loggable a \<Longrightarrow> obeys R (log_activity tnt u ct i a ch req)"
  unfolding log_activity_def by (rule obeys_update, rule law_audit) simp

lemma log_contact_event: "obeys R (log_contact_event c e src u md)"
  unfolding log_contact_event_def by (intro obeys_rules obeys_update primitive_logs)

lemma create_timeline_entry:
  assumes "jget (JObj md) ''escalation_rule_id'' = None"
  shows "obeys R (create_timeline_entry t e u md)"
  unfolding create_timeline_entry_def
  by (intro obeys_rules obeys_update primitive_logs log_contact_event) (use assms in simp)

lemma log_sla_change: "obeys R (log_sla_change t a b why u)"
  unfolding log_sla_change_def
  by (intro obeys_rules log_activity law_sla create_timeline_entry) simp

lemma send_signal: "obeys R (send_signal sig)"
  unfolding send_signal_def by (intro obeys_update primitive_logs)

lemma fire_created: "obeys R (fire_ticket_created_signal c t)"
  unfolding fire_ticket_created_signal_def by (intro obeys_rules send_signal)

lemma fire_assigned: "obeys R (fire_ticket_assigned_signal c uf t)"
  unfolding fire_ticket_assigned_signal_def by (intro obeys_rules send_signal)

lemma log_unless_recent: "loggable a \<Longrightarrow> obeys R (log_unless_recent t a ch)"
  unfolding log_unless_recent_def by (intro obeys_rules log_activity)

lemma log_ticket_activity: "quiet loggable t \<Longrightarrow> obeys R (log_ticket_activity c t)"
  unfolding log_ticket_activity_def Let_def quiet_def
  by (intro obeys_rules log_unless_recent) auto

lemma next_number: "obeys R (next_number ten)"
  unfolding next_number_def by (intro obeys_rules obeys_update law_counters)

lemma before_save: "obeys R (before_save t)"
  unfolding before_save_def fill_number_def by (intro obeys_rules next_number)

lemma save_card: "obeys R (save_card c)"
  unfolding save_card_def by (intro obeys_update primitive_logs)

lemma move_to_matching_column: "obeys R (move_to_matching_column p c u)"
  unfolding move_to_matching_column_def by (intro obeys_rules save_card)

lemma create_kanban_card: "obeys R (create_kanban_card_on_ticket_save c uf t)"
  unfolding create_kanban_card_on_ticket_save_def
  by (intro obeys_rules new_pk obeys_update primitive_logs)

lemma sync_kanban_status: "obeys R (sync_kanban_card_on_status_change c uf t)"
  unfolding sync_kanban_card_on_status_change_def by (intro obeys_rules move_to_matching_column)

lemma sync_kanban_stage: "obeys R (sync_kanban_card_on_pipeline_stage_change c t)"
  unfolding sync_kanban_card_on_pipeline_stage_change_def by (intro obeys_rules move_to_matching_column)

end

text \<open>The writes of the receivers that save the ticket again.\<close>

locale save_law = log_law +
  assumes law_pauses: "R s (s\<lparr>pauses := ps\<rparr>)"
    and law_side: "set uf \<subseteq> side_columns \<Longrightarrow> R s (write_ticket i uf t s)"
begin

lemmas primitive = primitive_logs law_pauses

lemma side_saverD: "side_saver R loggable sv \<Longrightarrow> set uf \<subseteq> side_columns \<Longrightarrow> quiet loggable t \<Longrightarrow> obeys R (sv (Some uf) t)"
  by (simp add: side_saver_def)

lemma quiet_side [simp]:
  "quiet loggable (t\<lparr>sla_first_response_due := d\<rparr>) = quiet loggable t"
  "quiet loggable (t\<lparr>sla_resolution_due := d\<rparr>) = quiet loggable t"
  "quiet loggable (t\<lparr>sla_paused_at := d\<rparr>) = quiet loggable t"
  "quiet loggable (t\<lparr>updated_at := u\<rparr>) = quiet loggable t"
  by (simp_all add: quiet_def)

lemma yields_shift_first:
  "quiet loggable t \<Longrightarrow> yields (shift_first_due zi mins t) (\<lambda>(x, uf). quiet loggable x \<and> set uf \<subseteq> side_columns)"
  unfolding shift_first_due_def
  by (intro yields_option yields_bind_all yields_ret) (simp_all add: side_columns_def)

lemma yields_shift_resolution:
  assumes "case d of (x, uf) \<Rightarrow> quiet loggable x \<and> set uf \<subseteq> side_columns"
  shows "yields (shift_resolution_due zi mins d) (\<lambda>(x, uf). quiet loggable x \<and> set uf \<subseteq> side_columns)"
  unfolding shift_resolution_due_def using assms
  by (intro yields_prod yields_option yields_bind_all yields_ret) (auto simp: side_columns_def)

lemma obeys_shift: "obeys R (shift_first_due zi mins t)" "obeys R (shift_resolution_due zi mins d)"
  unfolding shift_first_due_def shift_resolution_due_def by (intro obeys_rules)+

lemma finish_shift:
  assumes sv: "side_saver R loggable sv" and d: "case d of (x, uf) \<Rightarrow> quiet loggable x \<and> set uf \<subseteq> side_columns"
  shows "obeys R (finish_shift sv old d)"
proof -
  have "obeys R (sv (Some (uf @ [CUpdatedAt])) x)" if "d = (x, uf)" for x uf
    using d that by (intro side_saverD [OF sv]) (auto simp: side_columns_def)
  then show ?thesis unfolding finish_shift_def by (intro obeys_rules log_sla_change)
qed

lemma shift_sla_deadlines:
  assumes sv: "side_saver R loggable sv" and t: "quiet loggable t"
  shows "obeys R (shift_sla_deadlines sv t a b)"
  unfolding shift_sla_deadlines_def
  by (rule obeys_bind [OF obeys_asks] obeys_bind [OF obeys_lift] obeys_if obeys_ret
        obeys_bind_yields [OF yields_shift_first obeys_shift(1)]
        obeys_bind_yields [OF yields_shift_resolution obeys_shift(2)] t finish_shift sv | assumption)+

lemma resume_sla_pause:
  assumes sv: "side_saver R loggable sv" and t: "quiet loggable t"
    and keep: "\<And>x a b. quiet loggable x \<Longrightarrow> yields (shift_sla_deadlines sv x a b) (quiet loggable)"
  shows "obeys R (resume_sla_pause sv t now why)"
proof -
  have finish: "obeys R (finish_resume sv p now why x)" if "quiet loggable x" for p x
    unfolding finish_resume_def
    by (intro obeys_bind obeys_then obeys_ret create_timeline_entry side_saverD [OF sv])
      (auto simp: side_columns_def that)
  show ?thesis
    unfolding resume_sla_pause_def close_pause_def
    by (rule obeys_bind [OF obeys_asks] obeys_option obeys_ret obeys_then obeys_update primitive
          obeys_bind_yields [OF keep [OF t] shift_sla_deadlines [OF sv t]] finish | assumption)+
qed

lemma handle_sla_pause:
  assumes sv: "side_saver R loggable sv" and t: "quiet loggable t"
    and keep: "\<And>x a b. quiet loggable x \<Longrightarrow> yields (shift_sla_deadlines sv x a b) (quiet loggable)"
  shows "obeys R (handle_sla_pause_on_status_change sv created t)"
proof -
  have saved: "obeys R (sv (Some [CPausedAt, CUpdatedAt]) (t\<lparr>sla_paused_at := Some now\<rparr>))" for now
    by (intro side_saverD [OF sv]) (auto simp: side_columns_def t)
  show ?thesis
    unfolding handle_sla_pause_on_status_change_def open_sla_pause_def timezone_now_def Let_def
    by (intro obeys_rules new_pk obeys_update primitive saved create_timeline_entry
        resume_sla_pause sv t keep) simp_all
qed

end

section \<open>What a save returns\<close>

text \<open>
  The part of a ticket that no receiver changes: everything but the side
  columns and the attributes of the signal handlers.
\<close>

definition core :: "ticket \<Rightarrow> ticket" where
  "core t = t\<lparr>sla_first_response_due := None, sla_resolution_due := None, sla_paused_at := None,
              updated_at := 0, flags := no_flags\<rparr>"

lemma core_side [simp]:
  "core (t\<lparr>sla_first_response_due := d\<rparr>) = core t"
  "core (t\<lparr>sla_resolution_due := d\<rparr>) = core t"
  "core (t\<lparr>sla_paused_at := d\<rparr>) = core t"
  "core (t\<lparr>updated_at := u\<rparr>) = core t"
  "core (t\<lparr>flags := f\<rparr>) = core t"
  by (simp_all add: core_def)

lemma pick_kept: "set uf \<subseteq> side_columns \<Longrightarrow> c \<notin> side_columns \<Longrightarrow> pick uf c f t r = f r"
  by (auto simp: pick_def)

lemma core_write_side:
  assumes "set uf \<subseteq> side_columns"
  shows "core (write_columns uf t r) = core r"
  by (simp add: core_def write_columns_def pick_kept [OF assms] side_columns_def)

text \<open>
  A property of an instance that survives the side columns and the
  \<open>pre_save\<close> receiver survives a save.
\<close>

locale instance_law =
  fixes P :: "ticket \<Rightarrow> bool"
  assumes stable [simp]: "P (x\<lparr>sla_first_response_due := d\<rparr>) = P x"
      "P (x\<lparr>sla_resolution_due := d\<rparr>) = P x" "P (x\<lparr>sla_paused_at := d\<rparr>) = P x"
      "P (x\<lparr>updated_at := u\<rparr>) = P x"
    and before: "P x \<Longrightarrow> yields (before_save x) P"
begin

definition good_saver :: "saver \<Rightarrow> bool" where
  "good_saver sv \<longleftrightarrow> (\<forall>uf x. P x \<longrightarrow> yields (sv (Some uf) x) P)"

lemma good_saverD: "good_saver sv \<Longrightarrow> P x \<Longrightarrow> yields (sv (Some uf) x) P"
  by (simp add: good_saver_def)

lemma yields_write_row: "P x \<Longrightarrow> yields (write_row (Some uf) x) (\<lambda>(c, y). P y)"
  unfolding write_row_def timezone_now_def Let_def
  by (intro yields_bind_all) (auto intro!: yields_raise yields_then yields_ret split: option.split)

lemma yields_shift:
  assumes sv: "good_saver sv" and x: "P x"
  shows "yields (shift_sla_deadlines sv x a b) P"
proof -
  have first: "yields (shift_first_due zi mins x) (\<lambda>(y, uf). P y)" for zi mins
    unfolding shift_first_due_def using x by (intro yields_option yields_bind_all yields_ret) simp_all
  have second: "yields (shift_resolution_due zi mins d) (\<lambda>(y, uf). P y)" if "case d of (y, uf) \<Rightarrow> P y" for zi mins d
    unfolding shift_resolution_due_def using that
    by (intro yields_prod yields_option yields_bind_all yields_ret) auto
  have finish: "yields (finish_shift sv x d) P" if "case d of (y, uf) \<Rightarrow> P y" for d
    unfolding finish_shift_def using that
    by (auto intro!: yields_prod yields_bind [OF good_saverD [OF sv]] yields_then yields_ret)
  show ?thesis
    unfolding shift_sla_deadlines_def
    by (rule yields_bind_all [where c = "asks _"] yields_bind_all [where c = "lift_res _"] yields_if
          yields_ret x yields_bind [OF first] yields_bind [OF second] finish | assumption)+
qed

lemma yields_handle_pause:
  assumes sv: "good_saver sv" and x: "P x"
  shows "yields (handle_sla_pause_on_status_change sv c x) P"
proof -
  have paused: "yields (sv (Some uf) (y\<lparr>sla_paused_at := d\<rparr>)) P" if "P y" for uf y d
    using that by (intro good_saverD [OF sv]) simp
  have finish: "yields (finish_resume sv p now why y) P" if "P y" for p now why y
    unfolding finish_resume_def using that by (intro yields_bind [OF paused] yields_then yields_ret)
  have resume: "yields (resume_sla_pause sv x now why) P" for now why
    unfolding resume_sla_pause_def
    by (rule yields_bind_all [where c = "asks _"] yields_option yields_ret x yields_then
          yields_bind [OF yields_shift [OF sv x]] finish | assumption)+
  show ?thesis
    unfolding handle_sla_pause_on_status_change_def open_sla_pause_def Let_def timezone_now_def
    by (rule yields_if yields_ret x yields_bind_all [where c = "asks _"] yields_then
          yields_bind_all [where c = new_pk] yields_bind [OF paused [OF x]] resume | assumption)+
qed

lemma yields_save: "P x \<Longrightarrow> yields (save_nested n (Some uf) x) P"
proof (induction n arbitrary: uf x)
  case 0
  show ?case by (simp add: yields_raise)
next
  case (Suc n)
  then have sv: "good_saver (save_nested n)" by (simp add: good_saver_def)
  show ?case
    unfolding save_nested.simps post_save_def
    by (rule yields_bind [OF before [OF Suc.prems]] yields_bind [OF yields_write_row] yields_prod
          yields_then yields_bind [OF yields_handle_pause [OF sv]] yields_ret
        | assumption | simp)+
qed

lemma good_save_nested: "good_saver (save_nested n)"
  by (simp add: good_saver_def yields_save)

end

lemma yields_before_save:
  assumes "\<And>s n. P (handle_ticket_status_change s (fill_company s (t\<lparr>number := n\<rparr>)))"
    and "\<And>s. P (handle_ticket_status_change s (fill_company s t))"
  shows "yields (before_save t) P"
proof -
  have "yields (fill_number t) (\<lambda>x. x = t \<or> (\<exists>n. x = t\<lparr>number := n\<rparr>))"
    unfolding fill_number_def by (intro yields_if yields_bind_all yields_ret) auto
  then show ?thesis
    unfolding before_save_def
    by (rule yields_bind) (use assms in \<open>auto simp: yields_def bindc_def asks_def ret_def\<close>)
qed

text \<open>What \<open>pre_save\<close> and the receivers never change on an instance.\<close>

definition firm :: "ticket \<Rightarrow> ticket" where
  "firm t = (core t)\<lparr>number := 0, company := None, resolved_at := None, closed_at := None,
                     sla_resolution_breached := False\<rparr>"

lemma firm_stamp [simp]: "firm (stamp_lifecycle now t) = firm t"
  by (auto simp: stamp_lifecycle_def firm_def core_def Let_def split: option.split bool.split)

lemma firm_remember [simp]: "firm (remember_previous p t) = firm t"
  by (simp add: remember_previous_def firm_def)

lemma firm_pre_save [simp]: "firm (handle_ticket_status_change s t) = firm t"
  by (simp add: handle_ticket_status_change_def Let_def split: option.split)

lemma firm_company [simp]: "firm (fill_company s t) = firm t"
  by (auto simp: fill_company_def firm_def core_def split: option.split)

lemma firm_number [simp]: "firm (t\<lparr>number := n\<rparr>) = firm t"
  by (simp add: firm_def core_def)

lemma firm_side [simp]:
  "firm (t\<lparr>sla_first_response_due := d\<rparr>) = firm t" "firm (t\<lparr>sla_resolution_due := d\<rparr>) = firm t"
  "firm (t\<lparr>sla_paused_at := d\<rparr>) = firm t" "firm (t\<lparr>updated_at := u\<rparr>) = firm t"
  "firm (t\<lparr>flags := f\<rparr>) = firm t"
  by (simp_all add: firm_def)

interpretation firm_law: instance_law "\<lambda>x. firm x = k" for k
  by unfold_locales (auto intro!: yields_before_save)

lemma skip_pre_save [simp]:
  "skip_signal_logging (flags (handle_ticket_status_change s t)) = skip_signal_logging (flags t)"
  by (auto simp: handle_ticket_status_change_def stamp_lifecycle_def remember_previous_def Let_def
      split: option.split bool.split)

lemma skip_company [simp]: "flags (fill_company s t) = flags t"
  by (auto simp: fill_company_def split: option.split)

interpretation quiet_law: instance_law "quiet loggable" for loggable
  by unfold_locales (auto simp: quiet_def intro!: yields_before_save)

section \<open>The law of a save\<close>

context save_law
begin

lemma write_row:
  assumes "\<And>x i s. R s (write_ticket i uf x s)"
  shows "obeys R (write_row (Some uf) t)"
proof -
  have "obeys R (update (\<lambda>s. s\<lparr>tickets := map (\<lambda>r. if pk r = i then write_columns uf x r else r)
           (tickets s)\<rparr>))" for x i
    by (rule obeys_update) (use assms in \<open>simp add: write_ticket_def\<close>)
  then show ?thesis
    unfolding write_row_def timezone_now_def Let_def
    by (intro obeys_bind obeys_asks) (auto split: option.split intro!: obeys_raise obeys_then obeys_ret)
qed

lemma post_save:
  assumes "side_saver R loggable sv" "quiet loggable t" "instance_law.good_saver (quiet loggable) sv"
  shows "obeys R (post_save sv c uf t)"
  unfolding post_save_def
  by (intro obeys_bind obeys_then obeys_ret fire_created fire_assigned log_ticket_activity
      create_kanban_card sync_kanban_status sync_kanban_stage handle_sla_pause
      quiet_law.yields_shift assms)

lemma obeys_save_nested:
  assumes sv: "side_saver R loggable (save_nested n)" and t: "quiet loggable t"
    and w: "\<And>x i s. R s (write_ticket i uf x s)"
  shows "obeys R (save_nested (Suc n) (Some uf) t)"
  unfolding save_nested.simps
  by (rule obeys_bind_yields [OF quiet_law.before [OF t] before_save]
        obeys_bind_yields [OF quiet_law.yields_write_row write_row [OF w]]
        obeys_prod post_save sv quiet_law.good_save_nested | assumption | simp)+

lemma side_save_nested: "side_saver R loggable (save_nested n)"
proof (induction n)
  case 0
  then show ?case by (simp add: side_saver_def obeys_raise)
next
  case (Suc n)
  have "obeys R (save_nested (Suc n) (Some uf) t)" if "set uf \<subseteq> side_columns" "quiet loggable t" for uf t
    by (rule obeys_save_nested [OF Suc that(2) law_side [OF that(1)]])
  then show ?case unfolding side_saver_def by blast
qed

lemma save_ticket:
  assumes "quiet loggable t" and "\<And>x i s. R s (write_ticket i uf x s)"
  shows "obeys R (save_ticket (Some uf) t)"
proof -
  have "save_ticket = save_nested (Suc 99)" by (simp only: save_ticket_def recursion_limit_def) simp
  from obeys_save_nested [OF side_save_nested assms, of 99, folded this] show ?thesis .
qed

end

end
