(* ===== verification/Ticket_Trail.thy ===== *)
theory Ticket_Trail
  imports Ticket_Frame
begin

text \<open>
  The law of every service operation on tickets, derived in the locale
  \<open>write_law\<close> from the laws of its primitive writes, and its interpretation on
  the trail the operations leave: audit entries and queued tasks are only ever
  appended, the environment does not change.
\<close>

locale service_law = save_law R loggable for R :: "store \<Rightarrow> store \<Rightarrow> bool" and loggable +
  assumes law_timeline_all: "R s (s\<lparr>timeline := es\<rparr>)"
    and law_comments: "R s (s\<lparr>comments := cs\<rparr>)"
    and law_attachments: "R s (s\<lparr>attachments := as\<rparr>)"
    and law_links: "R s (s\<lparr>links := ls\<rparr>)"
    and law_assignments: "R s (s\<lparr>assignments := gs\<rparr>)"
    and law_on_commit: "R s (s\<lparr>on_commit := cbs\<rparr>)"
    and law_outbox: "R s (s\<lparr>outbox := outbox s @ ts'\<rparr>)"
    and law_rollback: "R s t \<Longrightarrow> R s (rollback s t)"
begin

lemmas writes = law_timeline_all law_comments law_attachments law_links law_assignments
  law_on_commit law_outbox primitive

lemma timeline_entry: "obeys R (create_timeline_entry t e u md)"
  unfolding create_timeline_entry_def by (intro obeys_rules obeys_update writes log_contact_event)

lemma broadcast: "obeys R (broadcast_ticket_event t e x)"
  unfolding broadcast_ticket_event_def by (intro obeys_update writes)

lemma webhooks: "obeys R (fire_webhooks tnt e d)"
  unfolding fire_webhooks_def Let_def by (intro obeys_update writes)

lemma callback: "obeys R (register_callback cb)"
  unfolding register_callback_def by (intro obeys_update writes)

lemma assignment: "obeys R (create_assignment t u a n)"
  unfolding create_assignment_def by (intro obeys_update writes)

lemma comment_posted: "obeys R (post_comment tnt i u b x)"
  unfolding post_comment_def by (intro obeys_rules obeys_update new_pk writes)

lemma cancel: "obeys R (cancel_auto_close_task t)"
  unfolding cancel_auto_close_task_def by (intro obeys_rules obeys_update writes)

lemma atomic_op: "obeys R c \<Longrightarrow> obeys R (atomic c)"
  by (intro obeys_atomic law_rollback)

lemma moved: "obeys R (move_comments p i j)" "obeys R (move_activities i j)" "obeys R (move_attachments i j)"
  unfolding move_comments_def move_activities_def move_attachments_def
  by (intro obeys_rules obeys_update writes)+

lemma link: "obeys R (create_link tnt i j k a)" "obeys R (get_or_create_link tnt i j k a)"
  unfolding get_or_create_link_def create_link_def by (intro obeys_rules obeys_update writes)+

lemma refreshed: "obeys R (refresh_from_db f t)"
  unfolding refresh_from_db_def by (intro obeys_rules)

lemma param: "obeys R (param k v)"
  unfolding param_def by (intro obeys_rules)

lemma get_or_raise: "obeys R (get_or_raise m q)"
  unfolding get_or_raise_def by (intro obeys_rules)

lemmas parts = broadcast webhooks callback assignment comment_posted cancel send_signal
  timeline_entry log_sla_change new_pk atomic_op

end

section \<open>Operations that leave some columns alone\<close>

text \<open>
  \<open>column_law\<close> admits the writes that stay clear of the columns \<open>frozen\<close>.
\<close>

definition lifecycle_columns :: "tcol set" where
  "lifecycle_columns = {CStatus, CClosedAt, CResolvedAt, CSolvedAt, CPreWaitStatus}"

locale column_law = service_law R "\<lambda>_. True" for R :: "store \<Rightarrow> store \<Rightarrow> bool" +
  assumes law_write: "set uf \<inter> lifecycle_columns = {} \<Longrightarrow> R s (write_ticket i uf x s)"
    and law_response: "R s (s\<lparr>tickets := map (\<lambda>r. if pk r = i \<and> first_responded_at r = None
          then r\<lparr>first_responded_at := Some a, updated_at := u\<rparr> else r) (tickets s)\<rparr>)"
    and law_response_breach: "R s (s\<lparr>tickets := map (\<lambda>r. if pk r = i \<and> \<not> sla_response_breached r
          then r\<lparr>sla_response_breached := True, updated_at := u\<rparr> else r) (tickets s)\<rparr>)"
begin

lemma quiet [simp]: "quiet (\<lambda>_. True) t"
  by (simp add: quiet_def)

lemma save_clear: "set uf \<inter> lifecycle_columns = {} \<Longrightarrow> obeys R (save_ticket (Some uf) t)"
  by (rule save_ticket) (simp_all add: law_write)

lemma log: "obeys R (log_activity tnt u ct i a ch req)"
  by (simp add: log_activity)

lemma initialize_sla: "obeys R (initialize_sla t)"
  unfolding initialize_sla_def timezone_now_def
  by (intro obeys_rules save_clear) (simp add: lifecycle_columns_def)

lemma extend: "obeys R (extend_sla_on_escalation t now a)"
  unfolding extend_sla_on_escalation_def
  by (intro obeys_rules parts save_clear) (simp add: lifecycle_columns_def)

lemma change_priority: "obeys R (change_ticket_priority t p a req)"
  unfolding change_ticket_priority_def
  by (intro parts log obeys_rules save_clear) (simp add: lifecycle_columns_def)

lemma escalate: "obeys R (escalate_ticket t a why u q req)"
proof -
  let ?clear = "\<lambda>(x, uf). set uf \<inter> lifecycle_columns = {}"
  have saved: "obeys R (save_ticket (Some uf) y)" if "?clear d" "d = (x, uf)" for d x y uf
    using that by (intro save_clear) simp
  have draft: "yields (case u of
            None \<Rightarrow> ret (t1, [CEscalationCount, CEscalatedAt, CUpdatedAt])
          | Some b \<Rightarrow>
              bindc (asks (\<lambda>s. is_active_member s b tnt)) (\<lambda>member.
                if \<not> member then raise_exc not_a_member
                else thenc (create_assignment t b (Some a) (''Escalation: '' @ why))
                  (ret (t1\<lparr>assignee := Some b, assigned_by := Some a, assigned_at := Some now\<rparr>,
                        [CEscalationCount, CEscalatedAt, CUpdatedAt] @ [CAssignee, CAssignedBy, CAssignedAt]))))
          ?clear" for t1 tnt now
    by (intro yields_option yields_bind_all yields_if yields_raise yields_then yields_ret)
      (simp_all add: lifecycle_columns_def)
  have queued: "?clear (case q of None \<Rightarrow> d | Some b \<Rightarrow> (f d b, snd d @ [CQueue]))" if "?clear d" for d f
    using that by (auto simp: lifecycle_columns_def split: option.split prod.split)
  show ?thesis
    unfolding escalate_ticket_def timezone_now_def Let_def
    apply (rule atomic_op)
    apply (rule obeys_bind [OF obeys_asks])
    apply (rule obeys_bind_yields [OF draft])
     apply (intro obeys_rules parts)
    apply (cases q)
     apply (auto intro!: obeys_bind obeys_then obeys_ret log parts extend save_clear simp: lifecycle_columns_def)
    done
qed

lemma rows_updated: "(\<And>s. R s (s\<lparr>tickets := map (\<lambda>r. if pk r = i \<and> p r then f r else r) (tickets s)\<rparr>)) \<Longrightarrow>
    obeys R (update_rows i p f)"
  unfolding update_rows_def by (intro obeys_rules obeys_update)

lemma response_breach: "obeys R (check_first_response_breach t)"
  unfolding check_first_response_breach_def timezone_now_def
  by (intro obeys_rules parts rows_updated law_response_breach refreshed)

lemma first_response: "obeys R (record_first_response t a)"
  unfolding record_first_response_def timezone_now_def
  by (intro obeys_rules parts log rows_updated law_response refreshed response_breach)

lemma comment_logged: "obeys R (log_ticket_comment t a x)"
  unfolding log_ticket_comment_def by (intro obeys_rules parts)

lemma creation: "obeys R (create_ticket_activity t u req)"
  unfolding create_ticket_activity_def by (intro obeys_rules parts log)

end

section \<open>Every operation\<close>

locale row_law = service_law R "\<lambda>_. True" for R :: "store \<Rightarrow> store \<Rightarrow> bool" +
  assumes law_write: "R s (write_ticket i uf x s)"
    and law_response: "R s (s\<lparr>tickets := map (\<lambda>r. if pk r = i \<and> first_responded_at r = None
          then r\<lparr>first_responded_at := Some a, updated_at := u\<rparr> else r) (tickets s)\<rparr>)"
    and law_response_breach: "R s (s\<lparr>tickets := map (\<lambda>r. if pk r = i \<and> \<not> sla_response_breached r
          then r\<lparr>sla_response_breached := True, updated_at := u\<rparr> else r) (tickets s)\<rparr>)"
begin

lemma quiet [simp]: "quiet (\<lambda>_. True) t"
  by (simp add: quiet_def)

lemma save_some: "obeys R (save_ticket (Some uf) t)"
  by (rule save_ticket) (simp_all add: law_write)

lemma log: "obeys R (log_activity tnt u ct i a ch req)"
  by (simp add: log_activity)

lemmas steps = save_some log parts

lemma initialize_sla: "obeys R (initialize_sla t)"
  unfolding initialize_sla_def timezone_now_def by (intro obeys_rules steps)

lemma creation: "obeys R (create_ticket_activity t u req)"
  unfolding create_ticket_activity_def by (intro obeys_rules steps)

lemma assign: "obeys R (assign_ticket t u a req n)"
  unfolding assign_ticket_def timezone_now_def by (intro steps obeys_rules)

lemma recorded: "obeys R (record_status_change now old new a req tnt t)"
  unfolding record_status_change_def by (intro steps obeys_rules)

lemma change_status: "obeys R (change_ticket_status t st a req)"
  unfolding change_ticket_status_def timezone_now_def by (intro steps obeys_rules recorded)

lemma transition: "obeys R (transition_ticket_status t st a req)"
  unfolding transition_ticket_status_def by (intro obeys_rules change_status)

lemma resume: "obeys R (resume_from_wait t a req)"
  unfolding resume_from_wait_def by (intro obeys_rules change_status)

lemma close: "obeys R (close_ticket t a req)"
  unfolding close_ticket_def by (intro steps obeys_rules transition)

lemma extend: "obeys R (extend_sla_on_escalation t now a)"
  unfolding extend_sla_on_escalation_def by (intro obeys_rules steps)

lemma escalate: "obeys R (escalate_ticket t a why u q req)"
  unfolding escalate_ticket_def timezone_now_def by (intro steps obeys_rules extend)

lemma change_priority: "obeys R (change_ticket_priority t p a req)"
  unfolding change_ticket_priority_def by (intro steps obeys_rules)

lemma comment_logged: "obeys R (log_ticket_comment t a x)"
  unfolding log_ticket_comment_def by (intro obeys_rules steps)

lemma rows_updated: "(\<And>s. R s (s\<lparr>tickets := map (\<lambda>r. if pk r = i \<and> p r then f r else r) (tickets s)\<rparr>)) \<Longrightarrow>
    obeys R (update_rows i p f)"
  unfolding update_rows_def by (intro obeys_rules obeys_update)

lemma response_breach: "obeys R (check_first_response_breach t)"
  unfolding check_first_response_breach_def timezone_now_def
  by (intro obeys_rules steps rows_updated law_response_breach refreshed)

lemma first_response: "obeys R (record_first_response t a)"
  unfolding record_first_response_def timezone_now_def
  by (intro obeys_rules steps rows_updated law_response refreshed response_breach)

lemma bulk_step: "obeys R (bulk_step act a req t)"
  by (cases act) (simp_all only: bulk_step.simps timezone_now_def,
    (intro steps obeys_rules param get_or_raise assign change_status change_priority)+)

lemma bulk: "obeys R (bulk_update_tickets ts act a req)"
  unfolding bulk_update_tickets_def bulk_one_def by (intro obeys_rules bulk_step)

lemma merge: "obeys R (merge_tickets p t a req)"
  unfolding merge_tickets_def timezone_now_def by (intro steps obeys_rules moved link)

lemma macro: "obeys R (apply_macro t m a req)"
  unfolding apply_macro_def macro_step_def
  by (intro steps obeys_rules transition change_priority)

lemma pipeline: "obeys R (transition_pipeline_stage t st a why req)"
  unfolding transition_pipeline_stage_def timezone_now_def by (intro steps obeys_rules)

end

text \<open>The split inserts a row as well.\<close>

locale write_law = row_law +
  assumes law_tickets: "R s (s\<lparr>tickets := ts\<rparr>)"
begin

lemma save_all: "obeys R (save_nested (Suc n) None t)"
proof -
  have "obeys R (write_row None x)" for x
    unfolding write_row_def timezone_now_def Let_def
    by (intro obeys_bind obeys_asks)
      (auto split: option.split intro!: obeys_then obeys_ret obeys_update law_tickets)
  then show ?thesis
    unfolding save_nested.simps
    by (intro obeys_bind before_save obeys_prod post_save side_save_nested quiet quiet_law.good_save_nested)
qed

lemma save_any: "obeys R (save_ticket uf t)"
proof (cases uf)
  case None
  have "save_ticket = save_nested (Suc 99)" by (simp only: save_ticket_def recursion_limit_def) simp
  then show ?thesis using save_all None by metis
qed (simp add: save_some)

lemma split: "obeys R (split_ticket t ids a d req)"
  unfolding split_ticket_def timezone_now_def
  by (intro save_any steps obeys_rules moved link initialize_sla param)

end

section \<open>The trail\<close>

definition trail_grows :: "store \<Rightarrow> store \<Rightarrow> bool" where
  "trail_grows s s' \<longleftrightarrow> prefix (audits s) (audits s') \<and> prefix (outbox s) (outbox s') \<and>
     clock s' = clock s \<and> current_tenant s' = current_tenant s \<and> statuses s' = statuses s \<and>
     policies s' = policies s \<and> memberships s' = memberships s"

interpretation trail: write_law trail_grows
  by unfold_locales (auto simp: trail_grows_def write_ticket_def rollback_def)

end
