(* ===== verification/Ticket_Demo.thy ===== *)
theory Ticket_Demo
  imports Ticket_Combine
begin

text \<open>
  A small store that the witnesses evaluate: one tenant on the wall clock with
  the five default statuses, one user, one open ticket.
\<close>

definition demo_tenant :: tenant where
  "demo_tenant = \<lparr>tenant_id = 1, tenant_slug = ''acme'', tenant_active = True, settings = None, hours_row = None, holidays = []\<rparr>"

definition demo_status :: "nat \<Rightarrow> string \<Rightarrow> bool \<Rightarrow> bool \<Rightarrow> bool \<Rightarrow> ticket_status" where
  "demo_status i slug cl dflt ps = \<lparr>status_id = i, status_tenant = 1, status_name = slug, status_slug = slug,
     status_order = i, is_closed = cl, is_default = dflt, pauses_sla = ps\<rparr>"

definition st_open :: ticket_status where "st_open = demo_status 1 ''open'' False True False"
definition st_progress :: ticket_status where "st_progress = demo_status 2 ''in-progress'' False False False"
definition st_waiting :: ticket_status where "st_waiting = demo_status 3 ''waiting'' False False True"
definition st_resolved :: ticket_status where "st_resolved = demo_status 4 ''resolved'' False False False"
definition st_closed :: ticket_status where "st_closed = demo_status 5 ''closed'' True False False"

definition demo_user :: user where
  "demo_user = \<lparr>user_id = 7, first_name = ''Ada'', last_name = ''L'', email = ''ada@acme''\<rparr>"

definition demo_ticket :: ticket where
  "demo_ticket = (new_ticket 10 demo_tenant ''Printer'' ''on fire'' ''high'' demo_user)
     \<lparr>number := 1, status := Some st_open, sla_first_response_due := Some 5000, sla_resolution_due := Some 9000\<rparr>"

definition demo_store :: store where
  "demo_store = \<lparr>clock = 1000, current_tenant = Some 1, zoneinfo_db = (\<lambda>_. None), next_pk = 100,
     tickets = [demo_ticket], counters = [(1, 1)], users = [demo_user], memberships = [],
     statuses = [st_open, st_progress, st_waiting, st_resolved, st_closed], queues = [], policies = [],
     pauses = [], timeline = [], audits = [], contacts = [], contact_events = [], assignments = [],
     comments = [], attachments = [], links = [], boards = [], columns = [], cards = [], webhooks = [],
     articles = [], on_commit = [], signals = [], outbox = []\<rparr>"

end
