(* ===== verification/Ticket_Lifecycle.thy ===== *)
theory Ticket_Lifecycle
  imports Ticket_Trail Ticket_Demo
begin

text \<open>
  The lifecycle of a stored ticket: what \<open>change_ticket_status\<close> leaves in its
  row, the invariant between the status and the lifecycle columns, and its
  preservation along every run of the workflow operations.
\<close>

section \<open>The rows a save leaves\<close>

definition core_kept :: "store \<Rightarrow> store \<Rightarrow> bool" where
  "core_kept s s' \<longleftrightarrow> map core (tickets s') = map core (tickets s) \<and> clock s' = clock s"

lemma pk_core [simp]: "pk (core t) = pk t"
  by (simp add: core_def)

interpretation core_law: service_law core_kept "\<lambda>_. True"
  by unfold_locales (auto simp: core_kept_def write_ticket_def rollback_def core_write_side cong: if_cong)

lemma save_nested_unfold: "save_ticket = save_nested (Suc 99)"
  by (simp only: save_ticket_def recursion_limit_def) simp

lemma before_save_run:
  "number t \<noteq> 0 \<Longrightarrow> before_save t s = (Inr (handle_ticket_status_change s (fill_company s t)), s)"
  by (simp add: before_save_def fill_number_def cmd_simps)

lemma pk_pre_save [simp]: "pk (handle_ticket_status_change s t) = pk t"
proof -
  have "pk (firm x) = pk x" for x by (simp add: firm_def)
  then show ?thesis by (metis firm_pre_save)
qed

lemma pk_company [simp]: "pk (fill_company s t) = pk t"
  by (auto simp: fill_company_def split: option.split)

lemma core_write_updated [simp]:
  "core (write_columns uf (t\<lparr>updated_at := u\<rparr>) r) = core (write_columns uf t r)"
  by (simp add: core_def write_columns_def pick_def)

definition touch :: "tcol list \<Rightarrow> instant \<Rightarrow> ticket \<Rightarrow> ticket" where
  "touch uf now t = (if CUpdatedAt \<in> set uf then t\<lparr>updated_at := now\<rparr> else t)"

lemma write_row_run:
  "ticket_row (pk t) s = Some row \<Longrightarrow>
   write_row (Some uf) t s = (Inr (False, touch uf (clock s) t), write_ticket (pk t) uf (touch uf (clock s) t) s)"
  by (simp add: write_row_def timezone_now_def cmd_simps touch_def write_ticket_def Let_def)

theorem save_rows:
  assumes run: "save_ticket (Some uf) t s = (Inr t', s')" and num: "number t \<noteq> 0"
  defines "x \<equiv> handle_ticket_status_change s (fill_company s t)"
  shows "\<exists>row. ticket_row (pk t) s = Some row"
    and "map core (tickets s') = map core (tickets (write_ticket (pk t) uf x s))"
    and "clock s' = clock s" and "firm t' = firm t"
proof -
  from run obtain c y s1 where
    w: "write_row (Some uf) x s = (Inr (c, y), s1)" and
    post: "post_save (save_nested 99) c (Some uf) y s1 = (Inr t', s')"
    unfolding save_nested_unfold save_nested.simps
    by (auto simp: returns before_save_run [OF num] x_def)
  have pkx: "pk x = pk t" by (simp add: x_def)
  show row: "\<exists>row. ticket_row (pk t) s = Some row"
    using w by (auto simp: write_row_def timezone_now_def returns pkx split: option.splits)
  then obtain row where "ticket_row (pk x) s = Some row" by (auto simp: pkx)
  with w have y: "y = touch uf (clock s) x" and s1: "s1 = write_ticket (pk t) uf y s"
    by (auto simp: write_row_run pkx)
  have "obeys core_kept (post_save (save_nested 99) c (Some uf) y)"
    by (intro core_law.post_save core_law.side_save_nested quiet_law.good_save_nested) (simp add: quiet_def)
  then have "core_kept s1 s'" using post by (rule obeysD)
  moreover have "map core (tickets s1) = map core (tickets (write_ticket (pk t) uf x s))"
    by (simp add: s1 y write_ticket_def touch_def cong: if_cong)
  ultimately show "map core (tickets s') = map core (tickets (write_ticket (pk t) uf x s))"
      "clock s' = clock s"
    by (simp_all add: core_kept_def s1 write_ticket_def)
  show "firm t' = firm t"
    using run firm_law.yields_save [of t "firm t"] unfolding save_ticket_def
    by (auto dest: yieldsD)
qed

text \<open>The rows seen through \<open>core\<close>.\<close>

lemma ticket_row_core:
  assumes "map core (tickets s') = map core (tickets s)"
  shows "map_option core (ticket_row i s') = map_option core (ticket_row i s)"
proof -
  have "map core ts' = map core ts \<Longrightarrow>
        map_option core (first_row (\<lambda>t. pk t = i) ts') = map_option core (first_row (\<lambda>t. pk t = i) ts)" for ts' ts
  proof (induction ts' arbitrary: ts)
    case (Cons a as)
    then obtain b bs where ts: "ts = b # bs" "core a = core b" "map core as = map core bs" by auto
    then have "pk a = pk b" by (metis pk_core)
    with Cons.IH ts show ?case by simp
  qed simp
  from this [OF assms] show ?thesis by (simp only: ticket_row_def)
qed

lemma ticket_row_write:
  "ticket_row i (write_ticket j uf x s) =
     map_option (\<lambda>r. if i = j then write_columns uf x r else r) (ticket_row i s)"
proof -
  have "pk (write_columns uf x r) = pk r" for r by (simp add: write_columns_def)
  then have "first_row (\<lambda>t. pk t = i) (map (\<lambda>r. if pk r = j then write_columns uf x r else r) ts) =
    map_option (\<lambda>r. if i = j then write_columns uf x r else r) (first_row (\<lambda>t. pk t = i) ts)" for ts
    by (induction ts) auto
  then show ?thesis by (simp add: ticket_row_def write_ticket_def)
qed

section \<open>The draft of a status change\<close>

lemma check_breach_fields [simp]:
  "status (check_resolution_breach now t) = status t"
  "closed_at (check_resolution_breach now t) = closed_at t"
  "resolved_at (check_resolution_breach now t) = resolved_at t"
  "solved_at (check_resolution_breach now t) = solved_at t"
  "pre_wait_status (check_resolution_breach now t) = pre_wait_status t"
  "status_changed_at (check_resolution_breach now t) = status_changed_at t"
  "status_changed_by (check_resolution_breach now t) = status_changed_by t"
  "pk (check_resolution_breach now t) = pk t"
  "number (check_resolution_breach now t) = number t"
  by (simp_all add: check_resolution_breach_def split: option.split)

definition closing :: "ticket_status option \<Rightarrow> ticket_status \<Rightarrow> bool" where
  "closing old new \<longleftrightarrow> is_closed new \<and> \<not> status_flag is_closed old"

definition reopening :: "ticket_status option \<Rightarrow> ticket_status \<Rightarrow> bool" where
  "reopening old new \<longleftrightarrow> status_flag is_closed old \<and> \<not> is_closed new"

definition resolving :: "ticket_status option \<Rightarrow> ticket_status \<Rightarrow> bool" where
  "resolving old new \<longleftrightarrow> status_slug new = ''resolved'' \<and> \<not> has_slug old ''resolved''"

lemma snapshot_wait_fields:
  "status (fst (snapshot_wait old new d)) = status (fst d)"
  "pk (fst (snapshot_wait old new d)) = pk (fst d)"
  "number (fst (snapshot_wait old new d)) = number (fst d)"
  "status_changed_at (fst (snapshot_wait old new d)) = status_changed_at (fst d)"
  "status_changed_by (fst (snapshot_wait old new d)) = status_changed_by (fst d)"
  "closed_at (fst (snapshot_wait old new d)) = closed_at (fst d)"
  "resolved_at (fst (snapshot_wait old new d)) = resolved_at (fst d)"
  "solved_at (fst (snapshot_wait old new d)) = solved_at (fst d)"
  "pre_wait_status (fst (snapshot_wait old new d)) = (if pauses_sla new \<and> \<not> status_flag pauses_sla old then old
     else if status_flag pauses_sla old \<and> \<not> pauses_sla new then None else pre_wait_status (fst d))"
  "set (snd (snapshot_wait old new d)) = (if pauses_sla new \<noteq> status_flag pauses_sla old then {CPreWaitStatus} else {}) \<union> set (snd d)"
  by (auto simp: snapshot_wait_def Let_def split: prod.split)

lemma mark_solved_fields:
  "status (fst (mark_solved now old new d)) = status (fst d)"
  "pk (fst (mark_solved now old new d)) = pk (fst d)"
  "number (fst (mark_solved now old new d)) = number (fst d)"
  "status_changed_at (fst (mark_solved now old new d)) = status_changed_at (fst d)"
  "status_changed_by (fst (mark_solved now old new d)) = status_changed_by (fst d)"
  "closed_at (fst (mark_solved now old new d)) = closed_at (fst d)"
  "resolved_at (fst (mark_solved now old new d)) = resolved_at (fst d)"
  "solved_at (fst (mark_solved now old new d)) = (if resolving old new then Some now else solved_at (fst d))"
  "pre_wait_status (fst (mark_solved now old new d)) = pre_wait_status (fst d)"
  "set (snd (mark_solved now old new d)) = (if resolving old new then {CSolvedAt} else {}) \<union> set (snd d)"
  by (auto simp: mark_solved_def resolving_def split: prod.split)

lemma unmark_solved_fields:
  "status (fst (unmark_solved old new d)) = status (fst d)"
  "pk (fst (unmark_solved old new d)) = pk (fst d)"
  "number (fst (unmark_solved old new d)) = number (fst d)"
  "status_changed_at (fst (unmark_solved old new d)) = status_changed_at (fst d)"
  "status_changed_by (fst (unmark_solved old new d)) = status_changed_by (fst d)"
  "closed_at (fst (unmark_solved old new d)) = closed_at (fst d)"
  "resolved_at (fst (unmark_solved old new d)) = resolved_at (fst d)"
  "solved_at (fst (unmark_solved old new d)) = (if leaves_resolved old new then None else solved_at (fst d))"
  "pre_wait_status (fst (unmark_solved old new d)) = pre_wait_status (fst d)"
  "set (snd (unmark_solved old new d)) = (if leaves_resolved old new then {CSolvedAt, CAutoCloseTaskId} else {}) \<union> set (snd d)"
  by (auto simp: unmark_solved_def resolving_def split: prod.split)

lemma stamp_closure_fields:
  "status (fst (stamp_closure now old new d)) = status (fst d)"
  "pk (fst (stamp_closure now old new d)) = pk (fst d)"
  "number (fst (stamp_closure now old new d)) = number (fst d)"
  "status_changed_at (fst (stamp_closure now old new d)) = status_changed_at (fst d)"
  "status_changed_by (fst (stamp_closure now old new d)) = status_changed_by (fst d)"
  "closed_at (fst (stamp_closure now old new d)) = (if closing old new then or_set (closed_at (fst d)) now
     else if reopening old new then None else closed_at (fst d))"
  "resolved_at (fst (stamp_closure now old new d)) = (if closing old new then or_set (resolved_at (fst d)) now
     else if reopening old new then None else resolved_at (fst d))"
  "solved_at (fst (stamp_closure now old new d)) = solved_at (fst d)"
  "pre_wait_status (fst (stamp_closure now old new d)) = pre_wait_status (fst d)"
  "set (snd (stamp_closure now old new d)) = (if closing old new \<or> reopening old new then {CResolvedAt, CClosedAt} else {}) \<union> set (snd d)"
  by (auto simp: stamp_closure_def closing_def reopening_def split: prod.split)

lemma flag_breach_fields:
  "status (fst (flag_breach now old new d)) = status (fst d)"
  "pk (fst (flag_breach now old new d)) = pk (fst d)"
  "number (fst (flag_breach now old new d)) = number (fst d)"
  "status_changed_at (fst (flag_breach now old new d)) = status_changed_at (fst d)"
  "status_changed_by (fst (flag_breach now old new d)) = status_changed_by (fst d)"
  "closed_at (fst (flag_breach now old new d)) = closed_at (fst d)"
  "resolved_at (fst (flag_breach now old new d)) = resolved_at (fst d)"
  "solved_at (fst (flag_breach now old new d)) = solved_at (fst d)"
  "pre_wait_status (fst (flag_breach now old new d)) = pre_wait_status (fst d)"
  "set (snd (flag_breach now old new d)) = (if closing old new \<and> sla_resolution_breached (check_resolution_breach now (fst d))
     then {CResolutionBreached} else {}) \<union> set (snd d)"
  by (auto simp: flag_breach_def closing_def Let_def split: prod.split)

lemma set_status_fields:
  "status (fst (set_status now new actor t)) = Some new" "pk (fst (set_status now new actor t)) = pk t"
  "number (fst (set_status now new actor t)) = number t"
  "status_changed_at (fst (set_status now new actor t)) = Some now"
  "status_changed_by (fst (set_status now new actor t)) = actor"
  "closed_at (fst (set_status now new actor t)) = closed_at t"
  "resolved_at (fst (set_status now new actor t)) = resolved_at t"
  "solved_at (fst (set_status now new actor t)) = solved_at t"
  "pre_wait_status (fst (set_status now new actor t)) = pre_wait_status t"
  "set (snd (set_status now new actor t)) = {CStatus, CStatusChangedAt, CStatusChangedBy, CUpdatedAt}"
  by (auto simp: set_status_def)

lemmas stage_fields = snapshot_wait_fields mark_solved_fields unmark_solved_fields stamp_closure_fields
  flag_breach_fields set_status_fields

lemma draft_fields:
  fixes now new actor t
  defines "t1 \<equiv> fst (draft_status_change now new actor t)"
  shows "status t1 = Some new" "pk t1 = pk t" "number t1 = number t"
    "status_changed_at t1 = Some now" "status_changed_by t1 = actor"
    "closed_at t1 = (if closing (status t) new then or_set (closed_at t) now
       else if reopening (status t) new then None else closed_at t)"
    "resolved_at t1 = (if closing (status t) new then or_set (resolved_at t) now
       else if reopening (status t) new then None else resolved_at t)"
    "solved_at t1 = (if leaves_resolved (status t) new then None
       else if resolving (status t) new then Some now else solved_at t)"
    "pre_wait_status t1 = (if pauses_sla new \<and> \<not> status_flag pauses_sla (status t) then status t
       else if status_flag pauses_sla (status t) \<and> \<not> pauses_sla new then None else pre_wait_status t)"
  unfolding t1_def draft_status_change_def Let_def by (simp_all only: stage_fields)

lemma draft_columns:
  fixes now new actor t
  defines "uf \<equiv> snd (draft_status_change now new actor t)"
  shows "CStatus \<in> set uf" "CStatusChangedAt \<in> set uf" "CStatusChangedBy \<in> set uf" "CUpdatedAt \<in> set uf"
    "CClosedAt \<in> set uf \<longleftrightarrow> closing (status t) new \<or> reopening (status t) new"
    "CResolvedAt \<in> set uf \<longleftrightarrow> closing (status t) new \<or> reopening (status t) new"
    "CSolvedAt \<in> set uf \<longleftrightarrow> leaves_resolved (status t) new \<or> resolving (status t) new"
    "CPreWaitStatus \<in> set uf \<longleftrightarrow> pauses_sla new \<noteq> status_flag pauses_sla (status t)"
  unfolding uf_def draft_status_change_def Let_def by (simp_all add: stage_fields)

section \<open>The row after a status change\<close>

text \<open>An instance that is up to date but for the side columns.\<close>

definition fresh :: "ticket \<Rightarrow> store \<Rightarrow> bool" where
  "fresh t s \<longleftrightarrow> number t \<noteq> 0 \<and> map_option core (ticket_row (pk t) s) = Some (core t)"

lemma core_fields:
  assumes "core a = core b"
  shows "status a = status b" "closed_at a = closed_at b" "resolved_at a = resolved_at b"
    "solved_at a = solved_at b" "pre_wait_status a = pre_wait_status b" "number a = number b"
    "status_changed_at a = status_changed_at b" "status_changed_by a = status_changed_by b"
  using arg_cong [OF assms, of status] arg_cong [OF assms, of closed_at]
    arg_cong [OF assms, of resolved_at] arg_cong [OF assms, of solved_at]
    arg_cong [OF assms, of pre_wait_status] arg_cong [OF assms, of number]
    arg_cong [OF assms, of status_changed_at] arg_cong [OF assms, of status_changed_by]
  by (simp_all add: core_def)

lemma firm_fields:
  assumes "firm a = firm b"
  shows "status a = status b" "solved_at a = solved_at b" "pre_wait_status a = pre_wait_status b"
    "status_changed_at a = status_changed_at b" "status_changed_by a = status_changed_by b"
    "pk a = pk b" "ticket_tenant a = ticket_tenant b"
  using arg_cong [OF assms, of status] arg_cong [OF assms, of solved_at]
    arg_cong [OF assms, of pre_wait_status] arg_cong [OF assms, of status_changed_at]
    arg_cong [OF assms, of status_changed_by] arg_cong [OF assms, of pk]
    arg_cong [OF assms, of ticket_tenant]
  by (simp_all add: firm_def core_def)

definition lifecycle_ok :: "ticket \<Rightarrow> bool" where
  "lifecycle_ok t \<longleftrightarrow> (case status t of
     None \<Rightarrow> False
   | Some st \<Rightarrow> (closed_at t \<noteq> None \<longleftrightarrow> is_closed st) \<and> (resolved_at t \<noteq> None \<longleftrightarrow> is_closed st) \<and>
       (solved_at t \<noteq> None \<longleftrightarrow> status_slug st = ''resolved'') \<and>
       (pre_wait_status t \<noteq> None \<longleftrightarrow> pauses_sla st))"

lemma lifecycle_core: "core a = core b \<Longrightarrow> lifecycle_ok a = lifecycle_ok b"
  by (simp add: lifecycle_ok_def core_fields [of a b] cong: option.case_cong)

lemma or_set_not_None [simp]: "or_set x v \<noteq> None"
  by (simp add: or_set_def split: option.split)

lemma write_columns_lifecycle:
  "status (write_columns uf x r) = pick uf CStatus status x r"
  "closed_at (write_columns uf x r) = pick uf CClosedAt closed_at x r"
  "resolved_at (write_columns uf x r) = pick uf CResolvedAt resolved_at x r"
  "solved_at (write_columns uf x r) = pick uf CSolvedAt solved_at x r"
  "pre_wait_status (write_columns uf x r) = pick uf CPreWaitStatus pre_wait_status x r"
  "status_changed_at (write_columns uf x r) = pick uf CStatusChangedAt status_changed_at x r"
  "status_changed_by (write_columns uf x r) = pick uf CStatusChangedBy status_changed_by x r"
  by (simp_all add: write_columns_def)

lemma stamp_fields:
  "closed_at (stamp_lifecycle now t) = (if status_flag is_closed (status t) then or_set (closed_at t) now else None)"
  "resolved_at (stamp_lifecycle now t) = (if status_flag is_closed (status t) then or_set (resolved_at t) now else None)"
  by (auto simp: stamp_lifecycle_def status_flag_def Let_def split: option.split bool.split)

text \<open>The row written by a status change of a row \<open>r\<close> that satisfies the invariant.\<close>

lemma status_change_row:
  fixes now new actor t
  defines "t1 \<equiv> fst (draft_status_change now new actor t)"
    and "uf \<equiv> snd (draft_status_change now new actor t)"
  assumes row: "core r = core t" and ok: "lifecycle_ok r"
    and x: "firm x = firm t1"
      "closed_at x = (if is_closed new then or_set (closed_at t1) now else None)"
      "resolved_at x = (if is_closed new then or_set (resolved_at t1) now else None)"
  shows "lifecycle_ok (write_columns uf x r)" and "status (write_columns uf x r) = Some new"
    and "status_changed_at (write_columns uf x r) = Some now"
    and "status_changed_by (write_columns uf x r) = actor"
proof -
  note f = draft_fields [of now new actor t, folded t1_def] firm_fields [OF x(1)] x(2,3)
    draft_columns [of now new actor t, folded uf_def] write_columns_lifecycle pick_def
  note t = core_fields [OF row]
  obtain st where st: "status t = Some st" using ok t(1)
    by (auto simp: lifecycle_ok_def split: option.splits)
  show "lifecycle_ok (write_columns uf x r)"
    using ok unfolding lifecycle_ok_def
    by (auto simp: f t st closing_def reopening_def leaves_resolved_def resolving_def has_slug_def status_flag_def)
  show "status (write_columns uf x r) = Some new"
    "status_changed_at (write_columns uf x r) = Some now"
    "status_changed_by (write_columns uf x r) = actor"
    by (simp_all add: f)
qed

lemma core_parts:
  "obeys core_kept (log_activity tnt u ct i a ch req)"
  "obeys core_kept (create_timeline_entry t e u md)"
  "obeys core_kept (register_callback cb)"
  "obeys core_kept (broadcast_ticket_event t ev x)"
  "obeys core_kept (fire_webhooks tnt we d)"
  "obeys core_kept (cancel_auto_close_task t)"
  by (rule core_law.log_activity core_law.timeline_entry core_law.callback core_law.broadcast
      core_law.webhooks core_law.cancel TrueI)+

lemma cancel_run: "cancel_auto_close_task t s = (Inr (), snd (cancel_auto_close_task t s))"
  by (simp add: cancel_auto_close_task_def cmd_simps split: option.split)

lemma cancel_tickets [simp]:
  "tickets (snd (cancel_auto_close_task t s)) = tickets s" "clock (snd (cancel_auto_close_task t s)) = clock s"
  "contacts (snd (cancel_auto_close_task t s)) = contacts s"
  by (simp_all add: cancel_auto_close_task_def cmd_simps split: option.split)

lemma core_record: "obeys core_kept (record_status_change now old new a req tnt t)"
  unfolding record_status_change_def Let_def
  by (intro core_law.obeys_then core_law.obeys_when core_parts)

lemma quietly_simps [simp]:
  "number (quietly t) = number t" "pk (quietly t) = pk t" "status (quietly t) = status t"
  "firm (quietly t) = firm t" "core (quietly t) = core t" "closed_at (quietly t) = closed_at t"
  "resolved_at (quietly t) = resolved_at t" "ticket_tenant (quietly t) = ticket_tenant t"
  by (simp_all add: quietly_def)

text \<open>A status change that returns is one save followed by logging.\<close>

lemma change_status_saves:
  assumes run: "change_ticket_status t new actor req s = (Inr t', s')"
    and diff: "map_option status_id (status t) \<noteq> Some (status_id new)"
  defines "d \<equiv> draft_status_change (clock s) new actor t"
  obtains s0 s2 where "tickets s0 = tickets s" "clock s0 = clock s" "contacts s0 = contacts s"
    "save_ticket (Some (snd d)) (quietly (fst d)) s0 = (Inr t', s2)" "core_kept s2 s'"
proof -
  define s0 where "s0 = snd (whenc (leaves_resolved (status t) new) (cancel_auto_close_task t) s)"
  have s0: "tickets s0 = tickets s" "clock s0 = clock s" "contacts s0 = contacts s"
      "whenc (leaves_resolved (status t) new) (cancel_auto_close_task t) s = (Inr (), s0)"
    using cancel_run [of t s] by (auto simp: s0_def cmd_simps)
  obtain s2 where "save_ticket (Some (snd d)) (quietly (fst d)) s0 = (Inr t', s2)"
      "record_status_change (clock s) (status t) new actor req (ticket_tenant t) t' s2 = (Inr (), s')"
    using run diff s0(4)
    unfolding change_ticket_status_def timezone_now_def Let_def d_def atomic_returns if_not_P [OF diff]
    by (auto simp: returns)
  with s0 that core_record show thesis by (blast dest: obeysD)
qed

lemma pre_save_closed:
  assumes row: "ticket_row (pk t) s = Some r"
    and changed: "map_option status_id (status r) \<noteq> map_option status_id (status t)"
  shows "closed_at (handle_ticket_status_change s (fill_company s t)) =
           (if status_flag is_closed (status t) then or_set (closed_at t) (clock s) else None)"
    and "resolved_at (handle_ticket_status_change s (fill_company s t)) =
           (if status_flag is_closed (status t) then or_set (resolved_at t) (clock s) else None)"
proof -
  have fields: "status (fill_company s t) = status t" "closed_at (fill_company s t) = closed_at t"
      "resolved_at (fill_company s t) = resolved_at t"
    by (auto simp: fill_company_def split: option.split)
  have flag: "status_changed (flags (remember_previous r (fill_company s t)))"
    using changed by (simp add: remember_previous_def fields)
  show "closed_at (handle_ticket_status_change s (fill_company s t)) =
           (if status_flag is_closed (status t) then or_set (closed_at t) (clock s) else None)"
    and "resolved_at (handle_ticket_status_change s (fill_company s t)) =
           (if status_flag is_closed (status t) then or_set (resolved_at t) (clock s) else None)"
    using flag row
    by (simp_all add: handle_ticket_status_change_def stamp_fields remember_previous_def fields)
qed

text \<open>The stored row after \<open>change_ticket_status\<close>, up to the side columns.\<close>

theorem change_status_row:
  assumes run: "change_ticket_status t new actor req s = (Inr t', s')"
    and fresh: "fresh t s" and ok: "lifecycle_ok t"
    and diff: "map_option status_id (status t) \<noteq> Some (status_id new)"
  obtains r uf x where "ticket_row (pk t) s = Some r" "core r = core t"
    "map core (tickets s') = map core (tickets (write_ticket (pk t) uf x s))"
    "lifecycle_ok (write_columns uf x r)" "status (write_columns uf x r) = Some new"
    "status_changed_at (write_columns uf x r) = Some (clock s)"
    "status_changed_by (write_columns uf x r) = actor" "firm t' = firm x"
    "number (write_columns uf x r) = number r"
proof -
  define d where "d = draft_status_change (clock s) new actor t"
  define x where "x s = handle_ticket_status_change s (fill_company s (quietly (fst d)))" for s
  obtain s0 s2 where s0: "tickets s0 = tickets s" "clock s0 = clock s" "contacts s0 = contacts s"
    and save: "save_ticket (Some (snd d)) (quietly (fst d)) s0 = (Inr t', s2)" and rest: "core_kept s2 s'"
    using change_status_saves [OF run diff] unfolding d_def by blast
  note draft = draft_fields [of "clock s" new actor t, folded d_def]
  obtain r where r: "ticket_row (pk t) s = Some r" "core r = core t" and num: "number t \<noteq> 0"
    using fresh by (auto simp: fresh_def)
  have n: "number (quietly (fst d)) \<noteq> 0" using num draft(3) by simp
  note saved = save_rows [OF save n, folded x_def]
  have rows: "map core (tickets s') = map core (tickets (write_ticket (pk t) (snd d) (x s0) s))"
    using saved(2) rest s0(1) draft(2) by (simp add: core_kept_def write_ticket_def)
  have row0: "ticket_row (pk (quietly (fst d))) s0 = Some r"
    using r(1) s0(1) draft(2) by (simp add: ticket_row_def)
  have "map_option status_id (status r) \<noteq> map_option status_id (status (quietly (fst d)))"
    using diff core_fields(1) [OF r(2)] draft(1) by simp
  note stamped = pre_save_closed [OF row0 this, folded x_def]
  have x: "firm (x s0) = firm (fst d)"
    "closed_at (x s0) = (if is_closed new then or_set (closed_at (fst d)) (clock s) else None)"
    "resolved_at (x s0) = (if is_closed new then or_set (resolved_at (fst d)) (clock s) else None)"
    using stamped s0(2) draft(1) by (simp_all add: x_def status_flag_def)
  have ok': "lifecycle_ok r" using ok lifecycle_core [OF r(2)] by simp
  show thesis
    using status_change_row [OF r(2) ok', of "x s0" "clock s" new actor, folded d_def, OF x]
      saved(4) x(1) rows r that [of r "snd d" "x s0"]
    by (simp add: write_columns_def)
qed

section \<open>The invariant of the store\<close>

definition life :: "ticket \<Rightarrow> nat \<times> nat \<times> ticket_status option \<times> instant option \<times> instant option \<times>
    instant option \<times> ticket_status option" where
  "life t = (pk t, number t, status t, closed_at t, resolved_at t, solved_at t, pre_wait_status t)"

definition life_kept :: "store \<Rightarrow> store \<Rightarrow> bool" where
  "life_kept s s' \<longleftrightarrow> map life (tickets s') = map life (tickets s)"

lemma life_write:
  assumes "set uf \<inter> lifecycle_columns = {}"
  shows "life (write_columns uf x r) = life r"
proof -
  have "pick uf c f x r = f r" if "c \<in> lifecycle_columns" for c and f :: "ticket \<Rightarrow> 'v"
    using assms that by (auto simp: pick_def)
  then have "CStatus \<notin> set uf" "CClosedAt \<notin> set uf" "CResolvedAt \<notin> set uf" "CSolvedAt \<notin> set uf"
      "CPreWaitStatus \<notin> set uf"
    using assms by (auto simp: lifecycle_columns_def)
  then show ?thesis
    by (simp add: life_def write_columns_lifecycle pick_def) (simp add: write_columns_def)
qed

interpretation life_law: column_law life_kept
proof unfold_locales
  have side: "set uf \<subseteq> side_columns \<Longrightarrow> set uf \<inter> lifecycle_columns = {}" for uf
    by (auto simp: side_columns_def lifecycle_columns_def)
  show "life_kept s (write_ticket i uf t s)" if "set uf \<subseteq> side_columns" for uf s i t
    by (simp add: life_kept_def write_ticket_def life_write [OF side [OF that]] cong: if_cong)
  show "life_kept s (write_ticket i uf t s)" if "set uf \<inter> lifecycle_columns = {}" for uf s i t
    by (simp add: life_kept_def write_ticket_def life_write [OF that] cong: if_cong)
qed (auto simp: life_kept_def life_def rollback_def)

definition store_ok :: "store \<Rightarrow> bool" where
  "store_ok s \<longleftrightarrow> distinct (map pk (tickets s)) \<and> (\<forall>r \<in> set (tickets s). lifecycle_ok r \<and> number r \<noteq> 0)"

lemma store_ok_life:
  assumes "life_kept s s'"
  shows "store_ok s' \<longleftrightarrow> store_ok s"
proof -
  define ok where "ok = (\<lambda>(i::nat, n, st, c, r, so, pw). n \<noteq> (0::nat) \<and> (case st of
     None \<Rightarrow> False
   | Some x \<Rightarrow> (c \<noteq> (None :: instant option) \<longleftrightarrow> is_closed x) \<and> (r \<noteq> (None :: instant option) \<longleftrightarrow> is_closed x) \<and>
       (so \<noteq> (None :: instant option) \<longleftrightarrow> status_slug x = ''resolved'') \<and>
       (pw \<noteq> (None :: ticket_status option) \<longleftrightarrow> pauses_sla (x :: ticket_status))))"
  have ok: "(lifecycle_ok r \<and> number r \<noteq> 0) = ok (life r)" for r
    by (auto simp: ok_def life_def lifecycle_ok_def split: option.split)
  have "store_ok u \<longleftrightarrow> distinct (map fst (map life (tickets u))) \<and> (\<forall>l \<in> set (map life (tickets u)). ok l)" for u
  proof -
    have "map fst (map life ts) = map pk ts" for ts by (simp add: life_def)
    moreover have "(\<forall>r \<in> set ts. ok (life r)) = (\<forall>l \<in> set (map life ts). ok l)" for ts by simp
    ultimately show ?thesis by (simp only: store_ok_def ok)
  qed
  then show ?thesis using assms by (simp only: life_kept_def)
qed

lemma store_ok_core:
  assumes "map core (tickets s') = map core (tickets s)"
  shows "store_ok s' \<longleftrightarrow> store_ok s"
proof (rule store_ok_life)
  have "life t = life (core t)" for t by (simp add: life_def core_def)
  then have "map life ts = map life (map core ts)" for ts by simp
  then show "life_kept s s'" using assms unfolding life_kept_def by metis
qed

lemma ticket_row_unique:
  "distinct (map pk (tickets s)) \<Longrightarrow> ticket_row i s = Some r \<Longrightarrow> x \<in> set (tickets s) \<Longrightarrow> pk x = i \<Longrightarrow> x = r"
  by (auto simp: ticket_row_def distinct_map inj_on_def dest: first_row_SomeD)

lemma store_ok_write:
  assumes ok: "store_ok s" and row: "ticket_row i s = Some r"
    and new: "lifecycle_ok (write_columns uf x r)" "number (write_columns uf x r) = number r"
  shows "store_ok (write_ticket i uf x s)"
proof -
  have "pk (write_columns uf x y) = pk y" for y by (simp add: write_columns_def)
  then have "map pk (tickets (write_ticket i uf x s)) = map pk (tickets s)"
    by (simp add: write_ticket_def cong: if_cong)
  moreover have "lifecycle_ok y \<and> number y \<noteq> 0" if y: "y \<in> set (tickets (write_ticket i uf x s))" for y
  proof -
    from y obtain z where z: "z \<in> set (tickets s)" "y = (if pk z = i then write_columns uf x z else z)"
      by (auto simp: write_ticket_def)
    show ?thesis
    proof (cases "pk z = i")
      case True
      then have "z = r" using ticket_row_unique [OF _ row z(1)] ok by (simp add: store_ok_def)
      with z True new ok show ?thesis by (auto simp: store_ok_def)
    qed (use z ok in \<open>auto simp: store_ok_def\<close>)
  qed
  ultimately show ?thesis using ok by (simp add: store_ok_def)
qed

lemma fresh_ok: "store_ok s \<Longrightarrow> fresh t s \<Longrightarrow> lifecycle_ok t"
  by (auto simp: fresh_def store_ok_def ticket_row_def dest!: first_row_SomeD dest: lifecycle_core)

lemma change_status_error:
  "change_ticket_status t new actor req s = (Inl e, s') \<Longrightarrow> s' = s\<lparr>outbox := outbox s'\<rparr>"
  by (auto simp: change_ticket_status_def atomic_on_def rollback_def split: prod.splits sum.splits)

lemma change_status_store_ok:
  assumes ok: "store_ok s" and fresh: "fresh t s"
  shows "store_ok (snd (change_ticket_status t new actor req s))"
proof (cases "change_ticket_status t new actor req s")
  case (Pair res s')
  show ?thesis
  proof (cases res)
    case (Inl e)
    with Pair have "tickets s' = tickets s" using change_status_error by (metis store.select_convs(5) store.surjective store.update_convs(28))
    then show ?thesis using ok Pair by (simp add: store_ok_def)
  next
    case (Inr t')
    show ?thesis
    proof (cases "map_option status_id (status t) = Some (status_id new)")
      case True
      with Pair Inr have "s' = s" by (simp add: change_ticket_status_def cmd_simps)
      with ok Pair show ?thesis by simp
    next
      case False
      from Pair Inr have run: "change_ticket_status t new actor req s = (Inr t', s')" by simp
      from change_status_row [OF run fresh fresh_ok [OF ok fresh] False]
      obtain r uf x where "ticket_row (pk t) s = Some r"
        "map core (tickets s') = map core (tickets (write_ticket (pk t) uf x s))"
        "lifecycle_ok (write_columns uf x r)" "number (write_columns uf x r) = number r" by metis
      then have "store_ok s'" using store_ok_write [OF ok] store_ok_core by blast
      with Pair show ?thesis by simp
    qed
  qed
qed

section \<open>Runs of the workflow\<close>

text \<open>
  One step of the workflow: an operation on an instance read from the store,
  whether it returns or raises, the callbacks of a commit, or the clock moving on.
\<close>

inductive workflow_step :: "store \<Rightarrow> store \<Rightarrow> bool" where
  step_status: "fresh t s \<Longrightarrow> workflow_step s (snd (change_ticket_status t new actor req s))"
| step_transition: "fresh t s \<Longrightarrow> workflow_step s (snd (transition_ticket_status t new actor req s))"
| step_resume: "fresh t s \<Longrightarrow> workflow_step s (snd (resume_from_wait t actor req s))"
| step_close: "fresh t s \<Longrightarrow> workflow_step s (snd (close_ticket t actor req s))"
| step_escalate: "workflow_step s (snd (escalate_ticket t u why a q req s))"
| step_priority: "workflow_step s (snd (change_ticket_priority t p actor req s))"
| step_response: "workflow_step s (snd (record_first_response t actor s))"
| step_sla: "workflow_step s (snd (initialize_sla t s))"
| step_comment: "workflow_step s (snd (log_ticket_comment t actor internal s))"
| step_commit: "workflow_step s (snd (run_on_commit s))"
| step_clock: "0 \<le> d \<Longrightarrow> workflow_step s (s\<lparr>clock := clock s + d\<rparr>)"

inductive_cases workflow_stepE: "workflow_step s s'"

inductive workflow_run :: "store \<Rightarrow> store \<Rightarrow> bool" where
  run_refl: "workflow_run s s"
| run_step: "workflow_run s t \<Longrightarrow> workflow_step t u \<Longrightarrow> workflow_run s u"

lemma transition_snd:
  "snd (transition_ticket_status t new actor req s) = s \<or>
   snd (transition_ticket_status t new actor req s) = snd (change_ticket_status t new actor req s)"
  by (simp add: transition_ticket_status_def cmd_simps split: sum.split)

lemma resume_snd:
  "snd (resume_from_wait t actor req s) = s \<or>
   (\<exists>new. snd (resume_from_wait t actor req s) = snd (change_ticket_status t new actor req s))"
  by (auto simp: resume_from_wait_def cmd_simps split: option.split)

lemma close_snd:
  "tickets (snd (close_ticket t actor req s)) = tickets s \<or>
   (\<exists>new. snd (close_ticket t actor req s) = snd (change_ticket_status t new actor req s))"
  using transition_snd [of t _ actor req s]
  by (auto simp: close_ticket_def cmd_simps rollback_def split: option.split sum.splits prod.splits)
    (metis snd_conv)+

lemma store_ok_tickets: "tickets s' = tickets s \<Longrightarrow> store_ok s' = store_ok s"
  by (simp add: store_ok_def)

lemma life_callbacks: "obeys life_kept (run_callback cb)"
proof -
  have auto_close: "obeys life_kept (schedule_auto_close i tnt)" for i tnt
    unfolding schedule_auto_close_def Let_def timezone_now_def
    by (intro life_law.obeys_rules life_law.obeys_update life_law.new_pk)
      (auto simp: life_kept_def life_def)
  have csat: "obeys life_kept (schedule_csat_survey i tnt)" for i tnt
    unfolding schedule_csat_survey_def Let_def timezone_now_def
    by (intro life_law.obeys_rules life_law.obeys_update) (auto simp: life_kept_def)
  have kb: "obeys life_kept (check_kb_article_coverage t)" for t
    unfolding check_kb_article_coverage_def Let_def
    by (intro life_law.obeys_rules life_law.obeys_update) (auto simp: life_kept_def life_def)
  show ?thesis
    by (cases cb) (simp_all, (intro life_law.obeys_rules life_law.obeys_update auto_close csat kb life_law.send_signal;
        simp add: life_kept_def)+)
qed

lemma life_commit: "obeys life_kept run_on_commit"
  unfolding run_on_commit_def
  by (intro life_law.obeys_rules life_callbacks life_law.obeys_update) (simp add: life_kept_def)

lemma store_ok_obeys: "obeys life_kept c \<Longrightarrow> store_ok s \<Longrightarrow> store_ok (snd (c s))"
  unfolding obeys_def using store_ok_life by blast

lemma workflow_step_ok: "workflow_step s s' \<Longrightarrow> store_ok s \<Longrightarrow> store_ok s'"
proof (induction rule: workflow_step.induct)
  case step_status
  then show ?case by (simp add: change_status_store_ok)
next
  case (step_transition t s new actor req)
  then show ?case using transition_snd change_status_store_ok by metis
next
  case (step_resume t s actor req)
  then show ?case using resume_snd change_status_store_ok by metis
next
  case (step_close t s actor req)
  then show ?case using close_snd change_status_store_ok store_ok_tickets by metis
next
  case step_escalate
  show ?case by (rule store_ok_obeys [OF life_law.escalate]) (rule step_escalate.prems)
next
  case step_priority
  show ?case by (rule store_ok_obeys [OF life_law.change_priority]) (rule step_priority.prems)
next
  case step_response
  show ?case by (rule store_ok_obeys [OF life_law.first_response]) (rule step_response.prems)
next
  case step_sla
  show ?case by (rule store_ok_obeys [OF life_law.initialize_sla]) (rule step_sla.prems)
next
  case step_comment
  show ?case by (rule store_ok_obeys [OF life_law.comment_logged]) (rule step_comment.prems)
next
  case step_commit
  show ?case by (rule store_ok_obeys [OF life_commit]) (rule step_commit.prems)
next
  case step_clock
  then show ?case by (simp add: store_ok_def)
qed


lemma demo_fresh [simp]: "fresh demo_ticket demo_store"
proof -
  have "ticket_row (pk demo_ticket) demo_store = Some demo_ticket" by (simp add: ticket_row_def demo_store_def)
  moreover have "number demo_ticket \<noteq> 0" by (simp add: demo_ticket_def)
  ultimately show ?thesis by (simp add: fresh_def)
qed

lemma demo_ok [simp]: "store_ok demo_store"
  by code_simp


end
