(* ===== verification/Ticket_Nesting.thy ===== *)
theory Ticket_Nesting
  imports Ticket_Lifecycle
begin

text \<open>
  How deep the saves of a ticket nest.  A save whose instance has the status of
  its row starts no other save; a save that writes the status starts only such
  saves; a save that leaves a changed status unwritten starts itself again.
\<close>

section \<open>The receivers that do not save\<close>

definition rows_kept :: "store \<Rightarrow> store \<Rightarrow> bool" where
  "rows_kept s s' \<longleftrightarrow> tickets s' = tickets s \<and> pauses s' = pauses s \<and> clock s' = clock s \<and>
     zoneinfo_db s' = zoneinfo_db s \<and> statuses s' = statuses s \<and> current_tenant s' = current_tenant s"

lemma rows_kept_row: "rows_kept s s' \<Longrightarrow> ticket_row i s' = ticket_row i s"
  by (simp add: rows_kept_def ticket_row_def)

interpretation rows_law: log_law rows_kept "\<lambda>_. True"
  by unfold_locales (auto simp: rows_kept_def)

lemma rows_timeline: "obeys rows_kept (create_timeline_entry t e u md)"
  unfolding create_timeline_entry_def
  by (intro rows_law.obeys_rules rows_law.obeys_update rows_law.log_contact_event) (simp add: rows_kept_def)

lemma safe_logs:
  "safe (log_activity tnt u ct i a ch req)" "safe (create_timeline_entry t e u md)"
  "safe (log_contact_event c e src u md)" "safe (send_signal sig)" "safe new_pk"
  unfolding log_activity_def create_timeline_entry_def log_contact_event_def send_signal_def new_pk_def
  by (intro safe_rules)+

lemma safe_log_sla: "safe (log_sla_change t a b why u)"
  unfolding log_sla_change_def by (intro safe_rules)

lemma safe_receivers:
  "safe (fire_ticket_created_signal c t)" "safe (fire_ticket_assigned_signal c uf t)"
  "safe (log_ticket_activity c t)" "safe (create_kanban_card_on_ticket_save c uf t)"
  "safe (sync_kanban_card_on_status_change c uf t)" "safe (sync_kanban_card_on_pipeline_stage_change c t)"
  unfolding fire_ticket_created_signal_def fire_ticket_assigned_signal_def log_ticket_activity_def
    create_kanban_card_on_ticket_save_def sync_kanban_card_on_status_change_def
    sync_kanban_card_on_pipeline_stage_change_def log_unless_recent_def
  by (intro safe_rules safe_logs)+

lemma quiet_all [simp]: "quiet (\<lambda>_. True) t"
  by (simp add: quiet_def)

section \<open>Saves of settled instances\<close>

definition settled :: "ticket \<Rightarrow> store \<Rightarrow> bool" where
  "settled t s \<longleftrightarrow> number t \<noteq> 0 \<and> (\<exists>r. ticket_row (pk t) s = Some r \<and>
     map_option status_id (status r) = map_option status_id (status t))"

lemma settled_side [simp]:
  "settled (t\<lparr>sla_first_response_due := d\<rparr>) s = settled t s" "settled (t\<lparr>sla_resolution_due := d\<rparr>) s = settled t s"
  "settled (t\<lparr>sla_paused_at := d\<rparr>) s = settled t s"
  by (simp_all add: settled_def)

lemma settled_rows: "rows_kept s s' \<Longrightarrow> settled t s' = settled t s"
  by (simp add: settled_def rows_kept_row)

text \<open>The instance a save of \<open>t\<close> leaves when the row is \<open>r\<close> and the status is unchanged.\<close>

definition saved_instance :: "tcol list \<Rightarrow> ticket \<Rightarrow> ticket \<Rightarrow> store \<Rightarrow> ticket" where
  "saved_instance uf r t s = touch uf (clock s) (remember_previous r (fill_company s t))"

lemma saved_instance_fields [simp]:
  "pk (saved_instance uf r t s) = pk t" "status (saved_instance uf r t s) = status t"
  "number (saved_instance uf r t s) = number t" "ticket_tenant (saved_instance uf r t s) = ticket_tenant t"
  "sla_first_response_due (saved_instance uf r t s) = sla_first_response_due t"
  "sla_resolution_due (saved_instance uf r t s) = sla_resolution_due t"
  "sla_paused_at (saved_instance uf r t s) = sla_paused_at t"
  "pre_wait_status (saved_instance uf r t s) = pre_wait_status t"
  by (auto simp: saved_instance_def touch_def remember_previous_def fill_company_def split: option.split)

lemma post_save_settled:
  assumes "\<not> status_changed (flags x)"
  shows "post_save sv c uf x = post_save (\<lambda>_ _. raise_exc RecursionError) c uf x"
    and "safe (post_save sv c uf x)" and "obeys rows_kept (post_save sv c uf x)"
    and "yields (post_save sv c uf x) (\<lambda>y. y = x)"
proof -
  have pause: "handle_sla_pause_on_status_change sv c x = ret x" for sv
    using assms by (simp add: handle_sla_pause_on_status_change_def)
  show "post_save sv c uf x = post_save (\<lambda>_ _. raise_exc RecursionError) c uf x"
    unfolding post_save_def pause ..
  show "safe (post_save sv c uf x)"
    unfolding post_save_def pause by (intro safe_rules safe_receivers)
  show "obeys rows_kept (post_save sv c uf x)"
    unfolding post_save_def pause
    by (intro rows_law.obeys_bind rows_law.obeys_then rows_law.obeys_ret rows_law.fire_created
        rows_law.fire_assigned rows_law.log_ticket_activity rows_law.create_kanban_card
        rows_law.sync_kanban_status rows_law.sync_kanban_stage quiet_all)
  have "bindc (ret x) f = f x" for f :: "ticket \<Rightarrow> ticket op" by (simp add: bindc_def ret_def fun_eq_iff)
  then show "yields (post_save sv c uf x) (\<lambda>y. y = x)"
    unfolding post_save_def pause by (auto intro!: yields_then yields_ret)
qed

theorem settled_save:
  fixes uf :: "tcol list"
  assumes row: "ticket_row (pk t) s = Some r" and num: "number t \<noteq> 0"
    and same: "map_option status_id (status r) = map_option status_id (status t)"
  defines "x \<equiv> saved_instance uf r t s"
  shows "\<exists>s'. save_nested (Suc n) (Some uf) t s = (Inr x, s') \<and> rows_kept (write_ticket (pk t) uf x s) s'"
    and "save_nested (Suc n) (Some uf) t s = save_nested (Suc 0) (Some uf) t s"
proof -
  define y where "y = remember_previous r (fill_company s t)"
  have fields: "status (fill_company s t) = status t" "pk (fill_company s t) = pk t"
    by (auto simp: fill_company_def split: option.split)
  have unchanged: "\<not> status_changed (flags y)"
    using same by (simp add: y_def remember_previous_def fields)
  have pre: "before_save t s = (Inr y, s)"
    using before_save_run [OF num] row unchanged fields
    by (simp add: handle_ticket_status_change_def y_def Let_def)
  have pky: "pk y = pk t" by (simp add: y_def remember_previous_def fields)
  have w: "write_row (Some uf) y s = (Inr (False, x), write_ticket (pk t) uf x s)"
    using write_row_run [of y s r uf] row by (simp add: pky x_def saved_instance_def y_def [symmetric])
  have x: "\<not> status_changed (flags x)"
    using unchanged by (simp add: x_def saved_instance_def touch_def y_def [symmetric])
  have run: "save_nested (Suc m) (Some uf) t s =
      post_save (save_nested m) False (Some uf) x (write_ticket (pk t) uf x s)" for m
    by (simp add: save_nested.simps(2) cmd_simps pre w)
  note post = post_save_settled [OF x]
  obtain z s' where z: "post_save (save_nested n) False (Some uf) x (write_ticket (pk t) uf x s) = (Inr z, s')"
    using safeD [OF post(2)] by blast
  with post(4) have "z = x" by (auto dest: yieldsD)
  with z run post(3) show "\<exists>s'. save_nested (Suc n) (Some uf) t s = (Inr x, s') \<and>
      rows_kept (write_ticket (pk t) uf x s) s'"
    by (metis obeysD)
  show "save_nested (Suc n) (Some uf) t s = save_nested (Suc 0) (Some uf) t s"
    unfolding run using post(1) by metis
qed

lemma settled_agree:
  "settled t s \<Longrightarrow> save_nested (Suc n) (Some uf) t s = save_nested (Suc 0) (Some uf) t s"
  unfolding settled_def by (blast intro: settled_save(2))

lemma status_write: "status (write_columns uf x r) = (if CStatus \<in> set uf then status x else status r)"
  by (simp add: write_columns_def pick_def)

lemma settled_after:
  assumes "settled t s" and run: "save_nested (Suc n) (Some uf) t s = (Inr t', s')"
  shows "settled t' s'"
proof -
  from assms obtain r where r: "ticket_row (pk t) s = Some r" "number t \<noteq> 0"
    "map_option status_id (status r) = map_option status_id (status t)" by (auto simp: settled_def)
  from settled_save(1) [OF r, of n uf] run have t': "t' = saved_instance uf r t s"
    and s': "rows_kept (write_ticket (pk t) uf t' s) s'" by auto
  have "settled t' (write_ticket (pk t) uf t' s)"
    using r by (simp add: settled_def ticket_row_write t' status_write)
  then show ?thesis using settled_rows [OF s'] by simp
qed

lemma bind_cong_run:
  "c s = c' s \<Longrightarrow> (\<And>a s1. c s = (Inr a, s1) \<Longrightarrow> f a s1 = g a s1) \<Longrightarrow> bindc c f s = bindc c' g s"
  by (auto simp: bindc_def split: prod.split sum.split)

lemma then_cong_run:
  "c s = c' s \<Longrightarrow> (\<And>s1. c s = (Inr (), s1) \<Longrightarrow> d s1 = d' s1) \<Longrightarrow> thenc c d s = thenc c' d' s"
  unfolding thenc_def by (rule bind_cong_run) auto

lemma shift_draft:
  assumes "shift_first_due zi m t s = (Inr d, s1)" and "shift_resolution_due zi m d s1 = (Inr (t2, uf), s2)"
  shows "settled t2 s2 = settled t s"
  using assms
  by (auto simp: shift_first_due_def shift_resolution_due_def returns split: option.splits prod.splits)

lemma finish_agree:
  "settled t s \<Longrightarrow> finish_shift (save_nested (Suc n)) old (t, uf) s = finish_shift (save_nested (Suc 0)) old (t, uf) s"
  unfolding finish_shift_def prod.case by (intro bind_cong_run settled_agree refl)

lemma shift_agree:
  assumes "settled t s"
  shows "shift_sla_deadlines (save_nested (Suc n)) t a b s = shift_sla_deadlines (save_nested (Suc 0)) t a b s"
  unfolding shift_sla_deadlines_def
proof (intro bind_cong_run refl)
  fix zi s1 m s2
  assume "asks zoneinfo_db s = (Inr zi, s1)"
    "lift_res (elapsed_business_minutes zi a b (TenantArg (ticket_tenant t))) s1 = (Inr m, s2)"
  then have s2: "s2 = s" by (simp add: returns)
  define f where "f sv = bindc (shift_first_due zi m t) (\<lambda>draft.
     bindc (shift_resolution_due zi m draft) (finish_shift sv t))" for sv :: saver
  have "f (save_nested (Suc n)) s = f (save_nested (Suc 0)) s"
    unfolding f_def
    by (intro bind_cong_run refl) (metis shift_draft assms finish_agree surj_pair)
  then show "(if m \<le> 0 then ret t
     else if sla_first_response_due t = None \<and> sla_resolution_due t = None then ret t
     else bindc (shift_first_due zi m t) (\<lambda>draft.
          bindc (shift_resolution_due zi m draft) (finish_shift (save_nested (Suc n)) t))) s2 =
    (if m \<le> 0 then ret t
     else if sla_first_response_due t = None \<and> sla_resolution_due t = None then ret t
     else bindc (shift_first_due zi m t) (\<lambda>draft.
          bindc (shift_resolution_due zi m draft) (finish_shift (save_nested (Suc 0)) t))) s2"
    by (simp only: f_def s2 if_distrib [of "\<lambda>c. c s"])
qed

lemma shift_settled:
  assumes t: "settled t s" and run: "shift_sla_deadlines (save_nested (Suc 0)) t a b s = (Inr t', s')"
  shows "settled t' s'"
proof -
  have finish: "settled t' s'"
    if "settled x u" "finish_shift (save_nested (Suc 0)) t (x, uf) u = (Inr t', s')" for x u uf
  proof -
    from that obtain v where "save_nested (Suc 0) (Some (uf @ [CUpdatedAt])) x u = (Inr t', v)"
      and log: "log_sla_change t' (sla_first_response_due t) (sla_resolution_due t) ''pause_resume'' None v = (Inr (), s')"
      by (auto simp: finish_shift_def returns)
    with that(1) have "settled t' v" by (metis settled_after)
    then show ?thesis using settled_rows [OF obeysD [OF rows_law.log_sla_change log]] by simp
  qed
  show ?thesis
    using run t unfolding shift_sla_deadlines_def
    by (auto simp: returns split: if_splits) (metis shift_draft finish)+
qed

lemma resume_agree:
  assumes "settled t s"
  shows "resume_sla_pause (save_nested (Suc n)) t now why s = resume_sla_pause (save_nested (Suc 0)) t now why s"
proof -
  have finish: "finish_resume (save_nested (Suc n)) p now why x u = finish_resume (save_nested (Suc 0)) p now why x u"
    if "settled x u" for p x u
    unfolding finish_resume_def using that by (intro bind_cong_run settled_agree refl) simp
  have tail: "thenc (close_pause p now) (bindc (shift_sla_deadlines (save_nested (Suc n)) t (paused_at p) now)
        (finish_resume (save_nested (Suc n)) p now why)) s =
      thenc (close_pause p now) (bindc (shift_sla_deadlines (save_nested (Suc 0)) t (paused_at p) now)
        (finish_resume (save_nested (Suc 0)) p now why)) s" for p
  proof (rule then_cong_run, rule refl)
    fix s2
    assume "close_pause p now s = (Inr (), s2)"
    then have "tickets s2 = tickets s" by (auto simp: close_pause_def returns)
    then have s2: "settled t s2" using assms by (simp add: settled_def ticket_row_def)
    show "bindc (shift_sla_deadlines (save_nested (Suc n)) t (paused_at p) now)
        (finish_resume (save_nested (Suc n)) p now why) s2 =
      bindc (shift_sla_deadlines (save_nested (Suc 0)) t (paused_at p) now)
        (finish_resume (save_nested (Suc 0)) p now why) s2"
      by (intro bind_cong_run shift_agree s2 finish) (metis shift_agree shift_settled s2)
  qed
  show ?thesis
    unfolding resume_sla_pause_def
    by (rule bind_cong_run, rule refl) (auto simp: returns tail split: option.split)
qed

lemma open_pause_agree:
  assumes "settled t s"
  shows "open_sla_pause (save_nested (Suc n)) t now s = open_sla_pause (save_nested (Suc 0)) t now s"
  unfolding open_sla_pause_def
proof (intro bind_cong_run then_cong_run settled_agree refl)
  fix i s1 s2
  assume "new_pk s = (Inr i, s1)"
    "update (\<lambda>s. s\<lparr>pauses := pauses s @ [\<lparr>pause_id = i, pause_ticket = pk t, paused_at = now, resumed_at = None\<rparr>]\<rparr>) s1
       = (Inr (), s2)"
  then have "tickets s2 = tickets s" by (auto simp: new_pk_def returns)
  then show "settled (t\<lparr>sla_paused_at := Some now\<rparr>) s2" using assms by (simp add: settled_def ticket_row_def)
qed

lemma handle_agree:
  assumes "settled t s"
  shows "handle_sla_pause_on_status_change (save_nested (Suc n)) c t s =
         handle_sla_pause_on_status_change (save_nested (Suc 0)) c t s"
  using assms
  by (auto simp: handle_sla_pause_on_status_change_def Let_def timezone_now_def cmd_simps
      resume_agree [of t s n] open_pause_agree [of t s n])

lemma post_save_agree:
  assumes "settled t s"
  shows "post_save (save_nested (Suc n)) c uf t s = post_save (save_nested (Suc 0)) c uf t s"
proof -
  have kept: "obeys rows_kept (fire_ticket_created_signal c t)" "obeys rows_kept (fire_ticket_assigned_signal c uf t)"
    "obeys rows_kept (log_ticket_activity c t)"
    by (intro rows_law.fire_created rows_law.fire_assigned rows_law.log_ticket_activity quiet_all)+
  show ?thesis
    unfolding post_save_def
    by (intro then_cong_run bind_cong_run refl handle_agree)
      (metis assms settled_rows kept obeysD)
qed

section \<open>The depth of the nesting\<close>

lemma number_pre_save [simp]: "number (handle_ticket_status_change s (fill_company s t)) = number t"
  by (auto simp: handle_ticket_status_change_def remember_previous_def stamp_lifecycle_def fill_company_def Let_def
      split: option.split bool.split)

lemma status_pre_save [simp]: "status (handle_ticket_status_change s (fill_company s t)) = status t"
  by (rule firm_fields(1)) simp

text \<open>
  C7: The receivers of a save nest by one level only: when the save writes
  the status column, or the instance has the status of its row, every
  recursion limit from two levels on gives the result of two levels.
\<close>

theorem nested_saves_bounded:
  assumes row: "ticket_row (pk t) s = Some r" and num: "number t \<noteq> 0"
    and status: "CStatus \<in> set uf \<or> map_option status_id (status r) = map_option status_id (status t)"
    and depth: "2 \<le> n"
  shows "save_nested n (Some uf) t s = save_nested 2 (Some uf) t s"
proof -
  define x where "x = touch uf (clock s) (handle_ticket_status_change s (fill_company s t))"
  have fields: "pk x = pk t" "status x = status t" "number x = number t"
    by (simp_all add: x_def touch_def)
  have run: "save_nested (Suc (Suc m)) (Some uf) t s =
      post_save (save_nested (Suc m)) False (Some uf) x (write_ticket (pk t) uf x s)" for m
    using write_row_run [of "handle_ticket_status_change s (fill_company s t)" s r uf] row
    by (simp add: save_nested.simps(2) cmd_simps before_save_run [OF num] x_def)
  have "settled x (write_ticket (pk t) uf x s)"
    using row num status by (auto simp: settled_def fields ticket_row_write status_write)
  from post_save_agree [OF this] have "save_nested (Suc (Suc m)) (Some uf) t s = save_nested (Suc (Suc 0)) (Some uf) t s" for m
    unfolding run .
  moreover obtain m where "n = Suc (Suc m)" using depth by (metis add_2_eq_Suc le_Suc_ex)
  ultimately show ?thesis by (simp add: numeral_2_eq_2)
qed

text \<open>The receivers run on an instance whose status is changed but not written.\<close>

lemma unwritten_status_recurses:
  assumes "ticket_row (pk t) s = Some r" and "number t \<noteq> 0" and "CStatus \<notin> set uf"
    and "map_option status_id (status r) \<noteq> map_option status_id (status t)"
    and "status_flag pauses_sla (status t)" and "\<not> status_flag pauses_sla (status r)"
  shows "\<exists>s'. save_nested n (Some uf) t s = (Inl RecursionError, s')"
  using assms
proof (induction n arbitrary: uf t s r)
  case 0
  show ?case by (simp add: raise_exc_def)
next
  case (Suc n)
  define x where "x = touch uf (clock s) (handle_ticket_status_change s (fill_company s t))"
  have fields: "pk x = pk t" "status x = status t" "number x = number t"
    by (simp_all add: x_def touch_def)
  have pre: "status (fill_company s t) = status t" "pk (fill_company s t) = pk t"
    by (auto simp: fill_company_def split: option.split)
  have flags: "status_changed (flags x)" "\<not> old_pauses_sla (flags x)"
    using Suc.prems
    by (auto simp: x_def touch_def handle_ticket_status_change_def remember_previous_def stamp_lifecycle_def
        status_flag_def pre Let_def split: option.splits bool.splits)
  define s1 where "s1 = write_ticket (pk t) uf x s"
  have run: "save_nested (Suc n) (Some uf) t s = post_save (save_nested n) False (Some uf) x s1"
    using write_row_run [of "handle_ticket_status_change s (fill_company s t)" s r uf] Suc.prems(1,2)
    by (simp add: save_nested.simps(2) cmd_simps before_save_run x_def s1_def)
  obtain r1 where r1: "ticket_row (pk t) s1 = Some r1" "status r1 = status r"
    using Suc.prems(1,3) by (simp add: s1_def ticket_row_write status_write)
  obtain s2 where s2: "fire_ticket_created_signal False x s1 = (Inr (), s2)"
    using safeD [OF safe_receivers(1)] by fastforce
  obtain s3 where s3: "fire_ticket_assigned_signal False (Some uf) x s2 = (Inr (), s3)"
    using safeD [OF safe_receivers(2)] by fastforce
  obtain s4 where s4: "log_ticket_activity False x s3 = (Inr (), s4)"
    using safeD [OF safe_receivers(3)] by fastforce
  have "ticket_row (pk t) s4 = Some r1"
    using r1(1) s2 s3 s4 rows_law.fire_created rows_law.fire_assigned rows_law.log_ticket_activity [OF quiet_all]
    by (metis obeysD rows_kept_row)
  moreover define s5 where "s5 = s4\<lparr>next_pk := Suc (next_pk s4), pauses := pauses s4 @
      [\<lparr>pause_id = next_pk s4, pause_ticket = pk t, paused_at = clock s4, resumed_at = None\<rparr>]\<rparr>"
  ultimately have "ticket_row (pk t) s5 = Some r1" by (simp add: ticket_row_def)
  then obtain s6 where
    "save_nested n (Some [CPausedAt, CUpdatedAt]) (x\<lparr>sla_paused_at := Some (clock s4)\<rparr>) s5 = (Inl RecursionError, s6)"
    using Suc.IH [of "x\<lparr>sla_paused_at := Some (clock s4)\<rparr>" s5 r1 "[CPausedAt, CUpdatedAt]"] Suc.prems r1(2)
    by (auto simp: fields)
  then have "\<exists>s'. open_sla_pause (save_nested n) x (clock s4) s4 = (Inl RecursionError, s')"
    by (simp add: open_sla_pause_def new_pk_def cmd_simps fields s5_def)
  then show ?case
    using Suc.prems(5) flags
    unfolding run post_save_def handle_sla_pause_on_status_change_def timezone_now_def Let_def
    by (auto simp: cmd_simps s2 s3 s4 fields status_flag_def split: option.splits)
qed

theorem nested_saves_bounded_witness:
  "save_nested 7 (Some [CStatus, CUpdatedAt]) (demo_ticket\<lparr>status := Some st_waiting\<rparr>) demo_store =
   save_nested 2 (Some [CStatus, CUpdatedAt]) (demo_ticket\<lparr>status := Some st_waiting\<rparr>) demo_store"
  by (rule nested_saves_bounded [of _ _ demo_ticket])
    (simp_all add: ticket_row_def demo_store_def demo_ticket_def)

text \<open>
  C8: Saving other columns of an instance whose new status pauses the SLA
  clock, while its row still has a status that does not, ends in a
  RecursionError: the pause receiver saves the ticket again without its
  status, which triggers the pause receiver again.
\<close>

theorem unwritten_pausing_status_recurses:
  assumes "ticket_row (pk t) s = Some r" and "number t \<noteq> 0" and "CStatus \<notin> set uf"
    and "map_option status_id (status r) \<noteq> map_option status_id (status t)"
    and "status_flag pauses_sla (status t)" and "\<not> status_flag pauses_sla (status r)"
  shows "fst (save_ticket (Some uf) t s) = Inl RecursionError"
  using unwritten_status_recurses [OF assms, of recursion_limit] by (auto simp: save_ticket_def)

theorem unwritten_pausing_status_recurses_witness:
  "fst (save_ticket (Some [CTags, CUpdatedAt]) (demo_ticket\<lparr>status := Some st_waiting\<rparr>) demo_store) = Inl RecursionError"
  by (rule unwritten_pausing_status_recurses [of _ _ demo_ticket])
    (simp_all add: ticket_row_def demo_store_def demo_ticket_def st_waiting_def st_open_def demo_status_def
      status_flag_def)

end
