(* ===== verification/Ticket_Wait.thy ===== *)
theory Ticket_Wait
  imports Ticket_Nesting
begin

text \<open>
  Waiting and resuming: what a save leaves when the new status pauses the SLA
  clock and when it resumes it, for a tenant on the wall clock, and the round
  trip of \<open>change_ticket_status\<close> into a waiting status and \<open>resume_from_wait\<close>.
\<close>

definition wall_clock_tenant :: "tenant \<Rightarrow> bool" where
  "wall_clock_tenant tnt \<longleftrightarrow> settings tnt = None \<and> hours_row tnt = None"

lemma wall_clock_elapsed:
  "wall_clock_tenant tnt \<Longrightarrow> elapsed_business_minutes zi a b (TenantArg tnt) = Inr (b - a)"
  by (simp add: elapsed_business_minutes_def wall_clock_tenant_def)

lemma wall_clock_add: "wall_clock_tenant tnt \<Longrightarrow> add_business_minutes zi a m tnt = Inr (a + m)"
  by (simp add: add_business_minutes_def get_business_config_def wall_clock_tenant_def)

section \<open>The save of a changed status\<close>

text \<open>The instance \<open>pre_save\<close> and the write leave.\<close>

definition changed_instance :: "tcol list \<Rightarrow> ticket \<Rightarrow> store \<Rightarrow> ticket" where
  "changed_instance uf t s = touch uf (clock s) (handle_ticket_status_change s (fill_company s t))"

lemma changed_instance_fields [simp]:
  "pk (changed_instance uf t s) = pk t" "status (changed_instance uf t s) = status t"
  "number (changed_instance uf t s) = number t"
  by (simp_all add: changed_instance_def touch_def)

lemma changed_instance_same:
  "ticket_tenant (changed_instance uf t s) = ticket_tenant t"
  "sla_first_response_due (changed_instance uf t s) = sla_first_response_due t"
  "sla_resolution_due (changed_instance uf t s) = sla_resolution_due t"
  "pre_wait_status (changed_instance uf t s) = pre_wait_status t"
  by (auto simp: changed_instance_def touch_def handle_ticket_status_change_def remember_previous_def
      stamp_lifecycle_def fill_company_def Let_def split: option.split bool.split)

lemma changed_flags:
  assumes "ticket_row (pk t) s = Some r" "map_option status_id (status r) \<noteq> map_option status_id (status t)"
  shows "status_changed (flags (changed_instance uf t s))"
    and "old_pauses_sla (flags (changed_instance uf t s)) = status_flag pauses_sla (status r)"
proof -
  have pre: "status (fill_company s t) = status t" "pk (fill_company s t) = pk t"
    by (auto simp: fill_company_def split: option.split)
  show "status_changed (flags (changed_instance uf t s))"
    "old_pauses_sla (flags (changed_instance uf t s)) = status_flag pauses_sla (status r)"
    using assms
    by (auto simp: changed_instance_def touch_def handle_ticket_status_change_def remember_previous_def
        stamp_lifecycle_def status_flag_def pre Let_def split: option.splits bool.splits)
qed

text \<open>A save is the write, the pause receiver, and receivers that keep the rows and never raise.\<close>

lemma save_through_pause:
  assumes row: "ticket_row (pk t) s = Some r" and num: "number t \<noteq> 0"
    and pause: "\<And>u. rows_kept (write_ticket (pk t) uf (changed_instance uf t s) s) u \<Longrightarrow>
      \<exists>z v. handle_sla_pause_on_status_change (save_nested (Suc n)) False (changed_instance uf t s) u = (Inr z, v) \<and>
        Q z v"
    and keep: "\<And>z v w. Q z v \<Longrightarrow> rows_kept v w \<Longrightarrow> Q z w"
  shows "\<exists>z v. save_nested (Suc (Suc n)) (Some uf) t s = (Inr z, v) \<and> Q z v"
proof -
  define x where "x = changed_instance uf t s"
  define s1 where "s1 = write_ticket (pk t) uf x s"
  have run: "save_nested (Suc (Suc n)) (Some uf) t s = post_save (save_nested (Suc n)) False (Some uf) x s1"
    using write_row_run [of "handle_ticket_status_change s (fill_company s t)" s r uf] row
    by (simp add: save_nested.simps(2) cmd_simps before_save_run [OF num] x_def changed_instance_def s1_def)
  obtain s2 where s2: "fire_ticket_created_signal False x s1 = (Inr (), s2)"
    using safeD [OF safe_receivers(1)] by fastforce
  obtain s3 where s3: "fire_ticket_assigned_signal False (Some uf) x s2 = (Inr (), s3)"
    using safeD [OF safe_receivers(2)] by fastforce
  obtain s4 where s4: "log_ticket_activity False x s3 = (Inr (), s4)"
    using safeD [OF safe_receivers(3)] by fastforce
  have "rows_kept s1 s4"
    using rows_law.step_trans obeysD [OF rows_law.fire_created s2] obeysD [OF rows_law.fire_assigned s3]
      obeysD [OF rows_law.log_ticket_activity [OF quiet_all] s4] by blast
  then obtain z v where zv: "handle_sla_pause_on_status_change (save_nested (Suc n)) False x s4 = (Inr z, v)" "Q z v"
    using pause unfolding x_def s1_def by blast
  obtain s5 where s5: "create_kanban_card_on_ticket_save False (Some uf) z v = (Inr (), s5)"
    using safeD [OF safe_receivers(4)] by fastforce
  obtain s6 where s6: "sync_kanban_card_on_status_change False (Some uf) z s5 = (Inr (), s6)"
    using safeD [OF safe_receivers(5)] by fastforce
  obtain s7 where s7: "sync_kanban_card_on_pipeline_stage_change False z s6 = (Inr (), s7)"
    using safeD [OF safe_receivers(6)] by fastforce
  have "rows_kept v s7"
    using rows_law.step_trans obeysD [OF rows_law.create_kanban_card s5] obeysD [OF rows_law.sync_kanban_status s6]
      obeysD [OF rows_law.sync_kanban_stage s7] by blast
  with keep zv(2) have "Q z s7" by blast
  moreover have "save_nested (Suc (Suc n)) (Some uf) t s = (Inr z, s7)"
    by (simp add: run post_save_def cmd_simps s2 s3 s4 zv(1) s5 s6 s7)
  ultimately show ?thesis by blast
qed

section \<open>Into a pausing status\<close>

definition env_kept :: "store \<Rightarrow> store \<Rightarrow> bool" where
  "env_kept s s' \<longleftrightarrow> clock s' = clock s \<and> zoneinfo_db s' = zoneinfo_db s \<and> statuses s' = statuses s \<and>
     current_tenant s' = current_tenant s"

lemma env_rows: "rows_kept s s' \<Longrightarrow> env_kept s s'"
  by (simp add: rows_kept_def env_kept_def)

lemma write_columns_sla:
  "sla_first_response_due (write_columns uf x r) = pick uf CFirstResponseDue sla_first_response_due x r"
  "sla_resolution_due (write_columns uf x r) = pick uf CResolutionDue sla_resolution_due x r"
  "sla_paused_at (write_columns uf x r) = pick uf CPausedAt sla_paused_at x r"
  "number (write_columns uf x r) = number r" "ticket_tenant (write_columns uf x r) = ticket_tenant r"
  "pk (write_columns uf x r) = pk r"
  by (simp_all add: write_columns_def)

lemmas written = write_columns_lifecycle write_columns_sla pick_def

text \<open>The columns of ticket \<open>i\<close> that the wait is about, as stored.\<close>

definition stored :: "nat \<Rightarrow> store \<Rightarrow> ticket_status option \<Rightarrow> ticket_status option \<Rightarrow> instant option \<Rightarrow>
    instant option \<Rightarrow> instant option \<Rightarrow> bool" where
  "stored i s st pw due1 due2 paused \<longleftrightarrow> (\<exists>r. ticket_row i s = Some r \<and> status r = st \<and> pre_wait_status r = pw \<and>
     sla_first_response_due r = due1 \<and> sla_resolution_due r = due2 \<and> sla_paused_at r = paused)"

lemma stored_rows: "rows_kept s s' \<Longrightarrow> stored i s' st pw a b c = stored i s st pw a b c"
  by (simp add: stored_def rows_kept_row)

text \<open>The same columns, and the identity, of an instance.\<close>

definition carries :: "ticket \<Rightarrow> ticket \<Rightarrow> bool" where
  "carries z t \<longleftrightarrow> pk z = pk t \<and> number z = number t \<and> ticket_tenant z = ticket_tenant t \<and> status z = status t \<and>
     pre_wait_status z = pre_wait_status t"

lemma open_pause_run:
  assumes row: "ticket_row (pk x) u = Some r" and num: "number x \<noteq> 0"
    and same: "map_option status_id (status r) = map_option status_id (status x)"
  shows "\<exists>z v. open_sla_pause (save_nested (Suc n)) x now u = (Inr z, v) \<and> env_kept u v \<and>
     (\<exists>i. pauses v = pauses u @ [\<lparr>pause_id = i, pause_ticket = pk x, paused_at = now, resumed_at = None\<rparr>]) \<and>
     stored (pk x) v (status r) (pre_wait_status r) (sla_first_response_due r) (sla_resolution_due r) (Some now) \<and>
     carries z x \<and> sla_first_response_due z = sla_first_response_due x \<and> sla_resolution_due z = sla_resolution_due x"
proof -
  define u1 where "u1 = u\<lparr>next_pk := next_pk u + 1, pauses := pauses u @
    [\<lparr>pause_id = next_pk u, pause_ticket = pk x, paused_at = now, resumed_at = None\<rparr>]\<rparr>"
  define y where "y = x\<lparr>sla_paused_at := Some now\<rparr>"
  have row1: "ticket_row (pk y) u1 = Some r" and num1: "number y \<noteq> 0"
      and same1: "map_option status_id (status r) = map_option status_id (status y)"
    using row num same by (simp_all add: u1_def y_def ticket_row_def)
  define z where "z = saved_instance [CPausedAt, CUpdatedAt] r y u1"
  obtain v where v: "save_nested (Suc n) (Some [CPausedAt, CUpdatedAt]) y u1 = (Inr z, v)"
      "rows_kept (write_ticket (pk y) [CPausedAt, CUpdatedAt] z u1) v"
    using settled_save(1) [OF row1 num1 same1] unfolding z_def by blast
  obtain w where w: "create_timeline_entry z ESlaPaused None
         [(''status'', jopt (JStr \<circ> status_name) (status z)), (''reason'', JStr ''waiting_on_customer'')] v = (Inr (), w)"
    using safeD [OF safe_logs(2)] by fastforce
  have kept: "rows_kept (write_ticket (pk y) [CPausedAt, CUpdatedAt] z u1) w"
    using rows_law.step_trans v(2) obeysD [OF rows_timeline w] by blast
  have "open_sla_pause (save_nested (Suc n)) x now u = (Inr z, w)"
    using v(1) w by (simp add: open_sla_pause_def new_pk_def cmd_simps u1_def y_def)
  moreover have "env_kept u w" "pauses w = pauses u1"
    using kept by (simp_all add: rows_kept_def env_kept_def write_ticket_def u1_def)
  moreover have "stored (pk x) w (status r) (pre_wait_status r) (sla_first_response_due r) (sla_resolution_due r) (Some now)"
  proof -
    have "ticket_row (pk x) w = Some (write_columns [CPausedAt, CUpdatedAt] z r)"
      using row1 by (simp add: rows_kept_row [OF kept] ticket_row_write y_def)
    then show ?thesis by (simp add: stored_def written z_def y_def)
  qed
  ultimately show ?thesis
    unfolding z_def y_def by (auto simp: u1_def carries_def)
qed

text \<open>What the two saves leave: the store \<open>v\<close> and the instance \<open>z\<close>.\<close>

definition waits :: "ticket \<Rightarrow> store \<Rightarrow> ticket_status option \<Rightarrow> instant option \<Rightarrow> instant option \<Rightarrow> ticket \<Rightarrow> store \<Rightarrow> bool" where
  "waits t s pw due1 due2 z v \<longleftrightarrow> env_kept s v \<and>
     (\<exists>i. pauses v = pauses s @ [\<lparr>pause_id = i, pause_ticket = pk t, paused_at = clock s, resumed_at = None\<rparr>]) \<and>
     stored (pk t) v (status t) pw due1 due2 (Some (clock s)) \<and>
     carries z t \<and> sla_first_response_due z = sla_first_response_due t \<and> sla_resolution_due z = sla_resolution_due t"

lemma waits_rows: "waits t s pw a b z v \<Longrightarrow> rows_kept v w \<Longrightarrow> waits t s pw a b z w"
  unfolding waits_def using stored_rows [of v w] by (auto simp: env_kept_def rows_kept_def)

theorem enter_wait_save:
  assumes row: "ticket_row (pk t) s = Some r" and num: "number t \<noteq> 0" and cols: "CStatus \<in> set uf"
      "CFirstResponseDue \<notin> set uf" "CResolutionDue \<notin> set uf"
    and changed: "map_option status_id (status r) \<noteq> map_option status_id (status t)"
    and pausing: "status_flag pauses_sla (status t)" "\<not> status_flag pauses_sla (status r)"
  shows "\<exists>z v. save_ticket (Some uf) t s = (Inr z, v) \<and>
    waits t s (pick uf CPreWaitStatus pre_wait_status t r) (sla_first_response_due r) (sla_resolution_due r) z v"
proof -
  let ?x = "changed_instance uf t s"
  let ?Q = "waits t s (pick uf CPreWaitStatus pre_wait_status t r) (sla_first_response_due r) (sla_resolution_due r)"
  have flags: "status_changed (flags ?x)" "\<not> old_pauses_sla (flags ?x)"
    using changed_flags [OF row changed] pausing(2) by simp_all
  have handle: "\<exists>z v. handle_sla_pause_on_status_change (save_nested (Suc 98)) False ?x u = (Inr z, v) \<and> ?Q z v"
    if kept: "rows_kept (write_ticket (pk t) uf ?x s) u" for u
  proof -
    have u: "clock u = clock s" "pauses u = pauses s" "env_kept s u"
      using kept by (simp_all add: rows_kept_def env_kept_def write_ticket_def)
    have row_u: "ticket_row (pk ?x) u = Some (write_columns uf ?x r)"
      using row by (simp add: rows_kept_row [OF kept] ticket_row_write)
    have same: "map_option status_id (status (write_columns uf ?x r)) = map_option status_id (status ?x)"
      using cols by (simp add: written)
    have num_x: "number ?x \<noteq> 0" using num by simp
    have run: "handle_sla_pause_on_status_change (save_nested (Suc 98)) False ?x u =
        open_sla_pause (save_nested (Suc 98)) ?x (clock s) u"
      using flags pausing(1) u(1)
      by (simp add: handle_sla_pause_on_status_change_def timezone_now_def cmd_simps Let_def status_flag_def
          split: option.splits)
    obtain z v i where zv: "open_sla_pause (save_nested (Suc 98)) ?x (clock s) u = (Inr z, v)" "env_kept u v"
      "pauses v = pauses u @ [\<lparr>pause_id = i, pause_ticket = pk ?x, paused_at = clock s, resumed_at = None\<rparr>]"
      "stored (pk ?x) v (status (write_columns uf ?x r)) (pre_wait_status (write_columns uf ?x r))
         (sla_first_response_due (write_columns uf ?x r)) (sla_resolution_due (write_columns uf ?x r)) (Some (clock s))"
      "carries z ?x" "sla_first_response_due z = sla_first_response_due ?x"
      "sla_resolution_due z = sla_resolution_due ?x"
      using open_pause_run [OF row_u num_x same, of 98 "clock s"] by blast
    have "?Q z v"
      using zv(2-) u cols
      by (simp add: waits_def written changed_instance_same carries_def env_kept_def split: if_splits)
    with run zv(1) show ?thesis by metis
  qed
  show ?thesis
    unfolding save_nested_unfold
    using save_through_pause [OF row num handle waits_rows] by simp
qed

section \<open>Out of a pausing status\<close>

definition delayed :: "int \<Rightarrow> instant option \<Rightarrow> instant option" where
  "delayed m = map_option (\<lambda>d. d + m)"

definition closed_pauses :: "sla_pause \<Rightarrow> instant \<Rightarrow> store \<Rightarrow> sla_pause list" where
  "closed_pauses p now s = map (\<lambda>r. if pause_id r = pause_id p then r\<lparr>resumed_at := Some now\<rparr> else r) (pauses s)"

lemma shift_drafts_wall:
  assumes "wall_clock_tenant (ticket_tenant t)"
  shows "shift_first_due zi m t u = (Inr (t\<lparr>sla_first_response_due := delayed m (sla_first_response_due t)\<rparr>,
      if sla_first_response_due t = None then [] else [CFirstResponseDue]), u)"
    and "shift_resolution_due zi m (t, uf) u = (Inr (t\<lparr>sla_resolution_due := delayed m (sla_resolution_due t)\<rparr>,
      if sla_resolution_due t = None then uf else uf @ [CResolutionDue]), u)"
  using assms
  by (auto simp: shift_first_due_def shift_resolution_due_def cmd_simps wall_clock_add delayed_def
      split: option.split)

definition shifted_columns :: "ticket \<Rightarrow> tcol list" where
  "shifted_columns t =
     (let uf = (if sla_first_response_due t = None then [] else [CFirstResponseDue])
      in if sla_resolution_due t = None then uf else uf @ [CResolutionDue])"

lemma shift_wall:
  assumes "wall_clock_tenant (ticket_tenant t)"
  shows "bindc (shift_first_due zi m t) (\<lambda>d. bindc (shift_resolution_due zi m d) f) u =
    f (t\<lparr>sla_first_response_due := delayed m (sla_first_response_due t),
         sla_resolution_due := delayed m (sla_resolution_due t)\<rparr>, shifted_columns t) u"
  using assms by (simp add: cmd_simps shift_drafts_wall shifted_columns_def Let_def)

lemma shift_run:
  assumes row: "ticket_row (pk x) u = Some r" and num: "number x \<noteq> 0"
    and same: "map_option status_id (status r) = map_option status_id (status x)"
    and wall: "wall_clock_tenant (ticket_tenant x)" and later: "a \<le> b"
    and due: "sla_first_response_due r = sla_first_response_due x" "sla_resolution_due r = sla_resolution_due x"
  shows "\<exists>z v. shift_sla_deadlines (save_nested (Suc n)) x a b u = (Inr z, v) \<and> env_kept u v \<and> pauses v = pauses u \<and>
     carries z x \<and> (\<exists>r'. ticket_row (pk x) v = Some r' \<and> status r' = status r \<and> pre_wait_status r' = pre_wait_status r \<and>
       sla_first_response_due r' = delayed (b - a) (sla_first_response_due x) \<and>
       sla_resolution_due r' = delayed (b - a) (sla_resolution_due x)) \<and>
     sla_first_response_due z = delayed (b - a) (sla_first_response_due x) \<and>
     sla_resolution_due z = delayed (b - a) (sla_resolution_due x)"
proof (cases "b - a \<le> 0 \<or> sla_first_response_due x = None \<and> sla_resolution_due x = None")
  case True
  with later have "delayed (b - a) (sla_first_response_due x) = sla_first_response_due x"
      "delayed (b - a) (sla_resolution_due x) = sla_resolution_due x"
    by (auto simp: delayed_def map_option.id [unfolded id_def] map_option_idI)
  with True row due show ?thesis
    by (auto simp: shift_sla_deadlines_def cmd_simps wall_clock_elapsed [OF wall] env_kept_def carries_def)
next
  case False
  define y where "y = x\<lparr>sla_first_response_due := delayed (b - a) (sla_first_response_due x),
    sla_resolution_due := delayed (b - a) (sla_resolution_due x)\<rparr>"
  define uf where "uf = shifted_columns x @ [CUpdatedAt]"
  have row_y: "ticket_row (pk y) u = Some r" and num_y: "number y \<noteq> 0"
    and same_y: "map_option status_id (status r) = map_option status_id (status y)"
    using row num same by (simp_all add: y_def)
  define z where "z = saved_instance uf r y u"
  obtain v where v: "save_nested (Suc n) (Some uf) y u = (Inr z, v)"
      "rows_kept (write_ticket (pk y) uf z u) v"
    using settled_save(1) [OF row_y num_y same_y] unfolding z_def by blast
  obtain w where w: "log_sla_change z (sla_first_response_due x) (sla_resolution_due x) ''pause_resume'' None v = (Inr (), w)"
    using safeD [OF safe_log_sla] by fastforce
  have kept: "rows_kept (write_ticket (pk y) uf z u) w"
    using rows_law.step_trans v(2) obeysD [OF rows_law.log_sla_change w] by blast
  have "shift_sla_deadlines (save_nested (Suc n)) x a b u = (Inr z, w)"
  proof -
    have "shift_sla_deadlines (save_nested (Suc n)) x a b u = finish_shift (save_nested (Suc n)) x (y, shifted_columns x) u"
      unfolding shift_sla_deadlines_def run_bind run_asks run_lift wall_clock_elapsed [OF wall]
      using False wall by (auto simp: shift_wall [unfolded run_bind] y_def)
    then show ?thesis using v(1) w by (simp add: finish_shift_def cmd_simps uf_def)
  qed
  moreover have "env_kept u w" "pauses w = pauses u"
    using kept by (simp_all add: rows_kept_def env_kept_def write_ticket_def)
  moreover have "ticket_row (pk x) w = Some (write_columns uf z r)"
    using row_y by (simp add: rows_kept_row [OF kept] ticket_row_write y_def)
  moreover have "status (write_columns uf z r) = status r" "pre_wait_status (write_columns uf z r) = pre_wait_status r"
      "sla_first_response_due (write_columns uf z r) = delayed (b - a) (sla_first_response_due x)"
      "sla_resolution_due (write_columns uf z r) = delayed (b - a) (sla_resolution_due x)"
    using due by (auto simp: written uf_def z_def y_def delayed_def shifted_columns_def Let_def)
  ultimately show ?thesis
    by (auto simp: z_def y_def carries_def)
qed

text \<open>What leaving a pausing status leaves in the store \<open>v\<close> and the instance \<open>z\<close>.\<close>

definition resumes :: "ticket \<Rightarrow> store \<Rightarrow> sla_pause \<Rightarrow> ticket_status option \<Rightarrow> instant option \<Rightarrow> instant option \<Rightarrow>
    ticket \<Rightarrow> store \<Rightarrow> bool" where
  "resumes t s p pw due1 due2 z v \<longleftrightarrow> env_kept s v \<and> pauses v = closed_pauses p (clock s) s \<and>
     stored (pk t) v (status t) pw (delayed (clock s - paused_at p) due1) (delayed (clock s - paused_at p) due2) None \<and>
     carries z t"

lemma resumes_rows: "resumes t s p pw a b z v \<Longrightarrow> rows_kept v w \<Longrightarrow> resumes t s p pw a b z w"
  unfolding resumes_def using stored_rows [of v w] by (auto simp: env_kept_def rows_kept_def)

lemma resume_run:
  assumes row: "ticket_row (pk x) u = Some r" and num: "number x \<noteq> 0"
    and same: "status r = status x"
    and wall: "wall_clock_tenant (ticket_tenant x)" and found: "open_pause (pk x) u = Some p"
    and later: "paused_at p \<le> clock u"
    and due: "sla_first_response_due r = sla_first_response_due x" "sla_resolution_due r = sla_resolution_due x"
  shows "\<exists>z v. resume_sla_pause (save_nested (Suc n)) x (clock u) why u = (Inr z, v) \<and>
     resumes x u p (pre_wait_status r) (sla_first_response_due x) (sla_resolution_due x) z v"
proof -
  let ?m = "clock u - paused_at p"
  define u1 where "u1 = u\<lparr>pauses := closed_pauses p (clock u) u\<rparr>"
  have row1: "ticket_row (pk x) u1 = Some r" using row by (simp add: u1_def ticket_row_def)
  have ids: "map_option status_id (status r) = map_option status_id (status x)" by (simp add: same)
  obtain y u2 r2 where y: "shift_sla_deadlines (save_nested (Suc n)) x (paused_at p) (clock u) u1 = (Inr y, u2)"
    "env_kept u1 u2" "pauses u2 = pauses u1" "carries y x" "ticket_row (pk x) u2 = Some r2" "status r2 = status r"
    "pre_wait_status r2 = pre_wait_status r" "sla_first_response_due r2 = delayed ?m (sla_first_response_due x)"
    "sla_resolution_due r2 = delayed ?m (sla_resolution_due x)"
    using shift_run [OF row1 num ids wall later due, of n] by blast
  define y1 where "y1 = y\<lparr>sla_paused_at := None\<rparr>"
  have row2: "ticket_row (pk y1) u2 = Some r2" and num2: "number y1 \<noteq> 0"
    and ids2: "map_option status_id (status r2) = map_option status_id (status y1)"
    using y num same by (simp_all add: y1_def carries_def)
  define z where "z = saved_instance [CPausedAt, CUpdatedAt] r2 y1 u2"
  obtain u3 where u3: "save_nested (Suc n) (Some [CPausedAt, CUpdatedAt]) y1 u2 = (Inr z, u3)"
      "rows_kept (write_ticket (pk y1) [CPausedAt, CUpdatedAt] z u2) u3"
    using settled_save(1) [OF row2 num2 ids2] unfolding z_def by blast
  obtain v where v: "create_timeline_entry z ESlaResumed None
         [(''pause_id'', jpk (pause_id p)), (''duration_minutes'', JInt (trunc_div ?m minute_us)),
          (''reason'', JStr why)] u3 = (Inr (), v)"
    using safeD [OF safe_logs(2)] by fastforce
  have kept: "rows_kept (write_ticket (pk y1) [CPausedAt, CUpdatedAt] z u2) v"
    using rows_law.step_trans u3(2) obeysD [OF rows_timeline v] by blast
  have row_v: "ticket_row (pk x) v = Some (write_columns [CPausedAt, CUpdatedAt] z r2)"
    using y(4,5) by (simp add: rows_kept_row [OF kept] ticket_row_write y1_def carries_def)
  have "resume_sla_pause (save_nested (Suc n)) x (clock u) why u = (Inr z, v)"
    using found y(1) u3(1) v
    by (simp add: resume_sla_pause_def close_pause_def finish_resume_def cmd_simps u1_def y1_def closed_pauses_def)
  moreover have "env_kept u v" "pauses v = pauses u1"
    using kept y(2,3) by (simp_all add: rows_kept_def env_kept_def write_ticket_def u1_def)
  moreover have "stored (pk x) v (status x) (pre_wait_status r)
      (delayed ?m (sla_first_response_due x)) (delayed ?m (sla_resolution_due x)) None"
    using row_v y(6-) same by (simp add: stored_def written z_def y1_def)
  ultimately show ?thesis
    using y(4) by (auto simp: resumes_def u1_def z_def y1_def carries_def)
qed

theorem leave_wait_save:
  assumes row: "ticket_row (pk t) s = Some r" and num: "number t \<noteq> 0" and cols: "CStatus \<in> set uf"
      "CFirstResponseDue \<notin> set uf" "CResolutionDue \<notin> set uf"
    and changed: "map_option status_id (status r) \<noteq> map_option status_id (status t)"
    and pausing: "\<not> status_flag pauses_sla (status t)" "status_flag pauses_sla (status r)"
    and wall: "wall_clock_tenant (ticket_tenant t)" and found: "open_pause (pk t) s = Some p"
    and later: "paused_at p \<le> clock s"
    and due: "sla_first_response_due r = sla_first_response_due t" "sla_resolution_due r = sla_resolution_due t"
  shows "\<exists>z v. save_ticket (Some uf) t s = (Inr z, v) \<and>
    resumes t s p (pick uf CPreWaitStatus pre_wait_status t r) (sla_first_response_due r) (sla_resolution_due r) z v"
proof -
  let ?x = "changed_instance uf t s"
  let ?Q = "resumes t s p (pick uf CPreWaitStatus pre_wait_status t r) (sla_first_response_due r) (sla_resolution_due r)"
  have flags: "status_changed (flags ?x)" "old_pauses_sla (flags ?x)"
    using changed_flags [OF row changed] pausing(2) by simp_all
  have handle: "\<exists>z v. handle_sla_pause_on_status_change (save_nested (Suc 98)) False ?x u = (Inr z, v) \<and> ?Q z v"
    if kept: "rows_kept (write_ticket (pk t) uf ?x s) u" for u
  proof -
    have u: "clock u = clock s" "pauses u = pauses s" "env_kept s u"
      using kept by (simp_all add: rows_kept_def env_kept_def write_ticket_def)
    let ?r = "write_columns uf ?x r"
    have row_u: "ticket_row (pk ?x) u = Some ?r"
      using row by (simp add: rows_kept_row [OF kept] ticket_row_write)
    have same: "status ?r = status ?x" using cols by (simp add: written)
    have num_x: "number ?x \<noteq> 0" using num by simp
    have wall_x: "wall_clock_tenant (ticket_tenant ?x)" using wall by (simp add: changed_instance_same)
    have found_u: "open_pause (pk ?x) u = Some p" using found u(2) by (simp add: open_pause_def)
    have later_u: "paused_at p \<le> clock u" using later u(1) by simp
    have due_u: "sla_first_response_due ?r = sla_first_response_due ?x" "sla_resolution_due ?r = sla_resolution_due ?x"
      using due cols by (simp_all add: written changed_instance_same)
    have run: "handle_sla_pause_on_status_change (save_nested (Suc 98)) False ?x u =
        resume_sla_pause (save_nested (Suc 98)) ?x (clock u) ''status_change'' u"
      using flags pausing(1)
      by (simp add: handle_sla_pause_on_status_change_def timezone_now_def cmd_simps Let_def status_flag_def
          split: option.splits)
    from resume_run [OF row_u num_x same wall_x found_u later_u due_u, of 98 "''status_change''"]
    obtain z v where zv: "resume_sla_pause (save_nested (Suc 98)) ?x (clock u) ''status_change'' u = (Inr z, v)"
      "resumes ?x u p (pre_wait_status ?r) (sla_first_response_due ?x) (sla_resolution_due ?x) z v" by blast
    have "?Q z v"
      using zv(2) u due
      by (simp add: resumes_def written changed_instance_same carries_def env_kept_def closed_pauses_def split: if_splits)
    with run zv(1) show ?thesis by metis
  qed
  show ?thesis
    unfolding save_nested_unfold
    using save_through_pause [OF row num handle resumes_rows] by simp
qed

section \<open>The round trip\<close>

lemma stage_same:
  "sla_first_response_due (fst (snapshot_wait old new d)) = sla_first_response_due (fst d)"
  "sla_resolution_due (fst (snapshot_wait old new d)) = sla_resolution_due (fst d)"
  "ticket_tenant (fst (snapshot_wait old new d)) = ticket_tenant (fst d)"
  "sla_first_response_due (fst (mark_solved now old new d)) = sla_first_response_due (fst d)"
  "sla_resolution_due (fst (mark_solved now old new d)) = sla_resolution_due (fst d)"
  "ticket_tenant (fst (mark_solved now old new d)) = ticket_tenant (fst d)"
  "sla_first_response_due (fst (unmark_solved old new d)) = sla_first_response_due (fst d)"
  "sla_resolution_due (fst (unmark_solved old new d)) = sla_resolution_due (fst d)"
  "ticket_tenant (fst (unmark_solved old new d)) = ticket_tenant (fst d)"
  "sla_first_response_due (fst (stamp_closure now old new d)) = sla_first_response_due (fst d)"
  "sla_resolution_due (fst (stamp_closure now old new d)) = sla_resolution_due (fst d)"
  "ticket_tenant (fst (stamp_closure now old new d)) = ticket_tenant (fst d)"
  "sla_first_response_due (fst (flag_breach now old new d)) = sla_first_response_due (fst d)"
  "sla_resolution_due (fst (flag_breach now old new d)) = sla_resolution_due (fst d)"
  "ticket_tenant (fst (flag_breach now old new d)) = ticket_tenant (fst d)"
  by (auto simp: snapshot_wait_def mark_solved_def unmark_solved_def stamp_closure_def flag_breach_def
      check_resolution_breach_def Let_def split: prod.split option.split)

lemma draft_same:
  "sla_first_response_due (fst (draft_status_change now new actor t)) = sla_first_response_due t"
  "sla_resolution_due (fst (draft_status_change now new actor t)) = sla_resolution_due t"
  "ticket_tenant (fst (draft_status_change now new actor t)) = ticket_tenant t"
  unfolding draft_status_change_def Let_def by (simp_all only: stage_same) (simp_all add: set_status_def)

lemma draft_keeps_due:
  "CFirstResponseDue \<notin> set (snd (draft_status_change now new actor t))"
  "CResolutionDue \<notin> set (snd (draft_status_change now new actor t))"
  unfolding draft_status_change_def Let_def by (simp_all add: stage_fields)

lemma quietly_same [simp]:
  "sla_first_response_due (quietly t) = sla_first_response_due t"
  "sla_resolution_due (quietly t) = sla_resolution_due t"
  "pre_wait_status (quietly t) = pre_wait_status t"
  by (simp_all add: quietly_def)

lemma rows_record: "obeys rows_kept (record_status_change now old new a req tnt t)"
proof -
  have u: "obeys rows_kept (register_callback cb)" "obeys rows_kept (broadcast_ticket_event t ev x)"
      "obeys rows_kept (fire_webhooks tnt we dd)" for cb ev x we dd
    unfolding register_callback_def broadcast_ticket_event_def fire_webhooks_def Let_def
    by (rule rows_law.obeys_update, simp add: rows_kept_def)+
  show ?thesis
    unfolding record_status_change_def Let_def
    by (intro rows_law.obeys_then rows_law.obeys_when u rows_law.log_activity rows_timeline TrueI)
qed

lemma safe_record: "safe (record_status_change now old new a req tnt t)"
  unfolding record_status_change_def Let_def register_callback_def broadcast_ticket_event_def fire_webhooks_def
  by (intro safe_rules safe_logs)

lemma change_status_via_save:
  assumes diff: "map_option status_id (status t) \<noteq> Some (status_id new)"
    and stays: "\<not> has_slug (status t) ''resolved''"
    and save: "save_ticket (Some (snd (draft_status_change (clock s) new actor t)))
      (quietly (fst (draft_status_change (clock s) new actor t))) s = (Inr z, v)"
  shows "\<exists>w. change_ticket_status t new actor req s = (Inr z, w) \<and> rows_kept v w"
proof -
  obtain w where w: "record_status_change (clock s) (status t) new actor req (ticket_tenant t) z v = (Inr (), w)"
    using safeD [OF safe_record] by fastforce
  then have "change_ticket_status t new actor req s = (Inr z, w)"
    using stays save
    unfolding change_ticket_status_def if_not_P [OF diff]
    by (simp add: timezone_now_def cmd_simps leaves_resolved_def Let_def)
  with obeysD [OF rows_record w] show ?thesis by blast
qed



end
