(* ===== verification/Ticket_Safety.thy ===== *)
theory Ticket_Safety
  imports Ticket_Lifecycle
begin

text \<open>
  Safety of runs of the ticket services: the audit trail is append-only, what
  identifies a ticket never changes, the first response is stamped once, and
  the transition map makes the closed status terminal.
\<close>

section \<open>Runs of the services\<close>

text \<open>One call of a service on any instance, however stale, returning or raising.\<close>

inductive service_step :: "store \<Rightarrow> store \<Rightarrow> bool" where
  srv_assign: "service_step s (snd (assign_ticket t u actor req note s))"
| srv_status: "service_step s (snd (change_ticket_status t new actor req s))"
| srv_transition: "service_step s (snd (transition_ticket_status t new actor req s))"
| srv_resume: "service_step s (snd (resume_from_wait t actor req s))"
| srv_close: "service_step s (snd (close_ticket t actor req s))"
| srv_escalate: "service_step s (snd (escalate_ticket t u why a q req s))"
| srv_priority: "service_step s (snd (change_ticket_priority t p actor req s))"
| srv_comment: "service_step s (snd (log_ticket_comment t actor internal s))"
| srv_response: "service_step s (snd (record_first_response t actor s))"
| srv_bulk: "service_step s (snd (bulk_update_tickets ts act u req s))"
| srv_merge: "service_step s (snd (merge_tickets t t' u req s))"
| srv_macro: "service_step s (snd (apply_macro t mc u req s))"
| srv_stage: "service_step s (snd (transition_pipeline_stage t stage u why req s))"
| srv_sla: "service_step s (snd (initialize_sla t s))"
| srv_created: "service_step s (snd (create_ticket_activity t actor req s))"

inductive service_run :: "store \<Rightarrow> store \<Rightarrow> bool" where
  srun_refl: "service_run s s"
| srun_step: "service_run s t \<Longrightarrow> service_step t u \<Longrightarrow> service_run s u"
| srun_split: "service_run s t \<Longrightarrow> service_run s (snd (split_ticket x ids u d req t))"

inductive row_run :: "store \<Rightarrow> store \<Rightarrow> bool" where
  rrun_refl: "row_run s s"
| rrun_step: "row_run s t \<Longrightarrow> service_step t u \<Longrightarrow> row_run s u"

lemma obeys_run: "obeys R c \<Longrightarrow> R s (snd (c s))"
  by (simp add: obeys_def)

context row_law
begin

lemma service_step_law: "service_step s s' \<Longrightarrow> R s s'"
  by (induction rule: service_step.induct)
    (rule obeys_run, rule assign change_status transition resume close escalate change_priority
      comment_logged first_response bulk merge macro pipeline initialize_sla creation)+

lemma row_run_law: "row_run s s' \<Longrightarrow> R s s'"
  by (induction rule: row_run.induct) (auto intro: step_refl step_trans service_step_law)

end

context write_law
begin

lemma service_run_law: "service_run s s' \<Longrightarrow> R s s'"
proof (induction rule: service_run.induct)
  case (srun_split s t x ids u d req)
  moreover have "R t (snd (split_ticket x ids u d req t))" by (rule obeys_run [OF split])
  ultimately show ?case by (blast intro: step_trans)
qed (auto intro: step_refl step_trans service_step_law)

end

section \<open>The audit trail\<close>


section \<open>Identity and first response\<close>

definition same_ticket :: "ticket \<Rightarrow> ticket \<Rightarrow> bool" where
  "same_ticket r r' \<longleftrightarrow> pk r' = pk r \<and> number r' = number r \<and> ticket_tenant r' = ticket_tenant r \<and>
     created_by r' = created_by r \<and> created_at r' = created_at r \<and>
     (first_responded_at r \<noteq> None \<longrightarrow> first_responded_at r' = first_responded_at r)"

definition identity_kept :: "store \<Rightarrow> store \<Rightarrow> bool" where
  "identity_kept s s' \<longleftrightarrow> list_all2 same_ticket (tickets s) (tickets s')"

lemma same_refl [simp]: "same_ticket r r"
  by (simp add: same_ticket_def)

lemma identity_map: "(\<And>r. same_ticket r (f r)) \<Longrightarrow> identity_kept s (s\<lparr>tickets := map f (tickets s)\<rparr>)"
  by (simp add: identity_kept_def list_all2_conv_all_nth)

lemma identity_write: "identity_kept s (write_ticket i uf x s)"
  unfolding write_ticket_def by (rule identity_map) (simp add: same_ticket_def write_columns_def)

interpretation identity: row_law identity_kept
proof unfold_locales
  fix s t u assume "identity_kept s t" "identity_kept t u"
  then show "identity_kept s u"
    unfolding identity_kept_def
    by (rule list_all2_trans [rotated]) (auto simp: same_ticket_def)
next
  fix i uf x s
  show "identity_kept s (write_ticket i uf x s)" by (rule identity_write)
next
  fix i uf x s
  show "identity_kept s (write_ticket i uf x s)" by (rule identity_write)
qed (auto simp: identity_kept_def list_all2_refl rollback_def same_ticket_def
  intro!: identity_map [unfolded identity_kept_def, simplified])


text \<open>
  No service ever changes what identifies a stored ticket (its key,
  number, tenant, creator and creation time), and the time of the first
  response is stamped at most once.
\<close>

theorem ticket_identity_kept:
  assumes run: "row_run s s'" and row: "ticket_row i s = Some r"
  shows "\<exists>r'. ticket_row i s' = Some r' \<and> number r' = number r \<and> ticket_tenant r' = ticket_tenant r \<and>
    created_by r' = created_by r \<and> created_at r' = created_at r \<and>
    (first_responded_at r \<noteq> None \<longrightarrow> first_responded_at r' = first_responded_at r)"
proof -
  have found: "list_all2 same_ticket ts ts' \<Longrightarrow> first_row (\<lambda>t. pk t = i) ts = Some r \<Longrightarrow>
      \<exists>r'. first_row (\<lambda>t. pk t = i) ts' = Some r' \<and> same_ticket r r'" for ts ts'
    by (induction rule: list_all2_induct) (auto simp: same_ticket_def split: if_splits)
  obtain r' where "ticket_row i s' = Some r'" "same_ticket r r'"
    using found identity.row_run_law [OF run] row by (auto simp only: identity_kept_def ticket_row_def)
  then show ?thesis unfolding same_ticket_def by blast
qed

theorem ticket_identity_kept_witness:
  "map first_responded_at (tickets (snd (record_first_response demo_ticket None demo_store))) = [Some 1000] \<and>
   (\<exists>r'. ticket_row 10 (snd (record_first_response demo_ticket None demo_store)) = Some r' \<and> number r' = 1)"
proof -
  have "ticket_row 10 demo_store = Some demo_ticket" "number demo_ticket = 1" by code_simp+
  then have "\<exists>r'. ticket_row 10 (snd (record_first_response demo_ticket None demo_store)) = Some r' \<and> number r' = 1"
    using ticket_identity_kept [OF rrun_step [OF rrun_refl srv_response], of 10 demo_store demo_ticket demo_ticket None]
    by auto
  moreover have "map first_responded_at (tickets (snd (record_first_response demo_ticket None demo_store))) = [Some 1000]"
    by code_simp
  ultimately show ?thesis by blast
qed

section \<open>The closed status is terminal\<close>

text \<open>
  The operations that go through the transition map, on an instance read from
  the store, and those that do not touch the status.
\<close>

inductive api_step :: "store \<Rightarrow> store \<Rightarrow> bool" where
  api_transition: "fresh t s \<Longrightarrow> api_step s (snd (transition_ticket_status t new actor req s))"
| api_resume: "fresh t s \<Longrightarrow> api_step s (snd (resume_from_wait t actor req s))"
| api_close: "fresh t s \<Longrightarrow> api_step s (snd (close_ticket t actor req s))"
| api_escalate: "api_step s (snd (escalate_ticket t u why a q req s))"
| api_priority: "api_step s (snd (change_ticket_priority t p actor req s))"
| api_response: "api_step s (snd (record_first_response t actor s))"
| api_sla: "api_step s (snd (initialize_sla t s))"
| api_comment: "api_step s (snd (log_ticket_comment t actor internal s))"
| api_commit: "api_step s (snd (run_on_commit s))"
| api_clock: "0 \<le> d \<Longrightarrow> api_step s (s\<lparr>clock := clock s + d\<rparr>)"

inductive api_run :: "store \<Rightarrow> store \<Rightarrow> bool" where
  arun_refl: "api_run s s"
| arun_step: "api_run s t \<Longrightarrow> api_step t u \<Longrightarrow> api_run s u"

definition life_row :: "nat \<Rightarrow> store \<Rightarrow> (nat \<times> nat \<times> ticket_status option \<times> instant option \<times> instant option \<times>
    instant option \<times> ticket_status option) option" where
  "life_row i s = map_option life (ticket_row i s)"

lemma life_row_map:
  assumes "map life (tickets s') = map life (tickets s)"
  shows "life_row i s' = life_row i s"
proof -
  have "map life ts' = map life ts \<Longrightarrow>
        map_option life (first_row (\<lambda>t. pk t = i) ts') = map_option life (first_row (\<lambda>t. pk t = i) ts)" for ts' ts
  proof (induction ts' arbitrary: ts)
    case (Cons a as)
    then obtain b bs where ts: "ts = b # bs" "life a = life b" "map life as = map life bs" by auto
    then have "pk a = pk b" by (simp add: life_def)
    with Cons.IH ts show ?case by simp
  qed simp
  from this [OF assms] show ?thesis by (simp only: ticket_row_def life_row_def)
qed

lemma life_row_kept: "life_kept s s' \<Longrightarrow> life_row i s' = life_row i s"
  unfolding life_kept_def by (rule life_row_map)

lemma life_row_core:
  assumes "map core (tickets s') = map core (tickets s)"
  shows "life_row i s' = life_row i s"
proof (rule life_row_map)
  have "life t = life (core t)" for t by (simp add: life_def core_def)
  then have "map life ts = map life (map core ts)" for ts by simp
  then show "map life (tickets s') = map life (tickets s)" using assms by metis
qed

text \<open>A status change leaves the other rows as they are.\<close>

lemma change_status_elsewhere:
  assumes num: "number t \<noteq> 0" and other: "pk t \<noteq> i"
  shows "life_row i (snd (change_ticket_status t new actor req s)) = life_row i s"
proof (cases "change_ticket_status t new actor req s")
  case (Pair res s')
  show ?thesis
  proof (cases res)
    case (Inl e)
    with Pair change_status_error have "s' = s\<lparr>outbox := outbox s'\<rparr>" by blast
    then have "tickets s' = tickets s" by (metis store.select_convs(5) store.surjective store.update_convs(28))
    then show ?thesis by (simp add: Pair life_row_def ticket_row_def)
  next
    case (Inr t')
    show ?thesis
    proof (cases "map_option status_id (status t) = Some (status_id new)")
      case True
      with Pair Inr have "s' = s" by (simp add: change_ticket_status_def cmd_simps)
      then show ?thesis by (simp add: Pair)
    next
      case False
      let ?d = "draft_status_change (clock s) new actor t"
      obtain s0 s2 where s0: "tickets s0 = tickets s"
        and save: "save_ticket (Some (snd ?d)) (quietly (fst ?d)) s0 = (Inr t', s2)" and rest: "core_kept s2 s'"
        using change_status_saves [OF Pair [unfolded Inr] False] by blast
      have d: "pk (quietly (fst ?d)) = pk t" "number (quietly (fst ?d)) \<noteq> 0"
        using num by (simp_all add: draft_fields)
      obtain x where "map core (tickets s2) = map core (tickets (write_ticket (pk t) (snd ?d) x s0))"
        using save_rows(2) [OF save d(2)] d(1) by auto
      with rest have "map core (tickets s') = map core (tickets (write_ticket (pk t) (snd ?d) x s0))"
        by (simp add: core_kept_def)
      then have "life_row i s' = life_row i (write_ticket (pk t) (snd ?d) x s0)" by (rule life_row_core)
      also have "\<dots> = life_row i s"
        using other by (simp add: life_row_def ticket_row_write option.map_ident) (simp add: ticket_row_def s0)
      finally show ?thesis by (simp add: Pair)
    qed
  qed
qed

lemma fresh_status: "fresh t s \<Longrightarrow> ticket_row (pk t) s = Some r \<Longrightarrow> status t = status r"
  by (auto simp: fresh_def dest: core_fields)

lemma transition_from_closed:
  assumes "status t = Some st" and "status_slug st = ''closed''"
  shows "snd (transition_ticket_status t new actor req s) = s"
  using assms
  by (simp add: transition_ticket_status_def validate_status_transition_def ALLOWED_TRANSITIONS_def
      cmd_simps change_ticket_status_def)

definition closed_row :: "nat \<Rightarrow> store \<Rightarrow> bool" where
  "closed_row i s \<longleftrightarrow> (\<exists>r st. ticket_row i s = Some r \<and> status r = Some st \<and> status_slug st = ''closed'' \<and>
     is_closed st \<and> \<not> pauses_sla st)"

lemma closed_row_fresh:
  assumes "closed_row i s" and "fresh t s" and "pk t = i"
  obtains st where "status t = Some st" "status_slug st = ''closed''" "is_closed st" "\<not> pauses_sla st"
  using assms fresh_status unfolding closed_row_def by metis

lemma closed_row_life: "life_row i s' = life_row i s \<Longrightarrow> closed_row i s' = closed_row i s"
proof -
  define p where "p = (\<lambda>(i::nat, n::nat, st, c::instant option, r::instant option, so::instant option, pw::ticket_status option).
    \<exists>x. st = Some x \<and> status_slug x = ''closed'' \<and> is_closed x \<and> \<not> pauses_sla (x :: ticket_status))"
  have "closed_row i u = (\<exists>l. life_row i u = Some l \<and> p l)" for u
    by (auto simp: closed_row_def life_row_def p_def life_def)
  then show "life_row i s' = life_row i s \<Longrightarrow> closed_row i s' = closed_row i s" by simp
qed

lemma api_step_closed: "api_step s s' \<Longrightarrow> closed_row i s \<Longrightarrow> life_row i s' = life_row i s"
proof (induction rule: api_step.induct)
  case (api_transition t s new actor req)
  show ?case
  proof (cases "pk t = i")
    case True
    with api_transition show ?thesis by (auto elim!: closed_row_fresh simp: transition_from_closed)
  next
    case False
    with api_transition.hyps transition_snd [of t new actor req s] change_status_elsewhere show ?thesis
      unfolding fresh_def by metis
  qed
next
  case (api_resume t s actor req)
  show ?case
  proof (cases "pk t = i")
    case True
    with api_resume show ?thesis
      by (auto elim!: closed_row_fresh simp: resume_from_wait_def status_flag_def cmd_simps)
  next
    case False
    with api_resume.hyps resume_snd [of t actor req s] change_status_elsewhere show ?thesis
      unfolding fresh_def by metis
  qed
next
  case (api_close t s actor req)
  show ?case
  proof (cases "pk t = i")
    case True
    with api_close show ?thesis
      by (auto elim!: closed_row_fresh simp: close_ticket_def status_flag_def cmd_simps)
  next
    case False
    moreover have "tickets s' = tickets s \<Longrightarrow> life_row i s' = life_row i s" for s'
      by (rule life_row_map) simp
    ultimately show ?thesis
      using api_close.hyps close_snd [of t actor req s] change_status_elsewhere unfolding fresh_def by metis
  qed
next
  case api_clock
  show ?case by (rule life_row_map) simp
qed (rule life_row_kept, rule obeys_run, rule life_law.escalate life_law.change_priority
    life_law.first_response life_law.initialize_sla life_law.comment_logged life_commit)+

text \<open>
  C10: A ticket in the \<open>closed\<close> status stays there: no sequence of validated
  transitions, resumes, closures and other calls that go through the
  transition map, with the callbacks of their commits, changes its status or
  its closing timestamps.
\<close>

theorem closed_is_terminal:
  assumes run: "api_run s s'" and row: "ticket_row i s = Some r" and st: "status r = Some st"
    and closed: "status_slug st = ''closed''" "is_closed st" "\<not> pauses_sla st"
  shows "\<exists>r'. ticket_row i s' = Some r' \<and> status r' = Some st \<and> closed_at r' = closed_at r \<and>
    resolved_at r' = resolved_at r"
proof -
  from run have "closed_row i s \<Longrightarrow> life_row i s' = life_row i s"
  proof (induction rule: api_run.induct)
    case (arun_step s t u)
    then have "life_row i t = life_row i s" by simp
    moreover from this arun_step.prems have "closed_row i t" using closed_row_life by blast
    ultimately show ?case using api_step_closed [OF arun_step.hyps(2)] by simp
  qed simp
  moreover have "closed_row i s" using row st closed by (auto simp: closed_row_def)
  ultimately have "life_row i s' = life_row i s" .
  then show ?thesis using row st by (auto simp: life_row_def life_def)
qed

definition closed_ticket :: ticket where
  "closed_ticket = demo_ticket\<lparr>status := Some st_closed, closed_at := Some 900, resolved_at := Some 900\<rparr>"

definition closed_demo :: store where
  "closed_demo = demo_store\<lparr>tickets := [closed_ticket]\<rparr>"

theorem closed_is_terminal_witness:
  "\<exists>r'. ticket_row 10 (snd (transition_ticket_status closed_ticket st_open (Some demo_user) None closed_demo)) =
     Some r' \<and> status r' = Some st_closed \<and> closed_at r' = Some 900"
proof -
  have t: "pk closed_ticket = 10" "number closed_ticket \<noteq> 0" "status closed_ticket = Some st_closed"
      "closed_at closed_ticket = Some 900"
    by (simp_all add: closed_ticket_def demo_ticket_def new_ticket_def)
  have row: "ticket_row 10 closed_demo = Some closed_ticket"
    by (simp add: closed_demo_def ticket_row_def t)
  have st: "status_slug st_closed = ''closed''" "is_closed st_closed" "\<not> pauses_sla st_closed"
    by (simp_all add: st_closed_def demo_status_def)
  have "fresh closed_ticket closed_demo" using row t by (simp add: fresh_def)
  then have "api_run closed_demo (snd (transition_ticket_status closed_ticket st_open (Some demo_user) None closed_demo))"
    by (intro arun_step [OF arun_refl] api_transition)
  from closed_is_terminal [OF this row t(3) st] show ?thesis using t by auto
qed

text \<open>The bulk update does not go through the map: it reopens a closed ticket.\<close>

lemma bulk_update_bypasses_map:
  "map status (tickets (snd (bulk_update_tickets [closed_ticket] (BulkStatus (Some 1)) demo_user None closed_demo))) = [Some st_open]"
  by code_simp

end
