(* ===== verification/Ticket_Moves.thy ===== *)
theory Ticket_Moves
  imports Ticket_Safety "HOL-Library.Multiset"
begin

text \<open>
  What merging and splitting move: every comment of the merged ticket, exactly
  the chosen comments of a split one, and nothing else.  The law
  \<open>belongings_kept\<close> says that saving and logging leave comments, attachments
  and links alone.
\<close>

section \<open>Saving and logging move nothing\<close>

definition belongings_kept :: "store \<Rightarrow> store \<Rightarrow> bool" where
  "belongings_kept s s' \<longleftrightarrow> comments s' = comments s \<and> attachments s' = attachments s \<and>
     links s' = links s \<and> current_tenant s' = current_tenant s"

interpretation belongings: save_law belongings_kept "\<lambda>_. True"
  by unfold_locales (auto simp: belongings_kept_def write_ticket_def)

lemma belongings_save: "obeys belongings_kept (save_ticket (Some uf) t)"
  by (rule belongings.save_ticket) (simp_all add: quiet_def belongings_kept_def write_ticket_def)

lemma belongings_insert: "obeys belongings_kept (save_ticket None t)"
proof -
  have w: "obeys belongings_kept (write_row None x)" for x
    unfolding write_row_def timezone_now_def Let_def
    by (intro belongings.obeys_bind belongings.obeys_asks)
      (auto split: option.split simp: belongings_kept_def
        intro!: belongings.obeys_then belongings.obeys_ret belongings.obeys_update)
  show ?thesis
    unfolding save_nested_unfold save_nested.simps
    by (intro belongings.obeys_bind belongings.before_save w belongings.obeys_prod belongings.post_save
        belongings.side_save_nested quiet_law.good_save_nested) (simp add: quiet_def)
qed

lemma belongings_timeline: "obeys belongings_kept (create_timeline_entry t e u md)"
  unfolding create_timeline_entry_def
  by (intro belongings.obeys_rules belongings.obeys_update belongings.log_contact_event) (simp add: belongings_kept_def)

lemmas belongings_logs = belongings.log_activity [OF TrueI] belongings_timeline

lemma belongings_sla: "obeys belongings_kept (initialize_sla t)"
  unfolding initialize_sla_def timezone_now_def by (intro belongings.obeys_rules belongings_save)

lemmas belongingsD = belongings_save [THEN obeysD] belongings_insert [THEN obeysD]
  belongings_logs [THEN obeysD] belongings_sla [THEN obeysD]

section \<open>What the moves do\<close>

definition on_ticket :: "nat \<Rightarrow> comment \<Rightarrow> bool" where
  "on_ticket i c \<longleftrightarrow> comment_type c = TicketCT \<and> comment_object c = i"

definition redirect :: "(comment \<Rightarrow> bool) \<Rightarrow> nat \<Rightarrow> comment \<Rightarrow> comment" where
  "redirect p j c = (if p c then c\<lparr>comment_object := j\<rparr> else c)"

lemma move_comments_run:
  "move_comments p i j s = (Inr (length (filter (\<lambda>c. p c \<and> on_ticket i c) (comments s))),
     s\<lparr>comments := map (redirect (\<lambda>c. p c \<and> on_ticket i c) j) (comments s)\<rparr>)"
  by (simp add: move_comments_def cmd_simps on_ticket_def redirect_def cong: map_cong if_cong)

lemma move_activities_run:
  "\<exists>n. move_activities i j s = (Inr n, s\<lparr>timeline := map (\<lambda>a. if act_ticket a = i then a\<lparr>act_ticket := j\<rparr> else a) (timeline s)\<rparr>)"
  by (simp add: move_activities_def cmd_simps)

lemma move_attachments_run:
  "\<exists>n. move_attachments i j s = (Inr n, s\<lparr>attachments := map (\<lambda>a. if attachment_type a = TicketCT \<and> attachment_object a = i
     then a\<lparr>attachment_object := j\<rparr> else a) (attachments s)\<rparr>)"
  by (simp add: move_attachments_def cmd_simps)

lemma post_comment_returns:
  "post_comment tnt i u b x s = (Inr c, s') \<longleftrightarrow>
     c = \<lparr>comment_id = next_pk s, comment_tenant = tenant_id tnt, comment_type = TicketCT, comment_object = i,
          comment_author = u, comment_body = b, is_internal = x\<rparr> \<and>
     s' = s\<lparr>next_pk := next_pk s + 1, comments := c # comments s\<rparr>"
  by (auto simp: post_comment_def new_pk_def Let_def returns)

lemma get_or_create_link_run:
  "\<exists>l s'. get_or_create_link tnt i j k a s = (Inr (), s') \<and> comments s' = comments s \<and>
     attachments s' = attachments s \<and> l \<in> set (links s') \<and>
     source_ticket l = i \<and> target_ticket l = j \<and> link_kind l = k"
proof (cases "first_row (\<lambda>l. source_ticket l = i \<and> target_ticket l = j \<and> link_kind l = k) (scoped s link_tenant (links s))")
  case None
  then show ?thesis by (auto simp: get_or_create_link_def create_link_def cmd_simps)
next
  case (Some l)
  then have "l \<in> set (links s)" "source_ticket l = i" "target_ticket l = j" "link_kind l = k"
    by (auto dest!: first_row_SomeD simp: scoped_def split: option.splits)
  then show ?thesis using Some by (auto simp: get_or_create_link_def cmd_simps)
qed

lemma save_keeps_pk: "save_ticket (Some uf) t s = (Inr t', s') \<Longrightarrow> pk t' = pk t"
proof -
  assume "save_ticket (Some uf) t s = (Inr t', s')"
  then have "firm t' = firm t"
    using yieldsD [OF firm_law.yields_save [of t "firm t"]] unfolding save_ticket_def by simp
  then show ?thesis by (rule firm_fields)
qed

lemma pk_close_merged [simp]: "pk (close_merged now st q) = pk q"
  by (simp add: close_merged_def split: option.split)

section \<open>Taking a run apart\<close>

lemma bind_unwind:
  assumes "bindc c f s = (Inr b, s')"
  obtains a s1 where "c s = (Inr a, s1)" "f a s1 = (Inr b, s')"
  using assms by (auto simp: bind_returns)

lemma asks_unwind: "bindc (asks g) f s = (Inr b, s') \<Longrightarrow> (f (g s) s = (Inr b, s') \<Longrightarrow> P) \<Longrightarrow> P"
  by (simp add: cmd_simps)

lemma then_unwind:
  assumes "thenc c d s = (Inr b, s')"
  obtains s1 where "c s = (Inr (), s1)" "d s1 = (Inr b, s')"
  using assms by (auto simp: then_returns)

lemma guard_unwind:
  "(if g then raise_exc e else c) s = (Inr b, s') \<Longrightarrow> (\<not> g \<Longrightarrow> c s = (Inr b, s') \<Longrightarrow> P) \<Longrightarrow> P"
  by (auto simp: returns split: if_splits)

lemma required_unwind:
  assumes "(case x of None \<Rightarrow> raise_exc e | Some a \<Rightarrow> f a) s = (Inr b, s')"
  obtains a where "x = Some a" "f a s = (Inr b, s')"
  using assms by (auto simp: returns split: option.splits)

lemma new_pk_unwind: "bindc new_pk f s = (Inr b, s') \<Longrightarrow>
    (f (next_pk s) (s\<lparr>next_pk := next_pk s + 1\<rparr>) = (Inr b, s') \<Longrightarrow> P) \<Longrightarrow> P"
  by (simp add: new_pk_def cmd_simps)

lemma ret_unwind: "ret a s = (Inr b, s') \<Longrightarrow> (b = a \<Longrightarrow> s' = s \<Longrightarrow> P) \<Longrightarrow> P"
  by (simp add: ret_def)

lemma param_unwind:
  assumes "bindc (param k v) f s = (Inr b, s')"
  obtains a where "v = Some a" "f a s = (Inr b, s')"
  using assms by (auto simp: param_def returns split: option.splits)

lemma lookup_unwind:
  assumes "bindc (case q of None \<Rightarrow> ret None | Some i \<Rightarrow> bindc (asks (g i)) (\<lambda>x. case x of None \<Rightarrow> raise_exc (e i)
      | Some y \<Rightarrow> ret (Some y))) f s = (Inr b, s')"
  obtains a where "f a s = (Inr b, s')"
  using assms by (auto simp: returns split: option.splits)

lemmas unwind = lookup_unwind param_unwind asks_unwind new_pk_unwind guard_unwind required_unwind ret_unwind then_unwind bind_unwind

section \<open>Merge\<close>

text \<open>
  C11: A merge that returns loses nothing: every comment of the secondary
  ticket is a comment of the primary afterwards, all other comments are as
  they were, the only comment left on the secondary is the new internal note,
  the attachments have moved the same way, and a duplicate link joins the two.
\<close>

theorem merge_moves_everything:
  assumes run: "merge_tickets p q u req s = (Inr (p', q'), s')"
  shows "\<exists>n. comments s' = n # map (redirect (on_ticket (pk q)) (pk p)) (comments s) \<and>
      is_internal n \<and> filter (on_ticket (pk q)) (comments s') = [n] \<and>
      attachments s' = map (\<lambda>a. if attachment_type a = TicketCT \<and> attachment_object a = pk q
        then a\<lparr>attachment_object := pk p\<rparr> else a) (attachments s) \<and>
      (\<exists>l \<in> set (links s'). source_ticket l = pk q \<and> target_ticket l = pk p \<and> link_kind l = DuplicateOf)"
proof -
  have neq: "pk p \<noteq> pk q" and ten: "tenant_id (ticket_tenant p) = tenant_id (ticket_tenant q)"
    using run unfolding merge_tickets_def by (auto simp: returns split: if_splits)
  obtain k1 s1 k2 s2 k3 s3 s4 x uf s5 body c s6 js s7 md where
    m: "move_comments (\<lambda>_. True) (pk q) (pk p) s = (Inr k1, s1)"
       "move_activities (pk q) (pk p) s1 = (Inr k2, s2)" "move_attachments (pk q) (pk p) s2 = (Inr k3, s3)"
    and l: "get_or_create_link (ticket_tenant p) (pk q) (pk p) DuplicateOf (Some u) s3 = (Inr (), s4)"
    and sv: "save_ticket (Some uf) x s4 = (Inr q', s5)" "pk x = pk q"
    and c: "post_comment (ticket_tenant p) (pk q') u body True s5 = (Inr c, s6)"
    and logs: "log_activity (ticket_tenant p) (Some u) TicketCT (pk p) AUpdated js req s6 = (Inr (), s7)"
        "create_timeline_entry p EStatusChanged (Some u) md s7 = (Inr (), s')"
    using run neq ten unfolding merge_tickets_def timezone_now_def Let_def atomic_returns
    by (clarsimp simp: returns)
  have q': "pk q' = pk q" using save_keeps_pk [OF sv(1)] sv(2) by simp
  have s1: "s1 = s\<lparr>comments := map (redirect (on_ticket (pk q)) (pk p)) (comments s)\<rparr>"
    using m(1) by (simp add: move_comments_run)
  have n: "on_ticket (pk q) c" "is_internal c" "comments s6 = c # comments s5"
      "attachments s6 = attachments s5" "links s6 = links s5"
    using c by (simp_all add: post_comment_returns on_ticket_def q')
  have rest: "belongings_kept s6 s'"
    using belongingsD(3) [OF logs(1)] belongingsD(4) [OF logs(2)] by (rule belongings.step_trans)
  have s5: "belongings_kept s4 s5" by (rule belongingsD(1) [OF sv(1)])
  have s3: "comments s3 = comments s1" "attachments s3 = map (\<lambda>a. if attachment_type a = TicketCT \<and> attachment_object a = pk q
        then a\<lparr>attachment_object := pk p\<rparr> else a) (attachments s)"
    using m(2,3) move_activities_run [of "pk q" "pk p" s1] move_attachments_run [of "pk q" "pk p" s2] by (auto simp: s1)
  obtain lk where "comments s4 = comments s3" "attachments s4 = attachments s3" "lk \<in> set (links s4)"
      "source_ticket lk = pk q" "target_ticket lk = pk p" "link_kind lk = DuplicateOf"
    using l get_or_create_link_run [of "ticket_tenant p" "pk q" "pk p" DuplicateOf "Some u" s3] by auto
  moreover have "filter (on_ticket (pk q)) (map (redirect (on_ticket (pk q)) (pk p)) cs) = []" for cs
    using neq by (auto simp: filter_empty_conv redirect_def on_ticket_def)
  ultimately show ?thesis
    using n rest s5 s3 s1 by (intro exI [of _ c]) (auto simp: belongings_kept_def)
qed

text \<open>Two tickets with a comment each, and one more on the second.\<close>

definition demo_comment :: "nat \<Rightarrow> nat \<Rightarrow> comment" where
  "demo_comment i j = \<lparr>comment_id = i, comment_tenant = 1, comment_type = TicketCT, comment_object = j,
     comment_author = demo_user, comment_body = ''hello'', is_internal = False\<rparr>"

definition second_ticket :: ticket where
  "second_ticket = demo_ticket\<lparr>pk := 11, number := 2\<rparr>"

definition pair_store :: store where
  "pair_store = demo_store\<lparr>tickets := [second_ticket, demo_ticket],
     comments := [demo_comment 20 11, demo_comment 21 10, demo_comment 22 11]\<rparr>"

lemma pair_facts:
  "pk demo_ticket = 10" "pk second_ticket = 11"
  "comments pair_store = [demo_comment 20 11, demo_comment 21 10, demo_comment 22 11]"
  "redirect p k (demo_comment i j) = demo_comment i (if p (demo_comment i j) then k else j)"
  "on_ticket k (demo_comment i j) \<longleftrightarrow> j = k" "comment_id (demo_comment i j) = i"
  "comment_object (demo_comment i j) = j"
  by (auto simp: second_ticket_def demo_ticket_def new_ticket_def pair_store_def demo_comment_def
      redirect_def on_ticket_def)

theorem merge_moves_everything_witness:
  "\<exists>n. comments (snd (merge_tickets demo_ticket second_ticket demo_user None pair_store)) =
     [n, demo_comment 20 10, demo_comment 21 10, demo_comment 22 10] \<and> is_internal n"
proof -
  let ?m = "merge_tickets demo_ticket second_ticket demo_user None pair_store"
  have "\<not> isl (fst ?m)" by code_simp
  then obtain p' q' s' where m: "?m = (Inr (p', q'), s')" by (cases ?m; cases "fst ?m") auto
  from merge_moves_everything [OF m] show ?thesis by (auto simp: m pair_facts)
qed

section \<open>Split\<close>

text \<open>
  A split that returns moves exactly the chosen comments, each of which was
  a comment of the source: they are on the child afterwards, every other
  comment is as it was, and one internal note is added to each of the two
  tickets, which a link joins.
\<close>

theorem split_moves_exactly_chosen:
  assumes run: "split_ticket src ids u d req s = (Inr child, s')"
  defines "chosen \<equiv> \<lambda>c. comment_id c \<in> set ids \<and> on_ticket (pk src) c"
  shows "\<exists>n1 n2. comments s' = n2 # n1 # map (redirect chosen (pk child)) (comments s) \<and>
      length (filter chosen (comments s)) = length ids \<and> ids \<noteq> [] \<and>
      on_ticket (pk src) n1 \<and> on_ticket (pk child) n2 \<and> is_internal n1 \<and> is_internal n2 \<and>
      attachments s' = attachments s \<and>
      (\<exists>l \<in> set (links s'). source_ticket l = pk child \<and> target_ticket l = pk src \<and> link_kind l = RelatedTo)"
proof -
  obtain s1 x sv s2 s3 k s4 s5 b1 n1 s6 b2 n2 s7 js1 s8 md1 s9 js2 s10 md2 where
    n: "ids \<noteq> []" "length (filter chosen (comments s)) = length ids"
    and pk: "s1 = s\<lparr>next_pk := next_pk s + 1\<rparr>"
    and sv: "save_ticket None x s1 = (Inr sv, s2)" "initialize_sla sv s2 = (Inr child, s3)"
    and mv: "move_comments (\<lambda>c. comment_id c \<in> set ids) (pk src) (pk child) s3 = (Inr k, s4)"
    and l: "create_link (ticket_tenant src) (pk child) (pk src) RelatedTo (Some u) s4 = (Inr (), s5)"
    and c: "post_comment (ticket_tenant src) (pk src) u b1 True s5 = (Inr n1, s6)"
      "post_comment (ticket_tenant src) (pk child) u b2 True s6 = (Inr n2, s7)"
    and logs: "log_activity (ticket_tenant src) (Some u) TicketCT (pk src) AUpdated js1 req s7 = (Inr (), s8)"
      "create_timeline_entry src EStatusChanged (Some u) md1 s8 = (Inr (), s9)"
      "log_activity (ticket_tenant src) (Some u) TicketCT (pk child) ACreated js2 req s9 = (Inr (), s10)"
      "create_timeline_entry child ECreated (Some u) md2 s10 = (Inr (), s')"
    using run unfolding split_ticket_def timezone_now_def Let_def atomic_returns
    apply (elim unwind)
    apply (rule that)
    apply (unfold chosen_def on_ticket_def)
    apply (assumption | simp)+
    done
  have b: "belongings_kept s1 s3" "belongings_kept s7 s'"
    using belongingsD(2) [OF sv(1)] belongingsD(5) [OF sv(2)] belongingsD(3) [OF logs(1)] belongingsD(4) [OF logs(2)]
      belongingsD(3) [OF logs(3)] belongingsD(4) [OF logs(4)]
    by (blast intro: belongings.step_trans)+
  have s4: "comments s4 = map (redirect chosen (pk child)) (comments s)" "attachments s4 = attachments s"
    using mv b(1) by (auto simp: move_comments_run chosen_def belongings_kept_def pk)
  show ?thesis
    using n b(2) s4 l c
    by (intro exI [of _ n1] exI [of _ n2])
      (auto simp: post_comment_returns belongings_kept_def on_ticket_def create_link_def returns)
qed

definition split_request :: split_data where
  "split_request = \<lparr>split_subject = Some ''other'', split_queue = None, split_priority = None\<rparr>"

definition split_child :: ticket where
  "split_child = (new_ticket (next_pk pair_store) (ticket_tenant second_ticket) ''other''
       (''Split from ticket #'' @ show_nat (number second_ticket))
       (case split_priority split_request of Some p \<Rightarrow> p | None \<Rightarrow> priority second_ticket) demo_user)
     \<lparr>status := Some st_open, queue_of := None, assignee := assignee second_ticket, assigned_by := Some demo_user,
      assigned_at := (if assignee second_ticket = None then None else Some (clock pair_store)),
      contact_of := contact_of second_ticket\<rparr>"

definition succeeds :: "('s, 'a) cmd \<Rightarrow> 's \<Rightarrow> bool" where
  "succeeds c s \<longleftrightarrow> (\<exists>a s'. c s = (Inr a, s'))"

lemma succeeds_steps:
  "succeeds (f (g s)) s \<Longrightarrow> succeeds (bindc (asks g) f) s"
  "succeeds (h v) s \<Longrightarrow> succeeds (bindc (ret v) h) s"
  "succeeds (k (next_pk t)) (t\<lparr>next_pk := next_pk t + 1\<rparr>) \<Longrightarrow> succeeds (bindc new_pk k) t"
  "succeeds c s \<Longrightarrow> succeeds (atomic_on r c) s"
  "\<not> b \<Longrightarrow> succeeds d s \<Longrightarrow> succeeds (if b then raise_exc e else d) s"
  by (auto simp: succeeds_def cmd_simps new_pk_def)

lemma succeeds_bind: "c s = (Inr a, s1) \<Longrightarrow> succeeds (f a) s1 \<Longrightarrow> succeeds (bindc c f) s"
  by (simp add: succeeds_def cmd_simps)

text \<open>The logs never raise.\<close>

lemma safe_log_steps:
  "safe (log_activity tnt u ct i a ch req)" "safe (create_timeline_entry t e u md)" "safe new_pk"
  unfolding log_activity_def create_timeline_entry_def log_contact_event_def new_pk_def
  by (intro safe_rules)+

lemma succeeds_safe: "safe c \<Longrightarrow> succeeds c s"
  by (simp add: succeeds_def safe_def)

lemma split_demo_returns:
  obtains c s' where "split_ticket second_ticket [22] demo_user split_request None pair_store = (Inr c, s')"
proof -
  let ?s1 = "pair_store\<lparr>next_pk := next_pk pair_store + 1\<rparr>"
  have guards: "first_status is_default pair_store = Some st_open"
      "length (filter (\<lambda>c. comment_id c \<in> set [22] \<and> comment_type c = TicketCT \<and> comment_object c = pk second_ticket)
        (comments pair_store)) = length [22::nat]"
    by code_simp+
  have request: "split_queue split_request = None" "split_subject split_request = Some ''other''"
    by (simp_all add: split_request_def)
  have "\<not> isl (fst (save_ticket None split_child ?s1))" by code_simp
  then obtain sv s2 where sv: "save_ticket None split_child ?s1 = (Inr sv, s2)"
    by (metis isl_def obj_sumE prod.collapse)
  then have "policies s2 = []"
    using trail.save_any [THEN obeysD] by (simp add: trail_grows_def pair_store_def demo_store_def)
  then have sla: "initialize_sla sv s2 = (Inr sv, s2)"
    by (simp add: initialize_sla_def active_policy_def cmd_simps)
  have "succeeds (split_ticket second_ticket [22] demo_user split_request None) pair_store"
    unfolding split_ticket_def Let_def timezone_now_def param_def request option.case
    apply (rule succeeds_steps(4), simp only: list.distinct if_False)
    apply (rule succeeds_steps(1), rule succeeds_steps(5), simp only: guards(2) not_not)
    apply (rule succeeds_steps(1), unfold guards(1) option.case)
    apply (rule succeeds_steps(2) succeeds_steps(1) succeeds_steps(3))+
    apply (rule succeeds_bind, rule sv [unfolded split_child_def])
    apply (rule succeeds_bind, rule sla)
    apply (rule succeeds_safe)
    apply (unfold move_comments_def create_link_def post_comment_def Let_def)
    apply (intro safe_rules safe_log_steps)
    done
  then show thesis using that by (auto simp: succeeds_def)
qed

theorem split_moves_exactly_chosen_witness:
  "\<exists>child n1 n2. comments (snd (split_ticket second_ticket [22] demo_user split_request None pair_store)) =
     [n2, n1, demo_comment 20 11, demo_comment 21 10, demo_comment 22 child] \<and> comment_object n2 = child"
proof -
  obtain c s' where m: "split_ticket second_ticket [22] demo_user split_request None pair_store = (Inr c, s')"
    by (rule split_demo_returns)
  from split_moves_exactly_chosen [OF m] show ?thesis by (auto simp: m pair_facts on_ticket_def)
qed

end
