(* ===== verification/Ticket_Effects.thy ===== *)
theory Ticket_Effects
  imports Ticket_Moves Sla_Clock_Laws
begin

text \<open>
  What single operations do: a bulk update is a sequence of independent steps,
  an escalation extends a deadline within its bounds, and a deal closed through
  the pipeline is left without closing timestamps.
\<close>

section \<open>Bulk updates\<close>

text \<open>The reference: every ticket is tried in turn in the store the others left.\<close>

fun bulk_outcomes :: "bulk_action \<Rightarrow> user \<Rightarrow> request option \<Rightarrow> ticket list \<Rightarrow> store \<Rightarrow> (ticket \<times> unit res) list" where
  "bulk_outcomes act u req [] s = []"
| "bulk_outcomes act u req (t # ts) s =
     (t, fst (bulk_step act u req t s)) # bulk_outcomes act u req ts (snd (bulk_step act u req t s))"

definition outcome_detail :: "bulk_action \<Rightarrow> ticket \<times> unit res \<Rightarrow> string" where
  "outcome_detail act = (\<lambda>(t, r). case r of
     Inr _ \<Rightarrow> bulk_detail act t
   | Inl e \<Rightarrow> ''Failed to update ticket #'' @ show_nat (number t) @ '': '' @ exc_name e)"

definition succeeded :: "ticket \<times> unit res \<Rightarrow> bool" where
  "succeeded = (\<lambda>(t, r). \<not> isl r)"

lemma bulk_one_run:
  "bulk_one act u req t (n, ds) s =
     (Inr (n + (if succeeded (t, fst (bulk_step act u req t s)) then 1 else 0),
           ds @ [outcome_detail act (t, fst (bulk_step act u req t s))]), snd (bulk_step act u req t s))"
  by (cases "bulk_step act u req t s"; cases "fst (bulk_step act u req t s)")
    (simp_all add: bulk_one_def cmd_simps succeeded_def outcome_detail_def)

lemma bulk_loop:
  "for_each ts (bulk_one act u req) (n, ds) s =
     (Inr (n + length (filter succeeded (bulk_outcomes act u req ts s)),
           ds @ map (outcome_detail act) (bulk_outcomes act u req ts s)),
      fold (\<lambda>t s. snd (bulk_step act u req t s)) ts s)"
  by (induction ts arbitrary: n ds s) (simp_all add: cmd_simps bulk_one_run)

text \<open>
  A bulk update always returns.  It is the fold of the single steps over
  the tickets, so a failing ticket does not stop or undo the others; it counts
  exactly the steps that succeeded and reports one line per ticket, in order.
\<close>

theorem bulk_update_is_fold:
  "bulk_update_tickets ts act u req s =
     (Inr (length (filter succeeded (bulk_outcomes act u req ts s)),
           map (outcome_detail act) (bulk_outcomes act u req ts s)),
      fold (\<lambda>t s. snd (bulk_step act u req t s)) ts s)"
  by (simp add: bulk_update_tickets_def bulk_loop)

section \<open>Extension of deadlines on escalation\<close>

lemma extension_bounds: "min_extension \<le> extension r p \<and> extension r p \<le> max min_extension p"
  by (auto simp: extension_def)

text \<open>
  On a tenant with business hours, escalating extends a pending deadline
  by business time between 15 minutes and the policy's duration, or 15 minutes
  where the policy is shorter; inside these bounds it adds half of the remaining time.  A deadline that has
  passed is moved to 15 business minutes from now.
\<close>

theorem escalation_extension:
  assumes cfg: "get_business_config zi t = Inr (Some cfg)" and valid: "valid_settings t"
    and wd: "0 \<le> wd" "wd < 7" "map_of (days cfg) wd \<noteq> None"
    and few: "card (set (holidays t)) < 52"
    and w: "windows_at_least cfg w" "0 < w"
    and policy: "max min_extension p \<le> 8759 * w"
    and zone: "\<forall>c. in_biz cfg (wall c - 1) \<longrightarrow> wall (astimezone (tz cfg) (to_utc (tz cfg) c)) = wall c"
  shows "\<exists>d x. extend_deadline zi t now (Some due) p = Inr d \<and>
    elapsed_business_minutes zi (max now due) d (SettingsArg t) = Inr x \<and>
    min_extension \<le> x \<and> x \<le> max min_extension p \<and>
    (due \<le> now \<longrightarrow> x = min_extension) \<and>
    (min_extension \<le> (due - now) div 2 \<and> (due - now) div 2 \<le> p \<longrightarrow> x = (due - now) div 2)"
proof (cases "due \<le> now")
  case True
  have min: "0 < min_extension" "min_extension \<le> 8759 * w"
    using policy by (auto simp: min_extension_def minute_us_def)
  from deadline_spends [OF cfg valid wd few w min zone, of now] True show ?thesis
    by (auto simp: extend_deadline_def max_def min_extension_def minute_us_def)
next
  case False
  have "0 < extension (due - now) p" "extension (due - now) p \<le> 8759 * w"
    using policy extension_bounds [of "due - now" p] by (auto simp: min_extension_def minute_us_def)
  from deadline_spends [OF cfg valid wd few w this zone, of due] False show ?thesis
    using extension_bounds [of "due - now" p]
    by (auto simp: extend_deadline_def Let_def extension_def)
qed

theorem escalation_extension_witness:
  "\<exists>d x. extend_deadline (\<lambda>_. None) desk 403200000000 (Some 403900000000) 7200000000 = Inr d \<and>
    elapsed_business_minutes (\<lambda>_. None) 403900000000 d (SettingsArg desk) = Inr x \<and> min_extension \<le> x"
proof -
  have w: "max min_extension 7200000000 \<le> 8759 * (28800000000 :: int)" "0 < (28800000000 :: int)"
    by (simp_all add: min_extension_def minute_us_def)
  have d: "(0 :: int) \<le> 0" "(0 :: int) < 7" "map_of (days desk_config) 0 \<noteq> None" "card (set (holidays desk)) < 52"
    by (simp_all add: desk_config_def desk_def)
  have z: "\<forall>c. in_biz desk_config (wall c - 1) \<longrightarrow> wall (astimezone (tz desk_config) (to_utc (tz desk_config) c)) = wall c"
    by (simp add: desk_zone)
  from escalation_extension [OF desk_config_resolved desk_valid d desk_windows w(2) w(1) z,
      of 403200000000 403900000000]
  show ?thesis by (elim exE conjE) (intro exI conjI, assumption, simp, assumption)
qed

section \<open>Deals closed through the pipeline\<close>

text \<open>
  A deal that is lost through the pipeline leaves the lifecycle invariant:
  its row gets the closed status, but the closing and resolution timestamps
  that the receiver stamps on the instance are not among the written columns.
\<close>

theorem lost_stage_leaves_no_timestamps:
  assumes run: "transition_pipeline_stage t stage actor why req s = (Inr t', s')" and fresh: "fresh t s"
    and lost: "is_lost stage" "\<not> is_won stage" "map_option stage_id (ticket_stage t) \<noteq> Some (stage_id stage)"
    and st: "first_status (\<lambda>x. status_tenant x = tenant_id (ticket_tenant t) \<and> status_slug x = ''closed'') s = Some st"
      "is_closed st"
    and alive: "status t = Some old" "status_id old \<noteq> status_id st" "lifecycle_ok t" "\<not> is_closed old"
  shows "\<exists>r. ticket_row (pk t) s' = Some r \<and> status r = Some st \<and> closed_at r = None \<and> resolved_at r = None \<and>
    \<not> lifecycle_ok r"
proof -
  let ?uf = "[CStage, CUpdatedAt, CLostAt, CLostReason, CStatus, CStatusChangedAt, CStatusChangedBy]"
  obtain x s1 js s2 md where sv: "save_ticket (Some ?uf) (quietly x) s = (Inr t', s1)"
    and logs: "log_activity (ticket_tenant t) actor TicketCT (pk t') APipelineStageChanged js req s1 = (Inr (), s2)"
      "create_timeline_entry t' EPipelineStageChanged actor md s2 = (Inr (), s')"
    and x: "status x = Some st" "pk x = pk t" "number x = number t"
  proof -
    from run show thesis
      unfolding transition_pipeline_stage_def timezone_now_def Let_def atomic_returns if_not_P [OF lost(3)]
      apply (elim unwind)
      apply (simp add: draft_stage_change_def stage_status_change_def lost st alive)
      apply (elim unwind)
      apply clarify
      apply (rule that, assumption+)
        apply simp_all
      done
  qed
  obtain r where r: "ticket_row (pk t) s = Some r" "core r = core t" and num: "number t \<noteq> 0"
    using fresh by (auto simp: fresh_def)
  have n: "number (quietly x) \<noteq> 0" using num x by simp
  define y where "y = handle_ticket_status_change s (fill_company s (quietly x))"
  have "firm y = firm x" by (simp add: y_def)
  then have y: "status y = Some st" using firm_fields(1) [of y x] x by simp
  have "core_kept s1 s'"
    using obeysD [OF core_parts(1) logs(1)] obeysD [OF core_parts(2) logs(2)] by (rule core_law.step_trans)
  then have "map core (tickets s') = map core (tickets (write_ticket (pk t) ?uf y s))"
    using save_rows(2) [OF sv n] x by (simp add: core_kept_def y_def)
  then have "map_option core (ticket_row (pk t) s') = map_option core (ticket_row (pk t) (write_ticket (pk t) ?uf y s))"
    by (rule ticket_row_core)
  then obtain r' where r': "ticket_row (pk t) s' = Some r'" "core r' = core (write_columns ?uf y r)"
    using r by (auto simp: ticket_row_write)
  have "closed_at r = None" "resolved_at r = None"
    using alive core_fields [OF r(2)] by (auto simp: lifecycle_ok_def)
  then have "closed_at r' = None" "resolved_at r' = None" "status r' = Some st"
    using core_fields [OF r'(2)] y by (simp_all add: write_columns_lifecycle pick_def)
  with r'(1) st(2) show ?thesis by (auto simp: lifecycle_ok_def)
qed

definition lost_stage :: pipeline_stage where
  "lost_stage = \<lparr>stage_id = 3, stage_pipeline = 1, stage_pipeline_name = ''Sales'', stage_name = ''Lost'',
     is_won = False, is_lost = True\<rparr>"

theorem lost_stage_leaves_no_timestamps_witness:
  "\<exists>r. ticket_row 10 (snd (transition_pipeline_stage demo_ticket lost_stage None [] None demo_store)) = Some r \<and>
     status r = Some st_closed \<and> closed_at r = None"
proof -
  let ?run = "transition_pipeline_stage demo_ticket lost_stage None [] None demo_store"
  have "\<not> isl (fst ?run)" by code_simp
  then obtain t' s' where run: "?run = (Inr t', s')" by (cases ?run; cases "fst ?run") auto
  have t: "status demo_ticket = Some st_open" "pk demo_ticket = 10" "ticket_stage demo_ticket = None"
      "lifecycle_ok demo_ticket"
    by (simp_all add: demo_ticket_def new_ticket_def lifecycle_ok_def st_open_def demo_status_def)
  have st: "first_status (\<lambda>x. status_tenant x = tenant_id (ticket_tenant demo_ticket) \<and> status_slug x = ''closed'') demo_store
      = Some st_closed"
    by code_simp
  have "is_lost lost_stage" "\<not> is_won lost_stage" "map_option stage_id (ticket_stage demo_ticket) \<noteq> Some (stage_id lost_stage)"
      "is_closed st_closed" "status_id st_open \<noteq> status_id st_closed" "\<not> is_closed st_open"
    by (simp_all add: lost_stage_def t st_closed_def st_open_def demo_status_def)
  from lost_stage_leaves_no_timestamps [OF run demo_fresh this(1-3) st this(4) t(1) this(5) t(4) this(6)]
  show ?thesis using run t(2) by auto
qed

text \<open>
  The status change of an assignment is logged by taking its message apart
  again, which cuts a status name that contains the separator.
\<close>

lemma logged_status_truncated:
  "old_status_of_message (status_change_message ''Back to vendor'' ''In Progress'') = ''Back''"
  by code_simp

end
