(* ===== verification/Kanban_Board.thy ===== *)
theory Kanban_Board
  imports Ticket_Lifecycle "HOL-Library.List_Lexorder" "HOL-Library.Char_ord" "HOL-Library.Product_Lexorder"
begin

text \<open>
  Boards, columns and cards (\<open>apps/kanban/services.py\<close>): building a board from
  the statuses, keeping it in step with them, filling it with tickets and
  moving a card.  A queryset without an explicit order yields rows in the order
  of the table; names are compared by code points.
\<close>

section \<open>Building a board\<close>

definition tenant_statuses :: "store \<Rightarrow> tenant_id \<Rightarrow> (ticket_status \<Rightarrow> bool) \<Rightarrow> ticket_status list" where
  "tenant_statuses s ten p = sort_key (\<lambda>st. (status_order st, status_name st))
     (filter (\<lambda>st. status_tenant st = ten \<and> p st) (scoped s status_tenant (statuses s)))"

definition save_column :: "tenant_id \<Rightarrow> nat \<Rightarrow> string \<Rightarrow> nat \<Rightarrow> nat option \<Rightarrow> unit op" where
  "save_column ten b name ord st = bindc new_pk (\<lambda>i. update (\<lambda>s. s\<lparr>columns := columns s @
     [\<lparr>column_id = i, column_tenant = ten, column_board = b, column_name = name, column_order = ord,
       column_status = st, wip_limit = None\<rparr>]\<rparr>))"

definition default_columns :: "string list" where
  "default_columns = [''Backlog'', ''To Do'', ''In Progress'', ''Review'', ''Done'']"

definition create_default_board :: "tenant \<Rightarrow> board op" where
  "create_default_board tnt = atomic (
     bindc new_pk (\<lambda>i.
       let b = \<lparr>board_id = i, board_tenant = tenant_id tnt, board_resource = TicketBoard, board_default = True,
                is_personal = False\<rparr>
       in thenc (update (\<lambda>s. s\<lparr>boards := boards s @ [b]\<rparr>))
         (bindc (asks (\<lambda>s. tenant_statuses s (tenant_id tnt) (\<lambda>_. True))) (\<lambda>sts.
            bindc (if sts \<noteq> []
              then for_each (enumerate 0 sts)
                (\<lambda>(idx, st) _. save_column (tenant_id tnt) i (status_name st) idx (Some (status_id st))) ()
              else for_each (enumerate 0 default_columns)
                (\<lambda>(idx, name) _. save_column (tenant_id tnt) i name idx None) ()) (\<lambda>_.
            ret b)))))"

section \<open>Synchronising a board with the statuses\<close>

definition board_columns :: "store \<Rightarrow> nat \<Rightarrow> column list" where
  "board_columns s b = sort_key column_order
     (filter (\<lambda>k. column_board k = b) (scoped s column_tenant (columns s)))"

definition unlink_column :: "nat \<Rightarrow> unit op" where
  "unlink_column i = update (\<lambda>s. s\<lparr>columns := map (\<lambda>k. if column_id k = i then k\<lparr>column_status := None\<rparr> else k)
     (columns s)\<rparr>)"

text \<open>The loop over the existing columns: the statuses already mapped and the number of columns unlinked.\<close>

definition scan_column :: "nat set \<Rightarrow> column \<Rightarrow> nat set \<times> nat \<Rightarrow> (nat set \<times> nat) op" where
  "scan_column current k = (\<lambda>(mapped, unlinked).
     case column_status k of
       None \<Rightarrow> ret (mapped, unlinked)
     | Some st \<Rightarrow> if st \<in> current then ret (insert st mapped, unlinked)
         else thenc (unlink_column (column_id k)) (ret (mapped, unlinked + 1)))"

definition add_status_column :: "board \<Rightarrow> ticket_status \<Rightarrow> nat \<times> nat \<Rightarrow> (nat \<times> nat) op" where
  "add_status_column b st = (\<lambda>(next_order, added).
     thenc (save_column (board_tenant b) (board_id b) (status_name st) next_order (Some (status_id st)))
       (ret (next_order + 1, added + 1)))"

definition sync_board_with_statuses :: "board \<Rightarrow> (nat \<times> nat) op" where
  "sync_board_with_statuses b =
     (if board_resource b \<noteq> TicketBoard then ret (0, 0)
      else atomic (
        bindc (asks (\<lambda>s. set (map status_id (tenant_statuses s (board_tenant b) (\<lambda>_. True))))) (\<lambda>current.
        bindc (asks (\<lambda>s. board_columns s (board_id b))) (\<lambda>existing.
        bindc (for_each existing (scan_column current) ({}, 0)) (\<lambda>(mapped, unlinked).
        bindc (asks (\<lambda>s. case board_columns s (board_id b) of
                 [] \<Rightarrow> 0 | ks \<Rightarrow> Max (set (map column_order ks)) + 1)) (\<lambda>next_order.
        bindc (asks (\<lambda>s. sort_key (\<lambda>st. (status_order st, status_name st))
                 (filter (\<lambda>st. status_id st \<in> current - mapped) (scoped s status_tenant (statuses s))))) (\<lambda>missing.
        bindc (for_each missing (add_status_column b) (next_order, 0)) (\<lambda>(_, added).
          ret (added, unlinked)))))))))"

section \<open>Filling a board\<close>

definition insert_card :: "nat \<Rightarrow> nat \<Rightarrow> nat \<Rightarrow> unit op" where
  "insert_card col ticket_pk ord = bindc (asks current_tenant) (\<lambda>ctx. case ctx of
       None \<Rightarrow> raise_exc (ValueError ''Cannot save CardPosition without a tenant context.'')
     | Some ten \<Rightarrow> bindc new_pk (\<lambda>i. update (\<lambda>s. s\<lparr>cards := cards s @
         [\<lparr>card_id = i, card_tenant = ten, card_column = col, card_type = TicketCT, card_object = ticket_pk,
           card_order = int ord\<rparr>]\<rparr>)))"

text \<open>The tickets with a card on the board; the subquery is evaluated again for each column.\<close>

definition has_card_on :: "store \<Rightarrow> nat \<Rightarrow> nat \<Rightarrow> bool" where
  "has_card_on s b i \<longleftrightarrow> (\<exists>c \<in> set (scoped s card_tenant (cards s)). card_type c = TicketCT \<and> card_object c = i \<and>
     (\<exists>k \<in> set (columns s). column_id k = card_column c \<and> column_board k = b))"

definition fill_column :: "board \<Rightarrow> column \<Rightarrow> nat \<Rightarrow> nat op" where
  "fill_column b k created =
     bindc (asks (\<lambda>s. filter (\<lambda>t. tenant_id (ticket_tenant t) = board_tenant b \<and> \<not> is_deleted t \<and>
         map_option status_id (status t) = column_status k \<and> \<not> has_card_on s (board_id b) (pk t))
       (scoped s (\<lambda>t. tenant_id (ticket_tenant t)) (tickets s)))) (\<lambda>ts.
     bindc (asks (\<lambda>s. length (column_cards s (column_id k)))) (\<lambda>existing_order.
     for_each (enumerate existing_order ts)
       (\<lambda>(ord, t) n. thenc (insert_card (column_id k) (pk t) ord) (ret (n + 1))) created))"

definition populate_board_from_tickets :: "board \<Rightarrow> nat op" where
  "populate_board_from_tickets b = atomic (
     bindc (asks (\<lambda>s. filter (\<lambda>k. column_status k \<noteq> None) (board_columns s (board_id b)))) (\<lambda>ks.
     for_each ks (fill_column b) 0))"

section \<open>Moving a card\<close>

text \<open>\<open>column.cards.filter(...).update(order=F("order") + d)\<close>\<close>

definition shift_cards :: "nat \<Rightarrow> (int \<Rightarrow> bool) \<Rightarrow> int \<Rightarrow> unit op" where
  "shift_cards col p d = update (\<lambda>s. s\<lparr>cards := map (\<lambda>c.
     if current_tenant s = Some (card_tenant c) \<and> card_column c = col \<and> p (card_order c)
     then c\<lparr>card_order := card_order c + d\<rparr> else c) (cards s)\<rparr>)"

definition save_card_order :: "card \<Rightarrow> unit op" where
  "save_card_order c = update (\<lambda>s. s\<lparr>cards := map (\<lambda>r. if card_id r = card_id c
     then r\<lparr>card_order := card_order c\<rparr> else r) (cards s)\<rparr>)"

definition reorder_within_column :: "card \<Rightarrow> int \<Rightarrow> unit op" where
  "reorder_within_column c new_position =
     (if card_order c = new_position then ret ()
      else thenc (if new_position < card_order c
          then shift_cards (card_column c) (\<lambda>ord. new_position \<le> ord \<and> ord < card_order c) 1
          else shift_cards (card_column c) (\<lambda>ord. card_order c < ord \<and> ord \<le> new_position) (-1))
        (save_card_order (c\<lparr>card_order := new_position\<rparr>)))"

definition move_across_columns :: "card \<Rightarrow> nat \<Rightarrow> nat \<Rightarrow> int \<Rightarrow> unit op" where
  "move_across_columns c source target position =
     thenc (shift_cards source (\<lambda>ord. card_order c < ord) (-1))
     (thenc (shift_cards target (\<lambda>ord. position \<le> ord) 1)
       (save_card (c\<lparr>card_column := target, card_order := position\<rparr>)))"

text \<open>The write-back of the ticket's status, on boards that are not personal.\<close>

definition sync_moved_ticket :: "card \<Rightarrow> column \<Rightarrow> user option \<Rightarrow> request option \<Rightarrow> unit op" where
  "sync_moved_ticket c target actor request = (case column_status target of
     None \<Rightarrow> ret ()
   | Some sid \<Rightarrow>
       bindc (get_or_raise ''Board'' (\<lambda>s. first_row (\<lambda>b. board_id b = column_board target) (boards s))) (\<lambda>b.
       if is_personal b \<or> card_type c \<noteq> TicketCT then ret ()
       else bindc (asks (ticket_row (card_object c))) (\<lambda>row. case row of
           None \<Rightarrow> ret ()
         | Some t \<Rightarrow>
             if map_option status_id (status t) = Some sid then ret ()
             else bindc (get_or_raise ''TicketStatus'' (\<lambda>s. first_row (\<lambda>x. status_id x = sid) (statuses s))) (\<lambda>st.
               bindc (change_ticket_status t st actor request) (\<lambda>_. ret ())))))"

definition full_column :: "column \<Rightarrow> pyexc" where
  "full_column k = ValueError (''Column '' @ quoted (column_name k) @ '' has reached its WIP limit of ''
     @ (case wip_limit k of Some n \<Rightarrow> show_nat n | None \<Rightarrow> []) @ ''.'')"

definition move_card :: "card \<Rightarrow> column \<Rightarrow> int \<Rightarrow> user option \<Rightarrow> request option \<Rightarrow> card op" where
  "move_card c target position actor request =
     (let same = (card_column c = column_id target); limit = (case wip_limit target of Some n \<Rightarrow> n | None \<Rightarrow> 0)
      in thenc (atomic (
           bindc (asks (\<lambda>s. length (column_cards s (column_id target)))) (\<lambda>current_count.
             if \<not> same \<and> limit \<noteq> 0 \<and> limit \<le> current_count then raise_exc (full_column target)
             else if same then reorder_within_column c position
             else move_across_columns c (card_column c) (column_id target) position)))
         (bindc (get_or_raise ''CardPosition'' (\<lambda>s. first_row (\<lambda>r. card_id r = card_id c) (cards s))) (\<lambda>c'.
          thenc (sync_moved_ticket c' target actor request) (ret c'))))"

end
