(* ===== verification/Kanban_Laws.thy ===== *)
theory Kanban_Laws
  imports Kanban_Board
begin

text \<open>
  Moving a card refines the move of an element between lists: a column whose
  order values are \<open>0, ..., n - 1\<close> represents the list of its cards, and
  \<open>move_card\<close> takes the card out of one list and inserts it into the other at
  the requested position, which keeps the order values contiguous.
\<close>

section \<open>Lists of cards\<close>

definition take_out :: "nat \<Rightarrow> 'a list \<Rightarrow> 'a list" where
  "take_out k xs = take k xs @ drop (Suc k) xs"

definition insert_at :: "nat \<Rightarrow> 'a \<Rightarrow> 'a list \<Rightarrow> 'a list" where
  "insert_at p x xs = take p xs @ x # drop p xs"

lemma length_take_out [simp]: "k < length xs \<Longrightarrow> length (take_out k xs) = length xs - 1"
  by (simp add: take_out_def)

lemma length_insert_at [simp]: "length (insert_at p x xs) = Suc (length xs)"
  by (simp add: insert_at_def)

lemma nth_take_out: "k < length xs \<Longrightarrow> n < length xs - 1 \<Longrightarrow> take_out k xs ! n = xs ! (if n < k then n else Suc n)"
  by (auto simp: take_out_def nth_append min_def)

lemma nth_insert_at: "p \<le> length xs \<Longrightarrow> n \<le> length xs \<Longrightarrow>
    insert_at p x xs ! n = (if n < p then xs ! n else if n = p then x else xs ! (n - 1))"
  by (auto simp: insert_at_def nth_append nth_Cons' min_def)

text \<open>The slots of a list: its elements with their positions.\<close>

definition slots :: "'a list \<Rightarrow> ('a \<times> int) set" where
  "slots xs = (\<lambda>n. (xs ! n, int n)) ` {..<length xs}"

lemma slots_iff: "(x, i) \<in> slots xs \<longleftrightarrow> (\<exists>n < length xs. x = xs ! n \<and> i = int n)"
  by (auto simp: slots_def)

lemma slots_int [simp]: "(x, int n) \<in> slots xs \<longleftrightarrow> n < length xs \<and> xs ! n = x"
  by (auto simp: slots_iff)

lemma slots_neg [simp]: "j < 0 \<Longrightarrow> (x, j) \<notin> slots xs"
  by (auto simp: slots_iff)

lemma slots_take_out:
  assumes "distinct xs" and "k < length xs"
  shows "(y, j) \<in> slots (take_out k xs) \<longleftrightarrow>
     y \<noteq> xs ! k \<and> ((y, j) \<in> slots xs \<and> j < int k \<or> (y, j + 1) \<in> slots xs \<and> int k \<le> j)"
proof (cases "0 \<le> j")
  case True
  then obtain n where j: "j = int n" using nonneg_int_cases by blast
  have suc: "(y, int n + 1) \<in> slots xs \<longleftrightarrow> Suc n < length xs \<and> xs ! Suc n = y"
    using slots_int [of y "Suc n" xs] by (simp add: add.commute)
  have "n < length xs - 1 \<longleftrightarrow> Suc n < length xs" by auto
  with assms show ?thesis
    by (cases "n < k") (auto simp: j suc nth_take_out nth_eq_iff_index_eq)
qed (use assms in auto)

lemma slots_insert_at:
  assumes "p \<le> length xs"
  shows "(y, j) \<in> slots (insert_at p x xs) \<longleftrightarrow>
     y = x \<and> j = int p \<or> (y, j) \<in> slots xs \<and> j < int p \<or> (y, j - 1) \<in> slots xs \<and> int p < j"
proof (cases "0 \<le> j")
  case True
  then obtain n where j: "j = int n" using nonneg_int_cases by blast
  have pre: "int p < int n \<Longrightarrow> (y, int n - 1) \<in> slots xs \<longleftrightarrow> n - 1 < length xs \<and> xs ! (n - 1) = y"
    using slots_int [of y "n - 1" xs] by (simp add: of_nat_diff)
  consider "n < p" | "n = p" | "p < n" by linarith
  then show ?thesis
    using assms by cases (auto simp: j pre nth_insert_at)
qed (use assms in auto)

lemma slots_distinct: "distinct xs \<Longrightarrow> (y, i) \<in> slots xs \<Longrightarrow> (y, j) \<in> slots xs \<Longrightarrow> i = j"
  by (auto simp: slots_iff nth_eq_iff_index_eq)

lemma distinct_take_out:
  assumes "distinct xs" and "k < length xs"
  shows "distinct (take_out k xs) \<and> set (take_out k xs) = set xs - {xs ! k}"
proof -
  have eq: "take k xs @ xs ! k # drop (Suc k) xs = xs" using id_take_nth_drop [OF assms(2)] by simp
  then have "distinct (take k xs @ xs ! k # drop (Suc k) xs)" using assms(1) by simp
  moreover have "set xs = set (take k xs @ xs ! k # drop (Suc k) xs)" by (simp only: eq)
  ultimately show ?thesis by (auto simp: take_out_def)
qed

lemma insert_take_out: "k < length xs \<Longrightarrow> insert_at k (xs ! k) (take_out k xs) = xs"
  by (simp add: insert_at_def take_out_def id_take_nth_drop [symmetric] min_def)

lemma distinct_insert_at: "distinct xs \<Longrightarrow> x \<notin> set xs \<Longrightarrow> distinct (insert_at p x xs)"
  by (auto simp: insert_at_def dest: in_set_takeD in_set_dropD set_take_disj_set_drop_if_distinct)

section \<open>Columns as lists\<close>

definition cells :: "card list \<Rightarrow> nat \<Rightarrow> (nat \<times> int) set" where
  "cells cs col = (\<lambda>c. (card_id c, card_order c)) ` {c \<in> set cs. card_column c = col}"

text \<open>The column shows the list: its order values are exactly the positions.\<close>

definition represents :: "store \<Rightarrow> nat \<Rightarrow> nat list \<Rightarrow> bool" where
  "represents s col xs \<longleftrightarrow> distinct xs \<and> cells (cards s) col = slots xs"

definition own_cards :: "store \<Rightarrow> bool" where
  "own_cards s \<longleftrightarrow> distinct (map card_id (cards s)) \<and>
     (\<forall>c \<in> set (cards s). current_tenant s = Some (card_tenant c))"

lemma cells_iff: "(i, j) \<in> cells cs col \<longleftrightarrow> (\<exists>c \<in> set cs. card_id c = i \<and> card_order c = j \<and> card_column c = col)"
  by (auto simp: cells_def)

lemma cells_simps:
  "cells [] col = {}"
  "cells (c # cs) col = (if card_column c = col then {(card_id c, card_order c)} else {}) \<union> cells cs col"
  by (auto simp: cells_def)

definition shifted :: "nat \<Rightarrow> (int \<Rightarrow> bool) \<Rightarrow> int \<Rightarrow> card \<Rightarrow> card" where
  "shifted col p d c = (if card_column c = col \<and> p (card_order c) then c\<lparr>card_order := card_order c + d\<rparr> else c)"

definition placed :: "nat \<Rightarrow> nat \<Rightarrow> int \<Rightarrow> card \<Rightarrow> card" where
  "placed i col q c = (if card_id c = i then c\<lparr>card_column := col, card_order := q\<rparr> else c)"

definition reordered :: "nat \<Rightarrow> int \<Rightarrow> card \<Rightarrow> card" where
  "reordered i q c = (if card_id c = i then c\<lparr>card_order := q\<rparr> else c)"

lemma shift_cards_run:
  "own_cards s \<Longrightarrow> shift_cards col p d s = (Inr (), s\<lparr>cards := map (shifted col p d) (cards s)\<rparr>)"
  by (auto simp: shift_cards_def cmd_simps own_cards_def shifted_def intro!: store.equality)

lemma own_shifted: "own_cards s \<Longrightarrow> own_cards (s\<lparr>cards := map (shifted col p d) (cards s)\<rparr>)"
proof -
  have "card_id (shifted col p d c) = card_id c" "card_tenant (shifted col p d c) = card_tenant c" for c
    by (simp_all add: shifted_def)
  then show "own_cards s \<Longrightarrow> own_cards (s\<lparr>cards := map (shifted col p d) (cards s)\<rparr>)"
    by (simp add: own_cards_def comp_def)
qed

lemma save_card_run:
  "save_card c s = (Inr (), s\<lparr>cards := map (placed (card_id c) (card_column c) (card_order c)) (cards s)\<rparr>)"
  "save_card_order c s = (Inr (), s\<lparr>cards := map (reordered (card_id c) (card_order c)) (cards s)\<rparr>)"
  by (simp_all add: save_card_def save_card_order_def cmd_simps placed_def [abs_def] reordered_def [abs_def])

lemma cells_shifted:
  "(i, j) \<in> cells (map (shifted col p d) cs) k \<longleftrightarrow>
   (\<exists>o'. (i, o') \<in> cells cs k \<and> j = (if k = col \<and> p o' then o' + d else o'))"
  by (induction cs) (auto simp: cells_simps shifted_def)

lemma cells_placed:
  "(i, j) \<in> cells (map (placed x t q) cs) k \<longleftrightarrow>
   i \<noteq> x \<and> (i, j) \<in> cells cs k \<or> i = x \<and> k = t \<and> j = q \<and> x \<in> card_id ` set cs"
  by (induction cs) (auto simp: cells_simps placed_def)

lemma cells_reordered:
  "(i, j) \<in> cells (map (reordered x q) cs) k \<longleftrightarrow>
   i \<noteq> x \<and> (i, j) \<in> cells cs k \<or> i = x \<and> j = q \<and> (\<exists>o'. (x, o') \<in> cells cs k)"
  by (induction cs) (auto simp: cells_simps reordered_def)

lemma shift_preimage:
  "(\<exists>o'. P o' \<and> j = (if z \<and> Q o' then o' + d else o')) \<longleftrightarrow> (P j \<and> \<not> (z \<and> Q j)) \<or> (P (j - d) \<and> z \<and> Q (j - d))"
  for j d :: int
  by auto

text \<open>A card has one row, in one column.\<close>

lemma cells_column:
  assumes "own_cards s" and "(i, j) \<in> cells (cards s) k" and "(i, j') \<in> cells (cards s) k'"
  shows "k = k' \<and> j = j'"
proof -
  obtain c c' where "c \<in> set (cards s)" "c' \<in> set (cards s)" "card_id c = card_id c'"
      "card_column c = k" "card_column c' = k'" "card_order c = j" "card_order c' = j'"
    using assms(2,3) by (auto simp: cells_iff)
  moreover from this assms(1) have "c = c'"
    by (auto simp: own_cards_def distinct_map dest: inj_onD)
  ultimately show ?thesis by simp
qed

section \<open>The moves\<close>

lemma reorder_positions:
  fixes j k p :: int
  assumes "A \<Longrightarrow> j \<noteq> k" "B \<Longrightarrow> j - 1 \<noteq> k" "C \<Longrightarrow> j + 1 \<noteq> k" "p \<noteq> k"
  shows "p < k \<Longrightarrow> A \<and> \<not> (p \<le> j \<and> j < k) \<or> B \<and> p \<le> j - 1 \<and> j - 1 < k \<longleftrightarrow>
      (A \<and> j < k \<or> C \<and> k \<le> j) \<and> j < p \<or> (B \<and> j - 1 < k \<or> A \<and> k \<le> j - 1) \<and> p < j"
    and "\<not> p < k \<Longrightarrow> A \<and> \<not> (k < j \<and> j \<le> p) \<or> C \<and> k < j + 1 \<and> j + 1 \<le> p \<longleftrightarrow>
      (A \<and> j < k \<or> C \<and> k \<le> j) \<and> j < p \<or> (B \<and> j - 1 < k \<or> A \<and> k \<le> j - 1) \<and> p < j"
  using assms by (cases A; cases B; cases C; auto)+

lemma reorder_represents:
  assumes ok: "own_cards s" and rep: "represents s (card_column c) xs"
    and c: "k < length xs" "xs ! k = card_id c" "card_order c = int k" and p: "p < length xs"
  obtains s' where "reorder_within_column c (int p) s = (Inr (), s')"
    "represents s' (card_column c) (insert_at p (card_id c) (take_out k xs))"
    "\<And>z. z \<noteq> card_column c \<Longrightarrow> cells (cards s') z = cells (cards s) z" "s' = s\<lparr>cards := cards s'\<rparr>"
proof -
  have dist: "distinct xs" and cells: "cells (cards s) (card_column c) = slots xs"
    using rep by (auto simp: represents_def)
  have at_k: "(y, int k) \<in> slots xs \<Longrightarrow> y = card_id c" for y using c by auto
  have card_k: "(card_id c, j) \<in> slots xs \<Longrightarrow> j = int k" for j
    using slots_distinct [OF dist, of "card_id c" j "int k"] c by auto
  define q where "q = (\<lambda>ord. if p < k then int p \<le> ord \<and> ord < int k else int k < ord \<and> ord \<le> int p)"
  define d :: int where "d = (if p < k then 1 else -1)"
  define ds where "ds = map (reordered (card_id c) (int p)) (map (shifted (card_column c) q d) (cards s))"
  have new: "(y, j) \<in> cells ds z \<longleftrightarrow>
      y \<noteq> card_id c \<and> (\<exists>o'. (y, o') \<in> cells (cards s) z \<and> j = (if z = card_column c \<and> q o' then o' + d else o')) \<or>
      y = card_id c \<and> j = int p \<and> (\<exists>o'. (card_id c, o') \<in> cells (cards s) z)" for y j z
    unfolding ds_def cells_reordered cells_shifted by blast
  have moved: "cells ds (card_column c) = slots (insert_at p (card_id c) (take_out k xs))" if "p \<noteq> k"
  proof -
    have "(y, j) \<in> cells ds (card_column c) \<longleftrightarrow> (y, j) \<in> slots (insert_at p (card_id c) (take_out k xs))" for y j
    proof (cases "y = card_id c")
      case True
      moreover have "\<exists>o'. (card_id c, o') \<in> slots xs" using c by (intro exI [of _ "int k"]) simp
      ultimately show ?thesis using p c dist by (auto simp: new cells slots_insert_at slots_take_out)
    next
      case False
      then have "(y, int k) \<notin> slots xs" using at_k by blast
      then have ne: "(y, i) \<in> slots xs \<Longrightarrow> i \<noteq> int k" for i by blast
      have pk: "int p \<noteq> int k" "p \<le> length (take_out k xs)" using that p c by auto
      have "(y, j) \<in> cells ds (card_column c) \<longleftrightarrow>
          (y, j) \<in> slots xs \<and> \<not> q j \<or> (y, j - d) \<in> slots xs \<and> q (j - d)"
        unfolding new shift_preimage cells using False by simp
      moreover have "(y, j) \<in> slots (insert_at p (card_id c) (take_out k xs)) \<longleftrightarrow>
          ((y, j) \<in> slots xs \<and> j < int k \<or> (y, j + 1) \<in> slots xs \<and> int k \<le> j) \<and> j < int p \<or>
          ((y, j - 1) \<in> slots xs \<and> j - 1 < int k \<or> (y, j) \<in> slots xs \<and> int k \<le> j - 1) \<and> int p < j"
        using False c by (simp add: slots_insert_at [OF pk(2)] slots_take_out [OF dist c(1)])
      ultimately show ?thesis
        using reorder_positions [of "(y, j) \<in> slots xs" j "int k" "(y, j - 1) \<in> slots xs" "(y, j + 1) \<in> slots xs" "int p",
            OF ne ne ne pk(1)]
        by (cases "p < k") (simp_all add: q_def d_def)
    qed
    then show ?thesis by auto
  qed
  show thesis
  proof (cases "p = k")
    case True
    with c have "reorder_within_column c (int p) s = (Inr (), s)"
      by (simp add: reorder_within_column_def cmd_simps)
    then show thesis using that [of s] True rep insert_take_out [of k xs] c by simp
  next
    case False
    let ?s' = "s\<lparr>cards := ds\<rparr>"
    have run: "reorder_within_column c (int p) s = (Inr (), ?s')"
      using False c by (simp add: reorder_within_column_def cmd_simps shift_cards_run [OF ok] save_card_run ds_def q_def d_def not_less)
    have "represents ?s' (card_column c) (insert_at p (card_id c) (take_out k xs))"
      using moved [OF False] distinct_take_out [OF dist c(1)] c(2)
      by (simp add: represents_def distinct_insert_at)
    moreover have "cells ds z = cells (cards s) z" if z: "z \<noteq> card_column c" for z
    proof -
      have "(card_id c, int k) \<in> cells (cards s) (card_column c)" using c cells by simp
      then have "(card_id c, j) \<notin> cells (cards s) z" for j using cells_column [OF ok] z by blast
      then have "(y, j) \<in> cells ds z \<longleftrightarrow> (y, j) \<in> cells (cards s) z" for y j
        using z by (auto simp: new)
      then show ?thesis by auto
    qed
    ultimately show thesis using that [OF run] by simp
  qed
qed

lemma move_represents:
  assumes ok: "own_cards s" and src: "represents s (card_column c) xs" and tgt: "represents s col ys"
    and c: "k < length xs" "xs ! k = card_id c" "card_order c = int k"
    and other: "col \<noteq> card_column c" and p: "p \<le> length ys"
  obtains s' where "move_across_columns c (card_column c) col (int p) s = (Inr (), s')"
    "represents s' (card_column c) (take_out k xs)" "represents s' col (insert_at p (card_id c) ys)"
    "\<And>z. z \<noteq> card_column c \<Longrightarrow> z \<noteq> col \<Longrightarrow> cells (cards s') z = cells (cards s) z"
    "s' = s\<lparr>cards := cards s'\<rparr>"
proof -
  have dist: "distinct xs" "distinct ys"
    and cells: "cells (cards s) (card_column c) = slots xs" "cells (cards s) col = slots ys"
    using src tgt by (auto simp: represents_def)
  have at_k: "(y, int k) \<in> slots xs \<Longrightarrow> y = card_id c" for y using c by auto
  have in_src: "(card_id c, int k) \<in> cells (cards s) (card_column c)" using c cells by simp
  then have nowhere: "(card_id c, j) \<notin> cells (cards s) z" if "z \<noteq> card_column c" for j z
    using cells_column [OF ok] that by blast
  have row: "card_id c \<in> card_id ` set (cards s)" using in_src unfolding cells_iff by (metis image_eqI)
  define s1 where "s1 = s\<lparr>cards := map (shifted (card_column c) (\<lambda>ord. card_order c < ord) (-1)) (cards s)\<rparr>"
  have ok1: "own_cards s1" unfolding s1_def by (rule own_shifted [OF ok])
  define ds where "ds = map (placed (card_id c) col (int p)) (map (shifted col (\<lambda>ord. int p \<le> ord) 1) (cards s1))"
  have "card_id (shifted k' q d x) = card_id x" for k' q d x by (simp add: shifted_def)
  then have row1: "card_id c \<in> card_id ` set (map (shifted col (\<lambda>ord. int p \<le> ord) 1) (cards s1))"
    using row by (auto simp: s1_def image_image)
  have run: "move_across_columns c (card_column c) col (int p) s = (Inr (), s\<lparr>cards := ds\<rparr>)"
    using shift_cards_run [OF ok1, of col "\<lambda>ord. int p \<le> ord" 1]
    by (simp add: move_across_columns_def then_returns shift_cards_run [OF ok, folded s1_def] save_card_run ds_def)
      (simp add: s1_def)
  have cells1: "(y, j) \<in> cells (cards s1) z \<longleftrightarrow> (\<exists>o'. (y, o') \<in> cells (cards s) z \<and>
      j = (if z = card_column c \<and> int k < o' then o' + (-1) else o'))" for y j z
    using c(3) by (simp add: s1_def cells_shifted)
  have new: "(y, j) \<in> cells ds z \<longleftrightarrow>
      y \<noteq> card_id c \<and> (\<exists>o'. (y, o') \<in> cells (cards s1) z \<and> j = (if z = col \<and> int p \<le> o' then o' + 1 else o')) \<or>
      y = card_id c \<and> z = col \<and> j = int p" for y j z
    unfolding ds_def cells_placed cells_shifted using row1 by blast
  have src1: "(y, j) \<in> cells (cards s1) (card_column c) \<longleftrightarrow>
      (y, j) \<in> slots xs \<and> \<not> int k < j \<or> (y, j + 1) \<in> slots xs \<and> int k < j + 1" for y j
    unfolding cells1 shift_preimage cells by simp
  have tgt1: "(y, j) \<in> cells (cards s1) col \<longleftrightarrow> (y, j) \<in> slots ys" for y j
    unfolding cells1 cells using other by simp
  have "(y, j) \<in> cells ds (card_column c) \<longleftrightarrow> (y, j) \<in> slots (take_out k xs)" for y j
  proof (cases "y = card_id c")
    case False
    then have "(y, j) \<in> slots xs \<Longrightarrow> j \<noteq> int k" using at_k by blast
    with False show ?thesis
      unfolding new src1 slots_take_out [OF dist(1) c(1)] c(2) using other by auto
  next
    case True
    then show ?thesis unfolding new slots_take_out [OF dist(1) c(1)] c(2) using other by simp
  qed
  then have left: "cells ds (card_column c) = slots (take_out k xs)" by auto
  have "(y, j) \<in> cells ds col \<longleftrightarrow> (y, j) \<in> slots (insert_at p (card_id c) ys)" for y j
  proof -
    have absent: "(card_id c, i) \<notin> slots ys" for i using nowhere [of col i] other cells by simp
    have "(y, j) \<in> cells ds col \<longleftrightarrow> y \<noteq> card_id c \<and> ((y, j) \<in> slots ys \<and> \<not> int p \<le> j \<or>
        (y, j - 1) \<in> slots ys \<and> int p \<le> j - 1) \<or> y = card_id c \<and> j = int p"
      unfolding new shift_preimage tgt1 by simp
    then show ?thesis
      unfolding slots_insert_at [OF p] using absent by auto
  qed
  then have right: "cells ds col = slots (insert_at p (card_id c) ys)" by auto
  have fresh: "card_id c \<notin> set ys"
  proof
    assume "card_id c \<in> set ys"
    then obtain i where "i < length ys" "ys ! i = card_id c" by (auto simp: in_set_conv_nth)
    then have "(card_id c, int i) \<in> cells (cards s) col" using cells by simp
    then show False using nowhere other by blast
  qed
  have rest: "cells ds z = cells (cards s) z" if "z \<noteq> card_column c" "z \<noteq> col" for z
  proof -
    have "(y, j) \<in> cells ds z \<longleftrightarrow> (y, j) \<in> cells (cards s) z" for y j
      using that nowhere by (auto simp: new cells1)
    then show ?thesis by auto
  qed
  show thesis
    using that [OF run] left right rest distinct_take_out [OF dist(1) c(1)] distinct_insert_at [OF dist(2) fresh]
    by (simp add: represents_def)
qed

section \<open>The contract of a move\<close>

text \<open>The write-back of the status does nothing: the column has no status or the board is personal.\<close>

definition independent_column :: "store \<Rightarrow> column \<Rightarrow> bool" where
  "independent_column s k \<longleftrightarrow> column_status k = None \<or>
     (\<exists>b. first_row (\<lambda>b. board_id b = column_board k) (boards s) = Some b \<and> is_personal b)"

lemma independent_sync:
  "independent_column s k \<Longrightarrow> sync_moved_ticket c k actor req s = (Inr (), s)"
  by (auto simp: independent_column_def sync_moved_ticket_def get_or_raise_def cmd_simps split: option.split)

definition has_room :: "store \<Rightarrow> column \<Rightarrow> bool" where
  "has_room s k \<longleftrightarrow> (case wip_limit k of None \<Rightarrow> True | Some n \<Rightarrow> n = 0 \<or> length (column_cards s (column_id k)) < n)"

definition source_row :: "store \<Rightarrow> card \<Rightarrow> nat list \<Rightarrow> nat \<Rightarrow> bool" where
  "source_row s c xs k \<longleftrightarrow> represents s (card_column c) xs \<and> k < length xs \<and> xs ! k = card_id c \<and> card_order c = int k"

lemma row_stays:
  assumes "(i, j) \<in> cells cs k"
  obtains r where "first_row (\<lambda>r. card_id r = i) cs = Some r"
proof -
  have "\<exists>r. first_row (\<lambda>r. card_id r = i) cs = Some r"
    using assms by (induction cs) (auto simp: cells_simps split: if_splits)
  then show thesis using that by blast
qed

lemma in_insert_at: "p \<le> length xs \<Longrightarrow> (x, int p) \<in> slots (insert_at p x xs)"
  by (simp add: nth_insert_at)

lemma move_card_moves:
  assumes own: "own_cards s" and row: "source_row s c xs k" and free: "independent_column s target"
    and ys: "if card_column c = column_id target then ys = take_out k xs else represents s (column_id target) ys"
    and room: "card_column c = column_id target \<or> has_room s target" and p: "p \<le> length ys"
  shows "\<exists>c' s'. move_card c target (int p) actor req s = (Inr c', s') \<and>
      represents s' (column_id target) (insert_at p (card_id c) ys) \<and>
      (card_column c \<noteq> column_id target \<longrightarrow> represents s' (card_column c) (take_out k xs)) \<and>
      (\<forall>z. z \<noteq> card_column c \<longrightarrow> z \<noteq> column_id target \<longrightarrow> cells (cards s') z = cells (cards s) z)"
proof -
  have c: "k < length xs" "xs ! k = card_id c" "card_order c = int k" and xs: "represents s (card_column c) xs"
    using row by (auto simp: source_row_def)
  obtain s' where
    step: "(if card_column c = column_id target then reorder_within_column c (int p)
        else move_across_columns c (card_column c) (column_id target) (int p)) s = (Inr (), s')"
    and tgt: "represents s' (column_id target) (insert_at p (card_id c) ys)"
    and src: "card_column c \<noteq> column_id target \<Longrightarrow> represents s' (card_column c) (take_out k xs)"
    and rest: "\<And>z. z \<noteq> card_column c \<Longrightarrow> z \<noteq> column_id target \<Longrightarrow> cells (cards s') z = cells (cards s) z"
    and frame: "s' = s\<lparr>cards := cards s'\<rparr>"
  proof (cases "card_column c = column_id target")
    case True
    have "p < length xs" using p ys True c(1) by simp
    from reorder_represents [OF own xs c this] obtain s' where
      "reorder_within_column c (int p) s = (Inr (), s')"
      "represents s' (card_column c) (insert_at p (card_id c) (take_out k xs))"
      "\<And>z. z \<noteq> card_column c \<Longrightarrow> cells (cards s') z = cells (cards s) z" "s' = s\<lparr>cards := cards s'\<rparr>" by metis
    then show thesis using that [of s'] True ys by simp
  next
    case False
    then have ys': "represents s (column_id target) ys" "column_id target \<noteq> card_column c" using ys by auto
    show thesis
      by (rule move_represents [OF own xs ys'(1) c ys'(2) p]) (use that False in auto)
  qed
  have "(card_id c, int p) \<in> cells (cards s') (column_id target)"
    using tgt in_insert_at [OF p] by (simp add: represents_def)
  then obtain c' where c': "first_row (\<lambda>r. card_id r = card_id c) (cards s') = Some c'" by (rule row_stays)
  have "independent_column s' target"
    using free arg_cong [OF frame, of boards] by (simp add: independent_column_def)
  then have "move_card c target (int p) actor req s = (Inr c', s')"
    using step room c' independent_sync [of s' target c' actor req]
    by (auto simp: move_card_def has_room_def Let_def then_returns bind_returns asks_returns get_or_raise_def
        cmd_simps split: option.splits)
  then show ?thesis using tgt src rest by blast
qed


section \<open>Work-in-progress limits\<close>

lemma represents_length:
  assumes "own_cards s" and "represents s col xs"
  shows "length (column_cards s col) = length xs"
proof -
  let ?cs = "filter (\<lambda>c. card_column c = col) (cards s)"
  have "column_cards s col = ?cs"
    using assms(1) by (cases "current_tenant s") (auto simp: column_cards_def scoped_def own_cards_def intro!: filter_cong)
  moreover have "distinct (map card_id ?cs)" using assms(1) by (simp add: own_cards_def distinct_map_filter)
  moreover have "set (map card_id ?cs) = fst ` cells (cards s) col" by (force simp: cells_def)
  moreover have "fst ` slots xs = set xs" by (force simp: slots_def in_set_conv_nth)
  ultimately have "length (column_cards s col) = card (set xs)"
    using assms(2) by (metis distinct_card length_map represents_def)
  with assms(2) show ?thesis by (simp add: represents_def distinct_card)
qed

text \<open>
  A column with a work-in-progress limit refuses a card from another column
  when it is full: the move raises \<open>ValueError\<close> and changes nothing.  A move
  that returns leaves at most the limit in the column.
\<close>

theorem wip_limit_respected:
  assumes own: "own_cards s" and row: "source_row s c xs k" and free: "independent_column s target"
    and ys: "represents s (column_id target) ys" and other: "card_column c \<noteq> column_id target"
    and limit: "wip_limit target = Some n" "0 < n" and p: "p \<le> length ys"
  shows "if n \<le> length ys then move_card c target (int p) actor req s = (Inl (full_column target), s)
    else \<exists>c' s' zs. move_card c target (int p) actor req s = (Inr c', s') \<and>
      represents s' (column_id target) zs \<and> length zs \<le> n"
proof (cases "n \<le> length ys")
  case True
  then have "n \<le> length (column_cards s (column_id target))" by (simp add: represents_length [OF own ys])
  then show ?thesis
    using True other limit by (simp add: move_card_def Let_def cmd_simps rollback_def)
next
  case False
  then have "has_room s target" using limit by (simp add: has_room_def represents_length [OF own ys])
  then obtain c' s' where "move_card c target (int p) actor req s = (Inr c', s')"
      "represents s' (column_id target) (insert_at p (card_id c) ys)"
    using move_card_moves [OF own row free, of ys p actor req] ys other p by auto
  then show ?thesis using False by fastforce
qed

section \<open>The sync with the ticket status leaves gaps\<close>

text \<open>
  When a status change moves a card that is not the last of its column,
  the column it leaves represents no list any more: the receiver does not
  close the gap, unlike \<open>move_card\<close>.
\<close>

theorem status_sync_leaves_gap:
  assumes own: "own_cards s" and row: "source_row s c xs k" and not_last: "Suc k < length xs"
    and source: "first_row (\<lambda>x. column_id x = card_column c) (columns s) = Some k0"
    and target: "board_column s (column_board k0) p = Some t" "column_id t \<noteq> card_column c"
  shows "\<exists>s'. move_to_matching_column p c () s = (Inr (), s') \<and> (\<forall>ys. \<not> represents s' (card_column c) ys)"
proof -
  let ?cs = "map (placed (card_id c) (column_id t) (int (length (column_cards s (column_id t))))) (cards s)"
  have c: "k < length xs" "xs ! k = card_id c" and xs: "distinct xs" "cells (cards s) (card_column c) = slots xs"
    using row by (auto simp: source_row_def represents_def)
  have run: "move_to_matching_column p c () s = (Inr (), s\<lparr>cards := ?cs\<rparr>)"
    using source target by (simp add: move_to_matching_column_def cmd_simps save_card_run)
  have left: "(y, j) \<in> cells ?cs (card_column c) \<longleftrightarrow> y \<noteq> card_id c \<and> (y, j) \<in> slots xs" for y j
    using target(2) by (auto simp: cells_placed xs(2))
  have "\<not> represents (s\<lparr>cards := ?cs\<rparr>) (card_column c) ys" for ys
  proof
    assume "represents (s\<lparr>cards := ?cs\<rparr>) (card_column c) ys"
    then have eq: "(y, j) \<in> slots ys \<longleftrightarrow> y \<noteq> card_id c \<and> (y, j) \<in> slots xs" for y j
      using left by (simp add: represents_def)
    have "xs ! Suc k \<noteq> card_id c" using c not_last nth_eq_iff_index_eq [OF xs(1), of "Suc k" k] by auto
    then have "(xs ! Suc k, int (Suc k)) \<in> slots ys" using not_last unfolding eq slots_int by simp
    then have "k < length ys" unfolding slots_int by simp
    then have "(ys ! k, int k) \<in> slots ys" by simp
    then show False using c unfolding eq slots_int by metis
  qed
  with run show ?thesis by blast
qed

section \<open>A small board\<close>

definition demo_card :: "nat \<Rightarrow> nat \<Rightarrow> int \<Rightarrow> card" where
  "demo_card i col ord = \<lparr>card_id = i, card_tenant = 1, card_column = col, card_type = TicketCT, card_object = i,
     card_order = ord\<rparr>"

definition demo_column :: "nat \<Rightarrow> nat \<Rightarrow> nat option \<Rightarrow> nat option \<Rightarrow> column" where
  "demo_column i ord st limit = \<lparr>column_id = i, column_tenant = 1, column_board = 1, column_name = ''col'',
     column_order = ord, column_status = st, wip_limit = limit\<rparr>"

definition board_store :: store where
  "board_store = demo_store\<lparr>columns := [demo_column 1 0 None None, demo_column 2 1 (Some 2) (Some 2)],
     cards := [demo_card 20 1 0, demo_card 21 1 1, demo_card 22 1 2, demo_card 23 2 0]\<rparr>"

lemma board_cards: "cards board_store = [demo_card 20 1 0, demo_card 21 1 1, demo_card 22 1 2, demo_card 23 2 0]"
  by (simp add: board_store_def)

lemma board_columns: "columns board_store = [demo_column 1 0 None None, demo_column 2 1 (Some 2) (Some 2)]"
  by (simp add: board_store_def)

lemma demo_card_fields [simp]:
  "card_id (demo_card i col ord) = i" "card_column (demo_card i col ord) = col"
  "card_order (demo_card i col ord) = ord" "card_tenant (demo_card i col ord) = 1"
  by (simp_all add: demo_card_def)

lemma board_own: "own_cards board_store"
  by (simp add: own_cards_def board_cards) (simp add: board_store_def demo_store_def)

lemma slots_Cons: "slots [a] = {(a, 0)}" "slots [a, b, c] = {(a, 0), (b, 1), (c, 2)}"
  by (auto simp: slots_def lessThan_Suc)

lemma board_lists: "represents board_store 1 [20, 21, 22]" "represents board_store 2 [23]"
  by (auto simp: represents_def board_cards cells_simps slots_Cons)

lemma board_source: "source_row board_store (demo_card 21 1 1) [20, 21, 22] 1"
  using board_lists by (simp add: source_row_def)

definition free_column :: column where
  "free_column = demo_column 2 1 None (Some 2)"


theorem wip_limit_respected_witness:
  "fst (move_card (demo_card 21 1 1) (demo_column 2 1 None (Some 1)) 0 None None board_store) =
     Inl (full_column (demo_column 2 1 None (Some 1)))"
proof -
  let ?k = "demo_column 2 1 None (Some 1)"
  have "independent_column board_store ?k" "column_id ?k = 2" "wip_limit ?k = Some 1"
    by (simp_all add: independent_column_def demo_column_def)
  then show ?thesis
    using wip_limit_respected [OF board_own board_source, of ?k "[23]" 1 0 None None] board_lists(2) by auto
qed

theorem status_sync_leaves_gap_witness:
  "\<exists>s'. move_to_matching_column (\<lambda>k. column_status k = Some 2) (demo_card 21 1 1) () board_store = (Inr (), s') \<and>
     (\<forall>ys. \<not> represents s' 1 ys)"
proof -
  have k: "first_row (\<lambda>x. column_id x = card_column (demo_card 21 1 1)) (columns board_store) = Some (demo_column 1 0 None None)"
    by (simp add: board_columns demo_column_def)
  have t: "board_column board_store (column_board (demo_column 1 0 None None)) (\<lambda>k. column_status k = Some 2)
      = Some (demo_column 2 1 (Some 2) (Some 2))"
    by code_simp
  have "column_id (demo_column 2 1 (Some 2) (Some 2)) \<noteq> card_column (demo_card 21 1 1)"
    by (simp add: demo_column_def)
  from status_sync_leaves_gap [OF board_own board_source _ k t this] show ?thesis by simp
qed

end
