(* ===== verification/Kanban_Columns.thy ===== *)
theory Kanban_Columns
  imports Kanban_Laws
begin

text \<open>
  The columns of a board against the statuses of its tenant: the default board
  has one column per status, and \<open>sync_board_with_statuses\<close> restores this
  correspondence and is idempotent.
\<close>

section \<open>Appending columns\<close>

lemma save_column_run:
  "save_column ten b name ord st s = (Inr (), s\<lparr>next_pk := next_pk s + 1, columns := columns s @
     [\<lparr>column_id = next_pk s, column_tenant = ten, column_board = b, column_name = name, column_order = ord,
       column_status = st, wip_limit = None\<rparr>]\<rparr>)"
  by (simp add: save_column_def new_pk_def cmd_simps)

definition appended :: "store \<Rightarrow> store \<Rightarrow> column list \<Rightarrow> bool" where
  "appended s s' ks \<longleftrightarrow> (\<exists>n. s' = s\<lparr>next_pk := n, columns := columns s @ ks\<rparr>)"

lemma appended_refl: "appended s s []"
  unfolding appended_def by (intro exI [of _ "next_pk s"]) simp

lemma appended_trans: "appended s t ks \<Longrightarrow> appended t u ls \<Longrightarrow> appended s u (ks @ ls)"
  by (auto simp: appended_def)

lemma appended_fields:
  assumes "appended s s' ks"
  shows "columns s' = columns s @ ks" "current_tenant s' = current_tenant s" "statuses s' = statuses s"
    "boards s' = boards s"
  using assms by (auto simp: appended_def)

lemma columns_loop:
  "\<exists>s' ks. for_each (enumerate n xs) (\<lambda>(idx, x) _. save_column ten b (nm x) idx (st x)) () s = (Inr (), s') \<and>
     appended s s' ks \<and> map column_order ks = [n..<n + length xs] \<and> map column_name ks = map nm xs \<and>
     map column_status ks = map st xs \<and> (\<forall>k \<in> set ks. column_board k = b)"
proof (induction xs arbitrary: n s)
  case Nil
  show ?case by (intro exI [of _ s] exI [of _ "[]"]) (simp add: cmd_simps appended_refl)
next
  case (Cons x xs)
  let ?k = "\<lparr>column_id = next_pk s, column_tenant = ten, column_board = b, column_name = nm x, column_order = n,
       column_status = st x, wip_limit = None\<rparr>"
  let ?s = "s\<lparr>next_pk := next_pk s + 1, columns := columns s @ [?k]\<rparr>"
  have first: "appended s ?s [?k]" by (auto simp: appended_def)
  obtain s' ks where rest: "for_each (enumerate (Suc n) xs) (\<lambda>(idx, x) _. save_column ten b (nm x) idx (st x)) () ?s = (Inr (), s')"
    "appended ?s s' ks" "map column_order ks = [Suc n..<Suc n + length xs]" "map column_name ks = map nm xs"
    "map column_status ks = map st xs" "\<forall>k \<in> set ks. column_board k = b"
    using Cons.IH [of "Suc n" ?s] by blast
  have "[n..<n + length (x # xs)] = n # [Suc n..<Suc n + length xs]" by (simp add: upt_conv_Cons del: upt_Suc)
  moreover have "for_each (enumerate n (x # xs)) (\<lambda>(idx, x) _. save_column ten b (nm x) idx (st x)) () s = (Inr (), s')"
    using rest(1) by (simp add: cmd_simps save_column_run)
  moreover have "appended s s' (?k # ks)" using appended_trans [OF first rest(2)] by simp
  ultimately show ?case
    using rest(3-6) by (intro exI [of _ s'] exI [of _ "?k # ks"] conjI) (simp_all del: upt_Suc)
qed

section \<open>The default board\<close>

text \<open>
  Creating the default board always succeeds.  It adds one board and, for
  a tenant with statuses, exactly one column per status in the order of the
  statuses; a tenant without statuses gets the five generic columns.  The
  order values of the new columns are \<open>0, 1, ...\<close> without gaps.
\<close>

theorem default_board_mirrors_statuses:
  "\<exists>b s' ks. create_default_board tnt s = (Inr b, s') \<and> boards s' = boards s @ [b] \<and> board_default b \<and>
     board_tenant b = tenant_id tnt \<and> columns s' = columns s @ ks \<and> map column_order ks = [0..<length ks] \<and>
     list_all (\<lambda>k. column_board k = board_id b) ks \<and>
     (let sts = tenant_statuses s (tenant_id tnt) (\<lambda>_. True)
      in if sts = [] then map column_name ks = default_columns
         else map column_status ks = map (\<lambda>st. Some (status_id st)) sts)"
proof -
  let ?b = "\<lparr>board_id = next_pk s, board_tenant = tenant_id tnt, board_resource = TicketBoard, board_default = True,
       is_personal = False\<rparr>"
  let ?s = "s\<lparr>next_pk := next_pk s + 1, boards := boards s @ [?b]\<rparr>"
  define sts where "sts = tenant_statuses s (tenant_id tnt) (\<lambda>_. True)"
  have sts: "tenant_statuses ?s (tenant_id tnt) (\<lambda>_. True) = sts" by (simp add: sts_def tenant_statuses_def scoped_def)
  obtain s1 ks where status: "for_each (enumerate 0 sts) (\<lambda>(idx, st) _. save_column (tenant_id tnt) (next_pk s) (status_name st) idx
        (Some (status_id st))) () ?s = (Inr (), s1)" "appended ?s s1 ks" "map column_order ks = [0..<0 + length sts]"
      "map column_status ks = map (\<lambda>st. Some (status_id st)) sts" "\<forall>k \<in> set ks. column_board k = next_pk s"
    using columns_loop [of 0 sts "tenant_id tnt" "next_pk s" status_name "\<lambda>st. Some (status_id st)" ?s] by blast
  obtain s2 ls where generic: "for_each (enumerate 0 default_columns) (\<lambda>(idx, name) _. save_column (tenant_id tnt) (next_pk s) name idx
        None) () ?s = (Inr (), s2)" "appended ?s s2 ls" "map column_order ls = [0..<0 + length default_columns]"
      "map column_name ls = map (\<lambda>x. x) default_columns" "\<forall>k \<in> set ls. column_board k = next_pk s"
    using columns_loop [of 0 default_columns "tenant_id tnt" "next_pk s" "\<lambda>x. x" "\<lambda>_. None" ?s] by blast
  show ?thesis
  proof (cases "sts = []")
    case True
    then have "create_default_board tnt s = (Inr ?b, s2)"
      using generic(1) sts by (simp add: create_default_board_def new_pk_def cmd_simps Let_def del: for_each.simps)
    moreover have "length ls = length default_columns" using generic(4) by (metis length_map)
    ultimately show ?thesis
      using generic appended_fields [OF generic(2)] True by (intro exI [of _ ?b] exI [of _ s2] exI [of _ ls]) (simp add: sts_def list_all_iff)
  next
    case False
    then have "create_default_board tnt s = (Inr ?b, s1)"
      using status(1) sts by (simp add: create_default_board_def new_pk_def cmd_simps Let_def del: for_each.simps)
    moreover have "length ks = length sts" using status(4) by (metis length_map)
    ultimately show ?thesis
      using status appended_fields [OF status(2)] False by (intro exI [of _ ?b] exI [of _ s1] exI [of _ ks]) (simp add: sts_def list_all_iff)
  qed
qed

section \<open>Synchronisation\<close>

definition stale :: "nat set \<Rightarrow> column \<Rightarrow> bool" where
  "stale current k \<longleftrightarrow> (case column_status k of None \<Rightarrow> False | Some st \<Rightarrow> st \<notin> current)"

definition unlink :: "nat set \<Rightarrow> column \<Rightarrow> column" where
  "unlink ids k = (if column_id k \<in> ids then k\<lparr>column_status := None\<rparr> else k)"

lemma unlink_column_run: "unlink_column i s = (Inr (), s\<lparr>columns := map (unlink {i}) (columns s)\<rparr>)"
  by (simp add: unlink_column_def cmd_simps unlink_def [abs_def])

lemma scan_column_run:
  "scan_column current k (m, u) s =
     (Inr (m \<union> {st \<in> current. column_status k = Some st}, if stale current k then u + 1 else u),
      if stale current k then s\<lparr>columns := map (unlink {column_id k}) (columns s)\<rparr> else s)"
  by (cases "column_status k") (auto simp: scan_column_def cmd_simps stale_def unlink_column_run)

lemma scan_loop:
  "for_each ks (scan_column current) (m, u) s =
     (Inr (m \<union> {st \<in> current. \<exists>k \<in> set ks. column_status k = Some st}, u + length (filter (stale current) ks)),
      s\<lparr>columns := map (unlink (column_id ` set (filter (stale current) ks))) (columns s)\<rparr>)"
proof (induction ks arbitrary: m u s)
  case Nil
  have "unlink {} = (\<lambda>k. k)" by (simp add: unlink_def [abs_def])
  then show ?case by (simp add: cmd_simps)
next
  case (Cons k ks)
  have two: "unlink I (unlink {i} x) = unlink (insert i I) x" for I i x by (auto simp: unlink_def)
  have set: "m \<union> {st \<in> current. column_status k = Some st} \<union> {st \<in> current. \<exists>k \<in> set ks. column_status k = Some st} =
      m \<union> {st \<in> current. \<exists>k \<in> set (k # ks). column_status k = Some st}" by auto
  show ?case
    unfolding for_each.simps run_bind scan_column_run prod.case sum.case Cons.IH set
    by (simp add: two)
qed

lemma add_loop:
  "\<exists>s' ks. for_each sts (add_status_column b) (n, a) s = (Inr (n + length sts, a + length sts), s') \<and> appended s s' ks \<and>
     map column_status ks = map (\<lambda>st. Some (status_id st)) sts \<and>
     (\<forall>k \<in> set ks. column_board k = board_id b \<and> column_tenant k = board_tenant b)"
proof (induction sts arbitrary: n a s)
  case Nil
  show ?case by (intro exI [of _ s] exI [of _ "[]"]) (simp add: cmd_simps appended_refl)
next
  case (Cons st sts)
  let ?k = "\<lparr>column_id = next_pk s, column_tenant = board_tenant b, column_board = board_id b, column_name = status_name st,
       column_order = n, column_status = Some (status_id st), wip_limit = None\<rparr>"
  let ?s = "s\<lparr>next_pk := next_pk s + 1, columns := columns s @ [?k]\<rparr>"
  have first: "appended s ?s [?k]" by (auto simp: appended_def)
  obtain s' ks where rest: "for_each sts (add_status_column b) (n + 1, a + 1) ?s = (Inr (n + 1 + length sts, a + 1 + length sts), s')"
    "appended ?s s' ks" "map column_status ks = map (\<lambda>st. Some (status_id st)) sts"
    "\<forall>k \<in> set ks. column_board k = board_id b \<and> column_tenant k = board_tenant b"
    using Cons.IH [of "n + 1" "a + 1" ?s] by blast
  have "for_each (st # sts) (add_status_column b) (n, a) s = (Inr (n + length (st # sts), a + length (st # sts)), s')"
    using rest(1) by (simp add: cmd_simps add_status_column_def save_column_run)
  moreover have "appended s s' (?k # ks)" using appended_trans [OF first rest(2)] by simp
  ultimately show ?case
    using rest(3,4) by (intro exI [of _ s'] exI [of _ "?k # ks"]) simp
qed

definition mapped_statuses :: "store \<Rightarrow> nat \<Rightarrow> nat set" where
  "mapped_statuses s b = {st. \<exists>k \<in> set (board_columns s b). column_status k = Some st}"

definition status_ids :: "store \<Rightarrow> tenant_id \<Rightarrow> nat set" where
  "status_ids s ten = set (map status_id (tenant_statuses s ten (\<lambda>_. True)))"

lemma bind_asks: "bindc (asks g) f s = f (g s) s"
  by (simp add: cmd_simps)

lemma bind_known: "c s = (Inr a, s1) \<Longrightarrow> bindc c f s = f a s1"
  by (simp add: cmd_simps)

definition missing_statuses :: "store \<Rightarrow> board \<Rightarrow> ticket_status list" where
  "missing_statuses s b = sort_key (\<lambda>st. (status_order st, status_name st))
     (filter (\<lambda>st. status_id st \<in> status_ids s (board_tenant b) - mapped_statuses s (board_id b))
       (scoped s status_tenant (statuses s)))"

definition stale_columns :: "store \<Rightarrow> board \<Rightarrow> column list" where
  "stale_columns s b = filter (stale (status_ids s (board_tenant b))) (board_columns s (board_id b))"

definition unlinked :: "store \<Rightarrow> board \<Rightarrow> store" where
  "unlinked s b = s\<lparr>columns := map (unlink (column_id ` set (stale_columns s b))) (columns s)\<rparr>"

lemma sync_run:
  assumes "board_resource b = TicketBoard"
  shows "\<exists>s' ks. sync_board_with_statuses b s = (Inr (length (missing_statuses s b), length (stale_columns s b)), s') \<and>
     appended (unlinked s b) s' ks \<and> map column_status ks = map (\<lambda>st. Some (status_id st)) (missing_statuses s b) \<and>
     (\<forall>k \<in> set ks. column_board k = board_id b \<and> column_tenant k = board_tenant b) \<and>
     (missing_statuses s b = [] \<longrightarrow> s' = unlinked s b)"
proof -
  let ?mapped = "{st \<in> status_ids s (board_tenant b). \<exists>k \<in> set (board_columns s (board_id b)). column_status k = Some st}"
  define n where "n = (case board_columns (unlinked s b) (board_id b) of [] \<Rightarrow> 0 | ks \<Rightarrow> Max (set (map column_order ks)) + 1)"
  have "sort_key (\<lambda>st. (status_order st, status_name st)) (filter (\<lambda>st. status_id st \<in> status_ids s (board_tenant b) - ?mapped)
      (scoped (unlinked s b) status_tenant (statuses (unlinked s b)))) = missing_statuses s b"
    unfolding missing_statuses_def
    by (rule arg_cong [of _ _ "sort_key _"]) (auto simp: unlinked_def scoped_def mapped_statuses_def intro!: filter_cong split: option.split)
  then have miss: "sort_key (\<lambda>st. (status_order st, status_name st)) (filter (\<lambda>st. status_id st \<in> status_ids s (board_tenant b) - ({} \<union> ?mapped))
      (scoped (unlinked s b) status_tenant (statuses (unlinked s b)))) = missing_statuses s b"
    by simp
  have scan: "for_each (board_columns s (board_id b)) (scan_column (status_ids s (board_tenant b))) ({}, 0) s =
      (Inr ({} \<union> ?mapped, 0 + length (stale_columns s b)), unlinked s b)"
    by (simp only: scan_loop stale_columns_def unlinked_def)
  have sync: "sync_board_with_statuses b s = (case for_each (missing_statuses s b) (add_status_column b) (n, 0) (unlinked s b) of
      (Inl e, s') \<Rightarrow> (Inl e, rollback s s') | (Inr (m, added), s') \<Rightarrow> (Inr (added, length (stale_columns s b)), s'))"
    unfolding sync_board_with_statuses_def status_ids_def [symmetric] assms not_True_eq_False eqTrueI [OF refl] if_False
      run_atomic bind_asks bind_known [where c = "for_each (board_columns s (board_id b)) _ _", OF scan] prod.case miss
      n_def [symmetric]
    by (simp add: cmd_simps split: prod.splits sum.splits)
  obtain s' ks where loop: "for_each (missing_statuses s b) (add_status_column b) (n, 0) (unlinked s b) =
        (Inr (n + length (missing_statuses s b), 0 + length (missing_statuses s b)), s')" "appended (unlinked s b) s' ks"
      "map column_status ks = map (\<lambda>st. Some (status_id st)) (missing_statuses s b)"
      "\<forall>k \<in> set ks. column_board k = board_id b \<and> column_tenant k = board_tenant b"
    using add_loop [of "missing_statuses s b" b n 0 "unlinked s b"] by blast
  then have "missing_statuses s b = [] \<Longrightarrow> s' = unlinked s b" by (simp add: cmd_simps)
  with loop sync show ?thesis by (intro exI [of _ s'] exI [of _ ks]) simp
qed

text \<open>
  Synchronising a ticket board always succeeds; afterwards the statuses its
  columns are mapped to are exactly the statuses of the tenant, no column has
  been removed, and synchronising again finds nothing to do.
\<close>

theorem sync_board_settles:
  assumes kind: "board_resource b = TicketBoard" and ctx: "current_tenant s = Some (board_tenant b)"
    and ids: "distinct (map column_id (columns s))"
  shows "\<exists>r s'. sync_board_with_statuses b s = (Inr r, s') \<and>
      mapped_statuses s' (board_id b) = status_ids s (board_tenant b) \<and>
      prefix (map column_id (columns s)) (map column_id (columns s')) \<and>
      sync_board_with_statuses b s' = (Inr (0, 0), s')"
proof -
  let ?ids = "status_ids s (board_tenant b)" and ?b = "board_id b"
  obtain s' ks where run: "sync_board_with_statuses b s = (Inr (length (missing_statuses s b), length (stale_columns s b)), s')"
    and app: "appended (unlinked s b) s' ks"
    and ks: "map column_status ks = map (\<lambda>st. Some (status_id st)) (missing_statuses s b)"
      "\<forall>k \<in> set ks. column_board k = ?b \<and> column_tenant k = board_tenant b"
    using sync_run [OF kind, of s] by blast
  have s': "columns s' = map (unlink (column_id ` set (stale_columns s b))) (columns s) @ ks"
      "current_tenant s' = Some (board_tenant b)" "statuses s' = statuses s"
    using appended_fields [OF app] ctx by (simp_all add: unlinked_def)
  have vis: "set (board_columns u ?b) = {k \<in> set (columns u). column_board k = ?b \<and> column_tenant k = board_tenant b}"
    if "current_tenant u = Some (board_tenant b)" for u
    using that by (auto simp: board_columns_def scoped_def)
  have kept: "k \<in> set (board_columns s ?b) \<Longrightarrow> column_status (unlink (column_id ` set (stale_columns s b)) k) =
      (if stale ?ids k then None else column_status k)" for k
  proof -
    assume k: "k \<in> set (board_columns s ?b)"
    have "column_id k \<in> column_id ` set (stale_columns s b) \<longleftrightarrow> stale ?ids k"
    proof
      assume "column_id k \<in> column_id ` set (stale_columns s b)"
      then obtain k' where "k' \<in> set (board_columns s ?b)" "stale ?ids k'" "column_id k' = column_id k"
        by (auto simp: stale_columns_def)
      moreover from this k have "k' = k" using ids vis [OF ctx] by (auto simp: distinct_map dest: inj_onD)
      ultimately show "stale ?ids k" by simp
    qed (use k in \<open>auto simp: stale_columns_def\<close>)
    then show ?thesis by (simp add: unlink_def)
  qed
  have ids': "status_ids s' (board_tenant b) = ?ids"
    using s' ctx by (simp add: status_ids_def tenant_statuses_def scoped_def)
  have new: "column_status ` set ks = Some ` (?ids - mapped_statuses s ?b)"
  proof -
    have "column_status ` set ks = Some ` status_id ` set (missing_statuses s b)"
      using arg_cong [OF ks(1), of set] by (simp add: image_image)
    moreover have "status_id ` set (missing_statuses s b) = ?ids - mapped_statuses s ?b"
      using ctx by (auto simp: missing_statuses_def status_ids_def tenant_statuses_def scoped_def)
    ultimately show ?thesis by simp
  qed
  have fields: "column_board (unlink I k) = column_board k" "column_tenant (unlink I k) = column_tenant k"
      "column_id (unlink I k) = column_id k" for I k
    by (simp_all add: unlink_def)
  let ?un = "unlink (column_id ` set (stale_columns s b))"
  have old: "column_status (?un k) = Some st \<longleftrightarrow> column_status k = Some st \<and> st \<in> ?ids"
    if "k \<in> set (board_columns s ?b)" for k st
    using kept [OF that] by (auto simp: stale_def split: option.splits)
  have "set (board_columns s' ?b) = ?un ` set (board_columns s ?b) \<union> set ks"
    using vis [OF ctx] vis [OF s'(2)] ks(2) by (auto simp: s'(1) fields image_iff)
  then have "st \<in> mapped_statuses s' ?b \<longleftrightarrow> st \<in> mapped_statuses s ?b \<and> st \<in> ?ids \<or> Some st \<in> column_status ` set ks" for st
    using old by (auto simp: mapped_statuses_def image_iff eq_commute [of "Some _"])
  then have mapped: "mapped_statuses s' ?b = ?ids"
    unfolding new by auto
  have none: "stale_columns s' b = []" "missing_statuses s' b = []"
    using mapped ids' by (auto simp: stale_columns_def missing_statuses_def filter_empty_conv stale_def mapped_statuses_def
        split: option.split)
  then have "unlinked s' b = s'" by (simp add: unlinked_def unlink_def [abs_def])
  then have "sync_board_with_statuses b s' = (Inr (0, 0), s')"
    using sync_run [OF kind, of s'] none by auto
  moreover have "prefix (map column_id (columns s)) (map column_id (columns s'))"
    by (simp add: s'(1) fields comp_def)
  ultimately show ?thesis using run mapped by blast
qed

definition status_board :: board where
  "status_board = \<lparr>board_id = 1, board_tenant = 1, board_resource = TicketBoard, board_default = True, is_personal = False\<rparr>"

theorem sync_board_settles_witness:
  "\<exists>r s'. sync_board_with_statuses status_board board_store = (Inr r, s') \<and>
     mapped_statuses s' 1 = {1, 2, 3, 4, 5} \<and> sync_board_with_statuses status_board s' = (Inr (0, 0), s')"
proof -
  have ids: "status_ids board_store 1 = {1, 2, 3, 4, 5}"
    by (auto simp: status_ids_def tenant_statuses_def scoped_def board_store_def demo_store_def
      st_open_def st_progress_def st_waiting_def st_resolved_def st_closed_def demo_status_def)
  have "current_tenant board_store = Some (board_tenant status_board)" "board_resource status_board = TicketBoard"
      "distinct (map column_id (columns board_store))" "board_id status_board = 1" "board_tenant status_board = 1"
    by (simp_all add: board_store_def demo_store_def status_board_def demo_column_def)
  with sync_board_settles [of status_board board_store] ids show ?thesis by auto
qed

end
