(* ===== verification/Ticket_Links.thy ===== *)
theory Ticket_Links
  imports Ticket_Demo
begin

text \<open>
  Links between tickets (\<open>TicketLink\<close> in \<open>apps/tickets/models.py\<close>, the \<open>links\<close>
  endpoint in \<open>apps/tickets/views.py\<close>): the validation that looks for circular
  blocking chains with a breadth-first search, and the endpoint that creates a
  link.  The search is a total function; it decides reachability along the
  stored \<open>blocks\<close> links, so a validated \<open>blocks\<close> link keeps them acyclic.  The
  endpoint saves without validating, and the search does not follow stored
  \<open>blocked_by\<close> links.
\<close>

section \<open>The search for a circular chain\<close>

definition next_ids :: "ticket_link list \<Rightarrow> nat \<Rightarrow> nat list" where
  "next_ids ls i = map target_ticket (filter (\<lambda>l. source_ticket l = i \<and> link_kind l = Blocks) ls)"

text \<open>The loop over the queue; the last two arguments are \<open>visited\<close> and \<open>queue\<close>.\<close>

function search :: "ticket_link list \<Rightarrow> nat \<Rightarrow> nat list \<Rightarrow> nat list \<Rightarrow> bool" where
  "search ls goal visited [] = False"
| "search ls goal visited (i # queue) =
     (if i = goal then True
      else if i \<in> set visited then search ls goal visited queue
      else search ls goal (i # visited) (queue @ next_ids ls i))"
  by pat_completeness auto

lemma next_ids_source: "next_ids ls i \<noteq> [] \<Longrightarrow> i \<in> source_ticket ` set ls"
  by (auto simp: next_ids_def filter_empty_conv)

text \<open>A step either shortens the queue or visits one more of the finitely many sources of links.\<close>

termination search
proof (relation "measures [\<lambda>(ls, goal, visited, queue). card (source_ticket ` set ls - set visited),
                           \<lambda>(ls, goal, visited, queue). length queue]")
  fix ls :: "ticket_link list" and goal visited and i :: nat and queue
  assume new: "i \<notin> set visited"
  let ?sources = "source_ticket ` set ls"
  show "((ls, goal, i # visited, queue @ next_ids ls i), ls, goal, visited, i # queue)
      \<in> measures [\<lambda>(ls, goal, visited, queue). card (source_ticket ` set ls - set visited),
                   \<lambda>(ls, goal, visited, queue). length queue]"
  proof (cases "i \<in> ?sources")
    case True
    with new have "?sources - set (i # visited) \<subset> ?sources - set visited" by auto
    then have "card (?sources - set (i # visited)) < card (?sources - set visited)"
      by (simp add: psubset_card_mono)
    then show ?thesis by simp
  next
    case False
    then have "next_ids ls i = []" using next_ids_source by blast
    moreover have "?sources - insert i (set visited) = ?sources - set visited" using False by blast
    ultimately show ?thesis by simp
  qed
qed simp_all

definition creates_circular_dependency :: "ticket_link list \<Rightarrow> ticket_link \<Rightarrow> bool" where
  "creates_circular_dependency ls l =
     (if link_kind l = Blocks then search ls (source_ticket l) [] [target_ticket l]
      else search ls (target_ticket l) [] [source_ticket l])"

definition clean_link :: "ticket_link \<Rightarrow> unit op" where
  "clean_link l =
     bindc (get_or_raise ''Ticket'' (ticket_row (source_ticket l))) (\<lambda>source.
     bindc (get_or_raise ''Ticket'' (ticket_row (target_ticket l))) (\<lambda>target.
     if tenant_id (ticket_tenant source) \<noteq> tenant_id (ticket_tenant target)
     then raise_exc (ValidationError ''Both tickets must belong to the same tenant.'')
     else bindc (asks (\<lambda>s. creates_circular_dependency (links s) l)) (\<lambda>circular.
       if (link_kind l = Blocks \<or> link_kind l = BlockedBy) \<and> circular
       then raise_exc (ValidationError ''This link would create a circular blocking dependency.'')
       else ret ())))"

section \<open>The endpoint\<close>

text \<open>A response: its status code and its \<open>detail\<close>.\<close>

datatype response = Response nat string

text \<open>
  \<open>POST .../links/\<close> on a ticket, for a request body that the serializer has accepted.
  \<open>Ticket.objects\<close> hides the rows of other tenants and the deleted ones.
\<close>

definition post_link :: "ticket \<Rightarrow> nat \<Rightarrow> link_type \<Rightarrow> user \<Rightarrow> response op" where
  "post_link t target_id kind author =
     bindc (asks (\<lambda>s. first_row (\<lambda>r. pk r = target_id \<and> \<not> is_deleted r)
              (scoped s (\<lambda>r. tenant_id (ticket_tenant r)) (tickets s)))) (\<lambda>found.
     case found of
       None \<Rightarrow> ret (Response 404 ''Target ticket not found.'')
     | Some target \<Rightarrow>
         if pk target = pk t then ret (Response 400 ''Cannot link a ticket to itself.'')
         else if tenant_id (ticket_tenant target) \<noteq> tenant_id (ticket_tenant t)
         then ret (Response 400 ''Cannot link tickets from different tenants.'')
         else bindc (asks (\<lambda>s. first_row (\<lambda>l. source_ticket l = pk t \<and> target_ticket l = pk target \<and> link_kind l = kind)
                (scoped s link_tenant (links s)))) (\<lambda>existing.
           if existing \<noteq> None then ret (Response 409 ''This link already exists.'')
           else thenc (create_link (ticket_tenant t) (pk t) (pk target) kind (Some author)) (ret (Response 201 []))))"

section \<open>The search decides reachability\<close>

text \<open>\<open>(a, b)\<close>: a stored link says that \<open>a\<close> blocks \<open>b\<close>; \<open>blocking\<close> also reads the \<open>blocked_by\<close> links.\<close>

definition blocks :: "ticket_link list \<Rightarrow> (nat \<times> nat) set" where
  "blocks ls = {(a, b). b \<in> set (next_ids ls a)}"

definition blocking :: "ticket_link list \<Rightarrow> (nat \<times> nat) set" where
  "blocking ls = {(a, b). \<exists>l \<in> set ls. link_kind l = Blocks \<and> source_ticket l = a \<and> target_ticket l = b \<or>
     link_kind l = BlockedBy \<and> source_ticket l = b \<and> target_ticket l = a}"

lemma blocks_iff: "(a, b) \<in> blocks ls \<longleftrightarrow> (\<exists>l \<in> set ls. link_kind l = Blocks \<and> source_ticket l = a \<and> target_ticket l = b)"
  by (auto simp: blocks_def next_ids_def)

text \<open>Everything a visited ticket reaches in one step is visited or queued.\<close>

definition explored :: "ticket_link list \<Rightarrow> nat list \<Rightarrow> nat list \<Rightarrow> bool" where
  "explored ls visited queue \<longleftrightarrow> (\<forall>a \<in> set visited. \<forall>b. (a, b) \<in> blocks ls \<longrightarrow> b \<in> set visited \<union> set queue)"

lemma explored_complete:
  assumes "(a, b) \<in> (blocks ls)\<^sup>*" "explored ls visited []" "a \<in> set visited"
  shows "b \<in> set visited"
  using assms by (induction rule: rtrancl_induct) (auto simp: explored_def)

lemma search_finds_goal:
  assumes "goal \<notin> set visited" "explored ls visited queue"
    and "a \<in> set visited \<union> set queue" "(a, goal) \<in> (blocks ls)\<^sup>*"
  shows "search ls goal visited queue"
  using assms
proof (induction ls goal visited queue arbitrary: a rule: search.induct)
  case (1 ls goal visited)
  then show ?case using explored_complete [of a goal ls visited] by simp
next
  case (2 ls goal visited i queue)
  show ?case
  proof (cases "i = goal \<or> i \<in> set visited")
    case True
    then show ?thesis
    proof
      assume "i \<in> set visited"
      then have "explored ls visited queue" "a \<in> set visited \<union> set queue"
        using "2.prems" by (auto simp: explored_def)
      moreover have "i \<noteq> goal" using \<open>i \<in> set visited\<close> "2.prems"(1) by blast
      ultimately show ?thesis using "2.IH"(1) "2.prems" \<open>i \<in> set visited\<close> by simp
    qed simp
  next
    case False
    have "explored ls (i # visited) (queue @ next_ids ls i)"
      using "2.prems"(2) by (auto simp: explored_def blocks_def)
    moreover have "a \<in> set (i # visited) \<union> set (queue @ next_ids ls i)" using "2.prems"(3) by auto
    ultimately show ?thesis using "2.IH"(2) "2.prems"(1,4) False by simp
  qed
qed

lemma search_only_reachable: "search ls goal visited queue \<Longrightarrow> \<exists>a \<in> set queue. (a, goal) \<in> (blocks ls)\<^sup>*"
proof (induction ls goal visited queue rule: search.induct)
  case (1 ls goal visited)
  then show ?case by simp
next
  case (2 ls goal visited i queue)
  show ?case
  proof (cases "i = goal \<or> i \<in> set visited")
    case True
    then show ?thesis using 2 by (auto split: if_splits)
  next
    case False
    with 2 obtain a where a: "a \<in> set (queue @ next_ids ls i)" "(a, goal) \<in> (blocks ls)\<^sup>*" by auto
    then show ?thesis by (auto simp: blocks_def intro: converse_rtrancl_into_rtrancl)
  qed
qed

lemma search_iff: "search ls goal [] [start] \<longleftrightarrow> (start, goal) \<in> (blocks ls)\<^sup>*"
  using search_only_reachable [of ls goal "[]" "[start]"] search_finds_goal [of goal "[]" ls "[start]" start]
  by (auto simp: explored_def)

text \<open>
  C13: The breadth-first search terminates and decides reachability: a \<open>blocks\<close>
  link is found circular exactly when its target already reaches its source
  along stored \<open>blocks\<close> links, any other link exactly when its source reaches
  its target.
\<close>

theorem circular_dependency_decides:
  "creates_circular_dependency ls l \<longleftrightarrow>
     (if link_kind l = Blocks then (target_ticket l, source_ticket l) \<in> (blocks ls)\<^sup>*
      else (source_ticket l, target_ticket l) \<in> (blocks ls)\<^sup>*)"
  by (simp add: creates_circular_dependency_def search_iff del: search.simps)

lemma circular_iff:
  "link_kind l = Blocks \<Longrightarrow> creates_circular_dependency ls l \<longleftrightarrow> (target_ticket l, source_ticket l) \<in> (blocks ls)\<^sup>*"
  "link_kind l \<noteq> Blocks \<Longrightarrow> creates_circular_dependency ls l \<longleftrightarrow> (source_ticket l, target_ticket l) \<in> (blocks ls)\<^sup>*"
  by (simp_all add: creates_circular_dependency_def search_iff del: search.simps)

section \<open>Validated links stay acyclic\<close>

lemma blocks_Cons: "link_kind l = Blocks \<Longrightarrow> blocks (l # ls) = insert (source_ticket l, target_ticket l) (blocks ls)"
  by (auto simp: blocks_iff)

lemma blocks_Cons_other: "link_kind l \<noteq> Blocks \<Longrightarrow> blocks (l # ls) = blocks ls"
  by (auto simp: blocks_iff)

lemma clean_link_passes:
  "clean_link l s = (Inr (), s') \<Longrightarrow> link_kind l = Blocks \<or> link_kind l = BlockedBy \<Longrightarrow>
   \<not> creates_circular_dependency (links s) l"
  by (auto simp: clean_link_def get_or_raise_def cmd_simps split: option.splits if_splits)

text \<open>
  C14: A link that passes the validation keeps the stored \<open>blocks\<close> relation
  acyclic when it is added, whatever its type.
\<close>

theorem validated_link_keeps_acyclic:
  assumes "acyclic (blocks (links s))" "clean_link l s = (Inr (), s')"
  shows "acyclic (blocks (l # links s))"
proof (cases "link_kind l = Blocks")
  case True
  with assms(2) have "(target_ticket l, source_ticket l) \<notin> (blocks (links s))\<^sup>*"
    using clean_link_passes circular_iff(1) by blast
  with assms(1) True show ?thesis by (simp add: blocks_Cons acyclic_insert)
qed (simp add: assms(1) blocks_Cons_other)

section \<open>What the validation does not catch\<close>

lemma post_link_creates:
  assumes "first_row (\<lambda>r. pk r = i \<and> \<not> is_deleted r) (scoped s (\<lambda>r. tenant_id (ticket_tenant r)) (tickets s)) = Some r"
    and "pk r \<noteq> pk t" "tenant_id (ticket_tenant r) = tenant_id (ticket_tenant t)"
    and "first_row (\<lambda>l. source_ticket l = pk t \<and> target_ticket l = pk r \<and> link_kind l = kind) (scoped s link_tenant (links s)) = None"
  shows "post_link t i kind u s = (Inr (Response 201 []),
     s\<lparr>links := \<lparr>link_tenant = tenant_id (ticket_tenant t), source_ticket = pk t, target_ticket = pk r,
       link_kind = kind, link_by = Some u\<rparr> # links s\<rparr>)"
  using assms by (simp add: post_link_def create_link_def cmd_simps)

text \<open>
  The endpoint stores a circular chain.  When ticket \<open>a\<close> blocks ticket \<open>b\<close>
  of the same tenant and there is no link back, posting "\<open>b\<close> blocks \<open>a\<close>"
  answers 201 and the stored relation is cyclic: the endpoint never runs the
  validation, which would have refused the link.
\<close>

theorem endpoint_stores_cycle:
  assumes "first_row (\<lambda>r. pk r = pk a \<and> \<not> is_deleted r) (scoped s (\<lambda>r. tenant_id (ticket_tenant r)) (tickets s)) = Some a"
    and "pk a \<noteq> pk b" "tenant_id (ticket_tenant a) = tenant_id (ticket_tenant b)"
    and edge: "(pk a, pk b) \<in> blocks (links s)" and no_back: "(pk b, pk a) \<notin> blocks (links s)"
  shows "\<exists>l s'. post_link b (pk a) Blocks u s = (Inr (Response 201 []), s') \<and> links s' = l # links s \<and>
      creates_circular_dependency (links s) l \<and> \<not> acyclic (blocks (links s'))"
proof -
  let ?l = "\<lparr>link_tenant = tenant_id (ticket_tenant b), source_ticket = pk b, target_ticket = pk a,
      link_kind = Blocks, link_by = Some u\<rparr>"
  have none: "first_row (\<lambda>l. source_ticket l = pk b \<and> target_ticket l = pk a \<and> link_kind l = Blocks)
      (scoped s link_tenant (links s)) = None"
    using no_back by (auto simp: first_row_eq_None scoped_def blocks_iff split: option.splits)
  have "(pk b, pk a) \<in> blocks (?l # links s)" "(pk a, pk b) \<in> blocks (?l # links s)"
    using edge by (auto simp: blocks_Cons)
  then have "(pk b, pk b) \<in> (blocks (?l # links s))\<^sup>+"
    by (meson r_r_into_trancl)
  then have "\<not> acyclic (blocks (?l # links s))" by (auto simp: acyclic_def)
  moreover have "creates_circular_dependency (links s) ?l" using edge by (simp add: circular_iff)
  ultimately show ?thesis using post_link_creates [OF assms(1,2,3) none] by simp
qed

text \<open>
  The search does not follow stored \<open>blocked_by\<close> links: when "\<open>a\<close> is blocked
  by \<open>b\<close>" is stored and \<open>b\<close> has no outgoing \<open>blocks\<close> link, the link "\<open>a\<close> blocks
  \<open>b\<close>" is not found circular, and adding it makes the blocking relation that
  both types describe cyclic.
\<close>

theorem blocked_by_cycle_missed:
  assumes old: "old \<in> set ls" "link_kind old = BlockedBy" and new: "link_kind l = Blocks"
    and ends: "source_ticket old = source_ticket l" "target_ticket old = target_ticket l"
    and distinct: "source_ticket l \<noteq> target_ticket l" and out: "next_ids ls (target_ticket l) = []"
  shows "\<not> creates_circular_dependency ls l \<and> \<not> acyclic (blocking (l # ls))"
proof
  have "(target_ticket l, b) \<notin> blocks ls" for b using out by (simp add: blocks_def)
  then have "(target_ticket l, source_ticket l) \<notin> (blocks ls)\<^sup>*"
    using distinct by (metis converse_rtranclE)
  then show "\<not> creates_circular_dependency ls l" using new by (simp add: circular_iff)
  have "(source_ticket l, target_ticket l) \<in> blocking (l # ls)" "(target_ticket l, source_ticket l) \<in> blocking (l # ls)"
    using old new ends by (auto simp: blocking_def)
  then have "(source_ticket l, source_ticket l) \<in> (blocking (l # ls))\<^sup>+" by (meson r_r_into_trancl)
  then show "\<not> acyclic (blocking (l # ls))" by (auto simp: acyclic_def)
qed

section \<open>Witnesses\<close>

definition demo_link :: "nat \<Rightarrow> nat \<Rightarrow> link_type \<Rightarrow> ticket_link" where
  "demo_link a b kind = \<lparr>link_tenant = 1, source_ticket = a, target_ticket = b, link_kind = kind, link_by = None\<rparr>"

definition link_store :: store where
  "link_store = demo_store\<lparr>tickets := [demo_ticket, demo_ticket\<lparr>pk := 11\<rparr>, demo_ticket\<lparr>pk := 12\<rparr>], links := [demo_link 10 11 Blocks]\<rparr>"

lemma demo_link_fields [simp]:
  "source_ticket (demo_link a b kind) = a" "target_ticket (demo_link a b kind) = b" "link_kind (demo_link a b kind) = kind"
  by (simp_all add: demo_link_def)

lemma link_store_blocks: "blocks (links link_store) = {(10, 11)}"
  by (auto simp: link_store_def blocks_iff)

lemma link_store_rows: "ticket_row 10 link_store = Some demo_ticket" "ticket_row 12 link_store = Some (demo_ticket\<lparr>pk := 12\<rparr>)"
  "ticket_row 11 link_store = Some (demo_ticket\<lparr>pk := 11\<rparr>)"
  by (simp_all add: link_store_def ticket_row_def demo_ticket_def new_ticket_def)

lemma link_store_search: "\<not> creates_circular_dependency (links link_store) (demo_link 11 12 Blocks)"
  by (simp add: link_store_def creates_circular_dependency_def next_ids_def)

theorem validated_link_keeps_acyclic_witness:
  "clean_link (demo_link 11 12 Blocks) link_store = (Inr (), link_store) \<and>
   acyclic (blocks (demo_link 11 12 Blocks # links link_store))"
proof
  show clean: "clean_link (demo_link 11 12 Blocks) link_store = (Inr (), link_store)"
    by (simp add: clean_link_def get_or_raise_def cmd_simps link_store_rows link_store_search)
  have "acyclic (blocks (links link_store))" by (simp add: link_store_blocks acyclic_irrefl trancl_id trans_def irrefl_def)
  then show "acyclic (blocks (demo_link 11 12 Blocks # links link_store))"
    using clean by (rule validated_link_keeps_acyclic)
qed

theorem endpoint_stores_cycle_witness:
  "\<exists>l s'. post_link (demo_ticket\<lparr>pk := 11\<rparr>) 10 Blocks demo_user link_store = (Inr (Response 201 []), s') \<and>
     links s' = l # links link_store \<and> creates_circular_dependency (links link_store) l \<and> \<not> acyclic (blocks (links s'))"
proof -
  have ten: "pk demo_ticket = 10" "is_deleted demo_ticket = False" "tenant_id (ticket_tenant demo_ticket) = 1"
    by (simp_all add: demo_ticket_def new_ticket_def demo_tenant_def)
  have "first_row (\<lambda>r. pk r = pk demo_ticket \<and> \<not> is_deleted r)
      (scoped link_store (\<lambda>r. tenant_id (ticket_tenant r)) (tickets link_store)) = Some demo_ticket"
    using ten by (simp add: link_store_def scoped_def demo_store_def)
  then show ?thesis
    using endpoint_stores_cycle [of demo_ticket link_store "demo_ticket\<lparr>pk := 11\<rparr>" demo_user] ten
    by (simp add: link_store_blocks)
qed

theorem blocked_by_cycle_missed_witness:
  "\<not> creates_circular_dependency [demo_link 1 2 BlockedBy] (demo_link 1 2 Blocks) \<and>
   \<not> acyclic (blocking [demo_link 1 2 Blocks, demo_link 1 2 BlockedBy])"
  by (rule blocked_by_cycle_missed [where old = "demo_link 1 2 BlockedBy"]) (simp_all add: next_ids_def)

end
