(* ===== verification/Desk.thy ===== *)
theory Desk
  imports Ticket_Demo
begin

text \<open>
  The applications around the ticketing core: agents, departments and the
  Inbox Hub, inbound email, notifications, escalation rules.  Their tables
  extend the store of the core: \<open>desk\<close> keeps that store in \<open>base\<close>, and \<open>on_base\<close>
  runs an operation of the core inside it.  A tenant in these rows is the row
  itself, a user too; the other references are primary keys.  \<open>re_search\<close> is
  Python's \<open>re.search\<close> with a pattern that is data (\<open>None\<close>: the pattern does
  not compile); the settings of the deployment are the fields of \<open>deployment\<close>;
  \<open>storage\<close> is the file storage: the paths it holds, each with whether the
  attachment validator accepts the file.
\<close>

section \<open>Rows\<close>

datatype agent_status = Online | Away | Busy | Offline

record availability =
  av_id :: nat
  av_tenant :: tenant_id
  av_user :: user
  av_status :: agent_status
  max_concurrent_tickets :: nat
  current_ticket_count :: nat
  last_activity :: "instant option"
  last_seen :: "instant option"
  working_hours :: json
  auto_away_outside_hours :: bool

record department =
  dept_id :: nat
  dept_tenant :: tenant_id
  dept_lead :: user
  dept_default_queue :: "nat option"
  dept_active :: bool

record dept_member =
  dm_tenant :: tenant_id
  dm_department :: nat
  dm_user :: user_id

datatype hub_state = HNew | HAssigned | HInProgress | HPendingAgent | HAwaitingCustomer
  | HEscalated | HResolved | HConverted | HDismissed

datatype hub_priority = HLow | HNormal | HHigh | HUrgent

record hub_email =
  he_id :: nat
  he_tenant :: tenant
  he_inbound :: nat
  he_contact :: "contact option"
  he_department :: "nat option"
  he_queue :: "nat option"
  he_assignee :: "user option"
  he_state :: hub_state
  he_priority :: hub_priority
  he_category :: string
  sla_response_due_at :: "instant option"
  sla_resolution_due_at :: "instant option"
  response_breached :: bool
  resolution_breached :: bool
  he_first_responded_at :: "instant option"
  first_assigned_at :: "instant option"
  he_escalation_count :: nat
  escalated_to :: "user option"
  converted_ticket :: "nat option"
  dismissed_at :: "instant option"
  dismissed_by :: "user option"
  dismissal_reason :: string
  auto_classification_data :: json
  he_created_at :: instant

datatype assignment_reason = Auto | Manual | EscalationReason | Reassignment

record hub_assignment =
  ha_tenant :: tenant_id
  ha_email :: nat
  ha_to :: user
  ha_by :: "user option"
  ha_reason :: assignment_reason
  ha_note :: string
  ha_at :: instant

record hub_note =
  hn_email :: nat
  hn_author :: user
  hn_body :: string

record hub_sla =
  hs_tenant :: tenant_id
  hs_queue :: "nat option"
  hs_department :: "nat option"
  hs_priority :: hub_priority
  hs_response_minutes :: int
  hs_resolution_minutes :: int

record routing_rule =
  rr_id :: nat
  rr_tenant :: tenant_id
  rr_order :: nat
  rr_active :: bool
  rr_match :: json
  rr_department :: "nat option"
  rr_queue :: "nat option"
  rr_category :: string
  rr_priority :: "hub_priority option"
  stop_on_match :: bool

record queue_routing =
  qr_tenant :: tenant_id
  qr_queue :: nat
  strategy_code :: string

datatype email_status = EPending | EProcessing | ETicketCreated | EReplyAdded | EParkedInHub
  | ESent | ERejected | EBounced | EFailed

datatype inbox_status = IPending | ILinked | IActioned | IIgnored

datatype inbox_action = OpenAction | AssignAction | CloseAction

datatype direction = Inbound | Outbound

datatype sender_type = Customer | SystemSender | AgentSender

record inbound_email =
  ie_id :: nat
  ie_tenant :: "tenant option"
  message_id :: string
  in_reply_to :: string
  references :: string
  sender_email :: string
  sender_name :: string
  recipient_email :: string
  ie_subject :: string
  body_text :: string
  raw_headers :: string
  ie_direction :: direction
  ie_sender_type :: sender_type
  ie_status :: email_status
  error_message :: string
  ie_ticket :: "nat option"
  ie_files :: "string list"
  idempotency_key :: "(tenant_id \<times> string) option"
  inbox_status_of :: inbox_status
  linked_ticket :: "nat option"
  linked_at :: "instant option"
  linked_by :: "user option"
  ie_assignee :: "user option"
  is_read :: bool
  actioned_at :: "instant option"
  actioned_by :: "user option"
  action_taken :: "inbox_action option"

record bounce_log =
  bl_tenant :: "tenant_id option"
  bl_email :: nat
  bl_from :: string
  bl_to :: string
  bl_reason :: string
  bl_ticket :: "nat option"

datatype notification_type = NTicketAssigned | NTicketUpdated | NTicketComment | NMention | NMessage
  | NSlaBreach | NTicketOverdue | NPaymentFailed | NSubscriptionChange | NInvitation | NAgentStatusChange
  | NTicketFollowupOverdue | NReminderDue | NReminderOverdue | NKbReviewRequested | NKbArticleReviewed
  | NHubEmailAssigned | NHubEmailReassigned | NHubEmailEscalatedToMe | NHubEmailSlaBreachWarning
  | NHubEmailSlaBreached

record notification =
  notif_id :: nat
  notif_tenant :: tenant_id
  notif_recipient :: user_id
  notif_type :: notification_type
  notif_data :: json
  notif_at :: instant

record preference =
  pref_user :: user_id
  pref_tenant :: tenant_id
  pref_type :: notification_type
  in_app :: bool
  by_email :: bool

datatype trigger = ResponseBreach | ResolutionBreach | IdleTime

datatype rule_action = AssignRule | NotifyRule | ChangePriorityRule

record escalation_rule =
  er_id :: nat
  er_policy :: nat
  er_trigger :: trigger
  threshold_minutes :: int
  er_action :: rule_action
  target_user :: "user option"
  target_role :: "nat option"
  er_order :: nat

text \<open>What leaves the database: pushes to a user's sockets, notification emails, live events of a tenant.\<close>

datatype delivery =
    Push nat
  | NotificationEmail nat
  | LiveEvent tenant_id string json

record deployment =
  presence_ttl_seconds :: int
  presence_auto_online :: bool
  default_from_email :: string
  imap_default_tenant_slug :: string
  hub_sla_warning_minutes :: int
  server_time_zone :: string
  base_domain :: string

record desk =
  base :: store
  settings_of :: deployment
  re_search :: "string \<Rightarrow> string \<Rightarrow> bool option"
  tenants :: "tenant list"
  roles :: "role list"
  availabilities :: "availability list"
  departments :: "department list"
  dept_members :: "dept_member list"
  hub_emails :: "hub_email list"
  hub_assignments :: "hub_assignment list"
  hub_notes :: "hub_note list"
  hub_slas :: "hub_sla list"
  routing_rules :: "routing_rule list"
  queue_routings :: "queue_routing list"
  inbound_emails :: "inbound_email list"
  bounce_logs :: "bounce_log list"
  notifications :: "notification list"
  preferences :: "preference list"
  escalation_rules :: "escalation_rule list"
  deliveries :: "delivery list"
  storage :: "(string \<times> bool) list"

type_synonym 'a act = "(desk, 'a) cmd"

section \<open>Commands over the desk\<close>

definition on_base :: "'a op \<Rightarrow> 'a act" where
  "on_base c = (\<lambda>d. case c (base d) of (r, s') \<Rightarrow> (r, d\<lparr>base := s'\<rparr>))"

text \<open>\<open>transaction.atomic\<close>: the tasks already queued and the files already deleted are not undone.\<close>

definition desk_rollback :: "desk \<Rightarrow> desk \<Rightarrow> desk" where
  "desk_rollback d d' = d\<lparr>base := rollback (base d) (base d'), storage := storage d'\<rparr>"

abbreviation atomically :: "(desk, 'a) cmd \<Rightarrow> (desk, 'a) cmd" where
  "atomically \<equiv> atomic_on desk_rollback"

lemma run_on_base [cmd_simps]: "on_base c d = (fst (c (base d)), d\<lparr>base := snd (c (base d))\<rparr>)"
  by (simp add: on_base_def split: prod.split)

definition now_of :: "instant act" where
  "now_of = asks (\<lambda>d. clock (base d))"

definition fresh_pk :: "nat act" where
  "fresh_pk = on_base new_pk"

lemma run_now [cmd_simps]: "now_of d = (Inr (clock (base d)), d)"
  by (simp add: now_of_def cmd_simps)

lemma run_fresh [cmd_simps]: "fresh_pk d = (Inr (next_pk (base d)), d\<lparr>base := (base d)\<lparr>next_pk := next_pk (base d) + 1\<rparr>\<rparr>)"
  by (simp add: fresh_pk_def new_pk_def cmd_simps)

text \<open>\<open>objects.get\<close>: the row or \<open>DoesNotExist\<close>.\<close>

definition row_or_raise :: "string \<Rightarrow> (desk \<Rightarrow> 'a option) \<Rightarrow> 'a act" where
  "row_or_raise model q = (\<lambda>d. case q d of None \<Rightarrow> (Inl (DoesNotExist model), d) | Some r \<Rightarrow> (Inr r, d))"

lemma run_row_or_raise [cmd_simps]:
  "row_or_raise model q d = (case q d of None \<Rightarrow> (Inl (DoesNotExist model), d) | Some r \<Rightarrow> (Inr r, d))"
  by (simp add: row_or_raise_def)

text \<open>\<open>broadcast_live_event\<close>, deferred to the commit.\<close>

definition broadcast_live_event :: "tenant_id \<Rightarrow> string \<Rightarrow> json \<Rightarrow> unit act" where
  "broadcast_live_event ten event payload =
     update (\<lambda>d. d\<lparr>deliveries := deliveries d @ [LiveEvent ten event payload]\<rparr>)"

lemma run_broadcast [cmd_simps]:
  "broadcast_live_event ten event payload d = (Inr (), d\<lparr>deliveries := deliveries d @ [LiveEvent ten event payload]\<rparr>)"
  by (simp add: broadcast_live_event_def cmd_simps)

section \<open>Notifications (\<open>apps/notifications/services.py\<close>)\<close>

definition INTERNAL_ONLY_TYPES :: "notification_type list" where
  "INTERNAL_ONLY_TYPES = [NTicketAssigned, NTicketOverdue, NTicketFollowupOverdue, NReminderDue,
     NReminderOverdue, NAgentStatusChange]"

definition is_member_of :: "desk \<Rightarrow> user_id \<Rightarrow> tenant_id \<Rightarrow> bool" where
  "is_member_of d u ten \<longleftrightarrow> (\<exists>m \<in> set (memberships (base d)).
     user_id (member_user m) = u \<and> member_tenant m = ten \<and> member_active m)"

text \<open>The channels a notification is delivered on: in the application, by email.\<close>

definition channels :: "desk \<Rightarrow> tenant_id \<Rightarrow> user_id \<Rightarrow> notification_type \<Rightarrow> bool \<times> bool" where
  "channels d ten u kind =
     (let pref = first_row (\<lambda>p. pref_user p = u \<and> pref_tenant p = ten \<and> pref_type p = kind) (preferences d);
          deliver_in_app = (case pref of Some p \<Rightarrow> in_app p | None \<Rightarrow> True);
          deliver_email = (case pref of Some p \<Rightarrow> by_email p | None \<Rightarrow> True) \<and> kind \<notin> set INTERNAL_ONLY_TYPES
      in if (deliver_in_app \<or> deliver_email) \<and> \<not> is_member_of d u ten then (False, False)
         else (deliver_in_app, deliver_email))"

definition send_notification :: "tenant_id \<Rightarrow> user \<Rightarrow> notification_type \<Rightarrow> json \<Rightarrow> notification act" where
  "send_notification ten recipient kind data =
     bindc fresh_pk (\<lambda>i. bindc now_of (\<lambda>now.
       let n = \<lparr>notif_id = i, notif_tenant = ten, notif_recipient = user_id recipient, notif_type = kind,
                notif_data = data, notif_at = now\<rparr>
       in thenc (update (\<lambda>d. d\<lparr>notifications := notifications d @ [n]\<rparr>))
         (bindc (asks (\<lambda>d. channels d ten (user_id recipient) kind)) (\<lambda>(deliver_in_app, deliver_email).
          thenc (whenc deliver_in_app (update (\<lambda>d. d\<lparr>deliveries := deliveries d @ [Push i]\<rparr>)))
          (thenc (whenc deliver_email (update (\<lambda>d. d\<lparr>deliveries := deliveries d @ [NotificationEmail i]\<rparr>)))
            (ret n))))))"

text \<open>A command whose exceptions are logged and dropped.\<close>

definition best_effort :: "unit act \<Rightarrow> unit act" where
  "best_effort c = try_except c (\<lambda>_. ret ())"

definition notify :: "tenant_id \<Rightarrow> user \<Rightarrow> notification_type \<Rightarrow> json \<Rightarrow> unit act" where
  "notify ten u kind data = bindc (send_notification ten u kind data) (\<lambda>_. ret ())"

text \<open>What \<open>send_notification\<close> leaves: one row, and deliveries of that row only.\<close>

definition notice :: "desk \<Rightarrow> tenant_id \<Rightarrow> user \<Rightarrow> notification_type \<Rightarrow> json \<Rightarrow> notification" where
  "notice d ten u kind data = \<lparr>notif_id = next_pk (base d), notif_tenant = ten, notif_recipient = user_id u,
     notif_type = kind, notif_data = data, notif_at = clock (base d)\<rparr>"

definition sent_on :: "bool \<times> bool \<Rightarrow> nat \<Rightarrow> delivery list" where
  "sent_on ch i = (if fst ch then [Push i] else []) @ (if snd ch then [NotificationEmail i] else [])"

lemma channels_frame [simp]:
  "channels (d\<lparr>base := (base d)\<lparr>next_pk := k\<rparr>, notifications := ns\<rparr>) = channels d"
  by (intro ext) (simp add: channels_def is_member_of_def Let_def)

lemma send_notification_run: "send_notification ten u kind data d = (Inr (notice d ten u kind data), d\<lparr>
     base := (base d)\<lparr>next_pk := next_pk (base d) + 1\<rparr>, notifications := notifications d @ [notice d ten u kind data],
     deliveries := deliveries d @ sent_on (channels d ten (user_id u) kind) (next_pk (base d))\<rparr>)"
  by (cases "channels d ten (user_id u) kind") (simp add: send_notification_def cmd_simps Let_def notice_def sent_on_def)

text \<open>
  A notification always leaves exactly one row.  Everything delivered is
  that row, and only to an active member of the tenant; a type that is internal
  only is never emailed; a member who has stored no preference gets the push.
\<close>

theorem delivery_respects_membership:
  "\<exists>n d' out. send_notification ten u kind data d = (Inr n, d') \<and> notifications d' = notifications d @ [n] \<and>
     notif_recipient n = user_id u \<and> notif_tenant n = ten \<and> deliveries d' = deliveries d @ out \<and>
     set out \<subseteq> {Push (notif_id n), NotificationEmail (notif_id n)} \<and>
     (out = [] \<or> is_member_of d (user_id u) ten) \<and>
     (kind \<notin> set INTERNAL_ONLY_TYPES \<or> set out \<subseteq> {Push (notif_id n)}) \<and>
     (Push (notif_id n) \<in> set out \<or> \<not> is_member_of d (user_id u) ten \<or>
       (\<exists>p \<in> set (preferences d). pref_user p = user_id u \<and> pref_tenant p = ten \<and> pref_type p = kind))"
proof -
  let ?n = "notice d ten u kind data" and ?out = "sent_on (channels d ten (user_id u) kind) (next_pk (base d))"
  have "notif_id ?n = next_pk (base d)" "notif_recipient ?n = user_id u" "notif_tenant ?n = ten" by (simp_all add: notice_def)
  moreover have "?out = [] \<or> is_member_of d (user_id u) ten"
    by (auto simp: sent_on_def channels_def Let_def)
  moreover have "kind \<notin> set INTERNAL_ONLY_TYPES \<or> set ?out \<subseteq> {Push (next_pk (base d))}"
    by (auto simp: sent_on_def channels_def Let_def)
  moreover have "Push (next_pk (base d)) \<in> set ?out \<or> \<not> is_member_of d (user_id u) ten \<or>
      (\<exists>p \<in> set (preferences d). pref_user p = user_id u \<and> pref_tenant p = ten \<and> pref_type p = kind)"
    by (auto simp: sent_on_def channels_def Let_def split: option.splits dest!: first_row_SomeD)
  moreover have "set ?out \<subseteq> {Push (next_pk (base d)), NotificationEmail (next_pk (base d))}"
    by (auto simp: sent_on_def)
  ultimately show ?thesis by (intro exI conjI) (rule send_notification_run, simp_all)
qed

section \<open>A small desk for the witnesses\<close>

definition demo_role :: "nat \<Rightarrow> string \<Rightarrow> nat \<Rightarrow> string list \<Rightarrow> role" where
  "demo_role i slug level perms = \<lparr>role_id = i, role_tenant = 1, role_slug = slug, hierarchy_level = level,
     role_codenames = perms\<rparr>"

definition demo_member :: "user \<Rightarrow> role \<Rightarrow> membership" where
  "demo_member u r = \<lparr>member_user = u, member_tenant = 1, member_role = r, member_active = True, temporary_role = None,
     temporary_role_expires_at = None, temporary_codenames = []\<rparr>"

definition demo_desk :: desk where
  "demo_desk = \<lparr>base = demo_store\<lparr>memberships := [demo_member demo_user (demo_role 1 ''agent'' 30 [])]\<rparr>,
     settings_of = \<lparr>presence_ttl_seconds = 90, presence_auto_online = True, default_from_email = ''noreply@kanzan'',
       imap_default_tenant_slug = [], hub_sla_warning_minutes = 15,
       server_time_zone = ''UTC'', base_domain = ''kanzan.io''\<rparr>,
     re_search = (\<lambda>_ _. None), tenants = [demo_tenant], roles = [], availabilities = [], departments = [],
     dept_members = [], hub_emails = [], hub_assignments = [], hub_notes = [], hub_slas = [], routing_rules = [],
     queue_routings = [], inbound_emails = [], bounce_logs = [], notifications = [], preferences = [],
     escalation_rules = [], deliveries = [], storage = []\<rparr>"

theorem delivery_respects_membership_witness:
  "is_member_of demo_desk 7 1 \<and>
   (\<exists>n d' out. send_notification 1 demo_user NTicketAssigned JNull demo_desk = (Inr n, d') \<and>
      deliveries d' = out \<and> set out = {Push (notif_id n)})"
proof
  show member: "is_member_of demo_desk 7 1"
    by (simp add: is_member_of_def demo_desk_def demo_member_def demo_user_def)
  have "user_id demo_user = 7" "preferences demo_desk = []" "deliveries demo_desk = []" "NTicketAssigned \<in> set INTERNAL_ONLY_TYPES"
    by (simp_all add: demo_user_def demo_desk_def INTERNAL_ONLY_TYPES_def)
  then show "\<exists>n d' out. send_notification 1 demo_user NTicketAssigned JNull demo_desk = (Inr n, d') \<and>
      deliveries d' = out \<and> set out = {Push (notif_id n)}"
    using delivery_respects_membership [of 1 demo_user NTicketAssigned JNull demo_desk] member by fastforce
qed

end
