(* ===== verification/Access.thy ===== *)
theory Access
  imports Desk
begin

text \<open>
  Who may do what: the effective role of a membership
  (\<open>apps/accounts/models.py\<close>), the permission classes
  (\<open>apps/accounts/permissions.py\<close>), the visibility of tickets
  (\<open>apps/tickets/access.py\<close>), the gate and the row visibility of the Inbox Hub
  (\<open>apps/inbox_hub/access.py\<close>, \<open>permissions.py\<close>), and the grant of a
  temporary role (\<open>apps/agents/views.py\<close>).  A permission is its codename,
  which is unique.
\<close>

section \<open>Effective roles\<close>

definition has_active_temporary_role :: "instant \<Rightarrow> membership \<Rightarrow> bool" where
  "has_active_temporary_role now m \<longleftrightarrow> temporary_role m \<noteq> None \<and>
     (case temporary_role_expires_at m of None \<Rightarrow> False | Some e \<Rightarrow> e > now)"

definition effective_role :: "instant \<Rightarrow> membership \<Rightarrow> role" where
  "effective_role now m = (if has_active_temporary_role now m then the (temporary_role m) else member_role m)"

definition effective_permissions :: "instant \<Rightarrow> membership \<Rightarrow> string list" where
  "effective_permissions now m =
     (if has_active_temporary_role now m \<and> temporary_codenames m \<noteq> []
      then filter (\<lambda>c. c \<in> set (temporary_codenames m)) (role_codenames (the (temporary_role m)))
      else role_codenames (effective_role now m))"

definition has_effective_permission :: "instant \<Rightarrow> membership \<Rightarrow> string \<Rightarrow> bool" where
  "has_effective_permission now m codename \<longleftrightarrow> codename \<in> set (effective_permissions now m)"

section \<open>Permission classes\<close>

definition ACTION_MAP :: "(string \<times> string) list" where
  "ACTION_MAP =
    [(''list'', ''view''), (''retrieve'', ''view''), (''create'', ''create''), (''update'', ''update''),
     (''partial_update'', ''update''), (''destroy'', ''delete''),
     (''comments'', ''view''), (''activity'', ''view''), (''timeline'', ''view''), (''assign'', ''update''),
     (''change_status'', ''update''), (''change_stage'', ''update''), (''change_priority'', ''update''),
     (''bulk_action'', ''update''), (''close'', ''update''), (''escalate'', ''update''), (''lookup'', ''view''),
     (''teammates'', ''view''), (''team_progress'', ''view''),
     (''render'', ''view''), (''set_default'', ''update''),
     (''all_members'', ''view''), (''online'', ''view''), (''workload'', ''view''), (''set_status'', ''update''),
     (''my_status'', ''view''),
     (''emails'', ''view''), (''send_email'', ''update''), (''send_creation_email'', ''update''),
     (''link_email'', ''update''), (''unlinked_emails'', ''view''), (''mark_all_read'', ''view''),
     (''record_view'', ''view''), (''remove_file'', ''update''), (''preview_file'', ''view''),
     (''submit_for_review'', ''update''), (''approve'', ''update''), (''reject'', ''update''), (''vote'', ''view''),
     (''context'', ''view''), (''attachment'', ''view''),
     (''add_contacts'', ''update''), (''remove_contacts'', ''update''),
     (''detail_with_cards'', ''view''), (''populate'', ''update''), (''move'', ''update''), (''reorder'', ''update''),
     (''links'', ''update''), (''delete_link'', ''update''), (''merge'', ''update''), (''split'', ''update''),
     (''apply_macro'', ''update''), (''search'', ''view''),
     (''watchers'', ''view''), (''remove_watcher'', ''update''), (''watch'', ''view''), (''time_entries'', ''view''),
     (''time_summary'', ''view''), (''time_entry_detail'', ''update''), (''restore'', ''update''), (''use'', ''view''),
     (''test'', ''update''), (''reset_failures'', ''update''),
     (''overdue'', ''view''), (''complete'', ''update''), (''cancel'', ''update''), (''reschedule'', ''update''),
     (''stats'', ''view''),
     (''react'', ''view''), (''mark_read'', ''view''), (''mark_all_read'', ''view''), (''unread_count'', ''view''),
     (''active_calls'', ''view''), (''call_stats'', ''view''),
     (''convert_to_ticket'', ''convert''), (''dismiss'', ''dismiss'')]"

text \<open>A request: its authenticated user and the tenant its host resolves to.\<close>

record api_request =
  req_user :: "user option"
  req_tenant :: "tenant_id option"

definition membership_of :: "desk \<Rightarrow> user_id \<Rightarrow> tenant_id \<Rightarrow> membership option" where
  "membership_of d u ten = first_row (\<lambda>m. user_id (member_user m) = u \<and> member_tenant m = ten \<and> member_active m)
     (memberships (base d))"

text \<open>
  \<open>_get_membership\<close> for a request with a user and a tenant.  The row is cached on
  the request; the model reads it again, which is the same while the request
  does not change the memberships.
\<close>

definition get_membership :: "desk \<Rightarrow> api_request \<Rightarrow> membership option" where
  "get_membership d req = (case (req_user req, req_tenant req) of
     (Some u, Some ten) \<Rightarrow> membership_of d (user_id u) ten | _ \<Rightarrow> None)"

definition level_of :: "desk \<Rightarrow> membership \<Rightarrow> nat" where
  "level_of d m = hierarchy_level (effective_role (clock (base d)) m)"

definition hierarchy_floor :: "string \<Rightarrow> nat \<Rightarrow> bool" where
  "hierarchy_floor action_verb level =
     (if action_verb = ''view'' then level \<le> 40
      else if action_verb = ''create'' \<or> action_verb = ''update'' then level \<le> 30
      else level \<le> 20)"

text \<open>\<open>HasTenantPermission.has_permission\<close> for a view's \<open>permission_resource\<close> and \<open>action\<close>.\<close>

definition has_tenant_permission :: "desk \<Rightarrow> api_request \<Rightarrow> string option \<Rightarrow> string \<Rightarrow> bool" where
  "has_tenant_permission d req resource action =
     (case get_membership d req of
        None \<Rightarrow> False
      | Some m \<Rightarrow> (case resource of
          None \<Rightarrow> True
        | Some r \<Rightarrow> (case map_of ACTION_MAP action of
            None \<Rightarrow> False
          | Some action_verb \<Rightarrow>
              let now = clock (base d); codename = r @ ''.'' @ action_verb
              in if has_active_temporary_role now m \<and> temporary_codenames m \<noteq> []
                 then has_effective_permission now m codename
                 else has_effective_permission now m codename \<or> hierarchy_floor action_verb (level_of d m))))"

definition agent_can_see_ticket :: "user \<Rightarrow> ticket \<Rightarrow> bool" where
  "agent_can_see_ticket u t \<longleftrightarrow> map_option user_id (assignee t) = Some (user_id u) \<or> user_id (created_by t) = user_id u"

text \<open>\<open>qs.filter(agent_visible_tickets_q(user))\<close>\<close>

definition agent_visible_tickets :: "user \<Rightarrow> ticket list \<Rightarrow> ticket list" where
  "agent_visible_tickets u = filter (\<lambda>t. (case assignee t of None \<Rightarrow> False | Some a \<Rightarrow> user_id a = user_id u) \<or>
     user_id (created_by t) = user_id u)"

definition is_ticket_accessible :: "desk \<Rightarrow> api_request \<Rightarrow> ticket \<Rightarrow> bool" where
  "is_ticket_accessible d req t = (case get_membership d req of
     None \<Rightarrow> False
   | Some m \<Rightarrow> level_of d m \<le> 20 \<or> (case req_user req of None \<Rightarrow> False | Some u \<Rightarrow> agent_can_see_ticket u t))"

text \<open>Without a tenant on the request (the main site) \<open>IsTenantMember\<close> lets the user through.\<close>

definition is_tenant_member :: "desk \<Rightarrow> api_request \<Rightarrow> bool" where
  "is_tenant_member d req = (req_user req \<noteq> None \<and> (req_tenant req = None \<or> get_membership d req \<noteq> None))"

definition at_most :: "nat \<Rightarrow> desk \<Rightarrow> api_request \<Rightarrow> bool" where
  "at_most level d req = (case get_membership d req of None \<Rightarrow> False | Some m \<Rightarrow> level_of d m \<le> level)"

definition is_tenant_admin :: "desk \<Rightarrow> api_request \<Rightarrow> bool" where "is_tenant_admin = at_most 10"
definition is_tenant_admin_or_manager :: "desk \<Rightarrow> api_request \<Rightarrow> bool" where "is_tenant_admin_or_manager = at_most 20"
definition is_agent_or_above :: "desk \<Rightarrow> api_request \<Rightarrow> bool" where "is_agent_or_above = at_most 30"

definition is_self_or_tenant_manager :: "desk \<Rightarrow> api_request \<Rightarrow> user_id \<Rightarrow> bool" where
  "is_self_or_tenant_manager d req obj = (case get_membership d req of
     None \<Rightarrow> False | Some m \<Rightarrow> level_of d m \<le> 20 \<or> map_option user_id (req_user req) = Some obj)"

section \<open>The Inbox Hub\<close>

definition SUPERVISOR_HIERARCHY_LEVEL :: nat where "SUPERVISOR_HIERARCHY_LEVEL = 20"
definition AGENT_HIERARCHY_LEVEL :: nat where "AGENT_HIERARCHY_LEVEL = 30"

text \<open>The active departments of a user.\<close>

definition user_department_ids :: "desk \<Rightarrow> user_id \<Rightarrow> tenant_id \<Rightarrow> nat list" where
  "user_department_ids d u ten =
     map dm_department (filter (\<lambda>x. dm_tenant x = ten \<and> dm_user x = u \<and>
       (\<exists>k \<in> set (departments d). dept_id k = dm_department x \<and> dept_active k)) (dept_members d))"

definition tenant_has_departments :: "desk \<Rightarrow> tenant_id \<Rightarrow> bool" where
  "tenant_has_departments d ten \<longleftrightarrow> (\<exists>k \<in> set (departments d). dept_tenant k = ten \<and> dept_active k)"

definition has_assigned_hub_email :: "desk \<Rightarrow> user_id \<Rightarrow> tenant_id \<Rightarrow> bool" where
  "has_assigned_hub_email d u ten \<longleftrightarrow> (\<exists>e \<in> set (hub_emails d).
     tenant_id (he_tenant e) = ten \<and> map_option user_id (he_assignee e) = Some u)"

definition can_access_inbox_hub :: "desk \<Rightarrow> membership option \<Rightarrow> bool" where
  "can_access_inbox_hub d found = (case found of
     None \<Rightarrow> False
   | Some m \<Rightarrow>
       let level = level_of d m; u = user_id (member_user m); ten = member_tenant m
       in if level \<le> SUPERVISOR_HIERARCHY_LEVEL then True
          else if level > AGENT_HIERARCHY_LEVEL then False
          else user_department_ids d u ten \<noteq> [] \<or> \<not> tenant_has_departments d ten \<or> has_assigned_hub_email d u ten)"

text \<open>\<open>qs.filter(hub_rows_q(user, department_ids))\<close> and its object-level twin.\<close>

definition hub_rows :: "user_id \<Rightarrow> nat list \<Rightarrow> hub_email list \<Rightarrow> hub_email list" where
  "hub_rows u depts = filter (\<lambda>e.
     (he_state e = HNew \<and> ((case he_department e of None \<Rightarrow> False | Some k \<Rightarrow> k \<in> set depts) \<or> he_department e = None))
     \<or> map_option user_id (he_assignee e) = Some u)"

definition agent_can_see_hub_email :: "hub_email \<Rightarrow> user_id \<Rightarrow> nat list \<Rightarrow> bool" where
  "agent_can_see_hub_email e u depts =
     (if map_option user_id (he_assignee e) = Some u then True
      else if he_state e \<noteq> HNew then False
      else (case he_department e of None \<Rightarrow> True | Some k \<Rightarrow> k \<in> set depts))"

definition ACTION_CODENAMES :: "(string \<times> string) list" where
  "ACTION_CODENAMES =
    [(''list'', ''view''), (''retrieve'', ''view''), (''context'', ''view''), (''attachment'', ''view''),
     (''convert_to_ticket'', ''convert''), (''dismiss'', ''dismiss''), (''assign'', ''assign''),
     (''reassign'', ''reassign''), (''escalate'', ''escalate''), (''note'', ''note'')]"

definition AGENT_LEVEL_ACTIONS :: "string list" where "AGENT_LEVEL_ACTIONS = [''claim'', ''transition'']"

definition hub_floor :: "string \<Rightarrow> nat \<Rightarrow> bool" where
  "hub_floor action_verb level =
     (if action_verb = ''view'' then level \<le> 40
      else if action_verb \<in> {''convert'', ''reply'', ''escalate'', ''note''} then level \<le> 30
      else level \<le> 20)"

text \<open>\<open>HubEmailPermission.has_permission\<close>; the codename of a verb is \<open>hub_email.<verb>\<close>.\<close>

definition hub_email_permission :: "desk \<Rightarrow> api_request \<Rightarrow> string \<Rightarrow> bool" where
  "hub_email_permission d req action = (case get_membership d req of
     None \<Rightarrow> False
   | Some m \<Rightarrow>
       let now = clock (base d); level = level_of d m
       in if \<not> can_access_inbox_hub d (Some m) then False
          else if action \<in> set AGENT_LEVEL_ACTIONS then level \<le> 30
          else (case map_of ACTION_CODENAMES action of
              None \<Rightarrow> False
            | Some action_verb \<Rightarrow>
                if effective_permissions now m \<noteq> []
                then has_effective_permission now m (''hub_email.'' @ action_verb)
                else hub_floor action_verb level))"

definition is_hub_email_accessible :: "desk \<Rightarrow> api_request \<Rightarrow> hub_email \<Rightarrow> bool" where
  "is_hub_email_accessible d req e = (case get_membership d req of
     None \<Rightarrow> False
   | Some m \<Rightarrow>
       if \<not> can_access_inbox_hub d (Some m) then False
       else if level_of d m \<le> 20 then True
       else (case req_user req of None \<Rightarrow> False | Some u \<Rightarrow>
         agent_can_see_hub_email e (user_id u) (user_department_ids d (user_id u) (member_tenant m))))"

section \<open>Changing memberships\<close>

text \<open>Saving a membership broadcasts it to the tenant.\<close>

definition membership_event :: "desk \<Rightarrow> membership \<Rightarrow> json" where
  "membership_event d m = JObj [(''user_id'', jpk (user_id (member_user m))), (''user_email'', JStr (email (member_user m))),
     (''role_id'', jpk (role_id (member_role m))), (''is_active'', JBool (member_active m)),
     (''has_temp_role'', JBool (has_active_temporary_role (clock (base d)) m))]"

definition save_membership :: "membership \<Rightarrow> unit act" where
  "save_membership x =
     thenc (update (\<lambda>d. d\<lparr>base := (base d)\<lparr>memberships := map (\<lambda>m.
         if user_id (member_user m) = user_id (member_user x) \<and> member_tenant m = member_tenant x then x else m)
         (memberships (base d))\<rparr>\<rparr>))
       (bindc (asks (\<lambda>d. membership_event d x)) (broadcast_live_event (member_tenant x) ''membership.updated''))"

text \<open>
  \<open>TenantMembershipViewSet.perform_update\<close> on a membership of the tenant, for a
  request that \<open>IsTenantAdminOrManager\<close> admits; the body may name a role and \<open>is_active\<close>.
\<close>

definition update_membership :: "api_request \<Rightarrow> membership \<Rightarrow> role option \<Rightarrow> bool option \<Rightarrow> unit act" where
  "update_membership req target new_role active =
     bindc (asks (\<lambda>d. case get_membership d req of None \<Rightarrow> 999 | Some m \<Rightarrow> level_of d m)) (\<lambda>actor_level.
     bindc (asks (\<lambda>d. level_of d target)) (\<lambda>target_level.
       if target_level < actor_level
       then raise_exc (PermissionDenied ''You cannot modify a membership that outranks your own.'')
       else if (case new_role of None \<Rightarrow> False | Some r \<Rightarrow> hierarchy_level r < actor_level)
       then raise_exc (PermissionDenied ''You cannot assign a role higher than your own.'')
       else save_membership (target\<lparr>
         member_role := (case new_role of None \<Rightarrow> member_role target | Some r \<Rightarrow> r),
         member_active := (case active of None \<Rightarrow> member_active target | Some b \<Rightarrow> b)\<rparr>)))"

text \<open>
  The expiry in the body of a grant: \<open>expires_at\<close> (\<open>parse_datetime\<close> may fail) or
  \<open>duration_hours\<close> (which may not be a number).
\<close>

datatype expiry_input = NoExpiry | ExpiresAt "instant option" | DurationHours "rat option"

text \<open>\<open>timedelta(hours=h)\<close> in microseconds, rounded half to even.\<close>

definition round_half_even :: "rat \<Rightarrow> int" where
  "round_half_even x =
     (let f = \<lfloor>x\<rfloor>; r = x - of_int f
      in if r < 1/2 then f else if r > 1/2 then f + 1 else if even f then f else f + 1)"

definition resolve_expiry :: "instant \<Rightarrow> expiry_input \<Rightarrow> instant res" where
  "resolve_expiry now e = (case e of
     NoExpiry \<Rightarrow> Inl (ValidationError ''Provide either duration_hours or expires_at.'')
   | ExpiresAt None \<Rightarrow> Inl (ValidationError ''expires_at must be a valid ISO datetime.'')
   | ExpiresAt (Some t) \<Rightarrow> Inr t
   | DurationHours None \<Rightarrow> Inl (ValidationError ''duration_hours must be a number.'')
   | DurationHours (Some h) \<Rightarrow>
       if h \<le> 0 \<or> h > 24 * 30 then Inl (ValidationError ''duration_hours must be between 0 and 720 (30 days).'')
       else Inr (now + round_half_even (h * 3600000000)))"

definition permission_subset :: "role \<Rightarrow> string list \<Rightarrow> string list res" where
  "permission_subset r ids =
     (let filtered_ids = filter (\<lambda>c. c \<in> set (role_codenames r)) ids
      in if ids \<noteq> [] \<and> filtered_ids = []
         then Inl (ValidationError ''None of the supplied permissions belong to the chosen role.'')
         else Inr filtered_ids)"

text \<open>Replacing the curated list of a member (\<open>temporary_permissions.set\<close>), and what a grant writes.\<close>

definition set_temporary_permissions :: "membership \<Rightarrow> string list \<Rightarrow> unit act" where
  "set_temporary_permissions x cs = update (\<lambda>d. d\<lparr>base := (base d)\<lparr>memberships := map (\<lambda>m.
     if user_id (member_user m) = user_id (member_user x) \<and> member_tenant m = member_tenant x
     then m\<lparr>temporary_codenames := cs\<rparr> else m) (memberships (base d))\<rparr>\<rparr>)"

definition write_grant :: "membership \<Rightarrow> role \<Rightarrow> instant \<Rightarrow> string list \<Rightarrow> unit act" where
  "write_grant target role expires_at cs =
     thenc (save_membership (target\<lparr>temporary_role := Some role, temporary_role_expires_at := Some expires_at\<rparr>))
     (thenc (set_temporary_permissions target cs)
     (best_effort (notify (member_tenant target) (member_user target) NAgentStatusChange
        (JObj [(''role_id'', jpk (role_id role)), (''expires_at'', jtime expires_at)]))))"

text \<open>\<open>grant_temp_role\<close>; \<open>ids = None\<close> is a \<open>permission_ids\<close> that is not a list.\<close>

definition grant_temp_role ::
  "user \<Rightarrow> tenant_id \<Rightarrow> user_id option \<Rightarrow> nat option \<Rightarrow> string list option \<Rightarrow> expiry_input \<Rightarrow> unit act" where
  "grant_temp_role requester ten uid rid ids expiry =
     bindc (asks (\<lambda>d. case membership_of d (user_id requester) ten of
         None \<Rightarrow> False | Some m \<Rightarrow> level_of d m \<le> 10)) (\<lambda>admin.
     if \<not> admin then raise_exc (PermissionDenied ''Only admins can grant temporary roles.'')
     else (case (uid, rid) of
       (Some u, Some r) \<Rightarrow>
         bindc (asks (\<lambda>d. membership_of d u ten)) (\<lambda>found. case found of
           None \<Rightarrow> raise_exc (ValidationError ''Target user is not an active member of this tenant.'')
         | Some target \<Rightarrow>
             if u = user_id requester then raise_exc (ValidationError ''You cannot grant a temporary role to yourself.'')
             else bindc (asks (\<lambda>d. first_row (\<lambda>x. role_id x = r \<and> role_tenant x = ten)
                    (scoped (base d) role_tenant (roles d)))) (\<lambda>found_role. case found_role of
               None \<Rightarrow> raise_exc (ValidationError ''Role not found in this tenant.'')
             | Some role \<Rightarrow>
                 if role_slug role = ''admin''
                 then raise_exc (ValidationError ''The Admin role cannot be granted as a temporary role.'')
                 else (case ids of
                   None \<Rightarrow> raise_exc (ValidationError ''permission_ids must be a list of UUIDs.'')
                 | Some permission_ids \<Rightarrow>
                     bindc (lift_res (permission_subset role permission_ids)) (\<lambda>subset_ids.
                     bindc now_of (\<lambda>now.
                     bindc (lift_res (resolve_expiry now expiry)) (\<lambda>expires_at.
                     if expires_at \<le> now then raise_exc (ValidationError ''Expiry must be in the future.'')
                     else write_grant target role expires_at subset_ids))))))
     | _ \<Rightarrow> raise_exc (ValidationError ''user_id and role_id are required.'')))"

definition revoke_temp_role :: "user \<Rightarrow> tenant_id \<Rightarrow> user_id option \<Rightarrow> unit act" where
  "revoke_temp_role requester ten uid =
     bindc (asks (\<lambda>d. case membership_of d (user_id requester) ten of
         None \<Rightarrow> False | Some m \<Rightarrow> level_of d m \<le> 10)) (\<lambda>admin.
     if \<not> admin then raise_exc (PermissionDenied ''Only admins can revoke temporary roles.'')
     else (case uid of
       None \<Rightarrow> raise_exc (ValidationError ''user_id is required.'')
     | Some u \<Rightarrow>
         bindc (asks (\<lambda>d. membership_of d u ten)) (\<lambda>found. case found of
           None \<Rightarrow> raise_exc (ValidationError ''Target user is not an active member of this tenant.'')
         | Some target \<Rightarrow>
             if temporary_role target = None
             then raise_exc (ValidationError ''This member does not have a temporary role.'')
             else thenc (save_membership (target\<lparr>temporary_role := None, temporary_role_expires_at := None\<rparr>))
               (set_temporary_permissions target []))))"

end
