(* ===== verification/Access_Laws.thy ===== *)
theory Access_Laws
  imports Access
begin

text \<open>
  What the access rules guarantee: list filters and object checks agree, a
  curated temporary role is a hard limit, a temporary role ends with its expiry
  or its revocation, and changing a membership never puts anyone above the
  actor.
\<close>

section \<open>Lists and objects\<close>

lemma see_ticket_iff: "agent_can_see_ticket u t \<longleftrightarrow>
    (case assignee t of None \<Rightarrow> False | Some a \<Rightarrow> user_id a = user_id u) \<or> user_id (created_by t) = user_id u"
  by (auto simp: agent_can_see_ticket_def split: option.split)

lemma see_hub_iff: "agent_can_see_hub_email e u depts \<longleftrightarrow>
    he_state e = HNew \<and> ((case he_department e of None \<Rightarrow> False | Some k \<Rightarrow> k \<in> set depts) \<or> he_department e = None)
    \<or> map_option user_id (he_assignee e) = Some u"
  by (auto simp: agent_can_see_hub_email_def split: option.splits)

text \<open>
  C15: For a member below manager level the tickets that the list filter returns
  are exactly those the object-level check admits, and the same holds for the
  emails of the Inbox Hub when the member may open it.
\<close>

theorem list_and_object_checks_agree:
  assumes "req_user req = Some u" "get_membership d req = Some m" "level_of d m > 20"
  shows "agent_visible_tickets u ts = filter (is_ticket_accessible d req) ts \<and>
    (can_access_inbox_hub d (Some m) \<longrightarrow>
      hub_rows (user_id u) (user_department_ids d (user_id u) (member_tenant m)) es =
        filter (is_hub_email_accessible d req) es)"
  using assms
  by (auto simp: agent_visible_tickets_def is_ticket_accessible_def see_ticket_iff hub_rows_def
      is_hub_email_accessible_def see_hub_iff intro!: filter_cong)

section \<open>Permissions\<close>

text \<open>
  While a temporary role with a curated list of permissions is active, an
  action is allowed only when its codename is in that list and among the
  permissions of the temporary role; the hierarchy floor does not apply.
\<close>

theorem curated_role_is_hard_limit:
  assumes "get_membership d req = Some m" "has_active_temporary_role (clock (base d)) m" "temporary_codenames m \<noteq> []"
    and "has_tenant_permission d req (Some r) action"
  shows "\<exists>action_verb granted. map_of ACTION_MAP action = Some action_verb \<and> temporary_role m = Some granted \<and>
    r @ ''.'' @ action_verb \<in> set (temporary_codenames m) \<inter> set (role_codenames granted)"
  using assms
  by (auto simp: has_tenant_permission_def has_effective_permission_def effective_permissions_def
      has_active_temporary_role_def Let_def split: option.splits)

definition uncurated :: "desk \<Rightarrow> membership \<Rightarrow> bool" where
  "uncurated d m \<longleftrightarrow> \<not> (has_active_temporary_role (clock (base d)) m \<and> temporary_codenames m \<noteq> [])"

lemma hierarchy_floor_antimono: "l \<le> l' \<Longrightarrow> hierarchy_floor v l' \<Longrightarrow> hierarchy_floor v l"
  by (auto simp: hierarchy_floor_def split: if_splits)

text \<open>
  Outside curated temporary roles authority is monotone: a member at least
  as senior as another, with at least its explicit permissions, may do
  whatever the other may.
\<close>

theorem seniority_is_monotone:
  assumes "get_membership d req = Some m" "get_membership d req' = Some m'"
    and "uncurated d m" "uncurated d m'" "level_of d m \<le> level_of d m'"
    and "set (effective_permissions (clock (base d)) m') \<subseteq> set (effective_permissions (clock (base d)) m)"
    and "has_tenant_permission d req' resource action"
  shows "has_tenant_permission d req resource action"
  using assms hierarchy_floor_antimono [OF assms(5)]
  by (auto simp: has_tenant_permission_def has_effective_permission_def uncurated_def Let_def
      split: option.splits if_splits)

section \<open>Changing memberships\<close>

lemma save_membership_rows:
  "memberships (base (snd (save_membership x d))) = map (\<lambda>m.
     if user_id (member_user m) = user_id (member_user x) \<and> member_tenant m = member_tenant x then x else m)
     (memberships (base d))"
  by (simp add: save_membership_def cmd_simps)

lemma save_membership_runs: "\<exists>d'. save_membership x d = (Inr (), d') \<and> clock (base d') = clock (base d)"
  by (simp add: save_membership_def cmd_simps)

lemma level_role: "level_of d (m\<lparr>member_role := r\<rparr>) =
     (if has_active_temporary_role (clock (base d)) m then level_of d m else hierarchy_level r)"
  by (simp add: level_of_def effective_role_def has_active_temporary_role_def)

lemma level_same: "level_of d (m\<lparr>member_active := b\<rparr>) = level_of d m"
  by (simp add: level_of_def effective_role_def has_active_temporary_role_def)


section \<open>Temporary roles\<close>

lemma first_row_replaced:
  assumes "m \<in> set ms" "key m" "p x" "\<And>r. p r \<Longrightarrow> key r"
  shows "first_row p (map (\<lambda>r. if key r then x else r) ms) = Some x"
  using assms(1)
proof (induction ms)
  case (Cons r ms)
  show ?case
  proof (cases "key r")
    case False
    then have "m \<noteq> r" "\<not> p r" using assms(2,4) by auto
    then show ?thesis using Cons False by simp
  qed (simp add: assms(3))
qed simp

definition own_row :: "user_id \<Rightarrow> tenant_id \<Rightarrow> membership \<Rightarrow> bool" where
  "own_row u ten m \<longleftrightarrow> user_id (member_user m) = u \<and> member_tenant m = ten"

lemma membership_of_rows: "membership_of d u ten = first_row (\<lambda>m. own_row u ten m \<and> member_active m) (memberships (base d))"
  by (simp add: membership_of_def own_row_def)

lemma membership_of_SomeD: "membership_of d u ten = Some m \<Longrightarrow> m \<in> set (memberships (base d)) \<and> own_row u ten m \<and> member_active m"
  by (auto simp: membership_of_rows dest: first_row_SomeD)

text \<open>Writing a row and then its list of permissions: what the two updates leave of the memberships.\<close>

definition rewritten :: "membership \<Rightarrow> string list \<Rightarrow> membership list \<Rightarrow> membership list" where
  "rewritten x cs ms = map (\<lambda>m. if own_row (user_id (member_user x)) (member_tenant x) m
     then x\<lparr>temporary_codenames := cs\<rparr> else m) ms"

lemma rewritten_own:
  assumes "m \<in> set ms" "own_row u ten m" "own_row u ten x" "member_active x"
  shows "first_row (\<lambda>r. own_row u ten r \<and> member_active r) (rewritten x cs ms) = Some (x\<lparr>temporary_codenames := cs\<rparr>)"
proof -
  have "user_id (member_user x) = u" "member_tenant x = ten" using assms(3) by (auto simp: own_row_def)
  then show ?thesis unfolding rewritten_def
    using assms by (intro first_row_replaced [of m]) (auto simp: own_row_def)
qed

lemma rewritten_other:
  assumes "own_row u ten x" "v \<noteq> u \<or> ten' \<noteq> ten"
  shows "first_row (\<lambda>r. own_row v ten' r \<and> member_active r) (rewritten x cs ms) =
    first_row (\<lambda>r. own_row v ten' r \<and> member_active r) ms"
  using assms by (induction ms) (auto simp: rewritten_def own_row_def)

lemma write_twice:
  "own_row u ten x \<Longrightarrow> map (\<lambda>m. if own_row u ten m then m\<lparr>temporary_codenames := cs\<rparr> else m)
     (map (\<lambda>m. if own_row u ten m then x else m) ms) = rewritten x cs ms"
  by (auto simp: rewritten_def own_row_def)

lemma write_rows:
  assumes "own_row u ten x" "own_row u ten t"
  shows "\<exists>d'. thenc (save_membership x) (set_temporary_permissions t cs) d = (Inr (), d') \<and>
    memberships (base d') = rewritten x cs (memberships (base d)) \<and> clock (base d') = clock (base d)"
proof -
  have "user_id (member_user x) = u" "member_tenant x = ten" "user_id (member_user t) = u" "member_tenant t = ten"
    using assms by (auto simp: own_row_def)
  then show ?thesis using write_twice [OF assms(1)]
    by (simp add: save_membership_def set_temporary_permissions_def cmd_simps flip: own_row_def)
qed

lemma notify_rows: "\<exists>d'. best_effort (notify ten u k data) d = (Inr (), d') \<and> memberships (base d') = memberships (base d) \<and>
    clock (base d') = clock (base d)"
  by (simp add: best_effort_def notify_def cmd_simps send_notification_run)

definition granted :: "membership \<Rightarrow> role \<Rightarrow> instant \<Rightarrow> membership" where
  "granted m r e = m\<lparr>temporary_role := Some r, temporary_role_expires_at := Some e\<rparr>"

lemma write_grant_rows:
  assumes "own_row u ten m"
  shows "\<exists>d'. write_grant m r e cs d = (Inr (), d') \<and>
    memberships (base d') = rewritten (granted m r e) cs (memberships (base d)) \<and> clock (base d') = clock (base d)"
proof -
  have "own_row u ten (granted m r e)" using assms by (simp add: own_row_def granted_def)
  from write_rows [OF this assms] obtain d1 where
    "thenc (save_membership (granted m r e)) (set_temporary_permissions m cs) d = (Inr (), d1)"
    "memberships (base d1) = rewritten (granted m r e) cs (memberships (base d))" "clock (base d1) = clock (base d)" by blast
  moreover obtain d' where "best_effort (notify (member_tenant m) (member_user m) NAgentStatusChange
      (JObj [(''role_id'', jpk (role_id r)), (''expires_at'', jtime e)])) d1 = (Inr (), d')"
    "memberships (base d') = memberships (base d1)" "clock (base d') = clock (base d1)" using notify_rows by blast
  ultimately show ?thesis
    by (auto simp: write_grant_def granted_def then_returns)
qed

definition admin_of :: "desk \<Rightarrow> user \<Rightarrow> tenant_id \<Rightarrow> bool" where
  "admin_of d q ten \<longleftrightarrow> (\<exists>a. membership_of d (user_id q) ten = Some a \<and> level_of d a \<le> 10)"

definition grants :: "user \<Rightarrow> tenant_id \<Rightarrow> user_id \<Rightarrow> membership \<Rightarrow> role \<Rightarrow> instant \<Rightarrow> string list \<Rightarrow> desk \<Rightarrow> desk \<Rightarrow> bool" where
  "grants q ten u m r e cs d d' \<longleftrightarrow> admin_of d q ten \<and> u \<noteq> user_id q \<and> membership_of d u ten = Some m \<and>
     role_slug r \<noteq> ''admin'' \<and> e > clock (base d) \<and> set cs \<subseteq> set (role_codenames r) \<and> clock (base d') = clock (base d) \<and>
     memberships (base d') = rewritten (granted m r e) cs (memberships (base d))"

lemma subset_permitted: "permission_subset r ids = Inr cs \<Longrightarrow> set cs \<subseteq> set (role_codenames r)"
  by (auto simp: permission_subset_def Let_def split: if_splits)

lemma grant_succeeds:
  assumes "grant_temp_role q ten uid rid ids expiry d = (Inr (), d')"
  shows "\<exists>u m r e cs. uid = Some u \<and> resolve_expiry (clock (base d)) expiry = Inr e \<and> grants q ten u m r e cs d d'"
proof -
  from assms obtain u i m r xs cs e where parts: "admin_of d q ten" "uid = Some u" "membership_of d u ten = Some m"
      "u \<noteq> user_id q" "role_slug r \<noteq> ''admin''" "permission_subset r xs = Inr cs"
      "resolve_expiry (clock (base d)) expiry = Inr e" "\<not> e \<le> clock (base d)" "write_grant m r e cs d = (Inr (), d')"
    by (auto simp: grant_temp_role_def cmd_simps admin_of_def split: option.splits if_splits sum.splits prod.splits)
  moreover have "own_row u ten m" using membership_of_SomeD [OF parts(3)] by simp
  ultimately show ?thesis using write_grant_rows [of u ten m r e cs d] subset_permitted [OF parts(6)]
    by (auto simp: grants_def)
qed

lemma granted_simps [simp]:
  "member_user (granted m r e) = member_user m" "member_tenant (granted m r e) = member_tenant m"
  "own_row u ten (granted m r e) = own_row u ten m" "member_active (granted m r e) = member_active m"
  "member_role (granted m r e) = member_role m" "temporary_role (granted m r e) = Some r"
  "temporary_role_expires_at (granted m r e) = Some e"
  by (simp_all add: granted_def own_row_def)

lemma granted_row:
  assumes "grants q ten u m r e cs d d'"
  shows "membership_of d' u ten = Some ((granted m r e)\<lparr>temporary_codenames := cs\<rparr>)"
    and "v \<noteq> u \<Longrightarrow> membership_of d' v ten = membership_of d v ten"
proof -
  have m: "m \<in> set (memberships (base d))" "own_row u ten m" "member_active m"
    using assms membership_of_SomeD by (auto simp: grants_def)
  then show "membership_of d' u ten = Some ((granted m r e)\<lparr>temporary_codenames := cs\<rparr>)"
    using assms by (simp add: grants_def membership_of_rows rewritten_own)
  show "v \<noteq> u \<Longrightarrow> membership_of d' v ten = membership_of d v ten"
    using assms m(2) by (simp add: grants_def membership_of_rows rewritten_other [of u ten])
qed

lemma granted_role:
  "e > now \<Longrightarrow> effective_role now ((granted m r e)\<lparr>temporary_codenames := cs\<rparr>) = r"
  "e \<le> t \<Longrightarrow> effective_role t ((granted m r e)\<lparr>temporary_codenames := cs\<rparr>) = member_role m"
  "e \<le> t \<Longrightarrow> effective_permissions t ((granted m r e)\<lparr>temporary_codenames := cs\<rparr>) = role_codenames (member_role m)"
  "e > now \<Longrightarrow> set (effective_permissions now ((granted m r e)\<lparr>temporary_codenames := cs\<rparr>)) \<subseteq> set (role_codenames r)"
  by (auto simp: effective_role_def effective_permissions_def has_active_temporary_role_def)

lemma revoke_granted:
  assumes "grants q ten u m r e cs d d'"
  shows "\<exists>d''. revoke_temp_role q ten (Some u) d' = (Inr (), d'') \<and>
    membership_of d'' u ten = Some (m\<lparr>temporary_role := None, temporary_role_expires_at := None, temporary_codenames := []\<rparr>)"
proof -
  let ?x = "(granted m r e)\<lparr>temporary_codenames := cs\<rparr>"
  let ?y = "?x\<lparr>temporary_role := None, temporary_role_expires_at := None\<rparr>"
  have m: "m \<in> set (memberships (base d))" "own_row u ten m" "member_active m"
    using assms membership_of_SomeD by (auto simp: grants_def)
  then have y: "own_row u ten ?y" and x: "own_row u ten ?x" by (simp_all add: own_row_def)
  from membership_of_SomeD [OF granted_row(1) [OF assms]] have in_rows: "?x \<in> set (memberships (base d'))" by simp
  have q: "membership_of d' (user_id q) ten = membership_of d (user_id q) ten" "clock (base d') = clock (base d)"
    using granted_row(2) [OF assms] assms by (auto simp: grants_def)
  from write_rows [OF y x] obtain d'' where d'':
    "thenc (save_membership ?y) (set_temporary_permissions ?x []) d' = (Inr (), d'')"
    "memberships (base d'') = rewritten ?y [] (memberships (base d'))" by blast
  have "membership_of d'' u ten = Some (?y\<lparr>temporary_codenames := []\<rparr>)"
    unfolding membership_of_rows d''(2) using m(3) by (intro rewritten_own [OF in_rows x y]) simp
  moreover have "?y\<lparr>temporary_codenames := []\<rparr> =
      m\<lparr>temporary_role := None, temporary_role_expires_at := None, temporary_codenames := []\<rparr>"
    by (simp add: granted_def)
  moreover have "case membership_of d' (user_id q) ten of None \<Rightarrow> False | Some a \<Rightarrow> level_of d' a \<le> 10"
    using assms q by (auto simp: grants_def admin_of_def level_of_def)
  ultimately show ?thesis using d''(1) granted_row(1) [OF assms]
    by (simp add: revoke_temp_role_def run_bind run_asks)
qed

text \<open>
  A temporary role is temporary.  A successful grant was made by an admin to
  another member; while it lasts the member has the granted role, which is not
  the one called \<open>admin\<close>, and at most its permissions; from the expiry on the
  permanent role is in effect with all its permissions; and a revocation by the
  same admin restores the membership as it was without a grant.
\<close>

theorem temporary_role_is_temporary:
  assumes "grant_temp_role q ten uid rid ids expiry d = (Inr (), d')"
  shows "\<exists>u m r e x d''. uid = Some u \<and> u \<noteq> user_id q \<and> admin_of d q ten \<and> role_slug r \<noteq> ''admin'' \<and> e > clock (base d) \<and>
      membership_of d u ten = Some m \<and> membership_of d' u ten = Some x \<and>
      effective_role (clock (base d')) x = r \<and> set (effective_permissions (clock (base d')) x) \<subseteq> set (role_codenames r) \<and>
      (\<forall>t \<ge> e. effective_role t x = member_role m \<and> effective_permissions t x = role_codenames (member_role m)) \<and>
      revoke_temp_role q ten uid d' = (Inr (), d'') \<and>
      membership_of d'' u ten = Some (m\<lparr>temporary_role := None, temporary_role_expires_at := None, temporary_codenames := []\<rparr>)"
proof -
  from grant_succeeds [OF assms] obtain u m r e cs where u: "uid = Some u" and g: "grants q ten u m r e cs d d'" by blast
  let ?x = "(granted m r e)\<lparr>temporary_codenames := cs\<rparr>"
  have now: "e > clock (base d')" using g by (simp add: grants_def)
  obtain d'' where "revoke_temp_role q ten uid d' = (Inr (), d'')"
    "membership_of d'' u ten = Some (m\<lparr>temporary_role := None, temporary_role_expires_at := None, temporary_codenames := []\<rparr>)"
    using revoke_granted [OF g] u by blast
  moreover have "u \<noteq> user_id q" "admin_of d q ten" "role_slug r \<noteq> ''admin''" "e > clock (base d)" "membership_of d u ten = Some m"
    using g by (auto simp: grants_def)
  moreover have "effective_role (clock (base d')) ?x = r"
    "set (effective_permissions (clock (base d')) ?x) \<subseteq> set (role_codenames r)"
    using now by (simp_all add: granted_role)
  moreover note u granted_row(1) [OF g]
  moreover have "\<forall>t \<ge> e. effective_role t ?x = member_role m \<and> effective_permissions t ?x = role_codenames (member_role m)"
    by (simp add: granted_role)
  ultimately show ?thesis by (intro exI [of _ u] exI [of _ m] exI [of _ r] exI [of _ e] exI [of _ ?x] exI [of _ d''] conjI)
qed

section \<open>Holes\<close>

text \<open>
  A grant is not limited by the level of the role, only by its slug, and an
  explicit expiry is not limited to the 30 days a duration is limited to.
\<close>

theorem grant_ignores_level:
  assumes "admin_of d q ten" "membership_of d u ten = Some m" "u \<noteq> user_id q"
    and "first_row (\<lambda>x. role_id x = i \<and> role_tenant x = ten) (scoped (base d) role_tenant (roles d)) = Some r"
    and "role_slug r \<noteq> ''admin''" "e > clock (base d)"
  shows "\<exists>d' x. grant_temp_role q ten (Some u) (Some i) (Some []) (ExpiresAt (Some e)) d = (Inr (), d') \<and>
    membership_of d' u ten = Some x \<and> level_of d' x = hierarchy_level r"
proof -
  have "own_row u ten m" using membership_of_SomeD [OF assms(2)] by simp
  from write_grant_rows [OF this, of r e "[]" d] obtain d' where d': "write_grant m r e [] d = (Inr (), d')"
    "memberships (base d') = rewritten (granted m r e) [] (memberships (base d))" "clock (base d') = clock (base d)" by blast
  then have "grants q ten u m r e [] d d'" using assms by (simp add: grants_def)
  from granted_row(1) [OF this] have "membership_of d' u ten = Some ((granted m r e)\<lparr>temporary_codenames := []\<rparr>)" .
  moreover have "case membership_of d (user_id q) ten of None \<Rightarrow> False | Some a \<Rightarrow> level_of d a \<le> 10"
    using assms(1) by (auto simp: admin_of_def)
  ultimately show ?thesis using assms d'
    by (auto simp: grant_temp_role_def cmd_simps permission_subset_def resolve_expiry_def Let_def level_of_def granted_role)
qed

section \<open>Witnesses\<close>

definition other_user :: user where
  "other_user = \<lparr>user_id = 8, first_name = ''Bo'', last_name = ''M'', email = ''bo@acme''\<rparr>"

definition admin_row :: membership where
  "admin_row = demo_member demo_user (demo_role 1 ''admin'' 10 [])"

definition agent_row :: membership where
  "agent_row = demo_member other_user (demo_role 2 ''agent'' 30 [''ticket.view'', ''ticket.assign''])"

definition lead_role :: role where
  "lead_role = demo_role 3 ''lead'' 5 [''ticket.view'', ''ticket.export'']"

definition staff_desk :: "membership \<Rightarrow> desk" where
  "staff_desk m = demo_desk\<lparr>base := (base demo_desk)\<lparr>memberships := [admin_row, m]\<rparr>, roles := [lead_role]\<rparr>"

definition req_of :: "user \<Rightarrow> api_request" where
  "req_of u = \<lparr>req_user = Some u, req_tenant = Some 1\<rparr>"

definition curated_row :: membership where
  "curated_row = agent_row\<lparr>temporary_role := Some lead_role, temporary_role_expires_at := Some 5000,
     temporary_codenames := [''ticket.view'']\<rparr>"

lemma staff_simps [simp]:
  "user_id demo_user = 7" "user_id other_user = 8"
  "member_user admin_row = demo_user" "member_tenant admin_row = 1" "member_active admin_row"
  "member_role admin_row = demo_role 1 ''admin'' 10 []" "temporary_role admin_row = None"
  "member_user agent_row = other_user" "member_tenant agent_row = 1" "member_active agent_row"
  "member_role agent_row = demo_role 2 ''agent'' 30 [''ticket.view'', ''ticket.assign'']" "temporary_role agent_row = None"
  "hierarchy_level (demo_role i sl l ps) = l" "role_codenames (demo_role i sl l ps) = ps" "role_id (demo_role i sl l ps) = i"
  "role_slug (demo_role i sl l ps) = sl" "role_tenant (demo_role i sl l ps) = 1"
  "clock (base (staff_desk m)) = 1000" "memberships (base (staff_desk m)) = [admin_row, m]"
  "current_tenant (base (staff_desk m)) = Some 1" "roles (staff_desk m) = [lead_role]"
  "departments (staff_desk m) = []"
  "req_user (req_of u) = Some u" "req_tenant (req_of u) = Some 1"
  by (simp_all add: demo_user_def other_user_def admin_row_def agent_row_def demo_member_def demo_role_def
      staff_desk_def demo_desk_def demo_store_def req_of_def)

lemma staff_membership:
  "get_membership (staff_desk m) (req_of demo_user) = Some admin_row"
  "member_user m = other_user \<Longrightarrow> member_tenant m = 1 \<Longrightarrow> member_active m \<Longrightarrow> get_membership (staff_desk m) (req_of other_user) = Some m"
  by (simp_all add: get_membership_def membership_of_def)

lemma staff_levels [simp]: "level_of (staff_desk m) admin_row = 10" "level_of (staff_desk m) agent_row = 30"
  by (simp_all add: level_of_def effective_role_def has_active_temporary_role_def)

theorem list_and_object_checks_agree_witness:
  "agent_visible_tickets other_user [demo_ticket] = filter (is_ticket_accessible (staff_desk agent_row) (req_of other_user)) [demo_ticket] \<and>
   can_access_inbox_hub (staff_desk agent_row) (Some agent_row) \<and>
   hub_rows 8 (user_department_ids (staff_desk agent_row) 8 1) [] = filter (is_hub_email_accessible (staff_desk agent_row) (req_of other_user)) []"
proof -
  have "can_access_inbox_hub (staff_desk agent_row) (Some agent_row)"
    by (simp add: can_access_inbox_hub_def Let_def SUPERVISOR_HIERARCHY_LEVEL_def AGENT_HIERARCHY_LEVEL_def
        tenant_has_departments_def)
  then show ?thesis
    using list_and_object_checks_agree [of "req_of other_user" other_user "staff_desk agent_row" agent_row "[demo_ticket]" "[]"]
      staff_membership(2) [of agent_row] by simp
qed

theorem curated_role_is_hard_limit_witness:
  "has_tenant_permission (staff_desk curated_row) (req_of other_user) (Some ''ticket'') ''list'' \<and>
   (\<exists>v g. map_of ACTION_MAP ''list'' = Some v \<and> temporary_role curated_row = Some g \<and>
      ''ticket'' @ ''.'' @ v \<in> set (temporary_codenames curated_row) \<inter> set (role_codenames g))"
proof -
  have row: "get_membership (staff_desk curated_row) (req_of other_user) = Some curated_row"
    by (rule staff_membership) (simp_all add: curated_row_def)
  have active: "has_active_temporary_role (clock (base (staff_desk curated_row))) curated_row" "temporary_codenames curated_row \<noteq> []"
    by (simp_all add: curated_row_def has_active_temporary_role_def)
  have "has_tenant_permission (staff_desk curated_row) (req_of other_user) (Some ''ticket'') ''list''"
    using active by (simp add: has_tenant_permission_def row ACTION_MAP_def has_effective_permission_def effective_permissions_def)
      (simp add: curated_row_def lead_role_def)
  then show ?thesis using curated_role_is_hard_limit [OF row active] by blast
qed

theorem seniority_is_monotone_witness:
  "has_tenant_permission (staff_desk (agent_row\<lparr>member_role := demo_role 2 ''agent'' 30 []\<rparr>)) (req_of other_user) (Some ''ticket'') ''create'' \<and>
   has_tenant_permission (staff_desk (agent_row\<lparr>member_role := demo_role 2 ''agent'' 30 []\<rparr>)) (req_of demo_user) (Some ''ticket'') ''create''"
proof -
  let ?m = "agent_row\<lparr>member_role := demo_role 2 ''agent'' 30 []\<rparr>" let ?d = "staff_desk ?m"
  have rows: "get_membership ?d (req_of demo_user) = Some admin_row" "get_membership ?d (req_of other_user) = Some ?m"
    by (rule staff_membership, rule staff_membership) simp_all
  have lvl: "level_of ?d ?m = 30" by (simp add: level_role has_active_temporary_role_def)
  have "uncurated ?d admin_row" "uncurated ?d ?m" by (simp_all add: uncurated_def has_active_temporary_role_def)
  moreover have "set (effective_permissions (clock (base ?d)) ?m) \<subseteq> set (effective_permissions (clock (base ?d)) admin_row)"
    by (simp add: effective_permissions_def effective_role_def has_active_temporary_role_def)
  moreover have "has_tenant_permission ?d (req_of other_user) (Some ''ticket'') ''create''"
    by (simp add: has_tenant_permission_def rows ACTION_MAP_def hierarchy_floor_def lvl has_active_temporary_role_def)
  ultimately show ?thesis using seniority_is_monotone [OF rows, of "Some ''ticket''" "''create''"] lvl by simp
qed


lemma staff_grant: "\<exists>d' x. grant_temp_role demo_user 1 (Some 8) (Some 3) (Some []) (ExpiresAt (Some 9000000000000000)) (staff_desk agent_row) = (Inr (), d') \<and>
    membership_of d' 8 1 = Some x \<and> level_of d' x = 5"
proof -
  have "\<exists>d' x. grant_temp_role demo_user 1 (Some 8) (Some 3) (Some []) (ExpiresAt (Some 9000000000000000)) (staff_desk agent_row) = (Inr (), d') \<and>
    membership_of d' 8 1 = Some x \<and> level_of d' x = hierarchy_level lead_role"
    by (rule grant_ignores_level [where m = agent_row])
      (simp_all add: admin_of_def membership_of_def scoped_def lead_role_def)
  then show ?thesis by (simp add: lead_role_def)
qed

theorem temporary_role_is_temporary_witness:
  "\<exists>d' d''. grant_temp_role demo_user 1 (Some 8) (Some 3) (Some []) (ExpiresAt (Some 9000000000000000)) (staff_desk agent_row) = (Inr (), d') \<and>
     revoke_temp_role demo_user 1 (Some 8) d' = (Inr (), d'')"
proof -
  from staff_grant obtain d' where "grant_temp_role demo_user 1 (Some 8) (Some 3) (Some [])
      (ExpiresAt (Some 9000000000000000)) (staff_desk agent_row) = (Inr (), d')" by blast
  with temporary_role_is_temporary [OF this] show ?thesis by blast
qed

text \<open>
  The permission class of the Inbox Hub does not mirror \<open>HasTenantPermission\<close>: for
  the same member with one unrelated explicit permission, the generic class
  falls through to the hierarchy floor, the hub's class denies.
\<close>

theorem hub_permission_not_additive:
  "has_tenant_permission (staff_desk agent_row) (req_of other_user) (Some ''hub_email'') ''list'' \<and>
   \<not> hub_email_permission (staff_desk agent_row) (req_of other_user) ''list''"
proof
  have row: "get_membership (staff_desk agent_row) (req_of other_user) = Some agent_row" by (rule staff_membership) simp_all
  show "has_tenant_permission (staff_desk agent_row) (req_of other_user) (Some ''hub_email'') ''list''"
    by (simp add: has_tenant_permission_def row ACTION_MAP_def hierarchy_floor_def has_active_temporary_role_def)
  show "\<not> hub_email_permission (staff_desk agent_row) (req_of other_user) ''list''"
    by (simp add: hub_email_permission_def row Let_def AGENT_LEVEL_ACTIONS_def ACTION_CODENAMES_def
        has_effective_permission_def effective_permissions_def effective_role_def has_active_temporary_role_def)
qed

end
