(* ===== verification/Agents.thy ===== *)
theory Agents
  imports Desk "HOL-Library.List_Lexorder" "HOL-Library.Char_ord" "HOL-Library.Product_Lexorder" "HOL-Library.Option_ord"
begin

text \<open>
  Agents (\<open>apps/agents\<close>): capacity and presence of an agent, choosing an agent
  for a ticket, recounting the workload, and the presence heartbeat with the
  reaper of stale sessions.  Where a query leaves the order of equal rows to
  the database, the model takes the first in table order.
\<close>

section \<open>Capacity and presence\<close>

definition is_available :: "availability \<Rightarrow> bool" where
  "is_available a \<longleftrightarrow> av_status a = Online \<and> current_ticket_count a < max_concurrent_tickets a"

definition remaining_capacity :: "availability \<Rightarrow> nat" where
  "remaining_capacity a = max_concurrent_tickets a - current_ticket_count a"

definition second_us :: int where "second_us = 1000000"

definition presence_fresh :: "desk \<Rightarrow> availability \<Rightarrow> bool" where
  "presence_fresh d a = (case last_seen a of
     None \<Rightarrow> False
   | Some t \<Rightarrow> clock (base d) - t \<le> presence_ttl_seconds (settings_of d) * second_us)"

text \<open>\<open>timezone.localtime()\<close> in the zone of the server, and \<open>strftime("%H:%M")\<close>.\<close>

definition server_now :: "desk \<Rightarrow> local_dt" where
  "server_now d = astimezone (get_tz (zoneinfo_db (base d)) (server_time_zone (settings_of d))) (clock (base d))"

definition two_chars :: "nat \<Rightarrow> string" where
  "two_chars n = [char_of (48 + n div 10), char_of (48 + n mod 10)]"

definition hhmm :: "local_dt \<Rightarrow> string" where
  "hhmm c = (let m = nat (time_of c div minute_us) in two_chars (m div 60) @ '':'' @ two_chars (m mod 60))"

definition day_keys :: "string list" where
  "day_keys = [''mon'', ''tue'', ''wed'', ''thu'', ''fri'', ''sat'', ''sun'']"

text \<open>
  \<open>str(day.get(k) or default)\<close> for the documented values of the column, strings
  HH:MM; a number or a container in their place is not modelled.
\<close>

definition time_text :: "json \<Rightarrow> string \<Rightarrow> string \<Rightarrow> string" where
  "time_text day k dflt = (case jget_or_null day k of JStr s \<Rightarrow> if s = [] then dflt else s | _ \<Rightarrow> dflt)"

definition within_working_hours :: "desk \<Rightarrow> availability \<Rightarrow> bool" where
  "within_working_hours d a =
     (let hours = working_hours a; now_local = server_now d
      in if \<not> is_jobj hours \<or> \<not> truthy hours then True
         else case jget hours (day_keys ! nat (weekday now_local)) of
             None \<Rightarrow> True
           | Some day \<Rightarrow>
               if \<not> is_jobj day \<or> \<not> truthy (jget_or_null day ''enabled'') then True
               else time_text day ''start'' ''00:00'' \<le> hhmm now_local \<and> hhmm now_local \<le> time_text day ''end'' ''23:59'')"

definition is_assignable :: "desk \<Rightarrow> availability \<Rightarrow> bool" where
  "is_assignable d a =
     (if av_status a \<noteq> Online then False
      else if remaining_capacity a \<le> 0 then False
      else if \<not> presence_fresh d a then False
      else if auto_away_outside_hours a \<and> \<not> within_working_hours d a then False
      else True)"

section \<open>Rows of agents\<close>

definition availability_of :: "desk \<Rightarrow> tenant_id \<Rightarrow> user_id \<Rightarrow> availability option" where
  "availability_of d ten u = first_row (\<lambda>a. av_tenant a = ten \<and> user_id (av_user a) = u) (availabilities d)"

definition availability_row :: "desk \<Rightarrow> nat \<Rightarrow> availability option" where
  "availability_row d i = first_row (\<lambda>a. av_id a = i) (availabilities d)"

text \<open>\<open>AgentAvailability.unscoped.filter(p).update(...)\<close>; the count is the number of rows.\<close>

definition update_availabilities :: "(availability \<Rightarrow> bool) \<Rightarrow> (availability \<Rightarrow> availability) \<Rightarrow> unit act" where
  "update_availabilities p f = update (\<lambda>d. d\<lparr>availabilities := map (\<lambda>a. if p a then f a else a) (availabilities d)\<rparr>)"

definition one_more :: "instant \<Rightarrow> availability \<Rightarrow> availability" where
  "one_more now a = a\<lparr>current_ticket_count := current_ticket_count a + 1, last_activity := Some now\<rparr>"

section \<open>Choosing an agent for a ticket\<close>

definition get_available_agent :: "desk \<Rightarrow> tenant_id \<Rightarrow> queue option \<Rightarrow> availability option" where
  "get_available_agent d ten q =
     (let base_qs = filter (\<lambda>a. av_tenant a = ten \<and> is_available a) (availabilities d);
          preferred = (case q of None \<Rightarrow> None | Some x \<Rightarrow> (case queue_default_assignee x of
              None \<Rightarrow> None | Some u \<Rightarrow> first_row (\<lambda>a. user_id (av_user a) = u) base_qs))
      in case preferred of Some a \<Rightarrow> Some a | None \<Rightarrow> first_by current_ticket_count base_qs)"

definition closed_status_ids :: "store \<Rightarrow> tenant_id \<Rightarrow> nat list" where
  "closed_status_ids s ten = map status_id (filter (\<lambda>x. status_tenant x = ten \<and> is_closed x) (statuses s))"

definition has_open_status :: "store \<Rightarrow> tenant_id \<Rightarrow> ticket \<Rightarrow> bool" where
  "has_open_status s ten t \<longleftrightarrow> (case status t of None \<Rightarrow> True | Some x \<Rightarrow> status_id x \<notin> set (closed_status_ids s ten))"

text \<open>\<open>update_ticket_count\<close> counts deleted tickets too.\<close>

definition actual_count :: "desk \<Rightarrow> availability \<Rightarrow> nat" where
  "actual_count d a = length (filter (\<lambda>t. tenant_id (ticket_tenant t) = av_tenant a \<and>
     map_option user_id (assignee t) = Some (user_id (av_user a)) \<and> has_open_status (base d) (av_tenant a) t)
     (tickets (base d)))"

definition update_ticket_count :: "availability \<Rightarrow> nat act" where
  "update_ticket_count a =
     bindc (asks (\<lambda>d. actual_count d a)) (\<lambda>n.
       thenc (whenc (current_ticket_count a \<noteq> n)
           (update_availabilities (\<lambda>r. av_id r = av_id a) (\<lambda>r. r\<lparr>current_ticket_count := n\<rparr>)))
         (ret n))"

definition auto_assign_ticket :: "ticket \<Rightarrow> user option act" where
  "auto_assign_ticket t =
     (let ten = tenant_id (ticket_tenant t)
      in bindc (asks (\<lambda>d. get_available_agent d ten (queue_of t))) (\<lambda>agent. case agent of
        None \<Rightarrow> ret None
      | Some a \<Rightarrow> atomically (
          bindc (asks (\<lambda>d. availability_row d (av_id a))) (\<lambda>locked. case locked of
            None \<Rightarrow> ret None
          | Some l \<Rightarrow>
              if av_status l \<noteq> Online \<or> current_ticket_count l \<ge> max_concurrent_tickets l then ret None
              else bindc (on_base (save_ticket (Some [CAssignee, CUpdatedAt]) (t\<lparr>assignee := Some (av_user l)\<rparr>))) (\<lambda>t'.
                bindc now_of (\<lambda>now.
                thenc (update_availabilities (\<lambda>r. av_id r = av_id l) (one_more now))
                (thenc (on_base (create_assignment t' (av_user l) None
                    ''Auto-assigned based on agent availability and workload.''))
                  (ret (Some (av_user l))))))))))"

section \<open>Choosing an agent for an email\<close>

definition AGENT_ROLE_LEVEL :: nat where "AGENT_ROLE_LEVEL = 30"

definition open_ticket_count :: "desk \<Rightarrow> tenant_id \<Rightarrow> user_id \<Rightarrow> nat" where
  "open_ticket_count d ten u = length (filter (\<lambda>t. tenant_id (ticket_tenant t) = ten \<and> \<not> is_deleted t \<and>
     map_option user_id (assignee t) = Some u \<and> has_open_status (base d) ten t) (tickets (base d)))"

text \<open>\<open>Max("created_at")\<close>: \<open>None\<close> (which sorts first) when there is no row.\<close>

definition latest :: "instant list \<Rightarrow> instant option" where
  "latest ts = (if ts = [] then None else Some (Max (set ts)))"

definition last_ticket_assignment :: "desk \<Rightarrow> tenant_id \<Rightarrow> user_id \<Rightarrow> instant option" where
  "last_ticket_assignment d ten u = latest (map asg_at (filter (\<lambda>x. asg_tenant x = ten \<and> user_id (asg_to x) = u)
     (assignments (base d))))"

definition offline_user_ids :: "desk \<Rightarrow> tenant_id \<Rightarrow> user_id list" where
  "offline_user_ids d ten = map (\<lambda>a. user_id (av_user a))
     (filter (\<lambda>a. av_tenant a = ten \<and> av_status a = Offline) (availabilities d))"

definition email_candidates :: "desk \<Rightarrow> tenant_id \<Rightarrow> user list" where
  "email_candidates d ten = map member_user (filter (\<lambda>m. member_tenant m = ten \<and> member_active m \<and>
     hierarchy_level (member_role m) = AGENT_ROLE_LEVEL \<and> user_id (member_user m) \<notin> set (offline_user_ids d ten))
     (memberships (base d)))"

definition email_rank :: "desk \<Rightarrow> tenant_id \<Rightarrow> user \<Rightarrow> nat \<times> instant option" where
  "email_rank d ten u = (open_ticket_count d ten (user_id u), last_ticket_assignment d ten (user_id u))"

definition pick_email_agent :: "desk \<Rightarrow> tenant_id \<Rightarrow> user option" where
  "pick_email_agent d ten = first_by (email_rank d ten) (email_candidates d ten)"

definition auto_assign_email_ticket :: "ticket \<Rightarrow> user option act" where
  "auto_assign_email_ticket t =
     (if assignee t \<noteq> None then ret None
      else let ten = tenant_id (ticket_tenant t)
      in bindc (asks (\<lambda>d. pick_email_agent d ten)) (\<lambda>found. case found of
        None \<Rightarrow> ret None
      | Some u \<Rightarrow> atomically (
          bindc (on_base (save_ticket (Some [CAssignee, CUpdatedAt]) (t\<lparr>assignee := Some u\<rparr>))) (\<lambda>t'.
          thenc (on_base (create_assignment t' u None ''Auto-assigned from inbound email (load + fairness).''))
          (bindc now_of (\<lambda>now.
           thenc (update_availabilities (\<lambda>r. av_tenant r = ten \<and> user_id (av_user r) = user_id u) (one_more now))
             (ret (Some u))))))))"

section \<open>Presence\<close>

definition touch_presence :: "user \<Rightarrow> tenant_id \<Rightarrow> (agent_status \<times> agent_status) option act" where
  "touch_presence u ten =
     bindc now_of (\<lambda>now.
     bindc (asks (\<lambda>d. presence_auto_online (settings_of d))) (\<lambda>auto_online.
     bindc (asks (\<lambda>d. availability_of d ten (user_id u))) (\<lambda>found. case found of
       None \<Rightarrow>
         bindc fresh_pk (\<lambda>i.
         thenc (update (\<lambda>d. d\<lparr>availabilities := availabilities d @
           [\<lparr>av_id = i, av_tenant = ten, av_user = u, av_status = (if auto_online then Online else Offline),
             max_concurrent_tickets = 10, current_ticket_count = 0, last_activity = Some now, last_seen = Some now,
             working_hours = JObj [], auto_away_outside_hours = False\<rparr>]\<rparr>))
         (ret (if auto_online then Some (Offline, Online) else None)))
     | Some a \<Rightarrow>
         let new_status = (if auto_online \<and> av_status a = Offline then Online else av_status a)
         in thenc (update_availabilities (\<lambda>r. av_id r = av_id a)
              (\<lambda>r. r\<lparr>last_seen := Some now, last_activity := Some now, av_status := new_status\<rparr>))
            (ret (if new_status \<noteq> av_status a then Some (av_status a, new_status) else None)))))"

definition status_name_of :: "agent_status \<Rightarrow> string" where
  "status_name_of x = (case x of Online \<Rightarrow> ''online'' | Away \<Rightarrow> ''away'' | Busy \<Rightarrow> ''busy'' | Offline \<Rightarrow> ''offline'')"

definition broadcast_presence :: "tenant_id \<Rightarrow> user_id \<Rightarrow> agent_status \<Rightarrow> unit act" where
  "broadcast_presence ten u st = broadcast_live_event ten ''agent.presence''
     (JObj [(''user_id'', jpk u), (''status'', JStr (status_name_of st))])"

definition stale_session :: "desk \<Rightarrow> availability \<Rightarrow> bool" where
  "stale_session d a \<longleftrightarrow> av_status a = Online \<and> (case last_seen a of
     None \<Rightarrow> True | Some t \<Rightarrow> t < clock (base d) - presence_ttl_seconds (settings_of d) * second_us)"

definition reap_session :: "availability \<Rightarrow> nat \<Rightarrow> nat act" where
  "reap_session a reaped =
     thenc (update_availabilities (\<lambda>r. av_id r = av_id a) (\<lambda>r. r\<lparr>av_status := Away\<rparr>))
       (thenc (broadcast_presence (av_tenant a) (user_id (av_user a)) Away)
         (ret (reaped + 1)))"

definition reap_stale_presence :: "nat act" where
  "reap_stale_presence =
     bindc (asks (\<lambda>d. filter (stale_session d) (availabilities d))) (\<lambda>stale. for_each stale reap_session 0)"

end
