(* ===== verification/Agents_Laws.thy ===== *)
theory Agents_Laws
  imports Agents
begin

text \<open>
  Laws of the agents application: what the reaper of stale sessions leaves,
  what a heartbeat does to a reaped agent, and whom the two automatic
  assignments choose.
\<close>

section \<open>Presence\<close>

definition put_away :: "availability set \<Rightarrow> availability \<Rightarrow> availability" where
  "put_away S a = (if av_id a \<in> av_id ` S then a\<lparr>av_status := Away\<rparr> else a)"

definition away_events :: "availability list \<Rightarrow> delivery list" where
  "away_events xs = map (\<lambda>a. LiveEvent (av_tenant a) ''agent.presence''
     (JObj [(''user_id'', jpk (user_id (av_user a))), (''status'', JStr ''away'')])) xs"

lemma reap_step: "reap_session a n d =
   (Inr (n + 1), d\<lparr>availabilities := map (put_away {a}) (availabilities d), deliveries := deliveries d @ away_events [a]\<rparr>)"
  by (simp add: reap_session_def cmd_simps update_availabilities_def broadcast_presence_def status_name_of_def
      away_events_def put_away_def)

lemma put_away_twice: "put_away S \<circ> put_away {x} = put_away (insert x S)"
  by (rule ext) (simp add: put_away_def)

lemma reap_run: "for_each xs reap_session n d =
   (Inr (n + length xs), d\<lparr>availabilities := map (put_away (set xs)) (availabilities d),
      deliveries := deliveries d @ away_events xs\<rparr>)"
proof (induction xs arbitrary: n d)
  case Nil
  have "put_away {} = id" by (rule ext) (simp add: put_away_def)
  then show ?case by (simp add: cmd_simps away_events_def)
next
  case (Cons x xs)
  have "for_each (x # xs) reap_session n d = (case reap_session x n d of (Inl e, s') \<Rightarrow> (Inl e, s')
      | (Inr a, s') \<Rightarrow> for_each xs reap_session a s')"
    by (simp only: for_each.simps run_bind)
  also have "\<dots> = for_each xs reap_session (n + 1) (d\<lparr>availabilities := map (put_away {x}) (availabilities d),
      deliveries := deliveries d @ away_events [x]\<rparr>)"
    by (subst reap_step) simp
  finally show ?case by (subst (asm) Cons.IH) (simp add: put_away_twice away_events_def)
qed

lemma stale_iff: "stale_session d a \<longleftrightarrow> av_status a = Online \<and> \<not> presence_fresh d a"
  by (auto simp: stale_session_def presence_fresh_def split: option.splits)

lemma reap_result: "reap_stale_presence d =
  (Inr (length (filter (stale_session d) (availabilities d))),
   d\<lparr>availabilities := map (put_away (set (filter (stale_session d) (availabilities d)))) (availabilities d),
     deliveries := deliveries d @ away_events (filter (stale_session d) (availabilities d))\<rparr>)"
  unfolding reap_stale_presence_def run_bind run_asks by (simp only: prod.case sum.case reap_run add_0)

lemma same_id:
  assumes "distinct (map av_id as)" "a \<in> set as" "b \<in> set as" "av_id a = av_id b"
  shows "a = b"
  using assms by (metis distinct_map inj_onD)

lemma put_away_stale:
  assumes "distinct (map av_id (availabilities d))" "a \<in> set (availabilities d)"
  shows "put_away (set (filter (stale_session d) (availabilities d))) a =
    (if stale_session d a then a\<lparr>av_status := Away\<rparr> else a)"
  using assms same_id [OF assms(1)] by (auto simp: put_away_def)

lemma presence_fresh_frame [simp]:
  "presence_fresh (d\<lparr>availabilities := as, deliveries := ds\<rparr>) = presence_fresh d"
  "presence_fresh d (a\<lparr>av_status := st\<rparr>) = presence_fresh d a"
  "within_working_hours (d\<lparr>availabilities := as, deliveries := ds\<rparr>) = within_working_hours d"
  by (auto simp: fun_eq_iff presence_fresh_def within_working_hours_def server_now_def Let_def split: option.splits)

lemma filter_map_unless:
  "(\<And>a. Q a \<Longrightarrow> \<not> P (g a)) \<Longrightarrow> (\<And>a. Q a \<Longrightarrow> \<not> P a) \<Longrightarrow>
   filter P (map (\<lambda>a. if Q a then g a else a) as) = filter P as"
  by (induction as) auto


definition demo_agent :: "nat \<Rightarrow> user \<Rightarrow> nat \<Rightarrow> instant \<Rightarrow> availability" where
  "demo_agent i u n seen = \<lparr>av_id = i, av_tenant = 1, av_user = u, av_status = Online, max_concurrent_tickets = 3,
     current_ticket_count = n, last_activity = None, last_seen = Some seen, working_hours = JObj [],
     auto_away_outside_hours = False\<rparr>"

definition agents_desk :: desk where
  "agents_desk = demo_desk\<lparr>availabilities :=
     [demo_agent 60 demo_user 2 (clock demo_store - 200 * second_us), demo_agent 61 (demo_user\<lparr>user_id := 8\<rparr>) 1 (clock demo_store)]\<rparr>"

lemma agents_desk_rows: "availabilities agents_desk =
    [demo_agent 60 demo_user 2 (clock (base agents_desk) - 200 * second_us),
     demo_agent 61 (demo_user\<lparr>user_id := 8\<rparr>) 1 (clock (base agents_desk))]"
  and agents_desk_ttl: "presence_ttl_seconds (settings_of agents_desk) = 90"
  by (simp_all add: agents_desk_def demo_desk_def)

lemma agents_desk_stale: "filter (stale_session agents_desk) (availabilities agents_desk) =
    [demo_agent 60 demo_user 2 (clock (base agents_desk) - 200 * second_us)]"
  unfolding agents_desk_rows
  by (simp add: stale_session_def demo_agent_def agents_desk_ttl second_us_def)


text \<open>
  A heartbeat brings an agent who is offline online, but not one the reaper
  put away: an agent whose session was reaped stays away on reconnecting, with
  a fresh heartbeat, and is not given work until the status is set by hand.
\<close>

definition row_ids_ok :: "desk \<Rightarrow> bool" where
  "row_ids_ok d \<longleftrightarrow> distinct (map av_id (availabilities d)) \<and>
     distinct (map (\<lambda>a. (av_tenant a, user_id (av_user a))) (availabilities d))"

lemma availability_of_row:
  assumes "row_ids_ok d" "a \<in> set (availabilities d)"
  shows "availability_of d (av_tenant a) (user_id (av_user a)) = Some a"
proof -
  have "first_row (\<lambda>r. av_tenant r = av_tenant a \<and> user_id (av_user r) = user_id (av_user a)) as = Some a"
    if "a \<in> set as" "distinct (map (\<lambda>a. (av_tenant a, user_id (av_user a))) as)" for as
    using that by (induction as) (auto simp: rev_image_eqI)
  then show ?thesis using assms by (simp add: availability_of_def row_ids_ok_def)
qed

definition beaten :: "desk \<Rightarrow> availability \<Rightarrow> availability" where
  "beaten d a = a\<lparr>last_seen := Some (clock (base d)), last_activity := Some (clock (base d)),
     av_status := (if presence_auto_online (settings_of d) \<and> av_status a = Offline then Online else av_status a)\<rparr>"

lemma touch_existing:
  assumes "row_ids_ok d" "a \<in> set (availabilities d)"
  shows "touch_presence (av_user a) (av_tenant a) d =
    (Inr (if av_status (beaten d a) \<noteq> av_status a then Some (av_status a, av_status (beaten d a)) else None),
     d\<lparr>availabilities := map (\<lambda>r. if av_id r = av_id a then beaten d a else r) (availabilities d)\<rparr>)"
proof -
  have "r = a" if "r \<in> set (availabilities d)" "av_id r = av_id a" for r
    using that same_id [of "availabilities d" r a] assms by (auto simp: row_ids_ok_def)
  note only = this
  have "beaten d a = a\<lparr>last_seen := Some (clock (base d)), last_activity := Some (clock (base d)),
         av_status := av_status (beaten d a)\<rparr>"
    by (simp add: beaten_def)
  then have "map (\<lambda>r. if av_id r = av_id a then beaten d a else r) (availabilities d) =
      map (\<lambda>r. if av_id r = av_id a then r\<lparr>last_seen := Some (clock (base d)), last_activity := Some (clock (base d)),
         av_status := av_status (beaten d a)\<rparr> else r) (availabilities d)"
    using only by (intro map_cong refl) metis
  then show ?thesis
    by (simp only:) (simp add: touch_presence_def cmd_simps availability_of_row [OF assms] update_availabilities_def
      Let_def beaten_def)
qed

theorem reaped_agent_stays_away:
  assumes "row_ids_ok d" "a \<in> set (availabilities d)" "stale_session d a"
    and "reap_stale_presence d = (r, d1)" "touch_presence (av_user a) (av_tenant a) d1 = (r', d2)"
  shows "r' = Inr None \<and> (\<exists>b \<in> set (availabilities d2). av_id b = av_id a \<and> av_status b = Away \<and>
    last_seen b = Some (clock (base d)) \<and> \<not> is_assignable d2 b)"
proof -
  let ?b = "a\<lparr>av_status := Away\<rparr>"
  have d1: "availabilities d1 = map (\<lambda>a. if stale_session d a then a\<lparr>av_status := Away\<rparr> else a) (availabilities d)"
    "base d1 = base d"
    using assms(1,4) put_away_stale [of d] unfolding reap_result row_ids_ok_def
    by (auto simp del: set_filter cong: map_cong)
  have "?b \<in> set (availabilities d1)" using assms(2,3) by (auto simp: d1 image_iff)
  moreover have "row_ids_ok d1" using assms(1) by (simp add: row_ids_ok_def d1 o_def if_distrib cong: if_cong)
  ultimately have "touch_presence (av_user ?b) (av_tenant ?b) d1 = (Inr None,
      d1\<lparr>availabilities := map (\<lambda>r. if av_id r = av_id ?b then beaten d1 ?b else r) (availabilities d1)\<rparr>)"
    by (subst touch_existing) (simp_all add: beaten_def)
  then have r': "r' = Inr None" and
    d2: "d2 = d1\<lparr>availabilities := map (\<lambda>r. if av_id r = av_id a then beaten d1 ?b else r) (availabilities d1)\<rparr>"
    using assms(5) by simp_all
  have "beaten d1 ?b \<in> set (availabilities d2)" using \<open>?b \<in> set (availabilities d1)\<close> by (force simp: d2)
  moreover have "\<not> is_assignable d2 (beaten d1 ?b)" by (simp add: is_assignable_def beaten_def)
  ultimately show ?thesis by (auto simp: r' beaten_def d1 intro!: bexI [of _ "beaten d1 ?b"])
qed

section \<open>Automatic assignment\<close>

definition preferred_by :: "queue option \<Rightarrow> availability \<Rightarrow> bool" where
  "preferred_by q a \<longleftrightarrow> (\<exists>x. q = Some x \<and> queue_default_assignee x = Some (user_id (av_user a)))"

lemma get_available_agent_chooses:
  assumes "get_available_agent d ten q = Some a"
  shows "a \<in> set (availabilities d)" "av_tenant a = ten" "is_available a"
    and "preferred_by q a \<or> list_all (\<lambda>b. av_tenant b = ten \<and> is_available b \<longrightarrow>
      current_ticket_count a \<le> current_ticket_count b) (availabilities d)"
proof -
  let ?qs = "filter (\<lambda>a. av_tenant a = ten \<and> is_available a) (availabilities d)"
  let ?preferred = "case q of None \<Rightarrow> None | Some x \<Rightarrow> (case queue_default_assignee x of
      None \<Rightarrow> None | Some u \<Rightarrow> first_row (\<lambda>a. user_id (av_user a) = u) ?qs)"
  have "a \<in> set ?qs \<and> (preferred_by q a \<or> (\<forall>b \<in> set ?qs. current_ticket_count a \<le> current_ticket_count b))"
  proof (cases ?preferred)
    case None
    then have "first_by current_ticket_count ?qs = Some a"
      using assms by (simp only: get_available_agent_def Let_def option.case)
    from first_by_least [OF this] show ?thesis by blast
  next
    case (Some b)
    then have "a = b" using assms by (simp only: get_available_agent_def Let_def option.case) simp
    obtain x u where "q = Some x" "queue_default_assignee x = Some u"
      "first_row (\<lambda>a. user_id (av_user a) = u) ?qs = Some b"
      using Some by (auto split: option.splits)
    then have "b \<in> set ?qs" "preferred_by q b" using first_row_SomeD [of _ ?qs b] by (auto simp: preferred_by_def)
    then show ?thesis by (simp only: \<open>a = b\<close> simp_thms)
  qed
  then show "a \<in> set (availabilities d)" "av_tenant a = ten" "is_available a"
    and "preferred_by q a \<or> list_all (\<lambda>b. av_tenant b = ten \<and> is_available b \<longrightarrow>
      current_ticket_count a \<le> current_ticket_count b) (availabilities d)"
    by (auto simp: list_all_iff)
qed

lemma availability_row_self:
  assumes "distinct (map av_id (availabilities d))" "a \<in> set (availabilities d)"
  shows "availability_row d (av_id a) = Some a"
proof -
  have "first_row (\<lambda>r. av_id r = av_id a) as = Some a" if "a \<in> set as" "distinct (map av_id as)" for as
    using that by (induction as) (auto simp: rev_image_eqI)
  then show ?thesis using assms by (simp add: availability_row_def)
qed

lemma on_base_returns: "on_base c d = (Inr a, d') \<longleftrightarrow> (\<exists>s. c (base d) = (Inr a, s) \<and> d' = d\<lparr>base := s\<rparr>)"
  by (auto simp: on_base_def split: prod.splits)

lemma now_of_returns: "now_of d = (Inr t, d') \<longleftrightarrow> t = clock (base d) \<and> d' = d"
  by (auto simp: run_now)

lemmas desk_returns = returns on_base_returns now_of_returns

text \<open>The desk after an automatic assignment: the count of one agent is one higher.\<close>

definition bump :: "availability \<Rightarrow> instant \<Rightarrow> availability list \<Rightarrow> availability list" where
  "bump a now as = map (\<lambda>r. if av_id r = av_id a then one_more now r else r) as"

lemma bump_returns: "update_availabilities (\<lambda>r. av_id r = av_id a) (one_more now) d = (Inr (), d') \<longleftrightarrow>
    d' = d\<lparr>availabilities := bump a now (availabilities d)\<rparr>"
  by (auto simp: update_availabilities_def bump_def run_update)

definition assigned_to :: "desk \<Rightarrow> user \<Rightarrow> bool" where
  "assigned_to d u \<longleftrightarrow> (\<exists>xs x. assignments (base d) = xs @ [x] \<and> asg_to x = u \<and> asg_by x = None)"

lemma auto_assign_run:
  assumes "distinct (map av_id (availabilities d))" "auto_assign_ticket t d = (Inr (Some u), d')"
  obtains a now where "get_available_agent d (tenant_id (ticket_tenant t)) (queue_of t) = Some a" "u = av_user a"
    "availabilities d' = bump a now (availabilities d)" "assigned_to d' u"
proof -
  let ?ten = "tenant_id (ticket_tenant t)"
  obtain a where a: "get_available_agent d ?ten (queue_of t) = Some a"
    using assms(2) by (cases "get_available_agent d ?ten (queue_of t)") (simp_all add: auto_assign_ticket_def Let_def cmd_simps)
  have row: "availability_row d (av_id a) = Some a"
    using get_available_agent_chooses(1) [OF a] assms(1) by (rule availability_row_self [rotated])
  have "is_available a" by (rule get_available_agent_chooses(3) [OF a])
  then have guard: "\<not> (av_status a \<noteq> Online \<or> current_ticket_count a \<ge> max_concurrent_tickets a)"
    by (simp add: is_available_def)
  from assms(2) have "atomically (bindc (on_base (save_ticket (Some [CAssignee, CUpdatedAt]) (t\<lparr>assignee := Some (av_user a)\<rparr>))) (\<lambda>t'.
      bindc now_of (\<lambda>now.
      thenc (update_availabilities (\<lambda>r. av_id r = av_id a) (one_more now))
      (thenc (on_base (create_assignment t' (av_user a) None ''Auto-assigned based on agent availability and workload.''))
        (ret (Some (av_user a))))))) d = (Inr (Some u), d')"
    unfolding auto_assign_ticket_def Let_def
    by (simp only: run_bind run_asks run_atomic a row guard option.case prod.case sum.case if_False)
  then have "\<exists>(t' :: ticket) s. d' = d\<lparr>availabilities := bump a (clock s) (availabilities d), base := s\<lparr>assignments := assignments s @ [\<lparr>asg_ticket = pk t', asg_to = av_user a,
       asg_by = None, asg_note = ''Auto-assigned based on agent availability and workload.'',
       asg_tenant = tenant_id (ticket_tenant t'), asg_at = clock s\<rparr>]\<rparr>\<rparr> \<and> u = av_user a"
    by (clarsimp simp: desk_returns bump_returns create_assignment_def) (rule exI, rule exI, rule refl)
  then show ?thesis using that [OF a] by (auto simp: assigned_to_def)
qed


lemma agents_desk_assigns:
  "fst (auto_assign_ticket demo_ticket agents_desk) = Inr (Some (demo_user\<lparr>user_id := 8\<rparr>))"
  by code_simp


end
