(* ===== verification/Email_Text.thy ===== *)
theory Email_Text
  imports Desk
begin

text \<open>
  The text of emails: message ids and headers, senders, quoted replies
  (\<open>apps/inbound_email/utils.py\<close>), the filters for loops, bounces and automatic
  replies (\<open>filters.py\<close>), ticket references in subjects and the lookups that
  thread a reply (\<open>threading.py\<close>), and the addresses and subjects of outbound
  mail (\<open>apps/tickets/email_service.py\<close>).  A regular expression of the source is
  a recogniser here; text is ASCII.
\<close>

definition newline :: char where "newline = CHR 0x0A"
definition carriage_return :: char where "carriage_return = CHR 0x0D"
definition is_blank :: "char \<Rightarrow> bool" where "is_blank c \<longleftrightarrow> c = CHR '' '' \<or> c = CHR 0x09"
definition is_angle :: "char \<Rightarrow> bool" where "is_angle c \<longleftrightarrow> c = CHR ''<'' \<or> c = CHR ''>''"

section \<open>Message ids and headers\<close>

definition normalize_message_id :: "string \<Rightarrow> string" where
  "normalize_message_id raw_id = (if raw_id = [] then [] else strip (strip_by is_angle (strip raw_id)))"

definition normalize_references :: "string \<Rightarrow> string" where
  "normalize_references raw = join '' '' (map normalize_message_id (filter (\<lambda>r. strip r \<noteq> []) (py_split raw)))"

text \<open>\<open>re.sub(r"\r?\n([ \t]+)", " ", raw)\<close>\<close>

function unfold_headers :: "string \<Rightarrow> string" where
  "unfold_headers [] = []"
| "unfold_headers (c # cs) =
     (if c = newline \<and> cs \<noteq> [] \<and> is_blank (hd cs) then CHR '' '' # unfold_headers (dropWhile is_blank cs)
      else if c = carriage_return \<and> length cs \<ge> 2 \<and> hd cs = newline \<and> is_blank (cs ! 1)
      then CHR '' '' # unfold_headers (dropWhile is_blank (tl cs))
      else c # unfold_headers cs)"
  by pat_completeness auto

termination
proof (relation "measure length")
  fix c :: char and cs :: string
  show "(dropWhile is_blank cs, c # cs) \<in> measure length" using length_dropWhile_le [of is_blank cs] by simp
  show "(dropWhile is_blank (tl cs), c # cs) \<in> measure length"
    using length_dropWhile_le [of is_blank "tl cs"] by simp
qed simp_all

text \<open>\<open>line.split(":", 1)[1]\<close>: what follows the first occurrence of the character.\<close>

definition after_first :: "char \<Rightarrow> string \<Rightarrow> string" where
  "after_first c s = tl (dropWhile (\<lambda>x. x \<noteq> c) s)"

definition extract_header :: "string \<Rightarrow> string \<Rightarrow> string" where
  "extract_header raw header_name =
     (if raw = [] then []
      else case first_row (\<lambda>line. startswith (lower line) (lower header_name @ '':''))
             (split_on newline (unfold_headers raw)) of
        None \<Rightarrow> []
      | Some line \<Rightarrow> normalize_message_id (strip (after_first (CHR '':'') line)))"

section \<open>Senders\<close>

text \<open>
  \<open>^(.+?)\s*<(.+?)>$\<close> on a stripped header value without line breaks: the
  first \<open><\<close> that is not the first character, and a \<open>>\<close> at the end.
\<close>

definition parse_sender :: "string \<Rightarrow> string \<times> string" where
  "parse_sender sender_raw =
     (let s = strip sender_raw; display = take 1 s @ takeWhile (\<lambda>c. c \<noteq> CHR ''<'') (drop 1 s);
          address = drop (length display + 1) s
      in if length address \<ge> 2 \<and> last address = CHR ''>''
         then (strip_by (\<lambda>c. c = CHR 0x22) (strip display), strip (butlast address))
         else ([], strip_by is_angle s))"

section \<open>Quoted replies\<close>

definition drop_prefix :: "string \<Rightarrow> string \<Rightarrow> string option" where
  "drop_prefix p s = (if startswith s p then Some (drop (length p) s) else None)"

text \<open>\<open>-{3,}\s*(original|forwarded)\s+(message|mail)\s*-{3,}\<close> at the start of a lower-case line.\<close>

definition dashes :: "string \<Rightarrow> nat" where
  "dashes s = length (takeWhile (\<lambda>c. c = CHR ''-'') s)"

definition first_of :: "string list \<Rightarrow> string \<Rightarrow> string option" where
  "first_of ps s = (case filter (startswith s) ps of [] \<Rightarrow> None | p # _ \<Rightarrow> drop_prefix p s)"

definition forward_separator :: "string \<Rightarrow> bool" where
  "forward_separator s =
     (dashes s \<ge> 3 \<and> (case first_of [''original'', ''forwarded''] (dropWhile is_space (drop (dashes s) s)) of
        None \<Rightarrow> False
      | Some r \<Rightarrow> r \<noteq> [] \<and> is_space (hd r) \<and> (case first_of [''message'', ''mail''] (dropWhile is_space r) of
          None \<Rightarrow> False
        | Some r' \<Rightarrow> dashes (dropWhile is_space r') \<ge> 3)))"

text \<open>
  The delimiters of a quoted block on a stripped line; the Apple Mail and Gmail
  variants of the source are special cases of the first two.
\<close>

definition is_delimiter :: "string \<Rightarrow> bool" where
  "is_delimiter line =
     (let s = lower line
      in (startswith s ''on '' \<and> endswith s ''wrote:'' \<and> length s \<ge> 10)
         \<or> forward_separator s
         \<or> (case drop_prefix ''from:'' s of None \<Rightarrow> False | Some r \<Rightarrow> length r \<ge> 2 \<and> is_space (hd r))
         \<or> (length s \<ge> 5 \<and> list_all (\<lambda>c. c = CHR ''_'') s))"

fun kept_lines :: "string list \<Rightarrow> string list" where
  "kept_lines [] = []"
| "kept_lines (line # lines) =
     (if startswith (strip line) ''>'' then kept_lines lines
      else if is_delimiter (strip line) then []
      else line # kept_lines lines)"

definition strip_quoted_reply :: "string \<Rightarrow> string" where
  "strip_quoted_reply body = (if body = [] then []
     else rstrip_by is_space (join [newline] (kept_lines (split_on newline body))))"

section \<open>Filters\<close>

definition NOREPLY_PREFIXES :: "string list" where
  "NOREPLY_PREFIXES = [''noreply@'', ''no-reply@'', ''no_reply@'', ''do-not-reply@'', ''donotreply@'',
     ''mailer-daemon@'', ''postmaster@'', ''mailerdaemon@'']"

definition BOUNCE_PREFIXES :: "string list" where
  "BOUNCE_PREFIXES = [''mailer-daemon@'', ''postmaster@'', ''mailerdaemon@'']"

definition AUTO_REPLY_HEADERS :: "string list" where
  "AUTO_REPLY_HEADERS = [''Auto-Submitted'', ''X-Auto-Response-Suppress'', ''X-Autoreply'', ''X-Autorespond'',
     ''X-Mail-Autoreply'']"

definition BULK_PRECEDENCE :: "string list" where
  "BULK_PRECEDENCE = [''bulk'', ''junk'', ''list'', ''auto_reply'']"

definition bounce_subject :: "string \<Rightarrow> bool" where
  "bounce_subject s \<longleftrightarrow> (\<exists>p \<in> set [''undeliverable:'', ''delivery notification'', ''delivery status notification'',
     ''mail delivery failed'', ''mail delivery failure'', ''returned mail:'', ''failure notice'']. startswith s p)"

definition auto_word :: "string \<Rightarrow> string \<Rightarrow> bool" where
  "auto_word p s = (case drop_prefix p s of None \<Rightarrow> False
     | Some r \<Rightarrow> first_of [''reply'', ''response''] (dropWhile is_space r) \<noteq> None)"

definition office_subject :: "string \<Rightarrow> bool" where
  "office_subject s = (case drop_prefix ''out of '' s of
     None \<Rightarrow> False
   | Some r \<Rightarrow> startswith r ''office'' \<or> (case drop_prefix ''the'' r of
       None \<Rightarrow> False
     | Some r' \<Rightarrow> r' \<noteq> [] \<and> is_space (hd r') \<and> startswith (dropWhile is_space r') ''office''))"

definition auto_reply_subject :: "string \<Rightarrow> bool" where
  "auto_reply_subject s \<longleftrightarrow> auto_word ''auto'' s \<or> auto_word ''automatic'' s \<or> office_subject s \<or> startswith s ''ooo:''"

definition sender_of :: "inbound_email \<Rightarrow> string" where
  "sender_of e = strip (lower (sender_email e))"

text \<open>Each check answers the reason to reject, if any.\<close>

definition check_loop :: "string \<Rightarrow> inbound_email \<Rightarrow> string option" where
  "check_loop default_from e = (let from_email = strip (lower default_from)
     in if from_email \<noteq> [] \<and> sender_of e = from_email
        then Some (''Sender matches system outbound address: '' @ sender_of e) else None)"

definition check_noreply_sender :: "inbound_email \<Rightarrow> string option" where
  "check_noreply_sender e = (if \<exists>p \<in> set NOREPLY_PREFIXES. startswith (sender_of e) p
     then Some (''Sender is a noreply address: '' @ sender_of e) else None)"

definition check_auto_reply_headers :: "inbound_email \<Rightarrow> string option" where
  "check_auto_reply_headers e =
     (let raw = raw_headers e; auto_submitted = extract_header raw ''Auto-Submitted'';
          precedence = lower (extract_header raw ''Precedence'')
      in if raw = [] then None
         else if auto_submitted \<noteq> [] \<and> lower auto_submitted \<noteq> ''no''
         then Some (''Auto-Submitted header: '' @ auto_submitted)
         else case first_row (\<lambda>h. extract_header raw h \<noteq> []) (tl AUTO_REPLY_HEADERS) of
             Some h \<Rightarrow> Some (h @ '' header present: '' @ extract_header raw h)
           | None \<Rightarrow> if precedence \<in> set BULK_PRECEDENCE then Some (''Precedence header: '' @ precedence) else None)"

definition check_subject_auto_reply :: "inbound_email \<Rightarrow> string option" where
  "check_subject_auto_reply e =
     (let s = lower (strip (ie_subject e))
      in if s \<noteq> [] \<and> (bounce_subject s \<or> auto_reply_subject s)
         then Some (''Subject matches auto-reply pattern: '' @ take 80 (ie_subject e)) else None)"

definition run_all_filters :: "string \<Rightarrow> inbound_email \<Rightarrow> string option" where
  "run_all_filters default_from e =
     (case check_loop default_from e of Some r \<Rightarrow> Some r | None \<Rightarrow>
      case check_noreply_sender e of Some r \<Rightarrow> Some r | None \<Rightarrow>
      case check_auto_reply_headers e of Some r \<Rightarrow> Some r | None \<Rightarrow> check_subject_auto_reply e)"

datatype email_class = Loop | Bounce | AutoReply

definition classify_email :: "string \<Rightarrow> inbound_email \<Rightarrow> email_class" where
  "classify_email default_from e =
     (if check_loop default_from e \<noteq> None then Loop
      else if \<exists>p \<in> set BOUNCE_PREFIXES. startswith (sender_of e) p then Bounce
      else if raw_headers e \<noteq> [] \<and> extract_header (raw_headers e) ''X-Failed-Recipients'' \<noteq> [] then Bounce
      else if bounce_subject (lower (strip (ie_subject e))) then Bounce
      else AutoReply)"

section \<open>Ticket references\<close>

text \<open>\<open>\[(?:Ticket\s*)?#(\d+)\]\<close>, ignoring case, at the start of a string; then \<open>search\<close>.\<close>

definition digits_value :: "string \<Rightarrow> nat" where
  "digits_value ds = foldl (\<lambda>n c. 10 * n + nat (digit_val c)) 0 ds"

definition reference_at :: "string \<Rightarrow> nat option" where
  "reference_at s = (case drop_prefix ''['' s of
     None \<Rightarrow> None
   | Some r \<Rightarrow>
       let r' = (if startswith (lower r) ''ticket'' then dropWhile is_space (drop 6 r) else r)
       in case drop_prefix ''#'' r' of
         None \<Rightarrow> None
       | Some r'' \<Rightarrow> let ds = takeWhile is_digit r''
           in if ds \<noteq> [] \<and> startswith (drop (length ds) r'') '']'' then Some (digits_value ds) else None)"

fun extract_ticket_number :: "string \<Rightarrow> nat option" where
  "extract_ticket_number [] = None"
| "extract_ticket_number (c # cs) =
     (case reference_at (c # cs) of Some n \<Rightarrow> Some n | None \<Rightarrow> extract_ticket_number cs)"

section \<open>Threading\<close>

definition threaded_ticket :: "desk \<Rightarrow> tenant_id \<Rightarrow> string \<Rightarrow> nat option" where
  "threaded_ticket d ten mid =
     (case first_row (\<lambda>e. map_option tenant_id (ie_tenant e) = Some ten \<and> message_id e = mid \<and> ie_ticket e \<noteq> None)
        (inbound_emails d) of
      None \<Rightarrow> None | Some e \<Rightarrow> ie_ticket e)"

definition match_by_in_reply_to :: "desk \<Rightarrow> tenant_id \<Rightarrow> inbound_email \<Rightarrow> nat option" where
  "match_by_in_reply_to d ten e = (if in_reply_to e = [] then None else threaded_ticket d ten (in_reply_to e))"

fun first_threaded :: "desk \<Rightarrow> tenant_id \<Rightarrow> string list \<Rightarrow> nat option" where
  "first_threaded d ten [] = None"
| "first_threaded d ten (r # rs) =
     (case threaded_ticket d ten (strip r) of Some i \<Rightarrow> Some i | None \<Rightarrow> first_threaded d ten rs)"

definition match_by_references :: "desk \<Rightarrow> tenant_id \<Rightarrow> inbound_email \<Rightarrow> nat option" where
  "match_by_references d ten e = first_threaded d ten (rev (py_split (references e)))"

definition match_by_subject :: "desk \<Rightarrow> tenant_id \<Rightarrow> inbound_email \<Rightarrow> nat option" where
  "match_by_subject d ten e = (case extract_ticket_number (ie_subject e) of
     None \<Rightarrow> None
   | Some n \<Rightarrow> if n = 0 then None
       else map_option pk (first_row (\<lambda>t. tenant_id (ticket_tenant t) = ten \<and> number t = n) (tickets (base d))))"

text \<open>The ticket found may be a deleted one: the lookups are not limited to the visible tickets.\<close>

definition find_existing_ticket :: "desk \<Rightarrow> tenant_id \<Rightarrow> inbound_email \<Rightarrow> ticket option" where
  "find_existing_ticket d ten e =
     (case (case match_by_in_reply_to d ten e of Some i \<Rightarrow> Some i | None \<Rightarrow>
            case match_by_references d ten e of Some i \<Rightarrow> Some i | None \<Rightarrow> match_by_subject d ten e) of
      None \<Rightarrow> None | Some i \<Rightarrow> ticket_row i (base d))"

definition angled :: "string \<Rightarrow> string" where "angled s = ''<'' @ s @ ''>''"

text \<open>The table is in the order of \<open>-created_at\<close>, newest first.\<close>

definition build_thread_headers :: "desk \<Rightarrow> tenant_id \<Rightarrow> nat \<Rightarrow> string \<Rightarrow> (string \<times> string) list" where
  "build_thread_headers d ten ticket_pk new_message_id =
     (let recent_ids = take 10 (map message_id (filter (\<lambda>e. map_option tenant_id (ie_tenant e) = Some ten
            \<and> ie_ticket e = Some ticket_pk \<and> message_id e \<noteq> []) (inbound_emails d)))
      in (''Message-ID'', angled new_message_id) #
         (if recent_ids = [] then []
          else [(''In-Reply-To'', angled (hd recent_ids)), (''References'', join '' '' (map angled (rev recent_ids)))]))"

section \<open>Addresses\<close>

text \<open>\<open>recipient.partition("@")[0]\<close>\<close>

definition local_part :: "string \<Rightarrow> string" where
  "local_part address = takeWhile (\<lambda>c. c \<noteq> CHR ''@'') address"

definition tenant_by_slug :: "desk \<Rightarrow> string \<Rightarrow> tenant option" where
  "tenant_by_slug d slug = first_row (\<lambda>t. tenant_slug t = slug \<and> tenant_active t) (tenants d)"

definition resolve_tenant_from_address :: "desk \<Rightarrow> string \<Rightarrow> tenant option" where
  "resolve_tenant_from_address d recipient =
     (let plus = (if CHR ''+'' \<in> set (local_part recipient)
                  then tenant_by_slug d (after_first (CHR ''+'') (local_part recipient)) else None);
          dflt = imap_default_tenant_slug (settings_of d)
      in case plus of Some t \<Rightarrow> Some t | None \<Rightarrow>
         case tenant_by_slug d (local_part recipient) of Some t \<Rightarrow> Some t | None \<Rightarrow>
         case first_row (\<lambda>t. case settings t of None \<Rightarrow> False | Some ts \<Rightarrow> inbound_email_address ts = Some recipient) (tenants d) of
           Some t \<Rightarrow> if tenant_active t then Some t else if dflt = [] then None else tenant_by_slug d dflt
         | None \<Rightarrow> if dflt = [] then None else tenant_by_slug d dflt)"

definition get_reply_to_address :: "desk \<Rightarrow> tenant \<Rightarrow> string" where
  "get_reply_to_address d t =
     (case (case settings t of None \<Rightarrow> None | Some ts \<Rightarrow> inbound_email_address ts) of
        Some a \<Rightarrow> if a \<noteq> [] then a else ''support+'' @ tenant_slug t @ ''@'' @ base_domain (settings_of d)
      | None \<Rightarrow> ''support+'' @ tenant_slug t @ ''@'' @ base_domain (settings_of d))"

text \<open>\<open>generate_message_id\<close>; the last argument is the random part.\<close>

definition generate_message_id :: "desk \<Rightarrow> tenant \<Rightarrow> ticket \<Rightarrow> string \<Rightarrow> string" where
  "generate_message_id d tnt t unique =
     ''ticket-'' @ show_nat (number t) @ ''-'' @ unique @ ''@'' @ tenant_slug tnt @ ''.'' @ base_domain (settings_of d)"

definition created_subject :: "ticket \<Rightarrow> string" where
  "created_subject t = ''[#'' @ show_nat (number t) @ ''] '' @ subject t"

definition reply_subject :: "ticket \<Rightarrow> string" where
  "reply_subject t = ''Re: [#'' @ show_nat (number t) @ ''] '' @ subject t"

end
