(* ===== verification/Email_Text_Laws.thy ===== *)
theory Email_Text_Laws
  imports Email_Text
begin

text \<open>
  Outbound mail and inbound replies meet: the ticket reference in an outbound
  subject is read back from any reply to it, and the reply address of a tenant
  resolves to that tenant; a custom inbound address may be captured by another
  tenant's slug.
\<close>

section \<open>Ticket references\<close>

lemma of_char_digit: "n < 10 \<Longrightarrow> (of_char (char_of (48 + n) :: char) :: nat) = 48 + n"
  by (simp add: of_char_of)

lemma digit_char: "n < 10 \<Longrightarrow> is_digit (char_of (48 + n)) \<and> digit_val (char_of (48 + n)) = int n"
proof -
  assume "n < 10"
  have "(of_char (CHR ''0'') :: nat) = 48" "(of_char (CHR ''9'') :: nat) = 57" by simp_all
  moreover have "(of_char (char_of (48 + n) :: char) :: int) = 48 + int n"
    using of_char_digit [OF \<open>n < 10\<close>] by (metis of_nat_add of_nat_numeral of_nat_of_char)
  ultimately show ?thesis
    using \<open>n < 10\<close> of_char_digit [of n] by (simp add: is_digit_def chr_range_def digit_val_def)
qed

lemma digits_value_append: "digits_value (xs @ [c]) = 10 * digits_value xs + nat (digit_val c)"
  by (simp add: digits_value_def)

lemma show_nat_digits: "show_nat n \<noteq> [] \<and> list_all is_digit (show_nat n) \<and> digits_value (show_nat n) = n"
proof (induction n rule: show_nat.induct)
  case (1 n)
  show ?case
  proof (cases "n < 10")
    case True
    then show ?thesis using digit_char [of n] by (subst (1 2 3) show_nat.simps) (simp add: digits_value_def)
  next
    case False
    then show ?thesis using 1 digit_char [of "n mod 10"]
      by (subst (1 2 3) show_nat.simps) (simp add: digits_value_append)
  qed
qed

lemma take_digits: "list_all is_digit ds \<Longrightarrow> rest \<noteq> [] \<Longrightarrow> \<not> is_digit (hd rest) \<Longrightarrow> takeWhile is_digit (ds @ rest) = ds"
  by (cases rest) (auto simp: list_all_iff)

lemma reference_shown: "reference_at (''[#'' @ show_nat n @ '']'' @ rest) = Some n"
proof -
  have "takeWhile is_digit (show_nat n @ CHR '']'' # rest) = show_nat n"
    using show_nat_digits [of n] by (intro take_digits) (auto simp: is_digit_def chr_range_def)
  then show ?thesis
    using show_nat_digits [of n] by (simp add: reference_at_def drop_prefix_def lower_def lower_char_def chr_range_def Let_def)
qed

lemma reference_needs_bracket: "s \<noteq> [] \<Longrightarrow> hd s \<noteq> CHR ''['' \<Longrightarrow> reference_at s = None"
  by (cases s) (auto simp: reference_at_def drop_prefix_def)

lemma extract_first: "reference_at s = Some n \<Longrightarrow> extract_ticket_number s = Some n"
  by (cases s) (auto simp: reference_at_def drop_prefix_def)

lemma extract_skips: "CHR ''['' \<notin> set p \<Longrightarrow> extract_ticket_number (p @ s) = extract_ticket_number s"
  by (induction p) (auto simp: reference_needs_bracket)

lemma extract_shown: "CHR ''['' \<notin> set p \<Longrightarrow> extract_ticket_number (p @ ''[#'' @ show_nat n @ '']'' @ rest) = Some n"
  using extract_skips [of p] extract_first [OF reference_shown] by metis

text \<open>
  The subject of every outbound email of a ticket names the ticket: whatever
  a mail client puts in front of it, as long as it has no opening bracket
  (\<open>Re: \<close>, \<open>Fwd: \<close>), the number is read back from the subject of the reply.
\<close>

theorem subject_names_ticket:
  assumes "CHR ''['' \<notin> set p"
  shows "extract_ticket_number (p @ created_subject t) = Some (number t) \<and>
    extract_ticket_number (p @ reply_subject t) = Some (number t)"
proof
  show "extract_ticket_number (p @ created_subject t) = Some (number t)"
    using extract_shown [OF assms] by (simp add: created_subject_def)
  have "CHR ''['' \<notin> set (p @ ''Re: '')" using assms by simp
  from extract_shown [OF this, of "number t" "'' '' @ subject t"]
  show "extract_ticket_number (p @ reply_subject t) = Some (number t)" by (simp add: reply_subject_def)
qed

theorem subject_names_ticket_witness:
  "extract_ticket_number (''Fwd: '' @ reply_subject demo_ticket) = Some 1"
  using subject_names_ticket [of "''Fwd: ''" demo_ticket] by (simp add: demo_ticket_def new_ticket_def)

section \<open>Reply addresses\<close>

lemma local_part_append: "CHR ''@'' \<notin> set a \<Longrightarrow> local_part (a @ CHR ''@'' # b) = a"
  by (induction a) (auto simp: local_part_def)

lemma after_first_append: "c \<notin> set a \<Longrightarrow> after_first c (a @ c # b) = b"
  by (induction a) (auto simp: after_first_def)

lemma tenant_by_slug_own:
  assumes "t \<in> set (tenants d)" "tenant_active t" "distinct (map tenant_slug (tenants d))"
  shows "tenant_by_slug d (tenant_slug t) = Some t"
proof -
  have "first_row (\<lambda>x. tenant_slug x = tenant_slug t \<and> tenant_active x) ts = Some t"
    if "t \<in> set ts" "distinct (map tenant_slug ts)" for ts
    using that assms(2) by (induction ts) (auto simp: rev_image_eqI)
  then show ?thesis using assms by (simp add: tenant_by_slug_def)
qed

definition has_custom_address :: "tenant \<Rightarrow> bool" where
  "has_custom_address t \<longleftrightarrow> (\<exists>ts a. settings t = Some ts \<and> inbound_email_address ts = Some a \<and> a \<noteq> [])"

text \<open>
  A reply to outbound mail reaches the tenant that sent it: the reply
  address of an active tenant without a custom address resolves to that tenant.
\<close>

theorem reply_address_resolves:
  assumes "t \<in> set (tenants d)" "tenant_active t" "distinct (map tenant_slug (tenants d))"
    and "\<not> has_custom_address t" "CHR ''@'' \<notin> set (tenant_slug t)"
  shows "resolve_tenant_from_address d (get_reply_to_address d t) = Some t"
proof -
  have addr: "get_reply_to_address d t = (''support+'' @ tenant_slug t) @ ''@'' @ base_domain (settings_of d)"
    using assms(4) by (auto simp: get_reply_to_address_def has_custom_address_def split: option.splits)
  have loc: "local_part (get_reply_to_address d t) = ''support+'' @ tenant_slug t"
    unfolding addr using assms(5) local_part_append [of "''support+'' @ tenant_slug t"] by simp
  have "after_first (CHR ''+'') (''support+'' @ tenant_slug t) = tenant_slug t"
    using after_first_append [of "CHR ''+''" "''support''" "tenant_slug t"] by simp
  then show ?thesis
    using tenant_by_slug_own [OF assms(1-3)] by (simp add: resolve_tenant_from_address_def loc Let_def)
qed

text \<open>
  A custom inbound address is looked up after the slugs: when its local part is
  another active tenant's slug, the mail goes to that tenant.
\<close>

theorem custom_address_captured:
  assumes "other \<in> set (tenants d)" "tenant_active other" "distinct (map tenant_slug (tenants d))"
    and "CHR ''@'' \<notin> set (tenant_slug other)" "CHR ''+'' \<notin> set (tenant_slug other)"
    and "settings t = Some ts" "inbound_email_address ts = Some (tenant_slug other @ ''@'' @ domain)"
  shows "get_reply_to_address d t = tenant_slug other @ ''@'' @ domain \<and>
    resolve_tenant_from_address d (get_reply_to_address d t) = Some other"
proof -
  have "get_reply_to_address d t = tenant_slug other @ ''@'' @ domain"
    using assms(6,7) by (simp add: get_reply_to_address_def)
  then show ?thesis
    using tenant_by_slug_own [OF assms(1-3)] assms(4,5)
    by (simp add: resolve_tenant_from_address_def local_part_append Let_def)
qed

theorem reply_address_resolves_witness:
  "get_reply_to_address demo_desk demo_tenant = ''support+acme@kanzan.io'' \<and>
   resolve_tenant_from_address demo_desk ''support+acme@kanzan.io'' = Some demo_tenant"
proof -
  have "get_reply_to_address demo_desk demo_tenant = ''support+acme@kanzan.io''"
    by (simp add: get_reply_to_address_def demo_desk_def demo_tenant_def)
  moreover have "resolve_tenant_from_address demo_desk (get_reply_to_address demo_desk demo_tenant) = Some demo_tenant"
    by (rule reply_address_resolves) (simp_all add: demo_desk_def demo_tenant_def has_custom_address_def)
  ultimately show ?thesis by simp
qed

section \<open>Message ids\<close>

text \<open>A message id as the system stores it: neither white space nor angle brackets.\<close>

definition clean_id :: "string \<Rightarrow> bool" where
  "clean_id m \<longleftrightarrow> m \<noteq> [] \<and> list_all (\<lambda>c. \<not> is_space c \<and> \<not> is_angle c) m"

lemma strip_by_none: "list_all (\<lambda>c. \<not> P c) s \<Longrightarrow> strip_by P s = s"
proof -
  have drop: "list_all (\<lambda>c. \<not> P c) s \<Longrightarrow> dropWhile P s = s" for s by (cases s) auto
  assume "list_all (\<lambda>c. \<not> P c) s"
  then show ?thesis using drop [of s] drop [of "rev s"] by (simp add: strip_by_def lstrip_by_def rstrip_by_def)
qed

lemma angles_no_space: "\<not> is_space (CHR ''<'') \<and> \<not> is_space (CHR ''>'')"
  by (simp add: is_space_def)

lemma angles: "is_angle (CHR ''<'') \<and> is_angle (CHR ''>'')"
  by (simp add: is_angle_def)

lemma clean_no_space: "clean_id m \<Longrightarrow> list_all (\<lambda>c. \<not> is_space c) m"
  by (auto simp: clean_id_def list_all_iff)

lemma strip_angled: "clean_id m \<Longrightarrow> strip (angled m) = angled m"
  using clean_no_space [of m] angles_no_space by (intro strip_by_none) (simp add: angled_def)

lemma drop_angles: "m \<noteq> [] \<Longrightarrow> \<not> is_angle (hd m) \<Longrightarrow> dropWhile is_angle (m @ s) = m @ s"
  by (cases m) auto

lemma strip_angles: "clean_id m \<Longrightarrow> strip_by is_angle (angled m) = m"
proof -
  assume "clean_id m"
  then have "\<not> is_angle (hd m)" "\<not> is_angle (last m)" "m \<noteq> []" by (auto simp: clean_id_def list_all_iff)
  then show ?thesis
    using angles drop_angles [of m "[CHR ''>'']"] drop_angles [of "rev m" "[]"]
    by (simp add: strip_by_def lstrip_by_def rstrip_by_def angled_def hd_rev)
qed

lemma normalize_angled: "clean_id m \<Longrightarrow> normalize_message_id (angled m) = m"
  using clean_no_space [of m]
  by (simp add: normalize_message_id_def strip_angled strip_angles strip_by_none) (simp add: angled_def)

lemma words_acc_word: "list_all (\<lambda>c. \<not> is_space c) w \<Longrightarrow> words_acc acc (w @ s) = words_acc (rev w @ acc) s"
  by (induction w arbitrary: acc) auto

lemma py_split_join:
  "list_all (\<lambda>w. w \<noteq> [] \<and> list_all (\<lambda>c. \<not> is_space c) w) ws \<Longrightarrow> py_split (join '' '' ws) = ws"
proof (induction "'' ''" ws rule: join.induct)
  case (2 x)
  then show ?case using words_acc_word [of x "[]" "[]"] by (simp add: py_split_def)
next
  case (3 x y ys)
  have "is_space (CHR '' '')" by (simp add: is_space_def)
  with 3 show ?case using words_acc_word [of x "[]"] by (simp add: py_split_def)
qed (simp add: py_split_def)

lemma normalize_references_chain:
  assumes "list_all clean_id ids"
  shows "py_split (normalize_references (join '' '' (map angled ids))) = ids"
proof -
  have "list_all (\<lambda>w. w \<noteq> [] \<and> list_all (\<lambda>c. \<not> is_space c) w) (map angled ids)"
    using assms angles_no_space clean_no_space by (auto simp: list_all_iff angled_def)
  then have split: "py_split (join '' '' (map angled ids)) = map angled ids" by (rule py_split_join)
  have "filter (\<lambda>r. strip r \<noteq> []) (map angled ids) = map angled ids"
    using assms by (auto simp: filter_id_conv list_all_iff strip_angled) (simp add: angled_def)
  moreover have "map normalize_message_id (map angled ids) = ids"
    using assms by (intro map_idI [THEN trans, rotated] nth_equalityI) (simp_all add: list_all_length normalize_angled)
  ultimately have "normalize_references (join '' '' (map angled ids)) = join '' '' ids"
    by (simp add: normalize_references_def split)
  moreover have "list_all (\<lambda>w. w \<noteq> [] \<and> list_all (\<lambda>c. \<not> is_space c) w) ids"
    using assms clean_no_space by (auto simp: list_all_iff clean_id_def)
  ultimately show ?thesis by (simp add: py_split_join)
qed

text \<open>The ids on record for a ticket, newest first.\<close>

definition thread_ids :: "desk \<Rightarrow> tenant_id \<Rightarrow> nat \<Rightarrow> string list" where
  "thread_ids d ten i = take 10 (map message_id (filter (\<lambda>e. map_option tenant_id (ie_tenant e) = Some ten
     \<and> ie_ticket e = Some i \<and> message_id e \<noteq> []) (inbound_emails d)))"

lemma build_thread_headers_chain:
  "thread_ids d ten i \<noteq> [] \<Longrightarrow> build_thread_headers d ten i m =
     [(''Message-ID'', angled m), (''In-Reply-To'', angled (hd (thread_ids d ten i))),
      (''References'', join '' '' (map angled (rev (thread_ids d ten i))))]"
  by (simp add: build_thread_headers_def thread_ids_def Let_def)

text \<open>A message id belongs to one thread of a tenant.\<close>

definition one_thread :: "desk \<Rightarrow> bool" where
  "one_thread d \<longleftrightarrow> list_all (\<lambda>e. list_all (\<lambda>e'.
     map_option tenant_id (ie_tenant e) = map_option tenant_id (ie_tenant e') \<and> message_id e = message_id e'
       \<and> ie_ticket e \<noteq> None \<and> ie_ticket e' \<noteq> None \<longrightarrow> ie_ticket e = ie_ticket e') (inbound_emails d)) (inbound_emails d)"

lemma one_threadD:
  "one_thread d \<Longrightarrow> e \<in> set (inbound_emails d) \<Longrightarrow> e' \<in> set (inbound_emails d) \<Longrightarrow>
   map_option tenant_id (ie_tenant e) = map_option tenant_id (ie_tenant e') \<Longrightarrow> message_id e = message_id e' \<Longrightarrow>
   ie_ticket e = Some i \<Longrightarrow> ie_ticket e' \<noteq> None \<Longrightarrow> ie_ticket e' = Some i"
  unfolding one_thread_def list_all_iff by (drule (1) bspec, drule (1) bspec) simp

lemma thread_id_found:
  assumes "one_thread d" "m \<in> set (thread_ids d ten i)"
  shows "threaded_ticket d ten m = Some i"
proof -
  let ?P = "\<lambda>e. map_option tenant_id (ie_tenant e) = Some ten \<and> message_id e = m \<and> ie_ticket e \<noteq> None"
  obtain e where e: "e \<in> set (inbound_emails d)" "map_option tenant_id (ie_tenant e) = Some ten"
    "message_id e = m" "ie_ticket e = Some i"
    using in_set_takeD [OF assms(2) [unfolded thread_ids_def]] by auto
  then have "first_row ?P (inbound_emails d) \<noteq> None" by (auto simp: first_row_eq_None)
  then obtain e' where e': "first_row ?P (inbound_emails d) = Some e'" by auto
  then have "e' \<in> set (inbound_emails d)" "?P e'" by (auto dest: first_row_SomeD)
  then have "ie_ticket e' = Some i" using one_threadD [OF assms(1) e(1), of e'] e by metis
  then show ?thesis unfolding threaded_ticket_def e' by simp
qed

text \<open>
  C17: The headers of an outbound mail thread the reply: a reply whose
  \<open>In-Reply-To\<close> is unknown but which repeats the \<open>References\<close> of the
  outbound mail is attached to the ticket the mail was about.
\<close>

theorem reply_threads_back:
  assumes "one_thread d" "list_all clean_id (thread_ids d ten i)"
    and "build_thread_headers d ten i m = [h1, h2, (''References'', refs)]"
    and "match_by_in_reply_to d ten e = None" "references e = normalize_references refs"
  shows "find_existing_ticket d ten e = ticket_row i (base d)"
proof -
  have ids: "thread_ids d ten i \<noteq> []"
    using assms(3) by (auto simp: build_thread_headers_def thread_ids_def Let_def)
  have "refs = join '' '' (map angled (rev (thread_ids d ten i)))"
    using assms(3) build_thread_headers_chain [OF ids] by simp
  then have "rev (py_split (references e)) = thread_ids d ten i"
    using normalize_references_chain [of "rev (thread_ids d ten i)"] assms(2,5) by (simp add: list_all_iff)
  moreover obtain x xs where x: "thread_ids d ten i = x # xs" using ids by (cases "thread_ids d ten i") auto
  moreover have "threaded_ticket d ten (strip x) = Some i"
    using thread_id_found [OF assms(1), of x] assms(2) clean_no_space [of x] by (simp add: x strip_by_none)
  ultimately have "match_by_references d ten e = Some i" by (simp add: match_by_references_def)
  then show ?thesis using assms(4) by (simp add: find_existing_ticket_def)
qed

text \<open>A row of an email with the defaults of the model.\<close>

definition demo_email :: inbound_email where
  "demo_email = \<lparr>ie_id = 50, ie_tenant = Some demo_tenant, message_id = ''abc@mail'', in_reply_to = [], references = [],
     sender_email = ''jo@client.org'', sender_name = ''Jo'', recipient_email = ''acme@kanzan.io'', ie_subject = ''Hello'',
     body_text = ''It is broken'', raw_headers = [], ie_direction = Inbound, ie_sender_type = Customer,
     ie_status = EPending, error_message = [], ie_ticket = None, ie_files = [], idempotency_key = None,
     inbox_status_of = IPending, linked_ticket = None, linked_at = None, linked_by = None, ie_assignee = None,
     is_read = False, actioned_at = None, actioned_by = None, action_taken = None\<rparr>"

definition threaded_desk :: desk where
  "threaded_desk = demo_desk\<lparr>inbound_emails := [demo_email\<lparr>ie_id := 51, ie_ticket := Some 9\<rparr>]\<rparr>"

theorem reply_threads_back_witness:
  "find_existing_ticket threaded_desk 1 (demo_email\<lparr>references := normalize_references ''<abc@mail>''\<rparr>) =
     ticket_row 9 (base threaded_desk)"
proof (rule reply_threads_back)
  have rows: "inbound_emails threaded_desk = [demo_email\<lparr>ie_id := 51, ie_ticket := Some 9\<rparr>]"
    by (simp add: threaded_desk_def)
  have ids: "thread_ids threaded_desk 1 9 = [''abc@mail'']"
    by (simp add: thread_ids_def rows demo_email_def demo_tenant_def)
  show "one_thread threaded_desk" by (simp add: one_thread_def rows)
  show "list_all clean_id (thread_ids threaded_desk 1 9)"
    unfolding ids by (simp add: clean_id_def is_space_def is_angle_def)
  show "build_thread_headers threaded_desk 1 9 ''new@mail'' =
    [(''Message-ID'', angled ''new@mail''), (''In-Reply-To'', angled ''abc@mail''), (''References'', ''<abc@mail>'')]"
    by (subst build_thread_headers_chain) (unfold ids, simp_all add: angled_def)
qed (simp_all add: match_by_in_reply_to_def demo_email_def)

end
