(* ===== verification/Email_Tickets.thy ===== *)
theory Email_Tickets
  imports Agents Email_Text
begin

text \<open>
  Tickets from emails: the rows of \<open>InboundEmail\<close> and their immutable columns
  (\<open>apps/inbound_email/models.py\<close>), the record of outbound mail
  (\<open>services.py\<close>, \<open>apps/tickets/email_service.py\<close>), contacts of senders, and
  the creation of a ticket or of a reply from an email (\<open>services.py\<close>).
  The payload of a live event carries the columns that are modelled.
\<close>

section \<open>Rows\<close>

definition email_row :: "desk \<Rightarrow> nat \<Rightarrow> inbound_email option" where
  "email_row d i = first_row (\<lambda>e. ie_id e = i) (inbound_emails d)"

definition write_email :: "nat \<Rightarrow> (inbound_email \<Rightarrow> inbound_email) \<Rightarrow> unit act" where
  "write_email i f = update (\<lambda>d. d\<lparr>inbound_emails := map (\<lambda>r. if ie_id r = i then f r else r) (inbound_emails d)\<rparr>)"

definition row_missing :: pyexc where
  "row_missing = DatabaseError ''Save with update_fields did not affect any rows.''"

text \<open>The first column that is set and would change, if any.\<close>

definition immutable_violation :: "inbound_email \<Rightarrow> inbound_email \<Rightarrow> string option" where
  "immutable_violation old e =
     (if actioned_at old \<noteq> None \<and> actioned_at e \<noteq> actioned_at old then Some ''actioned_at''
      else if actioned_by old \<noteq> None \<and> map_option user_id (actioned_by e) \<noteq> map_option user_id (actioned_by old)
      then Some ''actioned_by''
      else if linked_at old \<noteq> None \<and> linked_at e \<noteq> linked_at old then Some ''linked_at''
      else if linked_by old \<noteq> None \<and> map_option user_id (linked_by e) \<noteq> map_option user_id (linked_by old)
      then Some ''linked_by''
      else None)"

text \<open>\<open>e.save(update_fields=...)\<close>; the last argument copies the named columns of the instance.\<close>

definition save_email :: "inbound_email \<Rightarrow> (inbound_email \<Rightarrow> inbound_email) \<Rightarrow> unit act" where
  "save_email e cols = bindc (asks (\<lambda>d. email_row d (ie_id e))) (\<lambda>found. case found of
       None \<Rightarrow> raise_exc row_missing
     | Some old \<Rightarrow> (case immutable_violation old e of
         Some c \<Rightarrow> raise_exc (ValidationError (c @ '' is immutable once set.''))
       | None \<Rightarrow> write_email (ie_id e) cols))"

text \<open>\<open>InboundEmail(...)\<close> with the defaults of the columns.\<close>

definition new_email :: "nat \<Rightarrow> tenant option \<Rightarrow> string \<Rightarrow> string \<Rightarrow> string \<Rightarrow> string \<Rightarrow> inbound_email" where
  "new_email i tnt mid sender recipient subj =
     \<lparr>ie_id = i, ie_tenant = tnt, message_id = mid, in_reply_to = [], references = [], sender_email = sender,
      sender_name = [], recipient_email = recipient, ie_subject = subj, body_text = [], raw_headers = [],
      ie_direction = Inbound, ie_sender_type = Customer, ie_status = EPending, error_message = [], ie_ticket = None,
      ie_files = [], idempotency_key = None, inbox_status_of = IPending, linked_ticket = None, linked_at = None,
      linked_by = None, ie_assignee = None, is_read = False, actioned_at = None, actioned_by = None, action_taken = None\<rparr>"

definition safe_subject :: "string \<Rightarrow> string" where
  "safe_subject s = map (\<lambda>c. if c = newline then CHR '' '' else c) (filter (\<lambda>c. c \<noteq> carriage_return) s)"

definition insert_email :: "inbound_email \<Rightarrow> unit act" where
  "insert_email e = update (\<lambda>d. d\<lparr>inbound_emails := e # inbound_emails d\<rparr>)"

section \<open>Outbound mail on record\<close>

text \<open>The second argument is the random part of a generated message id.\<close>

definition log_outbound_email ::
  "tenant option \<Rightarrow> string \<Rightarrow> string \<Rightarrow> string \<Rightarrow> string \<Rightarrow> string option \<Rightarrow> nat option \<Rightarrow> sender_type option
   \<Rightarrow> inbound_email option act" where
  "log_outbound_email tnt unique recipient subj body mid ticket_pk sender =
     (if tnt = None then ret None
      else bindc fresh_pk (\<lambda>i. bindc (asks settings_of) (\<lambda>conf.
        let m = (case mid of Some x \<Rightarrow> x | None \<Rightarrow> ''out-'' @ unique @ ''@'' @ base_domain conf);
            e = (new_email i tnt (normalize_message_id m) (default_from_email conf) recipient (safe_subject subj))
              \<lparr>body_text := body, ie_direction := Outbound,
               ie_sender_type := (case sender of Some x \<Rightarrow> x | None \<Rightarrow> SystemSender),
               ie_status := ESent, ie_ticket := ticket_pk\<rparr>
        in thenc (insert_email e) (ret (Some e)))))"

text \<open>\<open>record_outbound_email\<close>: nothing when the idempotency key is taken.\<close>

definition outbound_key :: "tenant_id \<Rightarrow> nat \<Rightarrow> string \<Rightarrow> tenant_id \<times> string" where
  "outbound_key ten ticket_pk mid = (ten, ''out:'' @ show_nat ticket_pk @ '':'' @ mid)"

definition key_taken :: "desk \<Rightarrow> tenant_id \<times> string \<Rightarrow> bool" where
  "key_taken d k \<longleftrightarrow> (\<exists>e \<in> set (inbound_emails d). idempotency_key e = Some k)"

definition record_outbound_email ::
  "tenant \<Rightarrow> nat \<Rightarrow> string \<Rightarrow> string \<Rightarrow> string \<Rightarrow> string \<Rightarrow> sender_type \<Rightarrow> inbound_email option act" where
  "record_outbound_email tnt ticket_pk mid recipient subj body sender =
     bindc (asks (\<lambda>d. key_taken d (outbound_key (tenant_id tnt) ticket_pk mid))) (\<lambda>taken.
       if taken then ret None
       else bindc fresh_pk (\<lambda>i. bindc (asks settings_of) (\<lambda>conf.
         let e = (new_email i (Some tnt) (normalize_message_id mid) (default_from_email conf) recipient subj)
              \<lparr>body_text := body, ie_direction := Outbound, ie_sender_type := sender, ie_status := ESent,
               ie_ticket := Some ticket_pk, idempotency_key := Some (outbound_key (tenant_id tnt) ticket_pk mid)\<rparr>
         in thenc (insert_email e) (ret (Some e)))))"

section \<open>Contacts and the system user\<close>

text \<open>\<open>with tenant_context(tenant)\<close>\<close>

definition set_tenant :: "tenant_id option \<Rightarrow> desk \<Rightarrow> desk" where
  "set_tenant ten d = d\<lparr>base := (base d)\<lparr>current_tenant := ten\<rparr>\<rparr>"

definition in_tenant :: "tenant_id \<Rightarrow> 'a act \<Rightarrow> 'a act" where
  "in_tenant ten c = (\<lambda>d. case c (set_tenant (Some ten) d) of
     (r, d') \<Rightarrow> (r, set_tenant (current_tenant (base d)) d'))"

text \<open>\<open>name.strip().split(None, 1)\<close>: the first word and the rest.\<close>

definition split_name :: "string \<Rightarrow> string \<times> string" where
  "split_name s = (let n = strip s; w = takeWhile (\<lambda>c. \<not> is_space c) n
     in (w, lstrip_by is_space (drop (length w) n)))"

definition contact_payload :: "contact \<Rightarrow> json" where
  "contact_payload c = JObj [(''id'', jpk (contact_id c)), (''first_name'', JStr (contact_first c)),
     (''last_name'', JStr (contact_last c)),
     (''full_name'', JStr (if contact_full_name c = [] then contact_email c else contact_full_name c)),
     (''email'', JStr (contact_email c)), (''company_id'', jopt jpk (contact_company c)),
     (''email_bouncing'', JBool (email_bouncing c)), (''last_activity_at'', jopt jtime (last_activity_at c))]"

definition find_or_create_contact :: "tenant \<Rightarrow> string \<Rightarrow> string \<Rightarrow> (contact \<times> bool) act" where
  "find_or_create_contact tnt sender name =
     bindc (asks (\<lambda>d. first_row (\<lambda>c. contact_email c = sender) (scoped (base d) contact_tenant (contacts (base d))))) (\<lambda>found.
     case found of
       Some c \<Rightarrow> ret (c, False)
     | None \<Rightarrow> bindc fresh_pk (\<lambda>i.
         let (first, last) = split_name name;
             c = \<lparr>contact_id = i, contact_tenant = tenant_id tnt,
                  contact_first = (if first = [] then local_part sender else first), contact_last = last,
                  contact_email = sender, contact_company = None, email_bouncing = False, last_activity_at = None\<rparr>
         in thenc (on_base (update (\<lambda>s. s\<lparr>contacts := contacts s @ [c]\<rparr>)))
            (thenc (broadcast_live_event (tenant_id tnt) ''contact.created'' (contact_payload c))
              (ret (c, True)))))"

definition get_system_user :: "tenant \<Rightarrow> user act" where
  "get_system_user tnt = bindc (asks (\<lambda>d. memberships (base d))) (\<lambda>ms.
     let own = filter (\<lambda>m. member_tenant m = tenant_id tnt \<and> member_active m) ms
     in case first_row (\<lambda>m. hierarchy_level (member_role m) = 10) own of
          Some m \<Rightarrow> ret (member_user m)
        | None \<Rightarrow> (case own of
            m # _ \<Rightarrow> ret (member_user m)
          | [] \<Rightarrow> raise_exc (ValueError (''No active users found for tenant '' @ tenant_slug tnt))))"

section \<open>Attachments\<close>

text \<open>
  One stored file: the storage has it, the validator accepts it, the row is
  made and the stored file deleted; a failure is logged and the file stays.
\<close>

definition attach_file :: "ticket \<Rightarrow> string \<Rightarrow> unit act" where
  "attach_file t path = bindc (asks (\<lambda>d. map_of (storage d) path)) (\<lambda>found. case found of
       None \<Rightarrow> ret ()
     | Some accepted \<Rightarrow> best_effort (
         if \<not> accepted then raise_exc (ValidationError ''The file is not allowed.'')
         else bindc fresh_pk (\<lambda>i.
           thenc (on_base (update (\<lambda>s. s\<lparr>attachments := attachments s @
               [\<lparr>attachment_id = i, attachment_type = TicketCT, attachment_object = pk t\<rparr>]\<rparr>)))
             (update (\<lambda>d. d\<lparr>storage := filter (\<lambda>(p, _). p \<noteq> path) (storage d)\<rparr>)))))"

definition attach_inbound_files :: "inbound_email \<Rightarrow> ticket \<Rightarrow> unit act" where
  "attach_inbound_files e t = for_each (ie_files e) (\<lambda>path _. attach_file t path) ()"

section \<open>A ticket from an email\<close>

record ticket_overrides =
  ov_subject :: "string option"
  ov_description :: "string option"
  ov_priority :: "string option"
  ov_status :: "ticket_status option"
  ov_queue :: "queue option"
  ov_assignee :: "user option"
  ov_category :: "string option"
  ov_due_date :: "instant option"
  ov_tags :: "string list"

definition no_overrides :: ticket_overrides where
  "no_overrides = \<lparr>ov_subject = None, ov_description = None, ov_priority = None, ov_status = None, ov_queue = None,
     ov_assignee = None, ov_category = None, ov_due_date = None, ov_tags = []\<rparr>"

text \<open>\<open>overrides.get(k) or default\<close> on strings.\<close>

definition text_or :: "string option \<Rightarrow> string \<Rightarrow> string" where
  "text_or x dflt = (case x of Some s \<Rightarrow> if s = [] then dflt else s | None \<Rightarrow> dflt)"

definition add_tag :: "string \<Rightarrow> string list \<Rightarrow> string list" where
  "add_tag tag ts = (if tag \<in> set ts then ts else ts @ [tag])"

definition email_ticket :: "nat \<Rightarrow> inbound_email \<Rightarrow> tenant \<Rightarrow> contact option \<Rightarrow> user \<Rightarrow> ticket_overrides \<Rightarrow> ticket_status \<Rightarrow> ticket" where
  "email_ticket i e tnt c creator ov default_status =
     (let subj = safe_subject (if ie_subject e = [] then ''(No Subject)'' else ie_subject e);
          stripped = strip_quoted_reply (body_text e);
          body = (if stripped = [] then body_text e else stripped)
      in (new_ticket i tnt (text_or (ov_subject ov) subj) (text_or (ov_description ov) body)
            (case ov_priority ov of Some p \<Rightarrow> p | None \<Rightarrow> ''medium'') creator)
         \<lparr>status := Some (case ov_status ov of Some st \<Rightarrow> st | None \<Rightarrow> default_status), contact_of := c,
          tags := fold add_tag (ov_tags ov) [''email''], queue_of := ov_queue ov, category := ov_category ov,
          due_date := ov_due_date ov, assignee := ov_assignee ov\<rparr>)"

definition maybe_auto_assign :: "ticket \<Rightarrow> tenant \<Rightarrow> unit act" where
  "maybe_auto_assign t tnt =
     whenc (case settings tnt of Some ts \<Rightarrow> auto_assign_inbound_email_tickets ts | None \<Rightarrow> False)
       (best_effort (bindc (auto_assign_email_ticket t) (\<lambda>_. ret ())))"

definition create_ticket_from_email ::
  "inbound_email \<Rightarrow> tenant \<Rightarrow> contact option \<Rightarrow> user \<Rightarrow> ticket_overrides \<Rightarrow> ticket act" where
  "create_ticket_from_email e tnt c system_user ov =
     bindc (asks (\<lambda>d. case first_status is_default (base d) of
        None \<Rightarrow> first_status (\<lambda>_. True) (base d) | Some st \<Rightarrow> Some st)) (\<lambda>default_status. case default_status of
       None \<Rightarrow> raise_exc (ValueError (''No ticket statuses configured for tenant '' @ tenant_slug tnt))
     | Some st \<Rightarrow>
         bindc fresh_pk (\<lambda>i.
         bindc (on_base (save_ticket None (email_ticket i e tnt c system_user ov st))) (\<lambda>saved.
         bindc (on_base (initialize_sla saved)) (\<lambda>t.
         thenc (save_email e (\<lambda>r. r\<lparr>ie_ticket := Some (pk t), ie_status := ETicketCreated\<rparr>))
         (thenc (whenc (ov_assignee ov = None) (maybe_auto_assign t tnt))
         (thenc (attach_inbound_files e t)
         (thenc (whenc (case settings tnt of Some ts \<Rightarrow> auto_send_ticket_created_email ts | None \<Rightarrow> False)
             (on_base (register_callback (ConfirmCreated (pk t) (tenant_id tnt)))))
           (ret t))))))))"

section \<open>A reply to a ticket\<close>

definition reject :: "inbound_email \<Rightarrow> string \<Rightarrow> unit act" where
  "reject e reason = save_email e (\<lambda>r. r\<lparr>ie_status := ERejected, error_message := reason\<rparr>)"

definition reopen_resolved_ticket :: "ticket \<Rightarrow> user \<Rightarrow> unit act" where
  "reopen_resolved_ticket t system_user =
     bindc (asks (\<lambda>d. first_status (\<lambda>x. status_slug x = ''open'') (base d))) (\<lambda>found. case found of
       None \<Rightarrow> ret ()
     | Some open_status \<Rightarrow> bindc (on_base (change_ticket_status t open_status (Some system_user) None)) (\<lambda>_. ret ()))"

definition comment_payload :: "comment \<Rightarrow> json" where
  "comment_payload c = JObj [(''id'', jpk (comment_id c)),
     (''body'', if is_internal c then JNull else JStr (comment_body c)), (''is_internal'', JBool (is_internal c)),
     (''author_id'', jpk (user_id (comment_author c))), (''object_id'', jpk (comment_object c))]"

definition add_comment :: "tenant \<Rightarrow> nat \<Rightarrow> user \<Rightarrow> string \<Rightarrow> bool \<Rightarrow> comment act" where
  "add_comment tnt object_id author body internal =
     bindc (on_base (post_comment tnt object_id author body internal)) (\<lambda>c.
       thenc (broadcast_live_event (tenant_id tnt) ''comment.created'' (comment_payload c)) (ret c))"

definition add_reply_to_ticket :: "inbound_email \<Rightarrow> ticket \<Rightarrow> user \<Rightarrow> comment option act" where
  "add_reply_to_ticket e t system_user =
     (let body = strip_quoted_reply (body_text e); tnt = ticket_tenant t
      in if strip body = [] then thenc (reject e ''Empty reply body after stripping quotes.'') (ret None)
         else bindc (add_comment tnt (pk t) system_user body False) (\<lambda>c.
           thenc (case assignee t of
               None \<Rightarrow> ret ()
             | Some u \<Rightarrow> notify (tenant_id tnt) u NTicketComment
                 (JObj [(''ticket_id'', jpk (pk t)), (''ticket_number'', JInt (int (number t))),
                        (''comment_id'', jpk (comment_id c)), (''source'', JStr ''inbound_email''),
                        (''url'', JStr (''/tickets/'' @ show_nat (number t)))]))
           (thenc (attach_inbound_files e t)
           (thenc (save_email e (\<lambda>r. r\<lparr>ie_ticket := Some (pk t), ie_status := EReplyAdded\<rparr>))
           (bindc now_of (\<lambda>now.
            bindc (if ie_sender_type e = Customer
                   then on_base (resume_sla_pause save_ticket t now ''customer_reply'') else ret t) (\<lambda>t'.
            thenc (if map_option status_slug (status t') = Some ''resolved'' then reopen_resolved_ticket t' system_user
                   else if status_flag pauses_sla (status t')
                   then bindc (on_base (resume_from_wait t' (Some system_user) None)) (\<lambda>_. ret ())
                   else ret ())
              (ret (Some c)))))))))"

end
