(* ===== verification/Hub.thy ===== *)
theory Hub
  imports Email_Tickets
begin

text \<open>
  The Inbox Hub (\<open>apps/inbox_hub\<close>): the lifecycle of a parked email, the
  services that change it, routing by rules, the choice of an agent, the
  backlog drained when an agent comes online, and the SLA sweep.  An operation
  takes the instance the caller holds, which may be older than the row; where
  the source reads the row again under a lock, so does the model.  Callbacks
  of \<open>on_commit\<close> run right after the block that registers them, since no caller
  of these services opens a transaction of its own.
\<close>

section \<open>Lifecycle (\<open>state_machine.py\<close>)\<close>

fun HUB_TRANSITIONS :: "hub_state \<Rightarrow> hub_state list" where
  "HUB_TRANSITIONS HNew = [HAssigned, HEscalated, HDismissed, HConverted]"
| "HUB_TRANSITIONS HAssigned = [HNew, HInProgress, HPendingAgent, HAwaitingCustomer, HEscalated, HResolved,
     HDismissed, HConverted]"
| "HUB_TRANSITIONS HInProgress = [HPendingAgent, HAwaitingCustomer, HEscalated, HResolved, HDismissed, HConverted]"
| "HUB_TRANSITIONS HPendingAgent = [HInProgress, HAwaitingCustomer, HEscalated, HResolved, HDismissed, HConverted]"
| "HUB_TRANSITIONS HAwaitingCustomer = [HInProgress, HPendingAgent, HEscalated, HResolved, HDismissed, HConverted]"
| "HUB_TRANSITIONS HEscalated = [HAssigned, HInProgress, HResolved, HDismissed, HConverted]"
| "HUB_TRANSITIONS HResolved = [HInProgress, HConverted, HDismissed]"
| "HUB_TRANSITIONS HConverted = []"
| "HUB_TRANSITIONS HDismissed = []"

fun state_value :: "hub_state \<Rightarrow> string" where
  "state_value HNew = ''new''"
| "state_value HAssigned = ''assigned''"
| "state_value HInProgress = ''in_progress''"
| "state_value HPendingAgent = ''pending_agent''"
| "state_value HAwaitingCustomer = ''awaiting_customer''"
| "state_value HEscalated = ''escalated''"
| "state_value HResolved = ''resolved''"
| "state_value HConverted = ''converted_to_ticket''"
| "state_value HDismissed = ''dismissed''"

fun hub_priority_value :: "hub_priority \<Rightarrow> string" where
  "hub_priority_value HLow = ''low''"
| "hub_priority_value HNormal = ''normal''"
| "hub_priority_value HHigh = ''high''"
| "hub_priority_value HUrgent = ''urgent''"

definition can_transition :: "hub_state \<Rightarrow> hub_state \<Rightarrow> bool" where
  "can_transition old new \<longleftrightarrow> old \<noteq> new \<and> new \<in> set (HUB_TRANSITIONS old)"

definition assert_transition :: "hub_state \<Rightarrow> hub_state \<Rightarrow> unit act" where
  "assert_transition old new = (if can_transition old new then ret ()
     else raise_exc (ValueError (''Illegal HubEmail transition: '' @ state_value old @ '' -> '' @ state_value new)))"

definition terminal :: "hub_state \<Rightarrow> bool" where
  "terminal st \<longleftrightarrow> st = HConverted \<or> st = HDismissed"

section \<open>Rows, logs and events\<close>

definition hub_row :: "desk \<Rightarrow> nat \<Rightarrow> hub_email option" where
  "hub_row d i = first_row (\<lambda>r. he_id r = i) (hub_emails d)"

text \<open>\<open>filter(pk=i).update(...)\<close>, and \<open>save(update_fields=...)\<close>, which wants the row.\<close>

definition write_hub :: "nat \<Rightarrow> (hub_email \<Rightarrow> hub_email) \<Rightarrow> unit act" where
  "write_hub i f = update (\<lambda>d. d\<lparr>hub_emails := map (\<lambda>r. if he_id r = i then f r else r) (hub_emails d)\<rparr>)"

definition save_hub :: "nat \<Rightarrow> (hub_email \<Rightarrow> hub_email) \<Rightarrow> unit act" where
  "save_hub i f = bindc (asks (\<lambda>d. hub_row d i)) (\<lambda>found. case found of
       None \<Rightarrow> raise_exc row_missing | Some _ \<Rightarrow> write_hub i f)"

definition locked_hub :: "hub_email \<Rightarrow> hub_email act" where
  "locked_hub he = row_or_raise ''HubEmail'' (\<lambda>d. hub_row d (he_id he))"

definition hub_tenant :: "hub_email \<Rightarrow> tenant_id" where "hub_tenant he = tenant_id (he_tenant he)"

definition write_activity_log :: "hub_email \<Rightarrow> user option \<Rightarrow> action \<Rightarrow> (string \<times> json) list \<Rightarrow> unit act" where
  "write_activity_log he actor act changes =
     on_base (log_activity (he_tenant he) actor (OtherCT ''hubemail'') (he_id he) act (JObj changes) None)"

definition hub_email_payload :: "hub_email \<Rightarrow> (string \<times> json) list" where
  "hub_email_payload he = [(''id'', jpk (he_id he)), (''state'', JStr (state_value (he_state he))),
     (''priority'', JStr (hub_priority_value (he_priority he))), (''queue_id'', jopt jpk (he_queue he)),
     (''assignee_id'', jopt (jpk \<circ> user_id) (he_assignee he))]"

definition hub_event :: "hub_email \<Rightarrow> string \<Rightarrow> (string \<times> json) list \<Rightarrow> unit act" where
  "hub_event he event extra = broadcast_live_event (hub_tenant he) event (JObj (hub_email_payload he @ extra))"

definition department_row :: "desk \<Rightarrow> nat \<Rightarrow> department option" where
  "department_row d i = first_row (\<lambda>x. dept_id x = i) (departments d)"

definition lead_of :: "desk \<Rightarrow> nat option \<Rightarrow> user option" where
  "lead_of d dep = (case dep of None \<Rightarrow> None | Some i \<Rightarrow> map_option dept_lead (department_row d i))"

definition hub_notice :: "hub_email \<Rightarrow> user \<Rightarrow> notification_type \<Rightarrow> string \<Rightarrow> (string \<times> json) list \<Rightarrow> unit act" where
  "hub_notice he u kind url extra = best_effort (notify (hub_tenant he) u kind
     (JObj ([(''hub_email_id'', jpk (he_id he)), (''url'', JStr url)] @ extra)))"

section \<open>Assignment (\<open>assignment.py\<close>)\<close>

definition ACTIVE_STATES :: "hub_state list" where
  "ACTIVE_STATES = [HNew, HAssigned, HInProgress, HPendingAgent, HAwaitingCustomer, HEscalated]"

text \<open>The original email goes to the inbox of the agent, if its row is there.\<close>

definition hand_over :: "hub_email \<Rightarrow> user \<Rightarrow> unit act" where
  "hand_over he u = bindc (asks (\<lambda>d. email_row d (he_inbound he))) (\<lambda>found. case found of
       None \<Rightarrow> ret ()
     | Some e \<Rightarrow> save_email e (\<lambda>r. r\<lparr>ie_assignee := Some u, inbox_status_of := IPending, is_read := False\<rparr>))"

definition record_hub_assignment ::
  "hub_email \<Rightarrow> user \<Rightarrow> user option \<Rightarrow> assignment_reason \<Rightarrow> string \<Rightarrow> unit act" where
  "record_hub_assignment he u by reason note = update (\<lambda>d. d\<lparr>hub_assignments := hub_assignments d @
     [\<lparr>ha_tenant = hub_tenant he, ha_email = he_id he, ha_to = u, ha_by = by, ha_reason = reason, ha_note = note,
       ha_at = clock (base d)\<rparr>]\<rparr>)"

fun reason_value :: "assignment_reason \<Rightarrow> string" where
  "reason_value Auto = ''auto''"
| "reason_value Manual = ''manual''"
| "reason_value EscalationReason = ''escalation''"
| "reason_value Reassignment = ''reassignment''"

definition claim_row :: "instant \<Rightarrow> user \<Rightarrow> hub_email \<Rightarrow> hub_email" where
  "claim_row now u he = he\<lparr>he_assignee := Some u, first_assigned_at := or_set (first_assigned_at he) now,
     he_state := HAssigned\<rparr>"

definition assign_to :: "hub_email \<Rightarrow> user \<Rightarrow> assignment_reason \<Rightarrow> user option \<Rightarrow> bool \<Rightarrow> user option act" where
  "assign_to hub_email u reason actor require_online =
     bindc now_of (\<lambda>now.
     bindc (atomically (bindc (locked_hub hub_email) (\<lambda>he.
       if he_assignee he \<noteq> None \<or> he_state he \<noteq> HNew then ret None
       else bindc (asks (\<lambda>d. availability_of d (hub_tenant hub_email) (user_id u))) (\<lambda>locked.
         bindc (asks (\<lambda>d. require_online \<and> (case locked of None \<Rightarrow> True | Some a \<Rightarrow> \<not> is_assignable d a))) (\<lambda>refused.
         if refused then ret None
         else let he' = claim_row now u he
           in thenc (save_hub (he_id he) (claim_row now u))
             (thenc (hand_over he' u)
             (thenc (record_hub_assignment he' u actor reason [])
             (thenc (case locked of None \<Rightarrow> ret () | Some a \<Rightarrow> update_availabilities (\<lambda>r. av_id r = av_id a) (one_more now))
             (thenc (write_activity_log he' actor AEmailAgentAssigned
                 [(''assignee'', jpk (user_id u)), (''reason'', JStr (reason_value reason))])
             (thenc (hub_event he' ''hub_email.assigned'' [(''department_id'', jopt jpk (he_department he'))])
               (ret (Some he'))))))))))))
     (\<lambda>claimed. case claimed of
         None \<Rightarrow> ret None
       | Some he \<Rightarrow> thenc (hub_notice he u NHubEmailAssigned ''/inbox/'' []) (ret (Some u))))"

definition queue_row :: "desk \<Rightarrow> nat \<Rightarrow> queue option" where
  "queue_row d i = first_row (\<lambda>q. queue_id q = i) (queues (base d))"

definition candidate_department :: "desk \<Rightarrow> hub_email \<Rightarrow> nat option" where
  "candidate_department d he = (case he_department he of
     Some i \<Rightarrow> Some i
   | None \<Rightarrow> (case he_queue he of None \<Rightarrow> None | Some q \<Rightarrow> (case queue_row d q of
       None \<Rightarrow> None | Some x \<Rightarrow> queue_department x)))"

definition candidate_user_ids :: "desk \<Rightarrow> hub_email \<Rightarrow> user_id list" where
  "candidate_user_ids d he = (case candidate_department d he of
     Some i \<Rightarrow> map dm_user (filter (\<lambda>m. dm_tenant m = hub_tenant he \<and> dm_department m = i) (dept_members d))
   | None \<Rightarrow> map (\<lambda>m. user_id (member_user m)) (filter (\<lambda>m. member_tenant m = hub_tenant he \<and> member_active m \<and>
       hierarchy_level (member_role m) = AGENT_ROLE_LEVEL) (memberships (base d))))"

definition DEFAULT_STRATEGY :: string where
  "DEFAULT_STRATEGY = ''availability_aware|least_loaded|round_robin''"

definition strategy_chain :: "desk \<Rightarrow> hub_email \<Rightarrow> string list" where
  "strategy_chain d he =
     (let code = (case he_queue he of
            None \<Rightarrow> DEFAULT_STRATEGY
          | Some q \<Rightarrow> (case first_row (\<lambda>r. qr_tenant r = hub_tenant he \<and> qr_queue r = q) (queue_routings d) of
              None \<Rightarrow> DEFAULT_STRATEGY
            | Some r \<Rightarrow> if strategy_code r = [] then DEFAULT_STRATEGY else strategy_code r))
      in filter (\<lambda>t. t \<noteq> []) (map strip (split_on (CHR ''|'') code)))"

definition hub_load :: "desk \<Rightarrow> tenant_id \<Rightarrow> user_id \<Rightarrow> nat" where
  "hub_load d ten u = length (filter (\<lambda>r. hub_tenant r = ten \<and> map_option user_id (he_assignee r) = Some u \<and>
     he_state r \<in> set ACTIVE_STATES) (hub_emails d))"

text \<open>\<open>timestamp()\<close> counts from 1970; an agent who never had an email counts as 0.\<close>

definition unix_epoch :: instant where "unix_epoch = 719162 * day_us"

definition last_hub_assignment :: "desk \<Rightarrow> tenant_id \<Rightarrow> user_id \<Rightarrow> int" where
  "last_hub_assignment d ten u = (case latest (map ha_at (filter (\<lambda>x. ha_tenant x = ten \<and> user_id (ha_to x) = u)
     (hub_assignments d))) of None \<Rightarrow> 0 | Some t \<Rightarrow> t - unix_epoch)"

definition strategy_key :: "desk \<Rightarrow> tenant_id \<Rightarrow> availability \<Rightarrow> string \<Rightarrow> int list" where
  "strategy_key d ten a s =
     (if s = ''availability_aware'' then [- int (remaining_capacity a)]
      else if s = ''least_loaded'' then [int (hub_load d ten (user_id (av_user a)) + current_ticket_count a)]
      else if s = ''round_robin'' then [last_hub_assignment d ten (user_id (av_user a))]
      else [])"

definition rank_key :: "desk \<Rightarrow> hub_email \<Rightarrow> availability \<Rightarrow> int list \<times> user_id" where
  "rank_key d he a = (concat (map (strategy_key d (hub_tenant he) a) (strategy_chain d he)), user_id (av_user a))"

definition hub_candidates :: "desk \<Rightarrow> hub_email \<Rightarrow> availability list" where
  "hub_candidates d he = filter (\<lambda>a. av_tenant a = hub_tenant he \<and> user_id (av_user a) \<in> set (candidate_user_ids d he)
     \<and> is_assignable d a) (availabilities d)"

definition select_agent :: "desk \<Rightarrow> hub_email \<Rightarrow> user option" where
  "select_agent d he = map_option av_user (first_by (rank_key d he) (hub_candidates d he))"

definition try_assign :: "hub_email \<Rightarrow> user option \<Rightarrow> bool \<Rightarrow> user option act" where
  "try_assign he actor notify_on_hold =
     bindc (asks (\<lambda>d. select_agent d he)) (\<lambda>chosen. case chosen of
       None \<Rightarrow> bindc (asks (\<lambda>d. lead_of d (candidate_department d he))) (\<lambda>lead.
         thenc (case lead of
             Some u \<Rightarrow> whenc notify_on_hold (hub_notice he u NHubEmailAssigned ''/emails/'' [(''held'', JBool True)])
           | None \<Rightarrow> ret ())
         (ret None))
     | Some u \<Rightarrow> assign_to he u Auto actor True)"

definition dept_ids_of :: "desk \<Rightarrow> tenant_id \<Rightarrow> user_id \<Rightarrow> nat list" where
  "dept_ids_of d ten u = map dm_department (filter (\<lambda>m. dm_tenant m = ten \<and> dm_user m = u) (dept_members d))"

definition held_for :: "desk \<Rightarrow> tenant_id \<Rightarrow> user_id \<Rightarrow> hub_email \<Rightarrow> bool" where
  "held_for d ten u he \<longleftrightarrow> hub_tenant he = ten \<and> he_state he = HNew \<and> he_assignee he = None \<and>
     (case he_department he of None \<Rightarrow> True | Some i \<Rightarrow> i \<in> set (dept_ids_of d ten u))"

definition drain_step :: "user \<Rightarrow> hub_email \<Rightarrow> nat \<Rightarrow> nat act" where
  "drain_step u he n = bindc (assign_to he u Auto None True) (\<lambda>r. ret (if r = None then n else n + 1))"

definition drain_department_backlog :: "user \<Rightarrow> tenant \<Rightarrow> nat act" where
  "drain_department_backlog u tnt =
     (if (case settings tnt of Some ts \<Rightarrow> \<not> inbox_hub_auto_assign ts | None \<Rightarrow> False) then ret 0
      else bindc (asks (\<lambda>d. availability_of d (tenant_id tnt) (user_id u))) (\<lambda>avail. case avail of
        None \<Rightarrow> ret 0
      | Some a \<Rightarrow> bindc (asks (\<lambda>d. is_assignable d a)) (\<lambda>ok.
          if \<not> ok then ret 0
          else bindc (asks (\<lambda>d. take (remaining_capacity a) (sort_key he_created_at
              (filter (held_for d (tenant_id tnt) (user_id u)) (hub_emails d))))) (\<lambda>held.
            for_each held (drain_step u) 0))))"

end
