(* ===== verification/Hub_Services.thy ===== *)
theory Hub_Services
  imports Hub
begin

text \<open>
  The services of the Inbox Hub: routing by rules (\<open>routing.py\<close>), parking,
  conversion, dismissal, transitions, escalation and reassignment of an email
  (\<open>services.py\<close>), and the SLA sweep (\<open>tasks.py\<close>).  A value of a routing rule
  is a string or a list of strings, as documented; of other values only null,
  booleans and integers are read as text.
\<close>

section \<open>Routing rules (\<open>routing.py\<close>)\<close>

definition show_int :: "int \<Rightarrow> string" where
  "show_int n = (if n < 0 then ''-'' @ show_nat (nat (- n)) else show_nat (nat n))"

fun json_text :: "json \<Rightarrow> string" where
  "json_text (JStr s) = s"
| "json_text (JInt n) = show_int n"
| "json_text (JBool b) = (if b then ''True'' else ''False'')"
| "json_text JNull = ''None''"
| "json_text _ = []"

fun as_list :: "json \<Rightarrow> string list" where
  "as_list JNull = []"
| "as_list (JList xs) = map json_text xs"
| "as_list v = [json_text v]"

definition last_part :: "string \<Rightarrow> string" where
  "last_part s = last (split_on (CHR ''@'') s)"

record mail_facts =
  mf_sender :: string
  mf_recipient :: string
  mf_subject :: string
  mf_body :: string

definition facts_of :: "inbound_email \<Rightarrow> mail_facts" where
  "facts_of e = \<lparr>mf_sender = strip (sender_email e), mf_recipient = strip (recipient_email e),
     mf_subject = ie_subject e, mf_body = body_text e\<rparr>"

definition sender_domain_ok :: "mail_facts \<Rightarrow> json \<Rightarrow> bool" where
  "sender_domain_ok f v =
     (let dom = (if CHR ''@'' \<in> set (mf_sender f) then lower (last_part (mf_sender f)) else []);
          domains = map (\<lambda>s. lstrip_by (\<lambda>c. c = CHR ''@'') (lower s)) (as_list v)
      in list_ex (\<lambda>x. x \<noteq> [] \<and> (dom = x \<or> endswith dom (''.'' @ x))) domains)"

definition recipient_local_ok :: "mail_facts \<Rightarrow> json \<Rightarrow> bool" where
  "recipient_local_ok f v =
     (let loc = (if CHR ''@'' \<in> set (mf_recipient f) then lower (local_part (mf_recipient f)) else [])
      in loc \<in> set (map lower (as_list v)))"

definition keyword_ok :: "mail_facts \<Rightarrow> json \<Rightarrow> bool" where
  "keyword_ok f v = list_ex (\<lambda>k. k \<noteq> [] \<and> contains_sub (lower (mf_subject f @ [newline] @ mf_body f)) (lower k)) (as_list v)"

text \<open>An absent key asks for nothing; an expression that does not compile matches nothing.\<close>

definition clause :: "json \<Rightarrow> string \<Rightarrow> (json \<Rightarrow> bool) \<Rightarrow> bool" where
  "clause m k ok = (case jget m k of None \<Rightarrow> True | Some v \<Rightarrow> ok v)"

definition subject_regex_ok :: "(string \<Rightarrow> string \<Rightarrow> bool option) \<Rightarrow> mail_facts \<Rightarrow> json \<Rightarrow> bool" where
  "subject_regex_ok re f v = (truthy v \<longrightarrow> re (json_text v) (mf_subject f) = Some True)"

definition rule_matches :: "(string \<Rightarrow> string \<Rightarrow> bool option) \<Rightarrow> mail_facts \<Rightarrow> routing_rule \<Rightarrow> bool" where
  "rule_matches re f r = (let m = rr_match r
     in is_jobj m \<and> truthy m \<and> clause m ''sender_domain'' (sender_domain_ok f)
        \<and> clause m ''recipient_local'' (recipient_local_ok f) \<and> clause m ''keyword'' (keyword_ok f)
        \<and> clause m ''subject_regex'' (subject_regex_ok re f))"

record routing_decision =
  dec_department :: "nat option"
  dec_queue :: "nat option"
  dec_category :: string
  dec_priority :: "hub_priority option"
  matched_rule :: "nat option"

definition undecided :: routing_decision where
  "undecided = \<lparr>dec_department = None, dec_queue = None, dec_category = [], dec_priority = None, matched_rule = None\<rparr>"

definition later :: "'a option \<Rightarrow> 'a option \<Rightarrow> 'a option" where
  "later new old = (case new of Some x \<Rightarrow> Some x | None \<Rightarrow> old)"

definition apply_rule :: "routing_rule \<Rightarrow> routing_decision \<Rightarrow> routing_decision" where
  "apply_rule r x = \<lparr>dec_department = later (rr_department r) (dec_department x),
     dec_queue = later (rr_queue r) (dec_queue x),
     dec_category = (if rr_category r = [] then dec_category x else rr_category r),
     dec_priority = later (rr_priority r) (dec_priority x), matched_rule = Some (rr_id r)\<rparr>"

text \<open>The loop over the rules, with \<open>continue\<close> and \<open>break\<close>.\<close>

fun apply_rules :: "(routing_rule \<Rightarrow> bool) \<Rightarrow> routing_rule list \<Rightarrow> routing_decision \<Rightarrow> routing_decision" where
  "apply_rules hit [] x = x"
| "apply_rules hit (r # rs) x =
     (if \<not> hit r then apply_rules hit rs x
      else if stop_on_match r then apply_rule r x
      else apply_rules hit rs (apply_rule r x))"

definition default_department :: "desk \<Rightarrow> tenant \<Rightarrow> nat option" where
  "default_department d tnt =
     (let dept = (case settings tnt of None \<Rightarrow> None | Some ts \<Rightarrow> (case inbox_hub_default_department ts of
             None \<Rightarrow> None | Some i \<Rightarrow> department_row d i));
          active = filter (\<lambda>x. dept_tenant x = tenant_id tnt \<and> dept_active x) (departments d)
      in case dept of
           Some x \<Rightarrow> if dept_active x then Some (dept_id x)
             else (case active of [y] \<Rightarrow> Some (dept_id y) | _ \<Rightarrow> None)
         | None \<Rightarrow> (case active of [y] \<Rightarrow> Some (dept_id y) | _ \<Rightarrow> None))"

definition tenant_rules :: "desk \<Rightarrow> tenant_id \<Rightarrow> routing_rule list" where
  "tenant_rules d ten = sort_key (\<lambda>r. (rr_order r, rr_id r))
     (filter (\<lambda>r. rr_tenant r = ten \<and> rr_active r) (routing_rules d))"

definition evaluate :: "desk \<Rightarrow> hub_email \<Rightarrow> inbound_email \<Rightarrow> routing_decision" where
  "evaluate d he e =
     (let x = apply_rules (rule_matches (re_search d) (facts_of e)) (tenant_rules d (hub_tenant he)) undecided;
          dep = (case dec_department x of Some i \<Rightarrow> Some i | None \<Rightarrow> default_department d (he_tenant he));
          q = (case dec_queue x of Some i \<Rightarrow> Some i
               | None \<Rightarrow> (case dep of None \<Rightarrow> None | Some i \<Rightarrow> (case department_row d i of
                   None \<Rightarrow> None | Some y \<Rightarrow> dept_default_queue y)))
      in x\<lparr>dec_department := dep, dec_queue := q\<rparr>)"

text \<open>\<open>_apply\<close>: the instance with the decision, and whether the queue changed.\<close>

definition routed :: "routing_decision \<Rightarrow> hub_email \<Rightarrow> hub_email" where
  "routed x he = he\<lparr>he_department := later (dec_department x) (he_department he), he_queue := later (dec_queue x) (he_queue he),
     he_category := (if dec_category x = [] then he_category he else dec_category x),
     he_priority := (case dec_priority x of None \<Rightarrow> he_priority he | Some p \<Rightarrow> p)\<rparr>"

definition apply_decision :: "hub_email \<Rightarrow> routing_decision \<Rightarrow> hub_email act" where
  "apply_decision he x =
     (let he' = routed x he; requeued = (he_queue he' \<noteq> he_queue he)
      in if he_department he' = he_department he \<and> \<not> requeued \<and> he_category he' = he_category he
            \<and> he_priority he' = he_priority he then ret he
         else thenc (save_hub (he_id he) (\<lambda>r. r\<lparr>
               he_department := (if he_department he' = he_department he then he_department r else he_department he'),
               he_queue := (if requeued then he_queue he' else he_queue r),
               he_category := (if he_category he' = he_category he then he_category r else he_category he'),
               he_priority := (if he_priority he' = he_priority he then he_priority r else he_priority he')\<rparr>))
           (thenc (write_activity_log he' None AEmailCategorised
               [(''department'', jopt jpk (dec_department x)), (''category'', JStr (dec_category x)),
                (''priority'', JStr (case dec_priority x of None \<Rightarrow> [] | Some p \<Rightarrow> hub_priority_value p)),
                (''rule'', jopt jpk (matched_rule x))])
           (thenc (whenc requeued (write_activity_log he' None AEmailQueued [(''queue'', jopt jpk (dec_queue x))]))
           (thenc (hub_event he' ''hub_email.transitioned'' [(''department_id'', jopt jpk (he_department he'))])
             (ret he')))))"

definition classify_and_route :: "hub_email \<Rightarrow> hub_email act" where
  "classify_and_route he = bindc (row_or_raise ''InboundEmail'' (\<lambda>d. email_row d (he_inbound he))) (\<lambda>e.
     bindc (asks (\<lambda>d. evaluate d he e)) (apply_decision he))"

section \<open>Parking (\<open>services.py\<close>)\<close>

definition hub_policy :: "desk \<Rightarrow> hub_email \<Rightarrow> hub_sla option" where
  "hub_policy d he =
     (let by_queue = (case he_queue he of None \<Rightarrow> None | Some q \<Rightarrow>
            first_row (\<lambda>p. hs_tenant p = hub_tenant he \<and> hs_queue p = Some q \<and> hs_priority p = he_priority he) (hub_slas d))
      in case by_queue of Some p \<Rightarrow> Some p | None \<Rightarrow> (case he_department he of None \<Rightarrow> None | Some i \<Rightarrow>
            first_row (\<lambda>p. hs_tenant p = hub_tenant he \<and> hs_department p = Some i \<and> hs_priority p = he_priority he) (hub_slas d)))"

definition initialize_hub_sla :: "hub_email \<Rightarrow> hub_email act" where
  "initialize_hub_sla he = bindc (asks (\<lambda>d. hub_policy d he)) (\<lambda>found. case found of
       None \<Rightarrow> ret he
     | Some p \<Rightarrow> bindc now_of (\<lambda>now.
         let due = Some (now + hs_response_minutes p * minute_us); due' = Some (now + hs_resolution_minutes p * minute_us)
         in thenc (save_hub (he_id he) (\<lambda>r. r\<lparr>sla_response_due_at := due, sla_resolution_due_at := due'\<rparr>))
              (ret (he\<lparr>sla_response_due_at := due, sla_resolution_due_at := due'\<rparr>))))"

text \<open>Each step is tried; a step that raises leaves the instance to the next one.\<close>

definition post_park_hooks :: "hub_email \<Rightarrow> unit act" where
  "post_park_hooks he =
     bindc (try_except (classify_and_route he) (\<lambda>_. ret he)) (\<lambda>he1.
     bindc (try_except (initialize_hub_sla he1) (\<lambda>_. ret he1)) (\<lambda>he2.
       whenc (case settings (he_tenant he) of None \<Rightarrow> True | Some ts \<Rightarrow> inbox_hub_auto_assign ts)
         (best_effort (bindc (try_assign he2 None True) (\<lambda>_. ret ())))))"

definition parked_row :: "nat \<Rightarrow> inbound_email \<Rightarrow> tenant \<Rightarrow> contact option \<Rightarrow> instant \<Rightarrow> hub_email" where
  "parked_row i e tnt c now = \<lparr>he_id = i, he_tenant = tnt, he_inbound = ie_id e, he_contact = c, he_department = None,
     he_queue = None, he_assignee = None, he_state = HNew, he_priority = HNormal, he_category = [],
     sla_response_due_at = None, sla_resolution_due_at = None, response_breached = False, resolution_breached = False,
     he_first_responded_at = None, first_assigned_at = None, he_escalation_count = 0, escalated_to = None,
     converted_ticket = None, dismissed_at = None, dismissed_by = None, dismissal_reason = [],
     auto_classification_data = JObj [], he_created_at = now\<rparr>"

text \<open>The row of the email, and whether it is new: then \<open>post_park_hooks\<close> runs after the commit.\<close>

definition park_email_in_hub :: "inbound_email \<Rightarrow> tenant \<Rightarrow> contact option \<Rightarrow> user \<Rightarrow> (hub_email \<times> bool) act" where
  "park_email_in_hub e tnt c system_user =
     bindc now_of (\<lambda>now.
     bindc (asks (\<lambda>d. first_row (\<lambda>r. he_inbound r = ie_id e) (hub_emails d))) (\<lambda>found. case found of
       Some he \<Rightarrow> thenc (save_email e (\<lambda>r. r\<lparr>ie_status := EParkedInHub\<rparr>)) (ret (he, False))
     | None \<Rightarrow> bindc fresh_pk (\<lambda>i.
         let he = parked_row i e tnt c now
         in thenc (update (\<lambda>d. d\<lparr>hub_emails := he # hub_emails d\<rparr>))
           (thenc (save_email e (\<lambda>r. r\<lparr>ie_status := EParkedInHub\<rparr>))
           (thenc (write_activity_log he (Some system_user) AEmailReceived [])
           (thenc (hub_event he ''hub_email.created'' [])
             (ret (he, True))))))))"

section \<open>What agents do with a parked email (\<open>services.py\<close>)\<close>

definition convert_to_ticket :: "hub_email \<Rightarrow> user \<Rightarrow> ticket_overrides \<Rightarrow> ticket option act" where
  "convert_to_ticket hub_email actor ov = atomically (
     bindc now_of (\<lambda>now.
     bindc (locked_hub hub_email) (\<lambda>l.
     let he = hub_email\<lparr>he_state := he_state l, converted_ticket := converted_ticket l,
               he_first_responded_at := he_first_responded_at l\<rparr>
     in if he_state he = HConverted \<and> converted_ticket he \<noteq> None
        then asks (\<lambda>d. case converted_ticket he of None \<Rightarrow> None | Some i \<Rightarrow> ticket_row i (base d))
        else thenc (whenc (he_state he \<noteq> HConverted) (assert_transition (he_state he) HConverted))
          (bindc (row_or_raise ''InboundEmail'' (\<lambda>d. email_row d (he_inbound he))) (\<lambda>e.
           bindc (create_ticket_from_email e (he_tenant he) (he_contact he) actor ov) (\<lambda>t.
           let he' = he\<lparr>he_state := HConverted, converted_ticket := Some (pk t),
                 he_first_responded_at := or_set (he_first_responded_at he) now\<rparr>
           in thenc (save_hub (he_id he) (\<lambda>r. r\<lparr>he_state := HConverted, converted_ticket := Some (pk t),
                  he_first_responded_at := (if he_first_responded_at he = None then Some now else he_first_responded_at r)\<rparr>))
             (thenc (write_activity_log he' (Some actor) AEmailConvertedToTicket
                 [(''ticket_id'', jpk (pk t)), (''ticket_number'', JInt (int (number t)))])
             (thenc (hub_event he' ''hub_email.converted_to_ticket''
                 [(''ticket_id'', jpk (pk t)), (''ticket_number'', JInt (int (number t)))])
               (ret (Some t))))))))))"

definition dismiss_hub_email :: "hub_email \<Rightarrow> user \<Rightarrow> string \<Rightarrow> hub_email act" where
  "dismiss_hub_email hub_email actor reason = atomically (
     bindc now_of (\<lambda>now.
     bindc (locked_hub hub_email) (\<lambda>l.
       if he_state l = HDismissed then ret (hub_email\<lparr>he_state := he_state l\<rparr>)
       else thenc (assert_transition (he_state l) HDismissed)
         (let f = (\<lambda>r. r\<lparr>he_state := HDismissed, dismissed_at := Some now, dismissed_by := Some actor,
                     dismissal_reason := take 255 reason\<rparr>); he' = f hub_email
          in thenc (save_hub (he_id hub_email) f)
            (thenc (write_activity_log he' (Some actor) AEmailDismissed [(''reason'', JStr reason)])
            (thenc (hub_event he' ''hub_email.dismissed'' [])
              (ret he')))))))"

definition RESPONSE_STATES :: "hub_state list" where
  "RESPONSE_STATES = [HInProgress, HPendingAgent, HAwaitingCustomer, HResolved]"

text \<open>\<open>transition_hub_email\<close> validates against the instance it is given and does not read the row again.\<close>

definition transition_hub_email :: "hub_email \<Rightarrow> hub_state \<Rightarrow> user option \<Rightarrow> hub_email act" where
  "transition_hub_email he new_state actor =
     thenc (assert_transition (he_state he) new_state) (atomically (
       bindc now_of (\<lambda>now.
       let stamps = (new_state \<in> set RESPONSE_STATES \<and> he_first_responded_at he = None);
           f = (\<lambda>r. r\<lparr>he_state := new_state,
                  he_first_responded_at := (if stamps then Some now else he_first_responded_at r)\<rparr>); he' = f he
       in thenc (save_hub (he_id he) f)
         (thenc (write_activity_log he' actor AStatusChanged
             [(''from'', JStr (state_value (he_state he))), (''to'', JStr (state_value new_state))])
         (thenc (hub_event he' ''hub_email.transitioned'' [])
           (ret he'))))))"

definition escalate_hub_email :: "hub_email \<Rightarrow> user option \<Rightarrow> hub_email act" where
  "escalate_hub_email he actor =
     bindc (asks (\<lambda>d. lead_of d (he_department he))) (\<lambda>target.
       if \<not> can_transition (he_state he) HEscalated then ret he
       else bindc (atomically (
           let n = he_escalation_count he + 1;
               f = (\<lambda>r. r\<lparr>he_escalation_count := n, he_state := HEscalated,
                      escalated_to := (case target of None \<Rightarrow> escalated_to r | Some u \<Rightarrow> Some u)\<rparr>); he' = f he
           in thenc (save_hub (he_id he) f)
             (thenc (write_activity_log he' actor AEmailEscalated
                 [(''escalated_to'', jopt (jpk \<circ> user_id) target), (''count'', JInt (int n))])
             (thenc (hub_event he' ''hub_email.escalated'' []) (ret he'))))) (\<lambda>he'.
         thenc (case target of None \<Rightarrow> ret () | Some u \<Rightarrow> hub_notice he' u NHubEmailEscalatedToMe ''/emails/'' [])
           (ret he')))"

definition one_less :: "availability \<Rightarrow> availability" where
  "one_less a = a\<lparr>current_ticket_count := current_ticket_count a - 1\<rparr>"

definition move_load :: "tenant_id \<Rightarrow> instant \<Rightarrow> user \<Rightarrow> user option \<Rightarrow> unit act" where
  "move_load ten now new_user old =
     (let new_rows = (\<lambda>r. av_tenant r = ten \<and> user_id (av_user r) = user_id new_user)
      in if map_option user_id old = Some (user_id new_user)
         then update_availabilities new_rows (\<lambda>r. r\<lparr>last_activity := Some now\<rparr>)
         else thenc (update_availabilities new_rows (one_more now))
           (case old of None \<Rightarrow> ret ()
            | Some u \<Rightarrow> update_availabilities (\<lambda>r. av_tenant r = ten \<and> user_id (av_user r) = user_id u \<and>
                current_ticket_count r > 0) one_less))"

definition reassign_hub_email :: "hub_email \<Rightarrow> user \<Rightarrow> user option \<Rightarrow> string \<Rightarrow> hub_email act" where
  "reassign_hub_email hub_email new_user actor reason =
     bindc now_of (\<lambda>now.
     bindc (asks (\<lambda>d. is_member_of d (user_id new_user) (hub_tenant hub_email))) (\<lambda>is_member.
       if \<not> is_member then raise_exc (ValueError ''Cannot assign to a user who is not an active member of this tenant.'')
       else bindc (atomically (bindc (locked_hub hub_email) (\<lambda>he.
         if terminal (he_state he)
         then raise_exc (ValueError (''Cannot reassign an email in terminal state '' @ quoted (state_value (he_state he)) @ ''.''))
         else let old = he_assignee he;
                  responds = (map_option user_id actor = Some (user_id new_user) \<and> he_first_responded_at he = None);
                  f = (\<lambda>r. r\<lparr>he_assignee := Some new_user, first_assigned_at := or_set (first_assigned_at he) now,
                         he_state := (if he_state he = HNew then HAssigned else he_state he),
                         he_first_responded_at := (if responds then Some now else he_first_responded_at r)\<rparr>);
                  he' = f he;
                  is_reassign = (old \<noteq> None \<and> map_option user_id old \<noteq> Some (user_id new_user))
           in thenc (save_hub (he_id he) f)
             (thenc (hand_over he' new_user)
             (thenc (record_hub_assignment he' new_user actor (if is_reassign then Reassignment else Manual) reason)
             (thenc (move_load (hub_tenant hub_email) now new_user old)
             (thenc (write_activity_log he' actor (if is_reassign then AEmailReassigned else AEmailAgentAssigned)
                 [(''assignee'', jpk (user_id new_user)), (''from'', jopt (jpk \<circ> user_id) old)])
             (thenc (hub_event he' (if is_reassign then ''hub_email.reassigned'' else ''hub_email.assigned'') [])
               (ret (he', is_reassign)))))))))) (\<lambda>(he', is_reassign).
         thenc (hub_notice he' new_user (if is_reassign then NHubEmailReassigned else NHubEmailAssigned) ''/inbox/'' [])
           (ret he'))))"

definition add_hub_email_note :: "hub_email \<Rightarrow> user \<Rightarrow> string \<Rightarrow> unit act" where
  "add_hub_email_note he author body =
     thenc (update (\<lambda>d. d\<lparr>hub_notes := hub_notes d @ [\<lparr>hn_email = he_id he, hn_author = author, hn_body = body\<rparr>]\<rparr>))
       (hub_event he ''hub_email.transitioned'' [])"

section \<open>The SLA sweep (\<open>tasks.py\<close>)\<close>

definition ACTIVE_SLA_STATES :: "hub_state list" where
  "ACTIVE_SLA_STATES = [HNew, HAssigned, HInProgress, HPendingAgent, HEscalated]"

definition sla_recipients :: "desk \<Rightarrow> hub_email \<Rightarrow> user list" where
  "sla_recipients d he = (case he_assignee he of None \<Rightarrow> [] | Some u \<Rightarrow> [u]) @
     (case lead_of d (he_department he) of None \<Rightarrow> []
      | Some u \<Rightarrow> if map_option user_id (he_assignee he) = Some (user_id u) then [] else [u])"

definition notify_sla :: "hub_email \<Rightarrow> bool \<Rightarrow> unit act" where
  "notify_sla he breached = bindc (asks (\<lambda>d. sla_recipients d he)) (\<lambda>us.
     for_each us (\<lambda>u _. hub_notice he u (if breached then NHubEmailSlaBreached else NHubEmailSlaBreachWarning) ''/emails/'' []) ())"

record sweep_result =
  swept_breached :: nat
  swept_warned :: nat
  swept_resolution :: nat

definition sweep_breach :: "hub_email \<Rightarrow> unit act" where
  "sweep_breach he =
     thenc (write_hub (he_id he) (\<lambda>r. r\<lparr>response_breached := True\<rparr>))
     (thenc (notify_sla (he\<lparr>response_breached := True\<rparr>) True)
       (best_effort (bindc (escalate_hub_email (he\<lparr>response_breached := True\<rparr>) None) (\<lambda>_. ret ()))))"

text \<open>The marker of a warning, in \<open>auto_classification_data\<close>, which is an object.\<close>

definition classification :: "hub_email \<Rightarrow> (string \<times> json) list" where
  "classification he = (case auto_classification_data he of JObj kvs \<Rightarrow> kvs | _ \<Rightarrow> [])"

definition warning_sent :: "hub_email \<Rightarrow> bool" where
  "warning_sent he = (case map_of (classification he) ''sla_warning_sent'' of None \<Rightarrow> False | Some v \<Rightarrow> truthy v)"

definition sweep_warning :: "hub_email \<Rightarrow> unit act" where
  "sweep_warning he =
     thenc (write_hub (he_id he) (\<lambda>r. r\<lparr>auto_classification_data :=
         JObj (dict_set (classification he) ''sla_warning_sent'' (JBool True))\<rparr>))
       (notify_sla he False)"

definition response_passed :: "instant \<Rightarrow> hub_email \<Rightarrow> bool" where
  "response_passed now he = (case sla_response_due_at he of None \<Rightarrow> False | Some due \<Rightarrow> due \<le> now)"

definition response_near :: "int \<Rightarrow> instant \<Rightarrow> hub_email \<Rightarrow> bool" where
  "response_near window now he = (case sla_response_due_at he of None \<Rightarrow> False | Some due \<Rightarrow> due - now \<le> window)"

definition resolution_passed :: "instant \<Rightarrow> hub_email \<Rightarrow> bool" where
  "resolution_passed now he = (case sla_resolution_due_at he of None \<Rightarrow> False | Some due \<Rightarrow> due \<le> now)"

definition sweep_one :: "instant \<Rightarrow> int \<Rightarrow> hub_email \<Rightarrow> sweep_result \<Rightarrow> sweep_result act" where
  "sweep_one now window he n =
     (let waiting = (\<not> response_breached he \<and> he_first_responded_at he = None);
          breaches = (waiting \<and> response_passed now he);
          warns = (waiting \<and> \<not> response_passed now he \<and> response_near window now he \<and> \<not> warning_sent he);
          resolves = (\<not> resolution_breached he \<and> resolution_passed now he)
      in thenc (whenc breaches (sweep_breach he))
        (thenc (whenc warns (sweep_warning he))
        (thenc (whenc resolves (write_hub (he_id he) (\<lambda>r. r\<lparr>resolution_breached := True\<rparr>)))
          (ret (n\<lparr>swept_breached := swept_breached n + (if breaches then 1 else 0),
                  swept_warned := swept_warned n + (if warns then 1 else 0),
                  swept_resolution := swept_resolution n + (if resolves then 1 else 0)\<rparr>)))))"

definition swept :: "hub_email \<Rightarrow> bool" where
  "swept he \<longleftrightarrow> he_state he \<in> set ACTIVE_SLA_STATES \<and> sla_response_due_at he \<noteq> None"

definition check_hub_sla_breaches :: "sweep_result act" where
  "check_hub_sla_breaches =
     bindc now_of (\<lambda>now.
     bindc (asks (\<lambda>d. hub_sla_warning_minutes (settings_of d) * minute_us)) (\<lambda>window.
     bindc (asks (\<lambda>d. filter swept (hub_emails d))) (\<lambda>rows.
       for_each rows (sweep_one now window) \<lparr>swept_breached = 0, swept_warned = 0, swept_resolution = 0\<rparr>)))"

end
