(* ===== verification/Desk_Laws.thy ===== *)
theory Desk_Laws
  imports Hub_Services
begin

text \<open>
  Frame laws of the desk.  A relation between the desks before and after a
  command that does not look at the store of the core, the agents, the
  notifications, the deliveries, the history of assignments or the files is
  kept by every operation that writes only these; the commands that write a
  table of emails keep it when their update does.
\<close>

locale desk_law = step_law R for R :: "desk \<Rightarrow> desk \<Rightarrow> bool" +
  assumes base_law: "R d (d\<lparr>base := s\<rparr>)"
    and deliveries_law: "R d (d\<lparr>deliveries := ds\<rparr>)"
    and notifications_law: "R d (d\<lparr>notifications := ns\<rparr>)"
    and availabilities_law: "R d (d\<lparr>availabilities := avs\<rparr>)"
    and assignments_law: "R d (d\<lparr>hub_assignments := has\<rparr>)"
    and storage_law: "R d (d\<lparr>storage := fs\<rparr>)"
begin

lemma on_base: "obeys R (on_base c)"
  by (simp add: obeys_def run_on_base base_law)

lemma on_rollback: "R d (desk_rollback d d')"
  unfolding desk_rollback_def by (rule step_trans [OF base_law storage_law])

lemma atomic_desk: "obeys R c \<Longrightarrow> obeys R (atomically c)"
  by (rule obeys_atomic) (simp_all add: on_rollback)

lemma basic: "obeys R now_of" "obeys R fresh_pk" "obeys R (row_or_raise m q)" "obeys R (broadcast_live_event t ev p)"
    "obeys R (update_availabilities sel f)"
  by (auto simp: obeys_def cmd_simps step_refl base_law deliveries_law availabilities_law update_availabilities_def
      row_or_raise_def split: option.split)

lemma choices:
  "(x = None \<Longrightarrow> obeys R c) \<Longrightarrow> (\<And>a. x = Some a \<Longrightarrow> obeys R (f a)) \<Longrightarrow> obeys R (case x of None \<Rightarrow> c | Some a \<Rightarrow> f a)"
  "(b \<Longrightarrow> obeys R c) \<Longrightarrow> (\<not> b \<Longrightarrow> obeys R e) \<Longrightarrow> obeys R (if b then c else e)"
  "obeys R c \<Longrightarrow> (\<And>y ys. obeys R (g y ys)) \<Longrightarrow> obeys R (case xs of [] \<Rightarrow> c | y # ys \<Rightarrow> g y ys)"
  by (cases x, simp_all, cases xs, simp_all)

lemmas control = obeys_ret obeys_raise obeys_asks obeys_lift obeys_bind obeys_then obeys_when obeys_try obeys_for
  atomic_desk on_base basic choices

lemma best_effort: "obeys R c \<Longrightarrow> obeys R (best_effort c)"
  unfolding best_effort_def by (intro control)

lemma notify: "obeys R (notify ten u k data)"
proof -
  have "obeys R (send_notification ten u k data)"
    unfolding send_notification_def Let_def case_prod_unfold
    by (intro control obeys_update notifications_law deliveries_law)
  then show ?thesis unfolding notify_def by (intro control)
qed

lemma hub_logs: "obeys R (record_hub_assignment he u by r n)" "obeys R (hub_event he ev x)"
    "obeys R (write_activity_log he a act x)" "obeys R (hub_notice he u k url x)"
  unfolding record_hub_assignment_def hub_event_def write_activity_log_def hub_notice_def
  by (intro control obeys_update assignments_law best_effort notify)+

lemma attach: "obeys R (attach_inbound_files e t)"
  unfolding attach_inbound_files_def attach_file_def by (intro control best_effort obeys_update storage_law)

lemma auto_assign: "obeys R (maybe_auto_assign t tnt)"
  unfolding maybe_auto_assign_def auto_assign_email_ticket_def Let_def by (intro control best_effort)

lemma load: "obeys R (move_load ten now u old)"
  unfolding move_load_def Let_def by (intro control)

lemmas desk_laws = control best_effort notify hub_logs attach auto_assign load

lemma saved_email:
  assumes "\<And>d. R d (d\<lparr>inbound_emails := map (\<lambda>r. if ie_id r = ie_id e then g r else r) (inbound_emails d)\<rparr>)"
  shows "obeys R (save_email e g)"
  unfolding save_email_def write_email_def by (intro control obeys_update assms)

lemma saved_hub:
  assumes "\<And>d. R d (d\<lparr>hub_emails := map (\<lambda>r. if he_id r = i then g r else r) (hub_emails d)\<rparr>)"
  shows "obeys R (write_hub i g)" "obeys R (save_hub i g)"
  unfolding save_hub_def write_hub_def by (intro control obeys_update assms)+

end

end
