(* ===== verification/Hub_Laws.thy ===== *)
theory Hub_Laws
  imports Desk_Laws Agents_Laws Email_Text_Laws
begin

text \<open>
  Laws of the Inbox Hub: the lifecycle of a parked email under every service,
  and what a caller holding an old instance can do to it.
\<close>

section \<open>Operations that leave the parked emails alone\<close>

definition same_hub :: "desk \<Rightarrow> desk \<Rightarrow> bool" where
  "same_hub d d' \<longleftrightarrow> hub_emails d' = hub_emails d"

interpretation hub_frame: desk_law same_hub
  by unfold_locales (simp_all add: same_hub_def)

named_theorems hub_frames \<open>operations that leave the table of parked emails alone\<close>

lemmas [hub_frames] = hub_frame.desk_laws

lemma frame_save_email [hub_frames]: "obeys same_hub (save_email e g)"
  by (rule hub_frame.saved_email) (simp add: same_hub_def)

lemma frame_create_ticket [hub_frames]: "obeys same_hub (create_ticket_from_email e tnt c u ov)"
  unfolding create_ticket_from_email_def by (intro hub_frames)

lemma frame_hand_over [hub_frames]: "obeys same_hub (hand_over he u)"
  unfolding hand_over_def by (intro hub_frames)

section \<open>The lifecycle law\<close>

definition moves :: "(hub_state \<times> hub_state) set" where
  "moves = {(old, new). can_transition old new}"

definition lifecycle_kept :: "desk \<Rightarrow> desk \<Rightarrow> bool" where
  "lifecycle_kept d d' \<longleftrightarrow> (\<forall>i r. hub_row d i = Some r \<longrightarrow>
     (\<exists>r'. hub_row d' i = Some r' \<and> (he_state r, he_state r') \<in> moves\<^sup>*))"

interpretation lifecycle: step_law lifecycle_kept
  by unfold_locales (auto simp: lifecycle_kept_def, meson rtrancl_trans)

lemma same_lifecycle: "same_hub d d' \<Longrightarrow> lifecycle_kept d d'"
  by (auto simp: lifecycle_kept_def same_hub_def hub_row_def)

definition lawful :: "desk \<Rightarrow> 'a act \<Rightarrow> bool" where
  "lawful d c \<longleftrightarrow> lifecycle_kept d (snd (c d))"

lemma lawful_frame: "obeys same_hub c \<Longrightarrow> lawful d c"
  by (simp add: lawful_def obeys_def same_lifecycle)

lemma lawful_asks: "lawful d (k (g d)) \<Longrightarrow> lawful d (bindc (asks g) k)"
  by (simp add: lawful_def cmd_simps)

lemma lawful_skip:
  assumes "obeys same_hub c" "\<And>a d1. hub_emails d1 = hub_emails d \<Longrightarrow> lawful d1 (k a)"
  shows "lawful d (bindc c k)"
proof (cases "c d")
  case (Pair r d1)
  with assms(1) have same: "hub_emails d1 = hub_emails d" by (auto dest: obeysD simp: same_hub_def)
  then have "lifecycle_kept d d1" by (simp add: same_hub_def same_lifecycle)
  then show ?thesis
    using assms(2) [OF same] lifecycle.step_trans by (cases r) (auto simp: lawful_def run_bind Pair)
qed

lemma lawful_skip_then:
  "obeys same_hub c \<Longrightarrow> (\<And>d1. hub_emails d1 = hub_emails d \<Longrightarrow> lawful d1 k) \<Longrightarrow> lawful d (thenc c k)"
  unfolding thenc_def by (rule lawful_skip)

lemma lawful_after: "lawful d c \<Longrightarrow> (\<And>a. obeys same_hub (k a)) \<Longrightarrow> lawful d (bindc c k)"
  unfolding lawful_def
  by (cases "c d"; cases "fst (c d)") (auto simp: run_bind obeys_def, meson lifecycle.step_trans same_lifecycle)

lemma lawful_atomic: "lawful d c \<Longrightarrow> lawful d (atomically c)"
  unfolding lawful_def
  by (cases "c d"; cases "fst (c d)") (auto simp: run_atomic desk_rollback_def lifecycle_kept_def hub_row_def)

lemma hub_row_written:
  assumes "\<And>r. he_id (g r) = he_id r"
  shows "hub_row (snd (write_hub i g d)) j = (if i = j then map_option g (hub_row d j) else hub_row d j)"
proof -
  have "first_row (\<lambda>r. he_id r = j) (map (\<lambda>r. if he_id r = i then g r else r) rows) =
      (if i = j then map_option g (first_row (\<lambda>r. he_id r = j) rows) else first_row (\<lambda>r. he_id r = j) rows)" for rows
    using assms by (induction rows) auto
  then show ?thesis by (simp add: hub_row_def write_hub_def run_update)
qed

lemma lawful_save:
  assumes "obeys same_hub rest" "\<And>r. he_id (g r) = he_id r"
    and "\<And>r. hub_row d i = Some r \<Longrightarrow> (he_state r, he_state (g r)) \<in> moves\<^sup>*"
  shows "lawful d (thenc (save_hub i g) rest)"
proof (cases "hub_row d i")
  case (Some r)
  have "lifecycle_kept d (snd (write_hub i g d))"
    using assms(3) by (auto simp: lifecycle_kept_def hub_row_written [OF assms(2)])
  moreover have "thenc (save_hub i g) rest d = rest (snd (write_hub i g d))"
    by (simp add: save_hub_def cmd_simps Some write_hub_def)
  moreover have "same_hub (snd (write_hub i g d)) (snd (rest (snd (write_hub i g d))))"
    using assms(1) by (simp add: obeys_def)
  ultimately show ?thesis unfolding lawful_def by (metis lifecycle.step_trans same_lifecycle)
qed (simp add: lawful_def save_hub_def cmd_simps lifecycle.step_refl)

lemma lawful_locked:
  assumes "\<And>he. hub_row d (he_id hub_email) = Some he \<Longrightarrow> he_id he = he_id hub_email \<Longrightarrow> lawful d (k he)"
  shows "lawful d (bindc (locked_hub hub_email) k)"
proof (cases "hub_row d (he_id hub_email)")
  case (Some he)
  then have "he_id he = he_id hub_email" unfolding hub_row_def by (drule_tac first_row_SomeD) simp
  with Some show ?thesis using assms by (simp add: lawful_def locked_hub_def cmd_simps)
qed (simp add: lawful_def locked_hub_def cmd_simps lifecycle.step_refl)

lemma lawful_if: "(b \<Longrightarrow> lawful d c) \<Longrightarrow> (\<not> b \<Longrightarrow> lawful d e) \<Longrightarrow> lawful d (if b then c else e)"
  by simp

lemma obeys_lawful: "(\<And>d. lawful d c) \<Longrightarrow> obeys lifecycle_kept c"
  by (simp add: obeys_def lawful_def)

lemma lawful_obeys: "obeys lifecycle_kept c \<Longrightarrow> lawful d c"
  by (simp add: obeys_def lawful_def)

lemma moves_stay: "(st, st) \<in> moves\<^sup>*" by simp

lemma moves_one: "can_transition st st' \<Longrightarrow> (st, st') \<in> moves\<^sup>*"
  by (auto simp: moves_def)

lemma assert_run: "assert_transition a b d = (if can_transition a b then Inr ()
    else Inl (ValueError (''Illegal HubEmail transition: '' @ state_value a @ '' -> '' @ state_value b)), d)"
  by (simp add: assert_transition_def cmd_simps)

lemma lawful_assert: "(can_transition a b \<Longrightarrow> lawful d c) \<Longrightarrow> lawful d (thenc (assert_transition a b) c)"
  by (auto simp: lawful_def run_then assert_run lifecycle.step_refl)

lemma law_assign: "lawful d (assign_to he u reason actor ro)"
  unfolding assign_to_def Let_def
  apply (rule lawful_skip, intro hub_frames)
  apply (rule lawful_after, rule lawful_atomic, rule lawful_locked)
   apply (rule lawful_if, rule lawful_frame, intro hub_frames)
   apply (rule lawful_asks, rule lawful_asks, rule lawful_if, rule lawful_frame, intro hub_frames)
   apply (rule lawful_save, intro hub_frames)
    apply (simp add: claim_row_def)
   apply (simp add: claim_row_def moves_one can_transition_def)
  apply (intro hub_frames)
  done

lemma law_convert: "lawful d (convert_to_ticket he u ov)"
  unfolding convert_to_ticket_def Let_def
  apply (rule lawful_atomic, rule lawful_skip, intro hub_frames)
  apply (rule lawful_locked, rule lawful_if, rule lawful_frame, intro hub_frames)
  subgoal for now d1 l
    apply (cases "he_state l = HConverted")
     apply (simp add: whenc_def)
     apply (rule lawful_skip_then, intro hub_frames)
     apply (rule lawful_skip, intro hub_frames)+
     apply (rule lawful_save, intro hub_frames)
      apply (simp_all add: hub_row_def whenc_def)
    apply (rule lawful_assert)
    apply (rule lawful_skip, intro hub_frames)+
    apply (rule lawful_save, intro hub_frames)
     apply (simp_all add: hub_row_def moves_one)
    done
  done

lemma law_dismiss: "lawful d (dismiss_hub_email he u reason)"
  unfolding dismiss_hub_email_def Let_def
  apply (rule lawful_atomic, rule lawful_skip, intro hub_frames)
  apply (rule lawful_locked, rule lawful_if, rule lawful_frame, intro hub_frames)
  apply (rule lawful_assert)
  apply (rule lawful_save, intro hub_frames)
   apply (simp_all add: moves_one)
  done

lemma law_reassign: "lawful d (reassign_hub_email he u actor reason)"
  unfolding reassign_hub_email_def Let_def
  apply (rule lawful_skip, intro hub_frames)
  apply (rule lawful_asks, rule lawful_if, rule lawful_frame, intro hub_frames)
  apply (rule lawful_after, rule lawful_atomic, rule lawful_locked)
   apply (rule lawful_if, rule lawful_frame, intro hub_frames)
   apply (rule lawful_save, intro hub_frames)
     apply (simp add: moves_one can_transition_def)
    apply (simp add: moves_one can_transition_def)
  apply (simp only: case_prod_unfold, intro hub_frames)
  done

text \<open>An instance whose state is that of the row.\<close>

definition current :: "desk \<Rightarrow> hub_email \<Rightarrow> bool" where
  "current d he \<longleftrightarrow> (case hub_row d (he_id he) of None \<Rightarrow> True | Some r \<Rightarrow> he_state r = he_state he)"

lemma law_transition: "current d he \<Longrightarrow> lawful d (transition_hub_email he st actor)"
  unfolding transition_hub_email_def Let_def
  apply (rule lawful_assert, rule lawful_atomic, rule lawful_skip, intro hub_frames)
  apply (rule lawful_save, intro hub_frames)
   apply (simp_all add: moves_one current_def hub_row_def)
  done

lemma law_escalate: "current d he \<Longrightarrow> lawful d (escalate_hub_email he actor)"
  unfolding escalate_hub_email_def Let_def
  apply (rule lawful_asks, rule lawful_if, rule lawful_frame, intro hub_frames)
  apply (rule lawful_after, rule lawful_atomic)
   apply (rule lawful_save, intro hub_frames)
    apply (simp_all add: moves_one current_def hub_row_def)
  apply (intro hub_frames)
  done

lemma law_apply_decision: "lawful d (apply_decision he x)"
  unfolding apply_decision_def Let_def
  apply (rule lawful_if, rule lawful_frame, intro hub_frames)
  apply (rule lawful_save, intro hub_frames)
   apply simp_all
  done

lemma law_routing: "lawful d (classify_and_route he)"
  unfolding classify_and_route_def
  by (rule lawful_skip, intro hub_frames, rule lawful_asks, rule law_apply_decision)

lemma law_sla: "lawful d (initialize_hub_sla he)"
  unfolding initialize_hub_sla_def Let_def
  apply (rule lawful_asks)
  apply (cases "hub_policy d he")
   apply (simp, rule lawful_frame, intro hub_frames)
  apply simp
  apply (rule lawful_skip, intro hub_frames)
  apply (rule lawful_save, intro hub_frames)
   apply simp_all
  done

lemma law_try_assign: "lawful d (try_assign he actor hold)"
  unfolding try_assign_def
  apply (rule lawful_asks)
  apply (cases "select_agent d he")
   apply (simp, rule lawful_frame, intro hub_frames)
  apply (simp add: law_assign)
  done

lemmas law_intros = obeys_lawful [OF law_routing] obeys_lawful [OF law_sla] obeys_lawful [OF law_try_assign]
  obeys_lawful [OF law_assign]

lemma law_hooks: "obeys lifecycle_kept (post_park_hooks he)"
  unfolding post_park_hooks_def best_effort_def
  by (intro lifecycle.obeys_bind lifecycle.obeys_try lifecycle.obeys_when lifecycle.obeys_ret law_intros)

lemma law_drain: "obeys lifecycle_kept (drain_department_backlog u tnt)"
proof -
  have "obeys lifecycle_kept (drain_step u he n)" for he n
    unfolding drain_step_def by (intro lifecycle.obeys_bind lifecycle.obeys_ret law_intros)
  then have loop: "obeys lifecycle_kept (for_each held (drain_step u) 0)" for held
    by (intro lifecycle.obeys_for)
  show ?thesis
    unfolding drain_department_backlog_def
    by (auto intro!: lifecycle.obeys_bind lifecycle.obeys_ret lifecycle.obeys_asks loop split: option.split)
qed

section \<open>Runs of the hub\<close>

text \<open>
  What the endpoints and tasks do: a request loads the instance it passes on, so
  a transition or an escalation works on the state of the row unless another
  request comes in between.
\<close>

inductive hub_step :: "desk \<Rightarrow> desk \<Rightarrow> bool" where
  step_hooks: "hub_step d (snd (post_park_hooks he d))"
| step_drain: "hub_step d (snd (drain_department_backlog u tnt d))"
| step_assign: "hub_step d (snd (assign_to he u reason actor ro d))"
| step_convert: "hub_step d (snd (convert_to_ticket he u ov d))"
| step_dismiss: "hub_step d (snd (dismiss_hub_email he u why d))"
| step_reassign: "hub_step d (snd (reassign_hub_email he u actor why d))"
| step_transition: "current d he \<Longrightarrow> hub_step d (snd (transition_hub_email he st actor d))"
| step_escalate: "current d he \<Longrightarrow> hub_step d (snd (escalate_hub_email he actor d))"

inductive hub_run :: "desk \<Rightarrow> desk \<Rightarrow> bool" where
  hub_refl: "hub_run d d"
| hub_more: "hub_run d d1 \<Longrightarrow> hub_step d1 d2 \<Longrightarrow> hub_run d d2"

lemma step_kept: "hub_step d d' \<Longrightarrow> lifecycle_kept d d'"
  by (induction rule: hub_step.induct)
     (simp_all only: lawful_def [symmetric] law_assign law_convert law_dismiss law_reassign law_transition law_escalate
       lawful_obeys [OF law_hooks] lawful_obeys [OF law_drain])

lemma run_kept: "hub_run d d' \<Longrightarrow> lifecycle_kept d d'"
  by (induction rule: hub_run.induct) (auto intro: lifecycle.step_refl lifecycle.step_trans step_kept)

lemma terminal_stuck: "terminal st \<Longrightarrow> (st, st') \<in> moves\<^sup>* \<Longrightarrow> st' = st"
  by (erule converse_rtranclE) (auto simp: moves_def can_transition_def terminal_def)


text \<open>
  Without the row: an instance read before the email was dismissed still
  escalates it, and a transition to the assigned state names no agent.
\<close>

lemma saved_row:
  assumes "hub_row d i = Some r" "\<And>r. he_id (g r) = he_id r" "obeys same_hub rest"
  shows "hub_row (snd (thenc (save_hub i g) rest d)) i = Some (g r)"
proof -
  have "thenc (save_hub i g) rest d = rest (snd (write_hub i g d))"
    by (simp add: save_hub_def cmd_simps assms(1) write_hub_def)
  moreover have "same_hub (snd (write_hub i g d)) (snd (rest (snd (write_hub i g d))))"
    using assms(3) by (simp add: obeys_def)
  ultimately show ?thesis using hub_row_written [OF assms(2), of i d i] assms(1) by (simp add: same_hub_def hub_row_def)
qed

lemma after_frame: "obeys same_hub c \<Longrightarrow> c d = (r, d') \<Longrightarrow> hub_row d' i = hub_row d i"
  by (auto simp: hub_row_def same_hub_def dest: obeysD)

lemma stale_transition_revives:
  assumes "hub_row d (he_id he) = Some r" "he_state r = HDismissed" "he_state he = HAssigned"
  shows "\<exists>r'. hub_row (snd (transition_hub_email he HResolved actor d)) (he_id he) = Some r' \<and> he_state r' = HResolved"
proof -
  let ?g = "\<lambda>r. r\<lparr>he_state := HResolved, he_first_responded_at :=
    (if HResolved \<in> set RESPONSE_STATES \<and> he_first_responded_at he = None then Some (clock (base d)) else he_first_responded_at r)\<rparr>"
  let ?rest = "thenc (write_activity_log (?g he) actor AStatusChanged
      [(''from'', JStr (state_value (he_state he))), (''to'', JStr (state_value HResolved))])
    (thenc (hub_event (?g he) ''hub_email.transitioned'' []) (ret (?g he)))"
  have "snd (transition_hub_email he HResolved actor d) = snd (atomically (thenc (save_hub (he_id he) ?g) ?rest) d)"
    by (simp only: transition_hub_email_def run_then assert_run assms(3) can_transition_def HUB_TRANSITIONS.simps)
       (simp add: run_atomic run_bind run_now Let_def)
  moreover have "\<exists>a d'. thenc (save_hub (he_id he) ?g) ?rest d = (Inr a, d')"
    by (simp add: save_hub_def cmd_simps assms(1) write_hub_def write_activity_log_def log_activity_def hub_event_def)
  then have "snd (atomically (thenc (save_hub (he_id he) ?g) ?rest) d) = snd (thenc (save_hub (he_id he) ?g) ?rest d)"
    by (elim exE) (simp only: run_atomic prod.case sum.case)
  moreover have "obeys same_hub ?rest" by (intro hub_frames)
  then have "hub_row (snd (thenc (save_hub (he_id he) ?g) ?rest d)) (he_id he) = Some (?g r)"
    using assms(1) by (intro saved_row) simp_all
  ultimately show ?thesis by simp
qed

definition demo_hub :: hub_email where
  "demo_hub = (parked_row 70 demo_email demo_tenant None 500)\<lparr>he_department := Some 30\<rparr>"

definition hub_desk :: desk where
  "hub_desk = agents_desk\<lparr>inbound_emails := [demo_email], hub_emails := [demo_hub],
     departments := [\<lparr>dept_id = 30, dept_tenant = 1, dept_lead = demo_user, dept_default_queue = None, dept_active = True\<rparr>],
     dept_members := [\<lparr>dm_tenant = 1, dm_department = 30, dm_user = 8\<rparr>]\<rparr>"


end
