(* ===== verification/Hub_Queue.thy ===== *)
theory Hub_Queue
  imports Hub_Laws
begin

text \<open>
  How work moves through the hub: routing rules against a reference reading,
  the backlog that an agent who comes online takes over, and the SLA sweep,
  which finds nothing to do on a second run.
\<close>

section \<open>Routing\<close>

text \<open>The rules that have a say: those that match, up to the first that stops.\<close>

definition considered :: "(routing_rule \<Rightarrow> bool) \<Rightarrow> routing_rule list \<Rightarrow> routing_rule list" where
  "considered hit rs = (let hs = filter hit rs
     in takeWhile (\<lambda>r. \<not> stop_on_match r) hs @ take 1 (dropWhile (\<lambda>r. \<not> stop_on_match r) hs))"

definition last_some :: "'a option list \<Rightarrow> 'a option" where
  "last_some xs = (let ys = filter (\<lambda>x. x \<noteq> None) xs in if ys = [] then None else last ys)"

lemma last_some_Nil [simp]: "last_some [] = None"
  by (simp add: last_some_def)

lemma last_some_snoc [simp]: "last_some (xs @ [x]) = later x (last_some xs)"
  by (cases x) (simp_all add: last_some_def later_def Let_def)

definition non_empty :: "string \<Rightarrow> string option" where
  "non_empty s = (if s = [] then None else Some s)"

definition verdict :: "routing_rule list \<Rightarrow> routing_decision" where
  "verdict rs = \<lparr>dec_department = last_some (map rr_department rs), dec_queue = last_some (map rr_queue rs),
     dec_category = (case last_some (map (non_empty \<circ> rr_category) rs) of None \<Rightarrow> [] | Some c \<Rightarrow> c),
     dec_priority = last_some (map rr_priority rs), matched_rule = last_some (map (Some \<circ> rr_id) rs)\<rparr>"

lemma verdict_snoc: "verdict (rs @ [r]) = apply_rule r (verdict rs)"
  by (simp add: verdict_def apply_rule_def non_empty_def later_def)

lemma considered_Cons: "considered hit (r # rs) =
    (if \<not> hit r then considered hit rs else if stop_on_match r then [r] else r # considered hit rs)"
  by (simp add: considered_def Let_def)

lemma apply_rules_verdict: "apply_rules hit rs (verdict done) = verdict (done @ considered hit rs)"
proof (induction rs arbitrary: "done")
  case Nil
  then show ?case by (simp add: considered_def)
next
  case (Cons r rs)
  from Cons.IH [of "done @ [r]"] Cons.IH [of "done"] show ?case
    by (simp add: considered_Cons verdict_snoc [symmetric])
qed

lemma verdict_Nil: "verdict [] = undecided"
  by (simp add: verdict_def undecided_def)

text \<open>
  C22: Routing reads the active rules of the tenant in order.  Of the matching
  rules up to and including the first that stops, the last one that names a
  department, a queue, a category or a priority decides it; the department
  falls back to the default one, and the queue to the default queue of the
  department.
\<close>

theorem routing_last_word:
  "let rs = considered (rule_matches (re_search d) (facts_of e)) (tenant_rules d (hub_tenant he));
       x = evaluate d he e
   in dec_department x = (case last_some (map rr_department rs) of Some i \<Rightarrow> Some i
        | None \<Rightarrow> default_department d (he_tenant he)) \<and>
      dec_queue x = (case last_some (map rr_queue rs) of Some i \<Rightarrow> Some i
        | None \<Rightarrow> (case dec_department x of None \<Rightarrow> None | Some i \<Rightarrow> (case department_row d i of
            None \<Rightarrow> None | Some y \<Rightarrow> dept_default_queue y))) \<and>
      dec_category x = (case last_some (map (non_empty \<circ> rr_category) rs) of None \<Rightarrow> [] | Some c \<Rightarrow> c) \<and>
      dec_priority x = last_some (map rr_priority rs) \<and> matched_rule x = last_some (map (Some \<circ> rr_id) rs)"
proof -
  have "apply_rules hit rs undecided = verdict (considered hit rs)" for hit rs
    using apply_rules_verdict [of hit rs "[]"] by (simp add: verdict_Nil)
  then show ?thesis
    unfolding evaluate_def Let_def by (simp add: verdict_def cong: option.case_cong)
qed

section \<open>Operations that leave agents and parked emails alone\<close>

definition quiet :: "desk \<Rightarrow> desk \<Rightarrow> bool" where
  "quiet d d' \<longleftrightarrow> hub_emails d' = hub_emails d \<and> availabilities d' = availabilities d \<and> departments d' = departments d \<and>
     dept_members d' = dept_members d \<and>
     settings_of d' = settings_of d \<and> clock (base d') = clock (base d) \<and> zoneinfo_db (base d') = zoneinfo_db (base d)"

lemma quiet_trans: "quiet d d1 \<Longrightarrow> quiet d1 d2 \<Longrightarrow> quiet d d2"
  by (simp add: quiet_def)

text \<open>A command that returns and is quiet, from every desk.\<close>

definition calm :: "'a act \<Rightarrow> bool" where
  "calm c \<longleftrightarrow> (\<forall>d. \<exists>a d'. c d = (Inr a, d') \<and> quiet d d')"

lemma calmD: "calm c \<Longrightarrow> \<exists>a d'. c d = (Inr a, d') \<and> quiet d d'"
  by (simp add: calm_def)

lemma calm_unitD: "calm (c :: unit act) \<Longrightarrow> \<exists>d'. c d = (Inr (), d') \<and> quiet d d'"
  by (auto simp: calm_def)

lemma calm_basic: "calm (ret a)" "calm (record_hub_assignment he u by r n)" "calm (write_activity_log he act k x)"
    "calm (hub_event he ev x)"
  by (auto simp: calm_def cmd_simps quiet_def record_hub_assignment_def write_activity_log_def log_activity_def hub_event_def)

lemma calm_notice: "calm (hub_notice he u k url x)"
  by (auto simp: calm_def hub_notice_def best_effort_def notify_def cmd_simps send_notification_run quiet_def)

lemma then_step: "c d = (Inr a, d') \<Longrightarrow> thenc c k d = k d'"
  by (simp add: run_then)

lemma calm_then: "calm c \<Longrightarrow> calm k \<Longrightarrow> calm (thenc c k)"
  unfolding calm_def run_then by (metis (mono_tags, lifting) old.prod.case quiet_trans sum.simps(6))

lemma calm_hand_over: "calm (hand_over he u)"
  unfolding calm_def
proof
  fix d
  show "\<exists>a d'. hand_over he u d = (Inr a, d') \<and> quiet d d'"
  proof (cases "email_row d (he_inbound he)")
    case (Some e)
    then have "ie_id e = he_inbound he" unfolding email_row_def by (drule_tac first_row_SomeD) simp
    moreover have "immutable_violation e e = None" by (simp add: immutable_violation_def)
    ultimately show ?thesis
      using Some by (simp add: hand_over_def save_email_def cmd_simps write_email_def quiet_def)
  qed (simp add: hand_over_def cmd_simps quiet_def)
qed

section \<open>The backlog of an agent who comes online\<close>

text \<open>The parked emails after an agent took those with the given ids.\<close>

definition claim_ids :: "nat set \<Rightarrow> instant \<Rightarrow> user \<Rightarrow> hub_email list \<Rightarrow> hub_email list" where
  "claim_ids ids now u es = map (\<lambda>r. if he_id r \<in> ids then claim_row now u r else r) es"

lemma assign_online_run:
  assumes "hub_row d (he_id he) = Some he" "he_state he = HNew" "he_assignee he = None"
    and "availability_of d (hub_tenant he) (user_id u) = Some a" "is_assignable d a"
  shows "\<exists>d'. assign_to he u Auto None True d = (Inr (Some u), d') \<and>
    quiet (d\<lparr>hub_emails := claim_ids {he_id he} (clock (base d)) u (hub_emails d),
             availabilities := bump a (clock (base d)) (availabilities d)\<rparr>) d'"
proof -
  let ?now = "clock (base d)" and ?he = "claim_row (clock (base d)) u he"
  let ?d1 = "d\<lparr>hub_emails := claim_ids {he_id he} ?now u (hub_emails d)\<rparr>"
  let ?tail = "thenc (write_activity_log ?he None AEmailAgentAssigned
      [(''assignee'', jpk (user_id u)), (''reason'', JStr (reason_value Auto))])
    (thenc (hub_event ?he ''hub_email.assigned'' [(''department_id'', jopt jpk (he_department ?he))]) (ret (Some ?he)))"
  obtain dh where dh: "hand_over ?he u ?d1 = (Inr (), dh)" "quiet ?d1 dh"
    using calm_unitD [OF calm_hand_over] by blast
  obtain d2 where d2: "record_hub_assignment ?he u None Auto [] dh = (Inr (), d2)" "quiet dh d2"
    using calm_unitD [OF calm_basic(2)] by blast
  have mid: "update_availabilities (\<lambda>r. av_id r = av_id a) (one_more ?now) d2 =
      (Inr (), d2\<lparr>availabilities := bump a ?now (availabilities d)\<rparr>)"
    using dh(2) d2(2) by (simp add: bump_returns quiet_def)
  have "\<exists>d3. ?tail (d2\<lparr>availabilities := bump a ?now (availabilities d)\<rparr>) = (Inr (Some ?he), d3) \<and>
      quiet (d2\<lparr>availabilities := bump a ?now (availabilities d)\<rparr>) d3"
    by (simp add: cmd_simps write_activity_log_def log_activity_def hub_event_def quiet_def)
  then obtain d3 where d3: "?tail (d2\<lparr>availabilities := bump a ?now (availabilities d)\<rparr>) = (Inr (Some ?he), d3)"
    "quiet (d2\<lparr>availabilities := bump a ?now (availabilities d)\<rparr>) d3" by blast
  obtain d4 where d4: "hub_notice ?he u NHubEmailAssigned ''/inbox/'' [] d3 = (Inr (), d4)" "quiet d3 d4"
    using calm_unitD [OF calm_notice] by blast
  have save: "save_hub (he_id he) (claim_row ?now u) d = (Inr (), ?d1)"
    by (simp add: save_hub_def cmd_simps assms(1) write_hub_def claim_ids_def)
  have body: "thenc (save_hub (he_id he) (claim_row ?now u)) (thenc (hand_over ?he u) (thenc (record_hub_assignment ?he u None Auto [])
      (thenc (update_availabilities (\<lambda>r. av_id r = av_id a) (one_more ?now)) ?tail))) d = (Inr (Some ?he), d3)"
    by (rule trans [OF then_step], rule save, rule trans [OF then_step], rule dh(1), rule trans [OF then_step], rule d2(1),
        rule trans [OF then_step], rule mid, rule d3(1))
  have "assign_to he u Auto None True d = (Inr (Some u), d4)"
    unfolding assign_to_def run_bind run_now run_atomic locked_hub_def run_row_or_raise run_asks Let_def
    by (simp only: assms body option.case prod.case sum.case simp_thms if_False run_bind run_asks)
      (simp only: run_then d4(1) run_ret prod.case sum.case)
  moreover have "quiet (d\<lparr>hub_emails := claim_ids {he_id he} ?now u (hub_emails d),
      availabilities := bump a ?now (availabilities d)\<rparr>) d4"
    using dh(2) d2(2) d3(2) d4(2) by (simp add: quiet_def)
  ultimately show ?thesis by blast
qed

lemma claim_ids_simps [simp]:
  "claim_ids {} now u es = es" "map he_id (claim_ids A now u es) = map he_id es"
  "claim_ids B now u (claim_ids A now u es) = claim_ids (A \<union> B) now u es"
  by (auto simp: claim_ids_def claim_row_def or_set_def split: option.splits)

lemma not_claimed: "r \<in> set es \<Longrightarrow> he_id r \<notin> A \<Longrightarrow> r \<in> set (claim_ids A now u es)"
  by (force simp: claim_ids_def)

lemma hub_row_self:
  assumes "distinct (map he_id (hub_emails d))" "he \<in> set (hub_emails d)"
  shows "hub_row d (he_id he) = Some he"
proof -
  have "first_row (\<lambda>r. he_id r = he_id he) es = Some he" if "he \<in> set es" "distinct (map he_id es)" for es
    using that by (induction es) (auto simp: rev_image_eqI)
  then show ?thesis using assms by (simp add: hub_row_def)
qed

definition waiting_for :: "desk \<Rightarrow> availability \<Rightarrow> hub_email list \<Rightarrow> bool" where
  "waiting_for d a held \<longleftrightarrow> row_ids_ok d \<and> a \<in> set (availabilities d) \<and> (held = [] \<or> is_assignable d a) \<and>
     length held \<le> remaining_capacity a \<and> distinct (map he_id (hub_emails d)) \<and> distinct (map he_id held) \<and>
     (\<forall>he \<in> set held. he \<in> set (hub_emails d) \<and> he_state he = HNew \<and> he_assignee he = None \<and> hub_tenant he = av_tenant a)"

lemma is_assignable_frame:
  "settings_of d' = settings_of d \<Longrightarrow> clock (base d') = clock (base d) \<Longrightarrow> zoneinfo_db (base d') = zoneinfo_db (base d) \<Longrightarrow>
   is_assignable d' a = is_assignable d a"
proof -
  assume eqs: "settings_of d' = settings_of d" "clock (base d') = clock (base d)" "zoneinfo_db (base d') = zoneinfo_db (base d)"
  have "within_working_hours d' a = within_working_hours d a"
    unfolding within_working_hours_def server_now_def eqs ..
  then show ?thesis by (simp add: is_assignable_def presence_fresh_def eqs cong: option.case_cong)
qed

lemma is_assignable_more:
  assumes "is_assignable d a" "remaining_capacity a > 1"
  shows "is_assignable d (one_more now a)"
proof -
  have "within_working_hours d (one_more now a) = within_working_hours d a" "presence_fresh d (one_more now a) = presence_fresh d a"
    by (simp_all add: within_working_hours_def presence_fresh_def one_more_def)
  then show ?thesis using assms by (simp add: is_assignable_def one_more_def remaining_capacity_def split: if_splits)
qed

lemma bump_ids: "row_ids_ok d \<Longrightarrow> availabilities d' = bump a now (availabilities d) \<Longrightarrow> row_ids_ok d'"
  by (simp add: row_ids_ok_def bump_def one_more_def o_def if_distrib cong: if_cong)

lemma waiting_next:
  assumes w: "waiting_for d a (he # held)"
    and q: "quiet (d\<lparr>hub_emails := claim_ids {he_id he} now u (hub_emails d), availabilities := bump a now (availabilities d)\<rparr>) d1"
  shows "waiting_for d1 (one_more now a) held"
proof -
  have "one_more now a \<in> set (availabilities d1)" using w q by (auto simp: quiet_def waiting_for_def bump_def image_iff)
  moreover have "row_ids_ok d1" using w q bump_ids [of d d1 a now] by (simp add: quiet_def waiting_for_def)
  moreover have "held = [] \<or> is_assignable d1 (one_more now a)"
    using w q is_assignable_more [of d a now] is_assignable_frame [of d1 d]
    by (cases held) (simp_all add: quiet_def waiting_for_def)
  moreover have "length held \<le> remaining_capacity (one_more now a)"
    using w by (auto simp: waiting_for_def remaining_capacity_def one_more_def)
  moreover have "distinct (map he_id (hub_emails d1))" using w q by (simp add: quiet_def waiting_for_def)
  moreover have "h \<in> set (hub_emails d1) \<and> he_state h = HNew \<and> he_assignee h = None \<and> hub_tenant h = av_tenant (one_more now a)"
    if "h \<in> set held" for h
    using that w q by (auto simp: quiet_def waiting_for_def one_more_def image_iff intro!: not_claimed)
  ultimately show ?thesis using w by (simp add: waiting_for_def)
qed

lemma drain_run:
  assumes "waiting_for d a held"
  shows "\<exists>d'. for_each held (drain_step (av_user a)) n d = (Inr (n + length held), d') \<and>
    quiet (d\<lparr>hub_emails := claim_ids (he_id ` set held) (clock (base d)) (av_user a) (hub_emails d),
             availabilities := (bump a (clock (base d)) ^^ length held) (availabilities d)\<rparr>) d'"
  using assms
proof (induction held arbitrary: d a n)
  case Nil
  then show ?case by (simp add: run_ret quiet_def)
next
  case (Cons he held)
  let ?now = "clock (base d)"
  have "hub_row d (he_id he) = Some he" "he_state he = HNew" "he_assignee he = None"
    "availability_of d (hub_tenant he) (user_id (av_user a)) = Some a" "is_assignable d a"
    using Cons.prems hub_row_self [of d he] availability_of_row [of d a] by (simp_all add: waiting_for_def)
  from assign_online_run [OF this] obtain d1 where
    d1: "assign_to he (av_user a) Auto None True d = (Inr (Some (av_user a)), d1)"
      "quiet (d\<lparr>hub_emails := claim_ids {he_id he} ?now (av_user a) (hub_emails d),
        availabilities := bump a ?now (availabilities d)\<rparr>) d1" by blast
  have same: "av_user (one_more ?now a) = av_user a" "bump (one_more ?now a) = bump a"
    "clock (base d1) = ?now"
    using d1(2) by (simp_all add: one_more_def bump_def fun_eq_iff quiet_def)
  obtain d' where d': "for_each held (drain_step (av_user a)) (n + 1) d1 = (Inr (n + 1 + length held), d')"
    "quiet (d1\<lparr>hub_emails := claim_ids (he_id ` set held) ?now (av_user a) (hub_emails d1),
        availabilities := (bump a ?now ^^ length held) (availabilities d1)\<rparr>) d'"
    using Cons.IH [OF waiting_next [OF Cons.prems d1(2)], of "n + 1"] unfolding same by blast
  have "drain_step (av_user a) he n d = (Inr (n + 1), d1)"
    by (simp add: drain_step_def run_bind d1(1) run_ret)
  then have "for_each (he # held) (drain_step (av_user a)) n d = (Inr (n + length (he # held)), d')"
    using d'(1) by (simp add: run_bind)
  moreover have "quiet (d\<lparr>hub_emails := claim_ids (he_id ` set (he # held)) ?now (av_user a) (hub_emails d),
      availabilities := (bump a ?now ^^ length (he # held)) (availabilities d)\<rparr>) d'"
    using d1(2) d'(2) by (simp add: quiet_def funpow_swap1)
  ultimately show ?case by blast
qed

lemma bumped_count:
  "a \<in> set as \<Longrightarrow> \<exists>b \<in> set ((bump a now ^^ n) as). av_id b = av_id a \<and>
     current_ticket_count b = current_ticket_count a + n \<and> max_concurrent_tickets b = max_concurrent_tickets a"
proof (induction n)
  case (Suc n)
  then obtain b where "b \<in> set ((bump a now ^^ n) as)" "av_id b = av_id a"
    "current_ticket_count b = current_ticket_count a + n" "max_concurrent_tickets b = max_concurrent_tickets a" by blast
  moreover from this have "one_more now b \<in> set (bump a now ((bump a now ^^ n) as))" unfolding bump_def by force
  ultimately show ?case by (intro bexI [of _ "one_more now b"]) (simp_all add: one_more_def)
qed auto

lemma distinct_sorted_filter: "distinct (map f xs) \<Longrightarrow> distinct (map f (sort_key g (filter P xs)))"
  by (auto simp: distinct_map inj_on_def)

lemma claimed_not_held: "filter (held_for d ten i) (claim_ids ids now u es) =
    filter (\<lambda>r. he_id r \<notin> ids) (filter (held_for d ten i) es)"
  by (induction es) (simp_all add: claim_ids_def held_for_def claim_row_def)

lemma left_over:
  assumes "distinct (map f xs)"
  shows "length (filter (\<lambda>r. f r \<notin> f ` set (take n (sort_key g xs))) xs) = length xs - n"
proof -
  let ?s = "sort_key g xs"
  have "distinct (map f (take n ?s @ drop n ?s))" using distinct_sorted_filter [OF assms, of g "\<lambda>_. True"] by simp
  then have "set (map f (drop n ?s)) \<inter> f ` set (take n ?s) = {}" by (simp only: map_append distinct_append) auto
  then have "filter (\<lambda>r. f r \<notin> f ` set (take n ?s)) (take n ?s @ drop n ?s) = drop n ?s"
    by (simp only: filter_append) (auto simp: filter_empty_conv filter_id_conv)
  then have "filter (\<lambda>r. f r \<notin> f ` set (take n ?s)) ?s = drop n ?s" by (simp only: append_take_drop_id)
  moreover have "length (filter Q ?s) = length (filter Q xs)" for Q
    by (simp add: filter_sort)
  ultimately show ?thesis by (metis length_drop length_sort)
qed

text \<open>
  C21: An agent who comes online with room for work takes over the oldest
  emails that wait for the tenant in the departments of the agent or in none,
  as many as there is room for: each of them becomes assigned to the agent, no
  other parked email changes, the count of the agent grows by that number and
  stays within the maximum, and only what exceeded the room still waits.
\<close>

theorem backlog_drained:
  assumes "row_ids_ok d" "distinct (map he_id (hub_emails d))" "a \<in> set (availabilities d)" "is_assignable d a"
    and "av_tenant a = tenant_id tnt" "case settings tnt of None \<Rightarrow> True | Some ts \<Rightarrow> inbox_hub_auto_assign ts"
  shows "let waits = (\<lambda>d. filter (held_for d (tenant_id tnt) (user_id (av_user a))) (hub_emails d));
             taken = take (remaining_capacity a) (sort_key he_created_at (waits d))
         in \<exists>d'. drain_department_backlog (av_user a) tnt d = (Inr (length taken), d') \<and>
           hub_emails d' = claim_ids (he_id ` set taken) (clock (base d)) (av_user a) (hub_emails d) \<and>
           (\<exists>b \<in> set (availabilities d'). av_id b = av_id a \<and> current_ticket_count b = current_ticket_count a + length taken \<and>
              current_ticket_count b \<le> max_concurrent_tickets b) \<and>
           length (waits d') = length (waits d) - remaining_capacity a"
proof -
  let ?held = "held_for d (tenant_id tnt) (user_id (av_user a))"
  let ?taken = "take (remaining_capacity a) (sort_key he_created_at (filter ?held (hub_emails d)))"
  have ids: "distinct (map he_id (filter ?held (hub_emails d)))" using assms(2) by (auto simp: distinct_map intro: inj_on_subset)
  have "waiting_for d a ?taken"
    unfolding waiting_for_def using assms distinct_sorted_filter [OF assms(2), of he_created_at ?held]
    by (auto simp: held_for_def take_map [symmetric] dest!: in_set_takeD)
  from drain_run [OF this, of 0] obtain d' where
    d': "for_each ?taken (drain_step (av_user a)) 0 d = (Inr (length ?taken), d')"
      "quiet (d\<lparr>hub_emails := claim_ids (he_id ` set ?taken) (clock (base d)) (av_user a) (hub_emails d),
        availabilities := (bump a (clock (base d)) ^^ length ?taken) (availabilities d)\<rparr>) d'" by auto
  have on: "\<not> (case settings tnt of None \<Rightarrow> False | Some ts \<Rightarrow> \<not> inbox_hub_auto_assign ts)"
    using assms(6) by (cases "settings tnt") auto
  have "drain_department_backlog (av_user a) tnt d = (Inr (length ?taken), d')"
    using availability_of_row [OF assms(1,3)] assms(4,5) unfolding drain_department_backlog_def if_not_P [OF on]
    by (simp only: run_bind run_asks prod.case sum.case option.case d'(1) simp_thms if_False)
  moreover have "hub_emails d' = claim_ids (he_id ` set ?taken) (clock (base d)) (av_user a) (hub_emails d)"
    using d'(2) by (simp add: quiet_def)
  moreover have "dept_ids_of d' = dept_ids_of d" using d'(2) by (intro ext) (simp add: dept_ids_of_def quiet_def)
  then have "held_for d' = held_for d" by (intro ext) (simp add: held_for_def cong: option.case_cong)
  then have "length (filter (held_for d' (tenant_id tnt) (user_id (av_user a))) (hub_emails d')) =
      length (filter ?held (hub_emails d)) - remaining_capacity a"
    using left_over [OF ids, of "remaining_capacity a" he_created_at] calculation(2) by (simp only: claimed_not_held)
  moreover have "length ?taken \<le> remaining_capacity a" by simp
  then have "\<exists>b \<in> set (availabilities d'). av_id b = av_id a \<and> current_ticket_count b = current_ticket_count a + length ?taken \<and>
      current_ticket_count b \<le> max_concurrent_tickets b"
    using bumped_count [OF assms(3), of "length ?taken" "clock (base d)"] assms(4) d'(2)
    by (auto simp: quiet_def remaining_capacity_def is_assignable_def split: if_splits)
  ultimately show ?thesis unfolding Let_def by blast
qed

theorem backlog_drained_witness:
  "\<exists>d'. drain_department_backlog (demo_user\<lparr>user_id := 8\<rparr>) demo_tenant hub_desk = (Inr 1, d') \<and>
     filter (held_for d' 1 8) (hub_emails d') = []"
proof -
  let ?a = "demo_agent 61 (demo_user\<lparr>user_id := 8\<rparr>) 1 (clock (base hub_desk))"
  have agents: "availabilities hub_desk = [demo_agent 60 demo_user 2 (clock (base hub_desk) - 200 * second_us), ?a]"
    by (simp add: hub_desk_def agents_desk_rows)
  have "row_ids_ok hub_desk" by (simp add: row_ids_ok_def agents demo_agent_def demo_user_def)
  moreover have "distinct (map he_id (hub_emails hub_desk))" by (simp add: hub_desk_def)
  moreover have "?a \<in> set (availabilities hub_desk)" by (simp add: agents)
  moreover have "is_assignable hub_desk ?a"
    by (simp add: is_assignable_def demo_agent_def remaining_capacity_def presence_fresh_def hub_desk_def agents_desk_ttl second_us_def)
  moreover have "av_tenant ?a = tenant_id demo_tenant" by (simp add: demo_agent_def demo_tenant_def)
  moreover have "case settings demo_tenant of None \<Rightarrow> True | Some ts \<Rightarrow> inbox_hub_auto_assign ts" by (simp add: demo_tenant_def)
  moreover have "av_user ?a = demo_user\<lparr>user_id := 8\<rparr>" "user_id (av_user ?a) = 8" "remaining_capacity ?a = 2" "tenant_id demo_tenant = 1"
    by (simp_all add: demo_agent_def remaining_capacity_def demo_tenant_def)
  moreover have "filter (held_for hub_desk 1 8) (hub_emails hub_desk) = [demo_hub]"
    by (simp add: hub_desk_def held_for_def demo_hub_def parked_row_def hub_tenant_def demo_tenant_def dept_ids_of_def)
  ultimately show ?thesis using backlog_drained [of hub_desk ?a demo_tenant] unfolding Let_def by auto
qed

section \<open>The SLA sweep\<close>

definition on_row :: "nat \<Rightarrow> (hub_email \<Rightarrow> hub_email) \<Rightarrow> hub_email list \<Rightarrow> hub_email list" where
  "on_row i g es = map (\<lambda>r. if he_id r = i then g r else r) es"

text \<open>A run that changes one parked email, and no agent and no department.\<close>

definition alters :: "nat \<Rightarrow> (hub_email \<Rightarrow> hub_email) \<Rightarrow> desk \<Rightarrow> desk \<Rightarrow> bool" where
  "alters i g d d' \<longleftrightarrow> (\<forall>r. he_id (g r) = he_id r) \<and> quiet (d\<lparr>hub_emails := on_row i g (hub_emails d)\<rparr>) d'"

lemma alters_trans: "alters i g d d1 \<Longrightarrow> alters i h d1 d2 \<Longrightarrow> alters i (h \<circ> g) d d2"
  by (auto simp: alters_def quiet_def on_row_def)

lemma quiet_alters: "quiet d d' \<Longrightarrow> alters i (\<lambda>r. r) d d'"
  by (simp add: alters_def quiet_def on_row_def)

lemma calm_twice:
  assumes "calm c" "calm k"
  shows "\<exists>d'. thenc c (thenc k (ret x)) d = (Inr x, d') \<and> quiet d d'"
proof -
  obtain a d1 where d1: "c d = (Inr a, d1)" "quiet d d1" using calmD [OF assms(1)] by blast
  obtain b d2 where d2: "k d1 = (Inr b, d2)" "quiet d1 d2" using calmD [OF assms(2)] by blast
  show ?thesis using d1 d2 quiet_trans by (simp add: run_then run_ret)
qed

lemma save_hub_row: "hub_row d i = Some r \<Longrightarrow> save_hub i g d = write_hub i g d"
  by (simp add: save_hub_def cmd_simps)

lemma write_alters: "(\<And>r. he_id (g r) = he_id r) \<Longrightarrow> \<exists>d'. write_hub i g d = (Inr (), d') \<and> alters i g d d'"
  by (simp add: write_hub_def cmd_simps alters_def quiet_def on_row_def)

lemma calm_notify_sla: "calm (notify_sla he b)"
proof -
  have loop: "calm (for_each us (\<lambda>u _. hub_notice he u k url []) ())" for us k url
  proof (induction us)
    case (Cons u us)
    then show ?case using calm_then [OF calm_notice Cons.IH] by (simp add: thenc_def)
  qed (simp add: calm_basic)
  then show ?thesis unfolding calm_def notify_sla_def run_bind run_asks by (auto dest: calmD)
qed

definition sla_view :: "hub_email \<Rightarrow> bool \<times> bool \<times> instant option \<times> json \<times> instant option \<times> instant option" where
  "sla_view r = (response_breached r, resolution_breached r, he_first_responded_at r, auto_classification_data r,
     sla_response_due_at r, sla_resolution_due_at r)"

lemma escalate_run:
  assumes "hub_row d (he_id he) = Some r"
  shows "\<exists>he' g d'. escalate_hub_email he actor d = (Inr he', d') \<and> alters (he_id he) g d d' \<and> (\<forall>r. sla_view (g r) = sla_view r)"
proof (cases "can_transition (he_state he) HEscalated")
  case False
  then show ?thesis
    using quiet_alters [of d d] by (auto simp: escalate_hub_email_def cmd_simps quiet_def intro!: exI [of _ "\<lambda>r. r"])
next
  case True
  let ?target = "lead_of d (he_department he)"
  let ?f = "\<lambda>r. r\<lparr>he_escalation_count := he_escalation_count he + 1, he_state := HEscalated,
     escalated_to := (case ?target of None \<Rightarrow> escalated_to r | Some u \<Rightarrow> Some u)\<rparr>"
  obtain d1 where d1: "write_hub (he_id he) ?f d = (Inr (), d1)" "alters (he_id he) ?f d d1"
    using write_alters [of ?f "he_id he" d] by auto
  let ?log = "write_activity_log (?f he) actor AEmailEscalated
      [(''escalated_to'', jopt (jpk \<circ> user_id) ?target), (''count'', JInt (int (he_escalation_count he + 1)))]"
  have "\<exists>d2. thenc ?log (thenc (hub_event (?f he) ''hub_email.escalated'' []) (ret (?f he))) d1 = (Inr (?f he), d2) \<and> quiet d1 d2"
    by (rule calm_twice [OF calm_basic(3) calm_basic(4)])
  then obtain d2 where d2: "thenc ?log (thenc (hub_event (?f he) ''hub_email.escalated'' []) (ret (?f he))) d1 = (Inr (?f he), d2)"
    "quiet d1 d2" by blast
  have saved: "save_hub (he_id he) ?f d = (Inr (), d1)" using save_hub_row [OF assms] d1(1) by simp
  have body: "thenc (save_hub (he_id he) ?f) (thenc ?log (thenc (hub_event (?f he) ''hub_email.escalated'' []) (ret (?f he)))) d = (Inr (?f he), d2)"
    by (rule trans [OF then_step], rule saved, rule d2(1))
  have "calm (case ?target of None \<Rightarrow> ret () | Some u \<Rightarrow> hub_notice (?f he) u NHubEmailEscalatedToMe ''/emails/'' [])"
    by (cases ?target) (simp_all add: calm_basic calm_notice)
  from calm_unitD [OF this] obtain d3 where
    d3: "(case ?target of None \<Rightarrow> ret () | Some u \<Rightarrow> hub_notice (?f he) u NHubEmailEscalatedToMe ''/emails/'' []) d2 = (Inr (), d3)"
      "quiet d2 d3" by blast
  have "escalate_hub_email he actor d = (Inr (?f he), d3)"
    unfolding escalate_hub_email_def run_bind run_asks run_atomic Let_def
    by (simp only: True body prod.case sum.case simp_thms if_False) (simp only: run_then d3(1) run_ret prod.case sum.case)
  moreover have "alters (he_id he) ?f d d3"
    using alters_trans [OF d1(2) quiet_alters [OF quiet_trans [OF d2(2) d3(2)]]] by (simp add: o_def)
  moreover have "sla_view (?f r) = sla_view r" for r by (simp add: sla_view_def)
  ultimately show ?thesis by blast
qed

definition owes_breach :: "instant \<Rightarrow> hub_email \<Rightarrow> bool" where
  "owes_breach now r \<longleftrightarrow> \<not> response_breached r \<and> he_first_responded_at r = None \<and> response_passed now r"

definition owes_warning :: "instant \<Rightarrow> int \<Rightarrow> hub_email \<Rightarrow> bool" where
  "owes_warning now window r \<longleftrightarrow> \<not> response_breached r \<and> he_first_responded_at r = None \<and> \<not> response_passed now r \<and>
     response_near window now r \<and> \<not> warning_sent r"

definition owes_resolution :: "instant \<Rightarrow> hub_email \<Rightarrow> bool" where
  "owes_resolution now r \<longleftrightarrow> \<not> resolution_breached r \<and> resolution_passed now r"

definition settled :: "instant \<Rightarrow> int \<Rightarrow> hub_email \<Rightarrow> bool" where
  "settled now window r \<longleftrightarrow> \<not> owes_breach now r \<and> \<not> owes_warning now window r \<and> \<not> owes_resolution now r"

lemmas owes = owes_breach_def owes_warning_def owes_resolution_def response_passed_def resolution_passed_def
  response_near_def warning_sent_def classification_def

lemma settled_view: "sla_view r = sla_view r' \<Longrightarrow> settled now window r = settled now window r'"
  by (simp add: settled_def owes sla_view_def)

definition tally :: "instant \<Rightarrow> int \<Rightarrow> hub_email \<Rightarrow> sweep_result \<Rightarrow> sweep_result" where
  "tally now window he n = n\<lparr>swept_breached := swept_breached n + (if owes_breach now he then 1 else 0),
     swept_warned := swept_warned n + (if owes_warning now window he then 1 else 0),
     swept_resolution := swept_resolution n + (if owes_resolution now he then 1 else 0)\<rparr>"

lemma sweep_one_owes: "sweep_one now window he n =
    thenc (whenc (owes_breach now he) (sweep_breach he))
    (thenc (whenc (owes_warning now window he) (sweep_warning he))
    (thenc (whenc (owes_resolution now he) (write_hub (he_id he) (\<lambda>r. r\<lparr>resolution_breached := True\<rparr>)))
      (ret (tally now window he n))))"
  by (simp add: sweep_one_def Let_def tally_def owes_breach_def owes_warning_def owes_resolution_def conj_assoc)

lemma sweep_one_settled: "settled now window he \<Longrightarrow> sweep_one now window he n d = (Inr n, d)"
  by (simp add: sweep_one_owes settled_def whenc_def tally_def cmd_simps)

lemma sweep_breach_run:
  assumes "hub_row d (he_id he) = Some he"
  shows "\<exists>g d'. sweep_breach he d = (Inr (), d') \<and> alters (he_id he) g d d' \<and>
    (\<forall>r. sla_view (g r) = sla_view (r\<lparr>response_breached := True\<rparr>))"
proof -
  let ?f = "\<lambda>r. r\<lparr>response_breached := True\<rparr>"
  obtain d1 where d1: "write_hub (he_id he) ?f d = (Inr (), d1)" "alters (he_id he) ?f d d1"
    using write_alters [of ?f "he_id he" d] by auto
  obtain d2 where d2: "notify_sla (?f he) True d1 = (Inr (), d2)" "quiet d1 d2"
    using calm_unitD [OF calm_notify_sla] by blast
  have "hub_row d2 (he_id (?f he)) = Some (?f he)"
    using hub_row_written [of ?f "he_id he" d "he_id he"] assms d1(1) d2(2) by (simp add: hub_row_def quiet_def)
  from escalate_run [OF this, of None] obtain he' g d3 where
    d3: "escalate_hub_email (?f he) None d2 = (Inr he', d3)" "alters (he_id he) g d2 d3" "\<And>r. sla_view (g r) = sla_view r"
    by auto
  have "sweep_breach he d = (Inr (), d3)"
    unfolding sweep_breach_def
    by (rule trans [OF then_step], rule d1(1), rule trans [OF then_step], rule d2(1))
       (simp add: best_effort_def cmd_simps d3(1))
  moreover have "alters (he_id he) (g \<circ> ?f) d d3"
    using alters_trans [OF alters_trans [OF d1(2) quiet_alters [OF d2(2)]] d3(2)] by (simp add: o_def)
  ultimately show ?thesis using d3(3) by (intro exI [of _ "g \<circ> ?f"] exI [of _ d3]) simp
qed

lemma sweep_warning_run: "\<exists>d'. sweep_warning he d = (Inr (), d') \<and>
    alters (he_id he) (\<lambda>r. r\<lparr>auto_classification_data := JObj (dict_set (classification he) ''sla_warning_sent'' (JBool True))\<rparr>) d d'"
proof -
  let ?f = "\<lambda>r. r\<lparr>auto_classification_data := JObj (dict_set (classification he) ''sla_warning_sent'' (JBool True))\<rparr>"
  obtain d1 where d1: "write_hub (he_id he) ?f d = (Inr (), d1)" "alters (he_id he) ?f d d1"
    using write_alters [of ?f "he_id he" d] by auto
  obtain d2 where d2: "notify_sla he False d1 = (Inr (), d2)" "quiet d1 d2"
    using calm_unitD [OF calm_notify_sla] by blast
  have "sweep_warning he d = (Inr (), d2)"
    unfolding sweep_warning_def by (rule trans [OF then_step], rule d1(1), rule d2(1))
  then show ?thesis using alters_trans [OF d1(2) quiet_alters [OF d2(2)]] by (simp add: o_def)
qed

lemma whenc_alters:
  assumes "b \<Longrightarrow> \<exists>g d'. c d = (Inr (), d') \<and> alters i g d d' \<and> P g" "\<not> b \<Longrightarrow> P (\<lambda>r. r)"
  shows "\<exists>g d'. whenc b c d = (Inr (), d') \<and> alters i g d d' \<and> P g"
  using assms quiet_alters [of d d i] by (cases b) (auto simp: whenc_def run_ret quiet_def)

definition swept_row :: "instant \<Rightarrow> int \<Rightarrow> hub_email \<Rightarrow> hub_email" where
  "swept_row now window he = he\<lparr>response_breached := (response_breached he \<or> owes_breach now he),
     auto_classification_data := (if owes_warning now window he
        then JObj (dict_set (classification he) ''sla_warning_sent'' (JBool True)) else auto_classification_data he),
     resolution_breached := (resolution_breached he \<or> owes_resolution now he)\<rparr>"

lemma swept_row_settled: "settled now window (swept_row now window he)"
  by (cases "he_first_responded_at he"; cases "sla_response_due_at he"; cases "sla_resolution_due_at he")
     (auto simp: settled_def swept_row_def owes split: option.splits)

lemma sweep_one_run:
  assumes "hub_row d (he_id he) = Some he"
  shows "\<exists>g d'. sweep_one now window he n d = (Inr (tally now window he n), d') \<and> alters (he_id he) g d d' \<and>
    settled now window (g he)"
proof -
  obtain g1 d1 where d1: "whenc (owes_breach now he) (sweep_breach he) d = (Inr (), d1)" "alters (he_id he) g1 d d1"
    "\<forall>r. sla_view (g1 r) = sla_view (r\<lparr>response_breached := (response_breached r \<or> owes_breach now he)\<rparr>)"
    using whenc_alters [of "owes_breach now he" "sweep_breach he" d "he_id he"
      "\<lambda>g. \<forall>r. sla_view (g r) = sla_view (r\<lparr>response_breached := (response_breached r \<or> owes_breach now he)\<rparr>)"]
      sweep_breach_run [OF assms] by auto
  obtain g2 d2 where d2: "whenc (owes_warning now window he) (sweep_warning he) d1 = (Inr (), d2)" "alters (he_id he) g2 d1 d2"
    "\<forall>r. g2 r = (if owes_warning now window he then r\<lparr>auto_classification_data :=
        JObj (dict_set (classification he) ''sla_warning_sent'' (JBool True))\<rparr> else r)"
    using whenc_alters [of "owes_warning now window he" "sweep_warning he" d1 "he_id he" "\<lambda>g. \<forall>r. g r =
      (if owes_warning now window he then r\<lparr>auto_classification_data :=
        JObj (dict_set (classification he) ''sla_warning_sent'' (JBool True))\<rparr> else r)"] sweep_warning_run [of he d1] by auto
  obtain g3 d3 where d3: "whenc (owes_resolution now he) (write_hub (he_id he) (\<lambda>r. r\<lparr>resolution_breached := True\<rparr>)) d2 = (Inr (), d3)"
    "alters (he_id he) g3 d2 d3" "\<forall>r. g3 r = (if owes_resolution now he then r\<lparr>resolution_breached := True\<rparr> else r)"
    using whenc_alters [of "owes_resolution now he" "write_hub (he_id he) (\<lambda>r. r\<lparr>resolution_breached := True\<rparr>)" d2 "he_id he"
      "\<lambda>g. \<forall>r. g r = (if owes_resolution now he then r\<lparr>resolution_breached := True\<rparr> else r)"]
      write_alters [of "\<lambda>r. r\<lparr>resolution_breached := True\<rparr>" "he_id he" d2] by auto
  have "sweep_one now window he n d = (Inr (tally now window he n), d3)"
    unfolding sweep_one_owes
    by (rule trans [OF then_step], rule d1(1), rule trans [OF then_step], rule d2(1), rule trans [OF then_step], rule d3(1), rule run_ret)
  moreover have "alters (he_id he) (g3 \<circ> (g2 \<circ> g1)) d d3"
    by (rule alters_trans [OF alters_trans [OF d1(2) d2(2)] d3(2)])
  moreover have "sla_view ((g3 \<circ> (g2 \<circ> g1)) he) = sla_view (swept_row now window he)"
    using d1(3) [rule_format, of he] d2(3) d3(3) by (simp add: sla_view_def swept_row_def)
  then have "settled now window ((g3 \<circ> (g2 \<circ> g1)) he)" using settled_view swept_row_settled by blast
  ultimately show ?thesis by blast
qed

definition to_sweep :: "desk \<Rightarrow> hub_email list \<Rightarrow> bool" where
  "to_sweep d rows \<longleftrightarrow> distinct (map he_id (hub_emails d)) \<and> distinct (map he_id rows) \<and> set rows \<subseteq> set (hub_emails d)"

lemma sweep_next:
  assumes "to_sweep d (he # rows)" "alters (he_id he) g d d1"
  shows "to_sweep d1 rows"
  using assms by (auto simp: to_sweep_def alters_def quiet_def on_row_def image_iff o_def if_distrib cong: if_cong)

definition tallies :: "instant \<Rightarrow> int \<Rightarrow> hub_email list \<Rightarrow> sweep_result \<Rightarrow> sweep_result" where
  "tallies now window rows n = n\<lparr>swept_breached := swept_breached n + length (filter (owes_breach now) rows),
     swept_warned := swept_warned n + length (filter (owes_warning now window) rows),
     swept_resolution := swept_resolution n + length (filter (owes_resolution now) rows)\<rparr>"

lemma tallies_simps [simp]: "tallies now window [] n = n"
  "tallies now window (r # rs) n = tallies now window rs (tally now window r n)"
  by (simp_all add: tallies_def tally_def)

lemma sweep_run:
  "to_sweep d rows \<Longrightarrow> \<exists>d'. for_each rows (sweep_one now window) n d = (Inr (tallies now window rows n), d') \<and>
     settings_of d' = settings_of d \<and> clock (base d') = clock (base d) \<and> map he_id (hub_emails d') = map he_id (hub_emails d) \<and>
     (\<forall>r \<in> set (hub_emails d'). if he_id r \<in> he_id ` set rows then settled now window r else r \<in> set (hub_emails d))"
proof (induction rows arbitrary: d n)
  case Nil
  then show ?case by (simp add: run_ret)
next
  case (Cons he rows)
  have row: "hub_row d (he_id he) = Some he" using Cons.prems hub_row_self [of d he] by (simp add: to_sweep_def)
  from sweep_one_run [OF row, of now window n] obtain g d1 where
    d1: "sweep_one now window he n d = (Inr (tally now window he n), d1)" "alters (he_id he) g d d1" "settled now window (g he)"
    by auto
  have "to_sweep d1 rows" by (rule sweep_next [OF Cons.prems d1(2)])
  from Cons.IH [OF this, of "tally now window he n"] obtain d' where
    d': "for_each rows (sweep_one now window) (tally now window he n) d1 = (Inr (tallies now window (he # rows) n), d')"
      "settings_of d' = settings_of d1" "clock (base d') = clock (base d1)" "map he_id (hub_emails d') = map he_id (hub_emails d1)"
      "\<And>r. r \<in> set (hub_emails d') \<Longrightarrow> if he_id r \<in> he_id ` set rows then settled now window r else r \<in> set (hub_emails d1)"
    by auto
  have d1_rows: "if he_id r = he_id he then settled now window r else r \<in> set (hub_emails d)"
    if rin: "r \<in> set (hub_emails d1)" for r
  proof -
    have "hub_emails d1 = on_row (he_id he) g (hub_emails d)" using d1(2) by (simp add: alters_def quiet_def)
    then obtain r0 where r0: "r0 \<in> set (hub_emails d)" "r = (if he_id r0 = he_id he then g r0 else r0)"
      using rin by (simp only: on_row_def set_map image_iff) blast
    have "he_id (g r0) = he_id r0" using d1(2) by (simp add: alters_def)
    have "r0 = he" if "he_id r0 = he_id he"
      using that r0(1) Cons.prems by (auto simp: to_sweep_def distinct_map dest: inj_onD)
    then show ?thesis using r0 d1(3) \<open>he_id (g r0) = he_id r0\<close> by auto
  qed
  have "if he_id r \<in> he_id ` set (he # rows) then settled now window r else r \<in> set (hub_emails d)"
    if "r \<in> set (hub_emails d')" for r
    using d'(5) [OF that] d1_rows [of r] by (auto split: if_splits)
  moreover have "for_each (he # rows) (sweep_one now window) n d = (Inr (tallies now window (he # rows) n), d')"
    using d'(1) by (simp add: run_bind d1(1))
  moreover have "map he_id (hub_emails d1) = map he_id (hub_emails d)" "settings_of d1 = settings_of d" "clock (base d1) = clock (base d)"
    using d1(2) by (auto simp: alters_def quiet_def on_row_def)
  ultimately show ?case using d'(2-4) by (intro exI [of _ d']) simp
qed

lemma sweep_settled_run:
  "list_all (settled now window) rows \<Longrightarrow> for_each rows (sweep_one now window) n d = (Inr n, d)"
  by (induction rows) (simp_all add: run_ret run_bind sweep_one_settled)

text \<open>
  C23: The sweep of the SLA deadlines counts the breaches, warnings and overdue
  resolutions of the emails it looks at and marks each of them, so that a
  second sweep at the same time finds nothing, notifies nobody, escalates
  nothing and leaves every row as it is.
\<close>

theorem sweep_settles:
  assumes "distinct (map he_id (hub_emails d))"
  shows "let rows = filter swept (hub_emails d); now = clock (base d);
             window = hub_sla_warning_minutes (settings_of d) * minute_us
         in \<exists>d'. check_hub_sla_breaches d = (Inr \<lparr>swept_breached = length (filter (owes_breach now) rows),
              swept_warned = length (filter (owes_warning now window) rows),
              swept_resolution = length (filter (owes_resolution now) rows)\<rparr>, d') \<and>
            check_hub_sla_breaches d' = (Inr \<lparr>swept_breached = 0, swept_warned = 0, swept_resolution = 0\<rparr>, d')"
proof -
  let ?rows = "filter swept (hub_emails d)" and ?now = "clock (base d)"
    and ?window = "hub_sla_warning_minutes (settings_of d) * minute_us" and ?zero = "\<lparr>swept_breached = 0, swept_warned = 0, swept_resolution = 0\<rparr>"
  have "to_sweep d ?rows" using assms by (auto simp: to_sweep_def distinct_map intro: inj_on_subset)
  from sweep_run [OF this, of ?now ?window ?zero] obtain d' where
    d': "for_each ?rows (sweep_one ?now ?window) ?zero d = (Inr (tallies ?now ?window ?rows ?zero), d')"
      "settings_of d' = settings_of d" "clock (base d') = ?now"
      "\<And>r. r \<in> set (hub_emails d') \<Longrightarrow> if he_id r \<in> he_id ` set ?rows then settled ?now ?window r else r \<in> set (hub_emails d)"
    by auto
  have "settled ?now ?window r" if "r \<in> set (hub_emails d')" "swept r" for r
    using d'(4) [OF that(1)] that(2) by (auto split: if_splits)
  then have "list_all (settled ?now ?window) (filter swept (hub_emails d'))" by (auto simp: list_all_iff)
  from sweep_settled_run [OF this, of ?zero d']
  have "check_hub_sla_breaches d' = (Inr ?zero, d')"
    unfolding check_hub_sla_breaches_def run_bind run_now run_asks by (simp add: d'(2,3))
  moreover have "check_hub_sla_breaches d = (Inr (tallies ?now ?window ?rows ?zero), d')"
    unfolding check_hub_sla_breaches_def run_bind run_now run_asks by (simp add: d'(1))
  ultimately show ?thesis unfolding Let_def by (simp add: tallies_def)
qed

definition overdue_hub_desk :: desk where
  "overdue_hub_desk = hub_desk\<lparr>hub_emails := [demo_hub\<lparr>sla_response_due_at := Some (clock demo_store - 1)\<rparr>]\<rparr>"

theorem sweep_settles_witness:
  "\<exists>n d'. check_hub_sla_breaches overdue_hub_desk = (Inr n, d') \<and> swept_breached n = 1 \<and>
     check_hub_sla_breaches d' = (Inr \<lparr>swept_breached = 0, swept_warned = 0, swept_resolution = 0\<rparr>, d')"
proof -
  have rows: "filter swept (hub_emails overdue_hub_desk) = [demo_hub\<lparr>sla_response_due_at := Some (clock demo_store - 1)\<rparr>]"
    by (simp add: overdue_hub_desk_def swept_def ACTIVE_SLA_STATES_def demo_hub_def parked_row_def)
  have owed: "owes_breach (clock (base overdue_hub_desk)) (demo_hub\<lparr>sla_response_due_at := Some (clock demo_store - 1)\<rparr>)"
    by (simp add: owes overdue_hub_desk_def hub_desk_def agents_desk_def demo_desk_def demo_hub_def parked_row_def)
  have "distinct (map he_id (hub_emails overdue_hub_desk))" by (simp add: overdue_hub_desk_def)
  from sweep_settles [OF this] show ?thesis unfolding Let_def rows by (auto simp: owed)
qed

end
