(* ===== verification/Email_Pipeline.thy ===== *)
theory Email_Pipeline
  imports Hub_Services
begin

text \<open>
  The processing of an inbound email (\<open>apps/inbound_email/services.py\<close>), the
  task that retries it (\<open>tasks.py\<close>), and what agents do with the emails of the
  inbox (\<open>inbox_services.py\<close>).  \<open>str_of\<close> is \<open>str\<close> on the exceptions; a dash in a message is
  written \<open>--\<close>.
\<close>

section \<open>Bounces\<close>

definition bounce_recipient :: "inbound_email \<Rightarrow> string" where
  "bounce_recipient e =
     (let failed = (if raw_headers e = [] then [] else strip (extract_header (raw_headers e) ''X-Failed-Recipients''))
      in if failed = [] then recipient_email e else failed)"

definition tenant_of_email :: "desk \<Rightarrow> inbound_email \<Rightarrow> tenant option" where
  "tenant_of_email d e = (case ie_tenant e of Some t \<Rightarrow> Some t | None \<Rightarrow> resolve_tenant_from_address d (recipient_email e))"

definition bounce_ticket :: "desk \<Rightarrow> tenant option \<Rightarrow> inbound_email \<Rightarrow> ticket option" where
  "bounce_ticket d tnt e = (case tnt of
     None \<Rightarrow> None | Some t \<Rightarrow> find_existing_ticket (set_tenant (Some (tenant_id t)) d) (tenant_id t) e)"

definition flag_bouncing :: "tenant \<Rightarrow> string \<Rightarrow> unit act" where
  "flag_bouncing tnt address = on_base (update (\<lambda>s. s\<lparr>contacts := map (\<lambda>c.
     if contact_tenant c = tenant_id tnt \<and> contact_email c = address then c\<lparr>email_bouncing := True\<rparr> else c) (contacts s)\<rparr>))"

definition handle_bounce :: "inbound_email \<Rightarrow> string \<Rightarrow> unit act" where
  "handle_bounce e reason =
     thenc (save_email e (\<lambda>r. r\<lparr>ie_status := EBounced, error_message := reason\<rparr>))
     (bindc (asks (\<lambda>d. tenant_of_email d e)) (\<lambda>tnt.
      thenc (whenc (ie_tenant e = None \<and> tnt \<noteq> None) (save_email e (\<lambda>r. r\<lparr>ie_tenant := tnt\<rparr>)))
     (bindc (asks (\<lambda>d. bounce_ticket d tnt e)) (\<lambda>found.
      thenc (case found of
          None \<Rightarrow> ret () | Some t \<Rightarrow> best_effort (save_email e (\<lambda>r. r\<lparr>ie_ticket := Some (pk t)\<rparr>)))
     (thenc (update (\<lambda>d. d\<lparr>bounce_logs := bounce_logs d @ [\<lparr>bl_tenant = map_option tenant_id tnt, bl_email = ie_id e,
          bl_from = sender_email e, bl_to = bounce_recipient e, bl_reason = reason, bl_ticket = map_option pk found\<rparr>]\<rparr>))
        (case tnt of
           None \<Rightarrow> ret () | Some t \<Rightarrow> whenc (bounce_recipient e \<noteq> []) (flag_bouncing t (bounce_recipient e))))))))"

section \<open>The pipeline\<close>

definition inbound_key :: "tenant \<Rightarrow> inbound_email \<Rightarrow> tenant_id \<times> string" where
  "inbound_key tnt e = (tenant_id tnt, ''in:'' @ message_id e)"

definition claimed_by_other :: "desk \<Rightarrow> inbound_email \<Rightarrow> tenant_id \<times> string \<Rightarrow> bool" where
  "claimed_by_other d e k \<longleftrightarrow> (\<exists>x \<in> set (inbound_emails d). idempotency_key x = Some k \<and> ie_id x \<noteq> ie_id e)"

text \<open>The email that was parked just now, if any: its hooks run after the commit.\<close>

definition settle_email :: "inbound_email \<Rightarrow> tenant \<Rightarrow> hub_email option act" where
  "settle_email e tnt =
     bindc (get_system_user tnt) (\<lambda>system_user.
     bindc (find_or_create_contact tnt (sender_email e) (sender_name e)) (\<lambda>(c, _).
     bindc (asks (\<lambda>d. find_existing_ticket d (tenant_id tnt) e)) (\<lambda>existing. case existing of
       Some t \<Rightarrow> bindc (add_reply_to_ticket e t system_user) (\<lambda>_. ret None)
     | None \<Rightarrow> if (case settings tnt of Some ts \<Rightarrow> inbox_hub_enabled ts | None \<Rightarrow> False)
         then bindc (park_email_in_hub e tnt (Some c) system_user) (\<lambda>(he, created). ret (if created then Some he else None))
         else bindc (create_ticket_from_email e tnt (Some c) system_user no_overrides) (\<lambda>_. ret None))))"

definition process_in_tenant :: "inbound_email \<Rightarrow> tenant \<Rightarrow> hub_email option act" where
  "process_in_tenant e tnt =
     bindc (asks (\<lambda>d. claimed_by_other d e (inbound_key tnt e))) (\<lambda>duplicate.
       if duplicate then thenc (reject e ''Duplicate message_id already processed.'') (ret None)
       else thenc (save_email e (\<lambda>r. r\<lparr>idempotency_key := Some (inbound_key tnt e)\<rparr>)) (settle_email e tnt))"

definition refuse :: "inbound_email \<Rightarrow> string \<Rightarrow> unit act" where
  "refuse e reason = bindc (asks (\<lambda>d. classify_email (default_from_email (settings_of d)) e)) (\<lambda>kind.
     if kind = Bounce then handle_bounce e reason else reject e reason)"

definition process_locked :: "inbound_email \<Rightarrow> hub_email option act" where
  "process_locked e =
     bindc (asks (\<lambda>d. run_all_filters (default_from_email (settings_of d)) e)) (\<lambda>filtered. case filtered of
       Some reason \<Rightarrow> thenc (refuse e reason) (ret None)
     | None \<Rightarrow> bindc (asks (\<lambda>d. tenant_of_email d e)) (\<lambda>found. case found of
         None \<Rightarrow> thenc (reject e (''Could not resolve tenant from recipient: '' @ recipient_email e)) (ret None)
       | Some tnt \<Rightarrow>
           thenc (whenc (ie_tenant e = None) (save_email e (\<lambda>r. r\<lparr>ie_tenant := Some tnt\<rparr>)))
             (in_tenant (tenant_id tnt) (process_in_tenant (e\<lparr>ie_tenant := Some tnt\<rparr>) tnt))))"

definition unsettled :: "email_status \<Rightarrow> bool" where
  "unsettled st \<longleftrightarrow> st = EPending \<or> st = EProcessing"

definition process_inbound_email :: "nat \<Rightarrow> hub_email option act" where
  "process_inbound_email i = atomically (
     bindc (row_or_raise ''InboundEmail'' (\<lambda>d. email_row d i)) (\<lambda>e.
       if \<not> unsettled (ie_status e) then ret None
       else thenc (save_email e (\<lambda>r. r\<lparr>ie_status := EProcessing\<rparr>)) (process_locked (e\<lparr>ie_status := EProcessing\<rparr>))))"

definition mark_inbound_failed :: "nat \<Rightarrow> string \<Rightarrow> unit act" where
  "mark_inbound_failed i msg = write_email i (\<lambda>r. r\<lparr>ie_status := EFailed, error_message := msg\<rparr>)"

text \<open>The call of the task: the transaction, its commit and the callbacks.\<close>

definition deliver_email :: "nat \<Rightarrow> unit act" where
  "deliver_email i = bindc (process_inbound_email i) (\<lambda>parked.
     thenc (on_base run_on_commit) (case parked of None \<Rightarrow> ret () | Some he \<Rightarrow> post_park_hooks he))"

definition max_retries :: nat where "max_retries = 3"

text \<open>The value is whether the task is finished; otherwise it is retried.\<close>

definition process_inbound_email_task :: "(pyexc \<Rightarrow> string) \<Rightarrow> nat \<Rightarrow> nat \<Rightarrow> bool act" where
  "process_inbound_email_task str_of i retries =
     try_except (thenc (deliver_email i) (ret True))
       (\<lambda>x. if retries \<ge> max_retries then thenc (mark_inbound_failed i (str_of x)) (ret True) else ret False)"

fun work_off :: "(pyexc \<Rightarrow> string) \<Rightarrow> nat \<Rightarrow> nat \<Rightarrow> bool act" where
  "work_off str_of i 0 = process_inbound_email_task str_of i max_retries"
| "work_off str_of i (Suc n) = bindc (process_inbound_email_task str_of i (max_retries - Suc n)) (\<lambda>finished.
     if finished then ret True else work_off str_of i n)"

section \<open>The inbox of an agent (\<open>inbox_services.py\<close>)\<close>

text \<open>\<open>Ticket.objects\<close>: the tickets of the tenant of the request that are not deleted.\<close>

definition visible_tickets :: "store \<Rightarrow> ticket list" where
  "visible_tickets s = filter (\<lambda>t. \<not> is_deleted t) (scoped s (\<lambda>t. tenant_id (ticket_tenant t)) (tickets s))"

definition link_email_to_ticket :: "inbound_email \<Rightarrow> int \<Rightarrow> user \<Rightarrow> ticket act" where
  "link_email_to_ticket e ticket_number who = atomically (
     if ticket_number \<le> 0 then raise_exc (ValidationError ''ticket_number must be a positive integer.'')
     else case ie_tenant e of
       None \<Rightarrow> raise_exc (ValidationError ''Email has no tenant -- cannot link.'')
     | Some tnt \<Rightarrow>
         bindc (asks (\<lambda>d. first_row (\<lambda>t. tenant_id (ticket_tenant t) = tenant_id tnt \<and> int (number t) = ticket_number)
           (visible_tickets (base d)))) (\<lambda>found. case found of
           None \<Rightarrow> raise_exc (ValidationError (''Ticket #'' @ show_nat (nat ticket_number) @ '' not found in your workspace''))
         | Some t \<Rightarrow> bindc now_of (\<lambda>now.
             let cols = (\<lambda>r. r\<lparr>linked_ticket := Some (pk t), linked_at := Some now, linked_by := Some who,
                     inbox_status_of := ILinked\<rparr>)
             in thenc (save_email (cols e) cols)
               (thenc (on_base (log_activity tnt (Some who) TicketCT (pk t) AEmailLinked
                   (JObj [(''inbound_email_id'', jpk (ie_id e))]) None))
               (thenc (on_base (create_timeline_entry t EEmailLinked (Some who)
                   [(''inbound_email_id'', jpk (ie_id e)), (''from_email'', JStr (sender_email e)), (''subject'', JStr (ie_subject e))]))
                 (ret t))))))"

fun action_name :: "inbox_action \<Rightarrow> string" where
  "action_name OpenAction = ''open''"
| "action_name AssignAction = ''assign''"
| "action_name CloseAction = ''close''"

fun parse_action :: "string \<Rightarrow> inbox_action option" where
  "parse_action s = (if s = ''open'' then Some OpenAction else if s = ''assign'' then Some AssignAction
     else if s = ''close'' then Some CloseAction else None)"

definition perform_action :: "ticket \<Rightarrow> inbox_action \<Rightarrow> user \<Rightarrow> user_id option \<Rightarrow> unit act" where
  "perform_action t act who assignee_id = (case act of
     OpenAction \<Rightarrow> bindc (asks (\<lambda>d. first_status (\<lambda>x. status_slug x = ''open'') (base d))) (\<lambda>found. case found of
         None \<Rightarrow> ret ()
       | Some st \<Rightarrow> whenc (map_option status_id (status t) \<noteq> Some (status_id st))
           (bindc (on_base (transition_ticket_status t st (Some who) None)) (\<lambda>_. ret ())))
   | AssignAction \<Rightarrow> (case assignee_id of
         None \<Rightarrow> raise_exc (ValidationError ''assignee is required for 'assign' action.'')
       | Some i \<Rightarrow> bindc (asks (\<lambda>d. first_row (\<lambda>u. user_id u = i) (users (base d)))) (\<lambda>found. case found of
           None \<Rightarrow> raise_exc (ValidationError ''Assignee not found.'')
         | Some u \<Rightarrow> bindc (on_base (assign_ticket t u (Some who) None [])) (\<lambda>_. ret ())))
   | CloseAction \<Rightarrow> bindc (on_base (close_ticket t (Some who) None)) (\<lambda>_.
       whenc (case contact_of t of Some c \<Rightarrow> contact_email c \<noteq> [] | None \<Rightarrow> False)
         (on_base (register_callback (QueueCsat (pk t) (ticket_tenant t))))))"

definition action_email :: "inbound_email \<Rightarrow> string \<Rightarrow> user \<Rightarrow> user_id option \<Rightarrow> unit act" where
  "action_email e act who assignee_id = atomically (
     if inbox_status_of e = IActioned then raise_exc (ValidationError ''This email has already been actioned'')
     else if inbox_status_of e \<noteq> ILinked
     then raise_exc (ValidationError ''Email must be linked to a ticket before taking action'')
     else case linked_ticket e of
       None \<Rightarrow> raise_exc (ValidationError ''Email must be linked to a ticket before taking action'')
     | Some i \<Rightarrow> (case parse_action act of
         None \<Rightarrow> raise_exc (ValidationError (''Invalid action: '' @ act))
       | Some a \<Rightarrow>
         bindc (row_or_raise ''Ticket'' (\<lambda>d. first_row (\<lambda>t. pk t = i) (visible_tickets (base d)))) (\<lambda>t.
         thenc (perform_action t a who assignee_id)
         (bindc now_of (\<lambda>now.
          let cols = (\<lambda>r. r\<lparr>inbox_status_of := IActioned, actioned_at := Some now, actioned_by := Some who, action_taken := Some a\<rparr>);
              changes = [(''inbound_email_id'', jpk (ie_id e)), (''action'', JStr (action_name a))]
          in thenc (save_email (cols e) cols)
            (thenc (on_base (log_activity (ticket_tenant t) (Some who) TicketCT (pk t) AEmailActioned (JObj changes) None))
              (on_base (create_timeline_entry t EEmailActioned (Some who) changes))))))))"

definition ignore_email :: "inbound_email \<Rightarrow> user \<Rightarrow> unit act" where
  "ignore_email e who = atomically (
     if inbox_status_of e = IActioned then raise_exc (ValidationError ''This email has already been actioned'')
     else if inbox_status_of e = IIgnored then raise_exc (ValidationError ''This email has already been ignored'')
     else thenc (save_email e (\<lambda>r. r\<lparr>inbox_status_of := IIgnored\<rparr>))
       (case ie_tenant e of
          None \<Rightarrow> ret ()
        | Some tnt \<Rightarrow> on_base (log_activity tnt (Some who) InboundEmailCT (ie_id e) AUpdated
            (JObj [(''inbox_status'', JList [JStr ''pending'', JStr ''ignored''])]) None)))"

end
