(* ===== verification/Email_Pipeline_Laws.thy ===== *)
theory Email_Pipeline_Laws
  imports Email_Pipeline Hub_Laws
begin

text \<open>
  What becomes of an inbound email: however its processing fails, it ends up
  settled within the attempts of the task, is processed once, and no two
  emails hold one idempotency key.
\<close>

section \<open>Operations that leave the state of the emails alone\<close>

definition mail_view :: "inbound_email \<Rightarrow> nat \<times> email_status \<times> (tenant_id \<times> string) option" where
  "mail_view e = (ie_id e, ie_status e, idempotency_key e)"

definition mail_kept :: "desk \<Rightarrow> desk \<Rightarrow> bool" where
  "mail_kept d d' \<longleftrightarrow> map mail_view (inbound_emails d') = map mail_view (inbound_emails d)"

interpretation mail: desk_law mail_kept
  by unfold_locales (simp_all add: mail_kept_def)

named_theorems mail_frames \<open>operations that leave the state of the emails alone\<close>

lemmas [mail_frames] = mail.desk_laws

lemma mail_save [mail_frames]: "(\<And>r. mail_view (g r) = mail_view r) \<Longrightarrow> obeys mail_kept (save_email e g)"
  by (rule mail.saved_email) (simp add: mail_kept_def)

lemma mail_hub [mail_frames]: "obeys mail_kept (write_hub i h)" "obeys mail_kept (save_hub i h)"
  by (rule mail.saved_hub, simp add: mail_kept_def)+

lemma mail_hand_over [mail_frames]: "obeys mail_kept (hand_over he u)"
  unfolding hand_over_def by (intro mail_frames) (simp add: mail_view_def)

lemma mail_assign [mail_frames]: "obeys mail_kept (assign_to he u reason actor ro)"
  unfolding assign_to_def locked_hub_def Let_def by (intro mail_frames)

lemma mail_hooks [mail_frames]: "obeys mail_kept (post_park_hooks he)"
  unfolding post_park_hooks_def classify_and_route_def apply_decision_def initialize_hub_sla_def try_assign_def Let_def
  by (intro mail_frames)

lemma mail_in_tenant [mail_frames]: "obeys mail_kept c \<Longrightarrow> obeys mail_kept (in_tenant ten c)"
  by (auto simp: obeys_def in_tenant_def set_tenant_def mail_kept_def split: prod.splits)
     (metis desk.select_convs(15) desk.surjective desk.update_convs(1) snd_conv)

section \<open>Commands that settle an email\<close>

definition is_settled :: "nat \<Rightarrow> desk \<Rightarrow> bool" where
  "is_settled i d \<longleftrightarrow> (\<exists>e. email_row d i = Some e \<and> \<not> unsettled (ie_status e))"

lemma row_of_views: "map_option mail_view (email_row d i) = first_row (\<lambda>v. fst v = i) (map mail_view (inbound_emails d))"
proof -
  have "map_option mail_view (first_row (\<lambda>e. ie_id e = i) es) = first_row (\<lambda>v. fst v = i) (map mail_view es)" for es
    by (induction es) (simp_all add: mail_view_def)
  then show ?thesis by (simp add: email_row_def)
qed

lemma email_settled_view: "is_settled i d \<longleftrightarrow>
    (case map_option mail_view (email_row d i) of None \<Rightarrow> False | Some (_, st, _) \<Rightarrow> \<not> unsettled st)"
  by (cases "email_row d i") (simp_all add: is_settled_def mail_view_def)

lemma mail_kept_row: "mail_kept d d' \<Longrightarrow> map_option mail_view (email_row d' i) = map_option mail_view (email_row d i)"
  by (simp add: mail_kept_def row_of_views)

lemma settled_kept: "mail_kept d d' \<Longrightarrow> is_settled i d \<Longrightarrow> is_settled i d'"
  by (simp only: email_settled_view mail_kept_row)

text \<open>A command that leaves the email settled whenever it returns.\<close>

definition settles :: "nat \<Rightarrow> 'a act \<Rightarrow> bool" where
  "settles i c \<longleftrightarrow> (\<forall>d a d'. c d = (Inr a, d') \<longrightarrow> is_settled i d')"

named_theorems settling \<open>rules for commands that settle an email\<close>

lemma settles_bind: "(\<And>a. settles i (k a)) \<Longrightarrow> settles i (bindc c k)"
  by (auto simp: settles_def run_bind split: prod.splits sum.splits)

lemma settles_then: "settles i k \<Longrightarrow> settles i (thenc c k)"
  unfolding thenc_def by (rule settles_bind)

lemma settles_first: "settles i c \<Longrightarrow> (\<And>a. obeys mail_kept (k a)) \<Longrightarrow> settles i (bindc c k)"
  by (auto simp: settles_def run_bind split: prod.splits sum.splits) (metis obeysD settled_kept)

lemma settles_first_then: "settles i c \<Longrightarrow> obeys mail_kept k \<Longrightarrow> settles i (thenc c k)"
  unfolding thenc_def by (rule settles_first)

lemma settles_raise: "settles i (raise_exc x)"
  by (simp add: settles_def cmd_simps)

lemma settles_choices:
  "(x = None \<Longrightarrow> settles i c) \<Longrightarrow> (\<And>a. x = Some a \<Longrightarrow> settles i (f a)) \<Longrightarrow> settles i (case x of None \<Rightarrow> c | Some a \<Rightarrow> f a)"
  "(b \<Longrightarrow> settles i c) \<Longrightarrow> (\<not> b \<Longrightarrow> settles i e) \<Longrightarrow> settles i (if b then c else e)"
  by (cases x) simp_all

lemma email_row_written:
  assumes "\<And>r. ie_id (g r) = ie_id r"
  shows "email_row (d\<lparr>inbound_emails := map (\<lambda>r. if ie_id r = i then g r else r) (inbound_emails d)\<rparr>) i = map_option g (email_row d i)"
proof -
  have "first_row (\<lambda>r. ie_id r = i) (map (\<lambda>r. if ie_id r = i then g r else r) rows) = map_option g (first_row (\<lambda>r. ie_id r = i) rows)" for rows
    using assms by (induction rows) auto
  then show ?thesis by (simp add: email_row_def)
qed

lemma settles_save:
  assumes "\<And>r. ie_id (g r) = ie_id r" "\<And>r. \<not> unsettled (ie_status (g r))" "ie_id e = i"
  shows "settles i (save_email e g)"
proof -
  have "is_settled i d'" if "save_email e g d = (Inr a, d')" for d d' a
    using that assms(2,3)
    by (auto simp: save_email_def cmd_simps write_email_def is_settled_def email_row_written [OF assms(1)] split: option.splits)
  then show ?thesis by (auto simp: settles_def)
qed

lemma settles_in_tenant: "settles i c \<Longrightarrow> settles i (in_tenant ten c)"
  by (auto simp: settles_def in_tenant_def is_settled_def email_row_def set_tenant_def split: prod.splits)

lemma settles_atomic: "settles i c \<Longrightarrow> settles i (atomically c)"
  by (auto simp: settles_def run_atomic split: prod.splits sum.splits)

lemmas [settling] = settles_choices settles_raise settles_in_tenant settles_atomic

lemma settles_reject: "ie_id e = i \<Longrightarrow> settles i (reject e reason)"
  unfolding reject_def by (rule settles_save) (simp_all add: unsettled_def)

lemma mail_flag [mail_frames]: "obeys mail_kept (flag_bouncing t a)"
  unfolding flag_bouncing_def by (intro mail_frames)

lemma mail_bounce_log [mail_frames]: "obeys mail_kept (update (\<lambda>d. d\<lparr>bounce_logs := f d\<rparr>))"
  by (simp add: obeys_def run_update mail_kept_def)

lemma mail_reopen [mail_frames]: "obeys mail_kept (reopen_resolved_ticket t u)"
  unfolding reopen_resolved_ticket_def by (intro mail_frames)

lemma settles_bounce: "ie_id e = i \<Longrightarrow> settles i (handle_bounce e reason)"
  unfolding handle_bounce_def
  by (rule settles_first_then, rule settles_save) (simp_all add: unsettled_def, (intro mail_frames; simp add: mail_view_def))

lemma settles_reply: "ie_id e = i \<Longrightarrow> settles i (add_reply_to_ticket e t u)"
  unfolding add_reply_to_ticket_def Let_def
  apply (rule settling)
   apply (rule settles_first_then, erule settles_reject, intro mail_frames)
  apply (rule settles_bind, rule settles_then, rule settles_then, rule settles_first_then, rule settles_save)
     apply (simp_all add: unsettled_def)
  apply (intro mail_frames)
  done

lemma settles_create: "ie_id e = i \<Longrightarrow> settles i (create_ticket_from_email e tnt c u ov)"
  unfolding create_ticket_from_email_def
  apply (rule settles_bind, rule settling, rule settling)
  apply (rule settles_bind, rule settles_bind, rule settles_bind, rule settles_first_then, rule settles_save)
     apply (simp_all add: unsettled_def)
  apply (intro mail_frames)
  done

lemma settles_park: "ie_id e = i \<Longrightarrow> settles i (park_email_in_hub e tnt c u)"
  unfolding park_email_in_hub_def Let_def
  apply (rule settles_bind, rule settles_bind, rule settling)
   apply (rule settles_bind, rule settles_then, rule settles_first_then, rule settles_save)
      apply (simp_all add: unsettled_def)
   apply (intro mail_frames)
  apply (rule settles_first_then, rule settles_save)
     apply (simp_all add: unsettled_def)
  apply (intro mail_frames)
  done

lemma settles_in_tenant_body: "ie_id e = i \<Longrightarrow> settles i (process_in_tenant e tnt)"
  unfolding process_in_tenant_def settle_email_def case_prod_unfold
  apply (rule settles_bind, rule settling)
   apply (rule settles_first_then, erule settles_reject, intro mail_frames)
  apply (rule settles_then, rule settles_bind, rule settles_bind, rule settles_bind, rule settling)
   apply (rule settling)
    apply (rule settles_first, erule settles_park, intro mail_frames)
   apply (rule settles_first, erule settles_create, intro mail_frames)
  apply (rule settles_first, erule settles_reply, intro mail_frames)
  done

lemma settles_refuse: "ie_id e = i \<Longrightarrow> settles i (refuse e reason)"
  unfolding refuse_def by (intro settles_bind settling settles_bounce settles_reject)

lemma settles_process: "ie_id e = i \<Longrightarrow> settles i (process_locked e)"
  unfolding process_locked_def
  apply (rule settles_bind, rule settling)
   apply (rule settles_bind, rule settling)
    apply (rule settles_first_then, erule settles_reject, intro mail_frames)
   apply (rule settles_then, rule settling, rule settles_in_tenant_body, simp)
  apply (rule settles_first_then, erule settles_refuse, intro mail_frames)
  done

lemma email_row_id: "email_row d i = Some e \<Longrightarrow> ie_id e = i"
  unfolding email_row_def by (drule first_row_SomeD) simp

lemma process_settles: "settles i (process_inbound_email i)"
proof -
  have "is_settled i d'" if run: "process_inbound_email i d = (Inr x, d')" for d d' x
  proof (cases "email_row d i")
    case None
    with run show ?thesis by (simp add: process_inbound_email_def cmd_simps)
  next
    case (Some e)
    show ?thesis
    proof (cases "unsettled (ie_status e)")
      case True
      let ?c = "thenc (save_email e (\<lambda>r. r\<lparr>ie_status := EProcessing\<rparr>)) (process_locked (e\<lparr>ie_status := EProcessing\<rparr>))"
      have "atomically ?c d = (Inr x, d')"
        using run Some True by (simp add: process_inbound_email_def run_atomic run_bind run_row_or_raise)
      moreover have "settles i (atomically ?c)"
        using email_row_id [OF Some] by (intro settles_atomic settles_then settles_process) simp
      ultimately show ?thesis by (simp add: settles_def)
    next
      case False
      with run Some show ?thesis
        by (simp add: process_inbound_email_def run_atomic run_bind run_row_or_raise run_ret is_settled_def)
    qed
  qed
  then show ?thesis by (auto simp: settles_def)
qed

lemma settled_skipped: "is_settled i d \<Longrightarrow> process_inbound_email i d = (Inr None, d)"
  by (auto simp: is_settled_def process_inbound_email_def cmd_simps)

section \<open>The attempts of the task\<close>

lemma mail_rest: "obeys mail_kept (thenc (on_base run_on_commit) (case parked of None \<Rightarrow> ret () | Some he \<Rightarrow> post_park_hooks he))"
  by (intro mail_frames)

lemma deliver_outcome:
  assumes "email_row d i \<noteq> None" "deliver_email i d = (r, d')"
  shows "email_row d' i \<noteq> None \<and> (r = Inr () \<longrightarrow> is_settled i d')"
proof (cases "process_inbound_email i d")
  case (Pair r1 d1)
  show ?thesis
  proof (cases r1)
    case (Inl x)
    then have "d1 = desk_rollback d (snd (process_inbound_email i d))"
      using Pair by (auto simp: process_inbound_email_def run_atomic desk_rollback_def rollback_def split: prod.splits sum.splits)
    then have "email_row d1 i = email_row d i" by (simp add: email_row_def desk_rollback_def)
    then show ?thesis using assms Pair Inl by (auto simp: deliver_email_def run_bind)
  next
    case (Inr parked)
    let ?rest = "thenc (on_base run_on_commit) (case parked of None \<Rightarrow> ret () | Some he \<Rightarrow> post_park_hooks he)"
    have "is_settled i d1" using process_settles [of i] Pair Inr by (simp add: settles_def)
    moreover have "?rest d1 = (r, d')" using assms(2) Pair Inr by (simp add: deliver_email_def run_bind)
    then have "mail_kept d1 d'" using mail_rest [of parked] by (auto dest: obeysD)
    ultimately have "is_settled i d'" by (rule settled_kept [rotated])
    then show ?thesis by (auto simp: is_settled_def)
  qed
qed

lemma failed_row: "email_row (d\<lparr>inbound_emails := map (\<lambda>r. if ie_id r = i then r\<lparr>ie_status := EFailed, error_message := m\<rparr> else r)
    (inbound_emails d)\<rparr>) i = map_option (\<lambda>r. r\<lparr>ie_status := EFailed, error_message := m\<rparr>) (email_row d i)"
  by (rule email_row_written) simp

lemma attempt_outcome:
  assumes "email_row d i \<noteq> None"
  shows "\<exists>b d'. process_inbound_email_task str_of i retries d = (Inr b, d') \<and> email_row d' i \<noteq> None \<and>
    (b \<longrightarrow> is_settled i d') \<and> (max_retries \<le> retries \<longrightarrow> b)"
proof (cases "deliver_email i d")
  case (Pair r d1)
  note out = deliver_outcome [OF assms Pair]
  show ?thesis
  proof (cases r)
    case (Inr u)
    then show ?thesis using out Pair
      by (intro exI [of _ True] exI [of _ d1]) (simp add: process_inbound_email_task_def try_except_def run_then run_ret)
  next
    case (Inl x)
    let ?d2 = "d1\<lparr>inbound_emails := map (\<lambda>r. if ie_id r = i then r\<lparr>ie_status := EFailed, error_message := str_of x\<rparr> else r)
      (inbound_emails d1)\<rparr>"
    have "is_settled i ?d2" using out unfolding is_settled_def failed_row by (auto simp: unsettled_def)
    then have "\<exists>e. email_row ?d2 i = Some e" by (auto simp: is_settled_def)
    with \<open>is_settled i ?d2\<close> Inl show ?thesis using out Pair
      by (intro exI [of _ "max_retries \<le> retries"], cases "max_retries \<le> retries")
         (simp_all add: process_inbound_email_task_def try_except_def run_then run_ret mark_inbound_failed_def write_email_def run_update)
  qed
qed

lemma work_off_settles:
  "email_row d i \<noteq> None \<Longrightarrow> \<exists>d'. work_off str_of i n d = (Inr True, d') \<and> is_settled i d'"
proof (induction n arbitrary: d)
  case 0
  then show ?case using attempt_outcome [of d i str_of max_retries] by auto
next
  case (Suc n)
  obtain b d1 where d1: "process_inbound_email_task str_of i (max_retries - Suc n) d = (Inr b, d1)" "email_row d1 i \<noteq> None"
    "b \<longrightarrow> is_settled i d1"
    using attempt_outcome [OF Suc.prems] by blast
  show ?case
  proof (cases b)
    case True
    then show ?thesis using d1 by (simp add: run_bind run_ret)
  next
    case False
    then show ?thesis using d1 Suc.IH [OF d1(2)] by (simp add: run_bind)
  qed
qed

text \<open>
  C24: Whatever goes wrong, an inbound email is settled by the end of the four
  attempts of its task: it is no longer pending or in processing, and a
  second delivery of the task does nothing.
\<close>

theorem email_settles:
  assumes "email_row d i = Some e"
  shows "\<exists>d' e'. work_off str_of i max_retries d = (Inr True, d') \<and> email_row d' i = Some e' \<and>
    \<not> unsettled (ie_status e') \<and> process_inbound_email i d' = (Inr None, d')"
proof -
  obtain d' where "work_off str_of i max_retries d = (Inr True, d')" "is_settled i d'"
    using work_off_settles [of d i str_of max_retries] assms by auto
  then show ?thesis using settled_skipped [of i d'] by (auto simp: is_settled_def)
qed

theorem email_settles_witness:
  "\<exists>d' e'. work_off (\<lambda>_. ''failed'') (ie_id demo_email) max_retries hub_desk = (Inr True, d') \<and>
     email_row d' (ie_id demo_email) = Some e' \<and> \<not> unsettled (ie_status e')"
proof -
  have "email_row hub_desk (ie_id demo_email) = Some demo_email" by (simp add: hub_desk_def email_row_def)
  from email_settles [OF this] show ?thesis by blast
qed

section \<open>What is on record of an email\<close>

text \<open>The stamps of linking and of an action stay once set; users are compared by key.\<close>

definition once_set :: "'a option \<Rightarrow> 'a option \<Rightarrow> bool" where
  "once_set old new \<longleftrightarrow> old = None \<or> new = old"

lemma once_set_refl: "once_set x x"
  by (simp add: once_set_def)

lemma once_set_trans: "once_set x y \<Longrightarrow> once_set y z \<Longrightarrow> once_set x z"
  by (cases x) (simp_all add: once_set_def)

lemma once_set_from: "x = old \<or> x = new \<Longrightarrow> \<not> (old \<noteq> None \<and> new \<noteq> old) \<Longrightarrow> once_set old x"
  by (auto simp: once_set_def)

definition keeps_stamps :: "inbound_email \<Rightarrow> inbound_email \<Rightarrow> bool" where
  "keeps_stamps r r' \<longleftrightarrow> once_set (actioned_at r) (actioned_at r') \<and> once_set (linked_at r) (linked_at r') \<and>
     once_set (map_option user_id (actioned_by r)) (map_option user_id (actioned_by r')) \<and>
     once_set (map_option user_id (linked_by r)) (map_option user_id (linked_by r'))"

lemma keeps_refl: "keeps_stamps r r"
  by (simp add: keeps_stamps_def once_set_refl)

lemma keeps_trans: "keeps_stamps r r1 \<Longrightarrow> keeps_stamps r1 r2 \<Longrightarrow> keeps_stamps r r2"
  unfolding keeps_stamps_def by (blast intro: once_set_trans)

definition keys_unique :: "desk \<Rightarrow> bool" where
  "keys_unique d \<longleftrightarrow> (\<forall>e \<in> set (inbound_emails d). \<forall>e' \<in> set (inbound_emails d).
     idempotency_key e \<noteq> None \<and> idempotency_key e = idempotency_key e' \<longrightarrow> ie_id e = ie_id e')"

definition record_kept :: "desk \<Rightarrow> desk \<Rightarrow> bool" where
  "record_kept d d' \<longleftrightarrow> (keys_unique d \<longrightarrow> keys_unique d') \<and>
     (\<forall>i e. email_row d i = Some e \<longrightarrow> (\<exists>e'. email_row d' i = Some e' \<and> keeps_stamps e e'))"

lemma same_mail_record: "inbound_emails d' = inbound_emails d \<Longrightarrow> record_kept d d'"
  by (simp add: record_kept_def keys_unique_def email_row_def keeps_refl)

interpretation records: desk_law record_kept
proof
  fix s t u
  assume "record_kept s t" "record_kept t u"
  then have "keys_unique s \<longrightarrow> keys_unique u" by (simp add: record_kept_def)
  moreover have "\<exists>e'. email_row u i = Some e' \<and> keeps_stamps e e'" if row: "email_row s i = Some e" for i e
  proof -
    obtain e1 where "email_row t i = Some e1" "keeps_stamps e e1"
      using \<open>record_kept s t\<close> row unfolding record_kept_def by blast
    moreover from this(1) obtain e2 where "email_row u i = Some e2" "keeps_stamps e1 e2"
      using \<open>record_kept t u\<close> unfolding record_kept_def by blast
    ultimately show ?thesis using keeps_trans by blast
  qed
  ultimately show "record_kept s u" unfolding record_kept_def by blast
qed (simp_all add: same_mail_record)

named_theorems record_frames \<open>operations that keep what is on record of the emails\<close>

lemmas [record_frames] = records.desk_laws

text \<open>A save whose columns take each stamp from the row or from the instance.\<close>

definition stamps_from :: "inbound_email \<Rightarrow> (inbound_email \<Rightarrow> inbound_email) \<Rightarrow> bool" where
  "stamps_from e g \<longleftrightarrow> (\<forall>r. ie_id (g r) = ie_id r \<and> (actioned_at (g r) = actioned_at r \<or> actioned_at (g r) = actioned_at e) \<and>
     (linked_at (g r) = linked_at r \<or> linked_at (g r) = linked_at e) \<and>
     (actioned_by (g r) = actioned_by r \<or> actioned_by (g r) = actioned_by e) \<and>
     (linked_by (g r) = linked_by r \<or> linked_by (g r) = linked_by e))"

lemma allowed_save_keeps:
  assumes "stamps_from e g" "immutable_violation old e = None"
  shows "keeps_stamps old (g old)"
proof -
  have free: "\<not> (actioned_at old \<noteq> None \<and> actioned_at e \<noteq> actioned_at old)"
    "\<not> (linked_at old \<noteq> None \<and> linked_at e \<noteq> linked_at old)"
    "\<not> (map_option user_id (actioned_by old) \<noteq> None \<and> map_option user_id (actioned_by e) \<noteq> map_option user_id (actioned_by old))"
    "\<not> (map_option user_id (linked_by old) \<noteq> None \<and> map_option user_id (linked_by e) \<noteq> map_option user_id (linked_by old))"
    using assms(2) by (auto simp: immutable_violation_def split: if_splits)
  from assms(1) have g: "actioned_at (g old) = actioned_at old \<or> actioned_at (g old) = actioned_at e"
    "linked_at (g old) = linked_at old \<or> linked_at (g old) = linked_at e"
    "map_option user_id (actioned_by (g old)) = map_option user_id (actioned_by old) \<or>
       map_option user_id (actioned_by (g old)) = map_option user_id (actioned_by e)"
    "map_option user_id (linked_by (g old)) = map_option user_id (linked_by old) \<or>
       map_option user_id (linked_by (g old)) = map_option user_id (linked_by e)"
    unfolding stamps_from_def by (metis, metis, metis, metis)
  show ?thesis
    unfolding keeps_stamps_def
    by (intro conjI once_set_from [OF g(1) free(1)] once_set_from [OF g(2) free(2)] once_set_from [OF g(3) free(3)]
        once_set_from [OF g(4) free(4)])
qed

lemma email_row_map:
  assumes "\<And>r. ie_id (g r) = ie_id r"
  shows "email_row (d\<lparr>inbound_emails := map (\<lambda>r. if ie_id r = i then g r else r) (inbound_emails d)\<rparr>) j =
    (if j = i then map_option g (email_row d j) else email_row d j)"
proof -
  have "first_row (\<lambda>r. ie_id r = j) (map (\<lambda>r. if ie_id r = i then g r else r) rows) =
      (if j = i then map_option g (first_row (\<lambda>r. ie_id r = j) rows) else first_row (\<lambda>r. ie_id r = j) rows)" for rows
    using assms by (induction rows) auto
  then show ?thesis by (simp add: email_row_def)
qed

lemma save_cases: "save_email e g d = (r, d') \<Longrightarrow> d' = d \<or> (\<exists>old. email_row d (ie_id e) = Some old \<and>
    immutable_violation old e = None \<and>
    d' = d\<lparr>inbound_emails := map (\<lambda>r. if ie_id r = ie_id e then g r else r) (inbound_emails d)\<rparr>)"
  by (auto simp: save_email_def cmd_simps write_email_def split: option.splits)

lemma record_kept_save:
  assumes "save_email e g d = (r, d')" "stamps_from e g"
    and "keys_unique d \<Longrightarrow> keys_unique (d\<lparr>inbound_emails := map (\<lambda>r. if ie_id r = ie_id e then g r else r) (inbound_emails d)\<rparr>)"
  shows "record_kept d d'"
  using save_cases [OF assms(1)]
proof
  assume "d' = d"
  then show ?thesis by (simp add: records.step_refl)
next
  have ids: "\<And>r. ie_id (g r) = ie_id r" using assms(2) by (simp add: stamps_from_def)
  assume "\<exists>old. email_row d (ie_id e) = Some old \<and> immutable_violation old e = None \<and>
    d' = d\<lparr>inbound_emails := map (\<lambda>r. if ie_id r = ie_id e then g r else r) (inbound_emails d)\<rparr>"
  then obtain old where old: "email_row d (ie_id e) = Some old" "immutable_violation old e = None"
    "d' = d\<lparr>inbound_emails := map (\<lambda>r. if ie_id r = ie_id e then g r else r) (inbound_emails d)\<rparr>" by blast
  have "\<exists>x'. email_row d' i = Some x' \<and> keeps_stamps x x'" if "email_row d i = Some x" for i x
  proof (cases "i = ie_id e")
    case True
    then show ?thesis
      using that old(1) allowed_save_keeps [OF assms(2) old(2)] unfolding old(3) email_row_map [OF ids] by simp
  next
    case False
    then show ?thesis using that unfolding old(3) email_row_map [OF ids] by (simp add: keeps_refl)
  qed
  moreover have "keys_unique d \<longrightarrow> keys_unique d'" using assms(3) unfolding old(3) by (rule impI)
  ultimately show ?thesis unfolding record_kept_def by blast
qed

lemma keys_unique_map:
  assumes "\<And>r. ie_id (g r) = ie_id r" "\<And>r. idempotency_key (g r) = idempotency_key r" "keys_unique d"
  shows "keys_unique (d\<lparr>inbound_emails := map (\<lambda>r. if ie_id r = i then g r else r) (inbound_emails d)\<rparr>)"
proof -
  let ?h = "\<lambda>r. if ie_id r = i then g r else r"
  have "ie_id (?h r) = ie_id r" "idempotency_key (?h r) = idempotency_key r" for r by (simp_all add: assms(1,2))
  then show ?thesis using assms(3) unfolding keys_unique_def by (simp del: if_image_distrib)
qed

lemma record_save [record_frames]:
  assumes "stamps_from e g" "\<And>r. idempotency_key (g r) = idempotency_key r"
  shows "obeys record_kept (save_email e g)"
proof -
  have ids: "\<And>r. ie_id (g r) = ie_id r" using assms(1) by (simp add: stamps_from_def)
  have "record_kept d (snd (save_email e g d))" for d
    by (rule record_kept_save [OF surjective_pairing assms(1)]) (rule keys_unique_map [OF ids assms(2)])
  then show ?thesis by (simp add: obeys_def)
qed

lemma keys_uniqueD: "keys_unique d \<Longrightarrow> x \<in> set (inbound_emails d) \<Longrightarrow> y \<in> set (inbound_emails d) \<Longrightarrow>
    idempotency_key x \<noteq> None \<Longrightarrow> idempotency_key x = idempotency_key y \<Longrightarrow> ie_id x = ie_id y"
  unfolding keys_unique_def by blast

lemma keys_unique_image:
  assumes "\<And>x y. x \<in> set (inbound_emails d) \<Longrightarrow> y \<in> set (inbound_emails d) \<Longrightarrow> idempotency_key (h x) \<noteq> None \<Longrightarrow>
      idempotency_key (h x) = idempotency_key (h y) \<Longrightarrow> ie_id (h x) = ie_id (h y)"
  shows "keys_unique (d\<lparr>inbound_emails := map h (inbound_emails d)\<rparr>)"
  unfolding keys_unique_def
proof (intro ballI impI)
  fix e e'
  assume "e \<in> set (inbound_emails (d\<lparr>inbound_emails := map h (inbound_emails d)\<rparr>))"
    "e' \<in> set (inbound_emails (d\<lparr>inbound_emails := map h (inbound_emails d)\<rparr>))"
  then obtain x y where "x \<in> set (inbound_emails d)" "e = h x" "y \<in> set (inbound_emails d)" "e' = h y" by auto
  moreover assume "idempotency_key e \<noteq> None \<and> idempotency_key e = idempotency_key e'"
  ultimately show "ie_id e = ie_id e'" using assms [of x y] by fastforce
qed

lemma claim_key:
  assumes "\<not> claimed_by_other d e k"
  shows "record_kept d (snd (save_email e (\<lambda>r. r\<lparr>idempotency_key := Some k\<rparr>) d))"
proof (rule record_kept_save [OF surjective_pairing])
  show "stamps_from e (\<lambda>r. r\<lparr>idempotency_key := Some k\<rparr>)" by (simp add: stamps_from_def)
  show "keys_unique (d\<lparr>inbound_emails := map (\<lambda>r. if ie_id r = ie_id e then r\<lparr>idempotency_key := Some k\<rparr> else r) (inbound_emails d)\<rparr>)"
    if "keys_unique d"
  proof -
    let ?h = "\<lambda>r. if ie_id r = ie_id e then r\<lparr>idempotency_key := Some k\<rparr> else r"
    have free: "idempotency_key x \<noteq> Some k \<or> ie_id x = ie_id e" if "x \<in> set (inbound_emails d)" for x
      using that assms by (auto simp: claimed_by_other_def)
    have "ie_id (?h x) = ie_id (?h y)"
      if "x \<in> set (inbound_emails d)" "y \<in> set (inbound_emails d)" "idempotency_key (?h x) \<noteq> None"
        "idempotency_key (?h x) = idempotency_key (?h y)" for x y
    proof (cases "ie_id x = ie_id e \<or> ie_id y = ie_id e")
      case True
      then show ?thesis using that(4) free [OF that(1)] free [OF that(2)] by (auto split: if_splits)
    next
      case False
      then have "ie_id x = ie_id y" using that by (intro keys_uniqueD [OF \<open>keys_unique d\<close>]) simp_all
      then show ?thesis by simp
    qed
    note eq = this
    show ?thesis by (rule keys_unique_image, rule eq)
  qed
qed

lemma record_hub [record_frames]: "obeys record_kept (write_hub i h)" "obeys record_kept (save_hub i h)"
  by (rule records.saved_hub, simp add: same_mail_record)+

lemma record_new_hub [record_frames]: "obeys record_kept (update (\<lambda>d. d\<lparr>hub_emails := f d\<rparr>))"
    "obeys record_kept (update (\<lambda>d. d\<lparr>bounce_logs := h d\<rparr>))"
  by (simp_all add: obeys_def run_update same_mail_record)

lemma record_in_tenant [record_frames]: "obeys record_kept c \<Longrightarrow> obeys record_kept (in_tenant ten c)"
proof -
  assume c: "obeys record_kept c"
  have "record_kept d (snd (in_tenant ten c d))" for d
  proof (cases "c (set_tenant (Some ten) d)")
    case (Pair r d1)
    then have "record_kept (set_tenant (Some ten) d) d1" using c by (auto dest: obeysD)
    moreover have "record_kept d (set_tenant (Some ten) d)" "record_kept d1 (set_tenant x d1)" for x
      by (simp_all add: set_tenant_def same_mail_record)
    ultimately show ?thesis by (simp add: in_tenant_def Pair) (blast intro: records.step_trans)
  qed
  then show ?thesis by (simp add: obeys_def)
qed

lemma stamps_kept_cols [simp]:
  "stamps_from e (\<lambda>r. r\<lparr>ie_status := st\<rparr>)" "stamps_from e (\<lambda>r. r\<lparr>ie_status := st, error_message := m\<rparr>)"
  "stamps_from e (\<lambda>r. r\<lparr>ie_tenant := tnt\<rparr>)" "stamps_from e (\<lambda>r. r\<lparr>ie_ticket := t\<rparr>)"
  "stamps_from e (\<lambda>r. r\<lparr>ie_ticket := t, ie_status := st\<rparr>)" "stamps_from e (\<lambda>r. r\<lparr>inbox_status_of := b\<rparr>)"
  "stamps_from e (\<lambda>r. r\<lparr>ie_assignee := u, inbox_status_of := b, is_read := c\<rparr>)"
  by (simp_all add: stamps_from_def)

lemma record_services [record_frames]: "obeys record_kept (reject e m)" "obeys record_kept (hand_over he u)"
    "obeys record_kept (flag_bouncing tnt a)" "obeys record_kept (handle_bounce e m)" "obeys record_kept (refuse e m)"
    "obeys record_kept (reopen_resolved_ticket t u)" "obeys record_kept (add_reply_to_ticket e t u)"
    "obeys record_kept (create_ticket_from_email e tnt c u ov)" "obeys record_kept (park_email_in_hub e tnt c u)"
    "obeys record_kept (get_system_user tnt)" "obeys record_kept (find_or_create_contact tnt a n)"
  unfolding refuse_def reject_def hand_over_def flag_bouncing_def handle_bounce_def reopen_resolved_ticket_def
    add_reply_to_ticket_def create_ticket_from_email_def park_email_in_hub_def get_system_user_def
    find_or_create_contact_def add_comment_def Let_def case_prod_unfold
  by ((intro record_frames; simp)+)

lemma record_hub_services [record_frames]: "obeys record_kept (assign_to he u reason actor ro)"
    "obeys record_kept (post_park_hooks he)" "obeys record_kept (drain_department_backlog u tnt)"
    "obeys record_kept (convert_to_ticket he u ov)" "obeys record_kept (dismiss_hub_email he u why)"
    "obeys record_kept (reassign_hub_email he u actor why)" "obeys record_kept (transition_hub_email he st actor)"
    "obeys record_kept (escalate_hub_email he actor)"
  unfolding post_park_hooks_def classify_and_route_def apply_decision_def initialize_hub_sla_def try_assign_def
    drain_department_backlog_def drain_step_def convert_to_ticket_def dismiss_hub_email_def reassign_hub_email_def
    transition_hub_email_def escalate_hub_email_def assign_to_def locked_hub_def assert_transition_def Let_def case_prod_unfold
  by (intro record_frames)+

lemma email_obeys_run: "obeys R c \<Longrightarrow> R d (snd (c d))"
  by (simp add: obeys_def)

lemma record_task: "obeys record_kept (process_inbound_email_task str_of i n)"
proof -
  have claimed: "obeys record_kept (process_in_tenant e tnt)" for e tnt
  proof -
    let ?claim = "save_email e (\<lambda>r. r\<lparr>idempotency_key := Some (inbound_key tnt e)\<rparr>)"
    have settle: "obeys record_kept (settle_email e tnt)"
      unfolding settle_email_def case_prod_unfold by (intro record_frames)
    have "record_kept d (snd (process_in_tenant e tnt d))" for d
    proof (cases "claimed_by_other d e (inbound_key tnt e)")
      case True
      let ?c = "thenc (reject e ''Duplicate message_id already processed.'') (ret None) :: hub_email option act"
      have "obeys record_kept ?c" by (intro record_frames)
      then have "record_kept d (snd (?c d))" by (rule email_obeys_run)
      with True show ?thesis by (simp add: process_in_tenant_def run_bind run_asks)
    next
      case False
      obtain r d1 where d1: "?claim d = (r, d1)" by (cases "?claim d")
      then have "record_kept d d1" using claim_key [OF False] by simp
      moreover have "record_kept d1 (snd (settle_email e tnt d1))" using settle by (simp add: obeys_def)
      ultimately show ?thesis using False d1
        by (cases r) (auto simp: process_in_tenant_def run_bind run_asks run_then intro: records.step_trans)
    qed
    then show ?thesis by (simp add: obeys_def)
  qed
  have failed: "obeys record_kept (mark_inbound_failed i m)" for m
    unfolding mark_inbound_failed_def write_email_def
    by (intro records.obeys_update) (auto simp: record_kept_def email_row_map keeps_stamps_def once_set_refl intro: keys_unique_map)
  show ?thesis
    unfolding process_inbound_email_task_def deliver_email_def process_inbound_email_def process_locked_def
    by (intro record_frames claimed failed; simp)
qed

lemma record_inbox: "obeys record_kept (link_email_to_ticket e n u)" "obeys record_kept (action_email e act u who)"
    "obeys record_kept (ignore_email e u)"
proof -
  have act: "obeys record_kept (perform_action t a u who)" for t a
    unfolding perform_action_def by (cases a; simp; intro record_frames)
  have cols: "stamps_from (e\<lparr>inbox_status_of := b, actioned_at := x, actioned_by := y, action_taken := z\<rparr>)
      (\<lambda>r. r\<lparr>inbox_status_of := b, actioned_at := x, actioned_by := y, action_taken := z\<rparr>)"
    "stamps_from (e\<lparr>linked_ticket := t, linked_at := x, linked_by := y, inbox_status_of := b\<rparr>)
      (\<lambda>r. r\<lparr>linked_ticket := t, linked_at := x, linked_by := y, inbox_status_of := b\<rparr>)" for b x y z t
    by (simp_all add: stamps_from_def)
  show "obeys record_kept (link_email_to_ticket e n u)" "obeys record_kept (action_email e act u who)"
    "obeys record_kept (ignore_email e u)"
    unfolding link_email_to_ticket_def action_email_def ignore_email_def Let_def
    by (intro record_frames act; simp add: cols)+
qed

text \<open>What happens to the emails of a deployment: tasks, the inbox of agents, the hub.\<close>

inductive inbox_step :: "desk \<Rightarrow> desk \<Rightarrow> bool" where
  step_task: "inbox_step d (snd (process_inbound_email_task str_of i n d))"
| step_link: "inbox_step d (snd (link_email_to_ticket e n u d))"
| step_action: "inbox_step d (snd (action_email e act u who d))"
| step_ignore: "inbox_step d (snd (ignore_email e u d))"
| step_hub: "hub_step d d' \<Longrightarrow> inbox_step d d'"

inductive inbox_run :: "desk \<Rightarrow> desk \<Rightarrow> bool" where
  inbox_refl: "inbox_run d d"
| inbox_more: "inbox_run d d1 \<Longrightarrow> inbox_step d1 d2 \<Longrightarrow> inbox_run d d2"

lemma hub_step_record: "hub_step d d' \<Longrightarrow> record_kept d d'"
  by (induction rule: hub_step.induct) (rule email_obeys_run [OF record_hub_services(1)] email_obeys_run [OF record_hub_services(2)]
      email_obeys_run [OF record_hub_services(3)] email_obeys_run [OF record_hub_services(4)] email_obeys_run [OF record_hub_services(5)]
      email_obeys_run [OF record_hub_services(6)] email_obeys_run [OF record_hub_services(7)] email_obeys_run [OF record_hub_services(8)])+

lemma inbox_step_record: "inbox_step d d' \<Longrightarrow> record_kept d d'"
  by (induction rule: inbox_step.induct) (erule hub_step_record | rule email_obeys_run [OF record_task] email_obeys_run [OF record_inbox(1)]
      email_obeys_run [OF record_inbox(2)] email_obeys_run [OF record_inbox(3)])+

lemma inbox_run_record: "inbox_run d d' \<Longrightarrow> record_kept d d'"
  by (induction rule: inbox_run.induct) (blast intro: records.step_refl records.step_trans inbox_step_record)+

text \<open>
  C25: In every run of the tasks, of the services of the inbox and of the hub,
  even with stale instances, no two emails come to hold one idempotency key,
  and the stamps of who linked and who actioned an email, and when, never
  change once they are set.
\<close>

theorem email_records_immutable:
  assumes "inbox_run d d'" "keys_unique d" "email_row d i = Some e"
  shows "keys_unique d' \<and> (\<exists>e'. email_row d' i = Some e' \<and>
    once_set (linked_at e) (linked_at e') \<and> once_set (map_option user_id (linked_by e)) (map_option user_id (linked_by e')) \<and>
    once_set (actioned_at e) (actioned_at e') \<and> once_set (map_option user_id (actioned_by e)) (map_option user_id (actioned_by e')))"
  using inbox_run_record [OF assms(1)] assms(2,3) unfolding record_kept_def keeps_stamps_def by blast

definition linked_desk :: desk where
  "linked_desk = hub_desk\<lparr>inbound_emails := [demo_email\<lparr>linked_at := Some 7, linked_by := Some demo_user\<rparr>]\<rparr>"

theorem email_records_immutable_witness:
  "\<exists>e'. email_row (snd (link_email_to_ticket demo_email 1 (demo_user\<lparr>user_id := 8\<rparr>) linked_desk)) (ie_id demo_email) = Some e' \<and>
     linked_at e' = Some 7"
proof -
  have "keys_unique linked_desk" by (simp add: keys_unique_def linked_desk_def)
  moreover have "email_row linked_desk (ie_id demo_email) = Some (demo_email\<lparr>linked_at := Some 7, linked_by := Some demo_user\<rparr>)"
    by (simp add: linked_desk_def email_row_def)
  ultimately show ?thesis
    using email_records_immutable [OF inbox_more [OF inbox_refl step_link]] by (fastforce simp: once_set_def)
qed

end
