(* ===== verification/Ticket_Tasks.thy ===== *)
theory Ticket_Tasks
  imports Email_Tickets
begin

text \<open>
  The periodic and queued tasks of the ticketing core
  (\<open>apps/tickets/tasks.py\<close>): the SLA sweep with its breach notices and
  escalation rules, reminders of overdue tickets, early warnings, the
  auto-close task, the decision to send a satisfaction survey, and the
  propagation of an edited SLA policy (\<open>apps/tickets/signals.py\<close>).  A task runs
  without a tenant context unless it opens one; the callbacks an operation
  registers stay queued for \<open>run_on_commit\<close>.  The titles and bodies of
  notifications are not modelled, their data are.
\<close>

section \<open>Rows the tasks look at\<close>

definition closed_status_ids :: "store \<Rightarrow> tenant_id \<Rightarrow> nat list" where
  "closed_status_ids s ten = map status_id (filter (\<lambda>x. status_tenant x = ten \<and> is_closed x) (statuses s))"

definition open_tickets :: "(ticket \<Rightarrow> bool) \<Rightarrow> tenant_id \<Rightarrow> store \<Rightarrow> ticket list" where
  "open_tickets p ten s = filter (\<lambda>t. tenant_id (ticket_tenant t) = ten \<and> \<not> is_deleted t \<and> p t \<and>
     (case status t of None \<Rightarrow> True | Some st \<Rightarrow> status_id st \<notin> set (closed_status_ids s ten))) (tickets s)"

definition supervisors :: "store \<Rightarrow> tenant_id \<Rightarrow> membership list" where
  "supervisors s ten = filter (\<lambda>m. member_tenant m = ten \<and> member_active m \<and> hierarchy_level (member_role m) \<le> 20) (memberships s)"

definition members_with_role :: "store \<Rightarrow> tenant_id \<Rightarrow> nat \<Rightarrow> membership list" where
  "members_with_role s ten r = filter (\<lambda>m. member_tenant m = ten \<and> role_id (member_role m) = r \<and> member_active m) (memberships s)"

definition ticket_data :: "ticket \<Rightarrow> (string \<times> json) list" where
  "ticket_data t = [(''ticket_id'', jpk (pk t)), (''ticket_number'', JInt (int (number t))),
     (''url'', JStr (''/tickets/'' @ show_nat (number t)))]"

definition same_user :: "user option \<Rightarrow> user \<Rightarrow> bool" where
  "same_user a u \<longleftrightarrow> map_option user_id a = Some (user_id u)"

text \<open>\<open>TicketActivity(...).save()\<close>, not through the service.\<close>

definition log_escalated :: "ticket \<Rightarrow> (string \<times> json) list \<Rightarrow> unit act" where
  "log_escalated t metadata = on_base (update (\<lambda>s. s\<lparr>timeline := timeline s @
     [\<lparr>act_ticket = pk t, act_contact = None, act_actor = None, act_event = EEscalated, act_metadata = JObj metadata,
       act_at = clock s\<rparr>]\<rparr>))"

section \<open>Breaches\<close>

definition fire_breach :: "ticket \<Rightarrow> tenant \<Rightarrow> string \<Rightarrow> sla_policy \<Rightarrow> unit act" where
  "fire_breach t tnt breach_type policy =
     (let ten = tenant_id tnt; data = (''breach_type'', JStr breach_type) # ticket_data t;
          named = (''policy_name'', JStr (policy_name policy))
      in thenc (case assignee t of None \<Rightarrow> ret () | Some u \<Rightarrow> notify ten u NSlaBreach (JObj (named # data)))
        (bindc (asks (\<lambda>d. take 5 (filter (\<lambda>m. \<not> same_user (assignee t) (member_user m)) (supervisors (base d) ten)))) (\<lambda>ms.
         thenc (for_each ms (\<lambda>m _. notify ten (member_user m) NSlaBreach (JObj data)) ())
         (thenc (log_escalated t [(''breach_type'', JStr breach_type), (''policy_id'', jpk (policy_id policy)), named])
           (on_base (fire_webhooks tnt WSlaBreached
             [(''ticket_id'', jpk (pk t)), (''ticket_number'', JInt (int (number t))), (''breach_type'', JStr breach_type), named]))))))"

definition effective_elapsed :: "ticket \<Rightarrow> sla_policy \<Rightarrow> tenant \<Rightarrow> instant \<Rightarrow> int act" where
  "effective_elapsed t policy tnt now = bindc (asks (\<lambda>d. get_effective_elapsed_minutes (zoneinfo_db (base d)) (pauses (base d))
     (pk t) (created_at t) policy tnt now)) lift_res"

text \<open>\<open>_elapsed\<close>\<close>

definition idle_elapsed :: "ticket \<Rightarrow> sla_policy \<Rightarrow> tenant \<Rightarrow> instant \<Rightarrow> int act" where
  "idle_elapsed t policy tnt now =
     (if business_hours_only policy \<and> settings tnt \<noteq> None
      then bindc (asks (\<lambda>d. elapsed_business_minutes (zoneinfo_db (base d)) (updated_at t) now (SettingsArg tnt))) lift_res
      else ret (now - updated_at t))"

section \<open>Escalation rules\<close>

text \<open>One step up; an unknown priority counts as the lowest.\<close>

definition next_priority :: "string \<Rightarrow> string option" where
  "next_priority p = (if p = ''medium'' then Some ''high'' else if p = ''high'' then Some ''urgent''
     else if p = ''urgent'' then None else Some ''medium'')"

fun trigger_value :: "trigger \<Rightarrow> string" where
  "trigger_value ResponseBreach = ''response_breach''"
| "trigger_value ResolutionBreach = ''resolution_breach''"
| "trigger_value IdleTime = ''idle_time''"

fun rule_action_value :: "rule_action \<Rightarrow> string" where
  "rule_action_value AssignRule = ''assign''"
| "rule_action_value NotifyRule = ''notify''"
| "rule_action_value ChangePriorityRule = ''change_priority''"

definition rule_assignee :: "store \<Rightarrow> tenant_id \<Rightarrow> escalation_rule \<Rightarrow> user option" where
  "rule_assignee s ten r = (case target_user r of Some u \<Rightarrow> Some u
     | None \<Rightarrow> (case target_role r of None \<Rightarrow> None
       | Some i \<Rightarrow> (case members_with_role s ten i of [] \<Rightarrow> None | m # _ \<Rightarrow> Some (member_user m))))"

definition rule_recipients :: "store \<Rightarrow> tenant_id \<Rightarrow> escalation_rule \<Rightarrow> ticket \<Rightarrow> user list" where
  "rule_recipients s ten r t = (case target_user r of Some u \<Rightarrow> [u]
     | None \<Rightarrow> (case target_role r of
         Some i \<Rightarrow> map member_user (take 10 (members_with_role s ten i))
       | None \<Rightarrow> (case assignee t of Some u \<Rightarrow> [u] | None \<Rightarrow> [])))"

definition perform_rule :: "escalation_rule \<Rightarrow> ticket \<Rightarrow> tenant_id \<Rightarrow> instant \<Rightarrow> ticket act" where
  "perform_rule r t ten now = (case er_action r of
     AssignRule \<Rightarrow> bindc (asks (\<lambda>d. rule_assignee (base d) ten r)) (\<lambda>target. case target of
         None \<Rightarrow> ret t
       | Some u \<Rightarrow> on_base (save_ticket (Some [CAssignee, CAssignedAt, CUpdatedAt])
           (t\<lparr>assignee := Some u, assigned_at := Some now\<rparr>)))
   | NotifyRule \<Rightarrow> bindc (asks (\<lambda>d. rule_recipients (base d) ten r t)) (\<lambda>us.
       thenc (for_each us (\<lambda>u _. notify ten u NSlaBreach (JObj ((''escalation_rule_id'', jpk (er_id r)) # ticket_data t))) ())
         (ret t))
   | ChangePriorityRule \<Rightarrow> (case next_priority (priority t) of
         None \<Rightarrow> ret t
       | Some p \<Rightarrow> on_base (save_ticket (Some [CPriority, CUpdatedAt]) (t\<lparr>priority := p\<rparr>))))"

definition execute_rule :: "escalation_rule \<Rightarrow> ticket \<Rightarrow> tenant_id \<Rightarrow> instant \<Rightarrow> ticket act" where
  "execute_rule r t ten now = bindc (perform_rule r t ten now) (\<lambda>t'.
     thenc (log_escalated t' [(''escalation_rule_id'', jpk (er_id r)), (''trigger'', JStr (trigger_value (er_trigger r))),
         (''action'', JStr (rule_action_value (er_action r))), (''threshold_minutes'', JInt (threshold_minutes r))])
       (ret t'))"

definition fired_rules :: "store \<Rightarrow> nat \<Rightarrow> json list" where
  "fired_rules s i = concat (map (\<lambda>e. case jget (act_metadata e) ''escalation_rule_id'' of None \<Rightarrow> [] | Some v \<Rightarrow> [v])
     (filter (\<lambda>e. act_ticket e = i \<and> act_event e = EEscalated) (timeline s)))"

definition rule_target :: "int \<Rightarrow> escalation_rule \<Rightarrow> int" where
  "rule_target sla_minutes r = (if sla_minutes \<noteq> 0 then sla_minutes + threshold_minutes r else threshold_minutes r) * minute_us"

text \<open>Whether the rule is due for the ticket as it is now; \<open>elapsed\<close> is the pause-adjusted time.\<close>

definition rule_due :: "int \<Rightarrow> sla_policy \<Rightarrow> tenant \<Rightarrow> instant \<Rightarrow> escalation_rule \<Rightarrow> ticket \<Rightarrow> bool act" where
  "rule_due elapsed policy tnt now r t = (case er_trigger r of
     ResponseBreach \<Rightarrow> ret (first_responded_at t = None \<and> rule_target (first_response_minutes policy) r \<le> elapsed)
   | ResolutionBreach \<Rightarrow> ret (resolved_at t = None \<and> rule_target (resolution_minutes policy) r \<le> elapsed)
   | IdleTime \<Rightarrow> bindc (idle_elapsed t policy tnt now) (\<lambda>idle. ret (rule_target 0 r \<le> idle)))"

definition rule_step :: "json list \<Rightarrow> int \<Rightarrow> sla_policy \<Rightarrow> tenant \<Rightarrow> instant \<Rightarrow> escalation_rule \<Rightarrow> ticket \<Rightarrow> ticket act" where
  "rule_step fired elapsed policy tnt now r t =
     (if jpk (er_id r) \<in> set fired then ret t
      else bindc (rule_due elapsed policy tnt now r t) (\<lambda>due. if due then execute_rule r t (tenant_id tnt) now else ret t))"

definition policy_rules :: "desk \<Rightarrow> sla_policy \<Rightarrow> escalation_rule list" where
  "policy_rules d policy = sort_key er_order (filter (\<lambda>r. er_policy r = policy_id policy) (escalation_rules d))"

definition check_escalation_rules :: "ticket \<Rightarrow> sla_policy \<Rightarrow> tenant \<Rightarrow> instant \<Rightarrow> unit act" where
  "check_escalation_rules t policy tnt now =
     bindc (asks (\<lambda>d. policy_rules d policy)) (\<lambda>rules.
       if rules = [] then ret ()
       else bindc (asks (\<lambda>d. fired_rules (base d) (pk t))) (\<lambda>fired.
         bindc (effective_elapsed t policy tnt now) (\<lambda>elapsed.
         bindc (for_each rules (rule_step fired elapsed policy tnt now) t) (\<lambda>_. ret ()))))"

section \<open>The SLA sweep\<close>

definition check_ticket_sla :: "ticket \<Rightarrow> sla_policy \<Rightarrow> tenant \<Rightarrow> instant \<Rightarrow> unit act" where
  "check_ticket_sla t policy tnt now =
     bindc (effective_elapsed t policy tnt now) (\<lambda>elapsed.
     let response = (\<not> sla_response_breached t \<and> first_responded_at t = None \<and> elapsed > first_response_minutes policy * minute_us);
         resolution = (\<not> sla_resolution_breached t \<and> resolved_at t = None \<and> elapsed > resolution_minutes policy * minute_us);
         t1 = t\<lparr>sla_response_breached := (sla_response_breached t \<or> response),
                sla_resolution_breached := (sla_resolution_breached t \<or> resolution)\<rparr>;
         uf = (if response then [CResponseBreached] else []) @ (if resolution then [CResolutionBreached] else [])
     in bindc (if uf = [] then ret t1 else on_base (save_ticket (Some (uf @ [CUpdatedAt])) t1)) (\<lambda>t2.
        thenc (whenc response (fire_breach t2 tnt ''response_breach'' policy))
        (thenc (whenc resolution (fire_breach t2 tnt ''resolution_breach'' policy))
          (check_escalation_rules t2 policy tnt now))))"

definition tenant_policies :: "store \<Rightarrow> tenant_id \<Rightarrow> sla_policy list" where
  "tenant_policies s ten = sort_key policy_priority (filter (\<lambda>p. policy_tenant p = ten \<and> policy_active p) (policies s))"

definition check_policy :: "tenant \<Rightarrow> instant \<Rightarrow> sla_policy \<Rightarrow> unit act" where
  "check_policy tnt now policy =
     bindc (asks (\<lambda>d. open_tickets (\<lambda>t. priority t = policy_priority policy) (tenant_id tnt) (base d))) (\<lambda>ts.
       for_each ts (\<lambda>t _. check_ticket_sla t policy tnt now) ())"

definition check_tenant_sla :: "tenant \<Rightarrow> instant \<Rightarrow> unit act" where
  "check_tenant_sla tnt now =
     bindc (asks (\<lambda>d. tenant_policies (base d) (tenant_id tnt))) (\<lambda>ps. for_each ps (\<lambda>p _. check_policy tnt now p) ())"

definition check_sla_breaches :: "unit act" where
  "check_sla_breaches = bindc now_of (\<lambda>now. bindc (asks (\<lambda>d. filter tenant_active (tenants d))) (\<lambda>ts.
     for_each ts (\<lambda>tnt _. best_effort (check_tenant_sla tnt now)) ()))"

section \<open>Reminders of overdue tickets\<close>

definition start_of_day :: "instant \<Rightarrow> instant" where
  "start_of_day now = now - now mod day_us"

text \<open>The tickets a notification of the kind was sent for today; \<open>p\<close> restricts its data.\<close>

definition notified_today :: "desk \<Rightarrow> tenant_id \<Rightarrow> notification_type \<Rightarrow> (json \<Rightarrow> bool) \<Rightarrow> instant \<Rightarrow> json list" where
  "notified_today d ten kind p now = map (\<lambda>n. jget_or_null (notif_data n) ''ticket_id'')
     (filter (\<lambda>n. notif_tenant n = ten \<and> notif_type n = kind \<and> notif_at n \<ge> start_of_day now \<and> p (notif_data n)) (notifications d))"

definition overdue_label :: "int \<Rightarrow> string" where
  "overdue_label delta = (let hours = nat (delta div (60 * minute_us))
     in if hours < 1 then show_nat (nat (delta div minute_us)) @ ''m''
        else if hours < 24 then show_nat hours @ ''h''
        else show_nat (hours div 24) @ ''d '' @ show_nat (hours mod 24) @ ''h'')"

definition past :: "instant \<Rightarrow> instant option \<Rightarrow> bool" where
  "past now due = (case due of None \<Rightarrow> False | Some x \<Rightarrow> x < now)"

definition overdue_by :: "instant \<Rightarrow> instant option \<Rightarrow> (string \<times> json) list" where
  "overdue_by now due = (case due of None \<Rightarrow> [] | Some x \<Rightarrow> [(''overdue_by'', JStr (overdue_label (now - x)))])"

definition remind_overdue :: "tenant_id \<Rightarrow> instant \<Rightarrow> membership list \<Rightarrow> ticket \<Rightarrow> unit act" where
  "remind_overdue ten now admins t =
     (let data = JObj (overdue_by now (due_date t) @ ticket_data t)
      in thenc (case assignee t of None \<Rightarrow> ret () | Some u \<Rightarrow> notify ten u NTicketOverdue data)
        (for_each (filter (\<lambda>m. \<not> same_user (assignee t) (member_user m)) admins)
          (\<lambda>m _. notify ten (member_user m) NTicketOverdue data) ()))"

definition remind_followup :: "tenant_id \<Rightarrow> instant \<Rightarrow> ticket \<Rightarrow> unit act" where
  "remind_followup ten now t = (case assignee t of
     None \<Rightarrow> ret ()
   | Some u \<Rightarrow> notify ten u NTicketFollowupOverdue (JObj (overdue_by now (follow_up_due_at t) @ ticket_data t)))"

definition remind_each :: "tenant_id \<Rightarrow> instant \<Rightarrow> notification_type \<Rightarrow> (ticket \<Rightarrow> instant option) \<Rightarrow> (ticket \<Rightarrow> unit act) \<Rightarrow> unit act" where
  "remind_each ten now kind due remind =
     bindc (asks (\<lambda>d. open_tickets (\<lambda>t. past now (due t)) ten (base d))) (\<lambda>ts.
     bindc (asks (\<lambda>d. notified_today d ten kind (\<lambda>_. True) now)) (\<lambda>already.
       for_each (filter (\<lambda>t. jpk (pk t) \<notin> set already) ts) (\<lambda>t _. remind t) ()))"

definition check_tenant_overdue :: "tenant_id \<Rightarrow> instant \<Rightarrow> unit act" where
  "check_tenant_overdue ten now =
     bindc (asks (\<lambda>d. take 5 (supervisors (base d) ten))) (\<lambda>admins.
     thenc (remind_each ten now NTicketOverdue due_date (remind_overdue ten now admins))
       (remind_each ten now NTicketFollowupOverdue follow_up_due_at (remind_followup ten now)))"

definition check_overdue_tickets :: "unit act" where
  "check_overdue_tickets = bindc now_of (\<lambda>now. bindc (asks (\<lambda>d. filter tenant_active (tenants d))) (\<lambda>ts.
     for_each ts (\<lambda>tnt _. best_effort (check_tenant_overdue (tenant_id tnt) now)) ()))"

section \<open>Early warnings\<close>

definition approaching :: "instant \<Rightarrow> instant option \<Rightarrow> bool" where
  "approaching now due = (case due of None \<Rightarrow> False | Some x \<Rightarrow> now < x \<and> x \<le> now + 15 * minute_us)"

definition warn_approaching :: "tenant_id \<Rightarrow> instant \<Rightarrow> string \<Rightarrow> (ticket \<Rightarrow> instant option) \<Rightarrow> ticket \<Rightarrow> unit act" where
  "warn_approaching ten now kind due t = (case assignee t of
     None \<Rightarrow> ret ()
   | Some u \<Rightarrow> notify ten u NSlaBreach (JObj ([(''warning'', JBool True), (''breach_type'', JStr kind)] @
       (case due t of None \<Rightarrow> [] | Some x \<Rightarrow> [(''minutes_remaining'', JInt ((x - now) div minute_us))]) @ ticket_data t)))"

definition check_tenant_sla_warnings :: "tenant_id \<Rightarrow> instant \<Rightarrow> unit act" where
  "check_tenant_sla_warnings ten now =
     bindc (asks (\<lambda>d. open_tickets (\<lambda>t. approaching now (sla_first_response_due t) \<and> \<not> sla_response_breached t \<and>
        first_responded_at t = None) ten (base d))) (\<lambda>responses.
     bindc (asks (\<lambda>d. open_tickets (\<lambda>t. approaching now (sla_resolution_due t) \<and> \<not> sla_resolution_breached t \<and>
        resolved_at t = None) ten (base d))) (\<lambda>resolutions.
     bindc (asks (\<lambda>d. notified_today d ten NSlaBreach (\<lambda>x. jget x ''warning'' = Some (JBool True)) now)) (\<lambda>already.
     thenc (for_each (filter (\<lambda>t. jpk (pk t) \<notin> set already) responses)
        (\<lambda>t _. warn_approaching ten now ''response_approaching'' sla_first_response_due t) ())
       (for_each (filter (\<lambda>t. jpk (pk t) \<notin> set already) resolutions)
        (\<lambda>t _. warn_approaching ten now ''resolution_approaching'' sla_resolution_due t) ()))))"

definition check_sla_breach_warnings :: "unit act" where
  "check_sla_breach_warnings = bindc now_of (\<lambda>now. bindc (asks (\<lambda>d. filter tenant_active (tenants d))) (\<lambda>ts.
     for_each ts (\<lambda>tnt _. best_effort (check_tenant_sla_warnings (tenant_id tnt) now)) ()))"

section \<open>Closing and surveying resolved tickets\<close>

text \<open>The second argument is the id of the running task.\<close>

definition auto_close_ticket :: "nat \<Rightarrow> nat \<Rightarrow> unit act" where
  "auto_close_ticket i task = bindc (asks (\<lambda>d. ticket_row i (base d))) (\<lambda>found. case found of
     None \<Rightarrow> ret ()
   | Some t \<Rightarrow>
       if map_option status_slug (status t) \<noteq> Some ''resolved'' \<or> auto_close_task_id t \<noteq> Some task then ret ()
       else in_tenant (tenant_id (ticket_tenant t)) (
         bindc (asks (\<lambda>d. first_status is_closed (base d))) (\<lambda>closed_status. case closed_status of
           None \<Rightarrow> ret ()
         | Some st \<Rightarrow> bindc (on_base (change_ticket_status t st None None)) (\<lambda>t'.
             thenc (on_base (create_timeline_entry t' EAutoClosed None [(''task_id'', jpk task)]))
               (on_base (update (\<lambda>s. s\<lparr>tickets := map (\<lambda>r. if pk r = i then r\<lparr>auto_close_task_id := None\<rparr> else r)
                 (tickets s)\<rparr>)))))))"

text \<open>The address a survey is sent to, if one is sent.\<close>

definition csat_recipient :: "store \<Rightarrow> nat \<Rightarrow> string option" where
  "csat_recipient s i = (case ticket_row i s of
     None \<Rightarrow> None
   | Some t \<Rightarrow> if map_option status_slug (status t) \<noteq> Some ''resolved'' \<or> csat_rating t \<noteq> None then None
       else (case contact_of t of None \<Rightarrow> None | Some c \<Rightarrow> if contact_email c = [] then None else Some (contact_email c)))"

section \<open>An edited SLA policy\<close>

definition apply_policy :: "sla_policy \<Rightarrow> nat list \<Rightarrow> unit act" where
  "apply_policy policy ids =
     bindc (asks (\<lambda>d. filter (\<lambda>t. pk t \<in> set ids) (tickets (base d)))) (\<lambda>ts. for_each ts (\<lambda>t _.
       bindc (asks (\<lambda>d. zoneinfo_db (base d))) (\<lambda>zi.
       bindc (lift_res (add_business_minutes zi (created_at t) (first_response_minutes policy * minute_us) (ticket_tenant t))) (\<lambda>response.
       bindc (lift_res (add_business_minutes zi (created_at t) (resolution_minutes policy * minute_us) (ticket_tenant t))) (\<lambda>resolution.
         best_effort (bindc (on_base (save_ticket (Some [CFirstResponseDue, CResolutionDue, CUpdatedAt])
             (t\<lparr>sla_first_response_due := Some response, sla_resolution_due := Some resolution\<rparr>))) (\<lambda>t'.
           on_base (log_sla_change t' (sla_first_response_due t) (sla_resolution_due t) ''policy_edit'' None)))))) ) ())"

definition affected_tickets :: "store \<Rightarrow> sla_policy \<Rightarrow> nat list" where
  "affected_tickets s policy = map pk (filter (\<lambda>t. map_option policy_id (ticket_policy t) = Some (policy_id policy) \<and>
     (case status t of None \<Rightarrow> False | Some st \<Rightarrow> \<not> is_closed st)) (tickets s))"

text \<open>The receiver of \<open>post_save\<close> on a policy.\<close>

definition propagate_sla_policy_change :: "sla_policy \<Rightarrow> bool \<Rightarrow> unit act" where
  "propagate_sla_policy_change policy created =
     whenc (\<not> created) (best_effort (bindc (asks (\<lambda>d. affected_tickets (base d) policy)) (\<lambda>ids.
       if ids = [] then ret ()
       else if length ids > 50
       then on_base (register_callback (PropagatePolicy (policy_id policy) (policy_tenant policy) ids))
       else apply_policy policy ids)))"

definition propagate_sla_policy_change_task :: "nat \<Rightarrow> tenant_id \<Rightarrow> nat list \<Rightarrow> unit act" where
  "propagate_sla_policy_change_task i ten ids =
     bindc (asks (\<lambda>d. first_row (\<lambda>t. tenant_id t = ten) (tenants d))) (\<lambda>tnt.
     bindc (asks (\<lambda>d. first_row (\<lambda>p. policy_id p = i) (policies (base d)))) (\<lambda>policy. case (tnt, policy) of
       (Some _, Some p) \<Rightarrow> in_tenant ten (apply_policy p ids)
     | _ \<Rightarrow> ret ()))"

end
