(* ===== verification/Ticket_Mail.thy ===== *)
theory Ticket_Mail
  imports Ticket_Tasks
begin

text \<open>
  What leaves for the outside: ticket emails (\<open>apps/tickets/email_service.py\<close>)
  with the filter of addresses that bounce (\<open>apps/notifications/utils.py\<close>), the
  tasks that send them, and the delivery of webhooks
  (\<open>apps/tickets/webhook_service.py\<close>).  \<open>smtp\<close> is the mail transport: the
  exception it raises on a message, if any.  The templates of the bodies and
  the From header are not modelled; a body is an argument.
\<close>

section \<open>Addresses that bounce\<close>

definition after_last :: "char \<Rightarrow> string \<Rightarrow> string" where
  "after_last c s = rev (takeWhile (\<lambda>x. x \<noteq> c) (rev s))"

definition UNDELIVERABLE_TLDS :: "string list" where
  "UNDELIVERABLE_TLDS = [''local'', ''localhost'', ''test'', ''example'', ''invalid'']"

definition UNDELIVERABLE_DOMAINS :: "string list" where
  "UNDELIVERABLE_DOMAINS = [''example.com'', ''example.net'', ''example.org'']"

definition is_undeliverable_email :: "string \<Rightarrow> bool" where
  "is_undeliverable_email address =
     (if address = [] \<or> CHR ''@'' \<notin> set address then True
      else let domain = lower (strip (after_last (CHR ''@'') address))
           in domain = [] \<or> domain \<in> set UNDELIVERABLE_DOMAINS \<or> after_last (CHR ''.'') domain \<in> set UNDELIVERABLE_TLDS)"

section \<open>Sending\<close>

record outgoing =
  mail_to :: string
  mail_subject :: string
  mail_reply_to :: string
  mail_headers :: "(string \<times> string) list"
  mail_body :: string

definition ticket_mail :: "desk \<Rightarrow> tenant \<Rightarrow> ticket \<Rightarrow> string \<Rightarrow> string \<Rightarrow> string \<Rightarrow> string \<Rightarrow> outgoing" where
  "ticket_mail d tnt t mid to subj body = \<lparr>mail_to = to, mail_subject = subj, mail_reply_to = get_reply_to_address d tnt,
     mail_headers = build_thread_headers d (tenant_id tnt) (pk t) mid @
       [(''X-Ticket-Number'', show_nat (number t)), (''X-Tenant-Slug'', tenant_slug tnt)], mail_body = body\<rparr>"

text \<open>The value is the message id, if the mail was sent; \<open>unique\<close> is the random part of the id.\<close>

definition send_ticket_email ::
  "(outgoing \<Rightarrow> pyexc option) \<Rightarrow> string \<Rightarrow> tenant \<Rightarrow> ticket \<Rightarrow> string \<Rightarrow> string \<Rightarrow> string \<Rightarrow> sender_type \<Rightarrow> string option act" where
  "send_ticket_email smtp unique tnt t to subj body sender =
     (if is_undeliverable_email to then ret None
      else bindc (asks (\<lambda>d. generate_message_id d tnt t unique)) (\<lambda>mid.
        bindc (asks (\<lambda>d. smtp (ticket_mail d tnt t mid to subj body))) (\<lambda>failure. case failure of
          Some x \<Rightarrow> raise_exc x
        | None \<Rightarrow> bindc (record_outbound_email tnt (pk t) mid to subj body sender) (\<lambda>_. ret (Some mid)))))"

text \<open>Whether the mail was sent; a failure is logged and swallowed.\<close>

definition send_to_contact ::
  "(outgoing \<Rightarrow> pyexc option) \<Rightarrow> string \<Rightarrow> tenant \<Rightarrow> ticket \<Rightarrow> string \<Rightarrow> string \<Rightarrow> sender_type \<Rightarrow> bool act" where
  "send_to_contact smtp unique tnt t subj body sender = (case contact_of t of
     None \<Rightarrow> ret False
   | Some c \<Rightarrow> if contact_email c = [] then ret False
       else try_except (bindc (send_ticket_email smtp unique tnt t (contact_email c) subj body sender) (\<lambda>_. ret True)) (\<lambda>_. ret False))"

definition send_ticket_reply_email :: "(outgoing \<Rightarrow> pyexc option) \<Rightarrow> string \<Rightarrow> tenant \<Rightarrow> ticket \<Rightarrow> string \<Rightarrow> bool act" where
  "send_ticket_reply_email smtp unique tnt t body = send_to_contact smtp unique tnt t (reply_subject t) body AgentSender"

definition send_ticket_created_email :: "(outgoing \<Rightarrow> pyexc option) \<Rightarrow> string \<Rightarrow> tenant \<Rightarrow> ticket \<Rightarrow> string \<Rightarrow> bool act" where
  "send_ticket_created_email smtp unique tnt t body = send_to_contact smtp unique tnt t (created_subject t) body SystemSender"

section \<open>The tasks that send\<close>

datatype task_end = Finished | Retried

text \<open>One attempt: a missing row ends the task, an exception asks for a retry until they are used up.\<close>

definition mail_task :: "nat \<Rightarrow> nat \<Rightarrow> tenant_id \<Rightarrow> (tenant \<Rightarrow> ticket \<Rightarrow> unit act) \<Rightarrow> task_end act" where
  "mail_task retries i ten send =
     bindc (asks (\<lambda>d. ticket_row i (base d))) (\<lambda>found.
     bindc (asks (\<lambda>d. first_row (\<lambda>t. tenant_id t = ten) (tenants d))) (\<lambda>tnt. case (found, tnt) of
       (Some t, Some x) \<Rightarrow> try_except (thenc (in_tenant ten (send x t)) (ret Finished))
         (\<lambda>e. if retries \<ge> 3 then raise_exc e else ret Retried)
     | _ \<Rightarrow> ret Finished))"

definition send_ticket_reply_email_task ::
  "(outgoing \<Rightarrow> pyexc option) \<Rightarrow> string \<Rightarrow> string \<Rightarrow> nat \<Rightarrow> nat \<Rightarrow> tenant_id \<Rightarrow> task_end act" where
  "send_ticket_reply_email_task smtp unique body retries i ten = mail_task retries i ten
     (\<lambda>tnt t. bindc (send_ticket_reply_email smtp unique tnt t body) (\<lambda>_. ret ()))"

definition send_ticket_created_email_task ::
  "(outgoing \<Rightarrow> pyexc option) \<Rightarrow> string \<Rightarrow> string \<Rightarrow> nat \<Rightarrow> nat \<Rightarrow> tenant_id \<Rightarrow> task_end act" where
  "send_ticket_created_email_task smtp unique body retries i ten = mail_task retries i ten
     (\<lambda>tnt t. bindc (send_ticket_created_email smtp unique tnt t body) (\<lambda>_. ret ()))"

definition send_ticket_email_task ::
  "(outgoing \<Rightarrow> pyexc option) \<Rightarrow> string \<Rightarrow> string \<Rightarrow> string \<Rightarrow> string \<Rightarrow> sender_type \<Rightarrow> nat \<Rightarrow> nat \<Rightarrow> tenant_id \<Rightarrow> task_end act" where
  "send_ticket_email_task smtp unique to subj body sender retries i ten = mail_task retries i ten
     (\<lambda>tnt t. bindc (send_ticket_email smtp unique tnt t to subj body sender) (\<lambda>_. ret ()))"

section \<open>Webhooks\<close>

record endpoint =
  endpoint_id :: nat
  endpoint_active :: bool
  failure_count :: nat
  last_status_code :: "int option"
  last_triggered_at :: "instant option"

definition MAX_FAILURE_COUNT :: nat where "MAX_FAILURE_COUNT = 10"

text \<open>\<open>answer\<close> is the status code of the response, or \<open>None\<close> for a \<open>RequestException\<close>.\<close>

definition delivered :: "int option \<Rightarrow> bool" where
  "delivered answer \<longleftrightarrow> (case answer of None \<Rightarrow> False | Some code \<Rightarrow> 200 \<le> code \<and> code < 300)"

definition deliver_webhook :: "instant \<Rightarrow> int option \<Rightarrow> endpoint \<Rightarrow> endpoint" where
  "deliver_webhook now answer w =
     (let n = (if delivered answer then 0 else failure_count w + 1)
      in w\<lparr>last_triggered_at := Some now, last_status_code := answer, failure_count := n,
           endpoint_active := (endpoint_active w \<and> \<not> n \<ge> MAX_FAILURE_COUNT)\<rparr>)"

text \<open>The endpoint after the task, and the seconds until the next attempt if there is one.\<close>

definition deliver_webhook_task :: "nat \<Rightarrow> instant \<Rightarrow> int option \<Rightarrow> endpoint \<Rightarrow> endpoint \<times> nat option" where
  "deliver_webhook_task retries now answer w =
     (if \<not> endpoint_active w then (w, None)
      else (deliver_webhook now answer w, if \<not> delivered answer \<and> retries < 3 then Some (30 * 2 ^ retries) else None))"

text \<open>The attempts of one payload, one answer each.\<close>

fun attempts :: "nat \<Rightarrow> (instant \<times> int option) list \<Rightarrow> endpoint \<Rightarrow> endpoint" where
  "attempts retries [] w = w"
| "attempts retries ((now, answer) # xs) w = (case deliver_webhook_task retries now answer w of
     (w', None) \<Rightarrow> w' | (w', Some _) \<Rightarrow> attempts (retries + 1) xs w')"

end
