(* ===== verification/Ticket_Tasks_Laws.thy ===== *)
theory Ticket_Tasks_Laws
  imports Ticket_Mail Ticket_Frame
begin

text \<open>
  The SLA sweep and the escalation rules: a rule leaves a mark in the timeline
  of the ticket it fired for, and the locale of the saves of the core is
  interpreted on the marks to show that nothing else writes or removes one.
\<close>

section \<open>Marks of escalation rules\<close>

definition marks_kept :: "store \<Rightarrow> store \<Rightarrow> bool" where
  "marks_kept s s' \<longleftrightarrow> (\<forall>i. fired_rules s' i = fired_rules s i)"

interpretation marks: save_law marks_kept "\<lambda>_. True"
  by unfold_locales (auto simp: marks_kept_def fired_rules_def write_ticket_def)

lemma marks_save: "obeys marks_kept (save_ticket (Some uf) t)"
  by (rule marks.save_ticket) (simp_all add: quiet_def marks_kept_def fired_rules_def write_ticket_def)

lemma marks_webhooks: "obeys marks_kept (fire_webhooks tnt e x)"
  unfolding fire_webhooks_def Let_def
  by (intro marks.obeys_update) (simp add: marks_kept_def fired_rules_def)

definition same_marks :: "desk \<Rightarrow> desk \<Rightarrow> bool" where
  "same_marks d d' \<longleftrightarrow> escalation_rules d' = escalation_rules d \<and> marks_kept (base d) (base d')"

interpretation same: step_law same_marks
  by unfold_locales (simp_all add: same_marks_def marks_kept_def)

lemma same_on_base: "obeys marks_kept c \<Longrightarrow> obeys same_marks (on_base c)"
  by (simp add: obeys_def run_on_base same_marks_def)

lemma same_notify: "obeys same_marks (notify ten u k x)"
  by (simp add: obeys_def notify_def cmd_simps send_notification_run same_marks_def marks_kept_def fired_rules_def)

lemma same_log:
  assumes "jget (JObj md) ''escalation_rule_id'' = None"
  shows "obeys same_marks (log_escalated t md)"
  unfolding log_escalated_def
  by (intro same_on_base marks.obeys_update) (use assms in \<open>simp add: marks_kept_def fired_rules_def\<close>)

lemmas same_rules = same.obeys_ret same.obeys_asks same.obeys_lift same.obeys_bind same.obeys_then same.obeys_option
  same.obeys_if same.obeys_when same.obeys_for same_notify same_on_base marks_save marks_webhooks

lemma same_perform: "obeys same_marks (perform_rule r t ten now)"
  unfolding perform_rule_def by (cases "er_action r") (simp_all only: rule_action.case, (intro same_rules)+)

lemma same_breach: "obeys same_marks (fire_breach t tnt kind policy)"
  unfolding fire_breach_def Let_def by (intro same_rules same_log) simp

lemma same_elapsed: "obeys same_marks (effective_elapsed t policy tnt now)" "obeys same_marks (idle_elapsed t policy tnt now)"
  unfolding effective_elapsed_def idle_elapsed_def by (intro same_rules)+

lemma same_due: "obeys same_marks (rule_due elapsed policy tnt now r t)"
  unfolding rule_due_def by (cases "er_trigger r") (simp_all only: trigger.case, (intro same_rules same_elapsed)+)

text \<open>One rule adds at most its own mark, to its own ticket.\<close>

definition marked :: "nat \<Rightarrow> json list \<Rightarrow> desk \<Rightarrow> desk \<Rightarrow> bool" where
  "marked i ks d d' \<longleftrightarrow> escalation_rules d' = escalation_rules d \<and> fired_rules (base d') i = fired_rules (base d) i @ ks \<and>
     (\<forall>j. j \<noteq> i \<longrightarrow> fired_rules (base d') j = fired_rules (base d) j)"

lemma marked_same: "same_marks d d' \<Longrightarrow> marked i [] d d'"
  by (simp add: same_marks_def marked_def marks_kept_def)

lemma marked_trans: "marked i ks d d' \<Longrightarrow> marked i ls d' d'' \<Longrightarrow> marked i (ks @ ls) d d''"
  by (simp add: marked_def)

lemma pk_saved: "yields (save_ticket (Some uf) t) (\<lambda>t'. pk t' = pk t)"
proof -
  have "yields (save_nested 100 (Some uf) t) (\<lambda>x. firm x = firm t)" by (rule firm_law.yields_save) simp
  then have saved: "yields (save_ticket (Some uf) t) (\<lambda>x. firm x = firm t)" by (simp add: save_ticket_def recursion_limit_def)
  have "pk x = pk t" if "firm x = firm t" for x
    using arg_cong [OF that, of pk] by (simp add: firm_def core_def)
  with yieldsD [OF saved] show ?thesis unfolding yields_def by blast
qed

lemma pk_performed: "yields (perform_rule r t ten now) (\<lambda>t'. pk t' = pk t)"
proof -
  have saved: "yields (on_base (save_ticket (Some uf) x)) (\<lambda>t'. pk t' = pk t)" if "pk x = pk t" for uf x
    using pk_saved [of uf x] that by (fastforce simp: yields_def on_base_def split: prod.splits)
  show ?thesis
    unfolding perform_rule_def
    by (cases "er_action r") (simp_all only: rule_action.case,
      (intro yields_bind_all yields_option yields_then yields_ret saved; simp)+)
qed

lemma executed_marks:
  assumes "execute_rule r t ten now d = (res, d')"
  shows "\<exists>ks. subseq ks [jpk (er_id r)] \<and> marked (pk t) ks d d' \<and> (\<forall>t'. res = Inr t' \<longrightarrow> pk t' = pk t)"
proof -
  obtain out d1 where run: "perform_rule r t ten now d = (out, d1)" by fastforce
  have s: "marked (pk t) [] d d1" by (rule marked_same [OF obeysD [OF same_perform run]])
  show ?thesis
  proof (cases out)
    case (Inl e)
    then show ?thesis using assms s run by (intro exI [of _ "[]"]) (auto simp: execute_rule_def cmd_simps)
  next
    case (Inr t')
    then have p: "pk t' = pk t" using yieldsD [OF pk_performed] run by blast
    then have "marked (pk t) [jpk (er_id r)] d1 d'" "res = Inr t'"
      using assms run Inr by (auto simp: execute_rule_def cmd_simps log_escalated_def marked_def fired_rules_def)
    with p marked_trans [OF s] show ?thesis by (intro exI [of _ "[jpk (er_id r)]"]) simp
  qed
qed

lemma step_marks:
  assumes "rule_step fired elapsed policy tnt now r t d = (res, d')"
  shows "\<exists>ks. subseq ks (if jpk (er_id r) \<in> set fired then [] else [jpk (er_id r)]) \<and> marked (pk t) ks d d' \<and>
     (\<forall>t'. res = Inr t' \<longrightarrow> pk t' = pk t)"
proof (cases "jpk (er_id r) \<in> set fired")
  case True
  then show ?thesis using assms by (auto simp: rule_step_def cmd_simps marked_def)
next
  case False
  obtain out d1 where due: "rule_due elapsed policy tnt now r t d = (out, d1)" by fastforce
  have s: "marked (pk t) [] d d1" by (rule marked_same [OF obeysD [OF same_due due]])
  show ?thesis
  proof (cases "out = Inr True")
    case True
    then have "execute_rule r t (tenant_id tnt) now d1 = (res, d')"
      using assms False due by (simp add: rule_step_def cmd_simps)
    from executed_marks [OF this] obtain ks where
      ks: "subseq ks [jpk (er_id r)]" "marked (pk t) ks d1 d'" "\<forall>t'. res = Inr t' \<longrightarrow> pk t' = pk t" by blast
    have "marked (pk t) ks d d'" using marked_trans [OF s ks(2)] by simp
    moreover have "subseq ks (if jpk (er_id r) \<in> set fired then [] else [jpk (er_id r)])" using ks(1) False
      \<open>jpk (er_id r) \<notin> set fired\<close> by simp
    ultimately show ?thesis using ks(3) by blast
  next
    case False
    with assms \<open>jpk (er_id r) \<notin> set fired\<close> due have "d' = d1" "\<forall>t'. res = Inr t' \<longrightarrow> pk t' = pk t"
      by (auto simp: rule_step_def cmd_simps split: sum.splits if_splits)
    moreover have "subseq [] xs" for xs :: "json list" by simp
    ultimately show ?thesis using s by blast
  qed
qed

lemma rules_marks:
  assumes "for_each rs (rule_step fired elapsed policy tnt now) t d = (res, d')"
  shows "\<exists>ks. subseq ks (filter (\<lambda>k. k \<notin> set fired) (map (\<lambda>r. jpk (er_id r)) rs)) \<and> marked (pk t) ks d d'"
  using assms
proof (induction rs arbitrary: t d)
  case Nil
  then show ?case by (simp add: cmd_simps marked_def)
next
  case (Cons r rs)
  obtain out d1 where run: "rule_step fired elapsed policy tnt now r t d = (out, d1)" by fastforce
  let ?new = "if jpk (er_id r) \<in> set fired then [] else [jpk (er_id r)]"
  let ?rest = "filter (\<lambda>k. k \<notin> set fired) (map (\<lambda>r. jpk (er_id r)) rs)"
  from step_marks [OF run] obtain ks where
    ks: "subseq ks ?new" "marked (pk t) ks d d1" "\<forall>t'. out = Inr t' \<longrightarrow> pk t' = pk t" by blast
  have split: "filter (\<lambda>k. k \<notin> set fired) (map (\<lambda>r. jpk (er_id r)) (r # rs)) = ?new @ ?rest" by simp
  show ?case
  proof (cases out)
    case (Inl e)
    then have "marked (pk t) ks d d'" using Cons.prems run ks(2) by (simp add: cmd_simps)
    moreover have "subseq ks (?new @ ?rest)" using list_emb_append_mono [OF ks(1) list_emb_Nil, of ?rest] by (simp only: append_Nil2)
    ultimately show ?thesis unfolding split by blast
  next
    case (Inr t')
    then have "for_each rs (rule_step fired elapsed policy tnt now) t' d1 = (res, d')"
      using Cons.prems run by (simp add: cmd_simps)
    moreover have "pk t' = pk t" using ks(3) Inr by blast
    ultimately have "\<exists>ls. subseq ls ?rest \<and> marked (pk t) ls d1 d'" using Cons.IH by metis
    then obtain ls where ls: "subseq ls ?rest" "marked (pk t) ls d1 d'" by blast
    have "subseq (ks @ ls) (?new @ ?rest)" by (rule list_emb_append_mono [OF ks(1) ls(1)])
    with marked_trans [OF ks(2) ls(2)] show ?thesis unfolding split by blast
  qed
qed

section \<open>The sweep\<close>

text \<open>No rule has fired twice for a ticket.\<close>

definition fired_once :: "desk \<Rightarrow> bool" where
  "fired_once d \<longleftrightarrow> distinct (map er_id (escalation_rules d)) \<and> (\<forall>i. distinct (fired_rules (base d) i))"

definition sweep_kept :: "desk \<Rightarrow> desk \<Rightarrow> bool" where
  "sweep_kept d d' \<longleftrightarrow> (\<forall>i. prefix (fired_rules (base d) i) (fired_rules (base d') i)) \<and> (fired_once d \<longrightarrow> fired_once d')"

interpretation sweep: step_law sweep_kept
  by unfold_locales (auto simp: sweep_kept_def intro: prefix_order.trans)

lemma sweep_same: "obeys same_marks c \<Longrightarrow> obeys sweep_kept c"
  by (auto simp: obeys_def same_marks_def marks_kept_def sweep_kept_def fired_once_def)

lemma distinct_rules: "fired_once d \<Longrightarrow> distinct (map (\<lambda>r. jpk (er_id r)) (policy_rules d policy))"
  unfolding fired_once_def policy_rules_def
  by (simp add: distinct_map distinct_sort inj_on_def jpk_def)

lemma marks_distinct:
  assumes "distinct ms" "distinct ks" "subseq ls (filter (\<lambda>k. k \<notin> set ms) ks)"
  shows "distinct (ms @ ls)"
proof -
  have "distinct (filter (\<lambda>k. k \<notin> set ms) ks)" using assms(2) by simp
  then have "distinct ls" using subseqs_distinctD assms(3) by (metis in_set_subseqs)
  moreover have "set ls \<subseteq> set (filter (\<lambda>k. k \<notin> set ms) ks)"
  proof (rule subsetI)
    fix x assume "x \<in> set ls"
    then show "x \<in> set (filter (\<lambda>k. k \<notin> set ms) ks)" by (rule list_emb_set [OF assms(3)]) (simp only:)
  qed
  ultimately show ?thesis using assms(1) by auto
qed

lemma sweep_rules: "obeys sweep_kept (check_escalation_rules t policy tnt now)"
proof -
  have "sweep_kept d d'" if run: "for_each (policy_rules d policy) (rule_step (fired_rules (base d) (pk t)) elapsed policy tnt now) t d0 = (res, d')"
    and same: "same_marks d d0" for d d0 d' res elapsed
  proof -
    let ?ms = "fired_rules (base d) (pk t)"
    from rules_marks [OF run] obtain ks where
      ks: "subseq ks (filter (\<lambda>k. k \<notin> set ?ms) (map (\<lambda>r. jpk (er_id r)) (policy_rules d policy)))" "marked (pk t) ks d0 d'" by blast
    have m: "marked (pk t) ks d d'" using marked_trans [OF marked_same [OF same] ks(2)] by simp
    have "distinct (fired_rules (base d') j)" if "fired_once d" for j
    proof (cases "j = pk t")
      case True
      have "distinct (?ms @ ks)" by (rule marks_distinct [OF _ distinct_rules [OF that] ks(1)]) (use that in \<open>simp add: fired_once_def\<close>)
      with m True show ?thesis by (simp add: marked_def)
    qed (use m that in \<open>simp add: marked_def fired_once_def\<close>)
    with m show ?thesis by (auto simp: sweep_kept_def marked_def fired_once_def prefix_def) (metis append_Nil2)
  qed
  note kept = this
  have "sweep_kept d (snd (check_escalation_rules t policy tnt now d))" for d
  proof -
    obtain out d0 where e: "effective_elapsed t policy tnt now d = (out, d0)" by fastforce
    have same: "same_marks d d0" by (rule obeysD [OF same_elapsed(1) e])
    show ?thesis
    proof (cases "policy_rules d policy = [] \<or> (\<exists>x. out = Inl x)")
      case True
      have "sweep_kept d d0" using obeysD [OF sweep_same [OF same_elapsed(1)] e] .
      with True show ?thesis by (auto simp: check_escalation_rules_def cmd_simps e sweep.step_refl)
    next
      case False
      then obtain elapsed where "out = Inr elapsed" by (cases out) auto
      moreover obtain res d' where run: "for_each (policy_rules d policy) (rule_step (fired_rules (base d) (pk t)) elapsed policy tnt now) t d0
          = (res, d')" by fastforce
      moreover have "sweep_kept d d'" by (rule kept [OF run same])
      ultimately show ?thesis using False by (cases res) (simp_all add: check_escalation_rules_def cmd_simps e)
    qed
  qed
  then show ?thesis by (simp add: obeys_def)
qed

lemmas sweep_steps = sweep.obeys_ret sweep.obeys_asks sweep.obeys_bind sweep.obeys_then sweep.obeys_when
  sweep.obeys_if sweep.obeys_for sweep.obeys_try sweep_rules sweep_same [OF same_breach] sweep_same [OF same_elapsed(1)]
  sweep_same [OF same_on_base [OF marks_save]]

lemma sweep_ticket: "obeys sweep_kept (check_ticket_sla t policy tnt now)"
  unfolding check_ticket_sla_def Let_def by (intro sweep_steps)

lemma sweep_all: "obeys sweep_kept check_sla_breaches"
  unfolding check_sla_breaches_def check_tenant_sla_def check_policy_def best_effort_def now_of_def
  by (intro sweep_steps sweep_ticket)


text \<open>A ticket in breach and a rule that is due for it.\<close>

definition demo_policy :: sla_policy where
  "demo_policy = \<lparr>policy_id = 4, policy_tenant = 1, policy_name = ''P'', policy_priority = ''high'',
     first_response_minutes = 0, resolution_minutes = 0, business_hours_only = False, policy_active = True\<rparr>"

definition demo_rule :: escalation_rule where
  "demo_rule = \<lparr>er_id = 5, er_policy = 4, er_trigger = ResponseBreach, threshold_minutes = 0, er_action = NotifyRule,
     target_user = Some demo_user, target_role = None, er_order = 0\<rparr>"

definition demo_breach :: desk where
  "demo_breach = demo_desk\<lparr>base := demo_store\<lparr>policies := [demo_policy],
     tickets := [demo_ticket\<lparr>sla_response_breached := True, sla_resolution_breached := True\<rparr>]\<rparr>,
     escalation_rules := [demo_rule]\<rparr>"

lemma demo_fires: "fired_rules (base (snd (check_sla_breaches demo_breach))) 10 = [JInt 5]"
  by code_simp


end
