(* ===== verification/Ticket_Reminders.thy ===== *)
theory Ticket_Reminders
  imports Ticket_Mail
begin

text \<open>
  The daily reminders of overdue tickets and follow-ups: the sweep only adds
  notices, and the notices it finds keep it from sending another one the same
  day.  The retries of a webhook and the endpoint that keeps failing.
\<close>

section \<open>Reminders\<close>

text \<open>A desk to which only notices were added.\<close>

definition told :: "desk \<Rightarrow> desk \<Rightarrow> bool" where
  "told d d' \<longleftrightarrow> (\<exists>k ns out. d' = d\<lparr>base := (base d)\<lparr>next_pk := k\<rparr>, notifications := notifications d @ ns, deliveries := out\<rparr>)"

lemma told_refl: "told d d"
  unfolding told_def by (intro exI [of _ "next_pk (base d)"] exI [of _ "[]"] exI [of _ "deliveries d"]) simp

lemma told_trans: "told d d1 \<Longrightarrow> told d1 d2 \<Longrightarrow> told d d2"
  by (auto simp: told_def) (metis append_assoc)

lemma told_frame:
  assumes "told d d'"
  shows "open_tickets p ten (base d') = open_tickets p ten (base d)" "supervisors (base d') ten = supervisors (base d) ten"
    "clock (base d') = clock (base d)"
    "set (notified_today d ten kind q now) \<subseteq> set (notified_today d' ten kind q now)"
  using assms
  by (auto simp: told_def open_tickets_def Ticket_Tasks.closed_status_ids_def supervisors_def notified_today_def cong: option.case_cong)

text \<open>A command that sends notices of one kind about one ticket, all of them or none.\<close>

definition about :: "nat \<Rightarrow> tenant_id \<Rightarrow> notification_type \<Rightarrow> notification \<Rightarrow> bool" where
  "about i ten kind n \<longleftrightarrow> notif_tenant n = ten \<and> notif_type n = kind \<and> jget_or_null (notif_data n) ''ticket_id'' = jpk i"

definition tells :: "bool \<Rightarrow> nat \<Rightarrow> tenant_id \<Rightarrow> notification_type \<Rightarrow> unit act \<Rightarrow> bool" where
  "tells b i ten kind c \<longleftrightarrow> (\<forall>d. \<exists>d' ns. c d = (Inr (), d') \<and> told d d' \<and> notifications d' = notifications d @ ns \<and>
     (\<forall>n \<in> set ns. about i ten kind n \<and> notif_at n = clock (base d)) \<and> (ns = [] \<longleftrightarrow> \<not> b))"

lemma tells_none: "tells False i ten kind (ret ())"
  by (simp add: tells_def cmd_simps told_refl)

lemma tells_notify:
  assumes "jget_or_null x ''ticket_id'' = jpk i"
  shows "tells True i ten kind (notify ten u kind x)"
  using assms unfolding tells_def notify_def
  by (auto simp: cmd_simps send_notification_run told_def about_def notice_def)

lemma tells_then:
  assumes "tells a i ten kind c" "tells b i ten kind e"
  shows "tells (a \<or> b) i ten kind (thenc c e)"
proof -
  have "\<exists>d' ns. thenc c e d = (Inr (), d') \<and> told d d' \<and> notifications d' = notifications d @ ns \<and>
     (\<forall>n \<in> set ns. about i ten kind n \<and> notif_at n = clock (base d)) \<and> (ns = [] \<longleftrightarrow> \<not> (a \<or> b))" for d
  proof -
    obtain d1 ns where 1: "c d = (Inr (), d1)" "told d d1" "notifications d1 = notifications d @ ns"
      "\<forall>n \<in> set ns. about i ten kind n \<and> notif_at n = clock (base d)" "ns = [] \<longleftrightarrow> \<not> a"
      using assms(1) unfolding tells_def by blast
    obtain d2 ms where 2: "e d1 = (Inr (), d2)" "told d1 d2" "notifications d2 = notifications d1 @ ms"
      "\<forall>n \<in> set ms. about i ten kind n \<and> notif_at n = clock (base d1)" "ms = [] \<longleftrightarrow> \<not> b"
      using assms(2) unfolding tells_def by blast
    have "notifications d2 = notifications d @ (ns @ ms)" "thenc c e d = (Inr (), d2)"
      using 1 2 by (simp_all add: cmd_simps)
    moreover have "\<forall>n \<in> set (ns @ ms). about i ten kind n \<and> notif_at n = clock (base d)"
      using 1(4) 2(4) told_frame(3) [OF 1(2)] by auto
    ultimately show ?thesis using told_trans [OF 1(2) 2(2)] 1(5) 2(5) by blast
  qed
  then show ?thesis by (simp only: tells_def) blast
qed

lemma tells_for:
  assumes "\<And>x. tells True i ten kind (f x ())"
  shows "tells (xs \<noteq> []) i ten kind (for_each xs f ())"
proof (induction xs)
  case Nil
  show ?case using tells_none by simp
next
  case (Cons x xs)
  have "for_each (x # xs) f () = thenc (f x ()) (for_each xs f ())" by (simp add: thenc_def)
  then show ?case using tells_then [OF assms Cons.IH] by simp
qed

lemma ticket_named: "jget_or_null (JObj (overdue_by now due @ ticket_data t)) ''ticket_id'' = jpk (pk t)"
  by (simp add: jget_or_null_def overdue_by_def ticket_data_def split: option.split)

definition reached :: "membership list \<Rightarrow> ticket \<Rightarrow> bool" where
  "reached admins t \<longleftrightarrow> assignee t \<noteq> None \<or> filter (\<lambda>m. \<not> same_user (assignee t) (member_user m)) admins \<noteq> []"

lemma tells_overdue: "tells (reached admins t) (pk t) ten NTicketOverdue (remind_overdue ten now admins t)"
proof -
  let ?data = "JObj (overdue_by now (due_date t) @ ticket_data t)"
  have one: "tells True (pk t) ten NTicketOverdue (notify ten u NTicketOverdue ?data)" for u
    by (rule tells_notify) (rule ticket_named)
  then have all: "tells (xs \<noteq> []) (pk t) ten NTicketOverdue (for_each xs (\<lambda>m _. notify ten (member_user m) NTicketOverdue ?data) ())" for xs
    by (rule tells_for)
  show ?thesis
  proof (cases "assignee t")
    case None
    then show ?thesis unfolding remind_overdue_def Let_def reached_def using tells_then [OF tells_none all] by simp
  next
    case (Some u)
    then show ?thesis unfolding remind_overdue_def Let_def reached_def using tells_then [OF one all] by simp
  qed
qed

lemma tells_followup: "tells (assignee t \<noteq> None) (pk t) ten NTicketFollowupOverdue (remind_followup ten now t)"
  by (cases "assignee t") (simp_all add: remind_followup_def tells_none tells_notify ticket_named)

lemma tells_each:
  assumes "\<And>t. tells (p t) (pk t) ten kind (remind t)"
  shows "\<exists>d' ns. for_each ts (\<lambda>t _. remind t) () d = (Inr (), d') \<and> told d d' \<and> notifications d' = notifications d @ ns \<and>
     (\<forall>n \<in> set ns. notif_at n = clock (base d) \<and> (\<exists>t \<in> set ts. p t \<and> about (pk t) ten kind n)) \<and>
     (\<forall>t \<in> set ts. p t \<longrightarrow> (\<exists>n \<in> set ns. about (pk t) ten kind n))"
proof (induction ts arbitrary: d)
  case Nil
  show ?case by (simp add: cmd_simps told_refl)
next
  case (Cons t ts)
  obtain d1 ns where 1: "remind t d = (Inr (), d1)" "told d d1" "notifications d1 = notifications d @ ns"
    "\<forall>n \<in> set ns. about (pk t) ten kind n \<and> notif_at n = clock (base d)" "ns = [] \<longleftrightarrow> \<not> p t"
    using assms [of t] unfolding tells_def by blast
  obtain d2 ms where 2: "for_each ts (\<lambda>t _. remind t) () d1 = (Inr (), d2)" "told d1 d2" "notifications d2 = notifications d1 @ ms"
    "\<forall>n \<in> set ms. notif_at n = clock (base d1) \<and> (\<exists>t \<in> set ts. p t \<and> about (pk t) ten kind n)"
    "\<forall>t \<in> set ts. p t \<longrightarrow> (\<exists>n \<in> set ms. about (pk t) ten kind n)"
    using Cons.IH [of d1] by blast
  have mine: "\<exists>n \<in> set ns. about (pk t) ten kind n" if "p t"
    using that 1(4,5) by (cases ns) auto
  have "for_each (t # ts) (\<lambda>t _. remind t) () d = (Inr (), d2)" "notifications d2 = notifications d @ (ns @ ms)"
    using 1 2 by (simp_all add: cmd_simps)
  moreover have "\<forall>n \<in> set (ns @ ms). notif_at n = clock (base d) \<and> (\<exists>x \<in> set (t # ts). p x \<and> about (pk x) ten kind n)"
    using 1(4,5) 2(4) told_frame(3) [OF 1(2)] by auto
  moreover have "\<forall>x \<in> set (t # ts). p x \<longrightarrow> (\<exists>n \<in> set (ns @ ms). about (pk x) ten kind n)"
    using mine 2(5) by auto
  ultimately show ?case using told_trans [OF 1(2) 2(2)] by blast
qed

text \<open>One of the two sweeps of a tenant.\<close>

definition due_tickets :: "instant \<Rightarrow> (ticket \<Rightarrow> instant option) \<Rightarrow> tenant_id \<Rightarrow> desk \<Rightarrow> ticket list" where
  "due_tickets now due ten d = open_tickets (\<lambda>t. past now (due t)) ten (base d)"

lemma remind_each_run:
  assumes "\<And>t. tells (p t) (pk t) ten kind (remind t)"
  shows "\<exists>d' ns. remind_each ten now kind due remind d = (Inr (), d') \<and> told d d' \<and> notifications d' = notifications d @ ns \<and>
     (\<forall>n \<in> set ns. \<exists>t \<in> set (due_tickets now due ten d). p t \<and> about (pk t) ten kind n \<and>
        jpk (pk t) \<notin> set (notified_today d ten kind (\<lambda>_. True) now)) \<and>
     (start_of_day now \<le> clock (base d) \<longrightarrow>
       (\<forall>t \<in> set (due_tickets now due ten d). p t \<longrightarrow> jpk (pk t) \<in> set (notified_today d' ten kind (\<lambda>_. True) now)))"
proof -
  let ?already = "notified_today d ten kind (\<lambda>_. True) now"
  let ?ts = "filter (\<lambda>t. jpk (pk t) \<notin> set ?already) (due_tickets now due ten d)"
  obtain d' ns where 1: "for_each ?ts (\<lambda>t _. remind t) () d = (Inr (), d')" "told d d'" "notifications d' = notifications d @ ns"
    "\<forall>n \<in> set ns. notif_at n = clock (base d) \<and> (\<exists>t \<in> set ?ts. p t \<and> about (pk t) ten kind n)"
    "\<forall>t \<in> set ?ts. p t \<longrightarrow> (\<exists>n \<in> set ns. about (pk t) ten kind n)"
    using tells_each [OF assms, of ?ts d] by blast
  have run: "remind_each ten now kind due remind d = (Inr (), d')"
    using 1(1) by (simp add: remind_each_def cmd_simps due_tickets_def)
  have "jpk (pk t) \<in> set (notified_today d' ten kind (\<lambda>_. True) now)"
    if "t \<in> set (due_tickets now due ten d)" "p t" and clock: "start_of_day now \<le> clock (base d)" for t
  proof (cases "jpk (pk t) \<in> set ?already")
    case True
    then show ?thesis using told_frame(4) [OF 1(2)] by blast
  next
    case False
    with that obtain n where "n \<in> set ns" "about (pk t) ten kind n" using 1(5) by auto
    moreover from this(1) have "notif_at n = clock (base d)" using 1(4) by blast
    ultimately show ?thesis using clock 1(3) by (force simp: notified_today_def about_def)
  qed
  moreover have "\<forall>n \<in> set ns. \<exists>t \<in> set (due_tickets now due ten d). p t \<and> about (pk t) ten kind n \<and>
      jpk (pk t) \<notin> set ?already"
    using 1(4) by fastforce
  ultimately show ?thesis using run 1(2,3) by blast
qed

text \<open>Both sweeps; what the first sends is of another kind than what the second looks for.\<close>

lemma overdue_run:
  fixes d :: desk and ten :: tenant_id
  defines "admins \<equiv> take 5 (supervisors (base d) ten)"
  shows "\<exists>d' ns. check_tenant_overdue ten now d = (Inr (), d') \<and> told d d' \<and> notifications d' = notifications d @ ns \<and>
     (\<forall>n \<in> set ns.
        (\<exists>t \<in> set (due_tickets now due_date ten d). reached admins t \<and> about (pk t) ten NTicketOverdue n \<and>
           jpk (pk t) \<notin> set (notified_today d ten NTicketOverdue (\<lambda>_. True) now)) \<or>
        (\<exists>t \<in> set (due_tickets now follow_up_due_at ten d). assignee t \<noteq> None \<and> about (pk t) ten NTicketFollowupOverdue n \<and>
           jpk (pk t) \<notin> set (notified_today d ten NTicketFollowupOverdue (\<lambda>_. True) now))) \<and>
     (start_of_day now \<le> clock (base d) \<longrightarrow>
       (\<forall>t \<in> set (due_tickets now due_date ten d). reached admins t \<longrightarrow>
          jpk (pk t) \<in> set (notified_today d' ten NTicketOverdue (\<lambda>_. True) now)) \<and>
       (\<forall>t \<in> set (due_tickets now follow_up_due_at ten d). assignee t \<noteq> None \<longrightarrow>
          jpk (pk t) \<in> set (notified_today d' ten NTicketFollowupOverdue (\<lambda>_. True) now)))"
proof -
  have p: "tells (reached admins t) (pk t) ten NTicketOverdue (remind_overdue ten now admins t)" for t by (rule tells_overdue)
  have q: "tells (assignee t \<noteq> None) (pk t) ten NTicketFollowupOverdue (remind_followup ten now t)" for t by (rule tells_followup)
  obtain d1 ns where 1: "remind_each ten now NTicketOverdue due_date (remind_overdue ten now admins) d = (Inr (), d1)" "told d d1"
      "notifications d1 = notifications d @ ns"
    and ns: "\<forall>n \<in> set ns. \<exists>t \<in> set (due_tickets now due_date ten d). reached admins t \<and> about (pk t) ten NTicketOverdue n \<and>
        jpk (pk t) \<notin> set (notified_today d ten NTicketOverdue (\<lambda>_. True) now)"
    and all1: "start_of_day now \<le> clock (base d) \<longrightarrow> (\<forall>t \<in> set (due_tickets now due_date ten d). reached admins t \<longrightarrow>
          jpk (pk t) \<in> set (notified_today d1 ten NTicketOverdue (\<lambda>_. True) now))"
    using remind_each_run [OF p, of now due_date d] by blast
  obtain d2 ms where 2: "remind_each ten now NTicketFollowupOverdue follow_up_due_at (remind_followup ten now) d1 = (Inr (), d2)" "told d1 d2"
      "notifications d2 = notifications d1 @ ms"
    and ms: "\<forall>n \<in> set ms. \<exists>t \<in> set (due_tickets now follow_up_due_at ten d1). assignee t \<noteq> None \<and> about (pk t) ten NTicketFollowupOverdue n \<and>
        jpk (pk t) \<notin> set (notified_today d1 ten NTicketFollowupOverdue (\<lambda>_. True) now)"
    and all2: "start_of_day now \<le> clock (base d1) \<longrightarrow> (\<forall>t \<in> set (due_tickets now follow_up_due_at ten d1). assignee t \<noteq> None \<longrightarrow>
          jpk (pk t) \<in> set (notified_today d2 ten NTicketFollowupOverdue (\<lambda>_. True) now))"
    using remind_each_run [OF q, of now follow_up_due_at d1] by blast
  have run: "check_tenant_overdue ten now d = (Inr (), d2)"
    using 1(1) 2(1) by (simp add: check_tenant_overdue_def cmd_simps admins_def)
  have frame: "due_tickets now due ten d1 = due_tickets now due ten d" "clock (base d1) = clock (base d)" for due
    using told_frame [OF 1(2)] by (simp_all add: due_tickets_def)
  have grow: "set (notified_today d ten kind q now) \<subseteq> set (notified_today d1 ten kind q now)"
      "set (notified_today d1 ten kind q now) \<subseteq> set (notified_today d2 ten kind q now)" for kind q
    using told_frame(4) [OF 1(2)] told_frame(4) [OF 2(2)] by blast+
  have "\<forall>n \<in> set (ns @ ms).
        (\<exists>t \<in> set (due_tickets now due_date ten d). reached admins t \<and> about (pk t) ten NTicketOverdue n \<and>
           jpk (pk t) \<notin> set (notified_today d ten NTicketOverdue (\<lambda>_. True) now)) \<or>
        (\<exists>t \<in> set (due_tickets now follow_up_due_at ten d). assignee t \<noteq> None \<and> about (pk t) ten NTicketFollowupOverdue n \<and>
           jpk (pk t) \<notin> set (notified_today d ten NTicketFollowupOverdue (\<lambda>_. True) now))"
    using ns ms [unfolded frame] grow(1) [of NTicketFollowupOverdue "\<lambda>_. True"] by (simp add: ball_Un) blast
  moreover have "start_of_day now \<le> clock (base d) \<longrightarrow>
       (\<forall>t \<in> set (due_tickets now due_date ten d). reached admins t \<longrightarrow>
          jpk (pk t) \<in> set (notified_today d2 ten NTicketOverdue (\<lambda>_. True) now)) \<and>
       (\<forall>t \<in> set (due_tickets now follow_up_due_at ten d). assignee t \<noteq> None \<longrightarrow>
          jpk (pk t) \<in> set (notified_today d2 ten NTicketFollowupOverdue (\<lambda>_. True) now))"
    using all1 all2 [unfolded frame] grow(2) [of NTicketOverdue "\<lambda>_. True"] by blast
  moreover have "notifications d2 = notifications d @ (ns @ ms)" using 1(3) 2(3) by simp
  moreover have "told d d2" by (rule told_trans [OF 1(2) 2(2)])
  ultimately show ?thesis using run by blast
qed

lemma due_member: "t \<in> set (due_tickets now due ten d) \<longleftrightarrow> past now (due t) \<and> t \<in> set (open_tickets (\<lambda>_. True) ten (base d))"
  by (auto simp: due_tickets_def open_tickets_def)

lemma day_started: "start_of_day now \<le> now"
  by (simp add: start_of_day_def day_us_def)

lemma later_frame:
  fixes d :: desk and later :: instant
  defines "e \<equiv> d\<lparr>base := (base d)\<lparr>clock := later\<rparr>\<rparr>"
  shows "open_tickets p ten (base e) = open_tickets p ten (base d)" "supervisors (base e) ten = supervisors (base d) ten"
    "start_of_day later = start_of_day now \<Longrightarrow> notified_today e ten kind q later = notified_today d ten kind q now"
  by (simp_all add: e_def open_tickets_def Ticket_Tasks.closed_status_ids_def supervisors_def notified_today_def cong: option.case_cong)

lemma due_later: "due_tickets now due ten d' = due_tickets now due ten d"
  if "open_tickets (\<lambda>t. past now (due t)) ten (base d') = open_tickets (\<lambda>t. past now (due t)) ten (base d)"
  using that by (simp add: due_tickets_def)

text \<open>Who gets a notice that was not sent when the first sweep ran was not due then.\<close>

lemma not_due_before:
  assumes sent: "\<forall>t \<in> set (due_tickets now due ten d). p t \<longrightarrow> jpk (pk t) \<in> set already"
    and "\<exists>t \<in> set (due_tickets later due ten d). p t \<and> about (pk t) ten kind n \<and> jpk (pk t) \<notin> set already"
  shows "\<exists>t \<in> set (tickets (base d)). about (pk t) ten kind n \<and> past later (due t) \<and> \<not> past now (due t)"
proof -
  from assms(2) obtain t where t: "past later (due t)" "t \<in> set (open_tickets (\<lambda>_. True) ten (base d))" "p t"
      "about (pk t) ten kind n" "jpk (pk t) \<notin> set already"
    by (auto simp: due_member)
  then have "\<not> past now (due t)" using sent by (auto simp: due_member)
  moreover have "t \<in> set (tickets (base d))" using t(2) by (simp add: open_tickets_def)
  ultimately show ?thesis using t by blast
qed

text \<open>
  C27: Nobody is reminded twice a day of the same ticket: a sweep that runs again
  on the same day, at whatever time, sends notices only about tickets that
  were not due when the first one ran.
\<close>

theorem reminded_once_a_day:
  assumes first: "check_tenant_overdue ten now d = (r, d1)" and clock: "clock (base d) = now"
    and day: "start_of_day later = start_of_day now"
    and second: "check_tenant_overdue ten later (d1\<lparr>base := (base d1)\<lparr>clock := later\<rparr>\<rparr>) = (r', d2)"
  shows "r = Inr () \<and> r' = Inr () \<and> (\<exists>ns. notifications d2 = notifications d1 @ ns \<and>
    list_all (\<lambda>n. \<exists>t \<in> set (tickets (base d)). about (pk t) ten (notif_type n) n \<and>
      (notif_type n = NTicketOverdue \<and> past later (due_date t) \<and> \<not> past now (due_date t) \<or>
       notif_type n = NTicketFollowupOverdue \<and> past later (follow_up_due_at t) \<and> \<not> past now (follow_up_due_at t))) ns)"
proof -
  let ?e = "d1\<lparr>base := (base d1)\<lparr>clock := later\<rparr>\<rparr>" and ?admins = "take 5 (supervisors (base d) ten)"
  have begun: "start_of_day now \<le> clock (base d)" using clock day_started by simp
  from overdue_run [where now = now and ten = ten and d = d] begun obtain d' where 1: "check_tenant_overdue ten now d = (Inr (), d')" "told d d'"
    and told1: "\<forall>t \<in> set (due_tickets now due_date ten d). reached ?admins t \<longrightarrow>
          jpk (pk t) \<in> set (notified_today d' ten NTicketOverdue (\<lambda>_. True) now)"
    and told2: "\<forall>t \<in> set (due_tickets now follow_up_due_at ten d). assignee t \<noteq> None \<longrightarrow>
          jpk (pk t) \<in> set (notified_today d' ten NTicketFollowupOverdue (\<lambda>_. True) now)"
    by blast
  from 1(1) first have d1: "d' = d1" and r: "r = Inr ()" by simp_all
  have same: "open_tickets p ten (base ?e) = open_tickets p ten (base d)" "supervisors (base ?e) ten = supervisors (base d) ten" for p
    using told_frame [OF 1(2)] later_frame [where d = d1 and later = later] by (simp_all add: d1)
  obtain d'' ns where 2: "check_tenant_overdue ten later ?e = (Inr (), d'')" "notifications d'' = notifications ?e @ ns"
    and ns: "\<forall>n \<in> set ns.
        (\<exists>t \<in> set (due_tickets later due_date ten d). reached ?admins t \<and> about (pk t) ten NTicketOverdue n \<and>
           jpk (pk t) \<notin> set (notified_today d1 ten NTicketOverdue (\<lambda>_. True) now)) \<or>
        (\<exists>t \<in> set (due_tickets later follow_up_due_at ten d). assignee t \<noteq> None \<and> about (pk t) ten NTicketFollowupOverdue n \<and>
           jpk (pk t) \<notin> set (notified_today d1 ten NTicketFollowupOverdue (\<lambda>_. True) now))"
    using overdue_run [where now = later and ten = ten and d = ?e] unfolding due_later [OF same(1)] same(2) later_frame(3) [OF day] by blast
  from 2(1) second have d2: "d'' = d2" and r': "r' = Inr ()" by simp_all
  have kind: "about i ten k n \<Longrightarrow> k = notif_type n" for i k n by (simp add: about_def)
  have "\<exists>t \<in> set (tickets (base d)). about (pk t) ten (notif_type n) n \<and>
      (notif_type n = NTicketOverdue \<and> past later (due_date t) \<and> \<not> past now (due_date t) \<or>
       notif_type n = NTicketFollowupOverdue \<and> past later (follow_up_due_at t) \<and> \<not> past now (follow_up_due_at t))" if "n \<in> set ns" for n
    using bspec [OF ns that] not_due_before [OF told1 [unfolded d1], where later = later and n = n] not_due_before [OF told2 [unfolded d1], where later = later and n = n] kind
    by metis
  then have "list_all (\<lambda>n. \<exists>t \<in> set (tickets (base d)). about (pk t) ten (notif_type n) n \<and>
      (notif_type n = NTicketOverdue \<and> past later (due_date t) \<and> \<not> past now (due_date t) \<or>
       notif_type n = NTicketFollowupOverdue \<and> past later (follow_up_due_at t) \<and> \<not> past now (follow_up_due_at t))) ns"
    by (simp add: list_all_iff)
  moreover have "notifications d2 = notifications d1 @ ns" using 2(2) d2 by simp
  ultimately show ?thesis using r r' by blast
qed

definition overdue_desk :: desk where
  "overdue_desk = demo_desk\<lparr>base := demo_store\<lparr>tickets := [demo_ticket\<lparr>due_date := Some 500, assignee := Some demo_user\<rparr>]\<rparr>\<rparr>"

definition first_sweep :: desk where "first_sweep = snd (check_tenant_overdue 1 1000 overdue_desk)"

lemma first_sweep_notices: "map notif_type (notifications first_sweep) = [NTicketOverdue]"
  by code_simp

theorem reminded_once_a_day_witness:
  "map notif_type (notifications first_sweep) = [NTicketOverdue] \<and>
   notifications (snd (check_tenant_overdue 1 2000 (first_sweep\<lparr>base := (base first_sweep)\<lparr>clock := 2000\<rparr>\<rparr>))) = notifications first_sweep"
proof -
  let ?e = "first_sweep\<lparr>base := (base first_sweep)\<lparr>clock := 2000\<rparr>\<rparr>"
  have past: "past 1000 (due_date t)" "follow_up_due_at t = None" if "t \<in> set (tickets (base overdue_desk))" for t
    using that by (simp_all add: overdue_desk_def past_def demo_ticket_def new_ticket_def)
  have day: "start_of_day 2000 = start_of_day 1000" by (simp add: start_of_day_def day_us_def)
  have now: "clock (base overdue_desk) = 1000" by (simp add: overdue_desk_def demo_store_def)
  have run: "check_tenant_overdue 1 1000 overdue_desk = (fst (check_tenant_overdue 1 1000 overdue_desk), first_sweep)"
    by (simp add: first_sweep_def)
  obtain ns where ns: "notifications (snd (check_tenant_overdue 1 2000 ?e)) = notifications first_sweep @ ns"
    "list_all (\<lambda>n. \<exists>t \<in> set (tickets (base overdue_desk)). about (pk t) 1 (notif_type n) n \<and>
      (notif_type n = NTicketOverdue \<and> past 2000 (due_date t) \<and> \<not> past 1000 (due_date t) \<or>
       notif_type n = NTicketFollowupOverdue \<and> past 2000 (follow_up_due_at t) \<and> \<not> past 1000 (follow_up_due_at t))) ns"
    using reminded_once_a_day [OF run now day surjective_pairing] by blast
  have "ns = []" using ns(2) past by (cases ns) (auto simp: past_def)
  with ns(1) first_sweep_notices show ?thesis by simp
qed

section \<open>Endpoints that keep failing\<close>

lemma attempts_off: "\<not> endpoint_active w \<Longrightarrow> attempts n xs w = w"
  by (cases xs) (auto simp: deliver_webhook_task_def)

lemma attempts_step:
  "endpoint_active w \<Longrightarrow> attempts n ((now, a) # xs) w =
     (if \<not> delivered a \<and> n < 3 then attempts (n + 1) xs (deliver_webhook now a w) else deliver_webhook now a w)"
  by (simp add: deliver_webhook_task_def)

lemma failed_once:
  "\<not> delivered a \<Longrightarrow> failure_count (deliver_webhook now a w) = failure_count w + 1"
  "delivered a \<Longrightarrow> failure_count (deliver_webhook now a w) = 0"
  "endpoint_active (deliver_webhook now a w) \<longleftrightarrow> endpoint_active w \<and> failure_count (deliver_webhook now a w) < MAX_FAILURE_COUNT"
  by (auto simp: deliver_webhook_def)

declare attempts.simps(2) [simp del]

lemma attempts_stop:
  "endpoint_active w \<Longrightarrow> delivered a \<or> n \<ge> 3 \<or> failure_count (deliver_webhook now a w) \<ge> MAX_FAILURE_COUNT \<Longrightarrow>
   attempts n ((now, a) # xs) w = deliver_webhook now a w"
  by (auto simp: attempts_step attempts_off failed_once)

text \<open>
  One payload is posted at most four times.  The endpoint is switched off
  when and only when its failures in a row reach the bound, counts exactly the
  failures while it is on, and nothing is posted to it afterwards.
\<close>

theorem webhook_breaker:
  assumes "failure_count w < MAX_FAILURE_COUNT" and "n < 4"
  shows "attempts n xs w = attempts n (take (4 - n) xs) w \<and>
    (endpoint_active (attempts n xs w) \<longleftrightarrow> endpoint_active w \<and> failure_count (attempts n xs w) < MAX_FAILURE_COUNT) \<and>
    (attempts n xs w = w \<or> endpoint_active w) \<and>
    (\<not> endpoint_active w \<or> list_ex (\<lambda>x. delivered (snd x)) (take (4 - n) xs) \<or>
      failure_count (attempts n xs w) = min MAX_FAILURE_COUNT (failure_count w + min (4 - n) (length xs)))"
  using assms
proof (induction xs arbitrary: n w)
  case Nil
  then show ?case by simp
next
  case (Cons x xs)
  obtain now a where x: "x = (now, a)" by fastforce
  let ?w = "deliver_webhook now a w"
  show ?case
  proof (cases "endpoint_active w")
    case False
    then show ?thesis using Cons.prems by (simp add: attempts_off)
  next
    case on: True
    obtain k where k: "4 - n = Suc k" using Cons.prems(2) by (cases "4 - n") auto
    show ?thesis
    proof (cases "\<not> delivered a \<and> n < 3 \<and> failure_count ?w < MAX_FAILURE_COUNT")
      case True
      have step: "attempts n ((now, a) # ys) w = attempts (n + 1) ys ?w" for ys using True on by (simp add: attempts_step)
      have left: "4 - (n + 1) = k" using k by simp
      have "failure_count ?w = failure_count w + 1" using True by (simp add: failed_once(1))
      moreover have "endpoint_active ?w" using True on failed_once(3) [of now a w] by blast
      ultimately show ?thesis
        using True step Cons.IH [of ?w "n + 1", unfolded left] on by (auto simp: x k)
    next
      case False
      then have stop: "attempts n ((now, a) # ys) w = ?w" for ys using on by (intro attempts_stop) auto
      have "failure_count ?w = min MAX_FAILURE_COUNT (failure_count w + min (Suc k) (Suc (length xs)))" if "\<not> delivered a"
        using that False Cons.prems k by (auto simp: failed_once min_def)
      then show ?thesis using on by (auto simp: x k stop failed_once)
    qed
  qed
qed

theorem webhook_breaker_witness:
  "failure_count (attempts 0 [(1, None), (2, Some 500), (3, Some 404), (4, None), (5, Some 200)]
     \<lparr>endpoint_id = 1, endpoint_active = True, failure_count = 7, last_status_code = None, last_triggered_at = None\<rparr>) = 10"
  (is "failure_count (attempts 0 ?xs ?w) = 10")
proof -
  have "failure_count ?w < MAX_FAILURE_COUNT" by (simp add: MAX_FAILURE_COUNT_def)
  from webhook_breaker [OF this zero_less_numeral, of ?xs]
  have "\<not> endpoint_active ?w \<or> list_ex (\<lambda>x. delivered (snd x)) (take (4 - 0) ?xs) \<or>
      failure_count (attempts 0 ?xs ?w) = min MAX_FAILURE_COUNT (failure_count ?w + min (4 - 0) (length ?xs))" by blast
  then show ?thesis by (simp add: delivered_def MAX_FAILURE_COUNT_def)
qed

section \<open>Mails that are lost\<close>

text \<open>
  The service swallows every exception of the transport, so the task of a reply
  never asks for a retry: a reply that could not be sent is lost.
\<close>

lemma reply_task_never_retries:
  "fst (send_ticket_reply_email_task smtp unique body retries i ten d) = Inr Finished"
proof -
  have calm: "\<exists>b d'. send_ticket_reply_email smtp unique tnt t body e = (Inr b, d')" for tnt t e
    by (auto simp: send_ticket_reply_email_def send_to_contact_def cmd_simps split: option.split prod.split sum.split)
  have "\<exists>d'. in_tenant ten (bindc (send_ticket_reply_email smtp unique tnt t body) (\<lambda>_. ret ())) e = (Inr (), d')" for tnt t e
    using calm [of tnt t "set_tenant (Some ten) e"] by (auto simp: in_tenant_def cmd_simps)
  then have never: "in_tenant ten (bindc (send_ticket_reply_email smtp unique tnt t body) (\<lambda>_. ret ())) e \<noteq> (Inl x, d')" for tnt t e x d'
    by (metis Inl_Inr_False prod.inject)
  show ?thesis
    unfolding send_ticket_reply_email_task_def mail_task_def
    by (auto simp: cmd_simps never split: option.split prod.split sum.split)
qed

end
