(* ===== verification/Talk.thy ===== *)
theory Talk
  imports Email_Tickets
begin

text \<open>
  Messaging between the members of a tenant (\<open>apps/messaging\<close>): conversations
  and who takes part in them, messages, mentions in their text, the
  notifications they cause, and the socket of a conversation with its rate
  limit.  A user id is the number of its UUID, so that the text of a mention
  names a user.  The request's tenant is the tenant of the context.
\<close>

section \<open>Rows\<close>

datatype conversation_type = DirectTalk | GroupTalk | TicketTalk

record conversation =
  conv_id :: nat
  conv_tenant :: tenant_id
  conv_type :: conversation_type
  conv_name :: string
  conv_ticket :: "nat option"
  source_group :: "nat option"
  conv_updated :: instant

record participant =
  part_conv :: nat
  part_user :: user
  last_read_at :: "instant option"
  is_muted :: bool
  joined_at :: instant

record message =
  msg_id :: nat
  msg_tenant :: tenant_id
  msg_conv :: nat
  msg_author :: "user option"
  msg_body :: string
  msg_mentions :: "user list"
  msg_parent :: "nat option"
  is_edited :: bool
  msg_at :: instant

record user_group =
  group_id :: nat
  group_tenant :: tenant_id
  group_name :: string
  group_members :: "user list"

text \<open>\<open>sent\<close>: the messages sent to the group of a conversation's sockets.\<close>

record talk =
  desk_of :: desk
  user_groups :: "user_group list"
  conversations :: "conversation list"
  participants :: "participant list"
  messages :: "message list"
  sent :: "(nat \<times> nat) list"

type_synonym 'a chat = "(talk, 'a) cmd"

definition on_desk :: "'a act \<Rightarrow> 'a chat" where
  "on_desk c = (\<lambda>k. case c (desk_of k) of (r, d') \<Rightarrow> (r, k\<lparr>desk_of := d'\<rparr>))"

lemma run_on_desk [cmd_simps]: "on_desk c k = (fst (c (desk_of k)), k\<lparr>desk_of := snd (c (desk_of k))\<rparr>)"
  by (simp add: on_desk_def split: prod.split)

abbreviation participates :: "talk \<Rightarrow> user_id \<Rightarrow> nat \<Rightarrow> bool" where
  "participates k u c \<equiv> \<exists>p \<in> set (participants k). part_conv p = c \<and> user_id (part_user p) = u"

section \<open>Mentions (\<open>mentions.py\<close>)\<close>

definition uuid_char :: "char \<Rightarrow> bool" where
  "uuid_char c \<longleftrightarrow> chr_range (CHR ''a'') (CHR ''f'') c \<or> is_digit c \<or> c = CHR ''-''"

text \<open>A match of \<open>@\\[([^\\]]+)\\]\\(user:([a-f0-9-]+)\\)\<close> at the start: the id and what follows.\<close>

definition mention_at :: "string \<Rightarrow> (string \<times> string) option" where
  "mention_at s = (if \<not> startswith s ''@['' then None
     else let name = takeWhile (\<lambda>c. c \<noteq> CHR '']'') (drop 2 s); r = drop (2 + length name) s
       in if name = [] \<or> \<not> startswith r ''](user:'' then None
          else let i = takeWhile uuid_char (drop 7 r); r' = drop (7 + length i) r
            in if i = [] \<or> \<not> startswith r' '')'' then None else Some (i, drop 1 r'))"

lemma mention_at_shorter: "mention_at s = Some (i, r) \<Longrightarrow> length r < length s"
  by (auto simp: mention_at_def Let_def startswith_iff split: if_splits)

function mention_ids :: "string \<Rightarrow> string list" where
  "mention_ids [] = []"
| "mention_ids (c # cs) = (case mention_at (c # cs) of Some (i, r) \<Rightarrow> i # mention_ids r | None \<Rightarrow> mention_ids cs)"
  by pat_completeness auto
termination
  by (relation "measure length") (auto dest: mention_at_shorter)

text \<open>Without repetition, in the order of the first occurrences.\<close>

definition parse_mentions :: "string \<Rightarrow> string list" where
  "parse_mentions body = rev (remdups (rev (mention_ids body)))"

definition hex_val :: "char \<Rightarrow> nat" where
  "hex_val c = (if is_digit c then of_char c - 48 else of_char c - 87)"

definition hex_char :: "nat \<Rightarrow> char" where
  "hex_char n = char_of (if n < 10 then 48 + n else 87 + n)"

text \<open>\<open>uuid.UUID(s)\<close> of lower case digits and dashes, and \<open>str(u)\<close>.\<close>

definition uuid_of :: "string \<Rightarrow> nat option" where
  "uuid_of s = (let h = filter (\<lambda>c. c \<noteq> CHR ''-'') s
     in if length h = 32 then Some (foldl (\<lambda>n c. 16 * n + hex_val c) 0 h) else None)"

fun hex_digits :: "nat \<Rightarrow> nat \<Rightarrow> string" where
  "hex_digits 0 n = []"
| "hex_digits (Suc k) n = hex_digits k (n div 16) @ [hex_char (n mod 16)]"

definition show_uuid :: "nat \<Rightarrow> string" where
  "show_uuid n = (let h = hex_digits 32 n in take 8 h @ ''-'' @ take 4 (drop 8 h) @ ''-'' @ take 4 (drop 12 h) @ ''-'' @
     take 4 (drop 16 h) @ ''-'' @ drop 20 h)"

text \<open>The active members among the users with these ids; a text that is no UUID raises in the query.\<close>

definition mentioned_users :: "tenant_id \<Rightarrow> string list \<Rightarrow> user list act" where
  "mentioned_users ten ids = (if list_ex (\<lambda>i. uuid_of i = None) ids then raise_exc (ValidationError ''invalid_uuid'')
     else asks (\<lambda>d. filter (\<lambda>u. Some (user_id u) \<in> set (map uuid_of ids) \<and> is_member_of d (user_id u) ten) (users (base d))))"

definition message_data :: "message \<Rightarrow> (string \<times> json) list" where
  "message_data m = [(''conversation_id'', jpk (msg_conv m)), (''message_id'', jpk (msg_id m))]"

definition author_name :: "message \<Rightarrow> string" where
  "author_name m = (case msg_author m of None \<Rightarrow> [] | Some u \<Rightarrow> display_name u)"

definition is_author :: "message \<Rightarrow> user \<Rightarrow> bool" where
  "is_author m u \<longleftrightarrow> map_option user_id (msg_author m) = Some (user_id u)"

definition notify_mentions :: "message \<Rightarrow> tenant_id \<Rightarrow> unit chat" where
  "notify_mentions m ten = (let ids = parse_mentions (msg_body m)
     in if ids = [] then ret ()
        else bindc (on_desk (mentioned_users ten ids)) (\<lambda>us.
          for_each us (\<lambda>u _. if is_author m u then ret ()
            else on_desk (best_effort (notify ten u NMention (JObj (message_data m))))) ()))"

definition notified_participants :: "message \<Rightarrow> talk \<Rightarrow> participant list" where
  "notified_participants m k = filter (\<lambda>p. part_conv p = msg_conv m \<and> \<not> is_muted p \<and> \<not> is_author m (part_user p)) (participants k)"

definition notify_new_message :: "message \<Rightarrow> tenant_id \<Rightarrow> unit chat" where
  "notify_new_message m ten = bindc (asks (notified_participants m)) (\<lambda>ps.
     for_each ps (\<lambda>p _. if show_uuid (user_id (part_user p)) \<in> set (parse_mentions (msg_body m)) then ret ()
       else on_desk (best_effort (notify ten (part_user p) NMessage
         (JObj (message_data m @ [(''author_name'', JStr (author_name m))]))))) ())"

section \<open>Taking part\<close>

definition distinct_users :: "user list \<Rightarrow> user list" where
  "distinct_users us = foldr (\<lambda>u acc. u # filter (\<lambda>v. user_id v \<noteq> user_id u) acc) us []"

text \<open>The active members of the tenant whose ids are asked for; \<open>ids.add(u.pk)\<close>.\<close>

definition active_users :: "desk \<Rightarrow> tenant_id \<Rightarrow> user_id set \<Rightarrow> user list" where
  "active_users d ten ids = distinct_users (map member_user (filter (\<lambda>m. member_tenant m = ten \<and> member_active m \<and>
     user_id (member_user m) \<in> ids) (memberships (base d))))"

definition add_user :: "user \<Rightarrow> user list \<Rightarrow> user list" where
  "add_user u us = (if user_id u \<in> user_id ` set us then us else us @ [u])"

definition add_participants :: "nat \<Rightarrow> user list \<Rightarrow> unit chat" where
  "add_participants c us = bindc (on_desk now_of) (\<lambda>now. update (\<lambda>k. k\<lparr>participants := participants k @
     map (\<lambda>u. \<lparr>part_conv = c, part_user = u, last_read_at = None, is_muted = False, joined_at = now\<rparr>) us\<rparr>))"

definition insert_conversation :: "tenant_id \<Rightarrow> conversation_type \<Rightarrow> string \<Rightarrow> nat option \<Rightarrow> nat option \<Rightarrow> conversation chat" where
  "insert_conversation ten kind name ticket grp =
     bindc (on_desk fresh_pk) (\<lambda>i. bindc (on_desk now_of) (\<lambda>now.
       let c = \<lparr>conv_id = i, conv_tenant = ten, conv_type = kind, conv_name = name, conv_ticket = ticket, source_group = grp,
                conv_updated = now\<rparr>
       in thenc (update (\<lambda>k. k\<lparr>conversations := conversations k @ [c]\<rparr>)) (ret c)))"

text \<open>\<open>Conversation.unscoped.filter(...).first()\<close>: the most recently touched one.\<close>

definition existing_conversation :: "(conversation \<Rightarrow> bool) \<Rightarrow> tenant_id \<Rightarrow> talk \<Rightarrow> conversation option" where
  "existing_conversation p ten k = first_by (\<lambda>c. - conv_updated c) (filter (\<lambda>c. conv_tenant c = ten \<and> p c) (conversations k))"

section \<open>Starting a conversation (\<open>ConversationCreateSerializer\<close>)\<close>

record conv_request =
  req_type :: conversation_type
  req_name :: string
  req_user :: "user_id option"
  req_users :: "user_id list"
  req_group :: "nat option"
  req_ticket :: "nat option"

definition all_members :: "desk \<Rightarrow> tenant_id \<Rightarrow> user_id list \<Rightarrow> bool" where
  "all_members d ten ids \<longleftrightarrow> list_all (\<lambda>i. is_member_of d i ten) ids"

text \<open>The field the validation complains about.\<close>

definition invalid_field :: "desk \<Rightarrow> tenant_id \<Rightarrow> user \<Rightarrow> conv_request \<Rightarrow> string option" where
  "invalid_field d ten me r = (case req_type r of
     DirectTalk \<Rightarrow> (case req_user r of
         None \<Rightarrow> Some ''user_id''
       | Some u \<Rightarrow> if u = user_id me \<or> \<not> is_member_of d u ten then Some ''user_id'' else None)
   | GroupTalk \<Rightarrow> if req_group r \<noteq> None then None
       else if strip (req_name r) = [] then Some ''name''
       else if req_users r = [] \<or> \<not> all_members d ten (req_users r) then Some ''user_ids'' else None
   | TicketTalk \<Rightarrow> if req_ticket r = None then Some ''ticket_id''
       else if \<not> all_members d ten (req_users r) then Some ''user_ids'' else None)"

definition create_direct :: "tenant_id \<Rightarrow> user \<Rightarrow> user_id \<Rightarrow> conversation chat" where
  "create_direct ten me other =
     bindc (asks (\<lambda>k. existing_conversation (\<lambda>c. conv_type c = DirectTalk \<and> participates k (user_id me) (conv_id c) \<and>
        participates k other (conv_id c)) ten k)) (\<lambda>found. case found of
       Some c \<Rightarrow> ret c
     | None \<Rightarrow> bindc (asks (\<lambda>k. active_users (desk_of k) ten {other})) (\<lambda>us. case us of
           [] \<Rightarrow> raise_exc (ValidationError ''user_id'')
         | u # _ \<Rightarrow> bindc (insert_conversation ten DirectTalk [] None None) (\<lambda>c.
             thenc (add_participants (conv_id c) [me, u]) (ret c))))"

text \<open>A group conversation that exists takes in the members the group has now.\<close>

definition refresh_group :: "tenant_id \<Rightarrow> user \<Rightarrow> user_group \<Rightarrow> conversation \<Rightarrow> unit chat" where
  "refresh_group ten me g c =
     bindc (asks (\<lambda>k. filter (\<lambda>u. \<not> participates k (user_id u) (conv_id c))
        (add_user me (active_users (desk_of k) ten (user_id ` set (group_members g)))))) (\<lambda>us.
       add_participants (conv_id c) us)"

definition open_group :: "tenant_id \<Rightarrow> user \<Rightarrow> string \<Rightarrow> nat option \<Rightarrow> user_id set \<Rightarrow> conversation chat" where
  "open_group ten me name grp ids =
     bindc (insert_conversation ten GroupTalk name None grp) (\<lambda>c.
     bindc (asks (\<lambda>k. add_user me (active_users (desk_of k) ten ids))) (\<lambda>us.
       thenc (add_participants (conv_id c) us) (ret c)))"

definition create_group :: "tenant_id \<Rightarrow> user \<Rightarrow> conv_request \<Rightarrow> conversation chat" where
  "create_group ten me r = (case req_group r of
     None \<Rightarrow> open_group ten me (strip (req_name r)) None (set (req_users r))
   | Some i \<Rightarrow> bindc (asks (\<lambda>k. first_row (\<lambda>g. group_id g = i \<and> group_tenant g = ten) (user_groups k))) (\<lambda>found. case found of
         None \<Rightarrow> raise_exc (ValidationError ''group_id'')
       | Some g \<Rightarrow> bindc (asks (\<lambda>k. existing_conversation (\<lambda>c. conv_type c = GroupTalk \<and> source_group c = Some i \<and>
             participates k (user_id me) (conv_id c)) ten k)) (\<lambda>there. case there of
             Some c \<Rightarrow> thenc (refresh_group ten me g c) (ret c)
           | None \<Rightarrow> open_group ten me (group_name g) (Some i) (user_id ` set (group_members g)))))"

definition create_ticket_talk :: "tenant_id \<Rightarrow> user \<Rightarrow> nat \<Rightarrow> user_id list \<Rightarrow> conversation chat" where
  "create_ticket_talk ten me i ids =
     bindc (asks (\<lambda>k. first_row (\<lambda>t. pk t = i \<and> tenant_id (ticket_tenant t) = ten) (tickets (base (desk_of k))))) (\<lambda>ticket.
     case ticket of
       None \<Rightarrow> raise_exc (ValidationError ''ticket_id'')
     | Some t \<Rightarrow> bindc (asks (existing_conversation (\<lambda>c. conv_type c = TicketTalk \<and> conv_ticket c = Some i) ten)) (\<lambda>found.
         case found of
           Some c \<Rightarrow> bindc (asks (\<lambda>k. participates k (user_id me) (conv_id c))) (\<lambda>there.
             thenc (whenc (\<not> there) (add_participants (conv_id c) [me])) (ret c))
         | None \<Rightarrow> bindc (insert_conversation ten TicketTalk [] (Some i) None) (\<lambda>c.
             bindc (asks (\<lambda>k. add_user me (active_users (desk_of k) ten (set ids)))) (\<lambda>us.
               thenc (add_participants (conv_id c) us) (ret c)))))"

definition create_conversation :: "tenant_id \<Rightarrow> user \<Rightarrow> conv_request \<Rightarrow> conversation chat" where
  "create_conversation ten me r =
     bindc (asks (\<lambda>k. invalid_field (desk_of k) ten me r)) (\<lambda>bad. case bad of
       Some f \<Rightarrow> raise_exc (ValidationError f)
     | None \<Rightarrow> (case req_type r of
         DirectTalk \<Rightarrow> (case req_user r of None \<Rightarrow> raise_exc (KeyError ''user_id'') | Some u \<Rightarrow> create_direct ten me u)
       | GroupTalk \<Rightarrow> create_group ten me r
       | TicketTalk \<Rightarrow> (case req_ticket r of None \<Rightarrow> raise_exc (KeyError ''ticket_id'')
           | Some i \<Rightarrow> create_ticket_talk ten me i (req_users r))))"

section \<open>Endpoints of a conversation (\<open>ConversationViewSet\<close>)\<close>

text \<open>\<open>get_object\<close>: the conversations of the tenant the user takes part in.\<close>

definition my_conversation :: "tenant_id \<Rightarrow> user \<Rightarrow> nat \<Rightarrow> conversation chat" where
  "my_conversation ten me i =
     bindc (asks (\<lambda>k. first_row (\<lambda>c. conv_id c = i \<and> conv_tenant c = ten \<and> participates k (user_id me) i) (conversations k))) (\<lambda>found.
       case found of None \<Rightarrow> raise_exc (DoesNotExist ''Conversation'') | Some c \<Rightarrow> ret c)"

definition add_participant :: "tenant_id \<Rightarrow> user \<Rightarrow> nat \<Rightarrow> user_id option \<Rightarrow> unit chat" where
  "add_participant ten me i who =
     bindc (my_conversation ten me i) (\<lambda>c.
       if conv_type c = DirectTalk then raise_exc (ValidationError ''detail'')
       else case who of
         None \<Rightarrow> raise_exc (ValidationError ''user_id'')
       | Some u \<Rightarrow> bindc (asks (\<lambda>k. first_row (\<lambda>x. user_id x = u) (users (base (desk_of k))))) (\<lambda>found. case found of
           None \<Rightarrow> raise_exc (DoesNotExist ''User'')
         | Some x \<Rightarrow> bindc (asks (\<lambda>k. is_member_of (desk_of k) u ten)) (\<lambda>member.
             if \<not> member then raise_exc (ValidationError ''detail'')
             else bindc (asks (\<lambda>k. participates k u i)) (\<lambda>there.
               if there then raise_exc (ValidationError ''detail'') else add_participants i [x]))))"

definition drop_participant :: "nat \<Rightarrow> user_id \<Rightarrow> unit chat" where
  "drop_participant i u = bindc (asks (\<lambda>k. participates k u i)) (\<lambda>there.
     if \<not> there then raise_exc (DoesNotExist ''ConversationParticipant'')
     else update (\<lambda>k. k\<lparr>participants := filter (\<lambda>p. \<not> (part_conv p = i \<and> user_id (part_user p) = u)) (participants k)\<rparr>))"

definition leave :: "tenant_id \<Rightarrow> user \<Rightarrow> nat \<Rightarrow> unit chat" where
  "leave ten me i = bindc (my_conversation ten me i) (\<lambda>c.
     if conv_type c = DirectTalk then raise_exc (ValidationError ''detail'') else drop_participant i (user_id me))"

definition remove_participant :: "tenant_id \<Rightarrow> user \<Rightarrow> nat \<Rightarrow> user_id option \<Rightarrow> unit chat" where
  "remove_participant ten me i who = bindc (my_conversation ten me i) (\<lambda>c.
     if conv_type c = DirectTalk then raise_exc (ValidationError ''detail'')
     else case who of None \<Rightarrow> raise_exc (ValidationError ''user_id'') | Some u \<Rightarrow> drop_participant i u)"

text \<open>Deleting a conversation takes its participants and messages with it.\<close>

definition destroy_conversation :: "tenant_id \<Rightarrow> user \<Rightarrow> nat \<Rightarrow> unit chat" where
  "destroy_conversation ten me i = bindc (my_conversation ten me i) (\<lambda>c. update (\<lambda>k. k\<lparr>
     conversations := filter (\<lambda>x. conv_id x \<noteq> i) (conversations k),
     participants := filter (\<lambda>p. part_conv p \<noteq> i) (participants k),
     messages := map (\<lambda>m. if \<exists>x \<in> set (messages k). msg_conv x = i \<and> msg_parent m = Some (msg_id x) then m\<lparr>msg_parent := None\<rparr> else m)
       (filter (\<lambda>m. msg_conv m \<noteq> i) (messages k))\<rparr>))"

text \<open>\<open>search-participants\<close>: at most twenty members other than the user, by name.\<close>

definition search_participants :: "(user \<Rightarrow> 'k::linorder) \<Rightarrow> tenant_id \<Rightarrow> user \<Rightarrow> string \<Rightarrow> desk \<Rightarrow> user list" where
  "search_participants by_name ten me query d =
     (let q = lower (strip query)
      in take 20 (sort_key by_name (filter (\<lambda>u. is_member_of d (user_id u) ten \<and> user_id u \<noteq> user_id me \<and>
           (q = [] \<or> contains_sub (lower (email u)) q \<or> contains_sub (lower (first_name u)) q \<or> contains_sub (lower (last_name u)) q))
         (users (base d)))))"

section \<open>Messages (\<open>MessageViewSet\<close>)\<close>

text \<open>\<open>_get_conversation\<close>\<close>

definition talk_of :: "tenant_id \<Rightarrow> user \<Rightarrow> nat \<Rightarrow> conversation chat" where
  "talk_of ten me i =
     bindc (asks (\<lambda>k. first_row (\<lambda>c. conv_id c = i \<and> conv_tenant c = ten) (conversations k))) (\<lambda>found. case found of
       None \<Rightarrow> raise_exc (DoesNotExist ''Conversation'')
     | Some c \<Rightarrow> bindc (asks (\<lambda>k. participates k (user_id me) i)) (\<lambda>there.
         if there then ret c else raise_exc (PermissionDenied ''You are not a participant in this conversation.'')))"

definition insert_message :: "conversation \<Rightarrow> user \<Rightarrow> string \<Rightarrow> nat option \<Rightarrow> message chat" where
  "insert_message c me body parent =
     bindc (on_desk fresh_pk) (\<lambda>i. bindc (on_desk now_of) (\<lambda>now.
       let m = \<lparr>msg_id = i, msg_tenant = conv_tenant c, msg_conv = conv_id c, msg_author = Some me, msg_body = body,
                msg_mentions = [], msg_parent = parent, is_edited = False, msg_at = now\<rparr>
       in thenc (update (\<lambda>k. k\<lparr>messages := messages k @ [m],
            conversations := map (\<lambda>x. if conv_id x = conv_id c then x\<lparr>conv_updated := now\<rparr> else x) (conversations k)\<rparr>)) (ret m)))"

definition set_mentions :: "message \<Rightarrow> tenant_id \<Rightarrow> unit chat" where
  "set_mentions m ten = (let ids = parse_mentions (msg_body m)
     in if ids = [] then ret ()
        else bindc (on_desk (mentioned_users ten ids)) (\<lambda>us. update (\<lambda>k. k\<lparr>messages :=
          map (\<lambda>x. if msg_id x = msg_id m then x\<lparr>msg_mentions := us\<rparr> else x) (messages k)\<rparr>)))"

definition broadcast_message :: "message \<Rightarrow> unit chat" where
  "broadcast_message m = update (\<lambda>k. k\<lparr>sent := sent k @ [(msg_conv m, msg_id m)]\<rparr>)"

definition announce :: "message \<Rightarrow> tenant_id \<Rightarrow> unit chat" where
  "announce m ten = thenc (set_mentions m ten) (thenc (notify_mentions m ten) (notify_new_message m ten))"

text \<open>
  The parent is looked up in the whole tenant; that it belongs to the
  conversation is checked only against the conversation the request names.
\<close>

definition valid_parent :: "tenant_id \<Rightarrow> nat option \<Rightarrow> nat option \<Rightarrow> talk \<Rightarrow> bool" where
  "valid_parent ten claimed parent k = (case parent of
     None \<Rightarrow> True
   | Some i \<Rightarrow> (case first_row (\<lambda>m. msg_id m = i \<and> msg_tenant m = ten) (messages k) of
       None \<Rightarrow> False
     | Some m \<Rightarrow> (case claimed of None \<Rightarrow> True | Some c \<Rightarrow> msg_conv m = c)))"

definition create_message :: "tenant_id \<Rightarrow> user \<Rightarrow> nat \<Rightarrow> nat option \<Rightarrow> string \<Rightarrow> nat option \<Rightarrow> message chat" where
  "create_message ten me i claimed body parent =
     bindc (asks (valid_parent ten claimed parent)) (\<lambda>valid.
       if \<not> valid then raise_exc (ValidationError ''parent'')
       else bindc (talk_of ten me i) (\<lambda>c. bindc (insert_message c me (strip body) parent) (\<lambda>m.
         thenc (announce m (conv_tenant c)) (thenc (broadcast_message m) (ret m)))))"

definition my_message :: "tenant_id \<Rightarrow> user \<Rightarrow> nat \<Rightarrow> nat \<Rightarrow> message chat" where
  "my_message ten me i j = bindc (talk_of ten me i) (\<lambda>c.
     bindc (asks (\<lambda>k. first_row (\<lambda>m. msg_id m = j \<and> msg_conv m = i) (messages k))) (\<lambda>found. case found of
       None \<Rightarrow> raise_exc (DoesNotExist ''Message'') | Some m \<Rightarrow> ret m))"

definition edit_message :: "tenant_id \<Rightarrow> user \<Rightarrow> nat \<Rightarrow> nat \<Rightarrow> string \<Rightarrow> unit chat" where
  "edit_message ten me i j body = bindc (my_message ten me i j) (\<lambda>m.
     if strip body = [] then raise_exc (ValidationError ''body'')
     else if \<not> is_author m me then raise_exc (PermissionDenied ''You can only edit your own messages.'')
     else update (\<lambda>k. k\<lparr>messages := map (\<lambda>x. if msg_id x = j then x\<lparr>msg_body := strip body, is_edited := True\<rparr> else x) (messages k)\<rparr>))"

definition delete_message :: "tenant_id \<Rightarrow> user \<Rightarrow> nat \<Rightarrow> nat \<Rightarrow> unit chat" where
  "delete_message ten me i j = bindc (my_message ten me i j) (\<lambda>m.
     if \<not> is_author m me then raise_exc (PermissionDenied ''You can only delete your own messages.'')
     else update (\<lambda>k. k\<lparr>messages := map (\<lambda>x. if msg_parent x = Some j then x\<lparr>msg_parent := None\<rparr> else x)
       (filter (\<lambda>x. msg_id x \<noteq> j) (messages k))\<rparr>))"

definition rebroadcast :: "tenant_id \<Rightarrow> user \<Rightarrow> nat \<Rightarrow> nat \<Rightarrow> unit chat" where
  "rebroadcast ten me i j = bindc (my_message ten me i j) (\<lambda>m.
     if \<not> is_author m me then raise_exc (PermissionDenied ''Only the message author can rebroadcast.'')
     else broadcast_message m)"

definition unread_count :: "user \<Rightarrow> nat \<Rightarrow> talk \<Rightarrow> nat" where
  "unread_count me i k = (case first_row (\<lambda>p. part_conv p = i \<and> user_id (part_user p) = user_id me) (participants k) of
     None \<Rightarrow> 0
   | Some p \<Rightarrow> length (filter (\<lambda>m. msg_conv m = i \<and> (case last_read_at p of None \<Rightarrow> True | Some t \<Rightarrow> msg_at m > t)) (messages k)))"

section \<open>The socket of a conversation (\<open>consumers.py\<close>)\<close>

definition MAX_MESSAGE_LENGTH :: nat where "MAX_MESSAGE_LENGTH = 10000"
definition MAX_MESSAGES_PER_SECOND :: nat where "MAX_MESSAGES_PER_SECOND = 5"
definition TYPING_COOLDOWN_SECONDS :: int where "TYPING_COOLDOWN_SECONDS = 2"
definition second :: int where "second = 1000000"

text \<open>A connection: who, where, and the monotonic times of its messages and of its last typing event.\<close>

record socket =
  sock_user :: user
  sock_conv :: nat
  stamps :: "int list"
  last_typing :: int

text \<open>The code the connection is closed with, or the connection.\<close>

definition connect :: "user option \<Rightarrow> string \<Rightarrow> tenant_id option \<Rightarrow> talk \<Rightarrow> nat + socket" where
  "connect who cid tnt k = (case who of None \<Rightarrow> Inl 4001
   | Some u \<Rightarrow> (case uuid_of cid of None \<Rightarrow> Inl 4002
     | Some i \<Rightarrow> if \<not> participates k (user_id u) i then Inl 4003
       else case tnt of None \<Rightarrow> Inl 4001
       | Some ten \<Rightarrow> if \<not> (\<exists>c \<in> set (conversations k). conv_id c = i \<and> conv_tenant c = ten) then Inl 4004
           else if \<not> is_member_of (desk_of k) (user_id u) ten then Inl 4003
           else Inr \<lparr>sock_user = u, sock_conv = i, stamps = [], last_typing = 0\<rparr>))"

datatype client_action = SendMessage string "nat option" | Typing | MarkRead | OtherAction string

datatype reply = ErrorReply string | ReadAck

definition socket_message :: "socket \<Rightarrow> string \<Rightarrow> nat option \<Rightarrow> message chat" where
  "socket_message w body parent =
     bindc (asks (\<lambda>k. first_row (\<lambda>c. conv_id c = sock_conv w) (conversations k))) (\<lambda>found. case found of
       None \<Rightarrow> raise_exc (DoesNotExist ''Conversation'')
     | Some c \<Rightarrow> bindc (asks (\<lambda>k. case parent of None \<Rightarrow> None
           | Some i \<Rightarrow> map_option msg_id (first_row (\<lambda>m. msg_id m = i \<and> msg_conv m = conv_id c) (messages k)))) (\<lambda>p.
         insert_message c (sock_user w) body p))"

definition handle_send_message :: "socket \<Rightarrow> string \<Rightarrow> nat option \<Rightarrow> reply option chat" where
  "handle_send_message w raw parent = (let body = strip raw
     in if body = [] then ret (Some (ErrorReply ''empty''))
        else if length body > MAX_MESSAGE_LENGTH then ret (Some (ErrorReply ''too long''))
        else bindc (socket_message w body parent) (\<lambda>m.
          thenc (broadcast_message m) (thenc (announce m (msg_tenant m)) (ret None))))"

definition mark_read :: "socket \<Rightarrow> unit chat" where
  "mark_read w = bindc (on_desk now_of) (\<lambda>now. update (\<lambda>k. k\<lparr>participants :=
     map (\<lambda>p. if part_conv p = sock_conv w \<and> user_id (part_user p) = user_id (sock_user w) then p\<lparr>last_read_at := Some now\<rparr> else p)
       (participants k)\<rparr>))"

text \<open>Whether the limits let an action through at the time \<open>now\<close>, and the connection afterwards.\<close>

definition recent :: "int \<Rightarrow> socket \<Rightarrow> int list" where
  "recent now w = filter (\<lambda>t. now - t < second) (stamps w)"

definition admit :: "int \<Rightarrow> client_action \<Rightarrow> socket \<Rightarrow> bool \<times> socket" where
  "admit now a w = (let w' = w\<lparr>stamps := recent now w\<rparr> in case a of
     SendMessage _ _ \<Rightarrow> if length (stamps w') \<ge> MAX_MESSAGES_PER_SECOND then (False, w') else (True, w'\<lparr>stamps := stamps w' @ [now]\<rparr>)
   | Typing \<Rightarrow> if now - last_typing w' < TYPING_COOLDOWN_SECONDS * second then (False, w') else (True, w'\<lparr>last_typing := now\<rparr>)
   | _ \<Rightarrow> (True, w'))"

definition receive_json :: "int \<Rightarrow> client_action \<Rightarrow> socket \<Rightarrow> (socket \<times> reply option) chat" where
  "receive_json now a w = (case admit now a w of (admitted, w') \<Rightarrow>
     (case a of
       SendMessage body parent \<Rightarrow> if \<not> admitted then ret (w', Some (ErrorReply ''rate limit''))
         else bindc (handle_send_message w' body parent) (\<lambda>r. ret (w', r))
     | Typing \<Rightarrow> ret (w', None)
     | MarkRead \<Rightarrow> thenc (mark_read w') (ret (w', Some ReadAck))
     | OtherAction _ \<Rightarrow> ret (w', Some (ErrorReply ''unknown action''))))"

end
