(* ===== verification/Talk_Notices.thy ===== *)
theory Talk_Notices
  imports Talk
begin

text \<open>
  Who is told of a message, and how often a connection may send one.
\<close>

section \<open>The rate limit\<close>

definition is_send :: "client_action \<Rightarrow> bool" where
  "is_send a \<longleftrightarrow> (case a of SendMessage _ _ \<Rightarrow> True | _ \<Rightarrow> False)"

text \<open>The times of the messages that are let through, in the order of the actions.\<close>

fun admitted :: "(int \<times> client_action) list \<Rightarrow> socket \<Rightarrow> int list" where
  "admitted [] w = []"
| "admitted ((now, a) # es) w = (case admit now a w of (b, w') \<Rightarrow>
     (if b \<and> is_send a then [now] else []) @ admitted es w')"

definition in_window :: "int \<Rightarrow> int \<Rightarrow> bool" where
  "in_window t x \<longleftrightarrow> t \<le> x \<and> x < t + second"

definition within_limit :: "int list \<Rightarrow> bool" where
  "within_limit h \<longleftrightarrow> (\<forall>t. length (filter (in_window t) h) \<le> MAX_MESSAGES_PER_SECOND)"

text \<open>The stamps a connection keeps are those of the upto_now second; \<open>h\<close> is everything it sent.\<close>

definition remembers :: "int list \<Rightarrow> int \<Rightarrow> socket \<Rightarrow> bool" where
  "remembers h upto_now w \<longleftrightarrow> (\<forall>now \<ge> upto_now. recent now w = filter (\<lambda>t. now - t < second) h) \<and> (\<forall>x \<in> set h. x \<le> upto_now)"

lemma recent_filter: "now \<le> later \<Longrightarrow> filter (\<lambda>t. later - t < second) (filter (\<lambda>t. now - t < second) h) = filter (\<lambda>t. later - t < second) h"
  by (simp add: filter_filter) (rule filter_cong [OF refl], auto)

lemma window_recent:
  assumes "\<forall>x \<in> set h. x \<le> now" and "in_window t now"
  shows "length (filter (in_window t) h) \<le> length (filter (\<lambda>x. now - x < second) h)"
proof -
  have "filter (in_window t) h = filter (in_window t) (filter (\<lambda>x. now - x < second) h)"
    unfolding filter_filter using assms by (intro filter_cong) (auto simp: in_window_def)
  then show ?thesis by (metis length_filter_le)
qed

lemma admit_step:
  assumes rem: "remembers h upto_now w" and lim: "within_limit h" and le: "upto_now \<le> now" and adm: "admit now a w = (b, w')"
  defines "h' \<equiv> h @ (if b \<and> is_send a then [now] else [])"
  shows "remembers h' now w' \<and> within_limit h'"
proof -
  let ?r = "filter (\<lambda>t. now - t < second) h"
  have old: "\<forall>x \<in> set h. x \<le> now" using rem le by (auto simp: remembers_def)
  have kept: "recent now w = ?r" using rem le by (simp add: remembers_def)
  have stamps: "stamps w' = ?r @ (if b \<and> is_send a then [now] else [])"
    using adm kept by (auto simp: admit_def Let_def is_send_def split: client_action.splits if_splits)
  have "recent later w' = filter (\<lambda>t. later - t < second) h'" if "now \<le> later" for later
    using recent_filter [OF that, of h] by (simp add: recent_def stamps h'_def)
  then have "remembers h' now w'" using old by (auto simp: remembers_def h'_def)
  moreover have "within_limit h'"
  proof (cases "b \<and> is_send a")
    case False
    then show ?thesis using lim by (auto simp: h'_def)
  next
    case True
    then have room: "length ?r < MAX_MESSAGES_PER_SECOND"
      using adm kept by (auto simp: admit_def Let_def is_send_def split: client_action.splits if_splits)
    have "length (filter (in_window t) h') \<le> MAX_MESSAGES_PER_SECOND" for t
    proof (cases "in_window t now")
      case False
      then show ?thesis using lim True by (simp add: h'_def within_limit_def)
    next
      case inside: True
      from window_recent [OF old inside] room show ?thesis using True inside by (simp add: h'_def)
    qed
    then show ?thesis by (simp add: within_limit_def)
  qed
  ultimately show ?thesis ..
qed

lemma admitted_within:
  assumes "remembers h upto_now w" "within_limit h" "sorted (map fst es)" "list_all (\<lambda>e. upto_now \<le> fst e) es"
  shows "within_limit (h @ admitted es w)"
  using assms
proof (induction es arbitrary: h upto_now w)
  case Nil
  then show ?case by simp
next
  case (Cons e es)
  obtain now a where e: "e = (now, a)" by fastforce
  obtain b w' where adm: "admit now a w = (b, w')" by fastforce
  let ?h = "h @ (if b \<and> is_send a then [now] else [])"
  have "remembers ?h now w' \<and> within_limit ?h"
    by (rule admit_step [OF Cons.prems(1,2) _ adm]) (use Cons.prems(4) e in simp)
  moreover have "sorted (map fst es)" "list_all (\<lambda>e. now \<le> fst e) es"
    using Cons.prems(3) by (auto simp: e list_all_iff)
  ultimately have "within_limit (?h @ admitted es w')" using Cons.IH by blast
  then show ?case by (simp add: e adm)
qed

text \<open>
  Whatever a client sends, no second of its connection holds more than
  five of the messages that are let through.
\<close>

theorem messages_rate_limited:
  assumes "connect who cid tnt k = Inr w" and "sorted (map fst es)"
  shows "length (filter (\<lambda>x. t \<le> x \<and> x < t + second) (admitted es w)) \<le> MAX_MESSAGES_PER_SECOND"
proof -
  have "stamps w = []" using assms(1) by (auto simp: connect_def split: option.splits if_splits)
  then have start: "remembers [] upto_now w" for upto_now by (simp add: remembers_def recent_def)
  obtain upto_now where "list_all (\<lambda>e. upto_now \<le> fst e) es"
  proof (cases es)
    case (Cons e es')
    then show ?thesis using assms(2) that [of "fst e"] by (auto simp: list_all_iff)
  qed (use that in auto)
  moreover have "within_limit []" by (simp add: within_limit_def)
  ultimately have "within_limit ([] @ admitted es w)" using admitted_within [OF start] assms(2) by blast
  then show ?thesis by (simp add: within_limit_def in_window_def [abs_def])
qed

section \<open>A small conversation\<close>

definition demo_bob :: user where
  "demo_bob = \<lparr>user_id = 8, first_name = ''Bob'', last_name = [], email = ''bob@acme''\<rparr>"

definition demo_conv :: conversation where
  "demo_conv = \<lparr>conv_id = 5, conv_tenant = 1, conv_type = DirectTalk, conv_name = [], conv_ticket = None, source_group = None,
     conv_updated = 0\<rparr>"

definition demo_part :: "user \<Rightarrow> participant" where
  "demo_part u = \<lparr>part_conv = 5, part_user = u, last_read_at = None, is_muted = False, joined_at = 0\<rparr>"

definition demo_talk :: talk where
  "demo_talk = \<lparr>desk_of = demo_desk\<lparr>base := demo_store\<lparr>users := [demo_user, demo_bob],
       memberships := [demo_member demo_user (demo_role 1 ''agent'' 30 []), demo_member demo_bob (demo_role 1 ''agent'' 30 [])]\<rparr>\<rparr>,
     user_groups = [], conversations = [demo_conv], participants = [demo_part demo_user, demo_part demo_bob], messages = [], sent = []\<rparr>"

theorem messages_rate_limited_witness:
  "connect (Some demo_user) (show_uuid 5) (Some 1) demo_talk = Inr \<lparr>sock_user = demo_user, sock_conv = 5, stamps = [], last_typing = 0\<rparr> \<and>
   length (filter (\<lambda>x. 100 \<le> x \<and> x < 100 + second) (admitted (map (\<lambda>t. (t, SendMessage ''hi'' None)) [100, 200, 300, 400, 500, 600, 700])
     \<lparr>sock_user = demo_user, sock_conv = 5, stamps = [], last_typing = 0\<rparr>)) \<le> 5"
proof
  show c: "connect (Some demo_user) (show_uuid 5) (Some 1) demo_talk = Inr \<lparr>sock_user = demo_user, sock_conv = 5, stamps = [], last_typing = 0\<rparr>"
    by code_simp
  show "length (filter (\<lambda>x. 100 \<le> x \<and> x < 100 + second) (admitted (map (\<lambda>t. (t, SendMessage ''hi'' None)) [100, 200, 300, 400, 500, 600, 700])
     \<lparr>sock_user = demo_user, sock_conv = 5, stamps = [], last_typing = 0\<rparr>)) \<le> 5"
    using messages_rate_limited [OF c, of "map (\<lambda>t. (t, SendMessage ''hi'' None)) [100, 200, 300, 400, 500, 600, 700]" 100]
    by (simp add: MAX_MESSAGES_PER_SECOND_def)
qed

section \<open>The text of a UUID\<close>

lemma hex_table: "list_all (\<lambda>n. hex_val (hex_char n) = n \<and> of_char (hex_char n) \<noteq> (45 :: nat)) [0, 1, 2, 3, 4, 5, 6, 7, 8, 9, 10, 11, 12, 13, 14, 15]"
  by (simp add: hex_val_def hex_char_def is_digit_def chr_range_def)

lemma hex_char_facts:
  assumes "n < 16"
  shows "hex_val (hex_char n) = n" "hex_char n \<noteq> CHR ''-''"
proof -
  have "n \<in> set [0, 1, 2, 3, 4, 5, 6, 7, 8, 9, 10, 11, 12, 13, 14, 15]" using assms by simp presburger
  with hex_table have "hex_val (hex_char n) = n" and code: "of_char (hex_char n) \<noteq> (45 :: nat)" unfolding list_all_iff by blast+
  then show "hex_val (hex_char n) = n" by simp
  show "hex_char n \<noteq> CHR ''-''"
  proof
    assume "hex_char n = CHR ''-''"
    then have "of_char (hex_char n) = (45 :: nat)" by simp
    with code show False ..
  qed
qed

lemma length_hex: "length (hex_digits k n) = k"
  by (induction k arbitrary: n) simp_all

lemma no_dash: "filter (\<lambda>c. c \<noteq> CHR ''-'') (hex_digits k n) = hex_digits k n"
  by (induction k arbitrary: n) (simp_all add: hex_char_facts)

lemma hex_value: "foldl (\<lambda>n c. 16 * n + hex_val c) 0 (hex_digits k n) = n mod 16 ^ k"
proof (induction k arbitrary: n)
  case (Suc k)
  have "n mod (16 * 16 ^ k) = 16 * (n div 16 mod 16 ^ k) + n mod 16" by (rule mod_mult2_eq)
  then show ?case using Suc by (simp add: hex_char_facts)
qed simp

lemma join_parts: "take 8 h @ take 4 (drop 8 h) @ take 4 (drop 12 h) @ take 4 (drop 16 h) @ drop 20 h = h"
proof -
  have "take 8 h @ take 4 (drop 8 h) = take 12 h" using take_add [of 8 4 h] by simp
  moreover have "take 12 h @ take 4 (drop 12 h) = take 16 h" using take_add [of 12 4 h] by simp
  moreover have "take 16 h @ take 4 (drop 16 h) = take 20 h" using take_add [of 16 4 h] by simp
  moreover have "take 20 h @ drop 20 h = h" by simp
  ultimately show ?thesis by (metis append.assoc)
qed

lemma uuid_roundtrip: "n < 2 ^ 128 \<Longrightarrow> uuid_of (show_uuid n) = Some n"
proof -
  assume n: "n < 2 ^ 128"
  let ?h = "hex_digits 32 n" and ?p = "\<lambda>c. c \<noteq> CHR ''-''"
  have clean: "filter ?p xs = xs" if "set xs \<subseteq> set ?h" for xs
    
  proof (rule filter_True, rule ballI)
    fix c assume "c \<in> set xs"
    with that have "c \<in> set (filter ?p ?h)" unfolding no_dash by blast
    then show "?p c" by simp
  qed
  have "filter ?p (show_uuid n) = take 8 ?h @ take 4 (drop 8 ?h) @ take 4 (drop 12 ?h) @ take 4 (drop 16 ?h) @ drop 20 ?h"
  proof -
    have "set (take i xs) \<subseteq> set xs" "set (drop i xs) \<subseteq> set xs" for i and xs :: string
      by (rule set_take_subset, rule set_drop_subset)
    then have "set (take i ?h) \<subseteq> set ?h" "set (take i (drop j ?h)) \<subseteq> set ?h" "set (drop j ?h) \<subseteq> set ?h" for i j by blast+
    note pieces = this [THEN clean]
    show ?thesis by (simp only: show_uuid_def Let_def filter_append pieces) simp
  qed
  also have "\<dots> = ?h" by (rule join_parts)
  finally have "filter ?p (show_uuid n) = ?h" .
  moreover have "n mod 16 ^ 32 = n" using n by simp
  ultimately show ?thesis using hex_value [of 32 n] length_hex [of 32 n]
    by (simp add: uuid_of_def Let_def del: hex_digits.simps)
qed

section \<open>Who is told\<close>

text \<open>Nothing but notices: \<open>ns\<close> are new, the tables a recipient is chosen from are as they were.\<close>

definition tells_only :: "notification list \<Rightarrow> talk \<Rightarrow> talk \<Rightarrow> bool" where
  "tells_only ns k k' \<longleftrightarrow> notifications (desk_of k') = notifications (desk_of k) @ ns \<and> participants k' = participants k \<and>
     users (base (desk_of k')) = users (base (desk_of k)) \<and> memberships (base (desk_of k')) = memberships (base (desk_of k))"

lemma tells_only_trans: "tells_only ns k k' \<Longrightarrow> tells_only ms k' k'' \<Longrightarrow> tells_only (ns @ ms) k k''"
  by (simp add: tells_only_def)

text \<open>The kind, the recipient and the tenant of a notice.\<close>

definition addressed :: "notification \<Rightarrow> notification_type \<times> user_id \<times> tenant_id" where
  "addressed n = (notif_type n, notif_recipient n, notif_tenant n)"

lemma told_one: "\<exists>k' n. on_desk (best_effort (notify ten u kind x)) k = (Inr (), k') \<and> tells_only [n] k k' \<and> addressed n = (kind, user_id u, ten)"
  by (simp add: cmd_simps best_effort_def notify_def send_notification_run tells_only_def addressed_def notice_def)

lemma told_each:
  "\<exists>k' ns. for_each xs (\<lambda>x _. if p x then ret () else on_desk (best_effort (notify ten (f x) kind y))) () k = (Inr (), k') \<and>
     tells_only ns k k' \<and> map addressed ns = map (\<lambda>x. (kind, user_id (f x), ten)) (filter (\<lambda>x. \<not> p x) xs)"
proof (induction xs arbitrary: k)
  case Nil
  show ?case by (simp add: cmd_simps tells_only_def)
next
  case (Cons x xs)
  show ?case
  proof (cases "p x")
    case True
    then show ?thesis using Cons.IH [of k] by (simp add: cmd_simps)
  next
    case False
    obtain k1 n where 1: "on_desk (best_effort (notify ten (f x) kind y)) k = (Inr (), k1)" "tells_only [n] k k1"
      "addressed n = (kind, user_id (f x), ten)" using told_one by blast
    obtain k2 ns where 2: "for_each xs (\<lambda>x _. if p x then ret () else on_desk (best_effort (notify ten (f x) kind y))) () k1 = (Inr (), k2)"
      "tells_only ns k1 k2" "map addressed ns = map (\<lambda>x. (kind, user_id (f x), ten)) (filter (\<lambda>x. \<not> p x) xs)" using Cons.IH [of k1] by blast
    show ?thesis using False 1 2 tells_only_trans [OF 1(2) 2(2)]
      by (intro exI [of _ k2] exI [of _ "n # ns"]) (simp add: run_bind)
  qed
qed

definition named :: "message \<Rightarrow> user_id set" where
  "named m = {n. Some n \<in> uuid_of ` set (parse_mentions (msg_body m))}"

definition named_members :: "message \<Rightarrow> tenant_id \<Rightarrow> desk \<Rightarrow> user list" where
  "named_members m ten d = filter (\<lambda>u. user_id u \<in> named m \<and> is_member_of d (user_id u) ten) (users (base d))"

lemma mentioned_run:
  assumes "list_all (\<lambda>i. uuid_of i \<noteq> None) (parse_mentions (msg_body m))"
  shows "mentioned_users ten (parse_mentions (msg_body m)) d = (Inr (named_members m ten d), d)"
proof -
  have "\<not> list_ex (\<lambda>i. uuid_of i = None) (parse_mentions (msg_body m))"
    using assms by (simp add: list_all_iff list_ex_iff)
  then show ?thesis by (simp add: mentioned_users_def cmd_simps named_members_def named_def)
qed

lemma nobody_named: "parse_mentions (msg_body m) = [] \<Longrightarrow> named_members m ten d = []"
  by (simp add: named_members_def named_def)

lemma set_mentions_run:
  assumes "list_all (\<lambda>i. uuid_of i \<noteq> None) (parse_mentions (msg_body m))"
  shows "\<exists>ms. set_mentions m ten k = (Inr (), k\<lparr>messages := ms\<rparr>)"
proof (cases "parse_mentions (msg_body m) = []")
  case True
  then have "set_mentions m ten k = (Inr (), k\<lparr>messages := messages k\<rparr>)" by (simp add: set_mentions_def cmd_simps)
  then show ?thesis ..
next
  case False
  then show ?thesis using mentioned_run [OF assms] by (simp add: set_mentions_def cmd_simps) (rule exI, rule refl)
qed

text \<open>The two loops: the named members first, then who takes part and is not named.\<close>

lemma announce_run:
  assumes "list_all (\<lambda>i. uuid_of i \<noteq> None) (parse_mentions (msg_body m))"
  shows "\<exists>k' ns ms. announce m ten k = (Inr (), k') \<and> notifications (desk_of k') = notifications (desk_of k) @ ns @ ms \<and>
    map addressed ns = map (\<lambda>u. (NMention, user_id u, ten)) (filter (\<lambda>u. \<not> is_author m u) (named_members m ten (desk_of k))) \<and>
    map addressed ms = map (\<lambda>p. (NMessage, user_id (part_user p), ten))
      (filter (\<lambda>p. show_uuid (user_id (part_user p)) \<notin> set (parse_mentions (msg_body m))) (notified_participants m k))"
proof -
  let ?ids = "parse_mentions (msg_body m)" and ?us = "named_members m ten (desk_of k)"
  obtain msgs where 0: "set_mentions m ten k = (Inr (), k\<lparr>messages := msgs\<rparr>)" using set_mentions_run [OF assms] by blast
  let ?k = "k\<lparr>messages := msgs\<rparr>"
  obtain k1 ns where 1: "for_each ?us (\<lambda>u _. if is_author m u then ret () else on_desk (best_effort (notify ten u NMention
        (JObj (message_data m))))) () ?k = (Inr (), k1)" "tells_only ns ?k k1"
    "map addressed ns = map (\<lambda>u. (NMention, user_id u, ten)) (filter (\<lambda>u. \<not> is_author m u) ?us)"
    using told_each [where f = "\<lambda>u. u" and p = "is_author m" and xs = ?us and k = ?k] by blast
  have mentions: "notify_mentions m ten ?k = (Inr (), k1)"
  proof (cases "?ids = []")
    case True
    then show ?thesis using 1(1) by (simp add: notify_mentions_def nobody_named cmd_simps)
  next
    case False
    then show ?thesis using 1(1) mentioned_run [OF assms, of ten "desk_of k"] by (simp add: notify_mentions_def cmd_simps)
  qed
  have same: "notified_participants m k1 = notified_participants m k"
    using 1(2) by (simp add: notified_participants_def tells_only_def)
  obtain k2 ms where 2: "for_each (notified_participants m k1) (\<lambda>p _. if show_uuid (user_id (part_user p)) \<in> set ?ids then ret ()
       else on_desk (best_effort (notify ten (part_user p) NMessage
         (JObj (message_data m @ [(''author_name'', JStr (author_name m))]))))) () k1 = (Inr (), k2)" "tells_only ms k1 k2"
    "map addressed ms = map (\<lambda>p. (NMessage, user_id (part_user p), ten))
      (filter (\<lambda>p. show_uuid (user_id (part_user p)) \<notin> set ?ids) (notified_participants m k1))"
    using told_each [where f = part_user and p = "\<lambda>p. show_uuid (user_id (part_user p)) \<in> set ?ids" and xs = "notified_participants m k1" and k = k1]
    by blast
  have "announce m ten k = (Inr (), k2)"
    using 0 mentions 2(1) by (simp add: announce_def run_then notify_new_message_def run_bind run_asks)
  moreover have "notifications (desk_of k2) = notifications (desk_of k) @ ns @ ms"
    using 1(2) 2(2) by (simp add: tells_only_def)
  ultimately show ?thesis using 1(3) 2(3) unfolding same by blast
qed


definition demo_message :: message where
  "demo_message = \<lparr>msg_id = 9, msg_tenant = 1, msg_conv = 5, msg_author = Some demo_user,
     msg_body = ''Hi @[Bob](user:'' @ show_uuid 8 @ '') and @[B](user:'' @ show_uuid 8 @ '')'', msg_mentions = [], msg_parent = None,
     is_edited = False, msg_at = 0\<rparr>"

lemma demo_names: "parse_mentions (msg_body demo_message) = [show_uuid 8]"
  by code_simp


text \<open>
  A mention whose id is no UUID raises after the message was stored: it is
  neither told nor broadcast.
\<close>

lemma malformed_mention_strands:
  assumes "list_ex (\<lambda>i. uuid_of i = None) (parse_mentions (strip body))"
    and "valid_parent ten claimed parent k" and "talk_of ten me i k = (Inr c, k)"
  shows "\<exists>k'. create_message ten me i claimed body parent k = (Inl (ValidationError ''invalid_uuid''), k') \<and>
    length (messages k') = Suc (length (messages k)) \<and> sent k' = sent k \<and> notifications (desk_of k') = notifications (desk_of k)"
proof -
  have "parse_mentions (strip body) \<noteq> []" using assms(1) by auto
  then show ?thesis using assms
    by (simp add: create_message_def run_bind run_asks run_then run_update run_ret run_on_desk run_now run_fresh insert_message_def
        Let_def announce_def set_mentions_def mentioned_users_def run_raise)
qed

end
