(* ===== verification/Talk_Laws.thy ===== *)
theory Talk_Laws
  imports Talk_Notices
begin

text \<open>
  The shape of the conversations: ids are fresh, nobody takes part twice, a
  direct conversation has exactly two participants and there is one per pair
  of users and tenant.  Every endpoint is one of four changes of the shape,
  or none.
\<close>

section \<open>Shapes\<close>

type_synonym shape = "(nat \<times> tenant_id \<times> conversation_type) list \<times> (nat \<times> user_id) list"

definition shape :: "talk \<Rightarrow> shape" where
  "shape k = (map (\<lambda>c. (conv_id c, conv_tenant c, conv_type c)) (conversations k),
     map (\<lambda>p. (part_conv p, user_id (part_user p))) (participants k))"

definition takers :: "(nat \<times> user_id) list \<Rightarrow> nat \<Rightarrow> user_id set" where
  "takers ps i = {u. (i, u) \<in> set ps}"

definition wf_shape :: "nat \<Rightarrow> shape \<Rightarrow> bool" where
  "wf_shape n s = (case s of (cs, ps) \<Rightarrow> distinct (map fst cs) \<and> (\<forall>x \<in> set cs. fst x < n) \<and> (\<forall>x \<in> set ps. fst x < n) \<and> distinct ps \<and>
     (\<forall>i t. (i, t, DirectTalk) \<in> set cs \<longrightarrow> card (takers ps i) = 2) \<and>
     (\<forall>i j t. (i, t, DirectTalk) \<in> set cs \<longrightarrow> (j, t, DirectTalk) \<in> set cs \<longrightarrow> takers ps i = takers ps j \<longrightarrow> i = j))"

definition talk_pk :: "talk \<Rightarrow> nat" where
  "talk_pk k = next_pk (base (desk_of k))"

definition wf_talk :: "talk \<Rightarrow> bool" where
  "wf_talk k \<longleftrightarrow> wf_shape (talk_pk k) (shape k)"

lemma takers_append: "takers (ps @ qs) i = takers ps i \<union> takers qs i"
  by (auto simp: takers_def)

lemma takers_pairs: "takers (map (Pair j) us) i = (if i = j then set us else {})"
  by (auto simp: takers_def)

lemma takers_fresh: "\<forall>x \<in> set ps. fst x < n \<Longrightarrow> takers ps n = {}"
  by (fastforce simp: takers_def)

lemma takers_filter: "takers (filter (\<lambda>x. fst x \<noteq> j) ps) i = (if i = j then {} else takers ps i)"
  by (auto simp: takers_def)

lemma wf_grow: "wf_shape n s \<Longrightarrow> n \<le> m \<Longrightarrow> wf_shape m s"
  by (fastforce simp: wf_shape_def)

lemma wf_open:
  assumes wf: "wf_shape n (cs, ps)" and us: "distinct us"
    and direct: "kind = DirectTalk \<Longrightarrow> length us = 2 \<and> (\<forall>i. (i, ten, DirectTalk) \<in> set cs \<longrightarrow> \<not> set us \<subseteq> takers ps i)"
  shows "wf_shape (Suc n) (cs @ [(n, ten, kind)], ps @ map (Pair n) us)"
proof -
  have ids: "\<forall>x \<in> set cs. fst x < n" and parts: "\<forall>x \<in> set ps. fst x < n" using wf by (simp_all add: wf_shape_def)
  have new: "takers (ps @ map (Pair n) us) n = set us" using takers_fresh [OF parts] by (simp add: takers_append takers_pairs)
  have old: "takers (ps @ map (Pair n) us) i = takers ps i" if "i < n" for i using that by (simp add: takers_append takers_pairs)
  have "distinct (ps @ map (Pair n) us)" using wf us parts by (auto simp: wf_shape_def distinct_map inj_on_def)
  moreover have two: "card (takers (ps @ map (Pair n) us) i) = 2" if "(i, t, DirectTalk) \<in> set (cs @ [(n, ten, kind)])" for i t
  proof (cases "(i, t, DirectTalk) \<in> set cs")
    case True
    then show ?thesis using wf ids old by (fastforce simp: wf_shape_def)
  next
    case False
    then show ?thesis using that new direct us by (auto simp: distinct_card)
  qed
  moreover have one: "i = j" if "(i, t, DirectTalk) \<in> set (cs @ [(n, ten, kind)])" "(j, t, DirectTalk) \<in> set (cs @ [(n, ten, kind)])"
    "takers (ps @ map (Pair n) us) i = takers (ps @ map (Pair n) us) j" for i j t
  proof (cases "i < n"; cases "j < n")
    assume "i < n" "j < n"
    then show ?thesis using that wf old by (auto simp: wf_shape_def)
  next
    assume "i < n" "\<not> j < n"
    then have "j = n" "t = ten" "kind = DirectTalk" "(i, ten, DirectTalk) \<in> set cs" using that(1,2) ids by auto
    then show ?thesis using that(3) old [OF \<open>i < n\<close>] new direct by blast
  next
    assume "\<not> i < n" "j < n"
    then have "i = n" "t = ten" "kind = DirectTalk" "(j, ten, DirectTalk) \<in> set cs" using that(1,2) ids by auto
    then show ?thesis using that(3) old [OF \<open>j < n\<close>] new direct by blast
  next
    assume "\<not> i < n" "\<not> j < n"
    then show ?thesis using that(1,2) ids by auto
  qed
  moreover have "distinct (map fst (cs @ [(n, ten, kind)]))" using wf ids by (auto simp: wf_shape_def)
  moreover have "\<forall>x \<in> set (cs @ [(n, ten, kind)]). fst x < Suc n" "\<forall>x \<in> set (ps @ map (Pair n) us). fst x < Suc n"
    using ids parts by auto
  ultimately show ?thesis unfolding wf_shape_def prod.case by (intro conjI allI impI) (assumption | rule two one)+
qed

lemma wf_other:
  assumes wf: "wf_shape n (cs, ps)" and i: "(i, t, kind) \<in> set cs" "kind \<noteq> DirectTalk"
    and qs: "distinct qs" "\<forall>x \<in> set qs. fst x < n" and same: "\<And>j. j \<noteq> i \<Longrightarrow> takers qs j = takers ps j"
  shows "wf_shape n (cs, qs)"
proof -
  have "j \<noteq> i" if "(j, t', DirectTalk) \<in> set cs" for j t'
  proof
    assume "j = i"
    have "distinct (map fst cs)" using wf by (simp add: wf_shape_def)
    from eq_key_imp_eq_value [OF this, of i "(t', DirectTalk)" "(t, kind)"] that i \<open>j = i\<close> show False by simp
  qed
  then have "takers qs j = takers ps j" if "(j, t', DirectTalk) \<in> set cs" for j t' using same that by blast
  then show ?thesis using wf qs by (simp add: wf_shape_def) metis
qed

lemma wf_join:
  assumes "wf_shape n (cs, ps)" "(i, t, kind) \<in> set cs" "kind \<noteq> DirectTalk" "distinct us" "set us \<inter> takers ps i = {}"
  shows "wf_shape n (cs, ps @ map (Pair i) us)"
proof (rule wf_other [OF assms(1-3)])
  have "i < n" using assms(1,2) by (fastforce simp: wf_shape_def)
  then show "\<forall>x \<in> set (ps @ map (Pair i) us). fst x < n" using assms(1) by (auto simp: wf_shape_def)
  show "distinct (ps @ map (Pair i) us)"
    using assms by (auto simp: wf_shape_def distinct_map inj_on_def takers_def)
qed (simp add: takers_append takers_pairs)

lemma wf_part:
  assumes "wf_shape n (cs, ps)" "(i, t, kind) \<in> set cs" "kind \<noteq> DirectTalk"
  shows "wf_shape n (cs, filter (\<lambda>x. \<not> (fst x = i \<and> snd x = u)) ps)"
  by (rule wf_other [OF assms]) (use assms(1) in \<open>auto simp: wf_shape_def takers_def\<close>)

lemma wf_destroy:
  assumes "wf_shape n (cs, ps)"
  shows "wf_shape n (filter (\<lambda>x. fst x \<noteq> i) cs, filter (\<lambda>x. fst x \<noteq> i) ps)"
  using assms by (auto simp: wf_shape_def takers_filter distinct_map_filter)

section \<open>Commands that leave the shape alone\<close>

definition same_shape :: "talk \<Rightarrow> talk \<Rightarrow> bool" where
  "same_shape k k' \<longleftrightarrow> shape k' = shape k \<and> talk_pk k \<le> talk_pk k'"

interpretation calm: step_law same_shape
  by unfold_locales (auto simp: same_shape_def)

lemma wf_same: "same_shape k k' \<Longrightarrow> wf_talk k \<Longrightarrow> wf_talk k'"
  by (auto simp: same_shape_def wf_talk_def intro: wf_grow)

lemma calm_update:
  assumes "\<And>k. desk_of (f k) = desk_of k" "\<And>k. shape (f k) = shape k"
  shows "obeys same_shape (update f)"
  by (rule calm.obeys_update) (simp add: same_shape_def talk_pk_def assms)

lemma calm_desk:
  assumes "\<And>d. next_pk (base d) \<le> next_pk (base (snd (c d)))"
  shows "obeys same_shape (on_desk c)"
  using assms by (simp add: obeys_def run_on_desk same_shape_def talk_pk_def shape_def)

lemma calm_notify: "obeys same_shape (on_desk (best_effort (notify ten u kind x)))"
  by (rule calm_desk) (simp add: cmd_simps best_effort_def notify_def send_notification_run)

lemma calm_named: "obeys same_shape (on_desk (mentioned_users ten ids))"
  by (rule calm_desk) (simp add: mentioned_users_def cmd_simps)

lemma calm_ids: "obeys same_shape (on_desk fresh_pk)" "obeys same_shape (on_desk now_of)"
  by (rule calm_desk, simp add: cmd_simps)+

lemma shape_messages [simp]: "shape (k\<lparr>messages := ms\<rparr>) = shape k" "shape (k\<lparr>sent := ss\<rparr>) = shape k"
  by (simp_all add: shape_def)

lemmas calm_rules = calm.obeys_ret calm.obeys_raise calm.obeys_asks calm.obeys_bind calm.obeys_then calm.obeys_if calm.obeys_for
  calm.obeys_option calm.obeys_when calm_notify calm_named calm_ids

lemma calm_announce: "obeys same_shape (announce m ten)"
  unfolding announce_def set_mentions_def notify_mentions_def notify_new_message_def Let_def
  by (intro calm_rules calm_update) simp_all

lemma calm_broadcast: "obeys same_shape (broadcast_message m)"
  unfolding broadcast_message_def by (intro calm_update) simp_all

lemma calm_insert: "obeys same_shape (insert_message c me body parent)"
  unfolding insert_message_def Let_def
  by (intro calm_rules calm_update) (simp_all add: shape_def comp_def if_distrib cong: if_cong)

lemma calm_lookups: "obeys same_shape (talk_of ten me i)" "obeys same_shape (my_message ten me i j)"
    "obeys same_shape (my_conversation ten me i)"
  unfolding my_message_def talk_of_def my_conversation_def by (intro calm_rules)+

lemma calm_messages:
  "obeys same_shape (create_message ten me i claimed body parent)" "obeys same_shape (edit_message ten me i j body)"
  "obeys same_shape (delete_message ten me i j)" "obeys same_shape (rebroadcast ten me i j)"
  unfolding create_message_def edit_message_def delete_message_def rebroadcast_def
  by (intro calm_rules calm_lookups calm_insert calm_announce calm_broadcast calm_update; simp)+

lemma calm_socket: "obeys same_shape (receive_json now a w)"
proof -
  have "obeys same_shape (socket_message w body parent)" for w body parent
    unfolding socket_message_def by (intro calm_rules calm_insert)
  then have send: "obeys same_shape (handle_send_message w body parent)" for w body parent
    unfolding handle_send_message_def Let_def by (intro calm_rules calm_broadcast calm_announce)
  have read: "obeys same_shape (mark_read w)" for w
    unfolding mark_read_def by (intro calm_rules calm_update) (simp_all add: shape_def comp_def if_distrib cong: if_cong)
  show ?thesis
    unfolding receive_json_def case_prod_unfold
    by (cases a) (simp_all only: client_action.case, (intro calm_rules send read)+)
qed

section \<open>Opening and joining\<close>

lemma distinct_users_props:
  "distinct (map user_id (distinct_users us))" "user_id ` set (distinct_users us) = user_id ` set us"
proof (induction us)
  case (Cons u us)
  let ?rest = "filter (\<lambda>v. user_id v \<noteq> user_id u) (distinct_users us)"
  have step: "distinct_users (u # us) = u # ?rest" by (simp add: distinct_users_def)
  have ids: "user_id ` set ?rest = user_id ` set (distinct_users us) - {user_id u}" by auto
  case 1
  show ?case unfolding step using Cons(1) by (simp add: distinct_map_filter ids del: set_filter)
  case 2
  show ?case unfolding step by (simp add: ids Cons(2) del: set_filter)
qed (simp_all add: distinct_users_def)

lemma add_user_distinct: "distinct (map user_id us) \<Longrightarrow> distinct (map user_id (add_user u us))"
  by (auto simp: add_user_def)

lemma active_distinct: "distinct (map user_id (active_users d ten ids))"
  by (simp add: active_users_def distinct_users_props)

lemma active_one: "active_users d ten {i} = u # us \<Longrightarrow> user_id u = i"
proof -
  assume "active_users d ten {i} = u # us"
  then have "user_id u \<in> user_id ` set (active_users d ten {i})" by simp
  then show ?thesis by (auto simp: active_users_def distinct_users_props)
qed

text \<open>The shape after the two writes that open a conversation.\<close>

lemma opened:
  "shape (snd (add_participants (talk_pk k) us (snd (insert_conversation ten kind name ticket grp k)))) =
     (fst (shape k) @ [(talk_pk k, ten, kind)], snd (shape k) @ map (Pair (talk_pk k)) (map user_id us))"
  "talk_pk (snd (add_participants i us (snd (insert_conversation ten kind name ticket grp k)))) = Suc (talk_pk k)"
  "\<exists>c. insert_conversation ten kind name ticket grp k = (Inr c, snd (insert_conversation ten kind name ticket grp k)) \<and> conv_id c = talk_pk k"
  by (simp_all add: insert_conversation_def add_participants_def cmd_simps Let_def shape_def talk_pk_def)

lemma joined:
  "shape (snd (add_participants i us k)) = (fst (shape k), snd (shape k) @ map (Pair i) (map user_id us))"
  "talk_pk (snd (add_participants i us k)) = talk_pk k" "fst (add_participants i us k) = Inr ()"
  by (simp_all add: add_participants_def cmd_simps shape_def talk_pk_def)

lemma wf_opened:
  assumes "wf_talk k" "distinct (map user_id us)" "kind \<noteq> DirectTalk"
  shows "wf_talk (snd (add_participants (talk_pk k) us (snd (insert_conversation ten kind name ticket grp k))))"
  unfolding wf_talk_def opened by (rule wf_open) (use assms in \<open>simp_all add: wf_talk_def\<close>)

lemma wf_joined:
  assumes "wf_talk k" "c \<in> set (conversations k)" "conv_type c \<noteq> DirectTalk" "distinct (map user_id us)"
    and "\<forall>u \<in> set us. \<not> participates k (user_id u) (conv_id c)"
  shows "wf_talk (snd (add_participants (conv_id c) us k))"
  unfolding wf_talk_def joined
proof (rule wf_join)
  show "wf_shape (talk_pk k) (fst (shape k), snd (shape k))" using assms(1) by (simp add: wf_talk_def)
  show "(conv_id c, conv_tenant c, conv_type c) \<in> set (fst (shape k))" using assms(2) by (auto simp: shape_def)
  show "set (map user_id us) \<inter> takers (snd (shape k)) (conv_id c) = {}" using assms(5) by (auto simp: shape_def takers_def) metis
qed (use assms in simp_all)

lemma existing_member:
  assumes "existing_conversation p ten k = Some c"
  shows "c \<in> set (conversations k)" "p c" "conv_tenant c = ten"
  using first_by_least(1) [OF assms [unfolded existing_conversation_def]] by auto

lemma no_existing: "existing_conversation p ten k = None \<Longrightarrow> c \<in> set (conversations k) \<Longrightarrow> conv_tenant c = ten \<Longrightarrow> \<not> p c"
  by (auto simp: existing_conversation_def first_by_eq_None filter_empty_conv)

lemma wf_direct:
  assumes "wf_talk k" "other \<noteq> user_id me" "create_direct ten me other k = (res, k')"
  shows "wf_talk k'"
proof -
  let ?p = "\<lambda>c. conv_type c = DirectTalk \<and> participates k (user_id me) (conv_id c) \<and> participates k other (conv_id c)"
  show ?thesis
  proof (cases "existing_conversation ?p ten k")
    case (Some c)
    then show ?thesis using assms by (simp add: create_direct_def cmd_simps)
  next
    case None
    note new = no_existing [OF None]
    show ?thesis
    proof (cases "active_users (desk_of k) ten {other}")
      case Nil
      then show ?thesis using assms None by (simp add: create_direct_def cmd_simps)
    next
      case (Cons u us)
      then have u: "user_id u = other" by (rule active_one)
      obtain c where c: "insert_conversation ten DirectTalk [] None None k = (Inr c, snd (insert_conversation ten DirectTalk [] None None k))"
        "conv_id c = talk_pk k" using opened(3) by blast
      have run: "k' = snd (add_participants (talk_pk k) [me, u] (snd (insert_conversation ten DirectTalk [] None None k)))"
        using assms(3) None Cons c joined(3) [of "talk_pk k" "[me, u]" "snd (insert_conversation ten DirectTalk [] None None k)"]
        by (simp add: create_direct_def cmd_simps split: prod.splits)
      have "\<not> set (map user_id [me, u]) \<subseteq> takers (snd (shape k)) i" if direct: "(i, ten, DirectTalk) \<in> set (fst (shape k))" for i
      proof -
        obtain c where c: "c \<in> set (conversations k)" "conv_id c = i" "conv_tenant c = ten" "conv_type c = DirectTalk"
          using direct by (auto simp: shape_def)
        have "\<not> participates k (user_id me) i \<or> \<not> participates k other i" using new [OF c(1,3)] c(2,4) by simp
        then show ?thesis using u by (auto simp: shape_def takers_def)
      qed
      then show ?thesis unfolding run wf_talk_def opened
        by (intro wf_open) (use assms(1,2) u in \<open>simp_all add: wf_talk_def\<close>)
    qed
  qed
qed

lemma wf_open_group:
  assumes "wf_talk k" "open_group ten me name grp ids k = (res, k')"
  shows "wf_talk k'"
proof -
  let ?k = "snd (insert_conversation ten GroupTalk name None grp k)"
  let ?us = "add_user me (active_users (desk_of ?k) ten ids)"
  obtain c where c: "insert_conversation ten GroupTalk name None grp k = (Inr c, ?k)" "conv_id c = talk_pk k" using opened(3) by blast
  have "k' = snd (add_participants (talk_pk k) ?us ?k)"
    using assms(2) c joined(3) [of "talk_pk k" ?us ?k] by (simp add: open_group_def cmd_simps split: prod.splits)
  then show ?thesis using assms(1) by (simp add: wf_opened add_user_distinct active_distinct)
qed

lemma wf_refresh:
  assumes "wf_talk k" "c \<in> set (conversations k)" "conv_type c \<noteq> DirectTalk" "refresh_group ten me g c k = (res, k')"
  shows "wf_talk k'"
proof -
  let ?us = "filter (\<lambda>u. \<not> participates k (user_id u) (conv_id c)) (add_user me (active_users (desk_of k) ten (user_id ` set (group_members g))))"
  have "k' = snd (add_participants (conv_id c) ?us k)" using assms(4) by (simp add: refresh_group_def cmd_simps)
  moreover have "distinct (map user_id ?us)" by (simp add: distinct_map_filter add_user_distinct active_distinct)
  moreover have "\<forall>u \<in> set ?us. \<not> participates k (user_id u) (conv_id c)" by (simp only: set_filter mem_Collect_eq) blast
  ultimately show ?thesis by (simp only: wf_joined [OF assms(1-3)])
qed

lemma wf_group:
  assumes "wf_talk k" "create_group ten me r k = (res, k')"
  shows "wf_talk k'"
proof (cases "req_group r")
  case None
  then show ?thesis using assms wf_open_group by (simp add: create_group_def)
next
  case (Some i)
  show ?thesis
  proof (cases "first_row (\<lambda>g. group_id g = i \<and> group_tenant g = ten) (user_groups k)")
    case None
    then show ?thesis using assms Some by (simp add: create_group_def cmd_simps)
  next
    case g: (Some g)
    let ?p = "\<lambda>c. conv_type c = GroupTalk \<and> source_group c = Some i \<and> participates k (user_id me) (conv_id c)"
    show ?thesis
    proof (cases "existing_conversation ?p ten k")
      case None
      then show ?thesis using assms Some g wf_open_group by (simp add: create_group_def cmd_simps)
    next
      case c: (Some c)
      then have "c \<in> set (conversations k)" "conv_type c \<noteq> DirectTalk" using existing_member [OF c] by auto
      moreover obtain out where "refresh_group ten me g c k = (out, k')"
        using assms(2) Some g c by (auto simp: create_group_def cmd_simps split: prod.splits sum.splits)
      ultimately show ?thesis using wf_refresh assms(1) by blast
    qed
  qed
qed

lemma wf_ticket:
  assumes "wf_talk k" "create_ticket_talk ten me i ids k = (res, k')"
  shows "wf_talk k'"
proof (cases "first_row (\<lambda>t. pk t = i \<and> tenant_id (ticket_tenant t) = ten) (tickets (base (desk_of k)))")
  case None
  then show ?thesis using assms by (simp add: create_ticket_talk_def cmd_simps)
next
  case t: (Some t)
  let ?p = "\<lambda>c. conv_type c = TicketTalk \<and> conv_ticket c = Some i"
  show ?thesis
  proof (cases "existing_conversation ?p ten k")
    case None
    let ?k = "snd (insert_conversation ten TicketTalk [] (Some i) None k)"
    let ?us = "add_user me (active_users (desk_of ?k) ten (set ids))"
    obtain c where c: "insert_conversation ten TicketTalk [] (Some i) None k = (Inr c, ?k)" "conv_id c = talk_pk k" using opened(3) by blast
    have "k' = snd (add_participants (talk_pk k) ?us ?k)"
      using assms(2) t None c joined(3) [of "talk_pk k" ?us ?k] by (simp add: create_ticket_talk_def cmd_simps split: prod.splits)
    then show ?thesis using assms(1) by (simp add: wf_opened add_user_distinct active_distinct)
  next
    case (Some c)
    then have c: "c \<in> set (conversations k)" "conv_type c \<noteq> DirectTalk" using existing_member [OF Some] by auto
    show ?thesis
    proof (cases "participates k (user_id me) (conv_id c)")
      case True
      then show ?thesis using assms t Some by (simp add: create_ticket_talk_def cmd_simps)
    next
      case False
      then have "k' = snd (add_participants (conv_id c) [me] k)"
        using assms(2) t Some joined(3) [of "conv_id c" "[me]" k] by (simp add: create_ticket_talk_def cmd_simps split: prod.splits)
      then show ?thesis using wf_joined [OF assms(1) c, of "[me]"] False by simp
    qed
  qed
qed

lemma wf_create:
  assumes wf: "wf_talk k" and run: "create_conversation ten me r k = (res, k')"
  shows "wf_talk k'"
proof (cases "invalid_field (desk_of k) ten me r")
  case (Some f)
  then show ?thesis using assms by (simp add: create_conversation_def cmd_simps)
next
  case None
  show ?thesis
  proof (cases "req_type r")
    case DirectTalk
    then obtain u where u: "req_user r = Some u" "u \<noteq> user_id me"
      using None by (auto simp: invalid_field_def split: option.splits if_splits)
    then show ?thesis using run None DirectTalk wf_direct [OF wf u(2)] by (simp add: create_conversation_def cmd_simps)
  next
    case GroupTalk
    then show ?thesis using run None wf_group [OF wf] by (simp add: create_conversation_def cmd_simps)
  next
    case TicketTalk
    then obtain i where "req_ticket r = Some i" using None by (auto simp: invalid_field_def split: if_splits)
    then show ?thesis using run None TicketTalk wf_ticket [OF wf] by (simp add: create_conversation_def cmd_simps)
  qed
qed

section \<open>Leaving\<close>

lemma my_conversation_run:
  "my_conversation ten me i k = (Inr c, k') \<Longrightarrow> c \<in> set (conversations k) \<and> conv_id c = i \<and> k' = k"
  "my_conversation ten me i k = (Inl e, k') \<Longrightarrow> k' = k"
  by (auto simp: my_conversation_def cmd_simps split: option.splits dest: first_row_SomeD)

lemma wf_drop:
  assumes "wf_talk k" "c \<in> set (conversations k)" "conv_id c = i" "conv_type c \<noteq> DirectTalk" "drop_participant i u k = (res, k')"
  shows "wf_talk k'"
proof (cases "participates k u i")
  case True
  let ?k = "k\<lparr>participants := filter (\<lambda>p. \<not> (part_conv p = i \<and> user_id (part_user p) = u)) (participants k)\<rparr>"
  have "k' = ?k" using assms(5) True by (auto simp: drop_participant_def cmd_simps)
  moreover have "shape ?k = (fst (shape k), filter (\<lambda>x. \<not> (fst x = i \<and> snd x = u)) (snd (shape k)))" "talk_pk ?k = talk_pk k"
    by (simp_all add: shape_def talk_pk_def filter_map comp_def)
  moreover have "(i, conv_tenant c, conv_type c) \<in> set (fst (shape k))" using assms(2,3) by (auto simp: shape_def)
  moreover have "wf_shape (talk_pk k) (fst (shape k), snd (shape k))" using assms(1) by (simp add: wf_talk_def)
  ultimately show ?thesis unfolding wf_talk_def by (simp only:) (rule wf_part [OF _ _ assms(4)])
next
  case False
  then have "k' = k" using assms(5) by (auto simp: drop_participant_def cmd_simps)
  then show ?thesis using assms(1) by simp
qed

lemma wf_leave:
  assumes "wf_talk k" "leave ten me i k = (res, k') \<or> remove_participant ten me i who k = (res, k')"
  shows "wf_talk k'"
proof -
  obtain out k1 where conv: "my_conversation ten me i k = (out, k1)" by fastforce
  show ?thesis
  proof (cases out)
    case (Inl e)
    then have "k' = k" using assms(2) conv my_conversation_run(2) [of ten me i k e k1]
      by (auto simp: leave_def remove_participant_def cmd_simps)
    then show ?thesis using assms(1) by simp
  next
    case (Inr c)
    then have c: "c \<in> set (conversations k)" "conv_id c = i" "k1 = k" using my_conversation_run(1) conv by blast+
    consider "k' = k" | u out' where "conv_type c \<noteq> DirectTalk" "drop_participant i u k = (out', k')"
      using assms(2) conv Inr c by (auto simp: leave_def remove_participant_def cmd_simps split: if_splits option.splits)
    then show ?thesis using assms(1) wf_drop [OF assms(1) c(1,2)] by cases blast+
  qed
qed

lemma wf_destroyed:
  assumes "wf_talk k" "destroy_conversation ten me i k = (res, k')"
  shows "wf_talk k'"
proof -
  obtain out k1 where conv: "my_conversation ten me i k = (out, k1)" by fastforce
  show ?thesis
  proof (cases out)
    case (Inl e)
    then have "k' = k" using assms(2) conv my_conversation_run(2) [of ten me i k e k1] by (auto simp: destroy_conversation_def cmd_simps)
    then show ?thesis using assms(1) by simp
  next
    case (Inr c)
    then have "k1 = k" using my_conversation_run(1) conv by blast
    then have "shape k' = (filter (\<lambda>x. fst x \<noteq> i) (fst (shape k)), filter (\<lambda>x. fst x \<noteq> i) (snd (shape k)))" "talk_pk k' = talk_pk k"
      using assms(2) conv Inr by (auto simp: destroy_conversation_def cmd_simps shape_def talk_pk_def filter_map comp_def)
    then show ?thesis using assms(1) wf_destroy by (simp add: wf_talk_def)
  qed
qed

lemma wf_add:
  assumes wf: "wf_talk k" and run: "add_participant ten me i who k = (res, k')"
  shows "wf_talk k'"
proof -
  obtain out k1 where conv: "my_conversation ten me i k = (out, k1)" by fastforce
  show ?thesis
  proof (cases out)
    case (Inl e)
    then have "k' = k" using run conv my_conversation_run(2) [of ten me i k e k1] by (auto simp: add_participant_def cmd_simps)
    then show ?thesis using wf by simp
  next
    case (Inr c)
    then have c: "c \<in> set (conversations k)" "conv_id c = i" "k1 = k" using my_conversation_run(1) conv by blast+
    let ?found = "\<lambda>u. first_row (\<lambda>x. user_id x = u) (users (base (desk_of k)))"
    show ?thesis
    proof (cases "\<exists>u x. who = Some u \<and> ?found u = Some x \<and> conv_type c \<noteq> DirectTalk \<and> is_member_of (desk_of k) u ten \<and> \<not> participates k u i")
      case True
      then obtain u x where x: "who = Some u" "?found u = Some x" "conv_type c \<noteq> DirectTalk" "is_member_of (desk_of k) u ten" "\<not> participates k u i"
        by blast
      then have "user_id x = u" using first_row_SomeD by fastforce
      moreover have "k' = snd (add_participants i [x] k)" using run conv Inr c x by (simp add: add_participant_def cmd_simps del: Bex_def)
      ultimately show ?thesis using wf_joined [OF wf c(1) x(3), of "[x]"] c(2) x(5) by simp
    next
      case False
      then have "k' = k" using run conv Inr c
        by (cases who; cases "?found (the who)") (auto simp: add_participant_def cmd_simps simp del: bex_simps ball_simps split: if_splits)
      then show ?thesis using wf by simp
    qed
  qed
qed

section \<open>Runs\<close>

text \<open>What happens to the conversations: the endpoints, the sockets, and anything else that happens on the desk.\<close>

inductive talk_step :: "talk \<Rightarrow> talk \<Rightarrow> bool" where
  Create: "create_conversation ten me r k = (res, k') \<Longrightarrow> talk_step k k'"
| Add: "add_participant ten me i who k = (res, k') \<Longrightarrow> talk_step k k'"
| Leave: "leave ten me i k = (res, k') \<Longrightarrow> talk_step k k'"
| Remove: "remove_participant ten me i who k = (res, k') \<Longrightarrow> talk_step k k'"
| Destroy: "destroy_conversation ten me i k = (res, k') \<Longrightarrow> talk_step k k'"
| Post: "create_message ten me i claimed body parent k = (res, k') \<Longrightarrow> talk_step k k'"
| Edit: "edit_message ten me i j body k = (res, k') \<Longrightarrow> talk_step k k'"
| Delete: "delete_message ten me i j k = (res, k') \<Longrightarrow> talk_step k k'"
| Rebroadcast: "rebroadcast ten me i j k = (res, k') \<Longrightarrow> talk_step k k'"
| Socket: "receive_json now a w k = (res, k') \<Longrightarrow> talk_step k k'"
| Elsewhere: "next_pk (base (desk_of k)) \<le> next_pk (base d) \<Longrightarrow> talk_step k (k\<lparr>desk_of := d, user_groups := gs\<rparr>)"

inductive_cases talk_stepE: "talk_step k k'"

lemma wf_step:
  assumes "talk_step k k'" "wf_talk k"
  shows "wf_talk k'"
  using assms(1)
proof cases
  case (Elsewhere d gs)
  then have "same_shape k k'" by (simp add: same_shape_def shape_def talk_pk_def)
  then show ?thesis using assms(2) by (rule wf_same)
next
  case Post
  then show ?thesis by (blast intro: wf_same [OF _ assms(2)] calm_messages(1) [THEN obeysD])
next
  case Edit
  then show ?thesis by (blast intro: wf_same [OF _ assms(2)] calm_messages(2) [THEN obeysD])
next
  case Delete
  then show ?thesis by (blast intro: wf_same [OF _ assms(2)] calm_messages(3) [THEN obeysD])
next
  case Rebroadcast
  then show ?thesis by (blast intro: wf_same [OF _ assms(2)] calm_messages(4) [THEN obeysD])
next
  case Socket
  then show ?thesis by (blast intro: wf_same [OF _ assms(2)] calm_socket [THEN obeysD])
qed (blast intro: wf_create [OF assms(2)] wf_add [OF assms(2)] wf_leave [OF assms(2)] wf_destroyed [OF assms(2)])+

text \<open>
  C28: However the members use the messaging, a direct conversation always has
  exactly two participants, two direct conversations of a tenant never have the
  same two, and nobody takes part twice in a conversation.
\<close>

theorem direct_talks_unique:
  assumes runs: "talk_step\<^sup>*\<^sup>* k k'" and start: "conversations k = []" "participants k = []"
  shows "distinct (map conv_id (conversations k')) \<and>
    distinct (map (\<lambda>p. (part_conv p, user_id (part_user p))) (participants k')) \<and>
    list_all (\<lambda>c. conv_type c \<noteq> DirectTalk \<or>
      card {u. participates k' u (conv_id c)} = 2 \<and>
      list_all (\<lambda>c'. conv_type c' \<noteq> DirectTalk \<or> conv_tenant c' \<noteq> conv_tenant c \<or> conv_id c' = conv_id c \<or>
        {u. participates k' u (conv_id c')} \<noteq> {u. participates k' u (conv_id c)}) (conversations k')) (conversations k')"
proof -
  have "wf_talk k" using start by (simp add: wf_talk_def wf_shape_def shape_def)
  with runs have wf: "wf_talk k'" by (induction rule: rtranclp_induct) (auto intro: wf_step)
  have takers: "takers (snd (shape k')) i = {u. participates k' u i}" for i by (auto simp: takers_def shape_def)
  have key: "(conv_id c, conv_tenant c, DirectTalk) \<in> set (fst (shape k'))" if "c \<in> set (conversations k')" "conv_type c = DirectTalk" for c
    using that by (force simp: shape_def)
  have two: "card {u. participates k' u (conv_id c)} = 2" if "c \<in> set (conversations k')" "conv_type c = DirectTalk" for c
    using wf key [OF that] by (auto simp: wf_talk_def wf_shape_def case_prod_unfold simp flip: takers)
  have one: "conv_id c' = conv_id c" if "c \<in> set (conversations k')" "conv_type c = DirectTalk" "c' \<in> set (conversations k')"
      "conv_type c' = DirectTalk" "conv_tenant c' = conv_tenant c" "{u. participates k' u (conv_id c')} = {u. participates k' u (conv_id c)}" for c c'
    using wf key [OF that(1,2)] key [OF that(3,4)] that(5,6) unfolding wf_talk_def wf_shape_def case_prod_unfold takers [symmetric] by metis
  have "distinct (map conv_id (conversations k'))" "distinct (map (\<lambda>p. (part_conv p, user_id (part_user p))) (participants k'))"
    using wf by (simp_all add: wf_talk_def wf_shape_def shape_def comp_def)
  then show ?thesis using two one unfolding list_all_iff by blast
qed

definition demo_request :: conv_request where
  "demo_request = \<lparr>req_type = DirectTalk, req_name = [], req_user = Some 8, req_users = [], req_group = None, req_ticket = None\<rparr>"

definition demo_quiet :: talk where
  "demo_quiet = demo_talk\<lparr>conversations := [], participants := []\<rparr>"

definition demo_twice :: talk where
  "demo_twice = snd (create_conversation 1 demo_user demo_request (snd (create_conversation 1 demo_user demo_request demo_quiet)))"

lemma demo_once: "map (\<lambda>c. (conv_id c, conv_type c)) (conversations demo_twice) = [(100, DirectTalk)]"
  by code_simp

theorem direct_talks_unique_witness:
  "map conv_id (conversations demo_twice) = [100] \<and> card {u. participates demo_twice u 100} = 2"
proof -
  have "talk_step demo_quiet (snd (create_conversation 1 demo_user demo_request demo_quiet))"
    by (rule talk_step.Create [OF surjective_pairing])
  moreover have "talk_step (snd (create_conversation 1 demo_user demo_request demo_quiet)) demo_twice"
    unfolding demo_twice_def by (rule talk_step.Create [OF surjective_pairing])
  ultimately have runs: "talk_step\<^sup>*\<^sup>* demo_quiet demo_twice" by simp
  have start: "conversations demo_quiet = []" "participants demo_quiet = []" by (simp_all add: demo_quiet_def)
  obtain c where c: "conversations demo_twice = [c]" "conv_id c = 100" "conv_type c = DirectTalk"
    using demo_once by (cases "conversations demo_twice") auto
  then show ?thesis using direct_talks_unique [OF runs start] by simp
qed

end
