(* ===== verification/Crm_Reminders.thy ===== *)
theory Crm_Reminders
  imports Ticket_Tasks Access
begin

text \<open>
  CRM reminders (\<open>apps/crm\<close>): the rows and their derived status, the changes
  of a reminder and the live events they cause, the endpoints with the row
  restriction of agents, the task that alerts the owner when a reminder comes
  due and the scan for overdue reminders.  The titles and bodies of
  notifications are not modelled, their data are.
\<close>

section \<open>Rows\<close>

datatype reminder_priority = LowReminder | MediumReminder | HighReminder | UrgentReminder

record reminder =
  rem_id :: nat
  rem_tenant :: tenant_id
  rem_subject :: string
  rem_notes :: string
  scheduled_at :: instant
  completed_at :: "instant option"
  cancelled_at :: "instant option"
  due_notified_at :: "instant option"
  rem_priority :: reminder_priority
  rem_contacts :: "contact list"
  rem_tickets :: "nat list"
  rem_assignee :: "user option"
  rem_creator :: user
  rem_created :: instant
  rem_updated :: instant

datatype activity_type = CallActivity | EmailActivity | MeetingActivity | TaskActivity

record crm_activity =
  ca_id :: nat
  ca_tenant :: tenant_id
  ca_type :: activity_type
  ca_subject :: string
  ca_due :: "instant option"
  ca_completed :: "instant option"
  ca_outcome :: string
  ca_ticket :: "nat option"
  ca_contact :: "contact option"
  ca_creator :: user
  ca_assignee :: "user option"
  ca_created :: instant
  ca_updated :: instant

text \<open>The columns of a ticket that only the CRM reads or writes, and the accounts.\<close>

record deal_columns =
  ticket_type :: string
  deal_value :: "rat option"
  probability :: "int option"
  expected_close_date :: "date option"
  csat_submitted_at :: "instant option"
  ticket_account :: "nat option"
  ticket_last_activity :: "instant option"

record account =
  account_id :: nat
  account_tenant :: tenant_id
  health_score :: "nat option"

text \<open>
  The store of the CRM.  \<open>deal_of\<close> holds the further columns of the ticket
  with a primary key, \<open>account_of\<close> and \<open>lead_score\<close> those of a contact,
  \<open>stages\<close> are the stages of the pipelines in their order, with the
  probability of each.
\<close>

record crm =
  crm_desk :: desk
  reminders :: "reminder list"
  crm_activities :: "crm_activity list"
  accounts :: "account list"
  deal_of :: "nat \<Rightarrow> deal_columns"
  account_of :: "nat \<Rightarrow> nat option"
  lead_score :: "nat \<Rightarrow> nat option"
  pipelines :: "(nat \<times> tenant_id) list"
  stages :: "(pipeline_stage \<times> int) list"

type_synonym 'a crmop = "(crm, 'a) cmd"

definition at_desk :: "'a act \<Rightarrow> 'a crmop" where
  "at_desk c = (\<lambda>k. case c (crm_desk k) of (r, d') \<Rightarrow> (r, k\<lparr>crm_desk := d'\<rparr>))"

lemma run_at_desk [cmd_simps]: "at_desk c k = (fst (c (crm_desk k)), k\<lparr>crm_desk := snd (c (crm_desk k))\<rparr>)"
  by (simp add: at_desk_def split: prod.split)

abbreviation crm_clock :: "crm \<Rightarrow> instant" where
  "crm_clock k \<equiv> clock (base (crm_desk k))"

section \<open>The status of a reminder\<close>

definition overdue_reminder :: "instant \<Rightarrow> reminder \<Rightarrow> bool" where
  "overdue_reminder now r \<longleftrightarrow> scheduled_at r < now \<and> completed_at r = None \<and> cancelled_at r = None"

definition pending_reminder :: "reminder \<Rightarrow> bool" where
  "pending_reminder r \<longleftrightarrow> completed_at r = None \<and> cancelled_at r = None"

definition reminder_status :: "instant \<Rightarrow> reminder \<Rightarrow> string" where
  "reminder_status now r = (if completed_at r \<noteq> None then ''completed'' else if cancelled_at r \<noteq> None then ''cancelled''
     else if scheduled_at r < now then ''overdue'' else ''pending'')"

definition overdue_duration :: "instant \<Rightarrow> reminder \<Rightarrow> int option" where
  "overdue_duration now r = (if overdue_reminder now r then Some (now - scheduled_at r) else None)"

definition overdue_duration_seconds :: "instant \<Rightarrow> reminder \<Rightarrow> int option" where
  "overdue_duration_seconds now r = map_option (\<lambda>d. d div 1000000) (overdue_duration now r)"

definition overdue_display :: "instant \<Rightarrow> reminder \<Rightarrow> string option" where
  "overdue_display now r = (case overdue_duration_seconds now r of None \<Rightarrow> None
     | Some secs \<Rightarrow> Some (if secs < 3600 then show_nat (nat (secs div 60)) @ ''m overdue''
         else if secs < 86400 then show_nat (nat (secs div 3600)) @ ''h overdue''
         else show_nat (nat (secs div 86400)) @ ''d overdue''))"

fun priority_value :: "reminder_priority \<Rightarrow> string" where
  "priority_value LowReminder = ''low''"
| "priority_value MediumReminder = ''medium''"
| "priority_value HighReminder = ''high''"
| "priority_value UrgentReminder = ''urgent''"

section \<open>Saving and live events (\<open>signals.py\<close>)\<close>

definition serialise_reminder :: "instant \<Rightarrow> reminder \<Rightarrow> json" where
  "serialise_reminder now r = JObj
     [(''id'', jpk (rem_id r)), (''subject'', JStr (rem_subject r)), (''priority'', JStr (priority_value (rem_priority r))),
      (''scheduled_at'', jtime (scheduled_at r)), (''completed_at'', jopt jtime (completed_at r)),
      (''cancelled_at'', jopt jtime (cancelled_at r)), (''assigned_to'', jopt (\<lambda>u. jpk (user_id u)) (rem_assignee r)),
      (''status'', JStr (reminder_status now r)), (''created_at'', jtime (rem_created r)), (''updated_at'', jtime (rem_updated r))]"

definition reminder_verb :: "bool \<Rightarrow> reminder \<Rightarrow> string" where
  "reminder_verb created r = (if created then ''reminder.created'' else if completed_at r \<noteq> None then ''reminder.completed''
     else if cancelled_at r \<noteq> None then ''reminder.cancelled'' else ''reminder.updated'')"

definition broadcast_reminder_save :: "bool \<Rightarrow> reminder \<Rightarrow> unit crmop" where
  "broadcast_reminder_save created r = bindc (at_desk now_of) (\<lambda>now.
     at_desk (broadcast_live_event (rem_tenant r) (reminder_verb created r) (serialise_reminder now r)))"

text \<open>\<open>save(update_fields=...)\<close>: \<open>cols r row\<close> is the row with the named columns of the instance.\<close>

definition put_reminder :: "(reminder \<Rightarrow> reminder \<Rightarrow> reminder) \<Rightarrow> reminder \<Rightarrow> reminder crmop" where
  "put_reminder cols r = bindc (at_desk now_of) (\<lambda>now. let r' = r\<lparr>rem_updated := now\<rparr>
     in thenc (update (\<lambda>k. k\<lparr>reminders := map (\<lambda>row. if rem_id row = rem_id r
            then (cols r' row)\<lparr>rem_updated := now\<rparr> else row) (reminders k)\<rparr>))
       (thenc (broadcast_reminder_save False r') (ret r')))"

definition mark_completed :: "reminder \<Rightarrow> reminder crmop" where
  "mark_completed r = bindc (at_desk now_of) (\<lambda>now.
     put_reminder (\<lambda>i row. row\<lparr>completed_at := completed_at i\<rparr>) (r\<lparr>completed_at := Some now\<rparr>))"

definition mark_cancelled :: "reminder \<Rightarrow> reminder crmop" where
  "mark_cancelled r = bindc (at_desk now_of) (\<lambda>now.
     put_reminder (\<lambda>i row. row\<lparr>cancelled_at := cancelled_at i\<rparr>) (r\<lparr>cancelled_at := Some now\<rparr>))"

definition rescheduled_notes :: "string \<Rightarrow> string \<Rightarrow> string" where
  "rescheduled_notes notes note = (if note = [] then notes
     else strip (notes @ [CHR 0x0A] @ ''---'' @ [CHR 0x0A] @ ''Rescheduled: '' @ note))"

definition move_reminder :: "instant \<Rightarrow> string \<Rightarrow> reminder \<Rightarrow> reminder crmop" where
  "move_reminder time note r = put_reminder (\<lambda>i row. row\<lparr>scheduled_at := scheduled_at i, rem_notes := rem_notes i\<rparr>)
     (r\<lparr>scheduled_at := time, rem_notes := rescheduled_notes (rem_notes r) note\<rparr>)"

section \<open>Who sees which reminders (\<open>views.py\<close>)\<close>

text \<open>The user of the request, its tenant, and the address the request comes from.\<close>

record caller =
  caller_user :: user
  is_superuser :: bool
  caller_tenant :: tenant
  caller_request :: "request option"

abbreviation caller_ten :: "caller \<Rightarrow> tenant_id" where
  "caller_ten c \<equiv> tenant_id (caller_tenant c)"

definition owns_reminder :: "user \<Rightarrow> reminder \<Rightarrow> bool" where
  "owns_reminder u r \<longleftrightarrow> same_user (rem_assignee r) u \<or> user_id (rem_creator r) = user_id u"

definition restricted_caller :: "desk \<Rightarrow> caller \<Rightarrow> bool" where
  "restricted_caller d c \<longleftrightarrow> \<not> is_superuser c \<and> (case membership_of d (user_id (caller_user c)) (caller_ten c) of
     None \<Rightarrow> False | Some m \<Rightarrow> level_of d m > 20)"

definition base_reminders :: "caller \<Rightarrow> crm \<Rightarrow> reminder list" where
  "base_reminders c k = filter (\<lambda>r. rem_tenant r = caller_ten c \<and>
     (restricted_caller (crm_desk k) c \<longrightarrow> owns_reminder (caller_user c) r)) (reminders k)"

text \<open>The query parameters; an absent or empty one does not filter.\<close>

record reminder_query =
  q_assigned :: "user_id option"
  q_contact :: "nat option"
  q_ticket :: "nat option"
  q_priority :: "string option"
  q_mine :: bool
  q_after :: "instant option"
  q_before :: "instant option"
  q_queue :: "nat option"
  q_status :: "string option"

definition asked :: "'a option \<Rightarrow> ('a \<Rightarrow> bool) \<Rightarrow> bool" where
  "asked q p = (case q of None \<Rightarrow> True | Some a \<Rightarrow> p a)"

definition in_queue :: "store \<Rightarrow> nat \<Rightarrow> nat \<Rightarrow> bool" where
  "in_queue s q i = (case ticket_row i s of None \<Rightarrow> False | Some t \<Rightarrow> map_option queue_id (queue_of t) = Some q)"

definition status_filter :: "string option \<Rightarrow> instant \<Rightarrow> reminder \<Rightarrow> bool" where
  "status_filter st now r =
     (if st = Some ''overdue'' then scheduled_at r < now \<and> completed_at r = None \<and> cancelled_at r = None
      else if st = Some ''pending'' then now \<le> scheduled_at r \<and> completed_at r = None \<and> cancelled_at r = None
      else if st = Some ''completed'' then completed_at r \<noteq> None
      else if st = Some ''cancelled'' then cancelled_at r \<noteq> None
      else True)"

definition visible_reminders :: "caller \<Rightarrow> reminder_query \<Rightarrow> crm \<Rightarrow> reminder list" where
  "visible_reminders c q k = filter (\<lambda>r.
     asked (q_assigned q) (\<lambda>u. map_option user_id (rem_assignee r) = Some u) \<and>
     asked (q_contact q) (\<lambda>i. i \<in> set (map contact_id (rem_contacts r))) \<and>
     asked (q_ticket q) (\<lambda>i. i \<in> set (rem_tickets r)) \<and>
     asked (q_priority q) (\<lambda>p. priority_value (rem_priority r) = p) \<and>
     (\<not> q_mine q \<or> same_user (rem_assignee r) (caller_user c)) \<and>
     asked (q_after q) (\<lambda>t. t \<le> scheduled_at r) \<and> asked (q_before q) (\<lambda>t. scheduled_at r < t) \<and>
     asked (q_queue q) (\<lambda>i. list_ex (in_queue (base (crm_desk k)) i) (rem_tickets r)) \<and>
     status_filter (q_status q) (crm_clock k) r) (base_reminders c k)"

text \<open>\<open>get_object\<close>: the 404 of a row the caller does not see.\<close>

definition get_reminder :: "caller \<Rightarrow> reminder_query \<Rightarrow> nat \<Rightarrow> reminder crmop" where
  "get_reminder c q i = bindc (asks (\<lambda>k. first_row (\<lambda>r. rem_id r = i) (visible_reminders c q k))) (\<lambda>found.
     case found of None \<Rightarrow> raise_exc (DoesNotExist ''Reminder'') | Some r \<Rightarrow> ret r)"

definition overdue_list :: "caller \<Rightarrow> reminder_query \<Rightarrow> crm \<Rightarrow> reminder list" where
  "overdue_list c q k = sort_key scheduled_at (filter (overdue_reminder (crm_clock k)) (visible_reminders c q k))"

section \<open>The trail of a reminder\<close>

definition reminder_event :: "action \<Rightarrow> event" where
  "reminder_event a = (if a = AReminderCompleted then EReminderCompleted else EReminderSet)"

text \<open>\<open>TicketActivity.objects.create(...)\<close> on a ticket of the fan-out.\<close>

definition put_ticket_entry :: "event \<Rightarrow> user \<Rightarrow> (string \<times> json) list \<Rightarrow> ticket \<Rightarrow> unit crmop" where
  "put_ticket_entry e u metadata t = at_desk (on_base (update (\<lambda>s. s\<lparr>timeline := timeline s @
     [\<lparr>act_ticket = pk t, act_contact = map_option contact_id (contact_of t), act_actor = Some u, act_event = e,
       act_metadata = JObj metadata, act_at = clock s\<rparr>]\<rparr>)))"

definition best_try :: "unit crmop \<Rightarrow> unit crmop" where
  "best_try c = try_except c (\<lambda>_. ret ())"

text \<open>
  \<open>reminder.contacts\<close> and \<open>reminder.tickets\<close> go through the default managers
  of the related models: only rows of the tenant context, no deleted tickets.
\<close>

definition reminder_contacts :: "store \<Rightarrow> reminder \<Rightarrow> contact list" where
  "reminder_contacts s r = scoped s contact_tenant (rem_contacts r)"

definition reminder_tickets :: "store \<Rightarrow> reminder \<Rightarrow> ticket list" where
  "reminder_tickets s r = filter (\<lambda>t. pk t \<in> set (rem_tickets r) \<and> \<not> is_deleted t)
     (scoped s (\<lambda>t. tenant_id (ticket_tenant t)) (tickets s))"

definition reminder_timeline :: "caller \<Rightarrow> action \<Rightarrow> reminder \<Rightarrow> ticket list \<Rightarrow> unit crmop" where
  "reminder_timeline c a r ts = bindc (asks (\<lambda>k. reminder_contacts (base (crm_desk k)) r)) (\<lambda>cs.
     for_each ts (\<lambda>t _. best_try (put_ticket_entry (reminder_event a) (caller_user c)
       [(''reminder_id'', jpk (rem_id r)), (''scheduled_at'', jtime (scheduled_at r)),
        (''priority'', JStr (priority_value (rem_priority r))),
        (''contact_name'', case cs of [] \<Rightarrow> JNull | x # _ \<Rightarrow> JStr (contact_full_name x))] t)) ())"

definition log_reminder_audit :: "caller \<Rightarrow> action \<Rightarrow> (string \<times> json) list \<Rightarrow> reminder \<Rightarrow> unit crmop" where
  "log_reminder_audit c a changes r = best_try
     (thenc (at_desk (on_base (log_activity (caller_tenant c) (Some (caller_user c)) (OtherCT ''reminder'') (rem_id r) a
         (JObj changes) (caller_request c))))
       (bindc (asks (\<lambda>k. reminder_tickets (base (crm_desk k)) r)) (\<lambda>ts.
          if ts = [] then ret () else reminder_timeline c a r ts)))"

section \<open>The endpoints\<close>

text \<open>\<open>get_permissions\<close>: writes need an agent, deletes a manager.\<close>

definition api_of :: "caller \<Rightarrow> api_request" where
  "api_of c = \<lparr>req_user = Some (caller_user c), req_tenant = Some (caller_ten c)\<rparr>"

definition reminder_permission :: "desk \<Rightarrow> caller \<Rightarrow> string \<Rightarrow> bool" where
  "reminder_permission d c action =
     (if action \<in> {''create'', ''update'', ''partial_update'', ''complete'', ''cancel'', ''reschedule'', ''bulk_action''}
      then is_tenant_member d (api_of c) \<and> is_agent_or_above d (api_of c)
      else if action = ''destroy'' then is_tenant_member d (api_of c) \<and> is_tenant_admin_or_manager d (api_of c)
      else is_tenant_member d (api_of c))"

definition permitted :: "caller \<Rightarrow> string \<Rightarrow> 'a crmop \<Rightarrow> 'a crmop" where
  "permitted c action cmd = bindc (asks (\<lambda>k. reminder_permission (crm_desk k) c action)) (\<lambda>ok.
     if ok then cmd else raise_exc (PermissionDenied action))"

text \<open>The validated body of a creation; the users, contacts and tickets it names exist.\<close>

record reminder_body =
  rb_subject :: string
  rb_notes :: string
  rb_scheduled :: instant
  rb_priority :: reminder_priority
  rb_contacts :: "contact list"
  rb_tickets :: "nat list"
  rb_assignee :: "user option"

text \<open>The row is inserted, and broadcast, before its contacts and tickets are set.\<close>

definition insert_reminder :: "caller \<Rightarrow> reminder_body \<Rightarrow> reminder crmop" where
  "insert_reminder c b = bindc (at_desk fresh_pk) (\<lambda>i. bindc (at_desk now_of) (\<lambda>now.
     let row = \<lparr>rem_id = i, rem_tenant = caller_ten c, rem_subject = rb_subject b, rem_notes = rb_notes b,
           scheduled_at = rb_scheduled b, completed_at = None, cancelled_at = None, due_notified_at = None,
           rem_priority = rb_priority b, rem_contacts = [], rem_tickets = [], rem_assignee = rb_assignee b,
           rem_creator = caller_user c, rem_created = now, rem_updated = now\<rparr>;
         full = row\<lparr>rem_contacts := rb_contacts b, rem_tickets := rb_tickets b\<rparr>
     in thenc (update (\<lambda>k. k\<lparr>reminders := reminders k @ [row]\<rparr>))
        (thenc (broadcast_reminder_save True row)
        (thenc (update (\<lambda>k. k\<lparr>reminders := map (\<lambda>r. if rem_id r = i then full else r) (reminders k)\<rparr>))
          (ret full)))))"

definition create_reminder :: "caller \<Rightarrow> reminder_body \<Rightarrow> reminder crmop" where
  "create_reminder c b = permitted c ''create'' (bindc (insert_reminder c b) (\<lambda>r.
     thenc (log_reminder_audit c AReminderCreated [] r) (ret r)))"

text \<open>An update with the parts of the body it names; every column is saved, then the relations are set.\<close>

record reminder_patch =
  rp_subject :: "string option"
  rp_notes :: "string option"
  rp_scheduled :: "instant option"
  rp_priority :: "reminder_priority option"
  rp_contacts :: "contact list option"
  rp_tickets :: "nat list option"
  rp_assignee :: "user option option"

definition named :: "'a option \<Rightarrow> 'a \<Rightarrow> 'a" where
  "named new old = (case new of None \<Rightarrow> old | Some v \<Rightarrow> v)"

definition patch_columns :: "reminder_patch \<Rightarrow> reminder \<Rightarrow> reminder" where
  "patch_columns p r = r\<lparr>rem_subject := named (rp_subject p) (rem_subject r), rem_notes := named (rp_notes p) (rem_notes r),
     scheduled_at := named (rp_scheduled p) (scheduled_at r), rem_priority := named (rp_priority p) (rem_priority r),
     rem_assignee := named (rp_assignee p) (rem_assignee r)\<rparr>"

definition patch_relations :: "reminder_patch \<Rightarrow> reminder \<Rightarrow> reminder" where
  "patch_relations p r = r\<lparr>rem_contacts := named (rp_contacts p) (rem_contacts r), rem_tickets := named (rp_tickets p) (rem_tickets r)\<rparr>"

definition update_reminder :: "caller \<Rightarrow> reminder_query \<Rightarrow> nat \<Rightarrow> reminder_patch \<Rightarrow> reminder crmop" where
  "update_reminder c q i p = permitted c ''partial_update'' (bindc (get_reminder c q i) (\<lambda>r.
     bindc (put_reminder (\<lambda>x row. x\<lparr>rem_contacts := rem_contacts row, rem_tickets := rem_tickets row\<rparr>) (patch_columns p r)) (\<lambda>r1.
     thenc (update (\<lambda>k. k\<lparr>reminders := map (\<lambda>row. if rem_id row = i then patch_relations p row else row) (reminders k)\<rparr>))
       (ret (patch_relations p r1)))))"

definition destroy_reminder :: "caller \<Rightarrow> reminder_query \<Rightarrow> nat \<Rightarrow> unit crmop" where
  "destroy_reminder c q i = permitted c ''destroy'' (bindc (get_reminder c q i) (\<lambda>r.
     thenc (update (\<lambda>k. k\<lparr>reminders := filter (\<lambda>row. rem_id row \<noteq> i) (reminders k)\<rparr>))
       (at_desk (broadcast_live_event (rem_tenant r) ''reminder.deleted'' (JObj [(''id'', jpk i)])))))"

definition bad_request :: "string \<Rightarrow> 'a crmop" where
  "bad_request detail = raise_exc (ValidationError detail)"

definition complete_reminder :: "caller \<Rightarrow> reminder_query \<Rightarrow> nat \<Rightarrow> reminder crmop" where
  "complete_reminder c q i = permitted c ''complete'' (bindc (get_reminder c q i) (\<lambda>r.
     if completed_at r \<noteq> None then bad_request ''Reminder is already completed.''
     else if cancelled_at r \<noteq> None then bad_request ''Cannot complete a cancelled reminder.''
     else bindc (mark_completed r) (\<lambda>r'. thenc (log_reminder_audit c AReminderCompleted [] r') (ret r'))))"

definition cancel_reminder :: "caller \<Rightarrow> reminder_query \<Rightarrow> nat \<Rightarrow> reminder crmop" where
  "cancel_reminder c q i = permitted c ''cancel'' (bindc (get_reminder c q i) (\<lambda>r.
     if completed_at r \<noteq> None then bad_request ''Cannot cancel a completed reminder.''
     else if cancelled_at r \<noteq> None then bad_request ''Reminder is already cancelled.''
     else bindc (mark_cancelled r) (\<lambda>r'. thenc (log_reminder_audit c AReminderCancelled [] r') (ret r'))))"

definition reschedule_reminder :: "caller \<Rightarrow> reminder_query \<Rightarrow> nat \<Rightarrow> instant \<Rightarrow> string \<Rightarrow> reminder crmop" where
  "reschedule_reminder c q i time note = permitted c ''reschedule'' (bindc (get_reminder c q i) (\<lambda>r.
     if completed_at r \<noteq> None then bad_request ''Cannot reschedule a completed reminder.''
     else bindc (move_reminder time note r) (\<lambda>r'. thenc (log_reminder_audit c AReminderRescheduled
        [(''scheduled_at'', JList [jtime (scheduled_at r), jtime (scheduled_at r')])] r') (ret r'))))"

section \<open>Bulk actions\<close>

datatype reminder_bulk = BulkComplete | BulkCancel | BulkReschedule instant | BulkReassign user_id

text \<open>Which of the chosen rows an action changes, and how; nobody is told.\<close>

definition bulk_applies :: "reminder_bulk \<Rightarrow> reminder \<Rightarrow> bool" where
  "bulk_applies b r = (case b of
     BulkComplete \<Rightarrow> pending_reminder r
   | BulkCancel \<Rightarrow> pending_reminder r
   | BulkReschedule time \<Rightarrow> completed_at r = None
   | BulkReassign u \<Rightarrow> True)"

definition bulk_change :: "reminder_bulk \<Rightarrow> instant \<Rightarrow> user option \<Rightarrow> reminder \<Rightarrow> reminder" where
  "bulk_change b now target r = (case b of
     BulkComplete \<Rightarrow> r\<lparr>completed_at := Some now, rem_updated := now\<rparr>
   | BulkCancel \<Rightarrow> r\<lparr>cancelled_at := Some now, rem_updated := now\<rparr>
   | BulkReschedule time \<Rightarrow> r\<lparr>scheduled_at := time, rem_updated := now\<rparr>
   | BulkReassign u \<Rightarrow> r\<lparr>rem_assignee := target, rem_updated := now\<rparr>)"

definition reassign_target :: "reminder_bulk \<Rightarrow> caller \<Rightarrow> desk \<Rightarrow> user option" where
  "reassign_target b c d = (case b of
     BulkReassign u \<Rightarrow> if is_member_of d u (caller_ten c) then first_row (\<lambda>x. user_id x = u) (users (base d)) else None
   | _ \<Rightarrow> None)"

definition is_reassign :: "reminder_bulk \<Rightarrow> bool" where
  "is_reassign b = (case b of BulkReassign _ \<Rightarrow> True | _ \<Rightarrow> False)"

definition bulk_update :: "reminder_bulk \<Rightarrow> user option \<Rightarrow> nat list \<Rightarrow> nat crmop" where
  "bulk_update b target ids = bindc (at_desk now_of) (\<lambda>now.
     bindc (asks (\<lambda>k. length (filter (\<lambda>r. rem_id r \<in> set ids \<and> bulk_applies b r) (reminders k)))) (\<lambda>n.
     thenc (update (\<lambda>k. k\<lparr>reminders := map (\<lambda>r. if rem_id r \<in> set ids \<and> bulk_applies b r
          then bulk_change b now target r else r) (reminders k)\<rparr>))
       (ret n)))"

definition bulk_reminders :: "caller \<Rightarrow> reminder_bulk \<Rightarrow> nat list \<Rightarrow> nat crmop" where
  "bulk_reminders c b ids = permitted c ''bulk_action''
     (bindc (asks (\<lambda>k. length (filter (\<lambda>r. rem_id r \<in> set ids) (base_reminders c k)))) (\<lambda>found_count.
      if found_count \<noteq> length ids then raise_exc (DoesNotExist ''Some reminders not found or access denied.'')
      else bindc (asks (\<lambda>k. reassign_target b c (crm_desk k))) (\<lambda>target.
        if is_reassign b \<and> target = None then bad_request ''Target user is not an active member of this tenant.''
        else bulk_update b target ids)))"

section \<open>The tasks (\<open>tasks.py\<close>)\<close>

definition reminder_due :: "instant \<Rightarrow> reminder \<Rightarrow> bool" where
  "reminder_due now r \<longleftrightarrow> scheduled_at r \<le> now \<and> completed_at r = None \<and> cancelled_at r = None \<and>
     (case due_notified_at r of None \<Rightarrow> True | Some t \<Rightarrow> t < scheduled_at r)"

definition due_reminders :: "instant \<Rightarrow> tenant_id \<Rightarrow> crm \<Rightarrow> reminder list" where
  "due_reminders now ten k = filter (\<lambda>r. rem_tenant r = ten \<and> reminder_due now r) (reminders k)"

definition reminder_owner :: "reminder \<Rightarrow> user" where
  "reminder_owner r = (case rem_assignee r of Some u \<Rightarrow> u | None \<Rightarrow> rem_creator r)"

definition stamp_due :: "nat \<Rightarrow> instant \<Rightarrow> unit crmop" where
  "stamp_due i now = update (\<lambda>k. k\<lparr>reminders := map (\<lambda>r. if rem_id r = i then r\<lparr>due_notified_at := Some now\<rparr> else r) (reminders k)\<rparr>)"

definition due_data :: "contact list \<Rightarrow> reminder \<Rightarrow> json" where
  "due_data cs r = JObj [(''reminder_id'', jpk (rem_id r)), (''contact_ids'', JList (map (\<lambda>c. jpk (contact_id c)) cs)),
     (''priority'', JStr (priority_value (rem_priority r))), (''scheduled_at'', jtime (scheduled_at r)), (''url'', JStr ''/reminders/'')]"

text \<open>The claim first, then the notice and the live event; a failure is logged.\<close>

definition fire_reminder :: "tenant_id \<Rightarrow> instant \<Rightarrow> reminder \<Rightarrow> unit crmop" where
  "fire_reminder ten now r = best_try
     (thenc (stamp_due (rem_id r) now)
     (thenc (bindc (asks (\<lambda>k. reminder_contacts (base (crm_desk k)) r)) (\<lambda>cs. at_desk (notify ten (reminder_owner r) NReminderDue (due_data cs r))))
       (at_desk (broadcast_live_event ten ''reminder.due'' (JObj [(''id'', jpk (rem_id r)), (''subject'', JStr (rem_subject r)),
         (''priority'', JStr (priority_value (rem_priority r))), (''scheduled_at'', jtime (scheduled_at r)),
         (''recipient_id'', jpk (user_id (reminder_owner r)))])))))"

definition fire_tenant_reminders :: "instant \<Rightarrow> tenant_id \<Rightarrow> unit crmop" where
  "fire_tenant_reminders now ten = best_try (bindc (asks (due_reminders now ten)) (\<lambda>rs.
     for_each rs (\<lambda>r _. fire_reminder ten now r) ()))"

definition active_tenants :: "crm \<Rightarrow> tenant list" where
  "active_tenants k = filter tenant_active (tenants (crm_desk k))"

definition fire_due_reminders :: "unit crmop" where
  "fire_due_reminders = bindc (at_desk now_of) (\<lambda>now. bindc (asks active_tenants) (\<lambda>ts.
     for_each ts (\<lambda>t _. fire_tenant_reminders now (tenant_id t)) ()))"

definition told_overdue :: "desk \<Rightarrow> tenant_id \<Rightarrow> instant \<Rightarrow> user \<Rightarrow> reminder \<Rightarrow> bool" where
  "told_overdue d ten now u r \<longleftrightarrow> (\<exists>n \<in> set (notifications d). notif_tenant n = ten \<and> notif_recipient n = user_id u \<and>
     notif_type n = NReminderOverdue \<and> jget_or_null (notif_data n) ''reminder_id'' = jpk (rem_id r) \<and> now - day_us \<le> notif_at n)"

definition escalation_data :: "reminder \<Rightarrow> json" where
  "escalation_data r = JObj [(''reminder_id'', jpk (rem_id r)), (''escalation'', JBool True), (''url'', JStr ''/reminders/'')]"

definition escalate_overdue_reminder :: "tenant_id \<Rightarrow> instant \<Rightarrow> reminder \<Rightarrow> unit crmop" where
  "escalate_overdue_reminder ten now r =
     bindc (asks (\<lambda>k. filter (\<lambda>m. \<not> same_user (rem_assignee r) (member_user m)) (supervisors (base (crm_desk k)) ten))) (\<lambda>ms.
       for_each ms (\<lambda>m _. bindc (asks (\<lambda>k. told_overdue (crm_desk k) ten now (member_user m) r)) (\<lambda>already.
         if already then ret () else at_desk (notify ten (member_user m) NReminderOverdue (escalation_data r)))) ())"

definition overdue_data :: "contact list \<Rightarrow> reminder \<Rightarrow> json" where
  "overdue_data cs r = JObj [(''reminder_id'', jpk (rem_id r)), (''contact_ids'', JList (map (\<lambda>c. jpk (contact_id c)) cs)),
     (''url'', JStr ''/reminders/'')]"

definition nag_overdue :: "tenant_id \<Rightarrow> instant \<Rightarrow> reminder \<Rightarrow> unit crmop" where
  "nag_overdue ten now r = (case rem_assignee r of
     None \<Rightarrow> ret ()
   | Some u \<Rightarrow> bindc (asks (\<lambda>k. told_overdue (crm_desk k) ten now u r)) (\<lambda>already.
       if already then ret ()
       else thenc (bindc (asks (\<lambda>k. reminder_contacts (base (crm_desk k)) r)) (\<lambda>cs. at_desk (notify ten u NReminderOverdue (overdue_data cs r))))
         (if scheduled_at r < now - day_us then escalate_overdue_reminder ten now r else ret ())))"

definition check_tenant_reminders :: "instant \<Rightarrow> tenant_id \<Rightarrow> unit crmop" where
  "check_tenant_reminders now ten = best_try
     (bindc (asks (\<lambda>k. filter (\<lambda>r. rem_tenant r = ten \<and> overdue_reminder now r) (reminders k))) (\<lambda>rs.
       for_each rs (\<lambda>r _. nag_overdue ten now r) ()))"

definition check_overdue_reminders :: "unit crmop" where
  "check_overdue_reminders = bindc (at_desk now_of) (\<lambda>now. bindc (asks active_tenants) (\<lambda>ts.
     for_each ts (\<lambda>t _. check_tenant_reminders now (tenant_id t)) ()))"

text \<open>A caller for the demonstrations.\<close>

definition demo_caller :: caller where
  "demo_caller = \<lparr>caller_user = demo_user, is_superuser = False, caller_tenant = demo_tenant, caller_request = None\<rparr>"

end
