(* ===== verification/Crm_Scores.thy ===== *)
theory Crm_Scores
  imports Crm_Reminders
begin

text \<open>
  CRM activities with the trail of a call, the figures of the reminder board,
  the nightly lead and health scores, and the revenue forecast of a pipeline
  (\<open>apps/crm/views.py\<close>, \<open>tasks.py\<close>).  A decimal and an average are the
  rational they denote.
\<close>

section \<open>Activities\<close>

fun activity_value :: "activity_type \<Rightarrow> string" where
  "activity_value CallActivity = ''call''"
| "activity_value EmailActivity = ''email''"
| "activity_value MeetingActivity = ''meeting''"
| "activity_value TaskActivity = ''task''"

definition serialise_activity :: "crm_activity \<Rightarrow> json" where
  "serialise_activity a = JObj
     [(''id'', jpk (ca_id a)), (''type'', JStr (activity_value (ca_type a))), (''subject'', JStr (ca_subject a)),
      (''due_at'', jopt jtime (ca_due a)), (''completed_at'', jopt jtime (ca_completed a)), (''outcome'', JStr (ca_outcome a)),
      (''ticket_id'', jopt jpk (ca_ticket a)), (''contact_id'', jopt (\<lambda>c. jpk (contact_id c)) (ca_contact a)),
      (''assigned_to'', jopt (\<lambda>u. jpk (user_id u)) (ca_assignee a)), (''created_at'', jtime (ca_created a)),
      (''updated_at'', jtime (ca_updated a))]"

definition broadcast_activity_save :: "bool \<Rightarrow> crm_activity \<Rightarrow> unit crmop" where
  "broadcast_activity_save created a = at_desk (broadcast_live_event (ca_tenant a)
     (if created then ''activity.created'' else ''activity.updated'') (serialise_activity a))"

text \<open>\<open>get_permissions\<close> of the activities, as of the reminders.\<close>

definition touch_ticket :: "crm_activity \<Rightarrow> unit crmop" where
  "touch_ticket a = (case ca_ticket a of None \<Rightarrow> ret ()
     | Some i \<Rightarrow> bindc (at_desk now_of) (\<lambda>now. update (\<lambda>k. if ticket_row i (base (crm_desk k)) = None then k
         else k\<lparr>deal_of := (deal_of k)(i := (deal_of k i)\<lparr>ticket_last_activity := Some now\<rparr>)\<rparr>)))"

definition call_timeline :: "caller \<Rightarrow> bool \<Rightarrow> crm_activity \<Rightarrow> unit crmop" where
  "call_timeline c just_completed a = (case ca_ticket a of None \<Rightarrow> ret ()
     | Some i \<Rightarrow> best_try (bindc (asks (\<lambda>k. ticket_row i (base (crm_desk k)))) (\<lambda>found. case found of None \<Rightarrow> ret ()
         | Some t \<Rightarrow> put_ticket_entry (if just_completed then EOutboundCallCompleted else EOutboundCall) (caller_user c)
             [(''activity_id'', jpk (ca_id a)), (''contact_name'', jopt (\<lambda>x. JStr (contact_full_name x)) (ca_contact a))] t)))"

definition log_activity_audit :: "caller \<Rightarrow> bool \<Rightarrow> bool \<Rightarrow> crm_activity \<Rightarrow> unit crmop" where
  "log_activity_audit c is_new just_completed a =
     (let audit = (\<lambda>act. at_desk (on_base (log_activity (caller_tenant c) (Some (caller_user c)) (OtherCT ''activity'') (ca_id a) act
           (JObj []) (caller_request c))))
      in best_try (if ca_type a = CallActivity
           then thenc (audit (if just_completed then AOutboundCallCompleted else AOutboundCallLogged)) (call_timeline c just_completed a)
           else if is_new then audit ACreated else ret ()))"

record activity_body =
  ab_type :: activity_type
  ab_subject :: string
  ab_due :: "instant option"
  ab_completed :: "instant option"
  ab_outcome :: string
  ab_ticket :: "nat option"
  ab_contact :: "contact option"
  ab_assignee :: "user option"

definition create_activity :: "caller \<Rightarrow> activity_body \<Rightarrow> crm_activity crmop" where
  "create_activity c b = permitted c ''create'' (bindc (at_desk fresh_pk) (\<lambda>i. bindc (at_desk now_of) (\<lambda>now.
     let a = \<lparr>ca_id = i, ca_tenant = caller_ten c, ca_type = ab_type b, ca_subject = ab_subject b, ca_due = ab_due b,
           ca_completed = ab_completed b, ca_outcome = ab_outcome b, ca_ticket = ab_ticket b, ca_contact = ab_contact b,
           ca_creator = caller_user c, ca_assignee = ab_assignee b, ca_created = now, ca_updated = now\<rparr>
     in thenc (update (\<lambda>k. k\<lparr>crm_activities := crm_activities k @ [a]\<rparr>))
        (thenc (broadcast_activity_save True a)
        (thenc (touch_ticket a)
        (thenc (log_activity_audit c True False a) (ret a)))))))"

text \<open>The query parameters of the list of activities.\<close>

record activity_query =
  qa_ticket :: "nat option"
  qa_contact :: "nat option"
  qa_type :: "string option"
  qa_assigned :: "user_id option"
  qa_before :: "instant option"
  qa_after :: "instant option"

definition list_activities :: "caller \<Rightarrow> activity_query \<Rightarrow> crm \<Rightarrow> crm_activity list" where
  "list_activities c q k = filter (\<lambda>a. ca_tenant a = caller_ten c \<and>
     asked (qa_ticket q) (\<lambda>i. ca_ticket a = Some i) \<and>
     asked (qa_contact q) (\<lambda>i. map_option contact_id (ca_contact a) = Some i) \<and>
     asked (qa_type q) (\<lambda>s. activity_value (ca_type a) = s) \<and>
     asked (qa_assigned q) (\<lambda>u. map_option user_id (ca_assignee a) = Some u) \<and>
     asked (qa_before q) (\<lambda>t. case ca_due a of None \<Rightarrow> False | Some d \<Rightarrow> d < t) \<and>
     asked (qa_after q) (\<lambda>t. case ca_due a of None \<Rightarrow> False | Some d \<Rightarrow> t \<le> d)) (crm_activities k)"

text \<open>The instance an update is given, with the columns of the body written to it.\<close>

definition update_activity :: "caller \<Rightarrow> activity_query \<Rightarrow> nat \<Rightarrow> (crm_activity \<Rightarrow> crm_activity) \<Rightarrow> crm_activity crmop" where
  "update_activity c q i change = permitted c ''partial_update''
     (bindc (asks (\<lambda>k. first_row (\<lambda>a. ca_id a = i) (list_activities c q k))) (\<lambda>found. case found of
        None \<Rightarrow> raise_exc (DoesNotExist ''Activity'')
      | Some old \<Rightarrow> bindc (at_desk now_of) (\<lambda>now. let a = (change old)\<lparr>ca_updated := now\<rparr>
          in thenc (update (\<lambda>k. k\<lparr>crm_activities := map (\<lambda>x. if ca_id x = i then a else x) (crm_activities k)\<rparr>))
             (thenc (broadcast_activity_save False a)
             (thenc (touch_ticket a)
             (thenc (if ca_completed a \<noteq> None \<and> ca_completed old = None then log_activity_audit c False True a else ret ())
               (ret a)))))))"

definition destroy_activity :: "caller \<Rightarrow> activity_query \<Rightarrow> nat \<Rightarrow> unit crmop" where
  "destroy_activity c q i = permitted c ''destroy''
     (bindc (asks (\<lambda>k. first_row (\<lambda>a. ca_id a = i) (list_activities c q k))) (\<lambda>found. case found of
        None \<Rightarrow> raise_exc (DoesNotExist ''Activity'')
      | Some a \<Rightarrow> thenc (update (\<lambda>k. k\<lparr>crm_activities := filter (\<lambda>x. ca_id x \<noteq> i) (crm_activities k)\<rparr>))
          (at_desk (broadcast_live_event (ca_tenant a) ''activity.deleted'' (JObj [(''id'', jpk i)])))))"

text \<open>The queue of the calling agent: open activities, overdue follow-ups, overdue reminders.\<close>

definition my_activities :: "caller \<Rightarrow> crm \<Rightarrow> crm_activity list" where
  "my_activities c k = filter (\<lambda>a. ca_tenant a = caller_ten c \<and> same_user (ca_assignee a) (caller_user c) \<and> ca_completed a = None)
     (crm_activities k)"

definition not_closed :: "store \<Rightarrow> tenant_id \<Rightarrow> ticket \<Rightarrow> bool" where
  "not_closed s ten t = (case status t of None \<Rightarrow> True | Some st \<Rightarrow> status_id st \<notin> set (Ticket_Tasks.closed_status_ids s ten))"

definition my_followups :: "caller \<Rightarrow> crm \<Rightarrow> ticket list" where
  "my_followups c k = (let s = base (crm_desk k)
     in sort_key (\<lambda>t. the (follow_up_due_at t)) (filter (\<lambda>t. tenant_id (ticket_tenant t) = caller_ten c \<and> \<not> is_deleted t \<and> same_user (assignee t) (caller_user c) \<and>
          (case follow_up_due_at t of None \<Rightarrow> False | Some x \<Rightarrow> x < clock s) \<and>
          not_closed s (caller_ten c) t) (tickets s)))"

definition my_overdue :: "caller \<Rightarrow> crm \<Rightarrow> reminder list" where
  "my_overdue c k = filter (\<lambda>r. rem_tenant r = caller_ten c \<and> overdue_reminder (crm_clock k) r \<and>
     same_user (rem_assignee r) (caller_user c)) (reminders k)"

section \<open>The figures of the board\<close>

text \<open>\<open>values(f).annotate(count=Count("id")).order_by("-count")\<close>\<close>

definition counted :: "('a \<Rightarrow> 'b) \<Rightarrow> 'a list \<Rightarrow> ('b \<times> nat) list" where
  "counted f xs = sort_key (\<lambda>p. - int (snd p)) (map (\<lambda>b. (b, length (filter (\<lambda>x. f x = b) xs))) (rev (remdups (rev (map f xs)))))"

record reminder_stats =
  total_overdue :: nat
  mine_overdue :: nat
  pending_count :: nat
  due_today :: nat
  completed_today :: nat
  by_assignee :: "(user_id option \<times> nat) list"
  by_priority :: "(reminder_priority \<times> nat) list"
  avg_overdue_seconds :: "int option"

definition stats_of :: "caller \<Rightarrow> reminder_query \<Rightarrow> crm \<Rightarrow> reminder_stats" where
  "stats_of c q k = (let now = crm_clock k; rs = visible_reminders c q k; late = filter (overdue_reminder now) rs;
       today = start_of_day now; secs = sum_list (map (\<lambda>r. now - scheduled_at r) late)
     in \<lparr>total_overdue = length late,
         mine_overdue = length (filter (\<lambda>r. same_user (rem_assignee r) (caller_user c)) late),
         pending_count = length (filter (\<lambda>r. completed_at r = None \<and> cancelled_at r = None \<and> now \<le> scheduled_at r) rs),
         due_today = length (filter (\<lambda>r. completed_at r = None \<and> cancelled_at r = None \<and> today \<le> scheduled_at r \<and>
           scheduled_at r < today + day_us) rs),
         completed_today = length (filter (\<lambda>r. case completed_at r of None \<Rightarrow> False | Some t \<Rightarrow> today \<le> t) rs),
         by_assignee = counted (\<lambda>r. map_option user_id (rem_assignee r)) late,
         by_priority = counted rem_priority late,
         avg_overdue_seconds = (if late = [] then None else Some (secs div (1000000 * int (length late))))\<rparr>)"

section \<open>Lead scores\<close>

definition days_ago :: "int \<Rightarrow> instant \<Rightarrow> instant" where
  "days_ago n now = now - n * day_us"

definition since :: "instant \<Rightarrow> instant option \<Rightarrow> bool" where
  "since t x = (case x of None \<Rightarrow> False | Some a \<Rightarrow> t \<le> a)"

definition recent_event :: "instant \<Rightarrow> tenant_id \<Rightarrow> crm \<Rightarrow> nat \<Rightarrow> bool" where
  "recent_event now ten k i \<longleftrightarrow> (\<exists>e \<in> set (contact_events (base (crm_desk k))). ce_tenant e = ten \<and> ce_contact e = i \<and>
     days_ago 7 now \<le> ce_at e)"

definition completed_activity :: "instant \<Rightarrow> tenant_id \<Rightarrow> crm \<Rightarrow> nat \<Rightarrow> bool" where
  "completed_activity now ten k i \<longleftrightarrow> (\<exists>a \<in> set (crm_activities k). ca_tenant a = ten \<and> map_option contact_id (ca_contact a) = Some i \<and>
     since (days_ago 14 now) (ca_completed a))"

text \<open>\<open>Ticket.unscoped\<close> also finds deleted tickets.\<close>

definition ticket_with :: "(ticket \<Rightarrow> deal_columns \<Rightarrow> bool) \<Rightarrow> tenant_id \<Rightarrow> crm \<Rightarrow> bool" where
  "ticket_with p ten k \<longleftrightarrow> (\<exists>t \<in> set (tickets (base (crm_desk k))). tenant_id (ticket_tenant t) = ten \<and> p t (deal_of k (pk t)))"

definition open_deal :: "tenant_id \<Rightarrow> crm \<Rightarrow> nat \<Rightarrow> bool" where
  "open_deal ten k i = ticket_with (\<lambda>t x. ticket_type x = ''deal'' \<and> not_closed (base (crm_desk k)) ten t \<and>
     map_option contact_id (contact_of t) = Some i) ten k"

definition bad_csat :: "instant \<Rightarrow> tenant_id \<Rightarrow> crm \<Rightarrow> nat \<Rightarrow> bool" where
  "bad_csat now ten k i = ticket_with (\<lambda>t x. (case csat_rating t of None \<Rightarrow> False | Some r \<Rightarrow> r \<le> 2) \<and>
     since (days_ago 90 now) (csat_submitted_at x) \<and> map_option contact_id (contact_of t) = Some i) ten k"

definition lead_points :: "bool \<Rightarrow> bool \<Rightarrow> bool \<Rightarrow> bool \<Rightarrow> bool \<Rightarrow> int" where
  "lead_points event activity deal quiet csat = 50 + (if event then 20 else 0) + (if activity then 15 else 0)
     + (if deal then 10 else 0) - (if quiet then 20 else 0) - (if csat then 15 else 0)"

definition clamp_score :: "int \<Rightarrow> nat" where
  "clamp_score n = nat (max 0 (min 100 n))"

definition lead_score_of :: "instant \<Rightarrow> tenant_id \<Rightarrow> crm \<Rightarrow> contact \<Rightarrow> nat" where
  "lead_score_of now ten k c = (let i = contact_id c in clamp_score (lead_points (recent_event now ten k i) (completed_activity now ten k i)
     (open_deal ten k i) (\<not> since (days_ago 30 now) (last_activity_at c)) (bad_csat now ten k i)))"

definition score_leads :: "instant \<Rightarrow> tenant_id \<Rightarrow> unit crmop" where
  "score_leads now ten = update (\<lambda>k. k\<lparr>lead_score := (\<lambda>i.
     case first_row (\<lambda>c. contact_id c = i \<and> contact_tenant c = ten) (contacts (base (crm_desk k))) of
       None \<Rightarrow> lead_score k i | Some c \<Rightarrow> Some (lead_score_of now ten k c))\<rparr>)"

definition calculate_lead_scores :: "unit crmop" where
  "calculate_lead_scores = bindc (at_desk now_of) (\<lambda>now. bindc (asks active_tenants) (\<lambda>ts.
     for_each ts (\<lambda>t _. score_leads now (tenant_id t)) ()))"

section \<open>Health scores\<close>

definition account_contact :: "crm \<Rightarrow> nat \<Rightarrow> ticket \<Rightarrow> bool" where
  "account_contact k a t = (case contact_of t of None \<Rightarrow> False | Some c \<Rightarrow> account_of k (contact_id c) = Some a)"

definition account_ratings :: "instant \<Rightarrow> tenant_id \<Rightarrow> crm \<Rightarrow> nat \<Rightarrow> nat list" where
  "account_ratings now ten k a = List.map_filter csat_rating (filter (\<lambda>t. tenant_id (ticket_tenant t) = ten \<and>
     account_contact k a t \<and> since (days_ago 90 now) (csat_submitted_at (deal_of k (pk t)))) (tickets (base (crm_desk k))))"

definition csat_points :: "nat list \<Rightarrow> rat" where
  "csat_points rs = (if rs = [] then 0 else (of_nat (sum_list rs) / of_nat (length rs) - 1) / 4 * 40)"

definition active_deal :: "instant \<Rightarrow> tenant_id \<Rightarrow> crm \<Rightarrow> nat \<Rightarrow> bool" where
  "active_deal now ten k a = ticket_with (\<lambda>t x. ticket_account x = Some a \<and> ticket_type x = ''deal'' \<and>
     (case ticket_stage t of None \<Rightarrow> False | Some st \<Rightarrow> \<not> is_won st) \<and>
     (case expected_close_date x of None \<Rightarrow> False | Some d \<Rightarrow> now div day_us < d) \<and> not_closed (base (crm_desk k)) ten t) ten k"

definition breached_lately :: "instant \<Rightarrow> tenant_id \<Rightarrow> crm \<Rightarrow> nat \<Rightarrow> bool" where
  "breached_lately now ten k a = ticket_with (\<lambda>t x. account_contact k a t \<and> days_ago 30 now \<le> updated_at t \<and>
     (sla_response_breached t \<or> sla_resolution_breached t)) ten k"

text \<open>The contacts of an account, through the manager the reverse relation uses.\<close>

definition lively_account :: "instant \<Rightarrow> crm \<Rightarrow> nat \<Rightarrow> bool" where
  "lively_account now k a \<longleftrightarrow> (let s = base (crm_desk k) in \<exists>c \<in> set (scoped s contact_tenant (contacts s)).
     account_of k (contact_id c) = Some a \<and> since (days_ago 30 now) (last_activity_at c))"

definition health_points :: "nat list \<Rightarrow> bool \<Rightarrow> bool \<Rightarrow> bool \<Rightarrow> rat" where
  "health_points ratings deal breach lively = 50 + csat_points ratings + (if deal then 10 else 0)
     - (if breach then 20 else 0) - (if lively then 0 else 15)"

text \<open>\<open>int(score)\<close> truncates towards zero.\<close>

definition trunc_int :: "rat \<Rightarrow> int" where
  "trunc_int x = (if 0 \<le> x then \<lfloor>x\<rfloor> else - \<lfloor>- x\<rfloor>)"

definition health_score_of :: "instant \<Rightarrow> tenant_id \<Rightarrow> crm \<Rightarrow> nat \<Rightarrow> nat" where
  "health_score_of now ten k a = clamp_score (trunc_int (health_points (account_ratings now ten k a) (active_deal now ten k a)
     (breached_lately now ten k a) (lively_account now k a)))"

definition score_accounts :: "instant \<Rightarrow> tenant_id \<Rightarrow> unit crmop" where
  "score_accounts now ten = update (\<lambda>k. k\<lparr>accounts := map (\<lambda>a. if account_tenant a = ten
     then a\<lparr>health_score := Some (health_score_of now ten k (account_id a))\<rparr> else a) (accounts k)\<rparr>)"

definition calculate_account_health_scores :: "unit crmop" where
  "calculate_account_health_scores = bindc (at_desk now_of) (\<lambda>now. bindc (asks active_tenants) (\<lambda>ts.
     for_each ts (\<lambda>t _. score_accounts now (tenant_id t)) ()))"

section \<open>Revenue forecast\<close>

record stage_forecast =
  sf_stage :: string
  sf_count :: nat
  sf_value :: rat
  sf_weighted :: rat
  sf_probability :: int

definition stage_deals :: "caller \<Rightarrow> crm \<Rightarrow> pipeline_stage \<Rightarrow> deal_columns list" where
  "stage_deals c k st = (let s = base (crm_desk k) in map (\<lambda>t. deal_of k (pk t)) (filter (\<lambda>t.
     tenant_id (ticket_tenant t) = caller_ten c \<and> \<not> is_deleted t \<and> ticket_type (deal_of k (pk t)) = ''deal'' \<and>
     map_option stage_id (ticket_stage t) = Some (stage_id st) \<and> not_closed s (caller_ten c) t) (tickets s)))"

definition value_of :: "deal_columns \<Rightarrow> rat" where
  "value_of x = (case deal_value x of None \<Rightarrow> 0 | Some v \<Rightarrow> v)"

definition chance_of :: "int \<Rightarrow> deal_columns \<Rightarrow> int" where
  "chance_of usual x = (case probability x of None \<Rightarrow> usual | Some p \<Rightarrow> p)"

definition forecast_stage :: "caller \<Rightarrow> crm \<Rightarrow> pipeline_stage \<times> int \<Rightarrow> stage_forecast" where
  "forecast_stage c k st = (let deals = stage_deals c k (fst st)
     in \<lparr>sf_stage = stage_name (fst st), sf_count = length deals, sf_value = sum_list (map value_of deals),
         sf_weighted = sum_list (map (\<lambda>x. value_of x * of_int (chance_of (snd st) x) / 100) deals),
         sf_probability = (if deals = [] then snd st
           else trunc_int (of_int (sum_list (map (chance_of (snd st)) deals)) / of_nat (length deals)))\<rparr>)"

text \<open>None is the 404 of a pipeline the tenant does not have.\<close>

definition pipeline_forecast :: "caller \<Rightarrow> nat \<Rightarrow> crm \<Rightarrow> (stage_forecast list \<times> rat) option" where
  "pipeline_forecast c p k = (if (p, caller_ten c) \<notin> set (pipelines k) then None
     else let rows = map (forecast_stage c k) (filter (\<lambda>st. stage_pipeline (fst st) = p) (stages k))
       in Some (rows, sum_list (map sf_weighted rows)))"

end
