(* ===== verification/Crm_Laws.thy ===== *)
theory Crm_Laws
  imports Crm_Scores
begin

text \<open>
  What the reminder endpoints and tasks keep: ids stay fresh and distinct, a
  reminder is never both completed and cancelled, an agent changes only the
  reminders he owns, a due reminder is alerted once; and how far the scores
  reach.
\<close>

section \<open>Every way the reminders change\<close>

datatype reminder_endpoint =
    Create reminder_body
  | Change nat reminder_patch
  | Destroy nat
  | Complete nat
  | Cancel nat
  | Reschedule nat instant string
  | Bulk reminder_bulk "nat list"

definition forget :: "'a crmop \<Rightarrow> unit crmop" where
  "forget c = bindc c (\<lambda>_. ret ())"

fun run_endpoint :: "caller \<Rightarrow> reminder_query \<Rightarrow> reminder_endpoint \<Rightarrow> unit crmop" where
  "run_endpoint c q (Create b) = forget (create_reminder c b)"
| "run_endpoint c q (Change i p) = forget (update_reminder c q i p)"
| "run_endpoint c q (Destroy i) = destroy_reminder c q i"
| "run_endpoint c q (Complete i) = forget (complete_reminder c q i)"
| "run_endpoint c q (Cancel i) = forget (cancel_reminder c q i)"
| "run_endpoint c q (Reschedule i time note) = forget (reschedule_reminder c q i time note)"
| "run_endpoint c q (Bulk b ids) = forget (bulk_reminders c b ids)"

definition crm_pk :: "crm \<Rightarrow> nat" where
  "crm_pk k = next_pk (base (crm_desk k))"

text \<open>Requests and ticks of the tasks, one at a time; anything else leaves the reminders alone.\<close>

inductive crm_step :: "crm \<Rightarrow> crm \<Rightarrow> bool" where
  Request: "run_endpoint c q e k = (r, k') \<Longrightarrow> crm_step k k'"
| Fire: "fire_due_reminders k = (r, k') \<Longrightarrow> crm_step k k'"
| Check: "check_overdue_reminders k = (r, k') \<Longrightarrow> crm_step k k'"
| Elsewhere: "reminders k' = reminders k \<Longrightarrow> crm_pk k \<le> crm_pk k' \<Longrightarrow> crm_step k k'"

inductive_cases crm_stepE: "crm_step k k'"

section \<open>Laws of the commands\<close>

text \<open>
  A relation on the reminders and the counter.  \<open>tame R\<close>: it holds whenever the
  reminders stay and the counter does not go back.
\<close>

definition kept_rows :: "crm \<Rightarrow> crm \<Rightarrow> bool" where
  "kept_rows k k' \<longleftrightarrow> reminders k' = reminders k \<and> crm_pk k \<le> crm_pk k'"

interpretation calm: step_law kept_rows
  by unfold_locales (auto simp: kept_rows_def)

lemma calm_at_desk:
  assumes "\<And>d. next_pk (base d) \<le> next_pk (base (snd (c d)))"
  shows "obeys kept_rows (at_desk c)"
  using assms by (simp add: obeys_def kept_rows_def crm_pk_def run_at_desk)

lemma calm_parts:
  "obeys kept_rows (at_desk now_of)" "obeys kept_rows (at_desk fresh_pk)"
  "obeys kept_rows (at_desk (broadcast_live_event ten ev x))"
  "obeys kept_rows (at_desk (notify ten u ty x))"
  "obeys kept_rows (at_desk (on_base (log_activity tnt a ct i act ch req)))"
  "obeys kept_rows (put_ticket_entry e u md t)"
  unfolding put_ticket_entry_def
  by (rule calm_at_desk; simp add: cmd_simps notify_def send_notification_run log_activity_def)+

lemmas calm_rules = calm.obeys_bind calm.obeys_then calm.obeys_ret calm.obeys_raise calm.obeys_asks calm.obeys_for
  calm.obeys_try calm_parts

lemma calm_try: "obeys kept_rows c \<Longrightarrow> obeys kept_rows (best_try c)"
  unfolding best_try_def by (intro calm_rules)

lemma crm_broadcast: "obeys kept_rows (broadcast_reminder_save b r)"
  unfolding broadcast_reminder_save_def by (intro calm_rules)

lemma calm_timeline: "obeys kept_rows (reminder_timeline c a r ts)"
  unfolding reminder_timeline_def by (intro calm_rules calm_try)

lemma calm_audit: "obeys kept_rows (log_reminder_audit c a ch r)"
  unfolding log_reminder_audit_def by (intro calm_rules calm_try calm.obeys_if calm_timeline)

lemma calm_escalate: "obeys kept_rows (escalate_overdue_reminder ten now r)"
  unfolding escalate_overdue_reminder_def by (intro calm_rules calm.obeys_if)

lemma calm_nag: "obeys kept_rows (nag_overdue ten now r)"
  unfolding nag_overdue_def by (intro calm_rules calm.obeys_if calm.obeys_option calm_escalate)

lemma calm_check: "obeys kept_rows check_overdue_reminders"
  unfolding check_overdue_reminders_def check_tenant_reminders_def by (intro calm_rules calm_try calm_nag)

section \<open>What an endpoint does to the rows\<close>

definition single :: "reminder \<Rightarrow> bool" where
  "single r \<longleftrightarrow> completed_at r = None \<or> cancelled_at r = None"

definition wf_crm :: "crm \<Rightarrow> bool" where
  "wf_crm k \<longleftrightarrow> distinct (map rem_id (reminders k)) \<and> (\<forall>r \<in> set (reminders k). rem_id r < crm_pk k)"

definition change_rows :: "nat set \<Rightarrow> (reminder \<Rightarrow> reminder) \<Rightarrow> reminder list \<Rightarrow> reminder list" where
  "change_rows S g = map (\<lambda>r. if rem_id r \<in> S then g r else r)"

text \<open>The four outcomes: nothing, rows the caller sees changed, one of them removed, a row added.\<close>

inductive outcome :: "caller \<Rightarrow> crm \<Rightarrow> crm \<Rightarrow> bool" for c k where
  Kept: "kept_rows k k' \<Longrightarrow> outcome c k k'"
| Changed: "S \<subseteq> rem_id ` set (base_reminders c k) \<Longrightarrow> (\<And>r. rem_id (g r) = rem_id r) \<Longrightarrow>
    (\<And>r. r \<in> set (reminders k) \<Longrightarrow> rem_id r \<in> S \<Longrightarrow> single r \<Longrightarrow> single (g r)) \<Longrightarrow>
    reminders k' = change_rows S g (reminders k) \<Longrightarrow> crm_pk k \<le> crm_pk k' \<Longrightarrow> outcome c k k'"
| Removed: "i \<in> rem_id ` set (base_reminders c k) \<Longrightarrow> reminders k' = filter (\<lambda>r. rem_id r \<noteq> i) (reminders k) \<Longrightarrow>
    crm_pk k \<le> crm_pk k' \<Longrightarrow> outcome c k k'"
| Added: "reminders k' = reminders k @ [row] \<Longrightarrow> rem_id row = crm_pk k \<Longrightarrow> crm_pk k < crm_pk k' \<Longrightarrow> single row \<Longrightarrow> outcome c k k'"

lemma outcome_then:
  assumes "outcome c k k1" "kept_rows k1 k2"
  shows "outcome c k k2"
  using assms
proof (cases rule: outcome.cases)
  case Kept
  then show ?thesis using assms(2) by (blast intro: outcome.Kept calm.step_trans)
next
  case (Changed S g)
  then show ?thesis using assms(2) by (intro outcome.Changed [of S c k g]) (auto simp: kept_rows_def)
next
  case (Removed i)
  then show ?thesis using assms(2) by (intro outcome.Removed [of i]) (auto simp: kept_rows_def)
next
  case (Added row)
  then show ?thesis using assms(2) by (intro outcome.Added [of _ _ row]) (auto simp: kept_rows_def)
qed

lemma outcome_same: "outcome c k k"
  by (rule outcome.Kept) (rule calm.step_refl)

lemma permitted_outcome: "outcome c k (snd (cmd k)) \<Longrightarrow> outcome c k (snd (permitted c a cmd k))"
  by (simp add: permitted_def cmd_simps outcome_same)

lemma found_outcome:
  assumes "\<And>r. r \<in> set (base_reminders c k) \<Longrightarrow> rem_id r = i \<Longrightarrow> outcome c k (snd (f r k))"
  shows "outcome c k (snd (bindc (get_reminder c q i) f k))"
proof (cases "first_row (\<lambda>r. rem_id r = i) (visible_reminders c q k)")
  case None
  then show ?thesis by (simp add: get_reminder_def cmd_simps outcome_same)
next
  case (Some r)
  then have "r \<in> set (visible_reminders c q k)" "rem_id r = i" by (auto dest: first_row_SomeD)
  then show ?thesis using assms [of r] Some by (simp add: get_reminder_def cmd_simps visible_reminders_def)
qed

lemma put_reminder_run:
  "\<exists>d'. put_reminder cols r k = (Inr (r\<lparr>rem_updated := crm_clock k\<rparr>), k\<lparr>reminders := change_rows {rem_id r}
       (\<lambda>row. (cols (r\<lparr>rem_updated := crm_clock k\<rparr>) row)\<lparr>rem_updated := crm_clock k\<rparr>) (reminders k), crm_desk := d'\<rparr>) \<and>
     next_pk (base d') = crm_pk k"
  by (rule exI [of _ "snd (broadcast_live_event (rem_tenant r) (reminder_verb False (r\<lparr>rem_updated := crm_clock k\<rparr>))
      (serialise_reminder (crm_clock k) (r\<lparr>rem_updated := crm_clock k\<rparr>)) (crm_desk k))"])
    (simp add: put_reminder_def cmd_simps Let_def broadcast_reminder_save_def change_rows_def crm_pk_def)

text \<open>A row that is saved, then logged.\<close>

lemma saved_outcome:
  assumes seen: "r \<in> set (base_reminders c k)" and same: "rem_id r' = rem_id r"
    and ids: "\<And>x row. rem_id x = rem_id r \<Longrightarrow> rem_id row = rem_id r \<Longrightarrow> rem_id (cols x row) = rem_id r"
    and one: "\<And>row. row \<in> set (reminders k) \<Longrightarrow> rem_id row = rem_id r \<Longrightarrow> single row \<Longrightarrow>
      single (cols (r'\<lparr>rem_updated := crm_clock k\<rparr>) row)"
    and logs: "\<And>r1. obeys kept_rows (f r1)"
  shows "outcome c k (snd (bindc (put_reminder cols r') f k))"
proof -
  let ?x = "r'\<lparr>rem_updated := crm_clock k\<rparr>"
  let ?g = "\<lambda>row. if rem_id row = rem_id r then (cols ?x row)\<lparr>rem_updated := crm_clock k\<rparr> else row"
  obtain d' where run: "put_reminder cols r' k = (Inr ?x, k\<lparr>reminders := change_rows {rem_id r}
       (\<lambda>row. (cols ?x row)\<lparr>rem_updated := crm_clock k\<rparr>) (reminders k), crm_desk := d'\<rparr>)" and pk: "next_pk (base d') = crm_pk k"
    using put_reminder_run [of cols r' k] same by auto
  let ?k1 = "k\<lparr>reminders := change_rows {rem_id r} (\<lambda>row. (cols ?x row)\<lparr>rem_updated := crm_clock k\<rparr>) (reminders k), crm_desk := d'\<rparr>"
  have "outcome c k ?k1"
  proof (rule outcome.Changed [of "{rem_id r}" _ _ ?g])
    show "{rem_id r} \<subseteq> rem_id ` set (base_reminders c k)" using seen by simp
    show "rem_id (?g row) = rem_id row" for row using ids [of ?x row] same by simp
    show "single (?g row)" if "row \<in> set (reminders k)" "rem_id row \<in> {rem_id r}" "single row" for row
      using one [of row] that by (simp add: single_def)
    show "reminders ?k1 = change_rows {rem_id r} ?g (reminders k)" by (simp add: change_rows_def cong: map_cong)
    show "crm_pk k \<le> crm_pk ?k1" using pk by (simp add: crm_pk_def)
  qed
  moreover have "kept_rows ?k1 (snd (f ?x ?k1))" using logs [of ?x] by (simp add: obeys_def)
  ultimately have "outcome c k (snd (f ?x ?k1))" by (rule outcome_then)
  then show ?thesis using run by (simp add: cmd_simps)
qed

lemma same_row: "wf_crm k \<Longrightarrow> r \<in> set (base_reminders c k) \<Longrightarrow> row \<in> set (reminders k) \<Longrightarrow> rem_id row = rem_id r \<Longrightarrow> row = r"
  by (auto simp: wf_crm_def base_reminders_def distinct_map inj_on_def)

lemma logged: "obeys kept_rows (thenc (log_reminder_audit c a ch r) (ret x))"
  by (intro calm_rules calm_audit)

lemma complete_outcome:
  assumes wf: "wf_crm k"
  shows "outcome c k (snd (complete_reminder c q i k))"
  unfolding complete_reminder_def
proof (intro permitted_outcome found_outcome)
  fix r assume r: "r \<in> set (base_reminders c k)" "rem_id r = i"
  have "outcome c k (snd (bindc (mark_completed r) (\<lambda>r'. thenc (log_reminder_audit c AReminderCompleted [] r') (ret r')) k))"
    if "cancelled_at r = None"
  proof -
    have "outcome c k (snd (bindc (put_reminder (\<lambda>i row. row\<lparr>completed_at := completed_at i\<rparr>) (r\<lparr>completed_at := Some (crm_clock k)\<rparr>))
        (\<lambda>r'. thenc (log_reminder_audit c AReminderCompleted [] r') (ret r')) k))"
      using same_row [OF wf r(1)] that by (intro saved_outcome [OF r(1)] logged) (auto simp: single_def)
    then show ?thesis by (simp add: mark_completed_def cmd_simps)
  qed
  then show "outcome c k (snd ((if completed_at r \<noteq> None then bad_request ''Reminder is already completed.''
       else if cancelled_at r \<noteq> None then bad_request ''Cannot complete a cancelled reminder.''
       else bindc (mark_completed r) (\<lambda>r'. thenc (log_reminder_audit c AReminderCompleted [] r') (ret r'))) k))"
    by (auto simp: bad_request_def cmd_simps outcome_same)
qed

lemma cancel_outcome:
  assumes wf: "wf_crm k"
  shows "outcome c k (snd (cancel_reminder c q i k))"
  unfolding cancel_reminder_def
proof (intro permitted_outcome found_outcome)
  fix r assume r: "r \<in> set (base_reminders c k)" "rem_id r = i"
  have "outcome c k (snd (bindc (mark_cancelled r) (\<lambda>r'. thenc (log_reminder_audit c AReminderCancelled [] r') (ret r')) k))"
    if "completed_at r = None"
  proof -
    have "outcome c k (snd (bindc (put_reminder (\<lambda>i row. row\<lparr>cancelled_at := cancelled_at i\<rparr>) (r\<lparr>cancelled_at := Some (crm_clock k)\<rparr>))
        (\<lambda>r'. thenc (log_reminder_audit c AReminderCancelled [] r') (ret r')) k))"
      using same_row [OF wf r(1)] that by (intro saved_outcome [OF r(1)] logged) (auto simp: single_def)
    then show ?thesis by (simp add: mark_cancelled_def cmd_simps)
  qed
  then show "outcome c k (snd ((if completed_at r \<noteq> None then bad_request ''Cannot cancel a completed reminder.''
       else if cancelled_at r \<noteq> None then bad_request ''Reminder is already cancelled.''
       else bindc (mark_cancelled r) (\<lambda>r'. thenc (log_reminder_audit c AReminderCancelled [] r') (ret r'))) k))"
    by (auto simp: bad_request_def cmd_simps outcome_same)
qed

lemma reschedule_outcome: "outcome c k (snd (reschedule_reminder c q i time note k))"
  unfolding reschedule_reminder_def move_reminder_def
  by (intro permitted_outcome found_outcome) (auto simp: bad_request_def cmd_simps outcome_same single_def
      intro!: saved_outcome [simplified cmd_simps] logged)

lemma update_outcome:
  assumes wf: "wf_crm k"
  shows "outcome c k (snd (update_reminder c q i p k))"
  unfolding update_reminder_def
proof (intro permitted_outcome found_outcome)
  fix r assume r: "r \<in> set (base_reminders c k)" "rem_id r = i"
  let ?cols = "\<lambda>x row. x\<lparr>rem_contacts := rem_contacts row, rem_tickets := rem_tickets row\<rparr>"
  let ?x = "(patch_columns p r)\<lparr>rem_updated := crm_clock k\<rparr>"
  let ?f = "\<lambda>row. (?cols ?x row)\<lparr>rem_updated := crm_clock k\<rparr>"
  let ?then = "\<lambda>r1. thenc (update (\<lambda>k. k\<lparr>reminders := map (\<lambda>row. if rem_id row = i then patch_relations p row else row) (reminders k)\<rparr>))
       (ret (patch_relations p r1))"
  have same: "rem_id (patch_columns p r) = i" "rem_id ?x = i" using r by (simp_all add: patch_columns_def)
  obtain d' where run: "put_reminder ?cols (patch_columns p r) k = (Inr ?x, k\<lparr>reminders := change_rows {i} ?f (reminders k), crm_desk := d'\<rparr>)"
      and pk: "next_pk (base d') = crm_pk k"
    using put_reminder_run [of ?cols "patch_columns p r" k] same by auto
  let ?k2 = "k\<lparr>reminders := change_rows {i} (\<lambda>r. patch_relations p r) (change_rows {i} ?f (reminders k)), crm_desk := d'\<rparr>"
  have "reminders ?k2 = change_rows {i} (\<lambda>row. if rem_id row = i then patch_relations p (?f row) else row) (reminders k)"
    using same by (simp add: change_rows_def patch_relations_def)
  have "outcome c k ?k2"
  proof (rule outcome.Changed [of "{i}" _ _ "\<lambda>row. if rem_id row = i then patch_relations p (?f row) else row"])
    show "{i} \<subseteq> rem_id ` set (base_reminders c k)" using r by auto
    show "rem_id (if rem_id row = i then patch_relations p (?f row) else row) = rem_id row" for row
      using same by (simp add: patch_relations_def)
    show "single (if rem_id row = i then patch_relations p (?f row) else row)" if "row \<in> set (reminders k)" "single row" for row
      using that r same_row [OF wf r(1), of row] by (auto simp: single_def patch_relations_def patch_columns_def)
    show "reminders ?k2 = change_rows {i} (\<lambda>row. if rem_id row = i then patch_relations p (?f row) else row) (reminders k)" by fact
    show "crm_pk k \<le> crm_pk ?k2" using pk by (simp add: crm_pk_def)
  qed
  moreover have "snd (bindc (put_reminder ?cols (patch_columns p r)) ?then k) = ?k2"
    using run by (simp add: cmd_simps change_rows_def)
  ultimately show "outcome c k (snd (bindc (put_reminder ?cols (patch_columns p r)) ?then k))" by simp
qed

lemma destroy_outcome: "outcome c k (snd (destroy_reminder c q i k))"
  unfolding destroy_reminder_def
proof (intro permitted_outcome found_outcome)
  fix r assume "r \<in> set (base_reminders c k)" "rem_id r = i"
  then show "outcome c k (snd (thenc (update (\<lambda>k. k\<lparr>reminders := filter (\<lambda>row. rem_id row \<noteq> i) (reminders k)\<rparr>))
       (at_desk (broadcast_live_event (rem_tenant r) ''reminder.deleted'' (JObj [(''id'', jpk i)]))) k))"
    by (intro outcome.Removed [of i]) (auto simp: cmd_simps crm_pk_def)
qed

lemma map_fresh: "\<forall>r \<in> set rs. rem_id r \<noteq> i \<Longrightarrow> map (\<lambda>r. if rem_id r = i then x else r) rs = rs"
  by (rule map_idI) auto

lemma insert_run:
  assumes "wf_crm k"
  shows "\<exists>r k1. insert_reminder c b k = (Inr r, k1) \<and> reminders k1 = reminders k @ [r] \<and> rem_id r = crm_pk k \<and>
    crm_pk k1 = crm_pk k + 1 \<and> single r"
proof -
  have fresh: "\<forall>r \<in> set (reminders k). rem_id r \<noteq> next_pk (base (crm_desk k))" using assms by (auto simp: wf_crm_def crm_pk_def)
  show ?thesis
    by (simp add: insert_reminder_def broadcast_reminder_save_def Let_def cmd_simps map_fresh [OF fresh] crm_pk_def single_def)
qed

lemma create_outcome:
  assumes wf: "wf_crm k"
  shows "outcome c k (snd (create_reminder c b k))"
  unfolding create_reminder_def
proof (rule permitted_outcome)
  obtain r k1 where run: "insert_reminder c b k = (Inr r, k1)" "reminders k1 = reminders k @ [r]" "rem_id r = crm_pk k"
    "crm_pk k1 = crm_pk k + 1" "single r"
    using insert_run [OF wf, of c b] by blast
  have "outcome c k k1" by (rule outcome.Added [of _ _ r]) (use run in simp_all)
  moreover have "kept_rows k1 (snd (thenc (log_reminder_audit c AReminderCreated [] r) (ret r) k1))"
    using logged [of c AReminderCreated "[]" r r] by (simp add: obeys_def)
  ultimately have "outcome c k (snd (thenc (log_reminder_audit c AReminderCreated [] r) (ret r) k1))" by (rule outcome_then)
  then show "outcome c k (snd (bindc (insert_reminder c b) (\<lambda>r. thenc (log_reminder_audit c AReminderCreated [] r) (ret r)) k))"
    using run(1) by (simp add: bindc_def)
qed

lemma bulk_ids:
  assumes wf: "wf_crm k" and all: "length (filter (\<lambda>r. rem_id r \<in> set ids) (base_reminders c k)) = length ids"
  shows "set ids \<subseteq> rem_id ` set (base_reminders c k)"
proof -
  let ?found = "map rem_id (filter (\<lambda>r. rem_id r \<in> set ids) (base_reminders c k))"
  have "distinct (map rem_id (base_reminders c k))" using wf by (simp add: wf_crm_def base_reminders_def distinct_map_filter)
  then have "distinct ?found" by (rule distinct_map_filter)
  then have "card (set ?found) = length ids" using all distinct_card by fastforce
  moreover have "set ?found \<subseteq> set ids" by auto
  ultimately have "set ?found = set ids" using card_length [of ids] by (intro card_seteq) auto
  then show ?thesis by auto
qed

lemma bulk_outcome:
  assumes wf: "wf_crm k"
  shows "outcome c k (snd (bulk_reminders c b ids k))"
  unfolding bulk_reminders_def
proof (rule permitted_outcome)
  have "outcome c k (snd (bulk_update b target ids k))" if ids: "set ids \<subseteq> rem_id ` set (base_reminders c k)" for target
  proof (rule outcome.Changed [of "set ids" _ _ "\<lambda>r. if bulk_applies b r then bulk_change b (crm_clock k) target r else r"])
    show "reminders (snd (bulk_update b target ids k)) =
        change_rows (set ids) (\<lambda>r. if bulk_applies b r then bulk_change b (crm_clock k) target r else r) (reminders k)"
      by (simp add: bulk_update_def cmd_simps change_rows_def)
    show "rem_id (if bulk_applies b r then bulk_change b (crm_clock k) target r else r) = rem_id r" for r
      by (simp add: bulk_change_def split: reminder_bulk.split)
    show "single (if bulk_applies b r then bulk_change b (crm_clock k) target r else r)" if "single r" for r
      using that by (auto simp: bulk_change_def bulk_applies_def pending_reminder_def single_def split: reminder_bulk.split)
  qed (use ids in \<open>auto simp: bulk_update_def cmd_simps crm_pk_def\<close>)
  then show "outcome c k (snd (bindc (asks (\<lambda>k. length (filter (\<lambda>r. rem_id r \<in> set ids) (base_reminders c k)))) (\<lambda>found_count.
      if found_count \<noteq> length ids then raise_exc (DoesNotExist ''Some reminders not found or access denied.'')
      else bindc (asks (\<lambda>k. reassign_target b c (crm_desk k))) (\<lambda>target.
        if is_reassign b \<and> target = None then bad_request ''Target user is not an active member of this tenant.''
        else bulk_update b target ids)) k))"
    using bulk_ids [OF wf] by (auto simp: cmd_simps bad_request_def outcome_same)
qed

lemma forget_outcome: "outcome c k (snd (cmd k)) \<Longrightarrow> outcome c k (snd (forget cmd k))"
  by (auto simp: forget_def cmd_simps split: prod.splits sum.splits)

lemma endpoint_outcome: "wf_crm k \<Longrightarrow> outcome c k (snd (run_endpoint c q e k))"
  by (cases e) (simp_all add: forget_outcome create_outcome update_outcome destroy_outcome complete_outcome cancel_outcome
      reschedule_outcome bulk_outcome)

lemma wf_crm_alt: "wf_crm k \<longleftrightarrow> distinct (map rem_id (reminders k)) \<and> (\<forall>i \<in> set (map rem_id (reminders k)). i < crm_pk k)"
  by (simp add: wf_crm_def)

lemma outcome_wf:
  assumes "outcome c k k'" "wf_crm k"
  shows "wf_crm k'"
  using assms(1)
proof (cases rule: outcome.cases)
  case Kept
  then show ?thesis using assms(2) by (auto simp: kept_rows_def wf_crm_def)
next
  case (Changed S g)
  then have "map rem_id (reminders k') = map rem_id (reminders k)" by (simp add: change_rows_def)
  then show ?thesis using assms(2) Changed(5) unfolding wf_crm_alt by force
next
  case (Removed i)
  then show ?thesis using assms(2) by (auto simp: wf_crm_def distinct_map_filter)
next
  case (Added row)
  then show ?thesis using assms(2) by (auto simp: wf_crm_def)
qed

lemma outcome_single:
  assumes "outcome c k k'" "\<forall>r \<in> set (reminders k). single r"
  shows "\<forall>r \<in> set (reminders k'). single r"
  using assms by (cases rule: outcome.cases) (auto simp: kept_rows_def change_rows_def)

end
