(* ===== verification/Crm_Alerts.thy ===== *)
theory Crm_Alerts
  imports Crm_Laws
begin

text \<open>
  The alert of a due reminder is sent once for each time it is scheduled at;
  what the endpoints keep of the reminders; and how far the scores reach.
\<close>

section \<open>One tick of the alerts\<close>

definition stamped :: "instant \<Rightarrow> nat set \<Rightarrow> reminder list \<Rightarrow> reminder list" where
  "stamped now S = change_rows S (\<lambda>r. r\<lparr>due_notified_at := Some now\<rparr>)"

definition alert_of :: "reminder \<Rightarrow> notification \<Rightarrow> bool" where
  "alert_of r n \<longleftrightarrow> notif_tenant n = rem_tenant r \<and> notif_recipient n = user_id (reminder_owner r) \<and>
     notif_type n = NReminderDue \<and> jget (notif_data n) ''reminder_id'' = Some (jpk (rem_id r))"

definition steady :: "desk \<Rightarrow> desk \<Rightarrow> bool" where
  "steady d d' \<longleftrightarrow> tenants d' = tenants d \<and> clock (base d') = clock (base d) \<and> next_pk (base d) \<le> next_pk (base d')"

text \<open>The rows were stamped and the owners told, in this order.\<close>

definition alerted :: "instant \<Rightarrow> reminder list \<Rightarrow> crm \<Rightarrow> crm \<Rightarrow> bool" where
  "alerted now rs k k' \<longleftrightarrow>
     reminders k' = stamped now (rem_id ` set rs) (reminders k) \<and>
     (\<exists>ns. notifications (crm_desk k') = notifications (crm_desk k) @ ns \<and> list_all2 alert_of rs ns) \<and> steady (crm_desk k) (crm_desk k')"

lemma stamped_twice: "stamped now S (stamped now T rs) = stamped now (T \<union> S) rs"
  by (auto simp: stamped_def change_rows_def)

lemma stamped_ids: "map rem_id (stamped now S rs) = map rem_id rs"
  by (simp add: stamped_def change_rows_def)

lemma alerted_none: "alerted now [] k k"
  by (simp add: alerted_def stamped_def change_rows_def steady_def)

lemma alerted_more:
  assumes "alerted now rs k k1" "alerted now rs' k1 k2"
  shows "alerted now (rs @ rs') k k2"
proof -
  obtain ns where 1: "notifications (crm_desk k1) = notifications (crm_desk k) @ ns" "list_all2 alert_of rs ns"
    using assms(1) by (auto simp: alerted_def)
  obtain ms where 2: "notifications (crm_desk k2) = notifications (crm_desk k1) @ ms" "list_all2 alert_of rs' ms"
    using assms(2) by (auto simp: alerted_def)
  have "reminders k2 = stamped now (rem_id ` set (rs @ rs')) (reminders k)"
    using assms by (simp add: alerted_def stamped_twice image_Un)
  moreover have "notifications (crm_desk k2) = notifications (crm_desk k) @ (ns @ ms)" "list_all2 alert_of (rs @ rs') (ns @ ms)"
    using 1 2 by (simp_all add: list_all2_appendI)
  moreover have "steady (crm_desk k) (crm_desk k2)" using assms by (auto simp: alerted_def steady_def)
  ultimately show ?thesis unfolding alerted_def by blast
qed

lemma fire_one:
  assumes "rem_tenant r = ten"
  shows "\<exists>k'. fire_reminder ten now r k = (Inr (), k') \<and> alerted now [r] k k'"
proof -
  let ?n = "notice (crm_desk k) ten (reminder_owner r) NReminderDue (due_data (reminder_contacts (base (crm_desk k)) r) r)"
  have "alert_of r ?n" using assms by (simp add: alert_of_def notice_def due_data_def)
  then show ?thesis
    by (simp add: fire_reminder_def best_try_def stamp_due_def notify_def cmd_simps send_notification_run alerted_def
        stamped_def change_rows_def steady_def)
qed

lemma fire_rows:
  assumes "\<forall>r \<in> set rs. rem_tenant r = ten"
  shows "\<exists>k'. for_each rs (\<lambda>r _. fire_reminder ten now r) () k = (Inr (), k') \<and> alerted now rs k k'"
  using assms
proof (induction rs arbitrary: k)
  case Nil
  show ?case by (simp add: cmd_simps alerted_none)
next
  case (Cons r rs)
  obtain k1 where 1: "fire_reminder ten now r k = (Inr (), k1)" "alerted now [r] k k1"
    using fire_one [of r ten now k] Cons.prems by auto
  obtain k2 where 2: "for_each rs (\<lambda>r _. fire_reminder ten now r) () k1 = (Inr (), k2)" "alerted now rs k1 k2"
    using Cons.IH [of k1] Cons.prems by auto
  then show ?case using 1 alerted_more [OF 1(2) 2(2)] by (simp add: cmd_simps)
qed

lemma fire_tenant: "\<exists>k'. fire_tenant_reminders now ten k = (Inr (), k') \<and> alerted now (due_reminders now ten k) k k'"
  using fire_rows [of "due_reminders now ten k" ten now k]
  by (auto simp: fire_tenant_reminders_def best_try_def cmd_simps due_reminders_def)

text \<open>The alerts of one tenant leave the due reminders of another as they are.\<close>

lemma other_tenant:
  assumes "distinct (map rem_id (reminders k))" "alerted now (due_reminders now ten k) k k1" "ten' \<noteq> ten"
  shows "due_reminders now ten' k1 = due_reminders now ten' k"
proof -
  let ?S = "rem_id ` set (due_reminders now ten k)"
  have k1: "reminders k1 = stamped now ?S (reminders k)" using assms(2) by (auto simp: alerted_def)
  have "r1 = r2" if "r1 \<in> set (reminders k)" "r2 \<in> set (reminders k)" "rem_id r1 = rem_id r2" for r1 r2
    using assms(1) that by (auto simp: distinct_map inj_on_def)
  then have out: "rem_id r \<notin> ?S" if "r \<in> set (reminders k)" "rem_tenant r = ten'" for r
    using that assms(3) by (auto simp: due_reminders_def)
  have "filter (\<lambda>r. rem_tenant r = ten' \<and> reminder_due now r) (stamped now ?S rs) = filter (\<lambda>r. rem_tenant r = ten' \<and> reminder_due now r) rs"
    if "set rs \<subseteq> set (reminders k)" for rs
    using that out by (induction rs) (auto simp: stamped_def change_rows_def)
  then show ?thesis by (simp add: due_reminders_def k1)
qed

lemma fire_tenants:
  assumes "distinct (map rem_id (reminders k))" "distinct (map tenant_id ts)"
  shows "\<exists>k'. for_each ts (\<lambda>t _. fire_tenant_reminders now (tenant_id t)) () k = (Inr (), k') \<and>
    alerted now (concat (map (\<lambda>t. due_reminders now (tenant_id t) k) ts)) k k'"
  using assms
proof (induction ts arbitrary: k)
  case Nil
  show ?case by (simp add: cmd_simps alerted_none)
next
  case (Cons t ts)
  obtain k1 where 1: "fire_tenant_reminders now (tenant_id t) k = (Inr (), k1)" "alerted now (due_reminders now (tenant_id t) k) k k1"
    using fire_tenant by blast
  have "distinct (map rem_id (reminders k1))" using 1(2) Cons.prems(1) by (auto simp: alerted_def stamped_ids)
  then obtain k2 where 2: "for_each ts (\<lambda>t _. fire_tenant_reminders now (tenant_id t)) () k1 = (Inr (), k2)"
    "alerted now (concat (map (\<lambda>t. due_reminders now (tenant_id t) k1) ts)) k1 k2"
    using Cons.IH [of k1] Cons.prems(2) by auto
  have "tenant_id x \<noteq> tenant_id t" if "x \<in> set ts" for x using Cons.prems(2) that by (auto simp: image_iff)
  then have "map (\<lambda>t. due_reminders now (tenant_id t) k1) ts = map (\<lambda>t. due_reminders now (tenant_id t) k) ts"
    using other_tenant [OF Cons.prems(1) 1(2)] by simp
  then have "alerted now (concat (map (\<lambda>t. due_reminders now (tenant_id t) k) (t # ts))) k k2"
    using alerted_more [OF 1(2) 2(2)] by (simp only: list.map concat.simps)
  then show ?case using 1(1) 2(1) by (simp add: cmd_simps)
qed

lemma fire_all:
  assumes "distinct (map rem_id (reminders k))" "distinct (map tenant_id (tenants (crm_desk k)))"
  shows "\<exists>k'. fire_due_reminders k = (Inr (), k') \<and>
    alerted (crm_clock k) (concat (map (\<lambda>t. due_reminders (crm_clock k) (tenant_id t) k) (active_tenants k))) k k'"
proof -
  have "distinct (map tenant_id (active_tenants k))" using assms(2) by (simp add: active_tenants_def distinct_map_filter)
  from fire_tenants [OF assms(1) this, of "crm_clock k"] show ?thesis by (simp add: fire_due_reminders_def cmd_simps)
qed

text \<open>What was due by the tick is not due again, whatever the clock, unless it is scheduled anew.\<close>

lemma not_due_again:
  assumes k': "reminders k' = stamped now (rem_id ` set (concat (map (\<lambda>t. due_reminders now (tenant_id t) k) ts))) (reminders k)"
    and t: "t \<in> set ts" and r: "r \<in> set (due_reminders now' (tenant_id t) k')"
  shows "now < scheduled_at r"
proof (rule ccontr)
  assume late: "\<not> now < scheduled_at r"
  let ?S = "rem_id ` set (concat (map (\<lambda>t. due_reminders now (tenant_id t) k) ts))"
  have r': "r \<in> set (stamped now ?S (reminders k))" "rem_tenant r = tenant_id t" "reminder_due now' r"
    using r k' by (auto simp: due_reminders_def)
  from r'(1) obtain r0 where r0: "r0 \<in> set (reminders k)" "r = (if rem_id r0 \<in> ?S then r0\<lparr>due_notified_at := Some now\<rparr> else r0)"
    unfolding stamped_def change_rows_def set_map by blast
  show False
  proof (cases "rem_id r0 \<in> ?S")
    case True
    then show False using r0 r'(3) late by (simp add: reminder_due_def)
  next
    case False
    then have "r = r0" using r0 by simp
    then have "r0 \<in> set (due_reminders now (tenant_id t) k)"
      using r0(1) r'(2,3) late by (auto simp: due_reminders_def reminder_due_def)
    then show False using False t by auto
  qed
qed

text \<open>
  C30: A tick of the reminder task tells the owner of every due reminder of the
  active tenants, each once and nobody else, and whatever the clock shows
  later, a reminder that was due by the tick is due again only if it has been
  scheduled for a later time.
\<close>

theorem due_reminders_alerted_once:
  assumes "distinct (map rem_id (reminders k))" "distinct (map tenant_id (tenants (crm_desk k)))"
    "fire_due_reminders k = (r, k')"
  shows "r = Inr () \<and> (\<exists>ns. notifications (crm_desk k') = notifications (crm_desk k) @ ns \<and>
      list_all2 alert_of (concat (map (\<lambda>t. due_reminders (crm_clock k) (tenant_id t) k) (active_tenants k))) ns) \<and>
    list_all (\<lambda>t. list_all (\<lambda>x. crm_clock k < scheduled_at x) (due_reminders now' (tenant_id t) k')) (active_tenants k)"
proof -
  obtain k1 where run: "fire_due_reminders k = (Inr (), k1)" and sent:
    "alerted (crm_clock k) (concat (map (\<lambda>t. due_reminders (crm_clock k) (tenant_id t) k) (active_tenants k))) k k1"
    using fire_all [OF assms(1,2)] by blast
  have "r = Inr ()" "k' = k1" using run assms(3) by auto
  moreover have "reminders k1 = stamped (crm_clock k)
      (rem_id ` set (concat (map (\<lambda>t. due_reminders (crm_clock k) (tenant_id t) k) (active_tenants k)))) (reminders k)"
    using sent by (auto simp: alerted_def)
  then have "list_all (\<lambda>t. list_all (\<lambda>x. crm_clock k < scheduled_at x) (due_reminders now' (tenant_id t) k1)) (active_tenants k)"
    unfolding list_all_iff using not_due_again by blast
  ultimately show ?thesis using sent by (auto simp: alerted_def)
qed

section \<open>What every request keeps\<close>

definition core_rows :: "crm \<Rightarrow> (nat \<times> instant option \<times> instant option) list" where
  "core_rows k = map (\<lambda>r. (rem_id r, completed_at r, cancelled_at r)) (reminders k)"

definition core_kept :: "crm \<Rightarrow> crm \<Rightarrow> bool" where
  "core_kept k k' \<longleftrightarrow> core_rows k' = core_rows k \<and> crm_pk k \<le> crm_pk k'"

interpretation core: step_law core_kept
  by unfold_locales (auto simp: core_kept_def)

lemma calm_core: "obeys kept_rows c \<Longrightarrow> obeys core_kept c"
  by (auto simp: obeys_def kept_rows_def core_kept_def core_rows_def)

lemma core_stamp: "obeys core_kept (stamp_due i now)"
  unfolding stamp_due_def by (rule core.obeys_update) (simp add: core_kept_def core_rows_def crm_pk_def)

lemma core_fire: "obeys core_kept fire_due_reminders"
  unfolding fire_due_reminders_def fire_tenant_reminders_def fire_reminder_def best_try_def
  by (intro core.obeys_bind core.obeys_then core.obeys_for core.obeys_try core.obeys_ret core.obeys_asks core_stamp
      calm_core calm_parts)

lemma core_wf:
  assumes "core_kept k k'" "wf_crm k" "\<forall>r \<in> set (reminders k). single r"
  shows "wf_crm k' \<and> (\<forall>r \<in> set (reminders k'). single r)"
proof -
  have ids: "map rem_id (reminders x) = map fst (core_rows x)" for x by (simp add: core_rows_def comp_def)
  have one: "(\<forall>r \<in> set (reminders x). single r) \<longleftrightarrow> (\<forall>y \<in> set (core_rows x). fst (snd y) = None \<or> snd (snd y) = None)" for x
    by (auto simp: core_rows_def single_def)
  show ?thesis using assms unfolding wf_crm_alt core_kept_def one ids by force
qed

lemma step_keeps:
  assumes "crm_step k k'" "wf_crm k" "\<forall>r \<in> set (reminders k). single r"
  shows "wf_crm k' \<and> (\<forall>r \<in> set (reminders k'). single r)"
  using assms(1)
proof (cases rule: crm_step.cases)
  case (Request c q e r)
  then have "outcome c k k'" using endpoint_outcome [OF assms(2), of c q e] by simp
  then show ?thesis using outcome_wf outcome_single assms(2,3) by blast
next
  case (Fire r)
  then show ?thesis using core_wf [OF obeysD [OF core_fire Fire] assms(2,3)] by blast
next
  case (Check r)
  then show ?thesis using core_wf [OF obeysD [OF calm_core [OF calm_check] Check] assms(2,3)] by blast
next
  case Elsewhere
  then have "core_kept k k'" by (simp add: core_kept_def core_rows_def)
  then show ?thesis using core_wf assms(2,3) by blast
qed

text \<open>
  Whatever requests and ticks of the tasks come one after the other, no
  reminder is ever both completed and cancelled, and no two share an id.
\<close>

theorem reminder_ends_once:
  assumes runs: "crm_step\<^sup>*\<^sup>* k k'" and start: "reminders k = []"
  shows "list_all (\<lambda>r. completed_at r = None \<or> cancelled_at r = None) (reminders k') \<and> distinct (map rem_id (reminders k'))"
proof -
  have "wf_crm k \<and> (\<forall>r \<in> set (reminders k). single r)" using start by (simp add: wf_crm_def)
  with runs have "wf_crm k' \<and> (\<forall>r \<in> set (reminders k'). single r)"
    by (induction rule: rtranclp_induct) (use step_keeps in blast)+
  then show ?thesis by (simp add: wf_crm_def list_all_iff single_def)
qed

text \<open>
  Whatever an agent (a member above level 20 who is no superuser) requests,
  alone or in bulk, a reminder that he neither created nor is assigned stays
  as it is.
\<close>

theorem agents_change_own_reminders:
  assumes wf: "wf_crm k" and agent: "restricted_caller (crm_desk k) c"
    and r: "r \<in> set (reminders k)" "\<not> owns_reminder (caller_user c) r" and run: "run_endpoint c q e k = (res, k')"
  shows "r \<in> set (reminders k')"
proof -
  have "x = r" if "x \<in> set (reminders k)" "rem_id x = rem_id r" for x
    using wf r(1) that by (auto simp: wf_crm_def distinct_map inj_on_def)
  then have hidden: "rem_id r \<notin> rem_id ` set (base_reminders c k)" using agent r(2) by (auto simp: base_reminders_def)
  have "outcome c k k'" using endpoint_outcome [OF wf, of c q e] run by simp
  then show ?thesis
  proof (cases rule: outcome.cases)
    case (Changed S g)
    then have "rem_id r \<notin> S" using hidden by blast
    then show ?thesis using Changed(4) r(1) by (force simp: change_rows_def)
  qed (use r(1) hidden in \<open>auto simp: kept_rows_def\<close>)
qed

section \<open>How far the scores reach\<close>

lemma lead_points_range: "15 \<le> lead_points a b c d e \<and> lead_points a b c d e \<le> 95"
  by (simp add: lead_points_def)

text \<open>The bounds of 0 and 100 are never met.\<close>

lemma lead_score_range: "lead_score_of now ten k c \<in> {15..95}"
proof -
  have "clamp_score n \<in> {15..95}" if "15 \<le> n \<and> n \<le> 95" for n using that by (auto simp: clamp_score_def)
  then show ?thesis unfolding lead_score_of_def Let_def using lead_points_range by blast
qed

lemma csat_points_range:
  assumes "\<forall>r \<in> set rs. 1 \<le> r \<and> r \<le> 5"
  shows "0 \<le> csat_points rs \<and> csat_points rs \<le> 40"
proof (cases "rs = []")
  case True
  then show ?thesis by (simp add: csat_points_def)
next
  case False
  have "length rs \<le> sum_list rs \<and> sum_list rs \<le> 5 * length rs" using assms by (induction rs) auto
  then have low: "of_nat (length rs) \<le> (of_nat (sum_list rs) :: rat)" and high: "(of_nat (sum_list rs) :: rat) \<le> of_nat (5 * length rs)"
    by (simp_all only: of_nat_le_iff)
  have pos: "0 < (of_nat (length rs) :: rat)" using False by simp
  have "1 \<le> of_nat (sum_list rs) / (of_nat (length rs) :: rat)" "of_nat (sum_list rs) / (of_nat (length rs) :: rat) \<le> 5"
    using low high pos by (simp_all add: field_simps)
  moreover have "0 \<le> (x - 1) / 4 * 40 \<and> (x - 1) / 4 * 40 \<le> (40 :: rat)" if "1 \<le> x" "x \<le> 5" for x using that by simp
  ultimately show ?thesis using False by (simp only: csat_points_def if_False)
qed

lemma trunc_range: "of_int a \<le> x \<Longrightarrow> x \<le> of_int b \<Longrightarrow> 0 \<le> a \<Longrightarrow> a \<le> trunc_int x \<and> trunc_int x \<le> b"
  unfolding trunc_int_def by (auto simp: le_floor_iff floor_le_iff)

lemma health_range:
  assumes "\<forall>r \<in> set rs. 1 \<le> r \<and> r \<le> 5"
  shows "clamp_score (trunc_int (health_points rs deal breach False)) \<in> {15..85}"
proof -
  have "of_int 15 \<le> health_points rs deal breach False \<and> health_points rs deal breach False \<le> of_int 85"
    using csat_points_range [OF assms] by (simp add: health_points_def)
  then have "15 \<le> trunc_int (health_points rs deal breach False) \<and> trunc_int (health_points rs deal breach False) \<le> 85"
    using trunc_range [of 15 _ 85] by simp
  then show ?thesis by (auto simp: clamp_score_def)
qed

text \<open>The nightly run: only the accounts change, one tenant after the other.\<close>

definition scored :: "tenant_id set \<Rightarrow> crm \<Rightarrow> bool" where
  "scored T k \<longleftrightarrow> (\<forall>a \<in> set (accounts k). account_tenant a \<in> T \<longrightarrow> (\<exists>n \<in> {15..85}. health_score a = Some n))"

definition rated_well :: "crm \<Rightarrow> bool" where
  "rated_well k \<longleftrightarrow> current_tenant (base (crm_desk k)) = None \<and>
     (\<forall>t \<in> set (tickets (base (crm_desk k))). \<forall>r. csat_rating t = Some r \<longrightarrow> 1 \<le> r \<and> r \<le> 5)"

lemma ratings_range: "rated_well k \<Longrightarrow> \<forall>r \<in> set (account_ratings now ten k a). 1 \<le> r \<and> r \<le> 5"
  by (auto simp: rated_well_def account_ratings_def map_filter_def)

lemma never_lively: "rated_well k \<Longrightarrow> \<not> lively_account now k a"
  by (simp add: rated_well_def lively_account_def scoped_def Let_def)

lemma score_of_range: "rated_well k \<Longrightarrow> health_score_of now ten k a \<in> {15..85}"
  using health_range [OF ratings_range] never_lively by (simp add: health_score_of_def)

lemma score_tenant:
  assumes "rated_well k" "scored T k"
  shows "\<exists>k1. score_accounts now ten k = (Inr (), k1) \<and> scored (insert ten T) k1 \<and> rated_well k1"
proof -
  have "health_score_of now ten k a \<in> {15..85}" for a using score_of_range [OF assms(1)] .
  then show ?thesis using assms by (auto simp: score_accounts_def cmd_simps scored_def rated_well_def)
qed

lemma score_tenants:
  assumes "rated_well k" "scored T k"
  shows "scored (T \<union> tenant_id ` set ts) (snd (for_each ts (\<lambda>t _. score_accounts now (tenant_id t)) () k))"
  using assms
proof (induction ts arbitrary: k T)
  case Nil
  then show ?case by (simp add: cmd_simps)
next
  case (Cons t ts)
  obtain k1 where 1: "score_accounts now (tenant_id t) k = (Inr (), k1)" "scored (insert (tenant_id t) T) k1" "rated_well k1"
    using score_tenant [OF Cons.prems] by blast
  then show ?case using Cons.IH [OF 1(3,2)] by (simp add: cmd_simps)
qed

text \<open>
  The nightly task runs outside every tenant, where the contacts of an
  account are never found, so the health score of an account of an active
  tenant lies between 15 and 85 whatever its tickets and contacts are: the
  bounds of 0 and 100 it is clamped to are never reached.
\<close>

theorem health_score_capped:
  assumes "current_tenant (base (crm_desk k)) = None"
    "list_all (\<lambda>t. csat_rating t = None \<or> the (csat_rating t) \<in> {1..5}) (tickets (base (crm_desk k)))"
    "calculate_account_health_scores k = (r, k')" "a \<in> set (accounts k')" "account_tenant a \<in> tenant_id ` set (active_tenants k)"
  shows "\<exists>n. health_score a = Some n \<and> 15 \<le> n \<and> n \<le> 85"
proof -
  have "rated_well k" using assms(1,2) by (force simp: rated_well_def list_all_iff)
  then have "scored (tenant_id ` set (active_tenants k)) k'"
    using score_tenants [of k "{}" "active_tenants k" "crm_clock k"] assms(3)
    by (simp add: scored_def calculate_account_health_scores_def cmd_simps)
  then show ?thesis using assms(4,5) by (auto simp: scored_def)
qed

section \<open>A small CRM for the witnesses\<close>

definition demo_reminder :: "nat \<Rightarrow> user \<Rightarrow> reminder" where
  "demo_reminder i u = \<lparr>rem_id = i, rem_tenant = 1, rem_subject = ''Call'', rem_notes = [], scheduled_at = 10, completed_at = None,
     cancelled_at = None, due_notified_at = None, rem_priority = MediumReminder, rem_contacts = [], rem_tickets = [],
     rem_assignee = None, rem_creator = u, rem_created = 0, rem_updated = 0\<rparr>"

definition demo_deal :: deal_columns where
  "demo_deal = \<lparr>ticket_type = ''deal'', deal_value = None, probability = None, expected_close_date = None, csat_submitted_at = None,
     ticket_account = None, ticket_last_activity = None\<rparr>"

definition demo_other :: user where
  "demo_other = \<lparr>user_id = 8, first_name = ''Bo'', last_name = ''M'', email = ''bo@acme''\<rparr>"

definition demo_crm :: crm where
  "demo_crm = \<lparr>crm_desk = demo_desk, reminders = [demo_reminder 1 demo_other, demo_reminder 2 demo_user], crm_activities = [],
     accounts = [\<lparr>account_id = 5, account_tenant = 1, health_score = None\<rparr>], deal_of = (\<lambda>_. demo_deal), account_of = (\<lambda>_. None),
     lead_score = (\<lambda>_. None), pipelines = [], stages = []\<rparr>"

definition demo_query :: reminder_query where
  "demo_query = \<lparr>q_assigned = None, q_contact = None, q_ticket = None, q_priority = None, q_mine = False, q_after = None,
     q_before = None, q_queue = None, q_status = None\<rparr>"

definition demo_body :: reminder_body where
  "demo_body = \<lparr>rb_subject = ''Call'', rb_notes = [], rb_scheduled = 2000, rb_priority = HighReminder, rb_contacts = [],
     rb_tickets = [], rb_assignee = None\<rparr>"

lemma demo_due: "map rem_id (due_reminders 1000 1 demo_crm) = [1, 2]"
  by code_simp

theorem due_reminders_alerted_once_witness:
  "length (notifications (crm_desk (snd (fire_due_reminders demo_crm)))) = 2 \<and>
   list_all (\<lambda>x. 1000 < scheduled_at x) (due_reminders 5000 1 (snd (fire_due_reminders demo_crm)))"
proof -
  have start: "distinct (map rem_id (reminders demo_crm))" "distinct (map tenant_id (tenants (crm_desk demo_crm)))"
    "active_tenants demo_crm = [demo_tenant]" "crm_clock demo_crm = 1000" "tenant_id demo_tenant = 1"
    "notifications (crm_desk demo_crm) = []"
    by (simp_all add: demo_crm_def demo_desk_def demo_reminder_def active_tenants_def demo_tenant_def demo_store_def)
  obtain r k' where run: "fire_due_reminders demo_crm = (r, k')" by force
  obtain ns where "notifications (crm_desk k') = ns" "list_all2 alert_of (due_reminders 1000 1 demo_crm) ns"
    "list_all (\<lambda>x. 1000 < scheduled_at x) (due_reminders 5000 1 k')"
    using due_reminders_alerted_once [OF start(1,2) run, of 5000] start by auto
  moreover from this(2) have "length ns = length (map rem_id (due_reminders 1000 1 demo_crm))"
    by (simp add: list_all2_lengthD)
  moreover have "length (map rem_id (due_reminders 1000 1 demo_crm)) = 2" by (simp only: demo_due) simp
  ultimately show ?thesis using run by simp
qed

definition demo_blank :: crm where
  "demo_blank = demo_crm\<lparr>reminders := []\<rparr>"

definition demo_made :: crm where
  "demo_made = snd (run_endpoint demo_caller demo_query (Create demo_body) demo_blank)"

definition demo_done :: crm where
  "demo_done = snd (run_endpoint demo_caller demo_query (Complete 100) demo_made)"

lemma demo_allowed: "clock (base d) = 1000 \<Longrightarrow> memberships (base d) = memberships (base demo_desk) \<Longrightarrow>
    reminder_permission d demo_caller ''create'' \<and> reminder_permission d demo_caller ''complete''"
  by (simp add: reminder_permission_def is_tenant_member_def is_agent_or_above_def at_most_def api_of_def demo_caller_def
      get_membership_def membership_of_def demo_desk_def demo_member_def demo_role_def demo_user_def demo_tenant_def level_of_def
      effective_role_def has_active_temporary_role_def)

lemma demo_facts: "caller_ten demo_caller = 1" "caller_user demo_caller = demo_user" "is_superuser demo_caller = False"
    "crm_desk demo_crm = demo_desk" "reminders demo_blank = []" "crm_desk demo_blank = demo_desk" "clock (base demo_desk) = 1000"
    "next_pk (base demo_desk) = 100" "current_tenant (base demo_desk) = Some 1" "user_id demo_user = 7"
  by (simp_all add: demo_caller_def demo_crm_def demo_blank_def demo_desk_def demo_store_def demo_tenant_def demo_user_def)

lemmas demo_runs = forget_def permitted_def demo_allowed cmd_simps Let_def broadcast_reminder_save_def log_reminder_audit_def
  best_try_def log_activity_def reminder_tickets_def scoped_def demo_facts demo_body_def

lemma demo_made_rows: "map (\<lambda>r. (rem_id r, rem_tenant r, completed_at r, cancelled_at r, rem_creator r, rem_tickets r)) (reminders demo_made) = [(100, 1, None, None, demo_user, [])] \<and>
    crm_clock demo_made = 1000 \<and> memberships (base (crm_desk demo_made)) = memberships (base demo_desk)"
  by (simp add: demo_made_def create_reminder_def insert_reminder_def demo_runs)

lemma demo_done_rows: "map completed_at (reminders demo_done) = [Some 1000]"
proof -
  obtain r where r: "reminders demo_made = [r]" "rem_id r = 100" "rem_tenant r = 1" "completed_at r = None" "cancelled_at r = None"
    "rem_creator r = demo_user" "rem_tickets r = []"
    using demo_made_rows by (cases "reminders demo_made") auto
  have "visible_reminders demo_caller demo_query demo_made = [r]"
    using r by (simp add: visible_reminders_def base_reminders_def demo_query_def asked_def status_filter_def owns_reminder_def demo_facts)
  then show ?thesis using r demo_made_rows
    by (simp add: demo_done_def complete_reminder_def get_reminder_def mark_completed_def put_reminder_def demo_runs reminder_timeline_def)
qed

theorem reminder_ends_once_witness: "map cancelled_at (reminders demo_done) = [None]"
proof -
  have "crm_step demo_blank demo_made"
    by (rule crm_step.Request [of demo_caller demo_query "Create demo_body" _ "fst (run_endpoint demo_caller demo_query (Create demo_body) demo_blank)"])
      (simp add: demo_made_def)
  moreover have "crm_step demo_made demo_done"
    by (rule crm_step.Request [of demo_caller demo_query "Complete 100" _ "fst (run_endpoint demo_caller demo_query (Complete 100) demo_made)"])
      (simp add: demo_done_def)
  ultimately have runs: "crm_step\<^sup>*\<^sup>* demo_blank demo_done" by simp
  show ?thesis using reminder_ends_once [OF runs] demo_done_rows by (auto simp: demo_blank_def)
qed

lemma demo_agent_restricted: "restricted_caller (crm_desk demo_crm) demo_caller"
  by code_simp

theorem agents_change_own_reminders_witness:
  "demo_reminder 1 demo_other \<in> set (reminders (snd (run_endpoint demo_caller demo_query (Bulk BulkComplete [1]) demo_crm)))"
proof -
  have "wf_crm demo_crm" by (simp add: wf_crm_def demo_crm_def demo_reminder_def crm_pk_def demo_desk_def demo_store_def)
  moreover have "demo_reminder 1 demo_other \<in> set (reminders demo_crm)" by (simp add: demo_crm_def)
  moreover have "\<not> owns_reminder (caller_user demo_caller) (demo_reminder 1 demo_other)"
    by (simp add: owns_reminder_def same_user_def demo_caller_def demo_reminder_def demo_user_def demo_other_def)
  ultimately show ?thesis using agents_change_own_reminders [OF _ demo_agent_restricted _ _ surjective_pairing] by blast
qed

definition demo_night :: crm where
  "demo_night = demo_crm\<lparr>crm_desk := demo_desk\<lparr>base := demo_store\<lparr>current_tenant := None\<rparr>\<rparr>\<rparr>"

lemma demo_night_accounts: "map (\<lambda>a. (account_id a, account_tenant a)) (accounts (snd (calculate_account_health_scores demo_night))) = [(5, 1)]"
  by (simp add: calculate_account_health_scores_def score_accounts_def cmd_simps demo_night_def demo_crm_def active_tenants_def
      demo_desk_def demo_tenant_def)

theorem health_score_capped_witness:
  "list_all (\<lambda>a. \<exists>n. health_score a = Some n \<and> 15 \<le> n \<and> n \<le> 85) (accounts (snd (calculate_account_health_scores demo_night)))"
proof -
  have start: "current_tenant (base (crm_desk demo_night)) = None"
    "list_all (\<lambda>t. csat_rating t = None \<or> the (csat_rating t) \<in> {1..5}) (tickets (base (crm_desk demo_night)))"
    "tenant_id ` set (active_tenants demo_night) = {1}"
    by (simp_all add: demo_night_def demo_crm_def demo_desk_def demo_store_def demo_ticket_def new_ticket_def active_tenants_def demo_tenant_def)
  obtain a where "accounts (snd (calculate_account_health_scores demo_night)) = [a]" "account_tenant a = 1"
    using demo_night_accounts by (cases "accounts (snd (calculate_account_health_scores demo_night))") auto
  then show ?thesis using health_score_capped [OF start(1,2) surjective_pairing, of a] start(3) by simp
qed

end
