(* ===== verification/Comment_Threads.thy ===== *)
theory Comment_Threads
  imports Crm_Reminders Talk
begin

text \<open>
  Comments on any row of a tenant (\<open>apps/comments\<close>), the comment thread of a
  ticket (\<open>apps/tickets/views.py\<close>) and the notices a comment on a ticket causes
  (\<open>apps/notifications/signal_handlers.py\<close>).  The request's tenant is the tenant
  of the context.  \<open>targets\<close> are the rows of the other models that carry a
  tenant, \<open>global_models\<close> the models without one.
\<close>

section \<open>Rows\<close>

text \<open>The columns of a comment that only this component reads.\<close>

record comment_more =
  parent_of :: "nat option"
  written_at :: instant

text \<open>\<open>reply_mails\<close>: the reply mails queued for the commit, as (ticket, tenant, body, agent).\<close>

record forum =
  forum_desk :: desk
  more_of :: "nat \<Rightarrow> comment_more"
  mention_rows :: "(nat \<times> user_id) list"
  comment_reads :: "(nat \<times> user_id) list"
  content_types :: "((string \<times> string) \<times> content_type) list"
  targets :: "(content_type \<times> nat \<times> tenant_id) list"
  global_models :: "content_type list"
  reply_mails :: "(nat \<times> tenant_id \<times> string \<times> string) list"

type_synonym 'a forumop = "(forum, 'a) cmd"

definition in_forum :: "'a act \<Rightarrow> 'a forumop" where
  "in_forum c = (\<lambda>k. case c (forum_desk k) of (r, d') \<Rightarrow> (r, k\<lparr>forum_desk := d'\<rparr>))"

lemma run_in_forum [cmd_simps]: "in_forum c k = (fst (c (forum_desk k)), k\<lparr>forum_desk := snd (c (forum_desk k))\<rparr>)"
  by (simp add: in_forum_def split: prod.split)

abbreviation forum_base :: "forum \<Rightarrow> store" where
  "forum_base k \<equiv> base (forum_desk k)"

abbreviation parent_at :: "forum \<Rightarrow> nat \<Rightarrow> nat option" where
  "parent_at k i \<equiv> parent_of (more_of k i)"

section \<open>Mentions (\<open>services.py\<close>)\<close>

definition hex_digit :: "char \<Rightarrow> bool" where
  "hex_digit c \<longleftrightarrow> is_digit c \<or> chr_range (CHR ''a'') (CHR ''f'') (lower_char c)"

text \<open>Groups of 8, 4, 4, 4 and 12 hexadecimal digits joined by dashes, in either case.\<close>

definition uuid_shape :: "string \<Rightarrow> bool" where
  "uuid_shape s \<longleftrightarrow> length s = 36 \<and>
     list_all (\<lambda>(j, c). if j \<in> {8, 13, 18, 23} then c = CHR ''-'' else hex_digit c) (enumerate 0 s)"

text \<open>A match of \<open>MENTION_PATTERN\<close> at the start: the text of the id and what follows.\<close>

definition user_mark_at :: "string \<Rightarrow> (string \<times> string) option" where
  "user_mark_at s = (if \<not> startswith s ''@['' then None
     else let name = takeWhile (\<lambda>c. c \<noteq> CHR '']'') (drop 2 s); r = drop (2 + length name) s; i = take 36 (drop 7 r)
       in if name \<noteq> [] \<and> startswith (lower r) ''](user:'' \<and> uuid_shape i \<and> startswith (drop 43 r) '')''
          then Some (i, drop 44 r) else None)"

lemma user_mark_shorter: "user_mark_at s = Some (i, r) \<Longrightarrow> length r < length s"
  by (auto simp: user_mark_at_def Let_def startswith_iff split: if_splits)

function user_marks :: "string \<Rightarrow> string list" where
  "user_marks [] = []"
| "user_marks (c # cs) = (case user_mark_at (c # cs) of Some (i, r) \<Rightarrow> i # user_marks r | None \<Rightarrow> user_marks cs)"
  by pat_completeness auto
termination
  by (relation "measure length") (auto dest: user_mark_shorter)

text \<open>The distinct ids, in the order of their first mention.\<close>

definition mentioned_ids :: "string \<Rightarrow> user_id list" where
  "mentioned_ids body = rev (remdups (rev (List.map_filter (\<lambda>i. uuid_of (lower i)) (user_marks body))))"

definition member_users :: "desk \<Rightarrow> tenant_id \<Rightarrow> user list" where
  "member_users d ten = filter (\<lambda>u. is_member_of d (user_id u) ten) (users (base d))"

text \<open>\<open>bulk_create(..., ignore_conflicts=True)\<close>\<close>

definition add_mentions :: "nat \<Rightarrow> user_id list \<Rightarrow> unit forumop" where
  "add_mentions i us = update (\<lambda>k. k\<lparr>mention_rows := mention_rows k @
     filter (\<lambda>x. x \<notin> set (mention_rows k)) (map (Pair i) us)\<rparr>)"

definition record_mentions :: "comment \<Rightarrow> unit forumop" where
  "record_mentions c = (let ids = mentioned_ids (comment_body c)
     in if ids = [] then ret ()
        else bindc (asks (\<lambda>k. filter (\<lambda>u. user_id u \<in> set ids) (member_users (forum_desk k) (comment_tenant c)))) (\<lambda>us.
          add_mentions (comment_id c) (map user_id us)))"

section \<open>Live events (\<open>signals.py\<close>)\<close>

definition type_label :: "forum \<Rightarrow> content_type \<Rightarrow> string" where
  "type_label k ct = (case first_row (\<lambda>x. snd x = ct) (content_types k) of
     None \<Rightarrow> [] | Some ((app, model), _) \<Rightarrow> app @ ''.'' @ model)"

definition serialise_comment :: "forum \<Rightarrow> comment \<Rightarrow> json" where
  "serialise_comment k c = JObj [(''id'', jpk (comment_id c)),
     (''body'', if is_internal c then JNull else JStr (comment_body c)), (''is_internal'', JBool (is_internal c)),
     (''author_id'', jpk (user_id (comment_author c))), (''parent_id'', jopt jpk (parent_at k (comment_id c))),
     (''content_type'', JStr (type_label k (comment_type c))), (''object_id'', jpk (comment_object c)),
     (''created_at'', jtime (written_at (more_of k (comment_id c))))]"

definition broadcast_comment_save :: "bool \<Rightarrow> comment \<Rightarrow> unit forumop" where
  "broadcast_comment_save created c = bindc (asks (\<lambda>k. serialise_comment k c)) (\<lambda>payload.
     in_forum (broadcast_live_event (comment_tenant c) (if created then ''comment.created'' else ''comment.updated'') payload))"

definition broadcast_comment_delete :: "forum \<Rightarrow> comment \<Rightarrow> unit forumop" where
  "broadcast_comment_delete old c = in_forum (broadcast_live_event (comment_tenant c) ''comment.deleted''
     (JObj [(''id'', jpk (comment_id c)), (''content_type'', JStr (type_label old (comment_type c))),
       (''object_id'', jpk (comment_object c)), (''parent_id'', jopt jpk (parent_at old (comment_id c)))]))"

section \<open>Validation (\<open>serializers.py\<close>)\<close>

definition content_type_of :: "forum \<Rightarrow> string \<Rightarrow> content_type res" where
  "content_type_of k v = (case split_on (CHR ''.'') (lower (strip v)) of
     [app, model] \<Rightarrow> (case map_of (content_types k) (app, model) of
         Some ct \<Rightarrow> Inr ct | None \<Rightarrow> Inl (ValidationError ''content_type does not exist''))
   | _ \<Rightarrow> Inl (ValidationError ''content_type must be in app_label.model format''))"

text \<open>\<open>manager.filter(pk=object_id, tenant=tenant).exists()\<close>, also for a deleted ticket.\<close>

definition target_exists :: "forum \<Rightarrow> content_type \<Rightarrow> nat \<Rightarrow> tenant_id \<Rightarrow> bool" where
  "target_exists k ct i ten =
     (if ct = TicketCT then (\<exists>t \<in> set (tickets (forum_base k)). pk t = i \<and> tenant_id (ticket_tenant t) = ten)
      else ct \<in> set (global_models k) \<or> (ct, i, ten) \<in> set (targets k))"

definition comment_row :: "nat \<Rightarrow> forum \<Rightarrow> comment option" where
  "comment_row i k = first_row (\<lambda>c. comment_id c = i) (comments (forum_base k))"

text \<open>The body of a request; what it leaves out is None.\<close>

record comment_input =
  in_type :: "content_type option"
  in_object :: "nat option"
  in_body :: "string option"
  in_internal :: "bool option"
  in_parent :: "nat option option"

definition validate_comment :: "forum \<Rightarrow> tenant_id \<Rightarrow> comment_input \<Rightarrow> unit res" where
  "validate_comment k ten x =
     (if (case (in_type x, in_object x) of (Some ct, Some i) \<Rightarrow> \<not> target_exists k ct i ten | _ \<Rightarrow> False)
      then Inl (ValidationError ''Target object not found.'')
      else (case in_parent x of
          Some (Some i) \<Rightarrow> (case first_row (\<lambda>c. comment_id c = i \<and> comment_tenant c = ten) (comments (forum_base k)) of
            None \<Rightarrow> Inl (ValidationError ''Invalid pk'')
          | Some p \<Rightarrow>
              if in_type x \<noteq> Some (comment_type p) \<or> in_object x \<noteq> Some (comment_object p)
              then Inl (ValidationError ''Parent comment must belong to the same content object.'')
              else if parent_at k i \<noteq> None
              then Inl (ValidationError ''Replies to replies are not allowed. Reply to the top-level comment instead.'')
              else Inr ())
        | _ \<Rightarrow> Inr ()))"

text \<open>\<open>create\<close>: the row, its live event, the mentions.\<close>

definition insert_comment :: "caller \<Rightarrow> content_type \<Rightarrow> nat \<Rightarrow> string \<Rightarrow> bool \<Rightarrow> nat option \<Rightarrow> comment forumop" where
  "insert_comment u ct object body internal parent =
     bindc (in_forum fresh_pk) (\<lambda>i. bindc (in_forum now_of) (\<lambda>now.
       let c = \<lparr>comment_id = i, comment_tenant = caller_ten u, comment_type = ct, comment_object = object,
                comment_author = caller_user u, comment_body = body, is_internal = internal\<rparr>
       in thenc (update (\<lambda>k. k\<lparr>forum_desk := (forum_desk k)\<lparr>base := (forum_base k)\<lparr>comments := c # comments (forum_base k)\<rparr>\<rparr>,
              more_of := (more_of k)(i := \<lparr>parent_of = parent, written_at = now\<rparr>)\<rparr>))
          (thenc (broadcast_comment_save True c)
          (thenc (record_mentions c) (ret c)))))"

definition save_input :: "caller \<Rightarrow> comment_input \<Rightarrow> comment forumop" where
  "save_input u x = bindc (asks (\<lambda>k. validate_comment k (caller_ten u) x)) (\<lambda>valid. bindc (lift_res valid) (\<lambda>_.
     case (in_type x, in_object x, in_body x) of
       (Some ct, Some i, Some body) \<Rightarrow> insert_comment u ct i body (in_internal x = Some True)
         (case in_parent x of None \<Rightarrow> None | Some p \<Rightarrow> p)
     | _ \<Rightarrow> raise_exc (ValidationError ''This field is required.'')))"

section \<open>Who sees which comments (\<open>views.py\<close>)\<close>

text \<open>Deny first: whoever is no member, or ranks above level 20, is restricted.\<close>

definition kept_out :: "desk \<Rightarrow> caller \<Rightarrow> bool" where
  "kept_out d u \<longleftrightarrow> \<not> is_superuser u \<and> (case membership_of d (user_id (caller_user u)) (caller_ten u) of
     None \<Rightarrow> True | Some m \<Rightarrow> level_of d m > 20)"

definition involved :: "user \<Rightarrow> ticket \<Rightarrow> bool" where
  "involved u t \<longleftrightarrow> user_id (created_by t) = user_id u \<or> same_user (assignee t) u"

definition own_ticket_ids :: "caller \<Rightarrow> store \<Rightarrow> nat set" where
  "own_ticket_ids u s = pk ` {t \<in> set (tickets s). tenant_id (ticket_tenant t) = caller_ten u \<and> involved (caller_user u) t}"

definition visible_comments :: "caller \<Rightarrow> forum \<Rightarrow> comment list" where
  "visible_comments u k = filter (\<lambda>c. comment_tenant c = caller_ten u \<and>
     (kept_out (forum_desk k) u \<longrightarrow> comment_type c = TicketCT \<and> comment_object c \<in> own_ticket_ids u (forum_base k) \<and>
        \<not> is_internal c)) (comments (forum_base k))"

record comment_query =
  by_type :: "string option"
  by_object :: "nat option"
  by_internal :: "bool option"
  by_toplevel :: "bool option"

definition list_comments :: "caller \<Rightarrow> comment_query \<Rightarrow> forum \<Rightarrow> comment list" where
  "list_comments u q k = filter (\<lambda>c.
     asked (by_type q) (\<lambda>v. content_type_of k v = Inr (comment_type c)) \<and> asked (by_object q) (\<lambda>i. comment_object c = i) \<and>
     asked (by_internal q) (\<lambda>b. is_internal c = b) \<and> asked (by_toplevel q) (\<lambda>b. (parent_at k (comment_id c) = None) = b))
     (visible_comments u k)"

definition get_comment :: "caller \<Rightarrow> nat \<Rightarrow> comment forumop" where
  "get_comment u i = bindc (asks (\<lambda>k. first_row (\<lambda>c. comment_id c = i) (visible_comments u k))) (\<lambda>found. case found of
     None \<Rightarrow> raise_exc (DoesNotExist ''Comment'') | Some c \<Rightarrow> ret c)"

text \<open>The replies to a comment the caller sees: all of them, oldest first.\<close>

definition replies :: "caller \<Rightarrow> nat \<Rightarrow> comment list forumop" where
  "replies u i = bindc (get_comment u i) (\<lambda>c. asks (\<lambda>k. sort_key (\<lambda>x. written_at (more_of k (comment_id x)))
     (filter (\<lambda>x. comment_tenant x = caller_ten u \<and> parent_at k (comment_id x) = Some (comment_id c)) (comments (forum_base k)))))"

definition visible_activity :: "caller \<Rightarrow> forum \<Rightarrow> audit_entry list" where
  "visible_activity u k = filter (\<lambda>a. audit_tenant a = caller_ten u \<and>
     (kept_out (forum_desk k) u \<longrightarrow> audit_type a = TicketCT \<and> audit_object a \<in> own_ticket_ids u (forum_base k)))
     (audits (forum_base k))"

section \<open>The endpoints\<close>

definition comment_audit :: "caller \<Rightarrow> content_type \<Rightarrow> nat \<Rightarrow> action \<Rightarrow> json \<Rightarrow> unit forumop" where
  "comment_audit u ct i a changes = in_forum (on_base (log_activity (caller_tenant u) (Some (caller_user u)) ct i a changes (caller_request u)))"

definition create_comment :: "caller \<Rightarrow> comment_input \<Rightarrow> comment forumop" where
  "create_comment u x = bindc (save_input u x) (\<lambda>c.
     thenc (comment_audit u (comment_type c) (comment_object c) ACommented (JObj [])) (ret c))"

definition changed_comment :: "comment_input \<Rightarrow> comment \<Rightarrow> comment" where
  "changed_comment x c = c\<lparr>comment_type := named (in_type x) (comment_type c), comment_object := named (in_object x) (comment_object c),
     comment_body := named (in_body x) (comment_body c), is_internal := named (in_internal x) (is_internal c)\<rparr>"

definition changed_parent :: "comment_input \<Rightarrow> nat option \<Rightarrow> nat option" where
  "changed_parent x old = (case in_parent x of None \<Rightarrow> old | Some p \<Rightarrow> p)"

definition update_comment :: "caller \<Rightarrow> nat \<Rightarrow> comment_input \<Rightarrow> comment forumop" where
  "update_comment u i x = bindc (get_comment u i) (\<lambda>old.
     bindc (asks (\<lambda>k. validate_comment k (caller_ten u) x)) (\<lambda>valid. bindc (lift_res valid) (\<lambda>_.
     let c = changed_comment x old
     in thenc (update (\<lambda>k. k\<lparr>forum_desk := (forum_desk k)\<lparr>base := (forum_base k)\<lparr>comments :=
              map (\<lambda>r. if comment_id r = i then c else r) (comments (forum_base k))\<rparr>\<rparr>,
            more_of := (more_of k)(i := (more_of k i)\<lparr>parent_of := changed_parent x (parent_at k i)\<rparr>)\<rparr>))
        (thenc (broadcast_comment_save False c)
        (thenc (if comment_body old \<noteq> comment_body c
            then comment_audit u (OtherCT ''comment'') i AUpdated
              (JObj [(''body'', JList [JStr (comment_body old), JStr (comment_body c)])])
            else ret ())
          (ret c))))))"

text \<open>The comment and the replies the cascade deletes, found in at most as many rounds as there are comments.\<close>

fun thread_ids :: "nat \<Rightarrow> (nat \<Rightarrow> nat option) \<Rightarrow> nat list \<Rightarrow> nat list \<Rightarrow> nat list" where
  "thread_ids 0 p every ids = ids"
| "thread_ids (Suc n) p every ids = thread_ids n p every
     (ids @ filter (\<lambda>i. i \<notin> set ids \<and> (\<exists>j \<in> set ids. p i = Some j)) every)"

definition remove_thread :: "nat \<Rightarrow> unit forumop" where
  "remove_thread i = bindc (asks id) (\<lambda>old.
     let every = map comment_id (comments (forum_base old));
         ids = thread_ids (length every) (parent_at old) every [i]
     in thenc (update (\<lambda>k. k\<lparr>forum_desk := (forum_desk k)\<lparr>base := (forum_base k)\<lparr>comments :=
              filter (\<lambda>c. comment_id c \<notin> set ids) (comments (forum_base k))\<rparr>\<rparr>,
            mention_rows := filter (\<lambda>x. fst x \<notin> set ids) (mention_rows k),
            comment_reads := filter (\<lambda>x. fst x \<notin> set ids) (comment_reads k)\<rparr>))
        (for_each (filter (\<lambda>c. comment_id c \<in> set ids) (comments (forum_base old))) (\<lambda>c _. broadcast_comment_delete old c) ()))"

text \<open>The audit entry of the target comes first; it fails when the target is gone.\<close>

definition destroy_comment :: "caller \<Rightarrow> nat \<Rightarrow> unit forumop" where
  "destroy_comment u i = bindc (get_comment u i) (\<lambda>c.
     bindc (asks (\<lambda>k. target_exists k (comment_type c) (comment_object c) (comment_tenant c))) (\<lambda>present.
     if \<not> present then raise_exc (TypeError ''content_object'')
     else thenc (comment_audit u (comment_type c) (comment_object c) ADeleted (JObj [])) (remove_thread i)))"

definition mark_comment_read :: "caller \<Rightarrow> nat \<Rightarrow> unit forumop" where
  "mark_comment_read u i = bindc (get_comment u i) (\<lambda>c. update (\<lambda>k.
     if (i, user_id (caller_user u)) \<in> set (comment_reads k) then k
     else k\<lparr>comment_reads := comment_reads k @ [(i, user_id (caller_user u))]\<rparr>))"

section \<open>Notices of a comment on a ticket (\<open>signal_handlers.py\<close>)\<close>

definition word_char :: "char \<Rightarrow> bool" where
  "word_char c \<longleftrightarrow> is_digit c \<or> chr_range (CHR ''a'') (CHR ''z'') (lower_char c) \<or> c = CHR ''_''"

definition local_char :: "char \<Rightarrow> bool" where
  "local_char c \<longleftrightarrow> word_char c \<or> c \<in> set ''.+-''"

definition domain_char :: "char \<Rightarrow> bool" where
  "domain_char c \<longleftrightarrow> word_char c \<or> c \<in> set ''.-''"

text \<open>
  The length of the longest match of \<open>[\\w.-]+\\.\\w+\<close> at the start of a run of
  domain characters: up to the word after its last dot that a word follows.
\<close>

definition dot_at :: "string \<Rightarrow> nat \<Rightarrow> bool" where
  "dot_at s j \<longleftrightarrow> 0 < j \<and> j + 1 < length s \<and> s ! j = CHR ''.'' \<and> word_char (s ! (j + 1))"

definition domain_length :: "string \<Rightarrow> nat option" where
  "domain_length s = (case filter (dot_at s) (rev [0..<length s]) of [] \<Rightarrow> None
     | j # _ \<Rightarrow> Some (j + 1 + length (takeWhile word_char (drop (j + 1) s))))"

text \<open>A match of \<open>@([\\w.+-]+@[\\w.-]+\\.\\w+)\<close> at the start: the address and what follows.\<close>

definition address_at :: "string \<Rightarrow> (string \<times> string) option" where
  "address_at s = (case s of [] \<Rightarrow> None | c # cs \<Rightarrow>
     let who = takeWhile local_char cs; r = drop (length who) cs
     in if c \<noteq> CHR ''@'' \<or> who = [] \<or> \<not> startswith r ''@'' then None
        else (case domain_length (takeWhile domain_char (drop 1 r)) of None \<Rightarrow> None
          | Some n \<Rightarrow> Some (who @ ''@'' @ take n (drop 1 r), drop (Suc n) r)))"

lemma address_shorter: "address_at s = Some (a, r) \<Longrightarrow> length r < length s"
  by (auto simp: address_at_def Let_def split: list.splits if_splits option.splits)

function addresses :: "string \<Rightarrow> string list" where
  "addresses [] = []"
| "addresses (c # cs) = (case address_at (c # cs) of Some (a, r) \<Rightarrow> a # addresses r | None \<Rightarrow> addresses cs)"
  by pat_completeness auto
termination
  by (relation "measure length") (auto dest: address_shorter)

definition comment_notice_data :: "ticket \<Rightarrow> comment \<Rightarrow> json" where
  "comment_notice_data t c = JObj [(''ticket_id'', jpk (pk t)), (''ticket_number'', JInt (int (number t))),
     (''comment_id'', jpk (comment_id c)), (''url'', JStr (''/tickets/'' @ show_nat (number t)))]"

definition addressed_users :: "comment \<Rightarrow> tenant_id \<Rightarrow> desk \<Rightarrow> user list" where
  "addressed_users c ten d = filter (\<lambda>u. email u \<in> set (addresses (comment_body c))) (member_users d ten)"

definition queue_reply_email :: "ticket \<Rightarrow> comment \<Rightarrow> user \<Rightarrow> unit forumop" where
  "queue_reply_email t c author = (case contact_of t of None \<Rightarrow> ret ()
     | Some x \<Rightarrow> if contact_email x = [] \<or> contact_email x = email author then ret ()
         else update (\<lambda>k. k\<lparr>reply_mails := reply_mails k @
           [(pk t, tenant_id (ticket_tenant t), comment_body c, display_name author)]\<rparr>))"

definition handle_comment_notification :: "comment \<Rightarrow> tenant_id \<Rightarrow> ticket \<Rightarrow> user \<Rightarrow> unit forumop" where
  "handle_comment_notification c ten t author = try_except
     (let data = comment_notice_data t c; owner = (case assignee t of None \<Rightarrow> []
          | Some a \<Rightarrow> if user_id a = user_id author then [] else [a])
      in thenc (for_each owner (\<lambda>a _. in_forum (notify ten a NTicketComment data)) ())
         (bindc (asks (\<lambda>k. addressed_users c ten (forum_desk k))) (\<lambda>us.
          thenc (for_each (filter (\<lambda>v. user_id v \<notin> user_id ` set (author # owner)) (distinct_users us))
              (\<lambda>v _. in_forum (notify ten v NMention data)) ())
            (if is_internal c then ret () else queue_reply_email t c author))))
     (\<lambda>_. ret ())"

section \<open>The thread of a ticket (\<open>TicketViewSet.comments\<close>)\<close>

text \<open>For the ticket the view has found.\<close>

definition ticket_thread :: "caller \<Rightarrow> ticket \<Rightarrow> forum \<Rightarrow> comment list" where
  "ticket_thread u t k = sort_key (\<lambda>c. written_at (more_of k (comment_id c))) (filter (\<lambda>c. comment_tenant c = caller_ten u \<and>
     comment_type c = TicketCT \<and> comment_object c = pk t \<and> (kept_out (forum_desk k) u \<longrightarrow> \<not> is_internal c)) (comments (forum_base k)))"

definition post_ticket_comment :: "caller \<Rightarrow> ticket \<Rightarrow> string \<Rightarrow> bool \<Rightarrow> nat option \<Rightarrow> comment forumop" where
  "post_ticket_comment u t body internal parent =
     bindc (save_input u \<lparr>in_type = Some TicketCT, in_object = Some (pk t), in_body = Some body, in_internal = Some internal,
         in_parent = Some parent\<rparr>) (\<lambda>c.
     thenc (comment_audit u TicketCT (pk t) ACommented (JObj []))
     (thenc (in_forum (on_base (log_ticket_comment t (Some (caller_user u)) (is_internal c))))
     (bindc (if is_internal c then ret t else in_forum (on_base (record_first_response t (Some (caller_user u))))) (\<lambda>t'.
     thenc (handle_comment_notification c (tenant_id (ticket_tenant t)) t' (caller_user u)) (ret c)))))"

text \<open>An empty forum for the demonstrations.\<close>

definition demo_forum :: forum where
  "demo_forum = \<lparr>forum_desk = demo_desk, more_of = (\<lambda>_. \<lparr>parent_of = None, written_at = 0\<rparr>), mention_rows = [], comment_reads = [],
     content_types = [], targets = [], global_models = [], reply_mails = []\<rparr>"

end
