(* ===== verification/Comment_Laws.thy ===== *)
theory Comment_Laws
  imports Comment_Threads Ticket_Trail
begin

text \<open>
  What the comment endpoints keep: threads have one level, whom a comment on a
  ticket tells, and that the body of an internal note never leaves on a live
  event.
\<close>

section \<open>Whom a comment tells\<close>

text \<open>Sending one notice to each of a list of users.\<close>

lemma tell_users:
  "\<exists>k' ns. for_each us (\<lambda>u _. in_forum (notify ten u kind data)) () k = (Inr (), k') \<and>
     notifications (forum_desk k') = notifications (forum_desk k) @ ns \<and>
     map notif_recipient ns = map user_id us \<and> list_all (\<lambda>n. notif_type n = kind \<and> notif_tenant n = ten) ns \<and>
     users (forum_base k') = users (forum_base k) \<and> memberships (forum_base k') = memberships (forum_base k)"
proof (induction us arbitrary: k)
  case Nil
  show ?case by (simp add: cmd_simps)
next
  case (Cons u us)
  let ?k1 = "snd (in_forum (notify ten u kind data) k)"
  let ?n = "notice (forum_desk k) ten u kind data"
  have one: "in_forum (notify ten u kind data) k = (Inr (), ?k1)" "notifications (forum_desk ?k1) = notifications (forum_desk k) @ [?n]"
    "users (forum_base ?k1) = users (forum_base k)" "memberships (forum_base ?k1) = memberships (forum_base k)"
    by (simp_all add: notify_def cmd_simps send_notification_run)
  obtain k2 ns where rest: "for_each us (\<lambda>u _. in_forum (notify ten u kind data)) () ?k1 = (Inr (), k2)"
    "notifications (forum_desk k2) = notifications (forum_desk ?k1) @ ns" "map notif_recipient ns = map user_id us"
    "list_all (\<lambda>n. notif_type n = kind \<and> notif_tenant n = ten) ns"
    "users (forum_base k2) = users (forum_base ?k1)" "memberships (forum_base k2) = memberships (forum_base ?k1)"
    using Cons.IH [of ?k1] by blast
  have "for_each (u # us) (\<lambda>u _. in_forum (notify ten u kind data)) () k = (Inr (), k2)"
    using rest(1) by (subst for_each.simps, subst run_bind, subst one(1)) simp
  moreover have "notifications (forum_desk k2) = notifications (forum_desk k) @ (?n # ns)" using rest(2) one(2) by simp
  moreover have "map notif_recipient (?n # ns) = map user_id (u # us)" "list_all (\<lambda>n. notif_type n = kind \<and> notif_tenant n = ten) (?n # ns)"
    using rest(3,4) by (simp_all add: notice_def)
  ultimately show ?case using rest(5,6) one(3,4) by metis
qed

lemma distinct_users_ids: "distinct (map user_id (distinct_users us)) \<and> user_id ` set (distinct_users us) = user_id ` set us"
proof (induction us)
  case Nil
  show ?case by (simp add: distinct_users_def)
next
  case (Cons u us)
  have step: "distinct_users (u # us) = u # filter (\<lambda>v. user_id v \<noteq> user_id u) (distinct_users us)" by (simp add: distinct_users_def)
  have "user_id ` set (filter (\<lambda>v. user_id v \<noteq> user_id u) (distinct_users us)) = user_id ` set (distinct_users us) - {user_id u}" by auto
  then show ?case using Cons by (auto simp: step distinct_map_filter)
qed

lemma addressed_same:
  "users (base d') = users (base d) \<Longrightarrow> memberships (base d') = memberships (base d) \<Longrightarrow> addressed_users c ten d' = addressed_users c ten d"
  by (simp add: addressed_users_def member_users_def is_member_of_def)

text \<open>The recipients: the owner, unless the author, then whoever else is addressed.\<close>

lemma recipients:
  fixes a :: "user option" and us vs :: "user list" and author :: user
  defines "owner \<equiv> case a of None \<Rightarrow> [] | Some x \<Rightarrow> if user_id x = user_id author then [] else [x]"
  assumes us: "distinct (map user_id us) \<and> user_id ` set us = user_id ` set vs"
  shows "distinct (map user_id owner @ map user_id (filter (\<lambda>v. user_id v \<notin> user_id ` set (author # owner)) us))"
    "set (map user_id owner @ map user_id (filter (\<lambda>v. user_id v \<notin> user_id ` set (author # owner)) us)) =
       (user_id ` set_option a \<union> user_id ` set vs) - {user_id author}"
proof -
  have "user_id ` set (filter (\<lambda>v. user_id v \<notin> user_id ` set (author # owner)) us) = user_id ` set us - user_id ` set (author # owner)" by auto
  then have rest: "set (map user_id (filter (\<lambda>v. user_id v \<notin> user_id ` set (author # owner)) us)) = user_id ` set vs - user_id ` set (author # owner)"
    using us by simp
  show "distinct (map user_id owner @ map user_id (filter (\<lambda>v. user_id v \<notin> user_id ` set (author # owner)) us))"
    using us unfolding distinct_append rest by (auto simp: owner_def distinct_map_filter split: option.split)
  show "set (map user_id owner @ map user_id (filter (\<lambda>v. user_id v \<notin> user_id ` set (author # owner)) us)) =
       (user_id ` set_option a \<union> user_id ` set vs) - {user_id author}"
    unfolding set_append rest by (cases a) (auto simp: owner_def)
qed

lemma mail_queued: "\<exists>k'. queue_reply_email t c author k = (Inr (), k') \<and> forum_desk k' = forum_desk k"
  by (simp add: queue_reply_email_def cmd_simps split: option.split)

text \<open>
  C32: A comment on a ticket tells the assignee and the active members whose
  address its text names, each of them once and never its author.
\<close>

theorem comment_told_once:
  shows "\<exists>k' ns. handle_comment_notification c ten t author k = (Inr (), k') \<and>
    notifications (forum_desk k') = notifications (forum_desk k) @ ns \<and> distinct (map notif_recipient ns) \<and>
    list_all (\<lambda>n. notif_tenant n = ten \<and> notif_type n \<in> {NTicketComment, NMention}) ns \<and>
    set (map notif_recipient ns) = (user_id ` set_option (assignee t) \<union> user_id ` set (addressed_users c ten (forum_desk k))) - {user_id author}"
proof -
  let ?owner = "case assignee t of None \<Rightarrow> [] | Some a \<Rightarrow> if user_id a = user_id author then [] else [a]"
  let ?us = "filter (\<lambda>v. user_id v \<notin> user_id ` set (author # ?owner)) (distinct_users (addressed_users c ten (forum_desk k)))"
  let ?data = "comment_notice_data t c"
  obtain k1 ns where 1: "for_each ?owner (\<lambda>a _. in_forum (notify ten a NTicketComment ?data)) () k = (Inr (), k1)"
    "notifications (forum_desk k1) = notifications (forum_desk k) @ ns" "map notif_recipient ns = map user_id ?owner"
    "list_all (\<lambda>n. notif_type n = NTicketComment \<and> notif_tenant n = ten) ns"
    "users (forum_base k1) = users (forum_base k)" "memberships (forum_base k1) = memberships (forum_base k)"
    using tell_users [of ?owner ten NTicketComment ?data k] by blast
  obtain k2 ms where 2: "for_each ?us (\<lambda>a _. in_forum (notify ten a NMention ?data)) () k1 = (Inr (), k2)"
    "notifications (forum_desk k2) = notifications (forum_desk k1) @ ms" "map notif_recipient ms = map user_id ?us"
    "list_all (\<lambda>n. notif_type n = NMention \<and> notif_tenant n = ten) ms"
    using tell_users [of ?us ten NMention ?data k1] by blast
  let ?mail = "if is_internal c then ret () else queue_reply_email t c author"
  obtain k3 where 3: "?mail k2 = (Inr (), k3)" "notifications (forum_desk k3) = notifications (forum_desk k2)"
    using mail_queued [of t c author k2] by (cases "is_internal c") (auto simp: cmd_simps)
  have "handle_comment_notification c ten t author k = (Inr (), k3)"
    using 1(1) 2(1) 3(1) addressed_same [OF 1(5,6)]
    by (simp add: handle_comment_notification_def Let_def run_try run_then run_bind run_asks)
  moreover have "notifications (forum_desk k3) = notifications (forum_desk k) @ (ns @ ms)" using 1(2) 2(2) 3(2) by simp
  moreover have "distinct (map notif_recipient (ns @ ms))" "set (map notif_recipient (ns @ ms)) =
      (user_id ` set_option (assignee t) \<union> user_id ` set (addressed_users c ten (forum_desk k))) - {user_id author}"
    unfolding map_append 1(3) 2(3) using distinct_users_ids [of "addressed_users c ten (forum_desk k)"]
    by (rule recipients)+
  moreover have "list_all (\<lambda>n. notif_tenant n = ten \<and> notif_type n \<in> {NTicketComment, NMention}) (ns @ ms)"
    using 1(4) 2(4) by (auto simp: list_all_iff)
  ultimately show ?thesis by blast
qed

text \<open>The marks that record a mention name no address: whoever is marked is not told.\<close>

lemma marks_name_no_address:
  assumes "\<And>i. Suc i < length s \<Longrightarrow> s ! i = CHR ''@'' \<Longrightarrow> s ! Suc i = CHR ''[''"
  shows "addresses s = []"
  using assms
proof (induction s)
  case Nil
  show ?case by simp
next
  case (Cons c cs)
  have "addresses cs = []"
    by (rule Cons.IH) (use Cons.prems [of "Suc _"] in force)
  moreover have "address_at (c # cs) = None"
  proof (cases cs)
    case Nil
    then show ?thesis by (simp add: address_at_def)
  next
    case (Cons d ds)
    show ?thesis
    proof (cases "c = CHR ''@''")
      case True
      then have "d = CHR ''[''" using \<open>cs = d # ds\<close> Cons.prems [of 0] by simp
      then have "takeWhile local_char cs = []" using \<open>cs = d # ds\<close>
        by (simp add: local_char_def word_char_def is_digit_def chr_range_def lower_char_def)
      then show ?thesis by (simp add: address_at_def)
    next
      case False
      then show ?thesis by (simp add: address_at_def)
    qed
  qed
  ultimately show ?case by simp
qed

section \<open>Threads have one level\<close>

text \<open>
  The operations one after the other; an update that names no parent and no
  other target, and anything that leaves the comments alone.
\<close>

inductive forum_step :: "forum \<Rightarrow> forum \<Rightarrow> bool" where
  Create: "create_comment u x k = (r, k') \<Longrightarrow> forum_step k k'"
| Post: "post_ticket_comment u t body internal parent k = (r, k') \<Longrightarrow> forum_step k k'"
| Edit: "update_comment u i x k = (r, k') \<Longrightarrow> in_parent x = None \<Longrightarrow> in_type x = None \<Longrightarrow> in_object x = None \<Longrightarrow> forum_step k k'"
| Delete: "destroy_comment u i k = (r, k') \<Longrightarrow> forum_step k k'"
| Read: "mark_comment_read u i k = (r, k') \<Longrightarrow> forum_step k k'"
| Other: "comments (forum_base k') = comments (forum_base k) \<Longrightarrow> more_of k' = more_of k \<Longrightarrow>
    next_pk (forum_base k) \<le> next_pk (forum_base k') \<Longrightarrow> forum_step k k'"

inductive_cases forum_stepE: "forum_step k k'"

definition places :: "forum \<Rightarrow> (nat \<times> content_type \<times> nat \<times> nat option) list" where
  "places k = map (\<lambda>c. (comment_id c, comment_type c, comment_object c, parent_at k (comment_id c))) (comments (forum_base k))"

text \<open>A table of places: ids below the counter, parents present, on the same target, without parent.\<close>

definition flat_places :: "nat \<Rightarrow> (nat \<times> content_type \<times> nat \<times> nat option) list \<Rightarrow> bool" where
  "flat_places n ps \<longleftrightarrow> (\<forall>(i, ct, ob, p) \<in> set ps. i < n \<and> (case p of None \<Rightarrow> True | Some j \<Rightarrow> (j, ct, ob, None) \<in> set ps)) \<and>
     distinct (map fst ps)"

definition flat :: "forum \<Rightarrow> bool" where
  "flat k \<longleftrightarrow> flat_places (next_pk (forum_base k)) (places k)"

text \<open>A command that keeps the places.\<close>

definition placed :: "forum \<Rightarrow> forum \<Rightarrow> bool" where
  "placed k k' \<longleftrightarrow> places k' = places k \<and> next_pk (forum_base k) \<le> next_pk (forum_base k')"

interpretation placed: step_law placed
  by unfold_locales (auto simp: placed_def)

lemma placed_flat: "placed k k' \<Longrightarrow> flat k \<Longrightarrow> flat k'"
  by (fastforce simp: placed_def flat_def flat_places_def)

lemma placed_desk:
  assumes "\<And>d. comments (base (snd (c d))) = comments (base d) \<and> next_pk (base d) \<le> next_pk (base (snd (c d)))"
  shows "obeys placed (in_forum c)"
  using assms by (simp add: obeys_def placed_def places_def run_in_forum)

lemma placed_parts:
  "obeys placed (in_forum now_of)" "obeys placed (in_forum (broadcast_live_event ten ev x))"
  "obeys placed (in_forum (notify ten v kind x))" "obeys placed (comment_audit u ct i a ch)" "obeys placed (add_mentions i us)"
  "obeys placed (queue_reply_email t c author)"
  unfolding comment_audit_def
  by (rule placed_desk; simp add: cmd_simps notify_def send_notification_run log_activity_def)+
    (auto simp: obeys_def placed_def places_def add_mentions_def queue_reply_email_def cmd_simps split: option.split)

lemma placed_broadcasts: "obeys placed (broadcast_comment_save b c)" "obeys placed (broadcast_comment_delete k c)"
  unfolding broadcast_comment_save_def broadcast_comment_delete_def
  by (intro placed.obeys_bind placed.obeys_asks placed_parts)+

lemma placed_mentions: "obeys placed (record_mentions c)"
  unfolding record_mentions_def Let_def
  by (intro placed.obeys_if placed.obeys_ret placed.obeys_bind placed.obeys_asks placed_parts)

lemma placed_notices: "obeys placed (handle_comment_notification c ten t author)"
  unfolding handle_comment_notification_def Let_def
  by (intro placed.obeys_try placed.obeys_ret placed.obeys_then placed.obeys_for placed.obeys_bind placed.obeys_asks placed_parts placed.obeys_if)

definition threads_kept :: "store \<Rightarrow> store \<Rightarrow> bool" where
  "threads_kept s s' \<longleftrightarrow> comments s' = comments s \<and> next_pk s \<le> next_pk s'"

interpretation threads: save_law threads_kept "\<lambda>_. True"
  by unfold_locales (auto simp: threads_kept_def write_ticket_def)

lemma threads_entry: "obeys threads_kept (create_timeline_entry t e u md)"
  unfolding create_timeline_entry_def
  by (intro threads.obeys_rules threads.obeys_update threads.log_contact_event) (simp add: threads_kept_def)

lemma threads_comment: "obeys threads_kept (log_ticket_comment t a x)"
  unfolding log_ticket_comment_def fire_webhooks_def Let_def
  by (intro threads.obeys_rules threads_entry threads.obeys_update) (simp add: threads_kept_def)

lemma threads_response: "obeys threads_kept (record_first_response t a)"
  unfolding record_first_response_def check_first_response_breach_def timezone_now_def update_rows_def refresh_from_db_def
    register_callback_def
  by (intro threads.obeys_rules threads_entry threads.log_activity threads.send_signal threads.obeys_update TrueI; simp add: threads_kept_def)

lemma placed_base: "obeys threads_kept c \<Longrightarrow> obeys placed (in_forum (on_base c))"
  by (simp add: obeys_def threads_kept_def placed_def places_def cmd_simps)

definition keeps_flat :: "forum \<Rightarrow> forum \<Rightarrow> bool" where
  "keeps_flat k k' \<longleftrightarrow> (flat k \<longrightarrow> flat k')"

interpretation flatness: step_law keeps_flat
  by unfold_locales (auto simp: keeps_flat_def)

lemma calm_flat: "obeys placed c \<Longrightarrow> obeys keeps_flat c"
  by (auto simp: obeys_def keeps_flat_def intro: placed_flat)

lemma flat_grow:
  assumes "flat_places n ps" "case p of None \<Rightarrow> True | Some j \<Rightarrow> (j, ct, ob, None) \<in> set ps"
  shows "flat_places (Suc n) ((n, ct, ob, p) # ps)"
  using assms by (fastforce simp: flat_places_def split: option.splits)

lemma insert_flat:
  assumes k: "flat k" and p: "case parent of None \<Rightarrow> True | Some j \<Rightarrow> (j, ct, ob, None) \<in> set (places k)"
  shows "flat (snd (insert_comment u ct ob body internal parent k))"
proof -
  let ?i = "next_pk (forum_base k)" and ?now = "clock (forum_base k)"
  let ?c = "\<lparr>comment_id = ?i, comment_tenant = caller_ten u, comment_type = ct, comment_object = ob,
                comment_author = caller_user u, comment_body = body, is_internal = internal\<rparr>"
  let ?d = "(forum_desk k)\<lparr>base := (forum_base k)\<lparr>next_pk := Suc ?i, comments := ?c # comments (forum_base k)\<rparr>\<rparr>"
  let ?k1 = "k\<lparr>forum_desk := ?d, more_of := (more_of k)(?i := \<lparr>parent_of = parent, written_at = ?now\<rparr>)\<rparr>"
  have below: "comment_id c \<noteq> ?i" if "c \<in> set (comments (forum_base k))" for c
    using k that by (fastforce simp: flat_def flat_places_def places_def)
  then have "places ?k1 = (?i, ct, ob, parent) # places k" by (simp add: places_def)
  then have "flat ?k1" using flat_grow [OF k [unfolded flat_def] p] by (simp add: flat_def)
  moreover have "obeys keeps_flat (thenc (broadcast_comment_save True ?c) (thenc (record_mentions ?c) (ret ?c)))"
    by (intro calm_flat placed.obeys_then placed.obeys_ret placed_broadcasts placed_mentions)
  then have "keeps_flat ?k1 (snd (thenc (broadcast_comment_save True ?c) (thenc (record_mentions ?c) (ret ?c)) ?k1))"
    by (simp only: obeys_def)
  moreover have "insert_comment u ct ob body internal parent k =
      thenc (broadcast_comment_save True ?c) (thenc (record_mentions ?c) (ret ?c)) ?k1"
    by (simp add: insert_comment_def Let_def run_bind run_in_forum run_fresh run_now run_then [of "update _"] run_update)
  ultimately show ?thesis by (simp add: keeps_flat_def)
qed

lemma valid_parent:
  assumes "validate_comment k ten x = Inr v" "in_parent x = Some (Some j)" "in_type x = Some ct" "in_object x = Some ob"
  shows "(j, ct, ob, None) \<in> set (places k)"
  using assms by (auto simp: validate_comment_def places_def split: if_splits option.splits dest!: first_row_SomeD)

lemma save_flat: "flat k \<Longrightarrow> flat (snd (save_input u x k))"
proof (cases "validate_comment k (caller_ten u) x")
  case (Inl e)
  then show "flat k \<Longrightarrow> ?thesis" by (simp add: save_input_def cmd_simps)
next
  case (Inr v)
  assume k: "flat k"
  show ?thesis
  proof (cases "in_type x = None \<or> in_object x = None \<or> in_body x = None")
    case True
    then show ?thesis using k Inr by (auto simp: save_input_def cmd_simps split: option.splits)
  next
    case False
    then obtain ct ob body where "in_type x = Some ct" "in_object x = Some ob" "in_body x = Some body" by auto
    moreover from this have "flat (snd (insert_comment u ct ob body (in_internal x = Some True)
        (case in_parent x of None \<Rightarrow> None | Some p \<Rightarrow> p) k))"
      using valid_parent [OF Inr] by (intro insert_flat k) (auto split: option.split)
    ultimately show ?thesis using Inr by (simp add: save_input_def cmd_simps)
  qed
qed

lemma create_flat: "obeys keeps_flat (create_comment u x)"
proof -
  have "obeys keeps_flat (save_input u x)" using save_flat by (simp add: obeys_def keeps_flat_def)
  then show ?thesis unfolding create_comment_def
    by (intro flatness.obeys_bind flatness.obeys_then flatness.obeys_ret calm_flat [OF placed_parts(4)])
qed

lemma post_flat: "obeys keeps_flat (post_ticket_comment u t body internal parent)"
proof -
  have "obeys keeps_flat (save_input u x)" for x using save_flat by (simp add: obeys_def keeps_flat_def)
  then show ?thesis unfolding post_ticket_comment_def
    by (intro flatness.obeys_bind flatness.obeys_then flatness.obeys_ret flatness.obeys_if calm_flat [OF placed_parts(4)]
        calm_flat [OF placed_notices] calm_flat [OF placed_base] threads_comment threads_response)
qed

lemma get_comment_run:
  "get_comment u i k = (Inl (DoesNotExist ''Comment''), k) \<or>
   (\<exists>c \<in> set (comments (forum_base k)). comment_id c = i \<and> get_comment u i k = (Inr c, k))"
  by (cases "first_row (\<lambda>c. comment_id c = i) (visible_comments u k)")
    (auto simp: get_comment_def cmd_simps visible_comments_def dest!: first_row_SomeD)

lemma same_comment: "flat k \<Longrightarrow> c \<in> set (comments (forum_base k)) \<Longrightarrow> r \<in> set (comments (forum_base k)) \<Longrightarrow>
    comment_id r = comment_id c \<Longrightarrow> r = c"
  by (auto simp: flat_def flat_places_def places_def comp_def distinct_map inj_on_def)

lemma edit_flat:
  assumes k: "flat k" and x: "in_parent x = None" "in_type x = None" "in_object x = None"
  shows "flat (snd (update_comment u i x k))"
proof -
  consider "get_comment u i k = (Inl (DoesNotExist ''Comment''), k)"
    | old where "old \<in> set (comments (forum_base k))" "comment_id old = i" "get_comment u i k = (Inr old, k)"
    using get_comment_run [of u i k] by blast
  then show ?thesis
  proof cases
    case 1
    then show ?thesis using k by (simp add: update_comment_def cmd_simps)
  next
    case 2
    let ?c = "changed_comment x old"
    let ?k1 = "k\<lparr>forum_desk := (forum_desk k)\<lparr>base := (forum_base k)\<lparr>comments :=
              map (\<lambda>r. if comment_id r = i then ?c else r) (comments (forum_base k))\<rparr>\<rparr>,
            more_of := (more_of k)(i := (more_of k i)\<lparr>parent_of := changed_parent x (parent_at k i)\<rparr>)\<rparr>"
    let ?rest = "thenc (broadcast_comment_save False ?c)
        (thenc (if comment_body old \<noteq> comment_body ?c
            then comment_audit u (OtherCT ''comment'') i AUpdated
              (JObj [(''body'', JList [JStr (comment_body old), JStr (comment_body ?c)])])
            else ret ())
          (ret ?c))"
    have parents: "parent_at ?k1 j = parent_at k j" for j using x by (simp add: changed_parent_def)
    have "comment_type ?c = comment_type old" "comment_object ?c = comment_object old" "comment_id ?c = i"
      using x 2(2) by (simp_all add: changed_comment_def named_def)
    moreover have "r = old" if "r \<in> set (comments (forum_base k))" "comment_id r = i" for r
      using same_comment [OF k 2(1) that(1)] that(2) 2(2) by simp
    ultimately have "places ?k1 = places k" unfolding places_def parents by (auto simp: 2(2))
    then have "flat ?k1" using k by (simp add: flat_def)
    moreover have "obeys keeps_flat ?rest"
      by (intro calm_flat placed.obeys_then placed.obeys_if placed.obeys_ret placed_parts placed_broadcasts)
    then have "keeps_flat ?k1 (snd (?rest ?k1))" by (simp only: obeys_def)
    moreover have "validate_comment k (caller_ten u) x = Inr ()" using x by (simp add: validate_comment_def)
    then have "update_comment u i x k = ?rest ?k1"
      using 2(3) by (simp add: update_comment_def Let_def run_bind run_asks run_lift run_then [of "update _"] run_update)
    ultimately show ?thesis by (simp add: keeps_flat_def)
  qed
qed

text \<open>The ids a deletion reaches.\<close>

lemma thread_ids_grow: "set ids \<subseteq> set (thread_ids n p every ids)"
proof (induction n arbitrary: ids)
  case (Suc n)
  have "set ids \<subseteq> set (ids @ filter (\<lambda>i. i \<notin> set ids \<and> (\<exists>j \<in> set ids. p i = Some j)) every)" by simp
  also have "\<dots> \<subseteq> set (thread_ids (Suc n) p every ids)" unfolding thread_ids.simps by (rule Suc.IH)
  finally show ?case .
qed simp

lemma thread_ids_new: "j \<in> set (thread_ids n p every ids) \<Longrightarrow> j \<in> set ids \<or> p j \<noteq> None"
  by (induction n arbitrary: ids) fastforce+

lemma thread_ids_child:
  assumes "j \<in> set every" "p j = Some i" "i \<in> set ids" "0 < n"
  shows "j \<in> set (thread_ids n p every ids)"
proof (cases n)
  case 0
  then show ?thesis using assms(4) by simp
next
  case (Suc m)
  have "j \<in> set (ids @ filter (\<lambda>i. i \<notin> set ids \<and> (\<exists>j \<in> set ids. p i = Some j)) every)" using assms by auto
  then show ?thesis using thread_ids_grow unfolding Suc thread_ids.simps by blast
qed

lemma remove_flat:
  assumes k: "flat k"
  shows "flat (snd (remove_thread i k))"
proof -
  let ?every = "map comment_id (comments (forum_base k))"
  let ?ids = "thread_ids (length ?every) (parent_at k) ?every [i]"
  let ?k1 = "k\<lparr>forum_desk := (forum_desk k)\<lparr>base := (forum_base k)\<lparr>comments :=
              filter (\<lambda>c. comment_id c \<notin> set ?ids) (comments (forum_base k))\<rparr>\<rparr>,
            mention_rows := filter (\<lambda>x. fst x \<notin> set ?ids) (mention_rows k),
            comment_reads := filter (\<lambda>x. fst x \<notin> set ?ids) (comment_reads k)\<rparr>"
  let ?rest = "for_each (filter (\<lambda>c. comment_id c \<in> set ?ids) (comments (forum_base k))) (\<lambda>c _. broadcast_comment_delete k c) ()"
  have rows: "places ?k1 = filter (\<lambda>x. fst x \<notin> set ?ids) (places k)" by (simp add: places_def filter_map comp_def)
  have kept: "(j, ct, ob, None) \<in> set (places ?k1)" if row: "(c, ct, ob, Some j) \<in> set (places ?k1)" for c j ct ob
  proof -
    have c: "(c, ct, ob, Some j) \<in> set (places k)" "c \<notin> set ?ids" using row unfolding rows by auto
    then have j: "(j, ct, ob, None) \<in> set (places k)" using k by (fastforce simp: flat_def flat_places_def)
    then have "parent_at k j = None" by (auto simp: places_def)
    moreover have "c \<in> set ?every" "parent_at k c = Some j" using c(1) by (auto simp: places_def)
    then have "j \<noteq> i"
      using thread_ids_child [of c ?every "parent_at k" i "[i]" "length ?every"] c(2) by (cases ?every) auto
    ultimately have "j \<notin> set ?ids" using thread_ids_new [of j "length ?every" "parent_at k" ?every "[i]"] by auto
    then show ?thesis using j unfolding rows by simp
  qed
  have "flat_places (next_pk (forum_base k)) (places ?k1)"
    unfolding flat_places_def
  proof (intro conjI)
    show "distinct (map fst (places ?k1))" using k unfolding rows by (simp add: flat_def flat_places_def distinct_map_filter)
    have "\<forall>(c, ct, ob, p) \<in> set (places ?k1). c < next_pk (forum_base k)"
      using k unfolding rows by (fastforce simp: flat_def flat_places_def)
    then show "\<forall>(c, ct, ob, p) \<in> set (places ?k1). c < next_pk (forum_base k) \<and>
        (case p of None \<Rightarrow> True | Some j \<Rightarrow> (j, ct, ob, None) \<in> set (places ?k1))"
      using kept by (fastforce split: option.split)
  qed
  then have "flat ?k1" by (simp add: flat_def)
  moreover have "obeys keeps_flat ?rest" by (intro calm_flat placed.obeys_for placed_broadcasts)
  then have "keeps_flat ?k1 (snd (?rest ?k1))" by (simp only: obeys_def)
  moreover have "remove_thread i k = ?rest ?k1"
    by (simp add: remove_thread_def Let_def run_bind run_asks run_then [of "update _"] run_update)
  ultimately show ?thesis by (simp add: keeps_flat_def)
qed

lemma destroy_flat: "obeys keeps_flat (destroy_comment u i)"
proof -
  have "obeys keeps_flat (remove_thread i)" using remove_flat by (simp add: obeys_def keeps_flat_def)
  moreover have "obeys placed (get_comment u i)"
    unfolding get_comment_def
    by (intro placed.obeys_bind placed.obeys_asks placed.obeys_option placed.obeys_raise placed.obeys_ret)
  ultimately show ?thesis unfolding destroy_comment_def
    by (intro flatness.obeys_bind flatness.obeys_then flatness.obeys_raise flatness.obeys_asks flatness.obeys_if
        calm_flat [OF placed_parts(4)]) (auto intro: calm_flat)
qed

lemma step_flat:
  assumes "forum_step k k'" "flat k"
  shows "flat k'"
  using assms(1)
proof (cases rule: forum_step.cases)
  case (Create u x r)
  then show ?thesis using obeysD [OF create_flat] assms(2) unfolding keeps_flat_def by blast
next
  case (Post u t body internal parent r)
  then show ?thesis using obeysD [OF post_flat] assms(2) unfolding keeps_flat_def by blast
next
  case (Edit u i x r)
  then show ?thesis using edit_flat [OF assms(2), of x u i] by simp
next
  case (Delete u i r)
  then show ?thesis using obeysD [OF destroy_flat] assms(2) unfolding keeps_flat_def by blast
next
  case (Read u i r)
  have read: "obeys placed (mark_comment_read u i)"
    unfolding mark_comment_read_def get_comment_def
    by (intro placed.obeys_bind placed.obeys_asks placed.obeys_option placed.obeys_raise placed.obeys_ret placed.obeys_update)
      (simp add: placed_def places_def)
  then show ?thesis using obeysD [OF read Read] placed_flat assms(2) by blast
next
  case Other
  then have "placed k k'" by (simp add: placed_def places_def)
  then show ?thesis using placed_flat assms(2) by blast
qed


text \<open>An update may name the comment itself, or a parent below which it has replies of its own.\<close>

lemma own_parent_accepted:
  assumes "first_row (\<lambda>r. comment_id r = i \<and> comment_tenant r = ten) (comments (forum_base k)) = Some c" "parent_at k i = None"
    "target_exists k (comment_type c) (comment_object c) ten"
  shows "validate_comment k ten \<lparr>in_type = Some (comment_type c), in_object = Some (comment_object c), in_body = None,
    in_internal = None, in_parent = Some (Some i)\<rparr> = Inr ()"
  using assms by (simp add: validate_comment_def)

text \<open>An update that names the target object alone is not checked against the tenant.\<close>

lemma target_alone_accepted:
  "validate_comment k ten \<lparr>in_type = None, in_object = Some i, in_body = None, in_internal = None, in_parent = None\<rparr> = Inr ()"
  by (simp add: validate_comment_def)

text \<open>Whoever sees a comment is shown every reply to it, internal notes too.\<close>

lemma replies_show_internal:
  assumes "first_row (\<lambda>r. comment_id r = i) (visible_comments u k) = Some c"
    "x \<in> set (comments (forum_base k))" "comment_tenant x = caller_ten u" "parent_at k (comment_id x) = Some i"
  shows "\<exists>xs. replies u i k = (Inr xs, k) \<and> x \<in> set xs"
  using assms by (auto simp: replies_def get_comment_def cmd_simps dest!: first_row_SomeD)

section \<open>A small forum for the witness\<close>

definition demo_input :: "nat option \<Rightarrow> comment_input" where
  "demo_input p = \<lparr>in_type = Some TicketCT, in_object = Some 10, in_body = Some ''hi'', in_internal = None, in_parent = Some p\<rparr>"

definition demo_first :: forum where
  "demo_first = snd (create_comment demo_caller (demo_input None) demo_forum)"

definition demo_second :: forum where
  "demo_second = snd (create_comment demo_caller (demo_input (Some 100)) demo_first)"

lemma demo_places: "places demo_second = [(101, TicketCT, 10, Some 100), (100, TicketCT, 10, None)]"
  by code_simp


end
