(* ===== verification/Custom_Fields.thy ===== *)
theory Custom_Fields
  imports Access Hub_Services "HOL-Library.List_Lexorder" "HOL-Library.Char_ord"
begin

text \<open>
  Custom fields (\<open>apps/custom_fields\<close>): the definitions of a tenant, the
  validation of a value, the typed rows kept in step with the \<open>custom_data\<close> of a
  ticket, contact or company, and who may read them.  The argument \<open>x\<close> is what
  the code takes from Python's float printing, from \<open>re.match\<close>, from Django's date
  parsers and from the column of the database; an \<open>InvalidOperation\<close> of the
  \<open>decimal\<close> module is the exception \<open>ValueError ''decimal''\<close>.
\<close>

section \<open>Rows\<close>

datatype field_type = TextField | TextareaField | NumberField | DateField | SelectField | MultiselectField
  | CheckboxField | FileField

datatype field_module = TicketModule | ContactModule | CompanyModule

record field_definition =
  fd_id :: nat
  fd_tenant :: tenant_id
  fd_module :: field_module
  fd_name :: string
  fd_slug :: string
  fd_type :: field_type
  fd_options :: json
  fd_required :: bool
  fd_rules :: json
  fd_order :: int
  fd_roles :: "nat list"
  fd_active :: bool

text \<open>The values of Python's \<open>Decimal\<close>.\<close>

datatype decimal = Finite rat | Infinity bool | NotANumber

record typed_value =
  value_text :: "string option"
  value_number :: "decimal option"
  value_date :: "instant option"
  value_bool :: "bool option"

record field_value =
  fv_field :: nat
  fv_type :: content_type
  fv_object :: nat
  fv_tenant :: tenant_id
  fv_value :: typed_value

record catalogue =
  field_definitions :: "field_definition list"
  field_values :: "field_value list"

type_synonym 'a catop = "(catalogue, 'a) cmd"

record lexicon =
  float_text :: "rat \<Rightarrow> string"
  re_match :: "string \<Rightarrow> string \<Rightarrow> bool option"
  parse_datetime :: "string \<Rightarrow> instant option res"
  parse_date :: "string \<Rightarrow> date option res"
  number_column :: "decimal \<Rightarrow> decimal res"

datatype shown = ShownBool bool | ShownNumber decimal | ShownDate instant | ShownText string

text \<open>\<open>display_value\<close>\<close>

definition display_value :: "typed_value \<Rightarrow> shown option" where
  "display_value v = (case value_bool v of Some b \<Rightarrow> Some (ShownBool b) | None \<Rightarrow>
     (case value_number v of Some n \<Rightarrow> Some (ShownNumber n) | None \<Rightarrow>
     (case value_date v of Some t \<Rightarrow> Some (ShownDate t) | None \<Rightarrow> map_option ShownText (value_text v))))"

section \<open>Python's text of a JSON value\<close>

text \<open>\<open>repr\<close> of a string of ASCII characters.\<close>

definition hex_char :: "nat \<Rightarrow> char" where
  "hex_char n = (if n < 10 then char_of (48 + n) else char_of (87 + n))"

definition repr_char :: "char \<Rightarrow> char \<Rightarrow> string" where
  "repr_char quote c = (if c = quote \<or> c = CHR 0x5C then [CHR 0x5C, c]
     else if c = CHR 0x0A then [CHR 0x5C, CHR ''n''] else if c = CHR 0x0D then [CHR 0x5C, CHR ''r'']
     else if c = CHR 0x09 then [CHR 0x5C, CHR ''t'']
     else if (of_char c :: nat) < 32 \<or> c = CHR 0x7F
       then [CHR 0x5C, CHR ''x'', hex_char (of_char c div 16), hex_char (of_char c mod 16)] else [c])"

definition repr_string :: "string \<Rightarrow> string" where
  "repr_string s = (let quote = (if CHR 0x27 \<in> set s \<and> CHR 0x22 \<notin> set s then CHR 0x22 else CHR 0x27)
     in [quote] @ concat (map (repr_char quote) s) @ [quote])"

lemma size_pair_in [termination_simp]: "(k, v) \<in> set kvs \<Longrightarrow> size v < Suc (size_list (size_prod (\<lambda>_. 0) size) kvs)"
  by (induction kvs) auto

fun py_repr :: "(rat \<Rightarrow> string) \<Rightarrow> json \<Rightarrow> string" where
  "py_repr ft JNull = ''None''"
| "py_repr ft (JBool b) = (if b then ''True'' else ''False'')"
| "py_repr ft (JInt n) = show_int n"
| "py_repr ft (JReal r) = ft r"
| "py_repr ft (JStr s) = repr_string s"
| "py_repr ft (JList xs) = ''['' @ join '', '' (map (py_repr ft) xs) @ '']''"
| "py_repr ft (JObj kvs) = ''{'' @ join '', '' (map (\<lambda>(k, v). repr_string k @ '': '' @ py_repr ft v) kvs) @ ''}''"

definition py_str :: "(rat \<Rightarrow> string) \<Rightarrow> json \<Rightarrow> string" where
  "py_str ft v = (case v of JStr s \<Rightarrow> s | _ \<Rightarrow> py_repr ft v)"

text \<open>\<open>json.dumps\<close>\<close>

definition json_char :: "char \<Rightarrow> string" where
  "json_char c = (if c = CHR 0x22 \<or> c = CHR 0x5C then [CHR 0x5C, c]
     else if c = CHR 0x0A then [CHR 0x5C, CHR ''n''] else if c = CHR 0x0D then [CHR 0x5C, CHR ''r'']
     else if c = CHR 0x09 then [CHR 0x5C, CHR ''t''] else if c = CHR 0x08 then [CHR 0x5C, CHR ''b'']
     else if c = CHR 0x0C then [CHR 0x5C, CHR ''f'']
     else if (of_char c :: nat) < 32 then [CHR 0x5C, CHR ''u'', CHR ''0'', CHR ''0'', hex_char (of_char c div 16), hex_char (of_char c mod 16)]
     else [c])"

definition json_string :: "string \<Rightarrow> string" where
  "json_string s = [CHR 0x22] @ concat (map json_char s) @ [CHR 0x22]"

fun json_dumps :: "(rat \<Rightarrow> string) \<Rightarrow> json \<Rightarrow> string" where
  "json_dumps ft JNull = ''null''"
| "json_dumps ft (JBool b) = (if b then ''true'' else ''false'')"
| "json_dumps ft (JInt n) = show_int n"
| "json_dumps ft (JReal r) = ft r"
| "json_dumps ft (JStr s) = json_string s"
| "json_dumps ft (JList xs) = ''['' @ join '', '' (map (json_dumps ft) xs) @ '']''"
| "json_dumps ft (JObj kvs) = ''{'' @ join '', '' (map (\<lambda>(k, v). json_string k @ '': '' @ json_dumps ft v) kvs) @ ''}''"

text \<open>Python's equality of JSON values: numbers and booleans by value, objects in any order.\<close>

fun canon :: "json \<Rightarrow> json" where
  "canon (JBool b) = JReal (of_bool b)"
| "canon (JInt n) = JReal (of_int n)"
| "canon (JList xs) = JList (map canon xs)"
| "canon (JObj kvs) = JObj (sort_key fst (map (\<lambda>(k, v). (k, canon v)) kvs))"
| "canon v = v"

definition py_eq :: "json \<Rightarrow> json \<Rightarrow> bool" where
  "py_eq a b \<longleftrightarrow> canon a = canon b"

section \<open>Numbers\<close>

definition all_digits :: "string \<Rightarrow> bool" where
  "all_digits s \<longleftrightarrow> list_all is_digit s"

definition nat_of_digits :: "string \<Rightarrow> nat" where
  "nat_of_digits s = foldl (\<lambda>n c. 10 * n + nat (digit_val c)) 0 s"

definition signed_text :: "string \<Rightarrow> bool \<times> string" where
  "signed_text s = (case s of [] \<Rightarrow> (False, []) | c # cs \<Rightarrow>
     if c = CHR ''-'' then (True, cs) else if c = CHR ''+'' then (False, cs) else (False, s))"

definition exponent_of :: "string \<Rightarrow> int option" where
  "exponent_of s = (let (neg, t) = signed_text s
     in if t \<noteq> [] \<and> all_digits t then Some (if neg then - int (nat_of_digits t) else int (nat_of_digits t)) else None)"

definition power10 :: "int \<Rightarrow> rat" where
  "power10 e = (if 0 \<le> e then 10 ^ nat e else 1 / 10 ^ nat (- e))"

definition before :: "char \<Rightarrow> string \<Rightarrow> string" where
  "before c s = takeWhile (\<lambda>x. x \<noteq> c) s"

definition after :: "char \<Rightarrow> string \<Rightarrow> string" where
  "after c s = drop 1 (dropWhile (\<lambda>x. x \<noteq> c) s)"

definition number_text :: "string \<Rightarrow> rat option" where
  "number_text s = (let mantissa = before (CHR ''e'') s; whole = before (CHR ''.'') mantissa; frac = after (CHR ''.'') mantissa;
       ex = (if CHR ''e'' \<in> set s then exponent_of (after (CHR ''e'') s) else Some 0)
     in if whole @ frac = [] \<or> \<not> all_digits (whole @ frac) then None
        else map_option (\<lambda>e. of_nat (nat_of_digits (whole @ frac)) * power10 (e - int (length frac))) ex)"

text \<open>\<open>Decimal(text)\<close>\<close>

definition decimal_text :: "string \<Rightarrow> decimal option" where
  "decimal_text s = (let (neg, t) = signed_text (filter (\<lambda>c. c \<noteq> CHR ''_'') (strip s)); u = lower t
     in if u = ''inf'' \<or> u = ''infinity'' then Some (Infinity neg)
        else if startswith u ''nan'' \<and> all_digits (drop 3 u) then Some NotANumber
        else if startswith u ''snan'' \<and> all_digits (drop 4 u) then Some NotANumber
        else map_option (\<lambda>r. Finite (if neg then - r else r)) (number_text u))"

definition decimal_of :: "(rat \<Rightarrow> string) \<Rightarrow> json \<Rightarrow> decimal option" where
  "decimal_of ft v = decimal_text (py_str ft v)"

definition bad_decimal :: pyexc where "bad_decimal = ValueError ''decimal''"

text \<open>\<open>a < b\<close>: an ordering comparison with a NaN raises.\<close>

fun decimal_less :: "decimal \<Rightarrow> decimal \<Rightarrow> bool res" where
  "decimal_less NotANumber b = Inl bad_decimal"
| "decimal_less a NotANumber = Inl bad_decimal"
| "decimal_less (Infinity n) (Infinity m) = Inr (n \<and> \<not> m)"
| "decimal_less (Infinity n) (Finite r) = Inr n"
| "decimal_less (Finite r) (Infinity m) = Inr (\<not> m)"
| "decimal_less (Finite r) (Finite q) = Inr (r < q)"

text \<open>\<open>int(text)\<close> (single underscores between digits are allowed) and \<open>int(v)\<close> of a JSON value.\<close>

definition int_text :: "string \<Rightarrow> int option" where
  "int_text s = (let (neg, t) = signed_text (strip s); groups = split_on (CHR ''_'') t
     in if list_all (\<lambda>g. g \<noteq> [] \<and> all_digits g) groups
        then Some (let n = int (nat_of_digits (concat groups)) in if neg then - n else n) else None)"

fun py_int :: "json \<Rightarrow> int res" where
  "py_int (JInt n) = Inr n"
| "py_int (JBool b) = Inr (of_bool b)"
| "py_int (JReal r) = Inr (if r < 0 then - \<lfloor>- r\<rfloor> else \<lfloor>r\<rfloor>)"
| "py_int (JStr s) = (case int_text s of None \<Rightarrow> Inl (ValueError ''int'') | Some n \<Rightarrow> Inr n)"
| "py_int v = Inl (TypeError ''int'')"


section \<open>Validation (\<open>validators.py\<close>)\<close>

definition empty_value :: "json \<Rightarrow> bool" where
  "empty_value v = (case v of JNull \<Rightarrow> True | JStr s \<Rightarrow> strip s = [] | JList xs \<Rightarrow> xs = [] | _ \<Rightarrow> False)"

text \<open>\<open>self.rules.get(key)\<close>: rules that are not an object have no \<open>get\<close>.\<close>

definition rule :: "field_definition \<Rightarrow> string \<Rightarrow> json res" where
  "rule f key = (if \<not> truthy (fd_rules f) then Inr JNull
     else if is_jobj (fd_rules f) then Inr (jget_or_null (fd_rules f) key) else Inl (TypeError ''get''))"

definition invalid :: "string \<Rightarrow> unit res" where
  "invalid code = Inl (ValidationError code)"

definition when_set :: "json \<Rightarrow> unit res \<Rightarrow> unit res" where
  "when_set v r = (if v = JNull then Inr () else r)"

definition check_pattern :: "lexicon \<Rightarrow> json \<Rightarrow> string \<Rightarrow> unit res" where
  "check_pattern x pat s = (if \<not> truthy pat then Inr () else case pat of
     JStr p \<Rightarrow> (case re_match x p s of None \<Rightarrow> invalid ''invalid_regex'' | Some found \<Rightarrow> if found then Inr () else invalid ''regex'')
   | _ \<Rightarrow> Inl (TypeError ''match''))"

definition validate_text :: "lexicon \<Rightarrow> field_definition \<Rightarrow> json \<Rightarrow> unit res" where
  "validate_text x f v = (case v of
     JStr s \<Rightarrow> bind_res (rule f ''min_length'') (\<lambda>lo. bind_res (rule f ''max_length'') (\<lambda>hi. bind_res (rule f ''regex'') (\<lambda>pat.
       bind_res (when_set lo (bind_res (py_int lo) (\<lambda>n. if int (length s) < n then invalid ''min_length'' else Inr ()))) (\<lambda>_.
       bind_res (when_set hi (bind_res (py_int hi) (\<lambda>n. if n < int (length s) then invalid ''max_length'' else Inr ()))) (\<lambda>_.
       check_pattern x pat s)))))
   | _ \<Rightarrow> invalid ''invalid_type'')"

definition bound_decimal :: "lexicon \<Rightarrow> json \<Rightarrow> decimal res" where
  "bound_decimal x v = (case decimal_of (float_text x) v of None \<Rightarrow> Inl bad_decimal | Some n \<Rightarrow> Inr n)"

definition validate_number :: "lexicon \<Rightarrow> field_definition \<Rightarrow> json \<Rightarrow> unit res" where
  "validate_number x f v = (case decimal_of (float_text x) v of
     None \<Rightarrow> invalid ''invalid_type''
   | Some n \<Rightarrow> bind_res (rule f ''min'') (\<lambda>lo. bind_res (rule f ''max'') (\<lambda>hi.
       bind_res (when_set lo (bind_res (bound_decimal x lo) (\<lambda>b. bind_res (decimal_less n b) (\<lambda>low.
         if low then invalid ''min_value'' else Inr ())))) (\<lambda>_.
       when_set hi (bind_res (bound_decimal x hi) (\<lambda>b. bind_res (decimal_less b n) (\<lambda>high.
         if high then invalid ''max_value'' else Inr ())))))))"

definition validate_date :: "lexicon \<Rightarrow> json \<Rightarrow> unit res" where
  "validate_date x v = (case v of
     JStr s \<Rightarrow> bind_res (parse_datetime x s) (\<lambda>t. if t \<noteq> None then Inr ()
       else bind_res (parse_date x s) (\<lambda>d. if d = None then invalid ''invalid_date'' else Inr ()))
   | _ \<Rightarrow> invalid ''invalid_type'')"

text \<open>The options: an object or a string iterates over strings, which are no options.\<close>

definition valid_values :: "field_definition \<Rightarrow> json list res" where
  "valid_values f = (if \<not> truthy (fd_options f) then Inr [] else case fd_options f of
     JList xs \<Rightarrow> Inr (map (\<lambda>opt. jget_or_null opt ''value'') (filter is_jobj xs))
   | JObj _ \<Rightarrow> Inr [] | JStr _ \<Rightarrow> Inr [] | _ \<Rightarrow> Inl (TypeError ''iterate''))"

definition validate_choices :: "field_definition \<Rightarrow> json list \<Rightarrow> unit res" where
  "validate_choices f vs = bind_res (valid_values f) (\<lambda>allowed.
     if list_all (\<lambda>v. list_ex (py_eq v) allowed) vs then Inr () else invalid ''invalid_choice'')"

fun is_jbool :: "json \<Rightarrow> bool" where
  "is_jbool (JBool _) = True"
| "is_jbool _ = False"

definition validate_value :: "lexicon \<Rightarrow> field_definition \<Rightarrow> json \<Rightarrow> unit res" where
  "validate_value x f v =
     (if empty_value v then if fd_required f then invalid ''required'' else Inr ()
      else case fd_type f of
        TextField \<Rightarrow> validate_text x f v
      | TextareaField \<Rightarrow> validate_text x f v
      | NumberField \<Rightarrow> validate_number x f v
      | DateField \<Rightarrow> validate_date x v
      | SelectField \<Rightarrow> validate_choices f [v]
      | MultiselectField \<Rightarrow> (case v of JList xs \<Rightarrow> validate_choices f xs | _ \<Rightarrow> invalid ''invalid_type'')
      | CheckboxField \<Rightarrow> if is_jbool v then Inr () else invalid ''invalid_type''
      | FileField \<Rightarrow> (case v of JStr s \<Rightarrow> Inr () | _ \<Rightarrow> invalid ''required''))"

definition active_definitions :: "catalogue \<Rightarrow> tenant_id \<Rightarrow> field_module \<Rightarrow> field_definition list" where
  "active_definitions k ten m = filter (\<lambda>f. fd_tenant f = ten \<and> fd_module f = m \<and> fd_active f) (field_definitions k)"

text \<open>The slugs with a \<open>ValidationError\<close>; any other exception ends the validation.\<close>

definition collect_error :: "lexicon \<Rightarrow> (string \<times> json) list \<Rightarrow> field_definition \<Rightarrow> string list \<Rightarrow> string list res" where
  "collect_error x data f errors = (case validate_value x f (case map_of data (fd_slug f) of None \<Rightarrow> JNull | Some v \<Rightarrow> v) of
     Inr _ \<Rightarrow> Inr errors
   | Inl (ValidationError _) \<Rightarrow> Inr (errors @ [fd_slug f])
   | Inl e \<Rightarrow> Inl e)"

definition validate_custom_data :: "lexicon \<Rightarrow> catalogue \<Rightarrow> tenant_id \<Rightarrow> field_module \<Rightarrow> json \<Rightarrow> unit res" where
  "validate_custom_data x k ten m custom_data = (case custom_data of
     JObj data \<Rightarrow> bind_res (fold_res (collect_error x data) (active_definitions k ten m) []) (\<lambda>errors.
       if errors = [] then Inr () else invalid ''custom_field_validation'')
   | _ \<Rightarrow> invalid ''invalid_type'')"

section \<open>Typed rows (\<open>services.py\<close>)\<close>

definition no_value :: typed_value where
  "no_value = \<lparr>value_text = None, value_number = None, value_date = None, value_bool = None\<rparr>"

definition as_text :: "lexicon \<Rightarrow> json \<Rightarrow> typed_value" where
  "as_text x v = no_value\<lparr>value_text := Some (py_str (float_text x) v)\<rparr>"

definition build_value_kwargs :: "lexicon \<Rightarrow> field_definition \<Rightarrow> json \<Rightarrow> typed_value res" where
  "build_value_kwargs x f v = (if v = JNull then Inr no_value else case fd_type f of
     MultiselectField \<Rightarrow> Inr (case v of JList _ \<Rightarrow> no_value\<lparr>value_text := Some (json_dumps (float_text x) v)\<rparr> | _ \<Rightarrow> as_text x v)
   | NumberField \<Rightarrow> Inr (case decimal_of (float_text x) v of None \<Rightarrow> as_text x v | Some n \<Rightarrow> no_value\<lparr>value_number := Some n\<rparr>)
   | DateField \<Rightarrow> (case v of
        JStr s \<Rightarrow> bind_res (parse_datetime x s) (\<lambda>t. Inr (case t of None \<Rightarrow> as_text x v | Some _ \<Rightarrow> no_value\<lparr>value_date := t\<rparr>))
      | _ \<Rightarrow> Inr (as_text x v))
   | CheckboxField \<Rightarrow> Inr (no_value\<lparr>value_bool := Some (truthy v)\<rparr>)
   | _ \<Rightarrow> Inr (as_text x v))"

text \<open>The value as the columns keep it.\<close>

definition stored_value :: "lexicon \<Rightarrow> typed_value \<Rightarrow> typed_value res" where
  "stored_value x v = (case value_number v of None \<Rightarrow> Inr v
     | Some n \<Rightarrow> bind_res (number_column x n) (\<lambda>n'. Inr (v\<lparr>value_number := Some n'\<rparr>)))"

text \<open>The entity whose data is synchronised: its model, key, tenant and module.\<close>

record entity =
  ent_type :: content_type
  ent_id :: nat
  ent_tenant :: tenant_id
  ent_module :: field_module

definition value_of_entity :: "entity \<Rightarrow> field_value \<Rightarrow> bool" where
  "value_of_entity e r \<longleftrightarrow> fv_type r = ent_type e \<and> fv_object r = ent_id e"

definition upsert_value :: "entity \<Rightarrow> nat \<Rightarrow> typed_value \<Rightarrow> field_value list \<Rightarrow> field_value list" where
  "upsert_value e i v rows =
     (let row = \<lparr>fv_field = i, fv_type = ent_type e, fv_object = ent_id e, fv_tenant = ent_tenant e, fv_value = v\<rparr>
      in if list_ex (\<lambda>r. value_of_entity e r \<and> fv_field r = i) rows
         then map (\<lambda>r. if value_of_entity e r \<and> fv_field r = i then row else r) rows else rows @ [row])"

text \<open>The dict of the definitions by slug: a later one replaces an earlier one.\<close>

definition definition_of_slug :: "catalogue \<Rightarrow> entity \<Rightarrow> string \<Rightarrow> field_definition option" where
  "definition_of_slug k e slug = first_row (\<lambda>f. fd_slug f = slug) (rev (active_definitions k (ent_tenant e) (ent_module e)))"

definition sync_one :: "lexicon \<Rightarrow> entity \<Rightarrow> string \<times> json \<Rightarrow> nat list \<Rightarrow> nat list catop" where
  "sync_one x e entry done = bindc (asks (\<lambda>k. definition_of_slug k e (fst entry))) (\<lambda>found. case found of
     None \<Rightarrow> ret done
   | Some f \<Rightarrow> bindc (lift_res (build_value_kwargs x f (snd entry))) (\<lambda>v. bindc (lift_res (stored_value x v)) (\<lambda>v'.
       thenc (update (\<lambda>k. k\<lparr>field_values := upsert_value e (fd_id f) v' (field_values k)\<rparr>)) (ret (done @ [fd_id f])))))"

definition field_of_module :: "catalogue \<Rightarrow> entity \<Rightarrow> nat \<Rightarrow> bool" where
  "field_of_module k e i \<longleftrightarrow> list_ex (\<lambda>f. fd_id f = i \<and> fd_tenant f = ent_tenant e \<and> fd_module f = ent_module e) (field_definitions k)"

definition remove_stale :: "entity \<Rightarrow> nat list \<Rightarrow> unit catop" where
  "remove_stale e done = update (\<lambda>k. k\<lparr>field_values := filter (\<lambda>r.
     \<not> (value_of_entity e r \<and> field_of_module k e (fv_field r) \<and> fv_field r \<notin> set done)) (field_values k)\<rparr>)"

definition sync_custom_field_values :: "lexicon \<Rightarrow> entity \<Rightarrow> json \<Rightarrow> unit catop" where
  "sync_custom_field_values x e custom_data = (case custom_data of
     JObj data \<Rightarrow> bindc (for_each data (sync_one x e) []) (remove_stale e)
   | _ \<Rightarrow> ret ())"

text \<open>The receivers of \<open>post_save\<close> (\<open>signals.py\<close>): an exception is logged, what it left behind stays.\<close>

definition sync_on_save :: "lexicon \<Rightarrow> entity \<Rightarrow> json \<Rightarrow> unit catop" where
  "sync_on_save x e custom_data = (if truthy custom_data \<and> is_jobj custom_data
     then try_except (sync_custom_field_values x e custom_data) (\<lambda>_. ret ()) else ret ())"

definition get_field_definitions :: "catalogue \<Rightarrow> tenant_id \<Rightarrow> field_module \<Rightarrow> nat option \<Rightarrow> field_definition list" where
  "get_field_definitions k ten m user_role = sort_key fd_order (filter (\<lambda>f. case user_role of
     None \<Rightarrow> True | Some r \<Rightarrow> fd_roles f = [] \<or> r \<in> set (fd_roles f)) (active_definitions k ten m))"

end
