(* ===== verification/Billing.thy ===== *)
theory Billing
  imports Custom_Fields
begin

text \<open>
  Billing (\<open>apps/billing\<close>): plans with their limits, the one subscription of a
  tenant, the webhook that mirrors Stripe's events, the endpoints that cancel
  and reactivate, the gates on requests and features, and the endpoints that
  create and order custom fields under the limit of the plan.  Stripe is a
  parameter: \<open>verify_event\<close> verifies and parses a payload, \<open>modify\<close> is whether it
  accepts a change.  A tenant in the metadata of a subscription is its key;
  Stripe's other identifiers are strings.
\<close>

section \<open>Rows\<close>

datatype tier = FreeTier | ProTier | EnterpriseTier

record plan =
  plan_id :: nat
  plan_tier :: tier
  plan_name :: string
  stripe_product :: string
  price_id_monthly :: string
  price_id_yearly :: string
  price_monthly :: rat
  plan_active :: bool
  max_users :: "nat option"
  max_contacts :: "nat option"
  max_tickets_per_month :: "nat option"
  max_storage_mb :: "nat option"
  max_custom_fields :: "nat option"
  plan_features :: "string list"

datatype subscription_status = Trialing | ActiveSub | PastDue | Canceled | Incomplete | Unpaid

record subscription =
  sub_key :: nat
  sub_tenant :: tenant_id
  sub_plan :: plan
  stripe_subscription :: "string option"
  stripe_customer :: string
  sub_status :: subscription_status
  yearly :: bool
  period_start :: "instant option"
  period_end :: "instant option"
  cancel_at_period_end :: bool
  canceled_at :: "instant option"
  trial_end :: "instant option"

record invoice =
  inv_stripe :: string
  inv_subscription :: nat
  inv_amount :: rat
  inv_currency :: string
  inv_status :: string
  inv_pdf :: string
  inv_hosted :: string
  inv_start :: instant
  inv_end :: instant

record usage =
  us_tenant :: tenant_id
  contacts_count :: nat
  tickets_created :: nat
  storage_used_mb :: nat

text \<open>\<open>processed\<close>: the markers of the handled events in the cache, with the time they expire.\<close>

record ledger =
  plans :: "plan list"
  subscriptions :: "subscription list"
  invoices :: "invoice list"
  usages :: "usage list"
  processed :: "(string \<times> instant) list"
  next_key :: nat

type_synonym 'a ledop = "(ledger, 'a) cmd"

section \<open>Limits of the plan (\<open>services.py\<close>)\<close>

definition first_plan :: "(plan \<Rightarrow> bool) \<Rightarrow> ledger \<Rightarrow> plan option" where
  "first_plan p l = first_by price_monthly (filter p (plans l))"

definition subscription_of :: "ledger \<Rightarrow> tenant_id \<Rightarrow> subscription option" where
  "subscription_of l ten = first_row (\<lambda>s. sub_tenant s = ten) (subscriptions l)"

definition plan_of :: "ledger \<Rightarrow> tenant_id \<Rightarrow> plan option" where
  "plan_of l ten = (case subscription_of l ten of
     None \<Rightarrow> first_plan (\<lambda>p. plan_tier p = FreeTier) l | Some s \<Rightarrow> Some (sub_plan s))"

definition usage_of :: "ledger \<Rightarrow> tenant_id \<Rightarrow> (usage \<Rightarrow> nat) \<Rightarrow> nat" where
  "usage_of l ten counter = (case first_row (\<lambda>u. us_tenant u = ten) (usages l) of None \<Rightarrow> 0 | Some u \<Rightarrow> counter u)"

definition check_limit :: "nat option \<Rightarrow> nat \<Rightarrow> string \<Rightarrow> unit res" where
  "check_limit limit current resource = (case limit of None \<Rightarrow> Inr ()
     | Some n \<Rightarrow> if n \<le> current then Inl (PermissionDenied resource) else Inr ())"

definition with_plan :: "ledger \<Rightarrow> tenant_id \<Rightarrow> (plan \<Rightarrow> unit res) \<Rightarrow> unit res" where
  "with_plan l ten check = (case plan_of l ten of None \<Rightarrow> Inl (PermissionDenied ''plan'') | Some p \<Rightarrow> check p)"

definition check_can_create_contact :: "ledger \<Rightarrow> tenant_id \<Rightarrow> unit res" where
  "check_can_create_contact l ten = with_plan l ten (\<lambda>p. check_limit (max_contacts p) (usage_of l ten contacts_count) ''contacts'')"

definition check_can_create_ticket :: "ledger \<Rightarrow> tenant_id \<Rightarrow> unit res" where
  "check_can_create_ticket l ten = with_plan l ten (\<lambda>p.
     check_limit (max_tickets_per_month p) (usage_of l ten tickets_created) ''tickets per month'')"

definition check_can_add_user :: "ledger \<Rightarrow> store \<Rightarrow> tenant_id \<Rightarrow> unit res" where
  "check_can_add_user l s ten = with_plan l ten (\<lambda>p. check_limit (max_users p)
     (length (filter (\<lambda>m. member_tenant m = ten \<and> member_active m) (memberships s))) ''users'')"

definition fields_of_tenant :: "catalogue \<Rightarrow> tenant_id \<Rightarrow> field_definition list" where
  "fields_of_tenant k ten = filter (\<lambda>f. fd_tenant f = ten) (field_definitions k)"

definition check_can_add_custom_field :: "ledger \<Rightarrow> catalogue \<Rightarrow> tenant_id \<Rightarrow> unit res" where
  "check_can_add_custom_field l k ten = with_plan l ten (\<lambda>p.
     check_limit (max_custom_fields p) (length (fields_of_tenant k ten)) ''custom fields'')"

definition check_storage :: "ledger \<Rightarrow> tenant_id \<Rightarrow> rat \<Rightarrow> unit res" where
  "check_storage l ten additional_mb = with_plan l ten (\<lambda>p. case max_storage_mb p of None \<Rightarrow> Inr ()
     | Some n \<Rightarrow> if of_nat n < of_nat (usage_of l ten storage_used_mb) + additional_mb
                 then Inl (PermissionDenied ''storage'') else Inr ())"

section \<open>The subscription\<close>

definition sub_active :: "subscription \<Rightarrow> bool" where
  "sub_active s \<longleftrightarrow> sub_status s = ActiveSub \<or> sub_status s = Trialing"

definition in_grace_period :: "instant \<Rightarrow> subscription \<Rightarrow> bool" where
  "in_grace_period now s \<longleftrightarrow> sub_status s = PastDue \<and> (case period_end s of None \<Rightarrow> False | Some t \<Rightarrow> now \<le> t + 7 * day_us)"

definition EXEMPT_PATH_PREFIXES :: "string list" where
  "EXEMPT_PATH_PREFIXES = [''/healthz'', ''/readyz'', ''/admin/'', ''/static/'', ''/media/'', ''/api/v1/accounts/auth/'',
     ''/api/v1/billing/'', ''/api/docs/'', ''/api/schema/'', ''/accounts/'', ''/login/'', ''/register/'', ''/logout/'',
     ''/auth/handoff/'', ''/billing/'', ''/favicon'']"

text \<open>\<open>SubscriptionMiddleware\<close>: whether the request is let through (else 402).\<close>

definition subscription_gate :: "ledger \<Rightarrow> instant \<Rightarrow> tenant_id option \<Rightarrow> string \<Rightarrow> bool" where
  "subscription_gate l now ten path = (if list_ex (startswith path) EXEMPT_PATH_PREFIXES then True else case ten of
     None \<Rightarrow> True
   | Some i \<Rightarrow> (case subscription_of l i of None \<Rightarrow> True | Some s \<Rightarrow> sub_active s \<or> in_grace_period now s))"

text \<open>\<open>require_feature\<close>: the code of the refusal, if the view is not called.\<close>

definition require_feature :: "ledger \<Rightarrow> tenant_id option \<Rightarrow> string \<Rightarrow> string option" where
  "require_feature l ten feature = (case ten of None \<Rightarrow> Some ''no_tenant'' | Some i \<Rightarrow> (case plan_of l i of
     None \<Rightarrow> Some ''no_plan'' | Some p \<Rightarrow> if feature \<in> set (plan_features p) then None else Some ''feature_not_available''))"

section \<open>Reading an event\<close>

definition item :: "json \<Rightarrow> string \<Rightarrow> json res" where
  "item d key = (if is_jobj d then case jget d key of None \<Rightarrow> Inl (KeyError key) | Some v \<Rightarrow> Inr v else Inl (TypeError key))"

definition get_or :: "json \<Rightarrow> string \<Rightarrow> json \<Rightarrow> json res" where
  "get_or d key missing = (if is_jobj d then Inr (case jget d key of None \<Rightarrow> missing | Some v \<Rightarrow> v) else Inl (TypeError ''get''))"

definition text_of :: "json \<Rightarrow> string res" where
  "text_of v = (case v of JStr s \<Rightarrow> Inr s | _ \<Rightarrow> Inl (TypeError ''str''))"

definition bool_of :: "json \<Rightarrow> bool res" where
  "bool_of v = (case v of JBool b \<Rightarrow> Inr b | _ \<Rightarrow> Inl (ValidationError ''bool''))"

text \<open>\<open>_ts_to_dt\<close>: a Unix timestamp; the years are those of a \<open>datetime\<close>.\<close>

definition epoch :: instant where "epoch = 62135596800000000"
definition last_instant :: instant where "last_instant = 3652059 * day_us - 1"

definition at_epoch :: "int \<Rightarrow> instant option res" where
  "at_epoch us = (if 0 \<le> epoch + us \<and> epoch + us \<le> last_instant then Inr (Some (epoch + us)) else Inl (ValueError ''year''))"

fun ts_to_dt :: "json \<Rightarrow> instant option res" where
  "ts_to_dt JNull = Inr None"
| "ts_to_dt (JInt n) = at_epoch (n * 1000000)"
| "ts_to_dt (JBool b) = at_epoch (of_bool b * 1000000)"
| "ts_to_dt (JReal r) = at_epoch (round_half_even (r * 1000000))"
| "ts_to_dt v = Inl (TypeError ''timestamp'')"

definition time_at :: "json \<Rightarrow> string \<Rightarrow> instant option res" where
  "time_at d key = bind_res (get_or d key JNull) ts_to_dt"

text \<open>The price of the first item, if the subscription has one; \<open>items_data[0]\<close> fails on anything but a list.\<close>

definition price_of :: "json \<Rightarrow> json option res" where
  "price_of sub = bind_res (get_or sub ''items'' (JObj [])) (\<lambda>items. bind_res (get_or items ''data'' (JList [])) (\<lambda>data.
     if \<not> truthy data then Inr None else case data of
       JList (x # _) \<Rightarrow> bind_res (get_or x ''price'' (JObj [])) (\<lambda>p. Inr (Some p))
     | _ \<Rightarrow> Inl (KeyError ''0'')))"

definition of_price :: "json option \<Rightarrow> string \<Rightarrow> json \<Rightarrow> json res" where
  "of_price price key missing = (case price of None \<Rightarrow> Inr missing | Some p \<Rightarrow> get_or p key missing)"

definition yearly_price :: "json option \<Rightarrow> bool res" where
  "yearly_price price = (case price of None \<Rightarrow> Inr False | Some p \<Rightarrow> bind_res (get_or p ''recurring'' (JObj [])) (\<lambda>r.
     bind_res (get_or r ''interval'' JNull) (\<lambda>i. Inr (i = JStr ''year''))))"

text \<open>The plan of a price: by its monthly id, by its yearly id, by the product.\<close>

definition plan_by :: "(plan \<Rightarrow> string) \<Rightarrow> json \<Rightarrow> ledger \<Rightarrow> plan option" where
  "plan_by column v l = (if truthy v then first_plan (\<lambda>p. JStr (column p) = v) l else None)"

definition resolve_plan :: "json option \<Rightarrow> ledger \<Rightarrow> plan option res" where
  "resolve_plan price l = bind_res (of_price price ''id'' (JStr [])) (\<lambda>i.
     case plan_by price_id_monthly i l of Some p \<Rightarrow> Inr (Some p) | None \<Rightarrow>
     (case plan_by price_id_yearly i l of Some p \<Rightarrow> Inr (Some p) | None \<Rightarrow>
       bind_res (of_price price ''product'' (JStr [])) (\<lambda>prod. Inr (plan_by stripe_product prod l))))"

fun local_status :: "json \<Rightarrow> subscription_status res" where
  "local_status (JStr s) = Inr (if s = ''trialing'' then Trialing else if s = ''active'' then ActiveSub
     else if s = ''past_due'' then PastDue else if s \<in> {''canceled'', ''incomplete_expired'', ''paused''} then Canceled
     else if s = ''unpaid'' then Unpaid else Incomplete)"
| "local_status (JList _) = Inl (TypeError ''unhashable'')"
| "local_status (JObj _) = Inl (TypeError ''unhashable'')"
| "local_status v = Inr Incomplete"

text \<open>The tenant the metadata names: \<open>None\<close> when it names none, \<open>Some None\<close> when there is no such tenant.\<close>

definition named_tenant :: "desk \<Rightarrow> json \<Rightarrow> tenant_id option option res" where
  "named_tenant d sub = bind_res (get_or sub ''metadata'' (JObj [])) (\<lambda>meta. bind_res (get_or meta ''tenant_id'' JNull) (\<lambda>key.
     if \<not> truthy key then Inr None else case key of
       JInt n \<Rightarrow> Inr (Some (map_option tenant_id (first_row (\<lambda>t. int (tenant_id t) = n) (tenants d))))
     | _ \<Rightarrow> Inl (ValidationError ''uuid'')))"


section \<open>Mirroring subscriptions and invoices (\<open>webhooks.py\<close>)\<close>

text \<open>The defaults that \<open>update_or_create\<close> sets, with the tenant when the metadata names one.\<close>

record sub_defaults =
  sd_plan :: plan
  sd_customer :: string
  sd_status :: subscription_status
  sd_yearly :: bool
  sd_start :: "instant option"
  sd_end :: "instant option"
  sd_cancel :: bool
  sd_canceled :: "instant option"
  sd_trial :: "instant option"

definition read_defaults :: "json \<Rightarrow> string \<Rightarrow> bool \<Rightarrow> plan \<Rightarrow> sub_defaults res" where
  "read_defaults sub customer is_yearly p =
     bind_res (item sub ''status'') (\<lambda>st. bind_res (local_status st) (\<lambda>status.
     bind_res (time_at sub ''current_period_start'') (\<lambda>start. bind_res (time_at sub ''current_period_end'') (\<lambda>stop.
     bind_res (get_or sub ''cancel_at_period_end'' (JBool False)) (\<lambda>c. bind_res (time_at sub ''canceled_at'') (\<lambda>canceled.
     bind_res (time_at sub ''trial_end'') (\<lambda>trial. bind_res (bool_of c) (\<lambda>cancel.
       Inr \<lparr>sd_plan = p, sd_customer = customer, sd_status = status, sd_yearly = is_yearly, sd_start = start, sd_end = stop,
            sd_cancel = cancel, sd_canceled = canceled, sd_trial = trial\<rparr>))))))))"

definition with_defaults :: "sub_defaults \<Rightarrow> subscription \<Rightarrow> subscription" where
  "with_defaults x s = s\<lparr>sub_plan := sd_plan x, stripe_customer := sd_customer x, sub_status := sd_status x, yearly := sd_yearly x,
     period_start := sd_start x, period_end := sd_end x, cancel_at_period_end := sd_cancel x, canceled_at := sd_canceled x, trial_end := sd_trial x\<rparr>"

text \<open>Saving a row: the tenant and the Stripe id are unique.\<close>

definition clashes :: "subscription \<Rightarrow> subscription \<Rightarrow> bool" where
  "clashes s r \<longleftrightarrow> sub_key r \<noteq> sub_key s \<and> (sub_tenant r = sub_tenant s \<or>
     (stripe_subscription s \<noteq> None \<and> stripe_subscription r = stripe_subscription s))"

definition save_subscription :: "subscription \<Rightarrow> unit ledop" where
  "save_subscription s = bindc (asks (\<lambda>l. list_ex (clashes s) (subscriptions l))) (\<lambda>clash.
     if clash then raise_exc (DatabaseError ''unique'')
     else update (\<lambda>l. l\<lparr>subscriptions := map (\<lambda>r. if sub_key r = sub_key s then s else r) (subscriptions l)\<rparr>))"

definition new_subscription :: "tenant_id \<Rightarrow> string \<Rightarrow> sub_defaults \<Rightarrow> unit ledop" where
  "new_subscription ten sid x = bindc (asks next_key) (\<lambda>i.
     let s = with_defaults x \<lparr>sub_key = i, sub_tenant = ten, sub_plan = sd_plan x, stripe_subscription = Some sid, stripe_customer = [],
           sub_status = ActiveSub, yearly = False, period_start = None, period_end = None, cancel_at_period_end = False,
           canceled_at = None, trial_end = None\<rparr>
     in bindc (asks (\<lambda>l. list_ex (clashes s) (subscriptions l))) (\<lambda>clash.
        if clash then raise_exc (DatabaseError ''unique'')
        else update (\<lambda>l. l\<lparr>subscriptions := subscriptions l @ [s], next_key := i + 1\<rparr>)))"

definition subscription_by_stripe :: "ledger \<Rightarrow> string \<Rightarrow> subscription option" where
  "subscription_by_stripe l sid = first_row (\<lambda>s. stripe_subscription s = Some sid) (subscriptions l)"

definition store_sync :: "string \<Rightarrow> tenant_id option \<Rightarrow> sub_defaults \<Rightarrow> unit ledop" where
  "store_sync sid ten x = bindc (asks (\<lambda>l. subscription_by_stripe l sid)) (\<lambda>existing. case existing of
     Some s \<Rightarrow> save_subscription (case ten of None \<Rightarrow> with_defaults x s | Some i \<Rightarrow> (with_defaults x s)\<lparr>sub_tenant := i\<rparr>)
   | None \<Rightarrow> (case ten of
       None \<Rightarrow> ret ()
     | Some i \<Rightarrow> bindc (asks (\<lambda>l. subscription_of l i)) (\<lambda>other. case other of
         Some s \<Rightarrow> save_subscription ((with_defaults x s)\<lparr>stripe_subscription := Some sid\<rparr>)
       | None \<Rightarrow> new_subscription i sid x)))"

definition sync_subscription_from_stripe :: "desk \<Rightarrow> json \<Rightarrow> unit ledop" where
  "sync_subscription_from_stripe d sub =
     bindc (lift_res (bind_res (item sub ''id'') text_of)) (\<lambda>sid. bindc (lift_res (bind_res (item sub ''customer'') text_of)) (\<lambda>customer.
     bindc (lift_res (price_of sub)) (\<lambda>price. bindc (lift_res (yearly_price price)) (\<lambda>is_yearly.
     bindc (asks (resolve_plan price)) (\<lambda>r. bindc (lift_res r) (\<lambda>found. case found of
       None \<Rightarrow> ret ()
     | Some p \<Rightarrow> bindc (lift_res (read_defaults sub customer is_yearly p)) (\<lambda>x.
         bindc (lift_res (named_tenant d sub)) (\<lambda>named. case named of
           None \<Rightarrow> store_sync sid None x
         | Some None \<Rightarrow> ret ()
         | Some (Some i) \<Rightarrow> store_sync sid (Some i) x))))))))"

definition handle_subscription_deleted :: "json \<Rightarrow> unit ledop" where
  "handle_subscription_deleted sub = bindc (lift_res (bind_res (item sub ''id'') text_of)) (\<lambda>sid.
     bindc (asks (\<lambda>l. subscription_by_stripe l sid)) (\<lambda>found. case found of
       None \<Rightarrow> ret ()
     | Some s \<Rightarrow> bindc (lift_res (time_at sub ''canceled_at'')) (\<lambda>t.
         update (\<lambda>l. l\<lparr>subscriptions := map (\<lambda>r. if sub_key r = sub_key s then r\<lparr>sub_status := Canceled, canceled_at := t\<rparr> else r)
           (subscriptions l)\<rparr>))))"

definition text_or_empty :: "json \<Rightarrow> string res" where
  "text_or_empty v = (if truthy v then text_of v else Inr [])"

definition required_time :: "instant option \<Rightarrow> instant res" where
  "required_time t = (case t of None \<Rightarrow> Inl (DatabaseError ''not null'') | Some i \<Rightarrow> Inr i)"

fun cents :: "json \<Rightarrow> rat res" where
  "cents (JInt n) = Inr (of_int n / 100)"
| "cents (JReal r) = Inr (r / 100)"
| "cents (JBool b) = Inr (of_bool b / 100)"
| "cents v = Inl (TypeError ''/'')"

definition read_invoice :: "json \<Rightarrow> string \<Rightarrow> nat \<Rightarrow> invoice res" where
  "read_invoice v i key =
     bind_res (get_or v ''amount_paid'' (JInt 0)) (\<lambda>paid. bind_res (cents paid) (\<lambda>amount.
     bind_res (bind_res (get_or v ''currency'' (JStr ''usd'')) text_of) (\<lambda>currency.
     bind_res (bind_res (get_or v ''status'' (JStr ''unknown'')) text_of) (\<lambda>status.
     bind_res (bind_res (get_or v ''invoice_pdf'' (JStr [])) text_or_empty) (\<lambda>pdf.
     bind_res (bind_res (get_or v ''hosted_invoice_url'' (JStr [])) text_or_empty) (\<lambda>hosted.
     bind_res (bind_res (time_at v ''period_start'') required_time) (\<lambda>start.
     bind_res (bind_res (time_at v ''period_end'') required_time) (\<lambda>stop.
       Inr \<lparr>inv_stripe = i, inv_subscription = key, inv_amount = amount, inv_currency = currency, inv_status = status,
            inv_pdf = pdf, inv_hosted = hosted, inv_start = start, inv_end = stop\<rparr>))))))))"

definition upsert_invoice :: "invoice \<Rightarrow> invoice list \<Rightarrow> invoice list" where
  "upsert_invoice x rows = (if list_ex (\<lambda>r. inv_stripe r = inv_stripe x) rows
     then map (\<lambda>r. if inv_stripe r = inv_stripe x then x else r) rows else rows @ [x])"

definition sync_invoice :: "json \<Rightarrow> unit ledop" where
  "sync_invoice v = bindc (lift_res (bind_res (item v ''id'') text_of)) (\<lambda>i.
     bindc (lift_res (get_or v ''subscription'' JNull)) (\<lambda>sub. if \<not> truthy sub then ret () else
     bindc (lift_res (text_of sub)) (\<lambda>sid. bindc (asks (\<lambda>l. subscription_by_stripe l sid)) (\<lambda>found. case found of
       None \<Rightarrow> ret ()
     | Some s \<Rightarrow> bindc (lift_res (read_invoice v i (sub_key s))) (\<lambda>x.
         update (\<lambda>l. l\<lparr>invoices := upsert_invoice x (invoices l)\<rparr>))))))"

definition event_object :: "json \<Rightarrow> json res" where
  "event_object event = bind_res (item event ''data'') (\<lambda>d. item d ''object'')"

definition event_handler :: "desk \<Rightarrow> string \<Rightarrow> (json \<Rightarrow> unit ledop) option" where
  "event_handler d kind = (if kind = ''customer.subscription.created'' \<or> kind = ''customer.subscription.updated''
       then Some (sync_subscription_from_stripe d)
     else if kind = ''customer.subscription.deleted'' then Some handle_subscription_deleted
     else if kind = ''invoice.paid'' \<or> kind = ''invoice.payment_failed'' then Some sync_invoice else None)"

section \<open>The webhook\<close>

datatype rejection = InvalidPayload | InvalidSignature

definition week :: int where "week = 7 * day_us"

definition handled_before :: "ledger \<Rightarrow> instant \<Rightarrow> json \<Rightarrow> bool" where
  "handled_before l now event_id = (truthy event_id \<and> list_ex (\<lambda>(i, t). JStr i = event_id \<and> now < t) (processed l))"

definition mark_handled :: "instant \<Rightarrow> json \<Rightarrow> unit ledop" where
  "mark_handled now event_id = (case event_id of
     JStr i \<Rightarrow> if i = [] then ret () else update (\<lambda>l. l\<lparr>processed := (i, now + week) # processed l\<rparr>)
   | _ \<Rightarrow> ret ())"

definition handle_event :: "desk \<Rightarrow> json \<Rightarrow> nat ledop" where
  "handle_event d event =
     bindc (lift_res (get_or event ''type'' (JStr []))) (\<lambda>kind. bindc (lift_res (get_or event ''id'' (JStr []))) (\<lambda>i.
     bindc (asks (\<lambda>l. handled_before l (clock (base d)) i)) (\<lambda>again. if again then ret 200 else
     case (case kind of JStr k \<Rightarrow> event_handler d k | _ \<Rightarrow> None) of
       None \<Rightarrow> ret 200
     | Some h \<Rightarrow> try_except (thenc (bindc (lift_res (event_object event)) h) (thenc (mark_handled (clock (base d)) i) (ret 200)))
         (\<lambda>_. ret 500))))"

definition stripe_webhook ::
  "(string \<Rightarrow> string \<Rightarrow> string \<Rightarrow> rejection + json) \<Rightarrow> string \<Rightarrow> desk \<Rightarrow> string \<Rightarrow> string \<Rightarrow> nat ledop" where
  "stripe_webhook verify_event secret d payload signature =
     (if secret = [] then ret 500 else case verify_event payload signature secret of
        Inl _ \<Rightarrow> ret 400 | Inr event \<Rightarrow> handle_event d event)"

section \<open>The endpoints (\<open>views.py\<close>)\<close>

definition own_subscription :: "desk \<Rightarrow> api_request \<Rightarrow> subscription ledop" where
  "own_subscription d req = (if \<not> is_tenant_admin d req then raise_exc (PermissionDenied ''admin'') else case req_tenant req of
     None \<Rightarrow> raise_exc (DoesNotExist ''Tenant'')
   | Some ten \<Rightarrow> bindc (asks (\<lambda>l. subscription_of l ten)) (\<lambda>found. case found of
       None \<Rightarrow> raise_exc (DoesNotExist ''Subscription'') | Some s \<Rightarrow> ret s))"

definition set_cancellation :: "(string \<Rightarrow> bool \<Rightarrow> bool) \<Rightarrow> bool \<Rightarrow> subscription \<Rightarrow> subscription ledop" where
  "set_cancellation modify cancel s =
     (if (case stripe_subscription s of Some sid \<Rightarrow> sid \<noteq> [] \<and> \<not> modify sid cancel | None \<Rightarrow> False)
      then raise_exc (ValidationError ''stripe'')
      else thenc (update (\<lambda>l. l\<lparr>subscriptions := map (\<lambda>r. if sub_key r = sub_key s then r\<lparr>cancel_at_period_end := cancel\<rparr> else r)
             (subscriptions l)\<rparr>)) (ret (s\<lparr>cancel_at_period_end := cancel\<rparr>)))"

definition cancel_subscription :: "(string \<Rightarrow> bool \<Rightarrow> bool) \<Rightarrow> desk \<Rightarrow> api_request \<Rightarrow> subscription ledop" where
  "cancel_subscription modify d req = bindc (own_subscription d req) (\<lambda>s.
     if \<not> sub_active s then raise_exc (ValidationError ''inactive'') else set_cancellation modify True s)"

definition reactivate_subscription :: "(string \<Rightarrow> bool \<Rightarrow> bool) \<Rightarrow> desk \<Rightarrow> api_request \<Rightarrow> subscription ledop" where
  "reactivate_subscription modify d req = bindc (own_subscription d req) (\<lambda>s.
     if \<not> cancel_at_period_end s then raise_exc (ValidationError ''not pending'') else set_cancellation modify False s)"

definition own_invoices :: "desk \<Rightarrow> api_request \<Rightarrow> ledger \<Rightarrow> invoice list" where
  "own_invoices d req l = (case req_tenant req of None \<Rightarrow> []
     | Some ten \<Rightarrow> filter (\<lambda>v. list_ex (\<lambda>s. sub_key s = inv_subscription v \<and> sub_tenant s = ten) (subscriptions l)) (invoices l))"

record checkout =
  co_price :: string
  co_tenant :: tenant_id
  co_customer :: "string option"
  co_email :: "string option"

text \<open>What \<open>create_checkout_session\<close> sends to Stripe; the URLs of the body are passed through.\<close>

definition create_checkout_session :: "desk \<Rightarrow> user \<Rightarrow> tenant_id \<Rightarrow> nat option \<Rightarrow> string \<Rightarrow> string \<Rightarrow> string \<Rightarrow> ledger \<Rightarrow> checkout res" where
  "create_checkout_session d u ten plan_key billing_cycle success_url cancel_url l =
     (if \<not> is_tenant_admin d \<lparr>req_user = Some u, req_tenant = Some ten\<rparr> then Inl (PermissionDenied ''admin'')
      else case plan_key of None \<Rightarrow> Inl (ValidationError ''plan_id'')
      | Some i \<Rightarrow> if success_url = [] then Inl (ValidationError ''success_url'') else if cancel_url = [] then Inl (ValidationError ''cancel_url'')
        else case first_plan (\<lambda>p. plan_id p = i \<and> plan_active p) l of
          None \<Rightarrow> Inl (DoesNotExist ''Plan'')
        | Some p \<Rightarrow> let price = (if billing_cycle = ''yearly'' then price_id_yearly p else price_id_monthly p);
              customer = (case subscription_of l ten of Some s \<Rightarrow> if stripe_customer s = [] then None else Some (stripe_customer s) | None \<Rightarrow> None)
            in if price = [] then Inl (ValidationError ''price'')
               else Inr \<lparr>co_price = price, co_tenant = ten, co_customer = customer,
                         co_email = (if customer = None then Some (email u) else None)\<rparr>)"

section \<open>Custom field definitions under the plan (\<open>custom_fields/views.py\<close>)\<close>

definition ALLOWED_RULE_KEYS :: "string list" where
  "ALLOWED_RULE_KEYS = [''min_length'', ''max_length'', ''min'', ''max'', ''regex'']"

definition option_ok :: "json \<Rightarrow> bool" where
  "option_ok v \<longleftrightarrow> is_jobj v \<and> jget v ''value'' \<noteq> None \<and> jget v ''label'' \<noteq> None"

definition validate_definition :: "field_definition \<Rightarrow> unit res" where
  "validate_definition f =
     (if (fd_type f = SelectField \<or> fd_type f = MultiselectField) \<and>
         (case fd_options f of JList xs \<Rightarrow> xs = [] \<or> \<not> list_all option_ok xs | _ \<Rightarrow> True)
      then invalid ''options''
      else case fd_rules f of JObj rules \<Rightarrow> if list_all (\<lambda>(k, v). k \<in> set ALLOWED_RULE_KEYS) rules then Inr () else invalid ''validation_rules''
        | _ \<Rightarrow> Inr ())"

definition field_permission :: "desk \<Rightarrow> api_request \<Rightarrow> string \<Rightarrow> unit res" where
  "field_permission d req action = (if has_tenant_permission d req (Some ''custom_field'') action then Inr () else Inl (PermissionDenied action))"

text \<open>The body is the definition with its key and tenant to be set; the slug is unique in a module of the tenant.\<close>

definition create_definition :: "ledger \<Rightarrow> desk \<Rightarrow> user \<Rightarrow> tenant_id \<Rightarrow> nat \<Rightarrow> field_definition \<Rightarrow> field_definition catop" where
  "create_definition l d u ten i body = bindc (lift_res (field_permission d \<lparr>req_user = Some u, req_tenant = Some ten\<rparr> ''create'')) (\<lambda>_.
     bindc (lift_res (validate_definition body)) (\<lambda>_. bindc (asks (\<lambda>k. check_can_add_custom_field l k ten)) (\<lambda>allowed.
     bindc (lift_res allowed) (\<lambda>_. let f = body\<lparr>fd_id := i, fd_tenant := ten\<rparr>
       in bindc (asks (\<lambda>k. list_ex (\<lambda>g. fd_tenant g = ten \<and> fd_module g = fd_module f \<and> fd_slug g = fd_slug f) (field_definitions k))) (\<lambda>taken.
          if taken then raise_exc (DatabaseError ''unique'')
          else thenc (update (\<lambda>k. k\<lparr>field_definitions := field_definitions k @ [f]\<rparr>)) (ret f))))))"

text \<open>One entry of the \<open>reorder\<close> body; an entry that is no object ends the request, the changes made so far stay.\<close>

definition reorder_one :: "tenant_id \<Rightarrow> field_module option \<Rightarrow> json \<Rightarrow> nat \<times> nat \<Rightarrow> (nat \<times> nat) catop" where
  "reorder_one ten m entry = (\<lambda>(changed, errors). bindc (lift_res (get_or entry ''id'' JNull)) (\<lambda>i.
     bindc (lift_res (get_or entry ''order'' JNull)) (\<lambda>pos.
     if i = JNull \<or> pos = JNull then ret (changed, errors + 1)
     else bindc (asks (\<lambda>k. first_row (\<lambda>f. fd_tenant f = ten \<and> (m = None \<or> m = Some (fd_module f)) \<and> JInt (int (fd_id f)) = i) (field_definitions k)))
       (\<lambda>found. case found of
         None \<Rightarrow> ret (changed, errors + 1)
       | Some f \<Rightarrow> (case py_int pos of
           Inl _ \<Rightarrow> ret (changed, errors + 1)
         | Inr n \<Rightarrow> if n < 0 then raise_exc (DatabaseError ''check'')
             else thenc (update (\<lambda>k. k\<lparr>field_definitions := map (\<lambda>g. if fd_id g = fd_id f then g\<lparr>fd_order := n\<rparr> else g) (field_definitions k)\<rparr>))
               (ret (changed + 1, errors)))))))"

definition reorder_definitions :: "desk \<Rightarrow> api_request \<Rightarrow> tenant_id \<Rightarrow> field_module option \<Rightarrow> json \<Rightarrow> (nat \<times> nat) option catop" where
  "reorder_definitions d req ten m order_data = bindc (lift_res (field_permission d req ''reorder'')) (\<lambda>_. case order_data of
     JList (e # es) \<Rightarrow> bindc (for_each (e # es) (reorder_one ten m) (0, 0)) (\<lambda>r. ret (Some r))
   | _ \<Rightarrow> ret None)"

text \<open>The values a user may read: a restricted one only those of the tickets it sees.\<close>

definition readable_values :: "desk \<Rightarrow> user \<Rightarrow> bool \<Rightarrow> tenant_id \<Rightarrow> catalogue \<Rightarrow> field_value list" where
  "readable_values d u superuser ten k = (let restricted = (\<not> superuser \<and> (case membership_of d (user_id u) ten of
         None \<Rightarrow> True | Some m \<Rightarrow> level_of d m > 20));
       own = map pk (agent_visible_tickets u (filter (\<lambda>t. tenant_id (ticket_tenant t) = ten) (tickets (base d))))
     in filter (\<lambda>r. fv_tenant r = ten \<and> (restricted \<longrightarrow> fv_type r \<noteq> TicketCT \<or> fv_object r \<in> set own)) (field_values k))"

end
