(* ===== verification/Custom_Field_Laws.thy ===== *)
theory Custom_Field_Laws
  imports Custom_Fields
begin

text \<open>
  What the synchronisation of custom fields keeps: at most one typed column per
  row, one row per field and entity, the rows of the other entities; which
  fields have a row afterwards.
\<close>

section \<open>The columns of a row\<close>

definition columns_set :: "typed_value \<Rightarrow> nat" where
  "columns_set v = of_bool (value_text v \<noteq> None) + of_bool (value_number v \<noteq> None) + of_bool (value_date v \<noteq> None) +
     of_bool (value_bool v \<noteq> None)"

lemma columns_simps [simp]:
  "columns_set no_value = 0" "columns_set (as_text x v) = 1"
  "columns_set (no_value\<lparr>value_text := Some s\<rparr>) = 1" "columns_set (no_value\<lparr>value_number := Some n\<rparr>) = 1"
  "columns_set (no_value\<lparr>value_date := Some t\<rparr>) = 1" "columns_set (no_value\<lparr>value_bool := Some b\<rparr>) = 1"
  by (simp_all add: columns_set_def no_value_def as_text_def)

lemma built_columns: "build_value_kwargs x f v = Inr w \<Longrightarrow> columns_set w \<le> 1"
  unfolding build_value_kwargs_def
  by (auto simp: res_simps split: if_splits field_type.splits json.splits option.splits)

lemma stored_columns: "stored_value x v = Inr w \<Longrightarrow> columns_set w = columns_set v"
  by (auto simp: stored_value_def columns_set_def res_simps split: option.splits)

section \<open>One row per field and entity\<close>

definition field_key :: "field_value \<Rightarrow> nat \<times> content_type \<times> nat" where
  "field_key r = (fv_field r, fv_type r, fv_object r)"

definition fields_ok :: "catalogue \<Rightarrow> bool" where
  "fields_ok k \<longleftrightarrow> list_all (\<lambda>r. columns_set (fv_value r) \<le> 1) (field_values k) \<and> distinct (map field_key (field_values k))"

definition foreign_values :: "entity \<Rightarrow> catalogue \<Rightarrow> field_value list" where
  "foreign_values e k = filter (\<lambda>r. \<not> value_of_entity e r) (field_values k)"

definition fields_kept :: "entity \<Rightarrow> catalogue \<Rightarrow> catalogue \<Rightarrow> bool" where
  "fields_kept e k k' \<longleftrightarrow> (fields_ok k \<longrightarrow> fields_ok k') \<and> foreign_values e k' = foreign_values e k \<and>
     field_definitions k' = field_definitions k"

interpretation fields: step_law "fields_kept e" for e
  by unfold_locales (auto simp: fields_kept_def)

lemma replaced_keys:
  "map field_key (map (\<lambda>r. if value_of_entity e r \<and> fv_field r = i
     then \<lparr>fv_field = i, fv_type = ent_type e, fv_object = ent_id e, fv_tenant = n, fv_value = v\<rparr> else r) rows) = map field_key rows"
  by (auto simp: field_key_def value_of_entity_def)

lemma upsert_ok:
  assumes "columns_set v \<le> 1" and "fields_ok k"
  shows "fields_ok (k\<lparr>field_values := upsert_value e i v (field_values k)\<rparr>)"
proof (cases "list_ex (\<lambda>r. value_of_entity e r \<and> fv_field r = i) (field_values k)")
  case True
  then show ?thesis using assms
    by (simp add: fields_ok_def upsert_value_def Let_def replaced_keys del: map_map) (auto simp: list_all_iff)
next
  case False
  then show ?thesis using assms
    by (auto simp: fields_ok_def upsert_value_def Let_def list_all_iff list_ex_iff field_key_def value_of_entity_def)
qed

lemma upsert_foreign: "foreign_values e (k\<lparr>field_values := upsert_value e i v (field_values k)\<rparr>) = foreign_values e k"
proof -
  let ?g = "\<lambda>r. if value_of_entity e r \<and> fv_field r = i
     then \<lparr>fv_field = i, fv_type = ent_type e, fv_object = ent_id e, fv_tenant = ent_tenant e, fv_value = v\<rparr> else r"
  have "filter (\<lambda>r. \<not> value_of_entity e r) (map ?g rows) = filter (\<lambda>r. \<not> value_of_entity e r) rows" for rows
    by (induction rows) (auto simp: value_of_entity_def)
  then show ?thesis
    by (simp add: foreign_values_def upsert_value_def Let_def) (simp add: value_of_entity_def)
qed

lemma upsert_kept: "columns_set v \<le> 1 \<Longrightarrow> obeys (fields_kept e) (update (\<lambda>k. k\<lparr>field_values := upsert_value e i v (field_values k)\<rparr>))"
  by (rule fields.obeys_update) (simp add: fields_kept_def upsert_ok upsert_foreign)

lemma filtered_ok: "fields_ok k \<Longrightarrow> fields_ok (k\<lparr>field_values := filter p (field_values k)\<rparr>)"
  by (auto simp: fields_ok_def list_all_iff distinct_map intro: inj_on_subset)

lemma remove_stale_kept: "obeys (fields_kept e) (remove_stale e ids)"
  unfolding remove_stale_def
  by (rule fields.obeys_update) (auto simp: fields_kept_def filtered_ok foreign_values_def intro!: filter_cong)

lemma sync_one_kept: "obeys (fields_kept e) (sync_one x e entry ids)"
proof -
  have stored: "yields (lift_res (stored_value x v)) (\<lambda>w. columns_set w \<le> 1)" if "columns_set v \<le> 1" for v
    using that stored_columns by (fastforce simp: yields_def lift_res_def)
  have built: "yields (lift_res (build_value_kwargs x f v)) (\<lambda>w. columns_set w \<le> 1)" for f v
    using built_columns by (fastforce simp: yields_def lift_res_def)
  show ?thesis unfolding sync_one_def
    by (rule fields.obeys_bind [OF fields.obeys_asks] fields.obeys_option fields.obeys_ret fields.obeys_then upsert_kept
      fields.obeys_bind_yields [OF built fields.obeys_lift] fields.obeys_bind_yields [OF stored fields.obeys_lift] | assumption)+
qed

lemma sync_kept: "obeys (fields_kept e) (sync_custom_field_values x e data)"
  unfolding sync_custom_field_values_def
  by (cases data) (auto intro!: fields.obeys_bind fields.obeys_for fields.obeys_ret sync_one_kept remove_stale_kept)

text \<open>
  C33: Whatever \<open>custom_data\<close> a save carries and whatever fails on the way,
  every stored custom value stays typed: at most one of its four typed columns
  is set, there is one row per field and entity, and the rows of all other
  entities are untouched.
\<close>

theorem custom_values_typed:
  assumes "fields_ok k"
  shows "fields_ok (snd (sync_on_save x e data k)) \<and> foreign_values e (snd (sync_on_save x e data k)) = foreign_values e k"
proof -
  have "obeys (fields_kept e) (sync_on_save x e data)"
    unfolding sync_on_save_def by (intro fields.obeys_if fields.obeys_try fields.obeys_ret sync_kept)
  then have "fields_kept e k (snd (sync_on_save x e data k))" by (simp add: obeys_def)
  with assms show ?thesis by (simp add: fields_kept_def)
qed

section \<open>Which fields have a row\<close>

definition entity_fields :: "entity \<Rightarrow> catalogue \<Rightarrow> nat set" where
  "entity_fields e k = {i. \<exists>r \<in> set (field_values k). value_of_entity e r \<and> fv_field r = i \<and> field_of_module k e i}"

definition asked_fields :: "entity \<Rightarrow> catalogue \<Rightarrow> string list \<Rightarrow> nat set" where
  "asked_fields e k slugs = {fd_id f | f slug. slug \<in> set slugs \<and> definition_of_slug k e slug = Some f}"

lemma asked_in_module: "i \<in> asked_fields e k slugs \<Longrightarrow> field_of_module k e i"
  by (auto simp: asked_fields_def field_of_module_def list_ex_iff definition_of_slug_def active_definitions_def
    dest!: first_row_SomeD)

lemma upsert_fields: "fv_field ` {r \<in> set (upsert_value e i v rows). value_of_entity e r} =
    insert i (fv_field ` {r \<in> set rows. value_of_entity e r})"
proof (cases "list_ex (\<lambda>r. value_of_entity e r \<and> fv_field r = i) rows")
  case True
  let ?g = "\<lambda>r. if value_of_entity e r \<and> fv_field r = i
     then \<lparr>fv_field = i, fv_type = ent_type e, fv_object = ent_id e, fv_tenant = ent_tenant e, fv_value = v\<rparr> else r"
  have g: "value_of_entity e (?g r) = value_of_entity e r" "fv_field (?g r) = fv_field r" for r
    by (simp_all add: value_of_entity_def)
  have "{r \<in> ?g ` set rows. value_of_entity e r} = ?g ` {r \<in> set rows. value_of_entity e (?g r)}" by blast
  then have "fv_field ` {r \<in> set (map ?g rows). value_of_entity e r} = (\<lambda>r. fv_field (?g r)) ` {r \<in> set rows. value_of_entity e (?g r)}"
    by (simp only: set_map image_image)
  then have "fv_field ` {r \<in> set (map ?g rows). value_of_entity e r} = fv_field ` {r \<in> set rows. value_of_entity e r}"
    by (simp only: g)
  moreover have "i \<in> fv_field ` {r \<in> set rows. value_of_entity e r}" using True by (auto simp: list_ex_iff)
  ultimately show ?thesis using True by (simp add: upsert_value_def Let_def insert_absorb)
next
  case False
  have "value_of_entity e \<lparr>fv_field = i, fv_type = ent_type e, fv_object = ent_id e, fv_tenant = ent_tenant e, fv_value = v\<rparr>"
    by (simp add: value_of_entity_def)
  then have "{r \<in> set (upsert_value e i v rows). value_of_entity e r} =
      insert \<lparr>fv_field = i, fv_type = ent_type e, fv_object = ent_id e, fv_tenant = ent_tenant e, fv_value = v\<rparr>
        {r \<in> set rows. value_of_entity e r}"
    using False by (auto simp: upsert_value_def Let_def)
  then show ?thesis by simp
qed

definition row_fields :: "entity \<Rightarrow> catalogue \<Rightarrow> nat set" where
  "row_fields e k = fv_field ` {r \<in> set (field_values k). value_of_entity e r}"

lemma slug_frame: "field_definitions k' = field_definitions k \<Longrightarrow> definition_of_slug k' e = definition_of_slug k e"
  by (auto simp: definition_of_slug_def active_definitions_def)

lemma sync_all_run:
  "for_each data (sync_one x e) ids k = (Inr ids', k') \<Longrightarrow>
     field_definitions k' = field_definitions k \<and> set ids' = set ids \<union> asked_fields e k (map fst data) \<and>
     row_fields e k' = row_fields e k \<union> asked_fields e k (map fst data)"
proof (induction data arbitrary: ids k)
  case Nil
  then show ?case by (auto simp: cmd_simps asked_fields_def)
next
  case (Cons entry data)
  obtain ids1 k1 where first: "sync_one x e entry ids k = (Inr ids1, k1)"
      and rest: "for_each data (sync_one x e) ids1 k1 = (Inr ids', k')"
    using Cons.prems by (auto simp: cmd_simps split: prod.splits sum.splits)
  have one: "field_definitions k1 = field_definitions k \<and> set ids1 = set ids \<union> asked_fields e k [fst entry] \<and>
      row_fields e k1 = row_fields e k \<union> asked_fields e k [fst entry]"
  proof (cases "definition_of_slug k e (fst entry)")
    case None
    with first show ?thesis by (auto simp: sync_one_def cmd_simps asked_fields_def)
  next
    case (Some f)
    then have "asked_fields e k [fst entry] = {fd_id f}" by (auto simp: asked_fields_def)
    moreover obtain v where "ids1 = ids @ [fd_id f]" "k1 = k\<lparr>field_values := upsert_value e (fd_id f) v (field_values k)\<rparr>"
      using first Some by (auto simp: sync_one_def cmd_simps split: sum.splits prod.splits)
    ultimately show ?thesis by (simp add: row_fields_def upsert_fields)
  qed
  have "asked_fields e k1 (map fst data) = asked_fields e k (map fst data)"
    using one slug_frame [of k1 k e] by (simp add: asked_fields_def)
  moreover have "asked_fields e k (map fst (entry # data)) = asked_fields e k [fst entry] \<union> asked_fields e k (map fst data)"
    by (auto simp: asked_fields_def)
  ultimately show ?case using Cons.IH [OF rest] one by auto
qed

text \<open>A synchronisation that succeeds leaves a row for exactly the active fields the data names.\<close>

lemma synced_fields:
  assumes "sync_custom_field_values x e (JObj data) k = (Inr (), k')"
  shows "entity_fields e k' = asked_fields e k (map fst data)"
proof -
  obtain ids k1 where run: "for_each data (sync_one x e) [] k = (Inr ids, k1)" and stale: "remove_stale e ids k1 = (Inr (), k')"
    using assms by (auto simp: sync_custom_field_values_def cmd_simps split: prod.splits sum.splits)
  have asked: "field_definitions k1 = field_definitions k" "set ids = asked_fields e k (map fst data)"
      "row_fields e k1 = row_fields e k \<union> asked_fields e k (map fst data)"
    using sync_all_run [OF run] by auto
  have k': "k' = k1\<lparr>field_values := filter (\<lambda>r. \<not> (value_of_entity e r \<and> field_of_module k1 e (fv_field r) \<and> fv_field r \<notin> set ids)) (field_values k1)\<rparr>"
    using stale by (simp add: remove_stale_def cmd_simps)
  have same: "field_of_module k' e = field_of_module k1 e" "field_of_module k1 e = field_of_module k e"
    using k' asked(1) by (auto simp: field_of_module_def)
  have "entity_fields e k' = {i \<in> row_fields e k1. field_of_module k e i \<and> i \<in> set ids}"
    unfolding entity_fields_def row_fields_def same by (auto simp: k' same)
  also have "\<dots> = set ids" using asked asked_in_module by blast
  finally show ?thesis by (simp only: asked(2))
qed

text \<open>A save whose data is the empty object leaves the rows of the fields that were set before.\<close>

lemma cleared_data_keeps_values: "sync_on_save x e (JObj []) k = (Inr (), k)"
  by (simp add: sync_on_save_def cmd_simps)

section \<open>A demonstration\<close>

definition demo_field :: "nat \<Rightarrow> string \<Rightarrow> field_type \<Rightarrow> field_definition" where
  "demo_field i slug ft = \<lparr>fd_id = i, fd_tenant = 1, fd_module = TicketModule, fd_name = slug, fd_slug = slug, fd_type = ft,
     fd_options = JList [JObj [(''value'', JStr ''eu''), (''label'', JStr ''EU'')]], fd_required = (ft = SelectField), fd_rules = JObj [(''max'', JInt 10)],
     fd_order = int i, fd_roles = [], fd_active = True\<rparr>"

definition demo_entity :: entity where
  "demo_entity = \<lparr>ent_type = TicketCT, ent_id = 10, ent_tenant = 1, ent_module = TicketModule\<rparr>"

definition demo_catalogue :: catalogue where
  "demo_catalogue = \<lparr>field_definitions = [demo_field 1 ''seats'' NumberField, demo_field 2 ''region'' SelectField, demo_field 3 ''vip'' CheckboxField],
     field_values = [\<lparr>fv_field = 3, fv_type = TicketCT, fv_object = 10, fv_tenant = 1, fv_value = no_value\<lparr>value_bool := Some True\<rparr>\<rparr>]\<rparr>"

definition demo_lexicon :: lexicon where
  "demo_lexicon = \<lparr>float_text = (\<lambda>_. ''1.5''), re_match = (\<lambda>_ _. Some True), parse_datetime = (\<lambda>_. Inr None), parse_date = (\<lambda>_. Inr None),
     number_column = Inr\<rparr>"

definition demo_data :: json where
  "demo_data = JObj [(''seats'', JStr '' -1.25e1''), (''region'', JStr ''eu''), (''unknown'', JNull)]"

theorem custom_values_typed_witness:
  "fields_ok demo_catalogue \<and> fields_ok (snd (sync_on_save demo_lexicon demo_entity demo_data demo_catalogue)) \<and>
   map (\<lambda>r. (fv_field r, display_value (fv_value r))) (field_values (snd (sync_on_save demo_lexicon demo_entity demo_data demo_catalogue)))
     = [(1, Some (ShownNumber (Finite (- 25 / 2)))), (2, Some (ShownText ''eu''))]"
proof -
  have ok: "fields_ok demo_catalogue" by code_simp
  moreover have "map (\<lambda>r. (fv_field r, display_value (fv_value r))) (field_values (snd (sync_on_save demo_lexicon demo_entity demo_data demo_catalogue)))
     = [(1, Some (ShownNumber (Finite (- 25 / 2)))), (2, Some (ShownText ''eu''))]" by code_simp
  ultimately show ?thesis using custom_values_typed [OF ok] by blast
qed

lemma demo_validation:
  "validate_custom_data demo_lexicon demo_catalogue 1 TicketModule demo_data = Inr ()"
  "validate_custom_data demo_lexicon demo_catalogue 1 TicketModule (JObj [(''seats'', JInt 11), (''region'', JStr ''eu'')])
     = Inl (ValidationError ''custom_field_validation'')"
  "validate_custom_data demo_lexicon demo_catalogue 1 TicketModule (JObj [(''seats'', JStr ''nan''), (''region'', JStr ''eu'')]) = Inl bad_decimal"
  by code_simp+

end
