(* ===== verification/Billing_Laws.thy ===== *)
theory Billing_Laws
  imports Billing Custom_Field_Laws
begin

text \<open>
  What the events of Stripe and the billing endpoints keep: one subscription
  per tenant and per Stripe id, every event handled once, the plan's limit on
  custom fields, the reach of a lapsed tenant.
\<close>

section \<open>One subscription per tenant\<close>

definition conflict :: "subscription \<Rightarrow> subscription \<Rightarrow> bool" where
  "conflict a b \<longleftrightarrow> sub_key a = sub_key b \<or> sub_tenant a = sub_tenant b \<or>
     (stripe_subscription a \<noteq> None \<and> stripe_subscription a = stripe_subscription b)"

definition ledger_ok :: "ledger \<Rightarrow> bool" where
  "ledger_ok l \<longleftrightarrow> sorted_wrt (\<lambda>a b. \<not> conflict a b) (subscriptions l) \<and> list_all (\<lambda>s. sub_key s < next_key l) (subscriptions l)"

text \<open>The invariant survives, and no marker of a handled event is lost.\<close>

definition ledger_kept :: "ledger \<Rightarrow> ledger \<Rightarrow> bool" where
  "ledger_kept l l' \<longleftrightarrow> (ledger_ok l \<longrightarrow> ledger_ok l') \<and> set (processed l) \<subseteq> set (processed l')"

interpretation billing: step_law ledger_kept
  by unfold_locales (auto simp: ledger_kept_def)

lemma conflict_sym: "conflict a b \<longleftrightarrow> conflict b a"
  unfolding conflict_def by metis

lemma replaced_apart:
  assumes "sorted_wrt (\<lambda>a b. \<not> conflict a b) rows" and "\<forall>r \<in> set rows. sub_key r \<noteq> sub_key s \<longrightarrow> \<not> conflict s r"
  shows "sorted_wrt (\<lambda>a b. \<not> conflict a b) (map (\<lambda>r. if sub_key r = sub_key s then s else r) rows)"
  using assms
proof (induction rows)
  case (Cons r rows)
  let ?g = "\<lambda>r. if sub_key r = sub_key s then s else r"
  have "\<not> conflict (?g r) (?g x)" if x: "x \<in> set rows" for x
  proof (cases "sub_key r = sub_key s")
    case True
    then have "sub_key x \<noteq> sub_key s" using Cons.prems(1) x by (auto simp: conflict_def)
    with True Cons.prems(2) x show ?thesis by simp
  next
    case False
    with Cons.prems x show ?thesis by (auto simp: conflict_sym)
  qed
  moreover have "sorted_wrt (\<lambda>a b. \<not> conflict a b) (map ?g rows)" using Cons by simp
  ultimately show ?case by (simp only: list.map sorted_wrt.simps set_map ball_simps) blast
qed simp

lemma save_kept: "obeys ledger_kept (save_subscription s)"
proof -
  have "ledger_ok (l\<lparr>subscriptions := map (\<lambda>r. if sub_key r = sub_key s then s else r) (subscriptions l)\<rparr>)"
    if "ledger_ok l" "\<not> list_ex (clashes s) (subscriptions l)" for l
  proof -
    have "\<forall>r \<in> set (subscriptions l). sub_key r \<noteq> sub_key s \<longrightarrow> \<not> conflict s r"
      using that(2) by (auto simp: list_ex_iff clashes_def conflict_def)
    with that(1) show ?thesis by (auto simp: ledger_ok_def replaced_apart list_all_iff)
  qed
  then show ?thesis by (auto simp: obeys_def save_subscription_def cmd_simps ledger_kept_def)
qed

lemma new_kept: "obeys ledger_kept (new_subscription ten sid x)"
proof -
  have "\<not> conflict r s" if "ledger_ok l" "sub_key s = next_key l" "\<not> list_ex (clashes s) (subscriptions l)" "r \<in> set (subscriptions l)" for l s r
  proof -
    have "sub_key r < next_key l" using that(1,4) by (simp add: ledger_ok_def list_all_iff)
    then show ?thesis using that(2,3,4) by (auto simp: list_ex_iff clashes_def conflict_def)
  qed
  moreover have "sub_key (with_defaults x s) = sub_key s" for x s by (simp add: with_defaults_def)
  ultimately show ?thesis
    by (auto simp: obeys_def new_subscription_def cmd_simps Let_def ledger_kept_def ledger_ok_def sorted_wrt_append list_all_iff
      intro: less_SucI split: if_splits)
qed

lemma store_kept: "obeys ledger_kept (store_sync sid ten x)"
  unfolding store_sync_def
  by (intro billing.obeys_bind billing.obeys_asks billing.obeys_option billing.obeys_ret save_kept new_kept)

lemma sync_subscription_kept: "obeys ledger_kept (sync_subscription_from_stripe d sub)"
  unfolding sync_subscription_from_stripe_def
  by (intro billing.obeys_bind billing.obeys_lift billing.obeys_asks billing.obeys_option billing.obeys_ret store_kept)

lemma columns_kept:
  assumes "\<And>r. sub_key (f r) = sub_key r \<and> sub_tenant (f r) = sub_tenant r \<and> stripe_subscription (f r) = stripe_subscription r"
  shows "obeys ledger_kept (update (\<lambda>l. l\<lparr>subscriptions := map f (subscriptions l)\<rparr>))"
proof -
  have "conflict (f a) (f b) = conflict a b" for a b by (simp add: conflict_def assms)
  then show ?thesis
    by (auto simp: obeys_def cmd_simps ledger_kept_def ledger_ok_def sorted_wrt_map list_all_iff assms)
qed

lemma deleted_kept: "obeys ledger_kept (handle_subscription_deleted sub)"
  unfolding handle_subscription_deleted_def
  by (intro billing.obeys_bind billing.obeys_lift billing.obeys_asks billing.obeys_option billing.obeys_ret columns_kept) simp

lemma side_kept: "obeys ledger_kept (update (\<lambda>l. l\<lparr>invoices := f l\<rparr>))" "obeys ledger_kept (mark_handled now i)"
  by (auto simp: obeys_def cmd_simps ledger_kept_def ledger_ok_def mark_handled_def split: json.split)

lemma invoice_kept: "obeys ledger_kept (sync_invoice v)"
  unfolding sync_invoice_def
  by (intro billing.obeys_bind billing.obeys_if billing.obeys_lift billing.obeys_asks billing.obeys_option billing.obeys_ret side_kept)

lemma handler_kept: "event_handler d kind = Some h \<Longrightarrow> obeys ledger_kept (h v)"
  by (auto simp: event_handler_def sync_subscription_kept deleted_kept invoice_kept split: if_splits)

lemma event_kept: "obeys ledger_kept (handle_event d event)"
proof -
  have known: "obeys ledger_kept (h v)" if "(case kind of JStr k \<Rightarrow> event_handler d k | _ \<Rightarrow> None) = Some h" for kind h v
    using that handler_kept by (auto split: json.splits)
  show ?thesis unfolding handle_event_def
    by (intro billing.obeys_bind billing.obeys_lift billing.obeys_asks billing.obeys_if billing.obeys_ret billing.obeys_option
      billing.obeys_try billing.obeys_then side_kept known)
qed

lemma webhook_kept: "obeys ledger_kept (stripe_webhook v secret d payload sig)"
  unfolding stripe_webhook_def by (cases "v payload sig secret") (auto intro!: billing.obeys_if billing.obeys_ret event_kept)

lemma cancellation_kept: "obeys ledger_kept (set_cancellation modify b s)"
  unfolding set_cancellation_def
  by (intro billing.obeys_if billing.obeys_raise billing.obeys_then billing.obeys_ret columns_kept) simp

lemma endpoints_kept: "obeys ledger_kept (cancel_subscription modify d req)" "obeys ledger_kept (reactivate_subscription modify d req)"
  unfolding cancel_subscription_def reactivate_subscription_def own_subscription_def
  by (intro billing.obeys_bind billing.obeys_if billing.obeys_raise billing.obeys_asks billing.obeys_option billing.obeys_ret cancellation_kept)+

inductive billing_run :: "ledger \<Rightarrow> ledger \<Rightarrow> bool" where
  brun_refl: "billing_run l l"
| brun_webhook: "billing_run l m \<Longrightarrow> billing_run l (snd (stripe_webhook v secret d payload sig m))"
| brun_cancel: "billing_run l m \<Longrightarrow> billing_run l (snd (cancel_subscription modify d req m))"
| brun_reactivate: "billing_run l m \<Longrightarrow> billing_run l (snd (reactivate_subscription modify d req m))"

lemma bill_run_kept: "billing_run l l' \<Longrightarrow> ledger_kept l l'"
proof (induction rule: billing_run.induct)
  case (brun_webhook l m v secret d payload sig)
  with webhook_kept [of v secret d payload sig] show ?case unfolding obeys_def by (blast intro: billing.step_trans)
next
  case (brun_cancel l m modify d req)
  with endpoints_kept(1) [of modify d req] show ?case unfolding obeys_def by (blast intro: billing.step_trans)
next
  case (brun_reactivate l m modify d req)
  with endpoints_kept(2) [of modify d req] show ?case unfolding obeys_def by (blast intro: billing.step_trans)
qed (simp add: billing.step_refl)


section \<open>An event is handled once\<close>

text \<open>
  C35: An event with an id that was handled (a known type, answered with 200,
  not a repetition itself) and is delivered again within a week, whatever
  happened to the ledger in between, changes nothing and is answered with 200.
\<close>

theorem replayed_event_ignored:
  assumes first: "handle_event d event l = (Inr 200, l1)" "\<not> handled_before l (clock (base d)) (JStr i)"
    and known: "jget event ''id'' = Some (JStr i)" "i \<noteq> []" "jget event ''type'' = Some (JStr kind)" "event_handler d kind \<noteq> None"
    and later: "billing_run l1 l2" "clock (base d2) < clock (base d) + week"
  shows "handle_event d2 event l2 = (Inr 200, l2)"
proof -
  have obj: "is_jobj event" using known(1) by (cases event) auto
  have read: "get_or event ''id'' (JStr []) = Inr (JStr i)" "get_or event ''type'' (JStr []) = Inr (JStr kind)"
    using obj known by (simp_all add: get_or_def)
  obtain h where h: "event_handler d kind = Some h" using known(4) by blast
  have "(i, clock (base d) + week) \<in> set (processed l1)"
    using first known(2) h read by (auto simp: handle_event_def mark_handled_def cmd_simps split: prod.splits sum.splits)
  then have "(i, clock (base d) + week) \<in> set (processed l2)" using bill_run_kept [OF later(1)] by (auto simp: ledger_kept_def)
  with later(2) known(2) have "handled_before l2 (clock (base d2)) (JStr i)"
    by (auto simp: handled_before_def list_ex_iff)
  with read show ?thesis by (simp add: handle_event_def cmd_simps)
qed


section \<open>A demonstration\<close>

definition demo_plan :: plan where
  "demo_plan = \<lparr>plan_id = 1, plan_tier = ProTier, plan_name = ''Pro'', stripe_product = ''prod'', price_id_monthly = ''pm'', price_id_yearly = ''py'',
     price_monthly = 49, plan_active = True, max_users = Some 5, max_contacts = None, max_tickets_per_month = Some 100, max_storage_mb = Some 10,
     max_custom_fields = Some 4, plan_features = [''api_access'']\<rparr>"

definition empty_ledger :: ledger where
  "empty_ledger = \<lparr>plans = [demo_plan], subscriptions = [], invoices = [], usages = [], processed = [], next_key = 1\<rparr>"

definition demo_event :: "string \<Rightarrow> string \<Rightarrow> string \<Rightarrow> string \<Rightarrow> json" where
  "demo_event i kind sid st = JObj [(''id'', JStr i), (''type'', JStr kind), (''data'', JObj [(''object'',
     JObj [(''id'', JStr sid), (''customer'', JStr ''cus''), (''status'', JStr st), (''current_period_end'', JInt 1700000000),
       (''metadata'', JObj [(''tenant_id'', JInt 1)]),
       (''items'', JObj [(''data'', JList [JObj [(''price'', JObj [(''id'', JStr ''py''), (''recurring'', JObj [(''interval'', JStr ''year'')])])]])])])])]"

abbreviation sub_event :: "string \<Rightarrow> string \<Rightarrow> string \<Rightarrow> json" where
  "sub_event i sid st \<equiv> demo_event i ''customer.subscription.updated'' sid st"

definition shown_subs :: "ledger \<Rightarrow> (tenant_id \<times> string option \<times> subscription_status \<times> bool) list" where
  "shown_subs l = map (\<lambda>s. (sub_tenant s, stripe_subscription s, sub_status s, yearly s)) (subscriptions l)"

definition subscribed :: ledger where
  "subscribed = snd (handle_event demo_desk (sub_event ''e1'' ''s1'' ''active'') empty_ledger)"

lemma demo_subscribed:
  "handle_event demo_desk (sub_event ''e1'' ''s1'' ''active'') empty_ledger = (Inr 200, subscribed)"
  "shown_subs subscribed = [(1, Some ''s1'', ActiveSub, True)]" "ledger_ok empty_ledger"
  unfolding subscribed_def by code_simp+

text \<open>
  A new subscription of the tenant replaces the row of the old one, and the
  deletion of the old one, delivered afterwards, does not touch it; but a late
  update of the old one takes the row over again.
\<close>

definition resubscribed :: ledger where
  "resubscribed = snd (handle_event demo_desk (sub_event ''e2'' ''s2'' ''active'') subscribed)"

lemma late_events_of_the_old_subscription:
  "shown_subs resubscribed = [(1, Some ''s2'', ActiveSub, True)]"
  "shown_subs (snd (handle_event demo_desk (demo_event ''e3'' ''customer.subscription.deleted'' ''s1'' ''canceled'') resubscribed))
     = [(1, Some ''s2'', ActiveSub, True)]"
  "shown_subs (snd (handle_event demo_desk (sub_event ''e4'' ''s1'' ''canceled'') resubscribed)) = [(1, Some ''s1'', Canceled, True)]"
  unfolding resubscribed_def subscribed_def by code_simp+

definition two_tenants :: ledger where
  "two_tenants = subscribed\<lparr>subscriptions := subscriptions subscribed @
     map (\<lambda>s. s\<lparr>sub_key := 7, sub_tenant := 2, stripe_subscription := Some ''s9''\<rparr>) (subscriptions subscribed), next_key := 8\<rparr>"


theorem replayed_event_ignored_witness:
  "handle_event demo_desk (sub_event ''e1'' ''s1'' ''active'') subscribed = (Inr 200, subscribed) \<and> subscribed \<noteq> empty_ledger"
proof -
  have "\<not> handled_before empty_ledger (clock (base demo_desk)) (JStr ''e1'')"
    "jget (sub_event ''e1'' ''s1'' ''active'') ''id'' = Some (JStr ''e1'')"
    "jget (sub_event ''e1'' ''s1'' ''active'') ''type'' = Some (JStr ''customer.subscription.updated'')"
    by code_simp+
  moreover have "event_handler demo_desk ''customer.subscription.updated'' \<noteq> None" by (simp add: event_handler_def)
  moreover have "clock (base demo_desk) < clock (base demo_desk) + week" by (simp add: week_def day_us_def)
  ultimately have "handle_event demo_desk (sub_event ''e1'' ''s1'' ''active'') subscribed = (Inr 200, subscribed)"
    using replayed_event_ignored [OF demo_subscribed(1) _ _ _ _ _ brun_refl] by simp
  moreover have "shown_subs empty_ledger = []" by code_simp
  ultimately show ?thesis using demo_subscribed(2) by auto
qed

section \<open>The plan's limits\<close>

text \<open>A creation that succeeds is under the limit, and the limit is never passed.\<close>

lemma created_definition:
  assumes "create_definition l d u ten i body k = (Inr f, k')"
  shows "check_can_add_custom_field l k ten = Inr ()" "length (fields_of_tenant k' ten) = length (fields_of_tenant k ten) + 1"
proof -
  show "check_can_add_custom_field l k ten = Inr ()"
    using assms by (auto simp: create_definition_def cmd_simps split: prod.splits sum.splits if_splits)
  have "k' = k\<lparr>field_definitions := field_definitions k @ [body\<lparr>fd_id := i, fd_tenant := ten\<rparr>]\<rparr>"
    using assms by (auto simp: create_definition_def cmd_simps Let_def split: prod.splits sum.splits if_splits)
  then show "length (fields_of_tenant k' ten) = length (fields_of_tenant k ten) + 1" by (simp add: fields_of_tenant_def)
qed

lemma failed_creation_changes_nothing:
  "create_definition l d u ten i body k = (Inl x, k') \<Longrightarrow> k' = k"
  by (auto simp: create_definition_def cmd_simps Let_def split: prod.splits sum.splits if_splits)

lemma fields_within_plan:
  assumes "plan_of l ten = Some p" "max_custom_fields p = Some n" "length (fields_of_tenant k ten) \<le> n"
    and "create_definition l d u ten i body k = (r, k')"
  shows "length (fields_of_tenant k' ten) \<le> n"
proof (cases r)
  case (Inl x)
  with assms(3,4) failed_creation_changes_nothing show ?thesis by blast
next
  case (Inr f)
  with assms(4) have "check_can_add_custom_field l k ten = Inr ()" "length (fields_of_tenant k' ten) = length (fields_of_tenant k ten) + 1"
    using created_definition by blast+
  with assms(1,2) show ?thesis by (simp add: check_can_add_custom_field_def with_plan_def check_limit_def split: if_splits)
qed

section \<open>The reach of a lapsed tenant\<close>

lemma billing_reachable: "startswith path ''/api/v1/billing/'' \<Longrightarrow> subscription_gate l now ten path"
  by (simp add: subscription_gate_def EXEMPT_PATH_PREFIXES_def)

text \<open>Time alone never lets a blocked request through, and grace ends a week after the period.\<close>

lemma gate_closes: "\<not> subscription_gate l now ten path \<Longrightarrow> now \<le> now2 \<Longrightarrow> \<not> subscription_gate l now2 ten path"
  by (auto simp: subscription_gate_def in_grace_period_def split: option.splits if_splits)

lemma grace_ends:
  "subscription_of l i = Some s \<Longrightarrow> sub_status s = PastDue \<Longrightarrow> period_end s = Some t \<Longrightarrow>
   \<not> list_ex (startswith path) EXEMPT_PATH_PREFIXES \<Longrightarrow> subscription_gate l now (Some i) path \<longleftrightarrow> now \<le> t + 7 * day_us"
  by (simp add: subscription_gate_def in_grace_period_def sub_active_def)

end
