(* ===== verification/Ticket_Views.thy ===== *)
theory Ticket_Views
  imports Comment_Threads Billing Ticket_Links
begin

text \<open>
  The ticket endpoints (\<open>TicketViewSet\<close> of \<open>apps/tickets/views.py\<close>): which
  tickets a request reaches, the actions that call the ticket services, emails,
  links, watchers, time entries, deletion and restoration.  The state adds to
  the comment threads the tables only these endpoints use.  A handler raises
  what the framework turns into a response: \<open>DoesNotExist\<close> of the ticket is the
  404, \<open>PermissionDenied\<close> the 403 and \<open>ValidationError\<close> the 400 of the framework;
  the responses the code builds itself are values.  The filters of the query
  string are not modelled apart from \<open>include_deleted\<close>.
\<close>

section \<open>State\<close>

record watcher =
  w_ticket :: nat
  w_user :: user_id
  w_tenant :: tenant_id
  w_at :: instant

record time_entry =
  te_id :: nat
  te_ticket :: nat
  te_user :: user_id
  te_tenant :: tenant_id
  te_minutes :: int
  te_note :: string
  te_billable :: bool
  te_at :: instant

text \<open>
  \<open>stage_rows\<close>: the pipeline stages with their tenants; \<open>auto_assign\<close>: that column
  of a queue; \<open>custom_data_of\<close>: that column of a ticket; \<open>mail_jobs\<close>: the calls of
  \<open>send_ticket_email_task\<close> as (ticket, tenant, to, subject, body).
\<close>

record office =
  office_forum :: forum
  office_ledger :: ledger
  office_fields :: catalogue
  watch_rows :: "watcher list"
  time_rows :: "time_entry list"
  macros :: "ticket_macro list"
  stage_rows :: "(tenant_id \<times> pipeline_stage) list"
  auto_assign :: "nat \<Rightarrow> bool"
  custom_data_of :: "nat \<Rightarrow> json"
  mail_jobs :: "(nat \<times> tenant_id \<times> string \<times> string \<times> string) list"

type_synonym 'a view = "(office, 'a) cmd"

definition at_forum :: "'a forumop \<Rightarrow> 'a view" where
  "at_forum c = (\<lambda>v. case c (office_forum v) of (r, k') \<Rightarrow> (r, v\<lparr>office_forum := k'\<rparr>))"

lemma run_at_forum [cmd_simps]: "at_forum c v = (fst (c (office_forum v)), v\<lparr>office_forum := snd (c (office_forum v))\<rparr>)"
  by (simp add: at_forum_def split: prod.split)

abbreviation at_core :: "'a op \<Rightarrow> 'a view" where
  "at_core c \<equiv> at_forum (in_forum (on_base c))"

abbreviation office_desk :: "office \<Rightarrow> desk" where
  "office_desk v \<equiv> forum_desk (office_forum v)"

abbreviation office_base :: "office \<Rightarrow> store" where
  "office_base v \<equiv> base (office_desk v)"

section \<open>Reaching a ticket\<close>

text \<open>\<open>get_queryset\<close>\<close>

definition visible_tickets :: "desk \<Rightarrow> caller \<Rightarrow> bool \<Rightarrow> ticket list" where
  "visible_tickets d c deleted =
     (let rows = filter (\<lambda>t. deleted \<or> \<not> is_deleted t) (scoped (base d) (\<lambda>t. tenant_id (ticket_tenant t)) (tickets (base d)))
      in if restricted_caller d c then agent_visible_tickets (caller_user c) rows else rows)"

text \<open>The permission classes of the viewset.\<close>

definition view_permission :: "caller \<Rightarrow> string \<Rightarrow> unit view" where
  "view_permission c action = bindc (asks (\<lambda>v. has_tenant_permission (office_desk v) (api_of c) (Some ''ticket'') action)) (\<lambda>granted.
     if granted then ret () else raise_exc (PermissionDenied action))"

text \<open>\<open>get_object\<close>\<close>

definition fetch_ticket :: "caller \<Rightarrow> bool \<Rightarrow> nat \<Rightarrow> ticket view" where
  "fetch_ticket c deleted i = bindc (asks (\<lambda>v. first_row (\<lambda>t. pk t = i) (visible_tickets (office_desk v) c deleted))) (\<lambda>found. case found of
     None \<Rightarrow> raise_exc (DoesNotExist ''Ticket'')
   | Some t \<Rightarrow> bindc (asks (\<lambda>v. is_ticket_accessible (office_desk v) (api_of c) t)) (\<lambda>access.
       if access then ret t else raise_exc (PermissionDenied ''ticket'')))"

definition with_ticket :: "caller \<Rightarrow> string \<Rightarrow> bool \<Rightarrow> nat \<Rightarrow> (ticket \<Rightarrow> 'a view) \<Rightarrow> 'a view" where
  "with_ticket c action deleted i handler = thenc (view_permission c action) (bindc (fetch_ticket c deleted i) handler)"

text \<open>\<open>Ticket.objects.get(pk=...)\<close>: any ticket of the tenant that is not deleted.\<close>

definition other_ticket :: "store \<Rightarrow> nat \<Rightarrow> ticket option" where
  "other_ticket s i = first_row (\<lambda>t. pk t = i \<and> \<not> is_deleted t) (scoped s (\<lambda>t. tenant_id (ticket_tenant t)) (tickets s))"

definition user_row :: "store \<Rightarrow> user_id \<Rightarrow> user option" where
  "user_row s i = first_row (\<lambda>u. user_id u = i) (users s)"

text \<open>A service whose \<open>ValueError\<close> becomes a 400; \<open>also\<close> says which other exceptions do.\<close>

definition answer :: "nat \<Rightarrow> (pyexc \<Rightarrow> bool) \<Rightarrow> 'a view \<Rightarrow> response view" where
  "answer code caught cmd = try_except (bindc cmd (\<lambda>_. ret (Response code []))) (\<lambda>e. case e of
     ValueError m \<Rightarrow> ret (Response 400 m) | _ \<Rightarrow> if caught e then ret (Response 400 []) else raise_exc e)"

definition only_value_errors :: "pyexc \<Rightarrow> bool" where "only_value_errors e = False"

fun is_validation :: "pyexc \<Rightarrow> bool" where
  "is_validation (ValidationError _) = True"
| "is_validation _ = False"

definition or_404 :: "string \<Rightarrow> (store \<Rightarrow> 'r option) \<Rightarrow> ('r \<Rightarrow> response view) \<Rightarrow> response view" where
  "or_404 detail q handler = bindc (asks (\<lambda>v. q (office_base v))) (\<lambda>found. case found of
     None \<Rightarrow> ret (Response 404 detail) | Some r \<Rightarrow> handler r)"

section \<open>Actions on the workflow\<close>

definition assign_action :: "caller \<Rightarrow> bool \<Rightarrow> nat \<Rightarrow> user_id option \<Rightarrow> string \<Rightarrow> response view" where
  "assign_action c deleted i who note = with_ticket c ''assign'' deleted i (\<lambda>t. case who of
     None \<Rightarrow> ret (Response 400 ''required'')
   | Some u \<Rightarrow> or_404 ''User not found.'' (\<lambda>s. user_row s u) (\<lambda>a.
       answer 200 only_value_errors (at_core (assign_ticket t a (Some (caller_user c)) (caller_request c) note))))"

definition close_action :: "caller \<Rightarrow> bool \<Rightarrow> nat \<Rightarrow> response view" where
  "close_action c deleted i = with_ticket c ''close'' deleted i (\<lambda>t.
     answer 200 only_value_errors (at_core (close_ticket t (Some (caller_user c)) (caller_request c))))"

definition change_status_action :: "caller \<Rightarrow> bool \<Rightarrow> nat \<Rightarrow> nat \<Rightarrow> response view" where
  "change_status_action c deleted i sid = with_ticket c ''change_status'' deleted i (\<lambda>t.
     or_404 ''Status not found.'' (first_status (\<lambda>x. status_id x = sid)) (\<lambda>new.
       answer 200 is_validation (at_core (transition_ticket_status t new (Some (caller_user c)) (caller_request c)))))"

definition stage_row :: "office \<Rightarrow> nat \<Rightarrow> pipeline_stage option" where
  "stage_row v i = map_option snd (first_row (\<lambda>x. stage_id (snd x) = i) (scoped (office_base v) fst (stage_rows v)))"

definition change_stage_action :: "caller \<Rightarrow> bool \<Rightarrow> nat \<Rightarrow> nat \<Rightarrow> string \<Rightarrow> response view" where
  "change_stage_action c deleted i stage reason = with_ticket c ''change_stage'' deleted i (\<lambda>t.
     bindc (asks (\<lambda>v. stage_row v stage)) (\<lambda>found. case found of
       None \<Rightarrow> ret (Response 404 ''Pipeline stage not found.'')
     | Some st \<Rightarrow> answer 200 only_value_errors
         (at_core (transition_pipeline_stage t st (Some (caller_user c)) (strip reason) (caller_request c)))))"

text \<open>The serializer trims the reason and requires it and one of the two targets.\<close>

definition escalate_action :: "caller \<Rightarrow> bool \<Rightarrow> nat \<Rightarrow> user_id option \<Rightarrow> nat option \<Rightarrow> string \<Rightarrow> response view" where
  "escalate_action c deleted i who q reason = with_ticket c ''escalate'' deleted i (\<lambda>t.
     if strip reason = [] \<or> length (strip reason) > 2000 \<or> (who = None \<and> q = None) then raise_exc (ValidationError ''escalate'')
     else let run = (\<lambda>a queue. answer 200 only_value_errors
              (at_core (escalate_ticket t (caller_user c) (strip reason) a queue (caller_request c))));
            to_queue = (\<lambda>a. case q of None \<Rightarrow> run a None
              | Some j \<Rightarrow> or_404 ''Queue not found.'' (\<lambda>s. first_row (\<lambda>x. queue_id x = j) (scoped s queue_tenant (queues s))) (\<lambda>x. run a (Some x)))
       in case who of None \<Rightarrow> to_queue None
          | Some u \<Rightarrow> or_404 ''Assignee not found.'' (\<lambda>s. user_row s u) (\<lambda>a. to_queue (Some a)))"

definition manager_gate :: "caller \<Rightarrow> response view \<Rightarrow> response view" where
  "manager_gate c cmd = bindc (asks (\<lambda>v. is_tenant_admin_or_manager (office_desk v) (api_of c))) (\<lambda>manager.
     if manager then cmd else ret (Response 403 ''Manager or Admin role required''))"

definition merge_action :: "caller \<Rightarrow> bool \<Rightarrow> nat \<Rightarrow> nat \<Rightarrow> response view" where
  "merge_action c deleted i into = thenc (view_permission c ''merge'') (manager_gate c (bindc (fetch_ticket c deleted i) (\<lambda>secondary.
     or_404 ''Primary ticket not found.'' (\<lambda>s. other_ticket s into) (\<lambda>primary.
       answer 200 only_value_errors (at_core (merge_tickets primary secondary (caller_user c) (caller_request c)))))))"

definition split_action :: "caller \<Rightarrow> bool \<Rightarrow> nat \<Rightarrow> nat list \<Rightarrow> split_data \<Rightarrow> response view" where
  "split_action c deleted i ids x = thenc (view_permission c ''split'') (manager_gate c (bindc (fetch_ticket c deleted i) (\<lambda>source.
     if ids = [] then raise_exc (ValidationError ''comment_ids'')
     else answer 201 only_value_errors (at_core (split_ticket source ids (caller_user c) x (caller_request c))))))"

definition macro_action :: "caller \<Rightarrow> bool \<Rightarrow> nat \<Rightarrow> nat \<Rightarrow> response view" where
  "macro_action c deleted i m = with_ticket c ''apply_macro'' deleted i (\<lambda>t.
     bindc (asks (\<lambda>v. first_row (\<lambda>x. macro_id x = m) (scoped (office_base v) macro_tenant (macros v)))) (\<lambda>found. case found of
       None \<Rightarrow> ret (Response 404 ''Macro not found.'')
     | Some x \<Rightarrow> answer 200 only_value_errors (at_core (apply_macro t x (caller_user c) (caller_request c)))))"

definition create_link_action :: "caller \<Rightarrow> bool \<Rightarrow> nat \<Rightarrow> nat \<Rightarrow> link_type \<Rightarrow> response view" where
  "create_link_action c deleted i target kind = with_ticket c ''links'' deleted i (\<lambda>t. at_core (post_link t target kind (caller_user c)))"

text \<open>A link is named by its unique triple.\<close>

definition link_of_ticket :: "nat \<Rightarrow> ticket_link \<Rightarrow> bool" where
  "link_of_ticket i l \<longleftrightarrow> source_ticket l = i \<or> target_ticket l = i"

definition ticket_links :: "ticket \<Rightarrow> office \<Rightarrow> ticket_link list" where
  "ticket_links t v = filter (link_of_ticket (pk t)) (scoped (office_base v) link_tenant (links (office_base v)))"

definition delete_link_action :: "caller \<Rightarrow> bool \<Rightarrow> nat \<Rightarrow> nat \<times> nat \<times> link_type \<Rightarrow> response view" where
  "delete_link_action c deleted i key = with_ticket c ''delete_link'' deleted i (\<lambda>t.
     let named_link = (\<lambda>l. (source_ticket l, target_ticket l, link_kind l) = key)
     in bindc (asks (\<lambda>v. list_ex named_link (ticket_links t v))) (\<lambda>found.
        if \<not> found then ret (Response 404 ''Link not found.'')
        else thenc (at_core (update (\<lambda>s. s\<lparr>links := filter (\<lambda>l. \<not> named_link l) (links s)\<rparr>))) (ret (Response 204 []))))"

section \<open>Bulk actions\<close>

definition bulk_endpoint :: "caller \<Rightarrow> bool \<Rightarrow> bulk_action option \<Rightarrow> nat list \<Rightarrow> (response \<times> string list) view" where
  "bulk_endpoint c deleted act ids = thenc (view_permission c ''bulk_action'') (case act of
     None \<Rightarrow> ret (Response 400 ''required'', [])
   | Some a \<Rightarrow> if ids = [] then ret (Response 400 ''required'', []) else
       bindc (asks (\<lambda>v. a = BulkDelete \<and> \<not> is_superuser c \<and> \<not> at_most 20 (office_desk v) (api_of c))) (\<lambda>refused.
       if refused then ret (Response 403 ''delete'', [])
       else bindc (asks (\<lambda>v. sort_key (\<lambda>t. - created_at t) (filter (\<lambda>t. pk t \<in> set ids) (visible_tickets (office_desk v) c deleted)))) (\<lambda>ts.
         if length ts \<noteq> length ids then ret (Response 404 ''Some tickets not found or access denied.'', [])
         else bindc (at_core (bulk_update_tickets ts a (caller_user c) (caller_request c))) (\<lambda>(count, details).
           ret (Response 200 (show_nat count), details)))))"

end
