(* ===== verification/Ticket_Endpoints.thy ===== *)
theory Ticket_Endpoints
  imports Ticket_Views
begin

text \<open>
  The ticket endpoints, continued: emails, watchers, reading marks, time
  entries, creation, update, deletion and restoration, and the lists that need
  no ticket.
\<close>

section \<open>Emails\<close>

text \<open>\<open>TicketActivity.objects.create\<close> of the views: no contact, no metadata.\<close>

definition view_entry :: "caller \<Rightarrow> ticket \<Rightarrow> unit view" where
  "view_entry c t = at_core (update (\<lambda>s. s\<lparr>timeline := timeline s @ [\<lparr>act_ticket = pk t, act_contact = None,
     act_actor = Some (caller_user c), act_event = ECommented, act_metadata = JObj [], act_at = clock s\<rparr>]\<rparr>))"

definition view_audit :: "caller \<Rightarrow> ticket \<Rightarrow> action \<Rightarrow> unit view" where
  "view_audit c t a = at_core (log_activity (caller_tenant c) (Some (caller_user c)) TicketCT (pk t) a (JObj []) (caller_request c))"

definition mail_subject_of :: "ticket \<Rightarrow> string \<Rightarrow> string" where
  "mail_subject_of t subj = (let ticket_ref = ''[#'' @ show_nat (number t) @ '']''
     in if contains_sub subj ticket_ref then subj else ticket_ref @ '' '' @ subj)"

definition send_email_action :: "caller \<Rightarrow> bool \<Rightarrow> nat \<Rightarrow> string \<Rightarrow> string \<Rightarrow> string \<Rightarrow> response view" where
  "send_email_action c deleted i to subj body = with_ticket c ''send_email'' deleted i (\<lambda>t.
     thenc (update (\<lambda>v. v\<lparr>mail_jobs := mail_jobs v @ [(pk t, caller_ten c, to, mail_subject_of t subj, body)]\<rparr>))
     (thenc (view_entry c t)
     (thenc (view_audit c t AFieldChanged)
     (bindc (at_core (record_first_response t (Some (caller_user c)))) (\<lambda>_. ret (Response 202 []))))))"

definition send_creation_email_action :: "caller \<Rightarrow> bool \<Rightarrow> nat \<Rightarrow> response view" where
  "send_creation_email_action c deleted i = with_ticket c ''send_creation_email'' deleted i (\<lambda>t.
     if (case contact_of t of None \<Rightarrow> True | Some x \<Rightarrow> contact_email x = []) then ret (Response 400 ''no contact email'')
     else thenc (at_core (update (\<lambda>s. s\<lparr>outbox := outbox s @ [TicketCreatedEmailTask (pk t) (caller_ten c)]\<rparr>)))
       (thenc (view_entry c t) (thenc (view_audit c t AFieldChanged) (ret (Response 202 [])))))"

text \<open>\<open>Comment.objects.create\<close>: the row and its live event, no mentions.\<close>

definition plain_comment :: "caller \<Rightarrow> ticket \<Rightarrow> string \<Rightarrow> unit view" where
  "plain_comment c t body = at_forum (bindc (in_forum fresh_pk) (\<lambda>i. bindc (in_forum now_of) (\<lambda>now.
     let x = \<lparr>comment_id = i, comment_tenant = caller_ten c, comment_type = TicketCT, comment_object = pk t,
              comment_author = caller_user c, comment_body = body, is_internal = False\<rparr>
     in thenc (update (\<lambda>k. k\<lparr>forum_desk := (forum_desk k)\<lparr>base := (forum_base k)\<lparr>comments := x # comments (forum_base k)\<rparr>\<rparr>,
            more_of := (more_of k)(i := \<lparr>parent_of = None, written_at = now\<rparr>)\<rparr>))
        (broadcast_comment_save True x))))"

definition inbound_row :: "caller \<Rightarrow> nat \<Rightarrow> desk \<Rightarrow> inbound_email option" where
  "inbound_row c e d = first_row (\<lambda>m. ie_id m = e \<and> map_option tenant_id (ie_tenant m) = Some (caller_ten c)) (inbound_emails d)"

definition link_email_action :: "caller \<Rightarrow> bool \<Rightarrow> nat \<Rightarrow> nat \<Rightarrow> response view" where
  "link_email_action c deleted i e = with_ticket c ''link_email'' deleted i (\<lambda>t.
     bindc (asks (\<lambda>v. inbound_row c e (office_desk v))) (\<lambda>found. case found of
       None \<Rightarrow> ret (Response 404 ''Email not found.'')
     | Some m \<Rightarrow> thenc (at_forum (in_forum (update (\<lambda>d. d\<lparr>inbound_emails := map (\<lambda>r. if ie_id r = e then r\<lparr>ie_ticket := Some (pk t)\<rparr> else r)
              (inbound_emails d)\<rparr>))))
         (let body = strip_quoted_reply (body_text m)
          in thenc (if strip body = [] then ret () else plain_comment c t body)
             (thenc (view_entry c t) (thenc (view_audit c t AFieldChanged) (ret (Response 200 [])))))))"

text \<open>The rows of \<open>inbound_emails\<close> are in order of creation.\<close>

definition ticket_emails :: "ticket \<Rightarrow> desk \<Rightarrow> inbound_email list" where
  "ticket_emails t d = rev (filter (\<lambda>m. ie_ticket m = Some (pk t)) (inbound_emails d))"

definition unlinked_emails :: "caller \<Rightarrow> desk \<Rightarrow> inbound_email list" where
  "unlinked_emails c d = take 50 (rev (filter (\<lambda>m. map_option tenant_id (ie_tenant m) = Some (caller_ten c) \<and> ie_ticket m = None \<and>
     ie_direction m = Inbound \<and> ie_status m \<noteq> ERejected) (inbound_emails d)))"

section \<open>Watchers\<close>

definition watches :: "nat \<Rightarrow> user_id \<Rightarrow> watcher \<Rightarrow> bool" where
  "watches i u w \<longleftrightarrow> w_ticket w = i \<and> w_user w = u"

definition add_watcher :: "ticket \<Rightarrow> user_id \<Rightarrow> unit view" where
  "add_watcher t u = update (\<lambda>v. v\<lparr>watch_rows := watch_rows v @
     [\<lparr>w_ticket = pk t, w_user = u, w_tenant = tenant_id (ticket_tenant t), w_at = clock (office_base v)\<rparr>]\<rparr>)"

definition drop_watcher :: "ticket \<Rightarrow> user_id \<Rightarrow> unit view" where
  "drop_watcher t u = update (\<lambda>v. v\<lparr>watch_rows := filter (\<lambda>w. \<not> watches (pk t) u w) (watch_rows v)\<rparr>)"

definition ticket_watchers :: "ticket \<Rightarrow> office \<Rightarrow> watcher list" where
  "ticket_watchers t v = sort_key (\<lambda>w. - w_at w) (filter (\<lambda>w. w_ticket w = pk t) (watch_rows v))"

definition add_watcher_action :: "caller \<Rightarrow> bool \<Rightarrow> nat \<Rightarrow> user_id \<Rightarrow> response view" where
  "add_watcher_action c deleted i who = with_ticket c ''watchers'' deleted i (\<lambda>t.
     or_404 ''User not found.'' (\<lambda>s. user_row s who) (\<lambda>u.
       bindc (asks (\<lambda>v. list_ex (watches (pk t) (user_id u)) (watch_rows v))) (\<lambda>there.
         if there then ret (Response 409 ''User is already watching this ticket.'')
         else thenc (add_watcher t (user_id u)) (ret (Response 201 [])))))"

definition remove_watcher_action :: "caller \<Rightarrow> bool \<Rightarrow> nat \<Rightarrow> user_id \<Rightarrow> response view" where
  "remove_watcher_action c deleted i who = with_ticket c ''remove_watcher'' deleted i (\<lambda>t.
     bindc (asks (\<lambda>v. list_ex (watches (pk t) who) (watch_rows v))) (\<lambda>there.
       if there then thenc (drop_watcher t who) (ret (Response 204 [])) else ret (Response 404 ''Watcher not found.'')))"

text \<open>The answer is whether the user watches the ticket now.\<close>

definition watch_action :: "caller \<Rightarrow> bool \<Rightarrow> nat \<Rightarrow> bool view" where
  "watch_action c deleted i = with_ticket c ''watch'' deleted i (\<lambda>t.
     let u = user_id (caller_user c)
     in bindc (asks (\<lambda>v. list_ex (watches (pk t) u) (watch_rows v))) (\<lambda>there.
        if there then thenc (drop_watcher t u) (ret False) else thenc (add_watcher t u) (ret True)))"

section \<open>Reading marks\<close>

definition unread_comments :: "user_id \<Rightarrow> ticket \<Rightarrow> forum \<Rightarrow> nat list" where
  "unread_comments u t k = map comment_id (filter (\<lambda>x. comment_type x = TicketCT \<and> comment_object x = pk t \<and>
     user_id (comment_author x) \<noteq> u \<and> (comment_id x, u) \<notin> set (comment_reads k)) (comments (forum_base k)))"

definition mark_all_read_action :: "caller \<Rightarrow> bool \<Rightarrow> nat \<Rightarrow> nat view" where
  "mark_all_read_action c deleted i = with_ticket c ''mark_all_read'' deleted i (\<lambda>t.
     let u = user_id (caller_user c)
     in at_forum (bindc (asks (unread_comments u t)) (\<lambda>ids.
        thenc (update (\<lambda>k. k\<lparr>comment_reads := comment_reads k @ map (\<lambda>j. (j, u)) ids\<rparr>)) (ret (length ids)))))"

section \<open>Time entries\<close>

definition valid_minutes :: "int \<Rightarrow> bool" where
  "valid_minutes n \<longleftrightarrow> 0 < n \<and> n \<le> 1440"

definition log_time_action :: "caller \<Rightarrow> bool \<Rightarrow> nat \<Rightarrow> int \<Rightarrow> string \<Rightarrow> bool \<Rightarrow> time_entry view" where
  "log_time_action c deleted i minutes note billable = with_ticket c ''time_entries'' deleted i (\<lambda>t.
     if \<not> valid_minutes minutes then raise_exc (ValidationError ''duration_minutes'')
     else bindc (at_core new_pk) (\<lambda>j. bindc (at_core timezone_now) (\<lambda>now.
       let e = \<lparr>te_id = j, te_ticket = pk t, te_user = user_id (caller_user c), te_tenant = tenant_id (ticket_tenant t), te_minutes = minutes,
                te_note = note, te_billable = billable, te_at = now\<rparr>
       in thenc (update (\<lambda>v. v\<lparr>time_rows := time_rows v @ [e]\<rparr>)) (ret e))))"

definition ticket_entries :: "ticket \<Rightarrow> office \<Rightarrow> time_entry list" where
  "ticket_entries t v = filter (\<lambda>e. te_ticket e = pk t) (time_rows v)"

definition total_minutes :: "time_entry list \<Rightarrow> int" where
  "total_minutes es = sum_list (map te_minutes es)"

record time_totals =
  all_minutes :: int
  billable_minutes :: int
  entry_count :: nat
  by_user :: "(user_id \<times> int \<times> nat) list"

definition time_summary :: "ticket \<Rightarrow> office \<Rightarrow> time_totals" where
  "time_summary t v = (let es = ticket_entries t v;
       rows = map (\<lambda>u. let own = filter (\<lambda>e. te_user e = u) es in (u, total_minutes own, length own)) (remdups (map te_user es))
     in \<lparr>all_minutes = total_minutes es, billable_minutes = total_minutes (filter te_billable es), entry_count = length es,
         by_user = sort_key (\<lambda>(u, m, n). - m) rows\<rparr>)"

text \<open>The patch of an entry: what it leaves out is None.\<close>

record time_patch =
  tp_minutes :: "int option"
  tp_note :: "string option"
  tp_billable :: "bool option"

definition patch_entry :: "time_patch \<Rightarrow> time_entry \<Rightarrow> time_entry" where
  "patch_entry x e = e\<lparr>te_minutes := named (tp_minutes x) (te_minutes e), te_note := named (tp_note x) (te_note e),
     te_billable := named (tp_billable x) (te_billable e)\<rparr>"

text \<open>\<open>time_entry_detail\<close>: \<open>None\<close> deletes.\<close>

definition time_entry_action :: "caller \<Rightarrow> bool \<Rightarrow> nat \<Rightarrow> nat \<Rightarrow> time_patch option \<Rightarrow> response view" where
  "time_entry_action c deleted i j change = with_ticket c ''time_entry_detail'' deleted i (\<lambda>t.
     bindc (asks (\<lambda>v. first_row (\<lambda>e. te_id e = j) (ticket_entries t v))) (\<lambda>found. case found of
       None \<Rightarrow> ret (Response 404 ''Time entry not found.'')
     | Some e \<Rightarrow> bindc (asks (\<lambda>v. te_user e = user_id (caller_user c) \<or> at_most 20 (office_desk v) (api_of c))) (\<lambda>allowed.
         if \<not> allowed then ret (Response 403 ''You can only modify your own time entries.'')
         else case change of
           None \<Rightarrow> thenc (update (\<lambda>v. v\<lparr>time_rows := filter (\<lambda>r. te_id r \<noteq> j) (time_rows v)\<rparr>)) (ret (Response 204 []))
         | Some x \<Rightarrow> if (case tp_minutes x of Some n \<Rightarrow> \<not> valid_minutes n | None \<Rightarrow> False)
             then raise_exc (ValidationError ''duration_minutes'')
             else thenc (update (\<lambda>v. v\<lparr>time_rows := map (\<lambda>r. if te_id r = j then patch_entry x r else r) (time_rows v)\<rparr>))
               (ret (Response 200 [])))))"

section \<open>Deletion and restoration\<close>

definition destroy_action :: "caller \<Rightarrow> bool \<Rightarrow> nat \<Rightarrow> unit view" where
  "destroy_action c deleted i = with_ticket c ''destroy'' deleted i (\<lambda>t. at_core (atomic (
     bindc timezone_now (\<lambda>now.
     bindc (save_ticket (Some [CIsDeleted, CDeletedAt, CDeletedBy, CUpdatedAt])
       (quietly (t\<lparr>is_deleted := True, deleted_at := Some now, deleted_by := Some (caller_user c)\<rparr>))) (\<lambda>t'.
     log_activity (ticket_tenant t') (Some (caller_user c)) TicketCT (pk t') ADeleted (JObj []) (caller_request c))))))"

definition restore_action :: "caller \<Rightarrow> nat \<Rightarrow> response view" where
  "restore_action c i = with_ticket c ''restore'' True i (\<lambda>t.
     if \<not> is_deleted t then ret (Response 400 ''Ticket is not deleted.'')
     else bindc (at_core (save_ticket (Some [CIsDeleted, CDeletedAt, CDeletedBy, CUpdatedAt])
       (t\<lparr>is_deleted := False, deleted_at := None, deleted_by := None\<rparr>))) (\<lambda>_. ret (Response 200 [])))"


section \<open>Creation and update\<close>

text \<open>
  The validated part of a body: a field left out is \<open>None\<close>, an explicit null of
  a nullable relation is \<open>Some None\<close>.  The related company exists; the deal
  columns are those of the CRM.
\<close>

record ticket_body =
  tb_subject :: "string option"
  tb_description :: "string option"
  tb_status :: "nat option option"
  tb_priority :: "string option"
  tb_channel :: "string option"
  tb_category :: "string option option"
  tb_queue :: "nat option option"
  tb_contact :: "nat option option"
  tb_company :: "nat option option"
  tb_assignee :: "user_id option option"
  tb_due :: "instant option option"
  tb_stage :: "nat option option"
  tb_won :: "string option option"
  tb_lost :: "string option option"
  tb_tags :: "string list option"
  tb_data :: "json option"

text \<open>The rows that the relations of the body name.\<close>

record ticket_rows =
  tr_status :: "ticket_status option"
  tr_queue :: "queue option option"
  tr_contact :: "contact option option"
  tr_assignee :: "user option"
  tr_stage :: "pipeline_stage option option"

definition related :: "string \<Rightarrow> (nat \<Rightarrow> 'r option) \<Rightarrow> nat option option \<Rightarrow> 'r option option res" where
  "related field q v = (case v of None \<Rightarrow> Inr None | Some None \<Rightarrow> Inr (Some None)
     | Some (Some i) \<Rightarrow> (case q i of None \<Rightarrow> Inl (ValidationError field) | Some r \<Rightarrow> Inr (Some (Some r))))"

text \<open>\<open>validate_status\<close> reads the tenant of the value even when it is null.\<close>

definition validate_ticket_status :: "store \<Rightarrow> tenant_id \<Rightarrow> nat option option \<Rightarrow> ticket_status option res" where
  "validate_ticket_status s ten v = (case v of None \<Rightarrow> Inr None | Some None \<Rightarrow> Inl (TypeError ''tenant_id'')
     | Some (Some i) \<Rightarrow> (case first_row (\<lambda>x. status_id x = i) (statuses s) of None \<Rightarrow> Inl (ValidationError ''status'')
       | Some x \<Rightarrow> if status_tenant x = ten then Inr (Some x) else Inl (ValidationError ''status'')))"

definition validate_assignee :: "store \<Rightarrow> tenant \<Rightarrow> user_id option option \<Rightarrow> user option res" where
  "validate_assignee s tnt v = (case v of Some (Some i) \<Rightarrow> (case user_row s i of None \<Rightarrow> Inl (ValidationError ''assignee'')
       | Some u \<Rightarrow> if is_active_member s u tnt then Inr (Some u) else Inl (ValidationError ''assignee''))
     | _ \<Rightarrow> Inr None)"

definition validate_ticket :: "caller \<Rightarrow> ticket_body \<Rightarrow> office \<Rightarrow> ticket_rows res" where
  "validate_ticket c b v = (let s = office_base v in
     bind_res (validate_ticket_status s (caller_ten c) (tb_status b)) (\<lambda>st.
     bind_res (related ''queue'' (\<lambda>i. first_row (\<lambda>x. queue_id x = i) (scoped s queue_tenant (queues s))) (tb_queue b)) (\<lambda>q.
     bind_res (related ''contact'' (\<lambda>i. first_row (\<lambda>x. contact_id x = i) (scoped s contact_tenant (contacts s))) (tb_contact b)) (\<lambda>x.
     bind_res (validate_assignee s (caller_tenant c) (tb_assignee b)) (\<lambda>a.
     bind_res (related ''pipeline_stage'' (stage_row v) (tb_stage b)) (\<lambda>stage.
       if tb_subject b = Some [] then Inl (ValidationError ''subject'')
       else Inr \<lparr>tr_status = st, tr_queue = q, tr_contact = x, tr_assignee = a, tr_stage = stage\<rparr>))))))"

text \<open>\<open>setattr\<close> of the fields that are not routed through the services.\<close>

definition set_fields :: "ticket_body \<Rightarrow> ticket_rows \<Rightarrow> ticket \<Rightarrow> ticket" where
  "set_fields b r t = t\<lparr>subject := named (tb_subject b) (subject t), description := named (tb_description b) (description t),
     channel := named (tb_channel b) (channel t), category := named (tb_category b) (category t),
     queue_of := named (tr_queue r) (queue_of t), contact_of := named (tr_contact r) (contact_of t),
     company := named (tb_company b) (company t), due_date := named (tb_due b) (due_date t),
     ticket_stage := named (tr_stage r) (ticket_stage t), won_reason := named (tb_won b) (won_reason t),
     lost_reason := named (tb_lost b) (lost_reason t), tags := named (tb_tags b) (tags t)\<rparr>"

text \<open>The column \<open>custom_data\<close> and the receiver that synchronises the custom fields.\<close>

definition ticket_entity :: "ticket \<Rightarrow> entity" where
  "ticket_entity t = \<lparr>ent_type = TicketCT, ent_id = pk t, ent_tenant = tenant_id (ticket_tenant t), ent_module = TicketModule\<rparr>"

definition at_fields :: "'a catop \<Rightarrow> 'a view" where
  "at_fields c = (\<lambda>v. case c (office_fields v) of (r, k) \<Rightarrow> (r, v\<lparr>office_fields := k\<rparr>))"

definition save_custom_data :: "lexicon \<Rightarrow> ticket_body \<Rightarrow> ticket \<Rightarrow> unit view" where
  "save_custom_data x b t = thenc (update (\<lambda>v. v\<lparr>custom_data_of := (custom_data_of v)(pk t := named (tb_data b) (custom_data_of v (pk t)))\<rparr>))
     (bindc (asks (\<lambda>v. custom_data_of v (pk t))) (\<lambda>data. at_fields (sync_on_save x (ticket_entity t) data)))"

definition default_assignee :: "office \<Rightarrow> queue option \<Rightarrow> user \<Rightarrow> user" where
  "default_assignee v q creator = (case q of None \<Rightarrow> creator
     | Some x \<Rightarrow> if auto_assign v (queue_id x) then (case queue_default_assignee x of None \<Rightarrow> creator
           | Some i \<Rightarrow> (case user_row (office_base v) i of None \<Rightarrow> creator | Some u \<Rightarrow> u))
         else creator)"

text \<open>\<open>TicketCreateSerializer.create\<close>\<close>

definition insert_ticket :: "lexicon \<Rightarrow> caller \<Rightarrow> ticket_body \<Rightarrow> ticket_rows \<Rightarrow> ticket view" where
  "insert_ticket x c b r = bindc (asks (\<lambda>v. case tr_status r of None \<Rightarrow> first_status is_default (office_base v) | Some st \<Rightarrow> Some st)) (\<lambda>chosen.
     case chosen of
       None \<Rightarrow> raise_exc (ValidationError ''status'')
     | Some st \<Rightarrow> bindc (asks (\<lambda>v. case tr_assignee r of Some u \<Rightarrow> u
           | None \<Rightarrow> default_assignee v (case tr_queue r of Some q \<Rightarrow> q | None \<Rightarrow> None) (caller_user c))) (\<lambda>a.
         bindc (at_core new_pk) (\<lambda>i.
         let t = set_fields b r (new_ticket i (caller_tenant c) [] [] (named (tb_priority b) ''medium'') (caller_user c))
         in bindc (at_core (save_ticket None (t\<lparr>status := Some st, assignee := Some a\<rparr>))) (\<lambda>t1.
            thenc (update (\<lambda>v. v\<lparr>custom_data_of := (custom_data_of v)(pk t1 := JObj [])\<rparr>))
            (thenc (save_custom_data x b t1)
            (at_core (initialize_sla t1)))))))"

definition create_action :: "lexicon \<Rightarrow> caller \<Rightarrow> ticket_body \<Rightarrow> ticket view" where
  "create_action x c b = thenc (view_permission c ''create'') (bindc (asks (validate_ticket c b)) (\<lambda>checked. bindc (lift_res checked) (\<lambda>r.
     if tb_subject b = None then raise_exc (ValidationError ''subject'')
     else bindc (asks (\<lambda>v. check_can_create_ticket (office_ledger v) (caller_ten c))) (\<lambda>allowed. thenc (lift_res allowed)
       (bindc (insert_ticket x c b r) (\<lambda>t.
        thenc (at_core (create_ticket_activity t (Some (caller_user c)) (caller_request c))) (ret t)))))))"

text \<open>The three tracked fields of \<open>perform_update\<close>; an assignee of null is not \<open>not None\<close>.\<close>

definition changes_status :: "ticket \<Rightarrow> ticket_rows \<Rightarrow> ticket_status option" where
  "changes_status t r = (case tr_status r of None \<Rightarrow> None
     | Some st \<Rightarrow> if map_option status_id (status t) = Some (status_id st) then None else Some st)"

definition route_status :: "caller \<Rightarrow> ticket_status option \<Rightarrow> ticket \<Rightarrow> ticket op" where
  "route_status c new t = (case new of None \<Rightarrow> ret t | Some st \<Rightarrow> transition_ticket_status t st (Some (caller_user c)) (caller_request c))"

definition route_priority :: "caller \<Rightarrow> string \<Rightarrow> string option \<Rightarrow> ticket \<Rightarrow> ticket op" where
  "route_priority c old new t = (case new of None \<Rightarrow> ret t
     | Some p \<Rightarrow> if p = old then ret t else change_ticket_priority t p (Some (caller_user c)) (caller_request c))"

definition route_assignee :: "caller \<Rightarrow> user option \<Rightarrow> user option \<Rightarrow> ticket \<Rightarrow> ticket op" where
  "route_assignee c old new t = (case new of None \<Rightarrow> ret t
     | Some a \<Rightarrow> if map_option user_id old = Some (user_id a) then ret t
         else assign_ticket t a (Some (caller_user c)) (caller_request c) [])"

definition update_action :: "lexicon \<Rightarrow> caller \<Rightarrow> bool \<Rightarrow> nat \<Rightarrow> ticket_body \<Rightarrow> ticket view" where
  "update_action x c deleted i b = with_ticket c ''update'' deleted i (\<lambda>t.
     bindc (asks (validate_ticket c b)) (\<lambda>checked. bindc (lift_res checked) (\<lambda>r.
     thenc (lift_res (case changes_status t r of None \<Rightarrow> Inr () | Some st \<Rightarrow> validate_status_transition t st))
     (bindc (at_core (save_ticket None (quietly (set_fields b r t)))) (\<lambda>t1.
      thenc (save_custom_data x b t1)
     (bindc (at_core (route_status c (changes_status t r) t1)) (\<lambda>t2.
      bindc (at_core (route_priority c (priority t) (tb_priority b) t2)) (\<lambda>t3.
      at_core (route_assignee c (assignee t) (tr_assignee r) t3)))))))))"

section \<open>Lists\<close>

text \<open>\<open>order_by("-created_at")[:n]\<close>\<close>

definition newest :: "nat \<Rightarrow> ticket list \<Rightarrow> ticket list" where
  "newest n ts = take n (sort_key (\<lambda>t. - created_at t) ts)"

definition list_tickets :: "caller \<Rightarrow> bool \<Rightarrow> desk \<Rightarrow> ticket list" where
  "list_tickets c deleted d = sort_key (\<lambda>t. - created_at t) (visible_tickets d c deleted)"

text \<open>\<open>lookup\<close>: by number, or by a part of the subject or a number with a leading hash.\<close>

definition open_rows :: "desk \<Rightarrow> ticket list" where
  "open_rows d = filter (\<lambda>t. \<not> is_deleted t) (scoped (base d) (\<lambda>t. tenant_id (ticket_tenant t)) (tickets (base d)))"

definition matches_query :: "string \<Rightarrow> ticket \<Rightarrow> bool" where
  "matches_query q t = (let digits = lstrip_by (\<lambda>x. x = CHR ''#'') q
     in contains_sub (lower (subject t)) (lower q) \<or> (digits \<noteq> [] \<and> all_digits digits \<and> number t = nat_of_digits digits))"

definition lookup :: "string \<Rightarrow> string \<Rightarrow> desk \<Rightarrow> ticket list option res" where
  "lookup number_param q d =
     (if number_param \<noteq> [] then (case int_text number_param of None \<Rightarrow> Inl (ValueError ''number'')
          | Some n \<Rightarrow> Inr (Some (newest 50 (filter (\<lambda>t. int (number t) = n) (open_rows d)))))
      else if strip q \<noteq> [] then Inr (Some (newest 50 (filter (matches_query (strip q)) (open_rows d)))) else Inr None)"

text \<open>\<open>search\<close>: the ticket with its linked emails, newest first; an agent sees only what it works on.\<close>

definition search_ticket :: "caller \<Rightarrow> int \<Rightarrow> desk \<Rightarrow> (ticket \<times> inbound_email list) option" where
  "search_ticket c n d = (case newest 1 (filter (\<lambda>t. int (number t) = n) (open_rows d)) of [] \<Rightarrow> None
     | t # _ \<Rightarrow> let linked = filter (\<lambda>m. linked_ticket m = Some (pk t)) (inbound_emails d);
          restricted = (case membership_of d (user_id (caller_user c)) (caller_ten c) of None \<Rightarrow> False | Some m \<Rightarrow> level_of d m > 20);
          works = (same_user (assignee t) (caller_user c) \<or> list_ex (\<lambda>m. same_user (actioned_by m) (caller_user c)) linked)
        in if restricted \<and> \<not> works then None else Some (t, rev linked))"

definition agent_members :: "desk \<Rightarrow> tenant_id \<Rightarrow> user list" where
  "agent_members d ten = filter (\<lambda>u. list_ex (\<lambda>m. user_id (member_user m) = user_id u \<and> member_tenant m = ten \<and> member_active m \<and>
     hierarchy_level (member_role m) \<le> 30) (memberships (base d))) (users (base d))"

definition by_name :: "user list \<Rightarrow> user list" where
  "by_name us = sort_key (\<lambda>u. (first_name u, last_name u)) us"

definition teammates :: "string \<Rightarrow> tenant_id \<Rightarrow> desk \<Rightarrow> user list" where
  "teammates q ten d = take 50 (by_name (filter (\<lambda>u. strip q = [] \<or> contains_sub (lower (email u)) (lower (strip q)) \<or>
     contains_sub (lower (first_name u)) (lower (strip q)) \<or> contains_sub (lower (last_name u)) (lower (strip q))) (agent_members d ten)))"

text \<open>Midnight UTC of the first day of the month, on the proleptic Gregorian calendar.\<close>

definition day_of_month :: "date \<Rightarrow> int" where
  "day_of_month day = (let doe = (day + 306) mod 146097;
       yoe = (doe - doe div 1460 + doe div 36524 - doe div 146096) div 365;
       doy = doe - (365 * yoe + yoe div 4 - yoe div 100)
     in doy - (153 * ((5 * doy + 2) div 153) + 2) div 5)"

definition month_start :: "instant \<Rightarrow> instant" where
  "month_start now = (let day = now div day_us in (day - day_of_month day) * day_us)"

record progress =
  pr_user :: user
  open_tickets :: nat
  closed_this_month :: nat
  total_assigned :: nat

definition team_progress :: "caller \<Rightarrow> desk \<Rightarrow> progress list option" where
  "team_progress c d = (if \<not> is_superuser c \<and> \<not> at_most 20 d (api_of c) then None
     else Some (map (\<lambda>u. let own = filter (\<lambda>t. same_user (assignee t) u \<and> tenant_id (ticket_tenant t) = caller_ten c) (tickets (base d));
           done = filter (\<lambda>t. status_flag is_closed (status t)) own
         in \<lparr>pr_user = u, open_tickets = length (filter (\<lambda>t. case status t of None \<Rightarrow> False | Some st \<Rightarrow> \<not> is_closed st) own),
             closed_this_month = length (filter (\<lambda>t. case closed_at t of None \<Rightarrow> False | Some x \<Rightarrow> month_start (clock (base d)) \<le> x) done),
             total_assigned = length own\<rparr>) (by_name (agent_members d (caller_ten c)))))"

definition ticket_audits :: "ticket \<Rightarrow> store \<Rightarrow> audit_entry list" where
  "ticket_audits t s = sort_key (\<lambda>a. - audit_at a) (filter (\<lambda>a. audit_type a = TicketCT \<and> audit_object a = pk t) (scoped s audit_tenant (audits s)))"

definition ticket_timeline :: "ticket \<Rightarrow> store \<Rightarrow> timeline_entry list" where
  "ticket_timeline t s = sort_key (\<lambda>e. - act_at e) (filter (\<lambda>e. act_ticket e = pk t) (timeline s))"

end
