(* ===== verification/Ticket_Requests.thy ===== *)
theory Ticket_Requests
  imports Ticket_Endpoints Ticket_Lifecycle "HOL-Library.Multiset"
begin

text \<open>
  What the ticket endpoints guarantee: a restricted user changes nothing
  through a ticket out of its view, deletion and restoration are inverse,
  watching is a toggle, the time totals add up.
\<close>

section \<open>Restricted users\<close>

text \<open>A request that names the ticket in its address, or in the list of a bulk action.\<close>

inductive ticket_request :: "caller \<Rightarrow> nat \<Rightarrow> office \<Rightarrow> office \<Rightarrow> bool" for c i where
  req_assign: "ticket_request c i v (snd (assign_action c del i who note v))"
| req_close: "ticket_request c i v (snd (close_action c del i v))"
| req_status: "ticket_request c i v (snd (change_status_action c del i sid v))"
| req_stage: "ticket_request c i v (snd (change_stage_action c del i sid why v))"
| req_escalate: "ticket_request c i v (snd (escalate_action c del i who q why v))"
| req_merge: "ticket_request c i v (snd (merge_action c del i j v))"
| req_split: "ticket_request c i v (snd (split_action c del i ids x v))"
| req_macro: "ticket_request c i v (snd (macro_action c del i m v))"
| req_link: "ticket_request c i v (snd (create_link_action c del i j kind v))"
| req_unlink: "ticket_request c i v (snd (delete_link_action c del i key v))"
| req_email: "ticket_request c i v (snd (send_email_action c del i to subj body v))"
| req_confirm: "ticket_request c i v (snd (send_creation_email_action c del i v))"
| req_link_email: "ticket_request c i v (snd (link_email_action c del i e v))"
| req_watcher: "ticket_request c i v (snd (add_watcher_action c del i u v))"
| req_unwatch: "ticket_request c i v (snd (remove_watcher_action c del i u v))"
| req_watch: "ticket_request c i v (snd (watch_action c del i v))"
| req_read: "ticket_request c i v (snd (mark_all_read_action c del i v))"
| req_time: "ticket_request c i v (snd (log_time_action c del i n note b v))"
| req_entry: "ticket_request c i v (snd (time_entry_action c del i j ch v))"
| req_destroy: "ticket_request c i v (snd (destroy_action c del i v))"
| req_restore: "ticket_request c i v (snd (restore_action c i v))"
| req_update: "ticket_request c i v (snd (update_action x c del i body v))"
| req_bulk: "i \<in> set ids \<Longrightarrow> ticket_request c i v (snd (bulk_endpoint c del act ids v))"

definition hidden_ticket :: "caller \<Rightarrow> nat \<Rightarrow> office \<Rightarrow> bool" where
  "hidden_ticket c i v \<longleftrightarrow> (\<forall>del. i \<notin> pk ` set (visible_tickets (office_desk v) c del))"

lemma hidden_fetch: "hidden_ticket c i v \<Longrightarrow> fetch_ticket c del i v = (Inl (DoesNotExist ''Ticket''), v)"
proof -
  assume "hidden_ticket c i v"
  then have "first_row (\<lambda>t. pk t = i) (visible_tickets (office_desk v) c del) = None"
    by (auto simp: hidden_ticket_def first_row_eq_None)
  then show ?thesis by (simp add: fetch_ticket_def cmd_simps)
qed

lemma permission_pure: "snd (view_permission c a v) = v"
  by (simp add: view_permission_def cmd_simps)

lemma permission_then: "snd (cmd v) = v \<Longrightarrow> snd (thenc (view_permission c a) cmd v) = v"
  using permission_pure [of c a v] by (auto simp: cmd_simps split: prod.splits sum.splits)

lemma hidden_with: "hidden_ticket c i v \<Longrightarrow> snd (with_ticket c a del i h v) = v"
  unfolding with_ticket_def by (rule permission_then) (simp add: cmd_simps hidden_fetch)

lemma hidden_managed: "hidden_ticket c i v \<Longrightarrow> snd (thenc (view_permission c a) (manager_gate c (bindc (fetch_ticket c del i) h)) v) = v"
  by (rule permission_then) (simp add: manager_gate_def cmd_simps hidden_fetch)

lemma visible_filtered: "\<exists>p. visible_tickets d c del = filter p (tickets (base d))"
proof (cases "current_tenant (base d)")
  case None
  then have "visible_tickets d c del = filter (\<lambda>_. False) (tickets (base d))"
    by (simp add: visible_tickets_def Let_def scoped_def agent_visible_tickets_def)
  then show ?thesis by blast
qed (auto simp: visible_tickets_def Let_def scoped_def agent_visible_tickets_def filter_filter)

lemma short_selection:
  assumes "distinct (map f xs)" and "i \<in> set ids" and "\<forall>x \<in> set xs. f x \<noteq> i"
  shows "length (filter (\<lambda>x. f x \<in> set ids) xs) < length ids"
proof -
  let ?ys = "filter (\<lambda>x. f x \<in> set ids) xs"
  have "distinct (map f ?ys)" using assms(1) by (simp add: distinct_map inj_on_subset [of f "set xs"] subset_iff)
  then have "length ?ys = card (set (map f ?ys))" by (metis distinct_card length_map)
  also have "\<dots> \<le> card (set ids - {i})" using assms(3) by (intro card_mono) auto
  also have "\<dots> < card (set ids)" using assms(2) by (intro psubset_card_mono) auto
  also have "\<dots> \<le> length ids" by (rule card_length)
  finally show ?thesis .
qed

lemma hidden_bulk:
  assumes "hidden_ticket c i v" and "i \<in> set ids" and "distinct (map pk (tickets (office_base v)))"
  shows "snd (bulk_endpoint c del act ids v) = v"
proof -
  let ?vis = "visible_tickets (office_desk v) c del"
  obtain p where vis: "?vis = filter p (tickets (office_base v))" using visible_filtered by blast
  have "distinct (map pk ?vis)" using assms(3) by (simp add: vis distinct_map inj_on_subset [of pk "set (tickets (office_base v))"] subset_iff)
  moreover have "\<forall>t \<in> set ?vis. pk t \<noteq> i" using assms(1) by (auto simp: hidden_ticket_def)
  ultimately have "length (filter (\<lambda>t. pk t \<in> set ids) ?vis) \<noteq> length ids"
    using short_selection [of pk ?vis i ids] assms(2) by simp
  then show ?thesis unfolding bulk_endpoint_def
    by (intro permission_then) (simp add: cmd_simps split: option.split)
qed

lemma hidden_unchanged:
  assumes "ticket_request c i v v'" and "hidden_ticket c i v" and "distinct (map pk (tickets (office_base v)))"
  shows "v' = v"
  using assms(1) by (cases rule: ticket_request.cases)
    (simp_all add: hidden_with hidden_managed hidden_bulk [OF assms(2) _ assms(3)] assms(2) assign_action_def close_action_def change_status_action_def
      change_stage_action_def escalate_action_def merge_action_def split_action_def macro_action_def create_link_action_def
      delete_link_action_def send_email_action_def send_creation_email_action_def link_email_action_def add_watcher_action_def
      remove_watcher_action_def watch_action_def mark_all_read_action_def log_time_action_def time_entry_action_def
      destroy_action_def restore_action_def update_action_def)

lemma unseen_hidden:
  assumes "restricted_caller (office_desk v) c" and "distinct (map pk (tickets (office_base v)))"
    and "t \<in> set (tickets (office_base v))" and "\<not> agent_can_see_ticket (caller_user c) t"
  shows "hidden_ticket c (pk t) v"
proof -
  have "\<not> agent_can_see_ticket (caller_user c) x" if "x \<in> set (tickets (office_base v))" "pk x = pk t" for x
    using that assms by (metis distinct_map inj_on_eq_iff)
  then have "pk t \<notin> pk ` set (visible_tickets (office_desk v) c del)" for del
    using assms(1) by (cases "current_tenant (office_base v)")
      (auto simp: visible_tickets_def Let_def scoped_def agent_visible_tickets_def agent_can_see_ticket_def split: option.splits)
  then show ?thesis by (simp add: hidden_ticket_def)
qed



section \<open>Deletion and restoration\<close>

text \<open>Writing the deletion columns, seen through the columns a save does not touch.\<close>

definition deletion_columns :: "tcol list" where
  "deletion_columns = [CIsDeleted, CDeletedAt, CDeletedBy, CUpdatedAt]"

definition marked :: "bool \<Rightarrow> instant option \<Rightarrow> user option \<Rightarrow> ticket \<Rightarrow> ticket" where
  "marked b time who r = r\<lparr>is_deleted := b, deleted_at := time, deleted_by := who\<rparr>"

definition marks_of :: "ticket \<Rightarrow> bool \<times> instant option \<times> user option" where
  "marks_of t = (is_deleted t, deleted_at t, deleted_by t)"

lemma marks_firm: "marks_of (firm t) = marks_of t"
  by (simp add: marks_of_def firm_def core_def)

lemma core_deletion: "core (write_columns deletion_columns x r) = marked (is_deleted x) (deleted_at x) (deleted_by x) (core r)"
  by (simp add: core_def write_columns_def deletion_columns_def pick_def marked_def)

lemma save_deletion:
  assumes run: "save_ticket (Some deletion_columns) t s = (Inr t', s')" and num: "number t \<noteq> 0"
  shows "map core (tickets s') = map (\<lambda>r. if pk r = pk t then marked (is_deleted t) (deleted_at t) (deleted_by t) (core r) else core r) (tickets s)"
    and "clock s' = clock s"
proof -
  let ?x = "handle_ticket_status_change s (fill_company s t)"
  have "marks_of ?x = marks_of t" using marks_firm [of ?x] marks_firm [of t] by simp
  then have "marked (is_deleted ?x) (deleted_at ?x) (deleted_by ?x) = marked (is_deleted t) (deleted_at t) (deleted_by t)"
    by (simp add: marks_of_def)
  moreover have "map core (tickets (write_ticket (pk t) deletion_columns ?x s)) =
      map (\<lambda>r. if pk r = pk t then marked (is_deleted ?x) (deleted_at ?x) (deleted_by ?x) (core r) else core r) (tickets s)"
    by (auto simp: write_ticket_def core_deletion)
  ultimately show "map core (tickets s') = map (\<lambda>r. if pk r = pk t then marked (is_deleted t) (deleted_at t) (deleted_by t) (core r) else core r) (tickets s)"
    using save_rows(2) [OF run num] by simp
  show "clock s' = clock s" using save_rows(3) [OF run num] .
qed

lemma fetched:
  assumes "fetch_ticket c del i v = (r, v')"
  shows "v' = v" and "r = Inr t \<Longrightarrow> t \<in> set (tickets (office_base v)) \<and> pk t = i"
proof -
  show "v' = v" using assms by (auto simp: fetch_ticket_def cmd_simps split: option.splits if_splits)
  obtain p where vis: "visible_tickets (office_desk v) c del = filter p (tickets (office_base v))" using visible_filtered by blast
  assume "r = Inr t"
  with assms have "first_row (\<lambda>t. pk t = i) (visible_tickets (office_desk v) c del) = Some t"
    by (auto simp: fetch_ticket_def cmd_simps split: option.splits if_splits)
  then show "t \<in> set (tickets (office_base v)) \<and> pk t = i" by (auto simp: vis dest: first_row_SomeD)
qed

lemma with_ticket_returns:
  assumes "with_ticket c a del i h v = (Inr x, v')"
  obtains t where "t \<in> set (tickets (office_base v))" "pk t = i" "h t v = (Inr x, v')"
proof -
  obtain v0 t v1 where perm: "view_permission c a v = (Inr (), v0)" and fetch: "fetch_ticket c del i v0 = (Inr t, v1)" and run: "h t v1 = (Inr x, v')"
    using assms unfolding with_ticket_def by (auto simp: returns)
  have "v0 = v" using permission_pure [of c a v] perm by simp
  moreover have "v1 = v0" "t \<in> set (tickets (office_base v0)) \<and> pk t = i" using fetched [OF fetch] by blast+
  ultimately show thesis using that run by blast
qed

lemma core_returns: "at_core cmd v = (Inr x, v') \<longleftrightarrow> (\<exists>s'. cmd (office_base v) = (Inr x, s') \<and>
    v' = v\<lparr>office_forum := (office_forum v)\<lparr>forum_desk := (office_desk v)\<lparr>base := s'\<rparr>\<rparr>\<rparr>)"
  by (cases "cmd (office_base v)") (auto simp: cmd_simps)

lemma destroyed:
  assumes "destroy_action c del i v = (Inr (), v')"
  obtains t where "t \<in> set (tickets (office_base v))" "pk t = i" "number t \<noteq> 0 \<Longrightarrow> map core (tickets (office_base v')) =
    map (\<lambda>r. if pk r = i then marked True (Some (clock (office_base v))) (Some (caller_user c)) (core r) else core r) (tickets (office_base v))"
proof -
  let ?s = "office_base v"
  obtain t where t: "t \<in> set (tickets ?s)" "pk t = i"
      and run: "at_core (atomic (bindc timezone_now (\<lambda>now. bindc (save_ticket (Some [CIsDeleted, CDeletedAt, CDeletedBy, CUpdatedAt])
       (quietly (t\<lparr>is_deleted := True, deleted_at := Some now, deleted_by := Some (caller_user c)\<rparr>))) (\<lambda>t'.
     log_activity (ticket_tenant t') (Some (caller_user c)) TicketCT (pk t') ADeleted (JObj []) (caller_request c))))) v = (Inr (), v')"
    using with_ticket_returns [OF assms [unfolded destroy_action_def]] by blast
  let ?t = "quietly (t\<lparr>is_deleted := True, deleted_at := Some (clock ?s), deleted_by := Some (caller_user c)\<rparr>)"
  obtain s' t' s1 where v': "v' = v\<lparr>office_forum := (office_forum v)\<lparr>forum_desk := (office_desk v)\<lparr>base := s'\<rparr>\<rparr>\<rparr>"
      and save: "save_ticket (Some deletion_columns) ?t ?s = (Inr t', s1)"
      and log: "log_activity (ticket_tenant t') (Some (caller_user c)) TicketCT (pk t') ADeleted (JObj []) (caller_request c) s1 = (Inr (), s')"
    using run by (auto simp: core_returns returns timezone_now_def deletion_columns_def)
  have tickets: "tickets (office_base v') = tickets s1" using log by (auto simp: v' log_activity_def update_returns)
  have "map core (tickets (office_base v')) =
      map (\<lambda>r. if pk r = i then marked True (Some (clock ?s)) (Some (caller_user c)) (core r) else core r) (tickets ?s)" if "number t \<noteq> 0"
    using save_deletion(1) [OF save] that t(2) by (simp add: tickets quietly_def)
  with t show thesis by (rule that)
qed

lemma restored:
  assumes "restore_action c i v = (Inr (Response 200 []), v')"
  obtains t where "t \<in> set (tickets (office_base v))" "pk t = i" "number t \<noteq> 0 \<Longrightarrow> map core (tickets (office_base v')) =
    map (\<lambda>r. if pk r = i then marked False None None (core r) else core r) (tickets (office_base v))"
proof -
  let ?s = "office_base v"
  obtain t where t: "t \<in> set (tickets ?s)" "pk t = i"
      and run: "(if \<not> is_deleted t then ret (Response 400 ''Ticket is not deleted.'')
     else bindc (at_core (save_ticket (Some [CIsDeleted, CDeletedAt, CDeletedBy, CUpdatedAt])
       (t\<lparr>is_deleted := False, deleted_at := None, deleted_by := None\<rparr>))) (\<lambda>_. ret (Response 200 []))) v = (Inr (Response 200 []), v')"
    using with_ticket_returns [OF assms [unfolded restore_action_def]] by blast
  have "is_deleted t" using run by (auto simp: ret_returns split: if_splits)
  with run have "bindc (at_core (save_ticket (Some [CIsDeleted, CDeletedAt, CDeletedBy, CUpdatedAt])
       (t\<lparr>is_deleted := False, deleted_at := None, deleted_by := None\<rparr>))) (\<lambda>_. ret (Response 200 [])) v = (Inr (Response 200 []), v')" by simp
  then obtain t' s' where save: "save_ticket (Some deletion_columns) (t\<lparr>is_deleted := False, deleted_at := None, deleted_by := None\<rparr>) ?s = (Inr t', s')"
      and v': "v' = v\<lparr>office_forum := (office_forum v)\<lparr>forum_desk := (office_desk v)\<lparr>base := s'\<rparr>\<rparr>\<rparr>"
    unfolding bind_returns core_returns ret_returns deletion_columns_def by blast
  have "map core (tickets (office_base v')) = map (\<lambda>r. if pk r = i then marked False None None (core r) else core r) (tickets ?s)" if "number t \<noteq> 0"
    using save_deletion(1) [OF save] that t(2) by (simp add: v')
  with t show thesis by (rule that)
qed

lemma office_core_fields [simp]: "number (core t) = number t" "is_deleted (core t) = is_deleted t" "deleted_at (core t) = deleted_at t"
    "deleted_by (core t) = deleted_by t"
  by (simp_all add: core_def)

text \<open>
  A ticket that is deleted through its endpoint and restored through the
  other is the ticket it was: of every stored ticket all columns are back but
  the time of the last write and the SLA columns, which the comparison leaves out.
\<close>

theorem delete_restore_roundtrip:
  assumes gone: "destroy_action c False i v = (Inr (), v1)" and undone: "restore_action c2 i v1 = (Inr (Response 200 []), v2)"
    and numbered: "list_all (\<lambda>t. number t \<noteq> 0) (tickets (office_base v))"
    and live: "list_all (\<lambda>t. pk t \<noteq> i \<or> (\<not> is_deleted t \<and> deleted_at t = None \<and> deleted_by t = None)) (tickets (office_base v))"
  shows "map core (tickets (office_base v2)) = map core (tickets (office_base v))"
proof -
  let ?d = "\<lambda>r. if pk r = i then marked True (Some (clock (office_base v))) (Some (caller_user c)) (core r) else core r"
  let ?u = "\<lambda>r. if pk r = i then marked False None None r else r"
  from destroyed [OF gone] numbered have first: "map core (tickets (office_base v1)) = map ?d (tickets (office_base v))"
    by (auto simp: list_all_iff)
  have numbers: "number t \<noteq> 0" if "t \<in> set (tickets (office_base v1))" for t
  proof -
    have "core t \<in> ?d ` set (tickets (office_base v))" using that first by (metis image_eqI set_map)
    then obtain r where "r \<in> set (tickets (office_base v))" "core t = ?d r" by blast
    then have "number (core t) = number (core r)" by (simp add: marked_def split: if_splits)
    with \<open>r \<in> _\<close> numbered show ?thesis by (simp add: list_all_iff)
  qed
  have "map core (tickets (office_base v2)) = map (\<lambda>r. if pk r = i then marked False None None (core r) else core r) (tickets (office_base v1))"
    by (rule restored [OF undone]) (use numbers in blast)
  then have "map core (tickets (office_base v2)) = map ?u (map core (tickets (office_base v1)))"
    by (simp only: map_map comp_def pk_core)
  also have "\<dots> = map (\<lambda>r. ?u (?d r)) (tickets (office_base v))" by (simp only: first map_map comp_def)
  also have "\<dots> = map core (tickets (office_base v))"
  proof (rule map_cong [OF refl])
    fix r assume "r \<in> set (tickets (office_base v))"
    then have "pk r = i \<Longrightarrow> is_deleted r = False \<and> deleted_at r = None \<and> deleted_by r = None" using live by (auto simp: list_all_iff)
    then show "?u (?d r) = core r" by (auto simp: marked_def core_def)
  qed
  finally show ?thesis .
qed


section \<open>Watching and time\<close>

text \<open>Watching twice leaves a user who did not watch the ticket not watching, and all rows as they were.\<close>

lemma watch_twice:
  assumes "fetch_ticket c del i v = (Inr t, v)" "view_permission c ''watch'' v = (Inr (), v)"
    and "fetch_ticket c del i (v\<lparr>watch_rows := w\<rparr>) = (Inr t, v\<lparr>watch_rows := w\<rparr>)"
      "view_permission c ''watch'' (v\<lparr>watch_rows := w\<rparr>) = (Inr (), v\<lparr>watch_rows := w\<rparr>)"
    and "\<not> list_ex (watches (pk t) (user_id (caller_user c))) (watch_rows v)"
    and w: "w = watch_rows (snd (watch_action c del i v))"
  shows "fst (watch_action c del i v) = Inr True" "watch_action c del i (v\<lparr>watch_rows := w\<rparr>) = (Inr False, v)"
proof -
  let ?w = "\<lparr>w_ticket = pk t, w_user = user_id (caller_user c), w_tenant = tenant_id (ticket_tenant t), w_at = clock (office_base v)\<rparr>"
  have run: "watch_action c del i v = (Inr True, v\<lparr>watch_rows := watch_rows v @ [?w]\<rparr>)"
    using assms(1,2,5) by (simp add: watch_action_def with_ticket_def cmd_simps Let_def add_watcher_def)
  then show "fst (watch_action c del i v) = Inr True" by simp
  have w': "w = watch_rows v @ [?w]" using run w by simp
  have "filter (\<lambda>x. \<not> watches (pk t) (user_id (caller_user c)) x) w = watch_rows v"
    using assms(5) by (auto simp: w' watches_def list_ex_iff filter_id_conv)
  moreover have "list_ex (watches (pk t) (user_id (caller_user c))) w" by (simp add: w' watches_def)
  ultimately show "watch_action c del i (v\<lparr>watch_rows := w\<rparr>) = (Inr False, v)"
    using assms(3,4) by (simp add: watch_action_def with_ticket_def cmd_simps Let_def drop_watcher_def)
qed

text \<open>The minutes of the users add up to the total, the entries to the count.\<close>

lemma sum_by_user:
  "set (map te_user es) \<subseteq> set us \<Longrightarrow> distinct us \<Longrightarrow>
   sum_list (map (\<lambda>u. total_minutes (filter (\<lambda>e. te_user e = u) es)) us) = total_minutes es"
proof (induction us arbitrary: es)
  case Nil
  then show ?case by (simp add: total_minutes_def)
next
  case (Cons u us)
  let ?rest = "filter (\<lambda>e. te_user e \<noteq> u) es"
  have "filter (\<lambda>e. te_user e = x) ?rest = filter (\<lambda>e. te_user e = x) es" if "x \<in> set us" for x
    using that Cons.prems(2) by (auto intro: filter_cong)
  then have "sum_list (map (\<lambda>x. total_minutes (filter (\<lambda>e. te_user e = x) es)) us) = total_minutes ?rest"
    using Cons.IH [of ?rest] Cons.prems by (auto cong: map_cong)
  moreover have "total_minutes (filter (\<lambda>e. te_user e = u) es) + total_minutes ?rest = total_minutes es"
    by (induction es) (simp_all add: total_minutes_def)
  ultimately show ?case by simp
qed

lemma time_summary_adds_up:
  "sum_list (map (\<lambda>(u, m, n). m) (by_user (time_summary t v))) = all_minutes (time_summary t v)"
proof -
  let ?es = "ticket_entries t v"
  let ?rows = "map (\<lambda>u. let own = filter (\<lambda>e. te_user e = u) ?es in (u, total_minutes own, length own)) (remdups (map te_user ?es))"
  have perm: "sum_list (map f (sort_key k xs)) = sum_list (map f xs)" for f :: "'x \<Rightarrow> int" and k :: "'x \<Rightarrow> int" and xs
    by (metis mset_map mset_sort sum_mset_sum_list)
  have "sum_list (map (\<lambda>(u, m, n). m) (by_user (time_summary t v))) = sum_list (map (\<lambda>(u, m, n). m) ?rows)"
    by (simp add: time_summary_def Let_def perm)
  also have "\<dots> = sum_list (map (\<lambda>u. total_minutes (filter (\<lambda>e. te_user e = u) ?es)) (remdups (map te_user ?es)))"
    by (simp add: Let_def comp_def)
  also have "\<dots> = total_minutes ?es" by (rule sum_by_user) simp_all
  also have "\<dots> = all_minutes (time_summary t v)" by (simp add: time_summary_def Let_def)
  finally show ?thesis .
qed

section \<open>What the bodies do\<close>

text \<open>An assignee of null is ignored: the update cannot take a ticket from its assignee.\<close>

lemma null_assignee_ignored:
  "update_action x c del i (b\<lparr>tb_assignee := Some None\<rparr>) = update_action x c del i (b\<lparr>tb_assignee := None\<rparr>)"
proof -
  have "validate_ticket c (b\<lparr>tb_assignee := Some None\<rparr>) = validate_ticket c (b\<lparr>tb_assignee := None\<rparr>)"
    by (simp add: fun_eq_iff validate_ticket_def Let_def validate_assignee_def)
  moreover have "set_fields (b\<lparr>tb_assignee := q\<rparr>) = set_fields b" "save_custom_data x (b\<lparr>tb_assignee := q\<rparr>) = save_custom_data x b" for q
    by (simp_all add: fun_eq_iff set_fields_def save_custom_data_def)
  ultimately show ?thesis by (simp add: update_action_def)
qed

text \<open>A status of null is no validation error: reading its tenant fails.\<close>

lemma null_status_fails: "tb_status b = Some None \<Longrightarrow> validate_ticket c b v = Inl (TypeError ''tenant_id'')"
  by (simp add: validate_ticket_def Let_def validate_ticket_status_def)

text \<open>The counter that the limit of tickets per month reads is never raised by a creation.\<close>

definition books_kept :: "office \<Rightarrow> office \<Rightarrow> bool" where
  "books_kept v v' \<longleftrightarrow> office_ledger v' = office_ledger v"

interpretation books: step_law books_kept
  by unfold_locales (simp_all add: books_kept_def)

lemma books_parts: "obeys books_kept (at_core cmd)" "obeys books_kept (at_fields cmd')"
  by (simp_all add: obeys_def books_kept_def cmd_simps at_fields_def split: prod.split)

lemma books_data: "obeys books_kept (update (\<lambda>v. v\<lparr>custom_data_of := f v\<rparr>))"
  by (rule books.obeys_update) (simp add: books_kept_def)

lemma books_create: "obeys books_kept (create_action x c b)"
  unfolding create_action_def view_permission_def insert_ticket_def save_custom_data_def Let_def
  by (intro books.obeys_rules books_parts books_data)

lemma creation_not_counted: "office_ledger (snd (create_action x c b v)) = office_ledger v"
  using books_create by (simp add: obeys_def books_kept_def)

section \<open>A demonstration\<close>

definition demo_office :: "nat \<Rightarrow> office" where
  "demo_office level = \<lparr>office_forum = demo_forum\<lparr>forum_desk := demo_desk\<lparr>base := demo_store\<lparr>
        memberships := [demo_member (demo_user\<lparr>user_id := 8\<rparr>) (demo_role 1 ''role'' level [])]\<rparr>\<rparr>\<rparr>,
     office_ledger = \<lparr>plans = [], subscriptions = [], invoices = [], usages = [], processed = [], next_key = 1\<rparr>,
     office_fields = \<lparr>field_definitions = [], field_values = []\<rparr>, watch_rows = [], time_rows = [], macros = [], stage_rows = [],
     auto_assign = (\<lambda>_. False), custom_data_of = (\<lambda>_. JNull), mail_jobs = []\<rparr>"

definition other_caller :: caller where
  "other_caller = demo_caller\<lparr>caller_user := demo_user\<lparr>user_id := 8\<rparr>\<rparr>"


definition demo_gone :: office where
  "demo_gone = snd (destroy_action other_caller False 10 (demo_office 20))"

definition demo_back :: office where
  "demo_back = snd (restore_action other_caller 10 demo_gone)"

theorem delete_restore_roundtrip_witness:
  "map is_deleted (tickets (office_base demo_gone)) = [True] \<and> map is_deleted (tickets (office_base demo_back)) = [False] \<and>
   map core (tickets (office_base demo_back)) = map core (tickets (office_base (demo_office 20)))"
proof -
  have "fst (destroy_action other_caller False 10 (demo_office 20)) = Inr ()" by code_simp
  then have gone: "destroy_action other_caller False 10 (demo_office 20) = (Inr (), demo_gone)" by (simp add: demo_gone_def prod_eq_iff)
  have "fst (restore_action other_caller 10 demo_gone) = Inr (Response 200 [])" unfolding demo_gone_def by code_simp
  then have undone: "restore_action other_caller 10 demo_gone = (Inr (Response 200 []), demo_back)" by (simp add: demo_back_def prod_eq_iff)
  have rows: "list_all (\<lambda>t. number t \<noteq> 0) (tickets (office_base (demo_office 20)))"
      "list_all (\<lambda>t. pk t \<noteq> 10 \<or> (\<not> is_deleted t \<and> deleted_at t = None \<and> deleted_by t = None)) (tickets (office_base (demo_office 20)))"
    by code_simp+
  have "map is_deleted (tickets (office_base demo_gone)) = [True]" "map is_deleted (tickets (office_base demo_back)) = [False]"
    unfolding demo_back_def demo_gone_def by code_simp+
  with delete_restore_roundtrip [OF gone undone rows] show ?thesis by blast
qed

end
