(* ===== verification/Api_Keys.thy ===== *)
theory Api_Keys
  imports Access
begin

text \<open>
  The API keys of a tenant (\<open>apps/api_keys\<close>): minting, regenerating and revoking
  a key (\<open>services.py\<close>), the authentication of a request by its
  \<open>Authorization\<close> header (\<open>authentication.py\<close>), the bucket and the headers of the
  throttle (\<open>throttling.py\<close>, \<open>middleware.py\<close>), the body and the endpoints
  (\<open>serializers.py\<close>, \<open>views.py\<close>) and the mail that announces a key
  (\<open>tasks.py\<close>).  The digest \<open>sha512\<close> is a parameter of the operations that hash; the
  random secret and the random identifier of a mint are arguments.
\<close>

section \<open>Rows\<close>

record api_key =
  key_id :: nat
  key_tenant :: tenant
  key_name :: string
  key_user :: user
  key_role :: role
  key_prefix :: string
  hashed_key :: string
  key_creator :: user
  key_active :: bool
  key_expires :: "instant option"
  last_used_at :: "instant option"
  last_used_ip :: "string option"
  last_used_user_agent :: string
  request_count :: nat

definition masked_prefix :: "api_key \<Rightarrow> string" where
  "masked_prefix k = key_prefix k @ [CHR 0xE2, CHR 0x80, CHR 0xA6] @ drop (length (hashed_key k) - 4) (hashed_key k)"

datatype key_action = ApiKeyCreated | ApiKeyRegenerated | ApiKeyRevoked

record key_log =
  klog_tenant :: tenant_id
  klog_actor :: user
  klog_action :: key_action
  klog_key :: nat
  klog_changes :: "(string \<times> string) list"

text \<open>
  The tables of the keys beside the desk: the keys, newest first, the service users
  that are inactive, their audit rows, and the mails queued for the admin who
  minted a key.
\<close>

record vault =
  vault_desk :: desk
  api_keys :: "api_key list"
  inactive_users :: "user_id list"
  key_logs :: "key_log list"
  key_mails :: "(nat \<times> string) list"

type_synonym 'a vaultop = "(vault, 'a) cmd"

abbreviation vault_base :: "vault \<Rightarrow> store" where
  "vault_base v \<equiv> base (vault_desk v)"

definition in_vault :: "'a act \<Rightarrow> 'a vaultop" where
  "in_vault c = (\<lambda>v. case c (vault_desk v) of (r, d') \<Rightarrow> (r, v\<lparr>vault_desk := d'\<rparr>))"

lemma run_in_vault [cmd_simps]: "in_vault c v = (fst (c (vault_desk v)), v\<lparr>vault_desk := snd (c (vault_desk v))\<rparr>)"
  by (simp add: in_vault_def split: prod.split)

definition vault_rollback :: "vault \<Rightarrow> vault \<Rightarrow> vault" where
  "vault_rollback v v' = v\<lparr>vault_desk := desk_rollback (vault_desk v) (vault_desk v')\<rparr>"

abbreviation vault_atomic :: "'a vaultop \<Rightarrow> 'a vaultop" where
  "vault_atomic \<equiv> atomic_on vault_rollback"

section \<open>Minting, regenerating, revoking (\<open>services.py\<close>)\<close>

definition generate_cleartext :: "tenant \<Rightarrow> string \<Rightarrow> string" where
  "generate_cleartext ten token = ''kz_live_'' @ take 6 (tenant_slug ten) @ ''_'' @ token"

definition write_activity_log :: "api_key \<Rightarrow> user \<Rightarrow> key_action \<Rightarrow> (string \<times> string) list \<Rightarrow> unit vaultop" where
  "write_activity_log k actor kind metadata = update (\<lambda>v. v\<lparr>key_logs := key_logs v @
     [\<lparr>klog_tenant = tenant_id (key_tenant k), klog_actor = actor, klog_action = kind, klog_key = key_id k,
       klog_changes = metadata\<rparr>]\<rparr>)"

definition service_email :: "tenant \<Rightarrow> string \<Rightarrow> string" where
  "service_email ten uuid = ''service+'' @ uuid @ ''@svc.'' @ tenant_slug ten @ ''.crm.local''"

definition create_service_user :: "tenant \<Rightarrow> string \<Rightarrow> string \<Rightarrow> user act" where
  "create_service_user ten name uuid =
     bindc (asks (\<lambda>d. list_ex (\<lambda>u. email u = service_email ten uuid) (users (base d)))) (\<lambda>taken.
     if taken then raise_exc (DatabaseError ''email'')
     else bindc fresh_pk (\<lambda>i.
       let u = \<lparr>user_id = i, first_name = take 30 name, last_name = ''(Service Account)'', email = service_email ten uuid\<rparr>
       in thenc (update (\<lambda>d. d\<lparr>base := (base d)\<lparr>users := u # users (base d)\<rparr>\<rparr>)) (ret u)))"

definition get_or_create_membership :: "user \<Rightarrow> tenant \<Rightarrow> role \<Rightarrow> unit act" where
  "get_or_create_membership u ten r =
     bindc (asks (\<lambda>d. list_ex (\<lambda>m. user_id (member_user m) = user_id u \<and> member_tenant m = tenant_id ten) (memberships (base d)))) (\<lambda>found.
     whenc (\<not> found)
       (let m = \<lparr>member_user = u, member_tenant = tenant_id ten, member_role = r, member_active = True, temporary_role = None,
                 temporary_role_expires_at = None, temporary_codenames = []\<rparr>
        in thenc (update (\<lambda>d. d\<lparr>base := (base d)\<lparr>memberships := m # memberships (base d)\<rparr>\<rparr>))
             (bindc (asks (\<lambda>d. membership_event d m)) (broadcast_live_event (tenant_id ten) ''membership.created''))))"

text \<open>\<open>APIKey.objects.create\<close>; the pair of tenant and name is unique.\<close>

definition insert_key :: "api_key \<Rightarrow> unit vaultop" where
  "insert_key k = bindc (asks (\<lambda>v. list_ex (\<lambda>x. tenant_id (key_tenant x) = tenant_id (key_tenant k) \<and> key_name x = key_name k) (api_keys v))) (\<lambda>taken.
     if taken then raise_exc (DatabaseError ''unique_together'') else update (\<lambda>v. v\<lparr>api_keys := k # api_keys v\<rparr>))"

definition create_api_key :: "(string \<Rightarrow> string) \<Rightarrow> tenant \<Rightarrow> string \<Rightarrow> role \<Rightarrow> user \<Rightarrow> instant option \<Rightarrow> string \<Rightarrow> string \<Rightarrow> (api_key \<times> string) vaultop" where
  "create_api_key sha512 ten name r creator expiry token uuid =
     bindc (vault_atomic (
       let cleartext = generate_cleartext ten token
       in bindc (in_vault (create_service_user ten name uuid)) (\<lambda>u.
          thenc (in_vault (get_or_create_membership u ten r))
          (bindc (in_vault fresh_pk) (\<lambda>i.
            let k = \<lparr>key_id = i, key_tenant = ten, key_name = name, key_user = u, key_role = r, key_prefix = take 20 cleartext,
                     hashed_key = sha512 cleartext, key_creator = creator, key_active = True, key_expires = expiry,
                     last_used_at = None, last_used_ip = None, last_used_user_agent = [], request_count = 0\<rparr>
            in thenc (insert_key k)
              (thenc (write_activity_log k creator ApiKeyCreated [(''name'', name), (''role_slug'', role_slug r)])
                (ret (k, cleartext)))))))) (\<lambda>(k, cleartext).
     thenc (update (\<lambda>v. v\<lparr>key_mails := key_mails v @ [(key_id k, email creator)]\<rparr>)) (ret (k, cleartext)))"

text \<open>\<open>save(update_fields=...)\<close> writes the two columns of the row.\<close>

definition rotate_columns :: "nat \<Rightarrow> string \<Rightarrow> string \<Rightarrow> unit vaultop" where
  "rotate_columns i prefix digest = update (\<lambda>v. v\<lparr>api_keys := map (\<lambda>k. if key_id k = i then
     k\<lparr>key_prefix := prefix, hashed_key := digest\<rparr> else k) (api_keys v)\<rparr>)"

definition regenerate_api_key :: "(string \<Rightarrow> string) \<Rightarrow> api_key \<Rightarrow> user \<Rightarrow> string \<Rightarrow> string vaultop" where
  "regenerate_api_key sha512 k actor token = vault_atomic (
     let cleartext = generate_cleartext (key_tenant k) token
     in thenc (rotate_columns (key_id k) (take 20 cleartext) (sha512 cleartext))
        (thenc (write_activity_log k actor ApiKeyRegenerated [(''name'', key_name k)]) (ret cleartext)))"

definition service_active :: "vault \<Rightarrow> user \<Rightarrow> bool" where
  "service_active v u \<longleftrightarrow> user_id u \<notin> set (inactive_users v)"

definition deactivate_memberships :: "user \<Rightarrow> tenant_id \<Rightarrow> unit act" where
  "deactivate_memberships u ten = update (\<lambda>d. d\<lparr>base := (base d)\<lparr>memberships := map (\<lambda>m.
     if user_id (member_user m) = user_id u \<and> member_tenant m = ten then m\<lparr>member_active := False\<rparr> else m) (memberships (base d))\<rparr>\<rparr>)"

definition revoke_api_key :: "api_key \<Rightarrow> user \<Rightarrow> unit vaultop" where
  "revoke_api_key k actor = vault_atomic (
     thenc (update (\<lambda>v. v\<lparr>api_keys := map (\<lambda>x. if key_id x = key_id k then x\<lparr>key_active := False\<rparr> else x) (api_keys v)\<rparr>))
     (bindc (asks (\<lambda>v. service_active v (key_user k))) (\<lambda>on.
      thenc (whenc on (update (\<lambda>v. v\<lparr>inactive_users := user_id (key_user k) # inactive_users v\<rparr>)))
      (thenc (in_vault (deactivate_memberships (key_user k) (tenant_id (key_tenant k))))
        (write_activity_log k actor ApiKeyRevoked [(''name'', key_name k)])))))"

section \<open>Authentication (\<open>authentication.py\<close>)\<close>

text \<open>\<open>bytes.split()\<close>: the white space of byte strings.\<close>

definition byte_space :: "char \<Rightarrow> bool" where
  "byte_space c \<longleftrightarrow> (of_char c :: nat) \<in> {9, 10, 11, 12, 13, 32}"

fun bytes_acc :: "string \<Rightarrow> string \<Rightarrow> string list" where
  "bytes_acc acc [] = (if acc = [] then [] else [rev acc])"
| "bytes_acc acc (x # xs) =
     (if byte_space x then (if acc = [] then bytes_acc [] xs else rev acc # bytes_acc [] xs)
      else bytes_acc (x # acc) xs)"

definition keyword :: string where "keyword = ''Api-Key''"

text \<open>The outcome for the next authentication class, and the request as the class reads it.\<close>

datatype auth =
    OtherScheme
  | AuthenticationFailed string
  | Authenticated user api_key

record http_request =
  authorization :: string
  http_tenant :: "tenant_id option"
  remote_addr :: string
  user_agent :: string

definition candidates :: "vault \<Rightarrow> string \<Rightarrow> api_key list" where
  "candidates v prefix = filter (\<lambda>k. key_prefix k = prefix) (api_keys v)"

text \<open>The single \<open>UPDATE\<close> that logs the use of a key.\<close>

definition log_use :: "http_request \<Rightarrow> nat \<Rightarrow> unit vaultop" where
  "log_use req i = update (\<lambda>v. v\<lparr>api_keys := map (\<lambda>k. if key_id k = i then
     k\<lparr>last_used_at := Some (clock (vault_base v)), last_used_ip := (if remote_addr req = [] then None else Some (remote_addr req)),
       last_used_user_agent := take 255 (user_agent req), request_count := request_count k + 1\<rparr> else k) (api_keys v)\<rparr>)"

definition expired :: "instant \<Rightarrow> api_key \<Rightarrow> bool" where
  "expired now k \<longleftrightarrow> (case key_expires k of None \<Rightarrow> False | Some e \<Rightarrow> e < now)"

definition admit :: "(string \<Rightarrow> string) \<Rightarrow> http_request \<Rightarrow> string \<Rightarrow> api_key \<Rightarrow> auth vaultop" where
  "admit sha512 req cleartext k = bindc (asks (\<lambda>v. v)) (\<lambda>v.
     if \<not> key_active k \<or> \<not> service_active v (key_user k) then ret (AuthenticationFailed ''API key revoked'')
     else if expired (clock (vault_base v)) k then ret (AuthenticationFailed ''API key expired'')
     else if sha512 cleartext \<noteq> hashed_key k then ret (AuthenticationFailed ''Invalid API key'')
     else if http_tenant req \<noteq> None \<and> http_tenant req \<noteq> Some (tenant_id (key_tenant k))
       then ret (AuthenticationFailed ''API key not valid for this tenant'')
     else thenc (log_use req (key_id k)) (ret (Authenticated (key_user k) k)))"

definition authenticate :: "(string \<Rightarrow> string) \<Rightarrow> http_request \<Rightarrow> auth vaultop" where
  "authenticate sha512 req =
     (case bytes_acc [] (authorization req) of
        [] \<Rightarrow> ret OtherScheme
      | scheme # rest \<Rightarrow>
          if lower scheme \<noteq> lower keyword then ret OtherScheme
          else (case rest of
            [cleartext] \<Rightarrow>
              if \<not> startswith cleartext ''kz_live_'' then ret (AuthenticationFailed ''Invalid API key format'')
              else bindc (asks (\<lambda>v. candidates v (take 20 cleartext))) (\<lambda>found. case found of
                  [] \<Rightarrow> ret (AuthenticationFailed ''Invalid API key'')
                | [k] \<Rightarrow> admit sha512 req cleartext k
                | _ \<Rightarrow> raise_exc (DatabaseError ''MultipleObjectsReturned''))
          | _ \<Rightarrow> ret (AuthenticationFailed ''Invalid Authorization header format'')))"

section \<open>The throttle and its headers (\<open>throttling.py\<close>, \<open>middleware.py\<close>)\<close>

definition throttle_key :: "api_key option \<Rightarrow> string option" where
  "throttle_key found = map_option (\<lambda>k. ''throttle_api_key_apikey-'' @ show_nat (key_id k)) found"

text \<open>The information on a bucket after a request: the limit, what is left, when it is free (in seconds).\<close>

definition throttle_info :: "api_key option \<Rightarrow> int \<Rightarrow> int list option \<Rightarrow> rat option \<Rightarrow> int \<Rightarrow> (int \<times> int \<times> int) option" where
  "throttle_info found num_requests history now duration =
     (case (found, history, now) of
        (Some k, Some h, Some t) \<Rightarrow> Some (num_requests, max 0 (num_requests - int (length h)),
          (let e = t + rat_of_int duration in if e < 0 then - \<lfloor>- e\<rfloor> else \<lfloor>e\<rfloor>))
      | _ \<Rightarrow> None)"

definition show_int :: "int \<Rightarrow> string" where
  "show_int n = (if n < 0 then ''-'' @ show_nat (nat (- n)) else show_nat (nat n))"

definition rate_limit_headers :: "(int \<times> int \<times> int) option \<Rightarrow> (string \<times> string) list" where
  "rate_limit_headers info = (case info of
     None \<Rightarrow> []
   | Some (limit, remaining, reset_epoch) \<Rightarrow>
       [(''X-RateLimit-Limit'', show_int limit), (''X-RateLimit-Remaining'', show_int remaining), (''X-RateLimit-Reset'', show_int reset_epoch)])"

section \<open>The endpoints (\<open>serializers.py\<close>, \<open>views.py\<close>)\<close>

text \<open>What is shown of a key; \<open>shown_secret\<close> is present in the answers of \<open>create\<close> and \<open>regenerate\<close> only.\<close>

record key_payload =
  shown_key :: nat
  shown_name :: string
  shown_prefix :: string
  shown_masked :: string
  shown_role :: nat
  shown_active :: bool
  shown_creator :: string
  shown_count :: nat
  shown_secret :: "string option"

definition serialize_key :: "api_key \<Rightarrow> key_payload" where
  "serialize_key k = \<lparr>shown_key = key_id k, shown_name = key_name k, shown_prefix = key_prefix k, shown_masked = masked_prefix k,
     shown_role = role_id (key_role k), shown_active = key_active k,
     shown_creator = (if get_full_name (key_creator k) \<noteq> [] then get_full_name (key_creator k) else email (key_creator k)),
     shown_count = request_count k, shown_secret = None\<rparr>"

definition serialize_with_cleartext :: "api_key \<Rightarrow> string \<Rightarrow> key_payload" where
  "serialize_with_cleartext k cleartext = (serialize_key k)\<lparr>shown_secret := Some cleartext\<rparr>"

text \<open>The name is trimmed by the field before the validator reads it.\<close>

definition validate_name :: "vault \<Rightarrow> tenant_id \<Rightarrow> string \<Rightarrow> string res" where
  "validate_name v ten value =
     (let name = strip value
      in if name = [] \<or> length name > 120 then Inl (ValidationError ''name'')
         else if list_ex (\<lambda>k. tenant_id (key_tenant k) = ten \<and> key_name k = name) (api_keys v)
           then Inl (ValidationError ''An API key with this name already exists in this tenant.'')
         else Inr name)"

definition validate_role_id :: "vault \<Rightarrow> tenant_id \<Rightarrow> nat option \<Rightarrow> nat option res" where
  "validate_role_id v ten value = (case value of
     None \<Rightarrow> Inr None
   | Some i \<Rightarrow> if list_ex (\<lambda>r. role_tenant r = ten \<and> role_id r = i) (roles (vault_desk v)) then Inr (Some i)
               else Inl (ValidationError ''Role does not belong to the current tenant.''))"

definition admin_gate :: "api_request \<Rightarrow> unit vaultop" where
  "admin_gate req = bindc (asks (\<lambda>v. is_tenant_admin (vault_desk v) req)) (\<lambda>ok.
     if ok then ret () else raise_exc (PermissionDenied ''admin''))"

text \<open>\<open>get_object\<close>: the key of the current tenant.\<close>

definition own_keys :: "vault \<Rightarrow> api_key list" where
  "own_keys v = scoped (vault_base v) (\<lambda>k. tenant_id (key_tenant k)) (api_keys v)"

definition key_object :: "nat \<Rightarrow> api_key vaultop" where
  "key_object i = bindc (asks (\<lambda>v. first_row (\<lambda>k. key_id k = i) (own_keys v))) (\<lambda>found. case found of
     None \<Rightarrow> raise_exc (DoesNotExist ''APIKey'') | Some k \<Rightarrow> ret k)"

definition granted_role :: "tenant \<Rightarrow> nat option \<Rightarrow> vault \<Rightarrow> role option" where
  "granted_role ten choice v = (case choice of
     Some i \<Rightarrow> first_row (\<lambda>r. role_tenant r = tenant_id ten \<and> role_id r = i) (roles (vault_desk v))
   | None \<Rightarrow> first_row (\<lambda>r. role_tenant r = tenant_id ten \<and> role_slug r = ''admin'') (roles (vault_desk v)))"

definition create_endpoint :: "(string \<Rightarrow> string) \<Rightarrow> user \<Rightarrow> tenant \<Rightarrow> string \<Rightarrow> nat option \<Rightarrow> instant option \<Rightarrow> string \<Rightarrow> string \<Rightarrow> key_payload vaultop" where
  "create_endpoint sha512 u ten name choice expiry token uuid =
     thenc (admin_gate \<lparr>req_user = Some u, req_tenant = Some (tenant_id ten)\<rparr>)
     (bindc (asks (\<lambda>v. v)) (\<lambda>v.
      bindc (lift_res (validate_name v (tenant_id ten) name)) (\<lambda>label.
      bindc (lift_res (validate_role_id v (tenant_id ten) choice)) (\<lambda>chosen.
      case granted_role ten chosen v of
        None \<Rightarrow> raise_exc (DoesNotExist ''Role'')
      | Some r \<Rightarrow> bindc (create_api_key sha512 ten label r u expiry token uuid) (\<lambda>(k, cleartext).
          ret (serialize_with_cleartext k cleartext))))))"

definition regenerate_endpoint :: "(string \<Rightarrow> string) \<Rightarrow> user \<Rightarrow> tenant_id \<Rightarrow> nat \<Rightarrow> string \<Rightarrow> key_payload vaultop" where
  "regenerate_endpoint sha512 u ten i token =
     thenc (admin_gate \<lparr>req_user = Some u, req_tenant = Some ten\<rparr>)
     (bindc (key_object i) (\<lambda>k.
      bindc (regenerate_api_key sha512 k u token) (\<lambda>cleartext.
      bindc (key_object i) (\<lambda>fresh. ret (serialize_with_cleartext fresh cleartext)))))"

definition revoke_endpoint :: "user \<Rightarrow> tenant_id \<Rightarrow> nat \<Rightarrow> key_payload vaultop" where
  "revoke_endpoint u ten i =
     thenc (admin_gate \<lparr>req_user = Some u, req_tenant = Some ten\<rparr>)
     (bindc (key_object i) (\<lambda>k.
      thenc (revoke_api_key k u)
      (bindc (key_object i) (\<lambda>fresh. ret (serialize_key fresh)))))"

text \<open>\<open>destroy\<close> is the one of the framework: it deletes the row of the key and nothing else.\<close>

definition destroy_endpoint :: "user \<Rightarrow> tenant_id \<Rightarrow> nat \<Rightarrow> unit vaultop" where
  "destroy_endpoint u ten i =
     thenc (admin_gate \<lparr>req_user = Some u, req_tenant = Some ten\<rparr>)
     (bindc (key_object i) (\<lambda>k. update (\<lambda>v. v\<lparr>api_keys := filter (\<lambda>x. key_id x \<noteq> i) (api_keys v)\<rparr>)))"

definition list_endpoint :: "user \<Rightarrow> tenant_id \<Rightarrow> key_payload list vaultop" where
  "list_endpoint u ten =
     thenc (admin_gate \<lparr>req_user = Some u, req_tenant = Some ten\<rparr>) (asks (\<lambda>v. map serialize_key (own_keys v)))"

section \<open>The mail (\<open>tasks.py\<close>)\<close>

text \<open>The key and the recipient of the mail that a queued job sends, if any.\<close>

definition created_mail :: "vault \<Rightarrow> nat \<times> string \<Rightarrow> (api_key \<times> string) option" where
  "created_mail v job = (case job of (i, recipient) \<Rightarrow>
     if recipient = [] then None else map_option (\<lambda>k. (k, recipient)) (first_row (\<lambda>k. key_id k = i) (api_keys v)))"

end
