(* ===== verification/Api_Key_Laws.thy ===== *)
theory Api_Key_Laws
  imports Desk_Laws Api_Keys
begin

text \<open>
  What the operations on API keys promise: the secret that a mint or a rotation
  shows authenticates, and only for the tenant of its key; a key that was
  revoked never authenticates again; a rotation makes the old secret useless.
\<close>

section \<open>Keys that are retired stay retired\<close>

definition retired :: "vault \<Rightarrow> nat \<Rightarrow> bool" where
  "retired v i \<longleftrightarrow> i < next_pk (vault_base v) \<and> list_all (\<lambda>k. key_id k = i \<longrightarrow> \<not> key_active k) (api_keys v)"

definition vault_ok :: "vault \<Rightarrow> bool" where
  "vault_ok v \<longleftrightarrow> distinct (map key_id (api_keys v)) \<and> list_all (\<lambda>k. key_id k < next_pk (vault_base v)) (api_keys v)
     \<and> list_all (\<lambda>i. i < next_pk (vault_base v)) (inactive_users v)
     \<and> list_all (\<lambda>k. user_id (key_user k) < next_pk (vault_base v)) (api_keys v)"

definition vault_kept :: "vault \<Rightarrow> vault \<Rightarrow> bool" where
  "vault_kept v v' \<longleftrightarrow> next_pk (vault_base v) \<le> next_pk (vault_base v') \<and> (\<forall>i. retired v i \<longrightarrow> retired v' i)
     \<and> (vault_ok v \<longrightarrow> vault_ok v')"

interpretation vaults: step_law vault_kept
  by unfold_locales (auto simp: vault_kept_def)

text \<open>Columns of some rows change, and a row that is inactive stays so.\<close>

lemma columns_vault_kept:
  assumes "\<And>v k. key_id (f v k) = key_id k \<and> key_user (f v k) = key_user k \<and> (key_active (f v k) \<longrightarrow> key_active k)"
  shows "obeys vault_kept (update (\<lambda>v. v\<lparr>api_keys := map (f v) (api_keys v)\<rparr>))"
proof -
  have "map key_id (map (f v) ks) = map key_id ks" for v ks using assms by simp
  then show ?thesis
    using assms by (auto simp: obeys_def cmd_simps vault_kept_def retired_def vault_ok_def list_all_iff simp del: map_map)
qed

lemma desk_vault_kept:
  assumes "\<And>d. next_pk (base d) \<le> next_pk (base (snd (c d)))"
  shows "obeys vault_kept (in_vault c)"
  using assms unfolding obeys_def vault_kept_def retired_def vault_ok_def
  by (simp add: cmd_simps list_all_iff) (meson less_le_trans)

lemma atomic_vault_kept: "obeys vault_kept c \<Longrightarrow> obeys vault_kept (vault_atomic c)"
  by (rule vaults.obeys_atomic)
    (auto simp: vault_kept_def vault_rollback_def desk_rollback_def rollback_def retired_def vault_ok_def)

lemma audit_vault_kept: "obeys vault_kept (write_activity_log k u a m)" "obeys vault_kept (update (\<lambda>v. v\<lparr>key_mails := f v\<rparr>))"
  by (auto simp: obeys_def write_activity_log_def cmd_simps vault_kept_def retired_def vault_ok_def)

lemma service_user_pk: "next_pk (base d) \<le> next_pk (base (snd (create_service_user ten name uuid d)))"
  by (simp add: create_service_user_def cmd_simps Let_def)

lemma membership_pk: "next_pk (base d) \<le> next_pk (base (snd (get_or_create_membership u ten r d)))"
  by (simp add: get_or_create_membership_def cmd_simps Let_def)

lemma deactivate_pk: "next_pk (base d) \<le> next_pk (base (snd (deactivate_memberships u ten d)))"
  by (simp add: deactivate_memberships_def cmd_simps)

text \<open>What a mint leaves, when it returns.\<close>

lemma minted:
  assumes "create_api_key sha ten name r u expiry token uuid v = (Inr (k, c), v1)"
  shows "c = generate_cleartext ten token" "key_prefix k = take 20 c" "hashed_key k = sha c" "key_tenant k = ten" "key_active k"
    "key_expires k = expiry" "api_keys v1 = k # api_keys v" "inactive_users v1 = inactive_users v"
    "user_id (key_user k) = next_pk (vault_base v)" "key_id k = next_pk (vault_base v) + 1"
    "next_pk (vault_base v1) = next_pk (vault_base v) + 2" "clock (vault_base v1) = clock (vault_base v)"
  using assms
  by (auto simp: create_api_key_def create_service_user_def get_or_create_membership_def insert_key_def write_activity_log_def cmd_simps Let_def
      split: if_splits)

lemma mint_fails:
  assumes "create_api_key sha ten name r u expiry token uuid v = (Inl e, v1)"
  shows "\<exists>w. v1 = vault_rollback v w"
  using assms unfolding create_api_key_def
  by (auto simp: bindc_def thenc_def update_def ret_def atomic_on_def split: prod.splits sum.splits)

lemma create_vault_kept: "obeys vault_kept (create_api_key sha ten name r u expiry token uuid)"
proof -
  have "vault_kept v (snd (create_api_key sha ten name r u expiry token uuid v))" for v
  proof (cases "create_api_key sha ten name r u expiry token uuid v")
    case (Pair res v1)
    show ?thesis
    proof (cases res)
      case (Inl e)
      then show ?thesis
        using Pair mint_fails [of sha ten name r u expiry token uuid v] by (auto simp: vault_rollback_def desk_rollback_def rollback_def vault_kept_def retired_def vault_ok_def)
    next
      case (Inr p)
      then obtain k c where "create_api_key sha ten name r u expiry token uuid v = (Inr (k, c), v1)" using Pair by (cases p) auto
      from minted [OF this] show ?thesis
        by (auto simp: Pair vault_kept_def retired_def vault_ok_def list_all_iff)
    qed
  qed
  then show ?thesis by (simp add: obeys_def)
qed

lemma regenerate_vault_kept: "obeys vault_kept (regenerate_api_key sha k u token)"
proof -
  have "obeys vault_kept (rotate_columns i p h)" for i p h
    unfolding rotate_columns_def by (rule columns_vault_kept) simp
  then show ?thesis
    unfolding regenerate_api_key_def Let_def
    by (intro atomic_vault_kept vaults.obeys_then vaults.obeys_ret audit_vault_kept)
qed

text \<open>A revocation deactivates every row with the key's id, and its user is one that exists.\<close>

lemma revoked_rows:
  "fst (revoke_api_key k u v) = Inr ()"
  "api_keys (snd (revoke_api_key k u v)) = map (\<lambda>x. if key_id x = key_id k then x\<lparr>key_active := False\<rparr> else x) (api_keys v)"
  "set (inactive_users (snd (revoke_api_key k u v))) = insert (user_id (key_user k)) (set (inactive_users v))"
  "next_pk (vault_base (snd (revoke_api_key k u v))) = next_pk (vault_base v)"
  by (auto simp: revoke_api_key_def deactivate_memberships_def write_activity_log_def cmd_simps service_active_def split: if_splits)

lemma revoke_kept:
  assumes "user_id (key_user k) < next_pk (vault_base v)"
  shows "vault_kept v (snd (revoke_api_key k u v))"
proof -
  have "map key_id (map (\<lambda>x. if key_id x = key_id k then x\<lparr>key_active := False\<rparr> else x) ks) = map key_id ks" for ks :: "api_key list" by (induction ks) auto
  then show ?thesis
    using assms by (auto simp: vault_kept_def retired_def vault_ok_def list_all_iff revoked_rows simp del: map_map)
qed

lemma authenticate_vault_kept: "obeys vault_kept (authenticate sha req)"
proof -
  have "obeys vault_kept (log_use req i)" for i
    unfolding log_use_def by (rule columns_vault_kept) simp
  then have "obeys vault_kept (admit sha req c k)" for c k
    unfolding admit_def by (intro vaults.obeys_rules)
  then show ?thesis
    unfolding authenticate_def by (auto intro!: vaults.obeys_rules split: list.split)
qed

section \<open>Runs of the tenant's keys\<close>

text \<open>
  One step: an endpoint, a presented header, the deletion of rows, or anything the
  rest of the program does to the desk (which uses up primary keys and never
  gives one back).  A revocation reads its key from the table.
\<close>

inductive vault_step :: "(string \<Rightarrow> string) \<Rightarrow> vault \<Rightarrow> vault \<Rightarrow> bool" for sha where
  minting: "create_endpoint sha u ten name choice expiry token uuid v = (res, v') \<Longrightarrow> vault_step sha v v'"
| rotating: "regenerate_endpoint sha u ten i token v = (res, v') \<Longrightarrow> vault_step sha v v'"
| revoking: "revoke_endpoint u ten i v = (res, v') \<Longrightarrow> vault_step sha v v'"
| deleting: "destroy_endpoint u ten i v = (res, v') \<Longrightarrow> vault_step sha v v'"
| presenting: "authenticate sha req v = (res, v') \<Longrightarrow> vault_step sha v v'"
| elsewhere: "next_pk (vault_base v) \<le> next_pk (base d') \<Longrightarrow> vault_step sha v (v\<lparr>vault_desk := d'\<rparr>)"

definition vault_run :: "(string \<Rightarrow> string) \<Rightarrow> vault \<Rightarrow> vault \<Rightarrow> bool" where
  "vault_run sha = (vault_step sha)\<^sup>*\<^sup>*"

lemma gate_kept: "obeys vault_kept (admin_gate req)" "obeys vault_kept (key_object i)"
  unfolding admin_gate_def key_object_def by (auto intro!: vaults.obeys_rules split: option.split)

lemma gate_state: "admin_gate req v = (r, v') \<Longrightarrow> v' = v" "key_object i v = (r', v') \<Longrightarrow> v' = v"
  by (auto simp: admin_gate_def key_object_def cmd_simps split: if_splits option.splits)

lemma key_object_returns: "key_object i v = (Inr k, v') \<longleftrightarrow> first_row (\<lambda>k. key_id k = i) (own_keys v) = Some k \<and> v' = v"
  by (auto simp: key_object_def returns raise_exc_def ret_def split: option.splits)

lemma own_key: "first_row (\<lambda>k. key_id k = i) (own_keys v) = Some k \<Longrightarrow> k \<in> set (api_keys v) \<and> key_id k = i"
  by (auto simp: own_keys_def scoped_def dest!: first_row_SomeD split: option.splits)

lemma create_endpoint_kept: "obeys vault_kept (create_endpoint sha u ten name choice expiry token uuid)"
  unfolding create_endpoint_def
  by (intro vaults.obeys_then vaults.obeys_bind vaults.obeys_asks vaults.obeys_lift vaults.obeys_option vaults.obeys_raise
      vaults.obeys_prod vaults.obeys_ret gate_kept create_vault_kept)

lemma regenerate_endpoint_kept: "obeys vault_kept (regenerate_endpoint sha u ten i token)"
  unfolding regenerate_endpoint_def
  by (intro vaults.obeys_then vaults.obeys_bind vaults.obeys_ret gate_kept regenerate_vault_kept)

lemma destroy_endpoint_kept: "obeys vault_kept (destroy_endpoint u ten i)"
proof -
  have "obeys vault_kept (update (\<lambda>v. v\<lparr>api_keys := filter p (api_keys v)\<rparr>))" for p
    by (auto simp: obeys_def cmd_simps vault_kept_def retired_def vault_ok_def list_all_iff distinct_map intro: inj_on_subset)
  then show ?thesis
    unfolding destroy_endpoint_def by (intro vaults.obeys_then vaults.obeys_bind gate_kept)
qed

text \<open>What a revocation through the endpoint leaves.\<close>

lemma revoke_endpoint_returns:
  assumes "revoke_endpoint u ten i v = (Inr p, v')"
  obtains k where "k \<in> set (api_keys v)" "key_id k = i" "v' = snd (revoke_api_key k u v)"
proof -
  from assms obtain k where k: "first_row (\<lambda>k. key_id k = i) (own_keys v) = Some k" "v' = snd (revoke_api_key k u v)"
    unfolding revoke_endpoint_def by (auto simp: returns key_object_returns dest!: gate_state(1))
  with that own_key [OF k(1)] show ?thesis by blast
qed

lemma revoke_endpoint_kept:
  assumes ok: "vault_ok v" and run: "revoke_endpoint u ten i v = (res, v')"
  shows "vault_kept v v'"
proof -
  consider "v' = v" | k where "k \<in> set (api_keys v)" "v' = snd (revoke_api_key k u v)"
    using run unfolding revoke_endpoint_def
    by (auto simp: bindc_def thenc_def key_object_def asks_def ret_def raise_exc_def revoked_rows
        dest: own_key dest!: gate_state(1) split: prod.splits sum.splits option.splits)
  then show ?thesis
  proof cases
    case 2
    with ok have "user_id (key_user k) < next_pk (vault_base v)" by (simp add: vault_ok_def list_all_iff)
    with 2 show ?thesis by (simp add: revoke_kept)
  qed (simp add: vaults.step_refl)
qed

lemma run_keeps:
  assumes "vault_run sha v v'" "vault_ok v"
  shows "vault_kept v v'"
  using assms unfolding vault_run_def
proof (induction rule: rtranclp_induct)
  case base
  show ?case by (rule vaults.step_refl)
next
  case (step v1 v2)
  then have kept: "vault_kept v v1" by simp
  then have ok: "vault_ok v1" using step.prems by (simp add: vault_kept_def)
  have "vault_kept v1 v2"
    using step.hyps(2)
  proof cases
    case revoking
    with ok show ?thesis by (rule revoke_endpoint_kept)
  next
    case elsewhere
    then show ?thesis by (auto simp: vault_kept_def retired_def vault_ok_def list_all_iff intro: less_le_trans)
  qed (blast intro: obeysD create_endpoint_kept regenerate_endpoint_kept destroy_endpoint_kept authenticate_vault_kept)+
  with kept show ?case by (rule vaults.step_trans)
qed

lemma admitted:
  assumes "admit sha req c k v = (Inr (Authenticated u k'), v')"
  shows "k' = k \<and> u = key_user k \<and> key_active k \<and> sha c = hashed_key k \<and> (http_tenant req = None \<or> http_tenant req = Some (tenant_id (key_tenant k)))"
  using assms by (auto simp: admit_def returns ret_def bindc_def asks_def split: if_splits)

text \<open>A header that is admitted named an active row.\<close>

lemma authenticated_row:
  assumes "authenticate sha req v = (Inr (Authenticated u k), v')"
  shows "k \<in> set (api_keys v)" "key_active k" "http_tenant req \<noteq> None \<Longrightarrow> http_tenant req = Some (tenant_id (key_tenant k))"
    "\<exists>c. sha c = hashed_key k \<and> take 20 c = key_prefix k \<and> c \<in> set (bytes_acc [] (authorization req))"
proof -
  from assms obtain scheme c x where words: "bytes_acc [] (authorization req) = [scheme, c]"
      and x: "candidates v (take 20 c) = [x]" "admit sha req c x v = (Inr (Authenticated u k), v')"
    by (auto simp: authenticate_def returns raise_exc_def ret_def split: list.splits if_splits)
  then have "k = x" by (auto dest: admitted)
  then have "k \<in> set (candidates v (take 20 c))" using x(1) by simp
  with words admitted [OF x(2)] show "k \<in> set (api_keys v)" "key_active k" "http_tenant req \<noteq> None \<Longrightarrow> http_tenant req = Some (tenant_id (key_tenant k))"
    "\<exists>c. sha c = hashed_key k \<and> take 20 c = key_prefix k \<and> c \<in> set (bytes_acc [] (authorization req))"
    by (auto simp: candidates_def)
qed

lemma revoked_retired:
  assumes "vault_ok v" "revoke_endpoint u ten i v = (Inr p, v')"
  shows "retired v' i"
proof -
  obtain k where "k \<in> set (api_keys v)" "key_id k = i" "v' = snd (revoke_api_key k u v)" using assms(2) by (rule revoke_endpoint_returns)
  with assms(1) show ?thesis by (auto simp: retired_def revoked_rows vault_ok_def list_all_iff)
qed

text \<open>
  C37: a key that was revoked never authenticates again: whatever is minted,
  regenerated (the revoked key included), revoked, deleted or presented
  afterwards, and whatever the rest of the program does, no header is ever
  accepted for the revoked key.
\<close>

theorem revoked_for_good:
  assumes "vault_ok v" "revoke_endpoint u ten i v = (Inr p, v1)" "vault_run sha v1 v2"
    and "authenticate sha req v2 = (Inr (Authenticated a k), v3)"
  shows "key_id k \<noteq> i"
proof -
  have "vault_kept v v1" using assms(1,2) by (rule revoke_endpoint_kept)
  then have "vault_ok v1" using assms(1) by (simp add: vault_kept_def)
  with assms(3) have "retired v2 i" using revoked_retired [OF assms(1,2)] by (auto dest: run_keeps simp: vault_kept_def)
  then show ?thesis using authenticated_row(1,2) [OF assms(4)] by (auto simp: retired_def list_all_iff)
qed

section \<open>Secrets\<close>

lemma bytes_acc_plain: "list_all (\<lambda>c. \<not> byte_space c) xs \<Longrightarrow> bytes_acc acc xs = (if acc = [] \<and> xs = [] then [] else [rev acc @ xs])"
  by (induction xs arbitrary: acc) auto

lemma bytes_acc_word:
  "list_all (\<lambda>c. \<not> byte_space c) xs \<Longrightarrow> xs \<noteq> [] \<Longrightarrow> bytes_acc acc (xs @ '' '' @ ys) = (rev acc @ xs) # bytes_acc [] ys"
proof (induction xs arbitrary: acc)
  case (Cons x xs)
  then show ?case by (cases xs) (auto simp: byte_space_def)
qed simp

lemma header_words: "list_all (\<lambda>c. \<not> byte_space c) c \<Longrightarrow> c \<noteq> [] \<Longrightarrow> bytes_acc [] (''Api-Key '' @ c) = [''Api-Key'', c]"
  using bytes_acc_word [of "''Api-Key''" "[]" c] by (simp add: byte_space_def bytes_acc_plain)

lemma cleartext_shape: "startswith (generate_cleartext ten token) ''kz_live_''" "generate_cleartext ten token \<noteq> []"
  by (auto simp: generate_cleartext_def)

text \<open>
  The secret that a mint returns authenticates the key it was minted for, on
  the tenant's own host and on the main site, as long as the key has not expired
  and no other key starts with the same twenty characters; the use is counted.
\<close>

lemma minted_key_authenticates:
  assumes "vault_ok v" "create_api_key sha ten name r u expiry token uuid v = (Inr (k, c), v1)"
    and "candidates v (take 20 c) = []" "list_all (\<lambda>x. \<not> byte_space x) (tenant_slug ten @ token)"
    and "\<not> expired (clock (vault_base v)) k" "http_tenant req \<in> {None, Some (tenant_id ten)}"
    and "authorization req = ''Api-Key '' @ c"
  shows "fst (authenticate sha req v1) = Inr (Authenticated (key_user k) k)
    \<and> map request_count (filter (\<lambda>x. key_id x = key_id k) (api_keys (snd (authenticate sha req v1)))) = [1]"
proof -
  note facts = minted [OF assms(2)]
  have plain: "list_all (\<lambda>x. \<not> byte_space x) c"
    using assms(4) by (auto simp: facts(1) generate_cleartext_def byte_space_def list_all_iff dest: in_set_takeD)
  have words: "bytes_acc [] (authorization req) = [''Api-Key'', c]"
    using header_words [OF plain] cleartext_shape(2) by (simp add: assms(7) facts(1))
  have found: "candidates v1 (take 20 c) = [k]"
    using assms(3) by (simp add: candidates_def facts)
  have live: "service_active v1 (key_user k)"
    using assms(1) by (auto simp: service_active_def facts vault_ok_def list_all_iff)
  have used: "request_count k = 0"
    using assms(2) by (auto simp: create_api_key_def create_service_user_def get_or_create_membership_def insert_key_def
        write_activity_log_def cmd_simps Let_def split: if_splits)
  have others: "filter (\<lambda>x. key_id x = key_id k) (api_keys v) = []"
    using assms(1) by (auto simp: filter_empty_conv facts vault_ok_def list_all_iff)
  have admitted: "admit sha req c k v1 = (Inr (Authenticated (key_user k) k), snd (log_use req (key_id k) v1))"
    using assms(5,6) live by (auto simp: admit_def cmd_simps facts log_use_def)
  have "authenticate sha req v1 = admit sha req c k v1"
    using found by (simp add: authenticate_def words keyword_def bindc_def asks_def cleartext_shape facts(1))
  moreover have "map request_count (filter (\<lambda>x. key_id x = key_id k) (api_keys (snd (log_use req (key_id k) v1)))) = [1]"
    using others used by (auto simp: log_use_def cmd_simps facts filter_map o_def filter_empty_conv)
  ultimately show ?thesis by (simp add: admitted)
qed

text \<open>A rotation makes the old secret useless unless the digests collide.\<close>

lemma rotated_secret_rejected:
  assumes "vault_ok v" "k \<in> set (api_keys v)" "regenerate_api_key sha k u token v = (Inr c, v1)"
    and "sha old \<noteq> sha c" "bytes_acc [] (authorization req) = [scheme, old]"
    and "authenticate sha req v1 = (Inr (Authenticated a k'), v2)"
  shows "key_id k' \<noteq> key_id k"
proof -
  have rows: "api_keys v1 = map (\<lambda>x. if key_id x = key_id k then x\<lparr>key_prefix := take 20 c, hashed_key := sha c\<rparr> else x) (api_keys v)"
    using assms(3) by (auto simp: regenerate_api_key_def rotate_columns_def write_activity_log_def cmd_simps Let_def)
  have "sha old = hashed_key k'"
    using assms(5,6) by (auto simp: authenticate_def returns raise_exc_def ret_def dest: admitted split: list.splits if_splits)
  then show ?thesis using authenticated_row(1) [OF assms(6)] assms(4) by (auto simp: rows split: if_splits)
qed

text \<open>
  Of a secret, only five random characters reach the prefix once the slug fills
  its six: two keys of a tenant whose secrets agree there are found together, and
  then neither authenticates (the lookup raises).
\<close>

lemma colliding_prefixes:
  assumes "6 \<le> length (tenant_slug ten)" "take 5 token = take 5 token'"
  shows "take 20 (generate_cleartext ten token) = take 20 (generate_cleartext ten token')"
proof -
  have "take 20 (generate_cleartext ten x) = ''kz_live_'' @ take 6 (tenant_slug ten) @ ''_'' @ take 5 x" for x
    using assms(1) by (simp add: generate_cleartext_def min_absorb2)
  then show ?thesis using assms(2) by simp
qed

lemma collision_fails:
  assumes "2 \<le> length (candidates v (take 20 c))" "bytes_acc [] (authorization req) = [''Api-Key'', c]" "startswith c ''kz_live_''"
  shows "authenticate sha req v = (Inl (DatabaseError ''MultipleObjectsReturned''), v)"
  using assms by (auto simp: authenticate_def keyword_def cmd_simps lower_def split: list.split)

text \<open>The bucket of a key is the bucket of its row: a regenerated key keeps its used-up rate.\<close>

lemma regeneration_keeps_bucket: "throttle_key (Some (k\<lparr>key_prefix := p, hashed_key := h\<rparr>)) = throttle_key (Some k)"
  by (simp add: throttle_key_def)

section \<open>An admin with two keys\<close>

definition admin_role :: role where
  "admin_role = \<lparr>role_id = 50, role_tenant = 1, role_slug = ''admin'', hierarchy_level = 10, role_codenames = []\<rparr>"

definition empty_vault :: vault where
  "empty_vault = \<lparr>vault_desk = demo_desk\<lparr>base := (base demo_desk)\<lparr>memberships := [\<lparr>member_user = demo_user, member_tenant = 1,
     member_role = admin_role, member_active = True, temporary_role = None, temporary_role_expires_at = None, temporary_codenames = []\<rparr>]\<rparr>,
     roles := [admin_role]\<rparr>, api_keys = [], inactive_users = [], key_logs = [], key_mails = []\<rparr>"

definition mint_demo :: "string \<Rightarrow> string \<Rightarrow> key_payload vaultop" where
  "mint_demo name token = create_endpoint (\<lambda>c. c) demo_user demo_tenant name None None token token"

definition two_keys :: vault where
  "two_keys = snd (mint_demo '' Zapier '' ''bbbbbbbbbb'' (snd (mint_demo ''Bot'' ''aaaaaaaaaa'' empty_vault)))"

definition one_revoked :: vault where
  "one_revoked = snd (revoke_endpoint demo_user 1 101 two_keys)"

definition demo_request :: "string \<Rightarrow> tenant_id option \<Rightarrow> http_request" where
  "demo_request c ten = \<lparr>authorization = ''api-key  '' @ c, http_tenant = ten, remote_addr = ''10.0.0.1'', user_agent = ''curl''\<rparr>"

fun accepted_key :: "auth res \<times> vault \<Rightarrow> nat option" where
  "accepted_key (Inr (Authenticated u k), v) = Some (key_id k)"
| "accepted_key _ = None"

lemma two_keys_shape:
  "map (\<lambda>k. (key_id k, key_name k, key_active k)) (api_keys two_keys) = [(103, ''Zapier'', True), (101, ''Bot'', True)]"
  "map (\<lambda>k. (key_id k, key_active k)) (api_keys one_revoked) = [(103, True), (101, False)]"
  "key_mails two_keys = [(101, ''ada@acme''), (103, ''ada@acme'')]"
  by code_simp+

lemma two_keys_accepted:
  "accepted_key (authenticate (\<lambda>c. c) (demo_request ''kz_live_acme_aaaaaaaaaa'' (Some 1)) two_keys) = Some 101"
  "accepted_key (authenticate (\<lambda>c. c) (demo_request ''kz_live_acme_aaaaaaaaaa'' (Some 2)) two_keys) = None"
  "accepted_key (authenticate (\<lambda>c. c) (demo_request ''kz_live_acme_aaaaaaaaaa'' (Some 1)) one_revoked) = None"
  "accepted_key (authenticate (\<lambda>c. c) (demo_request ''kz_live_acme_bbbbbbbbbb'' None) one_revoked) = Some 103"
  by code_simp+

lemma accepted_keyD: "accepted_key r = Some i \<Longrightarrow> \<exists>u k v. r = (Inr (Authenticated u k), v) \<and> key_id k = i"
  by (cases r rule: accepted_key.cases) auto

theorem revoked_for_good_witness:
  "vault_ok two_keys \<and> fst (revoke_endpoint demo_user 1 101 two_keys) \<noteq> Inl (DoesNotExist ''APIKey'')
   \<and> (\<exists>u k v. authenticate (\<lambda>c. c) (demo_request ''kz_live_acme_bbbbbbbbbb'' None) one_revoked = (Inr (Authenticated u k), v) \<and> key_id k \<noteq> 101)"
proof -
  have ok: "vault_ok two_keys" by code_simp
  have "isl (fst (revoke_endpoint demo_user 1 101 two_keys)) = False" by code_simp
  then obtain p where p: "revoke_endpoint demo_user 1 101 two_keys = (Inr p, one_revoked)"
    unfolding one_revoked_def by (cases "revoke_endpoint demo_user 1 101 two_keys"; cases "fst (revoke_endpoint demo_user 1 101 two_keys)") auto
  obtain u k v where k: "authenticate (\<lambda>c. c) (demo_request ''kz_live_acme_bbbbbbbbbb'' None) one_revoked = (Inr (Authenticated u k), v)"
    using accepted_keyD [OF two_keys_accepted(4)] by blast
  have "vault_run (\<lambda>c. c) one_revoked one_revoked" by (simp add: vault_run_def)
  from revoked_for_good [OF ok p this k] have "key_id k \<noteq> 101" .
  with ok p k show ?thesis by auto
qed

end
