(* ===== verification/Knowledge.thy ===== *)
theory Knowledge
  imports Crm_Reminders Ticket_Links
begin

text \<open>
  The knowledge base (\<open>apps/knowledge\<close>): categories and articles, the save of an
  article with its slug and stamps (\<open>models.py\<close>), who sees an article, the review
  workflow and the other actions on articles (\<open>views.py\<close>, \<open>serializers.py\<close>), the
  search with the log of its gaps (\<open>search.py\<close>) and the weekly and daily mails
  (\<open>tasks.py\<close>).  The slug of a title (\<open>slugify\<close>), the name a file is stored under, and the match and
  the rank of a full-text query are parameters.
\<close>

section \<open>Rows (\<open>models.py\<close>)\<close>

datatype kb_status = KbDraft | KbPendingReview | KbPublished | KbRejected | KbFlagged

datatype kb_visibility = KbInternal | KbPublic

record kb_category =
  cat_id :: nat
  cat_tenant :: tenant_id
  cat_name :: string
  cat_slug :: string
  cat_active :: bool

record user_group =
  group_id :: nat
  group_tenant :: tenant_id
  group_members :: "user_id list"

record kb_article =
  art_id :: nat
  art_tenant :: tenant_id
  art_title :: string
  art_slug :: string
  art_content :: string
  art_excerpt :: string
  art_category :: "nat option"
  art_author :: "user option"
  art_status :: kb_status
  art_pinned :: bool
  art_views :: nat
  art_published_at :: "instant option"
  art_tags :: "string list"
  art_file :: "string option"
  art_file_name :: string
  art_reviewer :: "user option"
  art_reviewed_at :: "instant option"
  art_submitted_at :: "instant option"
  art_rejection :: string
  art_visibility :: kb_visibility
  art_groups :: "nat list"
  art_review_at :: "date option"

record kb_vote =
  vote_article :: nat
  vote_key :: string
  vote_helpful :: bool

record kb_gap =
  gap_tenant :: tenant_id
  gap_query :: string
  gap_source :: string
  gap_count :: nat

text \<open>The tables beside the desk, the names of deleted files, and the mails: kind, recipient.\<close>

datatype kb_mail = StaleMail nat string | GapMail tenant_id string

record library =
  kb_desk :: desk
  kb_categories :: "kb_category list"
  kb_articles :: "kb_article list"
  user_groups :: "user_group list"
  kb_votes :: "kb_vote list"
  kb_gaps :: "kb_gap list"
  removed_files :: "string list"
  kb_mails :: "kb_mail list"

type_synonym 'a kbop = "(library, 'a) cmd"

abbreviation kb_base :: "library \<Rightarrow> store" where
  "kb_base k \<equiv> base (kb_desk k)"

definition in_kb :: "'a act \<Rightarrow> 'a kbop" where
  "in_kb c = (\<lambda>k. case c (kb_desk k) of (r, d') \<Rightarrow> (r, k\<lparr>kb_desk := d'\<rparr>))"

lemma run_in_kb [cmd_simps]: "in_kb c k = (fst (c (kb_desk k)), k\<lparr>kb_desk := snd (c (kb_desk k))\<rparr>)"
  by (simp add: in_kb_def split: prod.split)

section \<open>Saving an article\<close>

text \<open>
  The first of \<open>base\<close>, \<open>base-1\<close>, \<open>base-2\<close>, ... that no other article of the
  tenant has; the fuel is the number of the tenant's other articles.
\<close>

definition taken_slugs :: "library \<Rightarrow> tenant_id \<Rightarrow> nat \<Rightarrow> string list" where
  "taken_slugs k ten i = map art_slug (filter (\<lambda>a. art_tenant a = ten \<and> art_id a \<noteq> i) (kb_articles k))"

fun free_slug :: "string list \<Rightarrow> string \<Rightarrow> string \<Rightarrow> nat \<Rightarrow> nat \<Rightarrow> string option" where
  "free_slug taken stem slug counter 0 = None"
| "free_slug taken stem slug counter (Suc fuel) =
     (if slug \<notin> set taken then Some slug
      else free_slug taken stem (stem @ ''-'' @ show_nat counter) (counter + 1) fuel)"

definition generate_slug :: "(string \<Rightarrow> string) \<Rightarrow> string list \<Rightarrow> string \<Rightarrow> string option" where
  "generate_slug slugify taken title =
     (let base_slug = (if slugify title = [] then ''article'' else slugify title)
      in free_slug taken base_slug base_slug 1 (length taken + 1))"

definition stamp_article :: "instant \<Rightarrow> kb_article \<Rightarrow> kb_article" where
  "stamp_article now a =
     (let a = (if art_status a = KbPublished \<and> art_published_at a = None then a\<lparr>art_published_at := Some now\<rparr> else a)
      in if art_status a = KbPendingReview \<and> art_submitted_at a = None then a\<lparr>art_submitted_at := Some now\<rparr> else a)"

text \<open>What \<open>Article.save\<close> does to the instance.\<close>

definition prepare_article :: "(string \<Rightarrow> string) \<Rightarrow> library \<Rightarrow> kb_article \<Rightarrow> kb_article" where
  "prepare_article slugify k a =
     (let a = (if art_slug a \<noteq> [] then a
               else (case generate_slug slugify (taken_slugs k (art_tenant a) (art_id a)) (art_title a) of
                       Some s \<Rightarrow> a\<lparr>art_slug := s\<rparr> | None \<Rightarrow> a))
      in stamp_article (clock (kb_base k)) a)"

text \<open>A full save: the row is inserted or replaced; the pair of tenant and slug is unique.\<close>

definition store_article :: "kb_article \<Rightarrow> kb_article list \<Rightarrow> kb_article list" where
  "store_article a rows = (if list_ex (\<lambda>x. art_id x = art_id a) rows
     then map (\<lambda>x. if art_id x = art_id a then a else x) rows else a # rows)"

definition save_article :: "(string \<Rightarrow> string) \<Rightarrow> kb_article \<Rightarrow> kb_article kbop" where
  "save_article slugify a = bindc (asks (\<lambda>k. (prepare_article slugify k a, taken_slugs k (art_tenant a) (art_id a)))) (\<lambda>(a, taken).
     if art_slug a \<in> set taken then raise_exc (DatabaseError ''unique_together'')
     else thenc (update (\<lambda>k. k\<lparr>kb_articles := store_article a (kb_articles k)\<rparr>)) (ret a))"

text \<open>A save of some columns (\<open>update_fields\<close>), or an \<open>UPDATE\<close>.\<close>

definition write_article :: "nat \<Rightarrow> (kb_article \<Rightarrow> kb_article) \<Rightarrow> unit kbop" where
  "write_article i f = update (\<lambda>k. k\<lparr>kb_articles := map (\<lambda>a. if art_id a = i then f a else a) (kb_articles k)\<rparr>)"

definition save_category :: "(string \<Rightarrow> string) \<Rightarrow> kb_category \<Rightarrow> kb_category" where
  "save_category slugify c = (if cat_slug c = [] then c\<lparr>cat_slug := slugify (cat_name c)\<rparr> else c)"

section \<open>Who sees an article (\<open>views.py\<close>)\<close>

definition admin_or_manager :: "library \<Rightarrow> caller \<Rightarrow> bool" where
  "admin_or_manager k c \<longleftrightarrow> is_superuser c \<or> (case membership_of (kb_desk k) (user_id (caller_user c)) (caller_ten c) of
     None \<Rightarrow> False | Some m \<Rightarrow> level_of (kb_desk k) m \<le> 20)"

definition is_author :: "user \<Rightarrow> kb_article \<Rightarrow> bool" where
  "is_author u a \<longleftrightarrow> map_option user_id (art_author a) = Some (user_id u)"

text \<open>\<open>Q(allowed_groups__isnull=True) | Q(allowed_groups__members=user) | Q(author=user)\<close>\<close>

definition group_gate :: "library \<Rightarrow> user \<Rightarrow> kb_article \<Rightarrow> bool" where
  "group_gate k u a \<longleftrightarrow> art_groups a = []
     \<or> list_ex (\<lambda>g. group_id g \<in> set (art_groups a) \<and> user_id u \<in> set (group_members g)) (user_groups k)
     \<or> is_author u a"

definition tenant_articles :: "library \<Rightarrow> kb_article list" where
  "tenant_articles k = scoped (kb_base k) art_tenant (kb_articles k)"

definition visible_articles :: "library \<Rightarrow> caller \<Rightarrow> kb_article list" where
  "visible_articles k c =
     (if admin_or_manager k c then tenant_articles k
      else filter (\<lambda>a. (art_status a = KbPublished \<or> is_author (caller_user c) a) \<and> group_gate k (caller_user c) a) (tenant_articles k))"

text \<open>\<open>?slug=\<close> and \<open>?tag=\<close>; an absent or empty parameter does not filter.\<close>

definition list_articles :: "library \<Rightarrow> caller \<Rightarrow> string \<Rightarrow> string \<Rightarrow> kb_article list" where
  "list_articles k c slug tag = filter (\<lambda>a. (slug \<noteq> [] \<longrightarrow> art_slug a = slug) \<and> (tag \<noteq> [] \<longrightarrow> tag \<in> set (art_tags a))) (visible_articles k c)"

definition kb_permission :: "caller \<Rightarrow> string \<Rightarrow> unit kbop" where
  "kb_permission c action = bindc (asks (\<lambda>k. has_tenant_permission (kb_desk k) (api_of c) (Some ''kb_article'') action)) (\<lambda>granted.
     if granted then ret () else raise_exc (PermissionDenied action))"

definition get_article :: "caller \<Rightarrow> nat \<Rightarrow> kb_article kbop" where
  "get_article c i = bindc (asks (\<lambda>k. first_row (\<lambda>a. art_id a = i) (visible_articles k c))) (\<lambda>found. case found of
     None \<Rightarrow> raise_exc (DoesNotExist ''Article'') | Some a \<Rightarrow> ret a)"

section \<open>Creating and updating\<close>

text \<open>The body of a request: the fields that it gives.\<close>

record article_body =
  b_title :: "string option"
  b_slug :: "string option"
  b_content :: "string option"
  b_excerpt :: "string option"
  b_category :: "nat option option"
  b_status :: "kb_status option"
  b_pinned :: "bool option"
  b_tags :: "string list option"
  b_file :: "string option"
  b_file_name :: "string option"
  b_groups :: "nat list option"

definition slug_text :: "string \<Rightarrow> bool" where
  "slug_text s = list_all (\<lambda>c. is_digit c \<or> chr_range (CHR ''a'') (CHR ''z'') c \<or> chr_range (CHR ''A'') (CHR ''Z'') c \<or> c \<in> set ''_-'') s"

text \<open>\<open>ArticleCreateSerializer.is_valid\<close>; the fields of text are trimmed, tags may not be blank.\<close>

definition validate_article :: "library \<Rightarrow> tenant_id \<Rightarrow> bool \<Rightarrow> article_body \<Rightarrow> article_body res" where
  "validate_article k ten partial b =
     (let title = map_option strip (b_title b); slug = map_option strip (b_slug b)
      in if (title = None \<and> \<not> partial) \<or> title = Some [] then Inl (ValidationError ''title'')
         else if list_ex (\<lambda>s. length s > 255) (List.map_filter id [title, slug]) then Inl (ValidationError ''max_length'')
         else if slug \<noteq> None \<and> \<not> slug_text (the slug) then Inl (ValidationError ''slug'')
         else if (case b_category b of Some (Some i) \<Rightarrow> \<not> list_ex (\<lambda>x. cat_id x = i) (scoped (kb_base k) cat_tenant (kb_categories k)) | _ \<Rightarrow> False)
           then Inl (ValidationError ''category'')
         else if (case b_tags b of Some ts \<Rightarrow> list_ex (\<lambda>t. strip t = []) ts | None \<Rightarrow> False) then Inl (ValidationError ''tags'')
         else if (case b_groups b of Some gs \<Rightarrow> list_ex (\<lambda>i. \<not> list_ex (\<lambda>g. group_id g = i \<and> group_tenant g = ten) (user_groups k)) gs | None \<Rightarrow> False)
           then Inl (ValidationError ''allowed_groups'')
         else Inr (b\<lparr>b_title := title, b_slug := slug, b_content := map_option strip (b_content b), b_excerpt := map_option strip (b_excerpt b),
           b_pinned := (if b_pinned b = None \<and> \<not> partial then Some False else b_pinned b),
           b_tags := (if b_tags b = None \<and> \<not> partial then Some [] else map_option (map strip) (b_tags b)),
           b_file_name := map_option strip (b_file_name b)\<rparr>))"

definition given :: "'v option \<Rightarrow> 'v \<Rightarrow> 'v" where
  "given x v = (case x of None \<Rightarrow> v | Some w \<Rightarrow> w)"

text \<open>The validated fields on the instance; a new file is stored under a name of the storage.\<close>

definition set_article :: "(string \<Rightarrow> string) \<Rightarrow> article_body \<Rightarrow> kb_article \<Rightarrow> kb_article" where
  "set_article stored_as b a = a\<lparr>art_title := given (b_title b) (art_title a), art_slug := given (b_slug b) (art_slug a),
     art_content := given (b_content b) (art_content a), art_excerpt := given (b_excerpt b) (art_excerpt a),
     art_category := given (b_category b) (art_category a), art_status := given (b_status b) (art_status a),
     art_pinned := given (b_pinned b) (art_pinned a), art_tags := given (b_tags b) (art_tags a),
     art_file := (case b_file b of None \<Rightarrow> art_file a | Some f \<Rightarrow> Some (stored_as f)),
     art_file_name := given (b_file_name b) (art_file_name a), art_groups := given (b_groups b) (art_groups a)\<rparr>"

text \<open>\<open>extra["file_name"]\<close>: the name of the uploaded file when the body names none.\<close>

definition name_file :: "article_body \<Rightarrow> article_body" where
  "name_file b = (case b_file b of
     Some f \<Rightarrow> if b_file_name b = None \<or> b_file_name b = Some [] then b\<lparr>b_file_name := Some f\<rparr> else b
   | None \<Rightarrow> b)"

definition new_article :: "nat \<Rightarrow> tenant_id \<Rightarrow> user \<Rightarrow> kb_article" where
  "new_article i ten u = \<lparr>art_id = i, art_tenant = ten, art_title = [], art_slug = [], art_content = [], art_excerpt = [],
     art_category = None, art_author = Some u, art_status = KbDraft, art_pinned = False, art_views = 0, art_published_at = None,
     art_tags = [], art_file = None, art_file_name = [], art_reviewer = None, art_reviewed_at = None, art_submitted_at = None,
     art_rejection = [], art_visibility = KbInternal, art_groups = [], art_review_at = None\<rparr>"

definition create_article :: "(string \<Rightarrow> string) \<Rightarrow> (string \<Rightarrow> string) \<Rightarrow> caller \<Rightarrow> article_body \<Rightarrow> kb_article kbop" where
  "create_article slugify stored_as c body =
     thenc (kb_permission c ''create'')
     (bindc (asks (\<lambda>k. validate_article k (caller_ten c) False body)) (\<lambda>checked.
      bindc (lift_res checked) (\<lambda>b.
      bindc (asks (\<lambda>k. admin_or_manager k c)) (\<lambda>manager.
      bindc (in_kb fresh_pk) (\<lambda>i.
        save_article slugify (set_article stored_as ((name_file b)\<lparr>b_status := (if manager then b_status b else Some KbDraft)\<rparr>)
          (new_article i (caller_ten c) (caller_user c))))))))"

text \<open>\<open>perform_update\<close>\<close>

definition agent_may_edit :: "caller \<Rightarrow> kb_article \<Rightarrow> unit res" where
  "agent_may_edit c a =
     (if \<not> is_author (caller_user c) a then Inl (PermissionDenied ''You can only edit your own articles.'')
      else if art_status a = KbPendingReview then Inl (PermissionDenied ''This article is locked while under review.'')
      else Inr ())"

definition agent_status :: "kb_status option \<Rightarrow> kb_status option" where
  "agent_status requested = (if requested = Some KbPublished \<or> requested = Some KbPendingReview then Some KbDraft else requested)"

definition update_article :: "(string \<Rightarrow> string) \<Rightarrow> (string \<Rightarrow> string) \<Rightarrow> caller \<Rightarrow> bool \<Rightarrow> nat \<Rightarrow> article_body \<Rightarrow> kb_article kbop" where
  "update_article slugify stored_as c partial i body =
     thenc (kb_permission c (if partial then ''partial_update'' else ''update''))
     (bindc (get_article c i) (\<lambda>a.
      bindc (asks (\<lambda>k. validate_article k (caller_ten c) partial body)) (\<lambda>checked.
      bindc (lift_res checked) (\<lambda>b.
      bindc (asks (\<lambda>k. admin_or_manager k c)) (\<lambda>manager.
      thenc (if manager then ret () else lift_res (agent_may_edit c a))
        (save_article slugify (set_article stored_as
          ((name_file b)\<lparr>b_status := (if manager then b_status b else agent_status (b_status b))\<rparr>) a)))))))"

definition destroy_article :: "caller \<Rightarrow> nat \<Rightarrow> unit kbop" where
  "destroy_article c i = thenc (kb_permission c ''destroy'') (bindc (get_article c i) (\<lambda>a.
     update (\<lambda>k. k\<lparr>kb_articles := filter (\<lambda>x. art_id x \<noteq> i) (kb_articles k), kb_votes := filter (\<lambda>v. vote_article v \<noteq> i) (kb_votes k)\<rparr>)))"

section \<open>The review\<close>

definition author_name :: "kb_article \<Rightarrow> string" where
  "author_name a = (case art_author a of
     None \<Rightarrow> ''Someone''
   | Some u \<Rightarrow> if get_full_name u \<noteq> [] then get_full_name u else email u)"

definition review_data :: "kb_article \<Rightarrow> json" where
  "review_data a = JObj [(''article_id'', jpk (art_id a)), (''article_title'', JStr (art_title a)),
     (''url'', JStr (''/knowledge/'' @ art_slug a @ ''/''))]"

text \<open>The reviewers: by the role of the membership, not by a temporary one.\<close>

definition reviewers :: "desk \<Rightarrow> tenant_id \<Rightarrow> user list" where
  "reviewers d ten = map member_user (filter (\<lambda>m. member_tenant m = ten \<and> member_active m \<and> hierarchy_level (member_role m) \<le> 20)
     (memberships (base d)))"

definition submit_for_review :: "caller \<Rightarrow> nat \<Rightarrow> response kbop" where
  "submit_for_review c i =
     thenc (kb_permission c ''submit_for_review'')
     (bindc (get_article c i) (\<lambda>a.
      bindc (asks (\<lambda>k. admin_or_manager k c)) (\<lambda>manager.
      if \<not> is_author (caller_user c) a \<and> \<not> manager then ret (Response 403 ''Only the author can submit for review.'')
      else if art_status a \<notin> {KbDraft, KbRejected} then ret (Response 400 ''Only draft or rejected articles can be submitted for review.'')
      else bindc (in_kb now_of) (\<lambda>now.
        thenc (write_article i (\<lambda>x. x\<lparr>art_status := KbPendingReview, art_submitted_at := Some now, art_rejection := [],
          art_reviewer := None, art_reviewed_at := None\<rparr>))
        (bindc (asks (\<lambda>k. filter (\<lambda>u. user_id u \<noteq> user_id (caller_user c)) (reviewers (kb_desk k) (caller_ten c)))) (\<lambda>us.
          thenc (for_each us (\<lambda>u _. in_kb (notify (caller_ten c) u NKbReviewRequested (review_data a))) ())
            (ret (Response 200 []))))))))"

definition tell_author :: "caller \<Rightarrow> kb_article \<Rightarrow> (string \<times> json) list \<Rightarrow> unit kbop" where
  "tell_author c a extra = (case art_author a of
     None \<Rightarrow> ret ()
   | Some u \<Rightarrow> whenc (user_id u \<noteq> user_id (caller_user c))
       (in_kb (notify (caller_ten c) u NKbArticleReviewed
         (JObj ([(''article_id'', jpk (art_id a)), (''article_title'', JStr (art_title a))] @ extra)))))"

definition approve_article :: "caller \<Rightarrow> nat \<Rightarrow> response kbop" where
  "approve_article c i =
     thenc (kb_permission c ''approve'')
     (bindc (asks (\<lambda>k. admin_or_manager k c)) (\<lambda>manager.
      if \<not> manager then ret (Response 403 ''Only admins and managers can approve articles.'')
      else bindc (get_article c i) (\<lambda>a.
      if art_status a \<noteq> KbPendingReview then ret (Response 400 ''Only articles pending review can be approved.'')
      else bindc (in_kb now_of) (\<lambda>now.
        thenc (write_article i (\<lambda>x. x\<lparr>art_status := KbPublished, art_reviewer := Some (caller_user c), art_reviewed_at := Some now,
          art_published_at := Some now\<rparr>))
        (thenc (tell_author c a [(''action'', JStr ''approved'')]) (ret (Response 200 [])))))))"

definition reject_article :: "caller \<Rightarrow> nat \<Rightarrow> string \<Rightarrow> response kbop" where
  "reject_article c i reason =
     thenc (kb_permission c ''reject'')
     (bindc (asks (\<lambda>k. admin_or_manager k c)) (\<lambda>manager.
      if \<not> manager then ret (Response 403 ''Only admins and managers can reject articles.'')
      else if strip reason = [] \<or> length (strip reason) > 2000 then raise_exc (ValidationError ''rejection_reason'')
      else bindc (get_article c i) (\<lambda>a.
      if art_status a \<noteq> KbPendingReview then ret (Response 400 ''Only articles pending review can be rejected.'')
      else bindc (in_kb now_of) (\<lambda>now.
        thenc (write_article i (\<lambda>x. x\<lparr>art_status := KbRejected, art_rejection := strip reason, art_reviewer := Some (caller_user c),
          art_reviewed_at := Some now\<rparr>))
        (thenc (tell_author c a [(''action'', JStr ''rejected''), (''reason'', JStr (strip reason)),
            (''reviewer_name'', JStr (display_name (caller_user c))), (''reviewed_at'', jtime now)])
          (ret (Response 200 [])))))))"

section \<open>Views, files, votes\<close>

definition record_view :: "caller \<Rightarrow> nat \<Rightarrow> unit kbop" where
  "record_view c i = thenc (kb_permission c ''record_view'') (bindc (get_article c i) (\<lambda>a.
     write_article i (\<lambda>x. x\<lparr>art_views := art_views x + 1\<rparr>)))"

definition remove_file :: "caller \<Rightarrow> nat \<Rightarrow> unit kbop" where
  "remove_file c i = thenc (kb_permission c ''remove_file'') (bindc (get_article c i) (\<lambda>a.
     thenc (case art_file a of None \<Rightarrow> ret () | Some f \<Rightarrow> update (\<lambda>k. k\<lparr>removed_files := f # removed_files k\<rparr>))
       (write_article i (\<lambda>x. x\<lparr>art_file := None, art_file_name := []\<rparr>))))"

text \<open>How the file of an article is previewed, by its extension.\<close>

datatype preview = AsHtml | InFrame | AsImage | AsText | NoPreview

definition extension :: "string \<Rightarrow> string" where
  "extension name = (if CHR ''.'' \<in> set name then lower (last (split_on (CHR ''.'') name)) else [])"

definition preview_kind :: "string \<Rightarrow> preview" where
  "preview_kind name =
     (let ext = extension name
      in if ext = ''docx'' then AsHtml
         else if ext = ''pdf'' then InFrame
         else if ext \<in> {''png'', ''jpg'', ''jpeg'', ''gif'', ''webp'', ''svg'', ''bmp''} then AsImage
         else if ext \<in> {''txt'', ''csv'', ''log'', ''md'', ''json'', ''xml'', ''html'', ''css'', ''js''} then AsText
         else NoPreview)"

definition preview_file :: "caller \<Rightarrow> nat \<Rightarrow> (string \<times> preview) option kbop" where
  "preview_file c i = thenc (kb_permission c ''preview_file'') (bindc (get_article c i) (\<lambda>a. ret (case art_file a of
     None \<Rightarrow> None
   | Some f \<Rightarrow> let name = (if art_file_name a \<noteq> [] then art_file_name a else last (split_on (CHR ''/'') f))
               in Some (name, preview_kind name))))"

text \<open>The vote of a session, or of an address when the request has no session.\<close>

definition vote_article_action :: "caller \<Rightarrow> nat \<Rightarrow> json \<Rightarrow> string option \<Rightarrow> string option \<Rightarrow> unit kbop" where
  "vote_article_action c i body session_key remote_addr =
     thenc (kb_permission c ''vote'') (bindc (get_article c i) (\<lambda>a.
       let helpful = (case jget body ''helpful'' of None \<Rightarrow> True | Some v \<Rightarrow> truthy v);
           key = (case session_key of Some s \<Rightarrow> if s \<noteq> [] then s else given remote_addr ''anon'' | None \<Rightarrow> given remote_addr ''anon'');
           row = \<lparr>vote_article = i, vote_key = key, vote_helpful = helpful\<rparr>
       in update (\<lambda>k. k\<lparr>kb_votes := (if list_ex (\<lambda>v. vote_article v = i \<and> vote_key v = key) (kb_votes k)
            then map (\<lambda>v. if vote_article v = i \<and> vote_key v = key then row else v) (kb_votes k)
            else kb_votes k @ [row])\<rparr>)))"

section \<open>Search (\<open>search.py\<close>)\<close>

definition note_gap :: "tenant_id \<Rightarrow> string \<Rightarrow> string \<Rightarrow> unit kbop" where
  "note_gap ten q source = update (\<lambda>k.
     let query = take 255 (lower q); mine = (\<lambda>g. gap_tenant g = ten \<and> gap_query g = query \<and> gap_source g = source)
     in k\<lparr>kb_gaps := (if list_ex mine (kb_gaps k) then map (\<lambda>g. if mine g then g\<lparr>gap_count := gap_count g + 1\<rparr> else g) (kb_gaps k)
          else kb_gaps k @ [\<lparr>gap_tenant = ten, gap_query = query, gap_source = source, gap_count = 1\<rparr>])\<rparr>)"

definition kb_search :: "(string \<Rightarrow> kb_article \<Rightarrow> bool) \<Rightarrow> (string \<Rightarrow> kb_article \<Rightarrow> rat) \<Rightarrow> tenant_id \<Rightarrow> string \<Rightarrow> kb_visibility list \<Rightarrow> string \<Rightarrow> caller option \<Rightarrow> kb_article list kbop" where
  "kb_search matches rank ten q shown source who =
     bindc (asks (\<lambda>k. filter (\<lambda>a. art_tenant a = ten \<and> art_status a = KbPublished \<and> art_visibility a \<in> set shown \<and> matches q a
         \<and> (case who of None \<Rightarrow> True | Some c \<Rightarrow> is_superuser c \<or> group_gate k (caller_user c) a)) (tenant_articles k))) (\<lambda>found.
     let results = take 10 (sort_key (\<lambda>a. - rank q a) (sort_key (\<lambda>a. - int (art_views a)) found))
     in thenc (whenc (results = []) (note_gap ten q source)) (ret results))"

definition search_view :: "(string \<Rightarrow> kb_article \<Rightarrow> bool) \<Rightarrow> (string \<Rightarrow> kb_article \<Rightarrow> rat) \<Rightarrow> caller \<Rightarrow> string \<Rightarrow> string option \<Rightarrow> kb_article list kbop" where
  "search_view matches rank c text source =
     bindc (asks (\<lambda>k. is_tenant_member (kb_desk k) (api_of c))) (\<lambda>member.
     if \<not> member then raise_exc (PermissionDenied ''member'')
     else if length (strip text) < 2 then ret []
     else kb_search matches rank (caller_ten c) (strip text) [KbInternal, KbPublic] (given source ''agent'') (Some c))"

section \<open>Mails (\<open>tasks.py\<close>)\<close>

definition stale :: "date \<Rightarrow> kb_article \<Rightarrow> bool" where
  "stale today a \<longleftrightarrow> art_status a = KbPublished \<and> (case art_review_at a of None \<Rightarrow> False | Some t \<Rightarrow> t \<le> today)"

definition overdue :: "date \<Rightarrow> kb_article \<Rightarrow> bool" where
  "overdue today a \<longleftrightarrow> (case art_review_at a of None \<Rightarrow> False | Some t \<Rightarrow> today - t \<ge> 7)"

definition alert_article :: "date \<Rightarrow> kb_article \<Rightarrow> unit kbop" where
  "alert_article today a =
     thenc (case art_author a of None \<Rightarrow> ret ()
            | Some u \<Rightarrow> whenc (email u \<noteq> []) (update (\<lambda>k. k\<lparr>kb_mails := kb_mails k @ [StaleMail (art_id a) (email u)]\<rparr>)))
       (whenc (overdue today a) (write_article (art_id a) (\<lambda>x. x\<lparr>art_status := KbFlagged\<rparr>)))"

definition alert_stale_articles :: "date \<Rightarrow> unit kbop" where
  "alert_stale_articles today = bindc (asks (\<lambda>k. filter (stale today) (kb_articles k))) (\<lambda>rows.
     for_each rows (\<lambda>a _. alert_article today a) ())"

definition top_gaps :: "library \<Rightarrow> tenant_id \<Rightarrow> kb_gap list" where
  "top_gaps k ten = take 10 (sort_key (\<lambda>g. - int (gap_count g)) (filter (\<lambda>g. gap_tenant g = ten) (kb_gaps k)))"

definition send_gap_digest :: "unit kbop" where
  "send_gap_digest = bindc (asks (\<lambda>k. filter tenant_active (tenants (kb_desk k)))) (\<lambda>ts.
     for_each ts (\<lambda>t _. update (\<lambda>k. if top_gaps k (tenant_id t) = [] then k
       else k\<lparr>kb_mails := kb_mails k @ map (\<lambda>m. GapMail (tenant_id t) (email (member_user m)))
         (filter (\<lambda>m. member_tenant m = tenant_id t \<and> hierarchy_level (member_role m) \<le> 10 \<and> email (member_user m) \<noteq> [])
           (memberships (kb_base k)))\<rparr>)) ())"

end
