(* ===== verification/Knowledge_Laws.thy ===== *)
theory Knowledge_Laws
  imports Email_Text_Laws Knowledge
begin

text \<open>
  What the knowledge base guarantees: agents publish nothing and change nothing
  under review or of others, whatever requests they send; the slug of an article is
  always found; the search finds only what the list shows; overdue articles are
  flagged.
\<close>

section \<open>Slugs\<close>

definition candidate :: "string \<Rightarrow> nat \<Rightarrow> string" where
  "candidate stem n = (if n = 0 then stem else stem @ ''-'' @ show_nat n)"

lemma show_nat_inj: "show_nat m = show_nat n \<longleftrightarrow> m = n"
  by (metis show_nat_digits)

lemma candidate_inj: "inj (candidate stem)"
  by (auto simp: inj_on_def candidate_def show_nat_inj split: if_splits)

lemma free_slug_None:
  "free_slug taken stem (candidate stem m) (m + 1) fuel = None \<Longrightarrow> n < fuel \<Longrightarrow> candidate stem (m + n) \<in> set taken"
proof (induction fuel arbitrary: m n)
  case (Suc fuel)
  have taken: "candidate stem m \<in> set taken" and rest: "free_slug taken stem (candidate stem (Suc m)) (Suc m + 1) fuel = None"
    using Suc.prems(1) by (auto simp: candidate_def split: if_splits)
  show ?case using Suc.IH [OF rest, of "n - 1"] Suc.prems(2) taken by (cases n) auto
qed simp

lemma free_slug_Some: "free_slug taken stem slug c fuel = Some s \<Longrightarrow> s \<notin> set taken"
  by (induction taken stem slug c fuel rule: free_slug.induct) (auto split: if_splits)

text \<open>The loop of the slug ends within one round more than there are articles, with a slug that is free.\<close>

theorem slug_found: "\<exists>s. generate_slug slugify taken title = Some s \<and> s \<notin> set taken"
proof (cases "generate_slug slugify taken title")
  case None
  then obtain stem where "free_slug taken stem (candidate stem 0) (0 + 1) (length taken + 1) = None"
    unfolding generate_slug_def Let_def by (simp add: candidate_def)
  from free_slug_None [OF this] have "candidate stem ` {..length taken} \<subseteq> set taken" by auto
  then have "card (candidate stem ` {..length taken}) \<le> length taken" by (meson card_length card_mono finite_set le_trans)
  moreover have "card (candidate stem ` {..length taken}) = length taken + 1"
    by (subst card_image) (auto intro: inj_on_subset [OF candidate_inj])
  ultimately show ?thesis by simp
next
  case (Some s)
  then obtain stem c fuel where "free_slug taken stem stem c fuel = Some s" unfolding generate_slug_def Let_def by blast
  with Some show ?thesis by (auto dest: free_slug_Some)
qed

section \<open>What agents do to the articles\<close>

definition kb_frame :: "library \<Rightarrow> library \<Rightarrow> bool" where
  "kb_frame k k' \<longleftrightarrow> memberships (kb_base k') = memberships (kb_base k) \<and> clock (kb_base k') = clock (kb_base k)
     \<and> current_tenant (kb_base k') = current_tenant (kb_base k)"

definition kb_ok :: "library \<Rightarrow> bool" where
  "kb_ok k \<longleftrightarrow> distinct (map art_id (kb_articles k)) \<and> list_all (\<lambda>a. art_id a < next_pk (kb_base k)) (kb_articles k)"

text \<open>The text of an article, its status and who may read it.\<close>

definition substance :: "kb_article \<Rightarrow> (string \<times> string \<times> string \<times> string) \<times> kb_status \<times> nat option \<times> nat list" where
  "substance a = ((art_title a, art_slug a, art_content a, art_excerpt a), art_status a, art_category a, art_groups a)"

definition agent_change :: "user \<Rightarrow> kb_article \<Rightarrow> kb_article \<Rightarrow> bool" where
  "agent_change u a a' \<longleftrightarrow> art_id a' = art_id a \<and> art_tenant a' = art_tenant a \<and> art_author a' = art_author a
     \<and> (art_status a' = KbPublished \<longrightarrow> art_status a = KbPublished)
     \<and> (art_status a = KbPendingReview \<or> \<not> is_author u a \<longrightarrow> substance a' = substance a)"

definition agent_kept :: "caller \<Rightarrow> library \<Rightarrow> library \<Rightarrow> bool" where
  "agent_kept c k k' \<longleftrightarrow> (kb_ok k \<and> \<not> admin_or_manager k c \<longrightarrow> kb_ok k' \<and> kb_frame k k' \<and> next_pk (kb_base k) \<le> next_pk (kb_base k')
     \<and> (\<forall>a' \<in> set (kb_articles k'). (\<exists>a \<in> set (kb_articles k). agent_change (caller_user c) a a')
        \<or> (is_author (caller_user c) a' \<and> art_status a' \<noteq> KbPublished)))"

lemma change_refl: "agent_change u a a"
  by (simp add: agent_change_def)

lemma substance_status: "substance a = substance b \<Longrightarrow> art_status a = art_status b"
  by (simp add: substance_def)

lemma change_trans:
  assumes "agent_change u a b" "agent_change u b c"
  shows "agent_change u a c"
proof -
  have "substance c = substance a" if "art_status a = KbPendingReview \<or> \<not> is_author u a"
  proof -
    have b: "substance b = substance a" using assms(1) that by (simp add: agent_change_def)
    then have "art_status b = KbPendingReview \<or> \<not> is_author u b"
      using that assms(1) substance_status [OF b] by (auto simp: agent_change_def is_author_def)
    then show ?thesis using assms(2) b by (simp add: agent_change_def)
  qed
  then show ?thesis using assms by (simp add: agent_change_def)
qed

lemma change_own: "agent_change u a b \<Longrightarrow> is_author u a \<Longrightarrow> art_status a \<noteq> KbPublished \<Longrightarrow> is_author u b \<and> art_status b \<noteq> KbPublished"
  by (auto simp: agent_change_def is_author_def)

lemma frame_manager:
  assumes "kb_frame k k'"
  shows "admin_or_manager k' c = admin_or_manager k c"
proof -
  have "level_of (kb_desk k') m = level_of (kb_desk k) m" for m using assms by (simp add: level_of_def kb_frame_def)
  then show ?thesis using assms by (auto simp: kb_frame_def admin_or_manager_def membership_of_def split: option.splits)
qed

lemma agent_kept_trans:
  assumes "agent_kept c k k1" "agent_kept c k1 k2"
  shows "agent_kept c k k2"
proof -
  have later: "kb_ok k1 \<and> \<not> admin_or_manager k1 c" if "kb_ok k" "\<not> admin_or_manager k c"
    using assms(1) that by (auto simp: agent_kept_def frame_manager)
  have "(\<exists>a \<in> set (kb_articles k). agent_change (caller_user c) a a2) \<or> (is_author (caller_user c) a2 \<and> art_status a2 \<noteq> KbPublished)"
    if ok: "kb_ok k" "\<not> admin_or_manager k c" and a2: "a2 \<in> set (kb_articles k2)" for a2
  proof -
    from later [OF ok] consider a1 where "a1 \<in> set (kb_articles k1)" "agent_change (caller_user c) a1 a2" | "is_author (caller_user c) a2 \<and> art_status a2 \<noteq> KbPublished"
      using assms(2) a2 unfolding agent_kept_def by blast
    then show ?thesis
    proof cases
      case 1
      then consider a where "a \<in> set (kb_articles k)" "agent_change (caller_user c) a a1" | "is_author (caller_user c) a1" "art_status a1 \<noteq> KbPublished"
        using assms(1) ok unfolding agent_kept_def by blast
      then show ?thesis using 1(2) by (cases; blast intro: change_trans dest: change_own)
    qed blast
  qed
  moreover have "kb_frame k k2 \<and> next_pk (kb_base k) \<le> next_pk (kb_base k2) \<and> kb_ok k2" if "kb_ok k" "\<not> admin_or_manager k c"
    using assms later [OF that] that by (auto simp: agent_kept_def kb_frame_def)
  ultimately show ?thesis unfolding agent_kept_def by blast
qed

interpretation kb: step_law "agent_kept c" for c
proof
  show "agent_kept c k k" for k by (auto simp: agent_kept_def kb_frame_def intro: change_refl)
qed (rule agent_kept_trans)

text \<open>A write that leaves the articles alone, or changes the rows of one id in an allowed way.\<close>

lemma kept_same:
  assumes "kb_frame k k'" "next_pk (kb_base k) \<le> next_pk (kb_base k')" and "set (kb_articles k') \<subseteq> set (kb_articles k)" "distinct (map art_id (kb_articles k)) \<Longrightarrow> distinct (map art_id (kb_articles k'))"
  shows "agent_kept c k k'"
  using assms by (auto simp: agent_kept_def kb_ok_def list_all_iff intro: change_refl less_le_trans)

lemma kept_write:
  assumes "\<And>a. a \<in> set (kb_articles k) \<Longrightarrow> art_id a = i \<Longrightarrow> \<not> admin_or_manager k c \<Longrightarrow> kb_ok k \<Longrightarrow> agent_change (caller_user c) a (f a)"
    and same: "\<And>a. art_id (f a) = art_id a"
  shows "agent_kept c k (snd (write_article i f k))"
proof -
  have ids: "map art_id (map (\<lambda>a. if art_id a = i then f a else a) rows) = map art_id rows"
    "list_all (\<lambda>a. art_id a < n) (map (\<lambda>a. if art_id a = i then f a else a) rows) = list_all (\<lambda>a. art_id a < n) rows" for rows n
    by (induction rows) (auto simp: same)
  have ok: "kb_ok (snd (write_article i f k)) = kb_ok k"
    unfolding kb_ok_def write_article_def by (simp add: cmd_simps ids del: map_map list.pred_map)
  show ?thesis
    unfolding agent_kept_def ok
    using assms(1) by (auto simp: write_article_def cmd_simps kb_frame_def intro: change_refl)
qed

lemma in_kb_kept:
  assumes "\<And>d. memberships (base (snd (q d))) = memberships (base d) \<and> clock (base (snd (q d))) = clock (base d)
     \<and> current_tenant (base (snd (q d))) = current_tenant (base d) \<and> next_pk (base d) \<le> next_pk (base (snd (q d)))"
  shows "obeys (agent_kept c) (in_kb q)"
  using assms by (auto simp: obeys_def cmd_simps kb_frame_def intro!: kept_same)

lemma notify_kept: "obeys (agent_kept c) (in_kb (notify ten u kind data))" "obeys (agent_kept c) (in_kb now_of)" "obeys (agent_kept c) (in_kb fresh_pk)"
  by (rule in_kb_kept; simp add: notify_def bindc_def send_notification_run ret_def cmd_simps)+

lemma kb_permission_kept: "obeys (agent_kept c) (kb_permission c' action)"
  unfolding kb_permission_def by (intro kb.obeys_bind kb.obeys_asks kb.obeys_if kb.obeys_ret kb.obeys_raise)

lemma kb_side_kept:
  "obeys (agent_kept c) (update (\<lambda>k. k\<lparr>kb_votes := f k\<rparr>))" "obeys (agent_kept c) (update (\<lambda>k. k\<lparr>removed_files := g k\<rparr>))"
  "obeys (agent_kept c) (update (\<lambda>k. k\<lparr>kb_articles := filter p (kb_articles k), kb_votes := f k\<rparr>))"
  "obeys (agent_kept c) (note_gap ten q source)"
  by (auto simp: obeys_def cmd_simps note_gap_def Let_def kb_frame_def distinct_map intro!: kept_same intro: inj_on_subset)

lemma kept_manager: "admin_or_manager k c \<Longrightarrow> agent_kept c k k'" "\<not> kb_ok k \<Longrightarrow> agent_kept c k k'"
  by (simp_all add: agent_kept_def)

text \<open>An action on an article: the caller sees it, and the state is the one it was read in.\<close>

lemma get_then:
  assumes "\<And>k a. a \<in> set (visible_articles k c) \<Longrightarrow> art_id a = i \<Longrightarrow> agent_kept c k (snd (f a k))"
  shows "obeys (agent_kept c) (bindc (get_article c i) f)"
  using assms by (auto simp: obeys_def get_article_def cmd_simps kb.step_refl dest!: first_row_SomeD split: option.splits)

lemma get_obeys: "(\<And>a. obeys (agent_kept c) (f a)) \<Longrightarrow> obeys (agent_kept c) (bindc (get_article c i) f)"
  by (rule get_then) (simp add: obeys_def)

lemma visible_stored: "a \<in> set (visible_articles k c) \<Longrightarrow> a \<in> set (kb_articles k)"
  by (auto simp: visible_articles_def tenant_articles_def scoped_def split: if_splits option.splits)

lemma article_row: "kb_ok k \<Longrightarrow> a \<in> set (kb_articles k) \<Longrightarrow> x \<in> set (kb_articles k) \<Longrightarrow> art_id x = art_id a \<Longrightarrow> x = a"
  by (auto simp: kb_ok_def distinct_map inj_on_def)

section \<open>The requests of an agent\<close>

lemma prepared: "substance (prepare_article slugify k a) = (let s = art_slug (prepare_article slugify k a) in
    ((art_title a, s, art_content a, art_excerpt a), art_status a, art_category a, art_groups a))"
  "art_id (prepare_article slugify k a) = art_id a" "art_author (prepare_article slugify k a) = art_author a"
  "art_tenant (prepare_article slugify k a) = art_tenant a" "art_status (prepare_article slugify k a) = art_status a"
  by (auto simp: prepare_article_def stamp_article_def Let_def substance_def split: option.split)

text \<open>A full save of a row the agent may write: his own, new or not, and published only if it was.\<close>

lemma kept_save:
  assumes own: "is_author (caller_user c) a" and id: "art_id a < next_pk (kb_base k)"
    and before: "art_status a = KbPublished \<Longrightarrow> \<exists>x \<in> set (kb_articles k). agent_change (caller_user c) x a"
    and others: "\<forall>x \<in> set (kb_articles k). art_id x = art_id a \<longrightarrow> art_status x \<noteq> KbPendingReview \<and> is_author (caller_user c) x"
  shows "agent_kept c k (snd (save_article slugify a k))"
proof (cases "art_slug (prepare_article slugify k a) \<in> set (taken_slugs k (art_tenant a) (art_id a))")
  case True
  then show ?thesis by (simp add: save_article_def cmd_simps kb.step_refl)
next
  case False
  let ?a = "prepare_article slugify k a" and ?k = "snd (save_article slugify a k)"
  have rows: "?k = k\<lparr>kb_articles := store_article ?a (kb_articles k)\<rparr>" using False by (simp add: save_article_def cmd_simps)
  have members: "set (kb_articles ?k) \<subseteq> insert ?a (set (kb_articles k))" by (auto simp: rows store_article_def)
  have ids: "map art_id (map (\<lambda>x. if art_id x = art_id ?a then ?a else x) xs) = map art_id xs"
    "list_all (\<lambda>x. art_id x < n) xs \<Longrightarrow> art_id ?a < n \<Longrightarrow> list_all (\<lambda>x. art_id x < n) (map (\<lambda>x. if art_id x = art_id ?a then ?a else x) xs)" for xs n
    by (induction xs) auto
  have "kb_ok ?k" if "kb_ok k"
    using that id ids unfolding kb_ok_def rows store_article_def
    by (auto simp: prepared list_ex_iff simp del: map_map list.pred_map)
  moreover have "(\<exists>x \<in> set (kb_articles k). agent_change (caller_user c) x ?a) \<or> (is_author (caller_user c) ?a \<and> art_status ?a \<noteq> KbPublished)"
  proof (cases "art_status a = KbPublished")
    case True
    then obtain x where x: "x \<in> set (kb_articles k)" "agent_change (caller_user c) x a" using before by blast
    then have "art_id x = art_id a" by (simp add: agent_change_def)
    with others x have "agent_change (caller_user c) x ?a" by (auto simp: agent_change_def prepared)
    with x show ?thesis by blast
  qed (use own in \<open>simp add: prepared is_author_def\<close>)
  ultimately show ?thesis
    using members by (auto simp: agent_kept_def kb_frame_def rows intro: change_refl)
qed

lemma kept_bind:
  assumes "agent_kept c k (snd (q k))" "\<And>a k1. q k = (Inr a, k1) \<Longrightarrow> agent_kept c k1 (snd (f a k1))"
  shows "agent_kept c k (snd (bindc q f k))"
proof (cases "q k")
  case (Pair r k1)
  with assms show ?thesis
    by (cases r) (auto simp: bindc_def intro: agent_kept_trans)
qed

lemma create_kept: "obeys (agent_kept c) (create_article slugify stored_as c body)"
proof -
  have saved: "agent_kept c k (snd (bindc (asks (\<lambda>k. admin_or_manager k c)) (\<lambda>manager. bindc (in_kb fresh_pk) (\<lambda>i.
        save_article slugify (set_article stored_as ((name_file b)\<lparr>b_status := (if manager then b_status b else Some KbDraft)\<rparr>)
          (new_article i (caller_ten c) (caller_user c))))) k))" for k b
  proof (cases "kb_ok k \<and> \<not> admin_or_manager k c")
    case True
    let ?k = "snd (in_kb fresh_pk k)"
      and ?a = "set_article stored_as ((name_file b)\<lparr>b_status := Some KbDraft\<rparr>) (new_article (next_pk (kb_base k)) (caller_ten c) (caller_user c))"
    have a: "art_id ?a = next_pk (kb_base k)" "is_author (caller_user c) ?a" "art_status ?a = KbDraft"
      by (simp_all add: set_article_def new_article_def is_author_def given_def)
    have "agent_kept c k ?k" using notify_kept(3) by (simp add: obeys_def)
    moreover have "agent_kept c ?k (snd (save_article slugify ?a ?k))"
      using True a by (intro kept_save) (auto simp: cmd_simps kb_ok_def list_all_iff)
    ultimately show ?thesis
      using True by (simp add: bindc_def asks_def run_in_kb run_fresh) (blast intro: agent_kept_trans)
  qed (auto intro: kept_manager)
  show ?thesis
    unfolding create_article_def
    by (rule kb.obeys_then [OF kb_permission_kept], rule kb.obeys_bind [OF kb.obeys_asks], rule kb.obeys_bind [OF kb.obeys_lift],
        unfold obeys_def, intro allI, rule saved)
qed

lemma update_kept: "obeys (agent_kept c) (update_article slugify stored_as c partial i body)"
proof -
  have "agent_kept c k (snd (bindc (asks (\<lambda>k. validate_article k (caller_ten c) partial body)) (\<lambda>checked.
      bindc (lift_res checked) (\<lambda>b. bindc (asks (\<lambda>k. admin_or_manager k c)) (\<lambda>manager.
      thenc (if manager then ret () else lift_res (agent_may_edit c a))
        (save_article slugify (set_article stored_as
          ((name_file b)\<lparr>b_status := (if manager then b_status b else agent_status (b_status b))\<rparr>) a))))) k))"
    if "a \<in> set (visible_articles k c)" for a k
  proof (cases "kb_ok k \<and> \<not> admin_or_manager k c")
    case True
    have stored: "a \<in> set (kb_articles k)" using that by (rule visible_stored)
    show ?thesis
    proof (cases "agent_may_edit c a")
      case (Inr u)
      then have own: "is_author (caller_user c) a" "art_status a \<noteq> KbPendingReview" by (auto simp: agent_may_edit_def split: if_splits)
      let ?a = "\<lambda>b. set_article stored_as ((name_file b)\<lparr>b_status := agent_status (b_status b)\<rparr>) a"
      have "agent_kept c k (snd (save_article slugify (?a b) k))" for b
      proof (rule kept_save)
        show "\<exists>x \<in> set (kb_articles k). agent_change (caller_user c) x (?a b)" if "art_status (?a b) = KbPublished"
        proof -
          have "agent_status x \<noteq> Some KbPublished" for x by (simp add: agent_status_def)
          with that have "art_status a = KbPublished" by (auto simp: set_article_def given_def split: option.splits)
          with own have "agent_change (caller_user c) a (?a b)" by (simp add: agent_change_def set_article_def)
          with stored show ?thesis by blast
        qed
      qed (use True stored own article_row in \<open>auto simp: set_article_def is_author_def kb_ok_def list_all_iff\<close>)
      with True show ?thesis
        by (cases "validate_article k (caller_ten c) partial body") (simp_all add: bindc_def thenc_def asks_def lift_res_def Inr kb.step_refl)
    qed (use True in \<open>cases "validate_article k (caller_ten c) partial body"; simp add: bindc_def thenc_def asks_def lift_res_def kb.step_refl\<close>)
  qed (auto intro: kept_manager)
  then show ?thesis
    unfolding update_article_def by (intro kb.obeys_then kb_permission_kept get_then) simp
qed

lemma submit_kept: "obeys (agent_kept c) (submit_for_review c i)"
proof -
  let ?mark = "\<lambda>now x. x\<lparr>art_status := KbPendingReview, art_submitted_at := Some now, art_rejection := [], art_reviewer := None, art_reviewed_at := None\<rparr>"
  let ?rest = "\<lambda>a. bindc (asks (\<lambda>k. filter (\<lambda>u. user_id u \<noteq> user_id (caller_user c)) (reviewers (kb_desk k) (caller_ten c)))) (\<lambda>us.
          thenc (for_each us (\<lambda>u _. in_kb (notify (caller_ten c) u NKbReviewRequested (review_data a))) ()) (ret (Response 200 [])))"
  have rest: "obeys (agent_kept c) (?rest a)" for a
    by (intro kb.obeys_bind kb.obeys_then kb.obeys_for kb.obeys_asks kb.obeys_ret notify_kept)
  show ?thesis
    unfolding submit_for_review_def
  proof (rule kb.obeys_then [OF kb_permission_kept], rule get_then)
    fix k a assume a: "a \<in> set (visible_articles k c)" "art_id a = i"
    show "agent_kept c k (snd (bindc (asks (\<lambda>k. admin_or_manager k c)) (\<lambda>manager.
      if \<not> is_author (caller_user c) a \<and> \<not> manager then ret (Response 403 ''Only the author can submit for review.'')
      else if art_status a \<notin> {KbDraft, KbRejected} then ret (Response 400 ''Only draft or rejected articles can be submitted for review.'')
      else bindc (in_kb now_of) (\<lambda>now. thenc (write_article i (?mark now)) (?rest a))) k))"
    proof (cases "kb_ok k \<and> \<not> admin_or_manager k c \<and> is_author (caller_user c) a \<and> art_status a \<in> {KbDraft, KbRejected}")
      case True
      let ?k = "snd (write_article i (?mark (clock (kb_base k))) k)"
      have "agent_kept c k ?k"
      proof (rule kept_write)
        fix x assume x: "x \<in> set (kb_articles k)" "art_id x = i" "kb_ok k"
        then have "x = a" using a by (intro article_row) (auto intro: visible_stored)
        with True show "agent_change (caller_user c) x (?mark (clock (kb_base k)) x)"
          by (auto simp: agent_change_def)
      qed simp
      moreover have "agent_kept c ?k (snd (?rest a ?k))" using rest by (simp add: obeys_def)
      ultimately have "agent_kept c k (snd (?rest a ?k))" by (rule agent_kept_trans)
      with True show ?thesis by (simp add: bindc_def thenc_def asks_def in_kb_def run_now write_article_def update_def)
    next
      case False
      then consider "\<not> kb_ok k \<or> admin_or_manager k c" | "kb_ok k" "\<not> admin_or_manager k c" "\<not> is_author (caller_user c) a \<or> art_status a \<notin> {KbDraft, KbRejected}" by blast
      then show ?thesis
        by cases (auto simp: bindc_def asks_def ret_def kb.step_refl intro: kept_manager)
    qed
  qed
qed

lemma tell_kept: "obeys (agent_kept c) (tell_author c a extra)"
  unfolding tell_author_def by (intro kb.obeys_option kb.obeys_when kb.obeys_ret notify_kept)

text \<open>Approving and rejecting are refused to agents.\<close>

lemma gated_kept: "obeys (agent_kept c) (bindc (asks (\<lambda>k. admin_or_manager k c)) (\<lambda>manager. if \<not> manager then ret r else f))"
  unfolding obeys_def
proof
  fix k show "agent_kept c k (snd (bindc (asks (\<lambda>k. admin_or_manager k c)) (\<lambda>manager. if \<not> manager then ret r else f) k))"
    by (cases "admin_or_manager k c") (auto simp: bindc_def asks_def ret_def kb.step_refl intro: kept_manager)
qed

lemma review_kept: "obeys (agent_kept c) (approve_article c i)" "obeys (agent_kept c) (reject_article c i reason)"
  unfolding approve_article_def reject_article_def
  by (rule kb.obeys_then [OF kb_permission_kept gated_kept])+

text \<open>Views and files change nothing of the substance.\<close>

lemma write_kept:
  assumes "\<And>x. substance (f x) = substance x" "\<And>x. art_id (f x) = art_id x \<and> art_tenant (f x) = art_tenant x \<and> art_author (f x) = art_author x"
  shows "obeys (agent_kept c) (write_article i f)"
  unfolding obeys_def
proof (intro allI kept_write)
  fix k x show "agent_change (caller_user c) x (f x)"
    using assms substance_status [OF assms(1)] by (simp add: agent_change_def)
qed (simp add: assms(2))

lemma view_kept: "obeys (agent_kept c) (record_view c i)"
  unfolding record_view_def
  by (intro kb.obeys_then [OF kb_permission_kept] get_obeys write_kept) (simp_all add: substance_def)

lemma remove_file_kept: "obeys (agent_kept c) (remove_file c i)"
proof -
  have "obeys (agent_kept c) (thenc (case art_file a of None \<Rightarrow> ret () | Some f \<Rightarrow> update (\<lambda>k. k\<lparr>removed_files := f # removed_files k\<rparr>))
       (write_article i (\<lambda>x. x\<lparr>art_file := None, art_file_name := []\<rparr>)))" for a
    by (intro kb.obeys_then kb.obeys_option kb.obeys_ret kb_side_kept write_kept) (simp_all add: substance_def)
  then show ?thesis
    unfolding remove_file_def by (rule kb.obeys_then [OF kb_permission_kept get_obeys])
qed

lemma destroy_kept: "obeys (agent_kept c) (destroy_article c i)"
  unfolding destroy_article_def
  by (rule kb.obeys_then [OF kb_permission_kept get_obeys], rule kb_side_kept(3))

lemma vote_kept: "obeys (agent_kept c) (vote_article_action c i body key addr)"
  unfolding vote_article_action_def Let_def
  by (rule kb.obeys_then [OF kb_permission_kept get_obeys], rule kb_side_kept(1))

lemma search_kept: "obeys (agent_kept c) (search_view matches rank c' text source)"
  unfolding search_view_def kb_search_def Let_def
  by (intro kb.obeys_bind kb.obeys_asks kb.obeys_if kb.obeys_raise kb.obeys_ret kb.obeys_then kb.obeys_when kb_side_kept)

section \<open>Runs of requests\<close>

inductive agent_step :: "caller \<Rightarrow> library \<Rightarrow> library \<Rightarrow> bool" for c where
  creates: "create_article slugify stored_as c body k = (r, k') \<Longrightarrow> agent_step c k k'"
| updates: "update_article slugify stored_as c partial i body k = (r, k') \<Longrightarrow> agent_step c k k'"
| submits: "submit_for_review c i k = (r, k') \<Longrightarrow> agent_step c k k'"
| approves: "approve_article c i k = (r, k') \<Longrightarrow> agent_step c k k'"
| rejects: "reject_article c i reason k = (r, k') \<Longrightarrow> agent_step c k k'"
| views: "record_view c i k = (r, k') \<Longrightarrow> agent_step c k k'"
| removes: "remove_file c i k = (r, k') \<Longrightarrow> agent_step c k k'"
| destroys: "destroy_article c i k = (r, k') \<Longrightarrow> agent_step c k k'"
| votes: "vote_article_action c i json key addr k = (r, k') \<Longrightarrow> agent_step c k k'"
| searches: "search_view matches rank c text source k = (r, k') \<Longrightarrow> agent_step c k k'"

definition agent_run :: "caller \<Rightarrow> library \<Rightarrow> library \<Rightarrow> bool" where
  "agent_run c = (agent_step c)\<^sup>*\<^sup>*"

lemmas agent_requests = create_kept update_kept submit_kept review_kept view_kept remove_file_kept destroy_kept vote_kept search_kept

lemma agent_run_kept: "agent_run c k k' \<Longrightarrow> agent_kept c k k'"
  unfolding agent_run_def
proof (induction rule: rtranclp_induct)
  case (step k1 k2)
  have "agent_kept c k1 k2"
    using step.hyps(2) by cases (blast intro: obeysD agent_requests)+
  with step.IH show ?case by (rule agent_kept_trans)
qed (rule kb.step_refl)


section \<open>Search and mails\<close>

text \<open>What the search finds for a user is in the user's list.\<close>

lemma search_within_list:
  assumes "search_view matches rank c text source k = (Inr found, k')"
  shows "set found \<subseteq> set (visible_articles k c)"
  using assms
  by (auto simp: search_view_def kb_search_def returns Let_def ret_def raise_exc_def visible_articles_def admin_or_manager_def
      dest!: in_set_takeD split: if_splits)

text \<open>After the daily task no published article is a week past its review date.\<close>

lemma alert_rows:
  "kb_articles (snd (alert_article today a k)) = map (\<lambda>x. if art_id x = art_id a \<and> overdue today a then x\<lparr>art_status := KbFlagged\<rparr> else x) (kb_articles k)"
  by (auto simp: alert_article_def cmd_simps write_article_def split: option.split)

lemma alert_returns: "fst (alert_article today a k) = Inr ()"
  by (auto simp: alert_article_def cmd_simps write_article_def split: option.split)

lemma alerts_rows:
  "kb_articles (snd (for_each rows (\<lambda>a _. alert_article today a) u k)) =
     map (\<lambda>x. if art_id x \<in> art_id ` {a \<in> set rows. overdue today a} then x\<lparr>art_status := KbFlagged\<rparr> else x) (kb_articles k)"
proof (induction rows arbitrary: u k)
  case (Cons a rows)
  have "snd (for_each (a # rows) (\<lambda>a _. alert_article today a) u k) = snd (for_each rows (\<lambda>a _. alert_article today a) () (snd (alert_article today a k)))"
    using alert_returns [of today a k] by (cases "alert_article today a k") (simp add: bindc_def)
  then show ?case by (auto simp: Cons.IH alert_rows)
qed (simp add: ret_def)

lemma alert_settles:
  "x \<in> set (kb_articles (snd (alert_stale_articles today k))) \<Longrightarrow> art_status x = KbPublished \<Longrightarrow> stale today x \<Longrightarrow> \<not> overdue today x"
  by (auto simp: alert_stale_articles_def bindc_def asks_def alerts_rows stale_def overdue_def split: if_splits option.splits)

section \<open>An agent, his articles and a review\<close>

definition other_user :: user where
  "other_user = \<lparr>user_id = 8, first_name = ''Bo'', last_name = ''M'', email = ''bo@acme''\<rparr>"

definition demo_article :: "nat \<Rightarrow> user \<Rightarrow> string \<Rightarrow> kb_status \<Rightarrow> kb_article" where
  "demo_article i u title st = (new_article i 1 u)\<lparr>art_title := title, art_slug := title, art_status := st\<rparr>"

definition demo_library :: library where
  "demo_library = \<lparr>kb_desk = demo_desk, kb_categories = [], kb_articles = [demo_article 3 demo_user ''faq'' KbPublished,
     demo_article 4 other_user ''vpn'' KbPublished, demo_article 5 other_user ''old'' KbDraft], user_groups = [], kb_votes = [], kb_gaps = [],
     removed_files = [], kb_mails = []\<rparr>"

definition agent_caller :: caller where
  "agent_caller = \<lparr>caller_user = demo_user, is_superuser = False, caller_tenant = demo_tenant, caller_request = None\<rparr>"

definition empty_body :: article_body where
  "empty_body = \<lparr>b_title = None, b_slug = None, b_content = None, b_excerpt = None, b_category = None, b_status = None, b_pinned = None,
     b_tags = None, b_file = None, b_file_name = None, b_groups = None\<rparr>"

definition shown_articles :: "library \<Rightarrow> (nat \<times> string \<times> string \<times> kb_status) list" where
  "shown_articles k = map (\<lambda>a. (art_id a, art_slug a, art_content a, art_status a)) (kb_articles k)"

text \<open>A new article of the same title gets the next slug, and stays a draft although the body asks to publish it; it can be submitted.\<close>

definition written :: library where
  "written = snd (create_article id id agent_caller (empty_body\<lparr>b_title := Some ''faq'', b_status := Some KbPublished\<rparr>) demo_library)"

definition submitted :: library where
  "submitted = snd (submit_for_review agent_caller 100 written)"

lemma written_articles:
  "shown_articles written = [(100, ''faq-1'', [], KbDraft), (3, ''faq'', [], KbPublished), (4, ''vpn'', [], KbPublished), (5, ''old'', [], KbDraft)]"
  by code_simp

lemma submitted_articles:
  "map (\<lambda>a. (art_id a, art_status a)) (kb_articles submitted) = [(100, KbPendingReview), (3, KbPublished), (4, KbPublished), (5, KbDraft)]"
  by code_simp

text \<open>An agent may change the text of his own published article, which stays published without a review; and remove the file of anyone's.\<close>

lemma edit_after_approval:
  "shown_articles (snd (update_article id id agent_caller True 3 (empty_body\<lparr>b_content := Some ''new''\<rparr>) demo_library))
     = [(3, ''faq'', ''new'', KbPublished), (4, ''vpn'', [], KbPublished), (5, ''old'', [], KbDraft)]"
  by code_simp

lemma file_of_another_removed:
  "removed_files (snd (remove_file agent_caller 4 (demo_library\<lparr>kb_articles := map (\<lambda>a. a\<lparr>art_file := Some ''vpn.pdf''\<rparr>) (kb_articles demo_library)\<rparr>))) = [''vpn.pdf'']"
  by code_simp

text \<open>A vote with the documented body \<open>{"value": -1}\<close> counts as helpful.\<close>

lemma vote_value_ignored:
  "map vote_helpful (kb_votes (snd (vote_article_action agent_caller 4 (JObj [(''value'', JInt (-1))]) None (Some ''10.0.0.1'') demo_library))) = [True]"
  by code_simp


end
