(* ===== verification/Media.thy ===== *)
theory Media
  imports Comment_Threads Billing Knowledge
begin

text \<open>
  Attachments and the files of a tenant (\<open>apps/attachments\<close>): the validation of an
  upload (\<open>validators.py\<close>), who may reach the row a file hangs on (\<open>access.py\<close>),
  the endpoints (\<open>views.py\<close>, \<open>serializers.py\<close>, \<open>services.py\<close>) and the authorised
  serving of \<open>/media/\<close> (\<open>media_views.py\<close>).  The type of a file by its first bytes
  (libmagic) and the random prefix of a stored name are arguments.
\<close>

section \<open>Rows\<close>

record file_row =
  file_id :: nat
  file_tenant :: tenant_id
  file_type :: content_type
  file_object :: nat
  file_path :: string
  original_name :: string
  mime_type :: string
  size_bytes :: nat
  uploaded_by :: user

record export_job =
  export_tenant :: "tenant_id option"
  export_file :: string
  requested_by :: "user_id option"

text \<open>The rows the checks read, and the paths the storage holds.\<close>

record archive =
  arc_forum :: forum
  arc_articles :: "kb_article list"
  arc_groups :: "Knowledge.user_group list"
  arc_messages :: "message list"
  arc_participants :: "participant list"
  arc_files :: "file_row list"
  arc_exports :: "export_job list"
  arc_ledger :: ledger
  stored_files :: "string list"

type_synonym 'a arcop = "(archive, 'a) cmd"

abbreviation arc_desk :: "archive \<Rightarrow> desk" where
  "arc_desk v \<equiv> forum_desk (arc_forum v)"

definition at_base :: "'a op \<Rightarrow> 'a arcop" where
  "at_base c = (\<lambda>v. case in_forum (on_base c) (arc_forum v) of (r, k') \<Rightarrow> (r, v\<lparr>arc_forum := k'\<rparr>))"

text \<open>The same database as the knowledge base sees it.\<close>

definition library_of :: "archive \<Rightarrow> library" where
  "library_of v = \<lparr>kb_desk = arc_desk v, kb_categories = [], kb_articles = arc_articles v, user_groups = arc_groups v,
     kb_votes = [], kb_gaps = [], removed_files = [], kb_mails = []\<rparr>"

section \<open>Validation (\<open>validators.py\<close>)\<close>

definition MAX_FILE_SIZE_BYTES :: nat where "MAX_FILE_SIZE_BYTES = 25 * 1024 * 1024"

definition ALLOWED_MIME_TYPES :: "string list" where
  "ALLOWED_MIME_TYPES = [''image/jpeg'', ''image/png'', ''image/gif'', ''image/webp'', ''application/pdf'', ''text/plain'', ''text/csv'',
     ''application/msword'', ''application/vnd.ms-excel'', ''application/vnd.ms-powerpoint'',
     ''application/vnd.openxmlformats-officedocument.wordprocessingml.document'',
     ''application/vnd.openxmlformats-officedocument.spreadsheetml.sheet'',
     ''application/vnd.openxmlformats-officedocument.presentationml.presentation'',
     ''application/vnd.oasis.opendocument.text'', ''application/vnd.oasis.opendocument.spreadsheet'',
     ''application/vnd.oasis.opendocument.presentation'']"

text \<open>An upload: its name, its size and what libmagic makes of its first bytes (\<open>None\<close>: it raises).\<close>

record upload =
  upload_name :: string
  upload_size :: nat
  detected_mime :: "string option"

definition validate_file_upload :: "upload \<Rightarrow> string res" where
  "validate_file_upload f =
     (if upload_size f > MAX_FILE_SIZE_BYTES then Inl (ValidationError ''File size exceeds the maximum allowed size'')
      else if upload_size f = 0 then Inl (ValidationError ''Uploaded file is empty.'')
      else (case detected_mime f of
          None \<Rightarrow> Inl (ValidationError ''Could not determine the file type. Please try a different file.'')
        | Some m \<Rightarrow> if m \<in> set ALLOWED_MIME_TYPES then Inr m else Inl (ValidationError ''File type is not allowed.'')))"

section \<open>Who may reach a target (\<open>access.py\<close>)\<close>

definition active_membership :: "archive \<Rightarrow> user \<Rightarrow> tenant_id \<Rightarrow> membership option" where
  "active_membership v u ten = membership_of (arc_desk v) (user_id u) ten"

definition access_level :: "archive \<Rightarrow> user \<Rightarrow> tenant_id \<Rightarrow> nat" where
  "access_level v u ten = (case active_membership v u ten of None \<Rightarrow> 999 | Some m \<Rightarrow> level_of (arc_desk v) m)"

text \<open>\<open>_default_manager.filter(pk=...).first()\<close>: the rows of the tenant in the context; deleted tickets are hidden.\<close>

definition bound_tenant :: "archive \<Rightarrow> tenant_id option" where
  "bound_tenant v = current_tenant (base (arc_desk v))"

definition target_ticket :: "archive \<Rightarrow> nat \<Rightarrow> ticket option" where
  "target_ticket v i = first_row (\<lambda>t. pk t = i \<and> \<not> is_deleted t) (scoped (base (arc_desk v)) (\<lambda>t. tenant_id (ticket_tenant t)) (tickets (base (arc_desk v))))"

definition target_comment :: "archive \<Rightarrow> nat \<Rightarrow> comment option" where
  "target_comment v i = first_row (\<lambda>c. comment_id c = i) (scoped (base (arc_desk v)) comment_tenant (comments (base (arc_desk v))))"

definition target_message :: "archive \<Rightarrow> nat \<Rightarrow> message option" where
  "target_message v i = first_row (\<lambda>m. msg_id m = i) (scoped (base (arc_desk v)) msg_tenant (arc_messages v))"

definition comment_access :: "archive \<Rightarrow> user \<Rightarrow> nat \<Rightarrow> comment \<Rightarrow> bool" where
  "comment_access v u level c =
     (if is_internal c \<and> level > 30 then False
      else if comment_type c = TicketCT
        then (case first_row (\<lambda>t. pk t = comment_object c) (tickets (base (arc_desk v))) of None \<Rightarrow> True | Some t \<Rightarrow> agent_can_see_ticket u t)
      else True)"

definition can_access_target :: "archive \<Rightarrow> user \<Rightarrow> tenant_id \<Rightarrow> content_type \<Rightarrow> nat \<Rightarrow> bool" where
  "can_access_target v u ten ct i =
     (let level = access_level v u ten; label = type_label (arc_forum v) ct
      in if level \<le> 20 then True
         else if label = [] then False
         else if ct = TicketCT then (case target_ticket v i of None \<Rightarrow> False
           | Some t \<Rightarrow> tenant_id (ticket_tenant t) = ten \<and> agent_can_see_ticket u t)
         else if label = ''comments.comment'' then (case target_comment v i of None \<Rightarrow> False
           | Some c \<Rightarrow> comment_tenant c = ten \<and> comment_access v u level c)
         else if label = ''messaging.message'' then (case target_message v i of None \<Rightarrow> False
           | Some m \<Rightarrow> msg_tenant m = ten \<and> list_ex (\<lambda>p. part_conv p = msg_conv m \<and> user_id (part_user p) = user_id u) (arc_participants v))
         else ct \<in> set (global_models (arc_forum v)) \<or> (bound_tenant v = Some ten \<and> (ct, i, ten) \<in> set (targets (arc_forum v))))"

section \<open>The endpoints (\<open>views.py\<close>, \<open>serializers.py\<close>, \<open>services.py\<close>)\<close>

definition tenant_files :: "archive \<Rightarrow> file_row list" where
  "tenant_files v = scoped (base (arc_desk v)) file_tenant (arc_files v)"

definition listed_files :: "archive \<Rightarrow> caller \<Rightarrow> file_row list" where
  "listed_files v c = (case active_membership v (caller_user c) (caller_ten c) of
     None \<Rightarrow> []
   | Some m \<Rightarrow> if level_of (arc_desk v) m \<le> 20 then tenant_files v
       else let visible = map pk (agent_visible_tickets (caller_user c)
              (filter (\<lambda>t. \<not> is_deleted t) (scoped (base (arc_desk v)) (\<lambda>t. tenant_id (ticket_tenant t)) (tickets (base (arc_desk v))))))
            in filter (\<lambda>f. user_id (uploaded_by f) = user_id (caller_user c) \<or> (file_type f = TicketCT \<and> file_object f \<in> set visible)) (tenant_files v))"

definition member_gate :: "caller \<Rightarrow> unit arcop" where
  "member_gate c = bindc (asks (\<lambda>v. is_tenant_member (arc_desk v) (api_of c))) (\<lambda>member.
     if member then ret () else raise_exc (PermissionDenied ''member''))"

text \<open>\<open>get_object\<close> with \<open>CanAccessAttachmentObject\<close>\<close>

definition file_object_of :: "caller \<Rightarrow> nat \<Rightarrow> file_row arcop" where
  "file_object_of c i = thenc (member_gate c) (bindc (asks (\<lambda>v. (v, first_row (\<lambda>f. file_id f = i) (tenant_files v)))) (\<lambda>(v, found). case found of
     None \<Rightarrow> raise_exc (DoesNotExist ''Attachment'')
   | Some f \<Rightarrow> if can_access_target v (caller_user c) (caller_ten c) (file_type f) (file_object f) then ret f
               else raise_exc (PermissionDenied ''target'')))"

text \<open>The answer of \<open>download\<close>: the path whose bytes are sent.\<close>

definition download_file :: "caller \<Rightarrow> nat \<Rightarrow> string arcop" where
  "download_file c i = bindc (file_object_of c i) (\<lambda>f. bindc (asks stored_files) (\<lambda>held.
     if file_path f \<noteq> [] \<and> file_path f \<in> set held then ret (file_path f) else raise_exc (DoesNotExist ''File not found.'')))"

definition validate_target :: "archive \<Rightarrow> tenant_id \<Rightarrow> content_type \<Rightarrow> nat \<Rightarrow> unit res" where
  "validate_target v ten ct i =
     (let label = type_label (arc_forum v) ct;
          found = (if ct = TicketCT then target_ticket v i \<noteq> None
                   else if label = ''comments.comment'' then target_comment v i \<noteq> None
                   else if label = ''messaging.message'' then target_message v i \<noteq> None
                   else ct \<in> set (global_models (arc_forum v)) \<or> (ct, i, ten) \<in> set (targets (arc_forum v)))
      in if found then Inr () else Inl (ValidationError ''Target object not found.''))"

definition two_digits :: "nat \<Rightarrow> string" where
  "two_digits n = (if n < 10 then ''0'' @ show_nat n else show_nat n)"

definition upload_path :: "tenant_id \<Rightarrow> nat \<Rightarrow> nat \<Rightarrow> string \<Rightarrow> string \<Rightarrow> string" where
  "upload_path ten year month prefix filename =
     ''tenants/'' @ show_uuid ten @ ''/attachments/'' @ show_nat year @ ''/'' @ two_digits month @ ''/'' @ take 12 prefix @ ''_'' @ filename"

text \<open>Both logs of an attachment on a ticket.\<close>

definition log_attachment :: "caller \<Rightarrow> ticket \<Rightarrow> file_row \<Rightarrow> bool \<Rightarrow> unit arcop" where
  "log_attachment c t f added =
     at_base (thenc (log_activity (ticket_tenant t) (Some (caller_user c)) TicketCT (pk t)
         (if added then AAttachmentAdded else AAttachmentRemoved) (JObj []) (caller_request c))
       (create_timeline_entry t (if added then EAttachmentAdded else EAttachmentRemoved) (Some (caller_user c))
         [(''attachment_id'', jpk (file_id f)), (''file_name'', JStr (original_name f)), (''mime_type'', JStr (mime_type f)),
          (''size_bytes'', JInt (int (size_bytes f)))]))"

definition log_if_ticket :: "caller \<Rightarrow> file_row \<Rightarrow> bool \<Rightarrow> unit arcop" where
  "log_if_ticket c f added =
     (if file_type f \<noteq> TicketCT then ret ()
      else bindc (asks (\<lambda>v. target_ticket v (file_object f))) (\<lambda>found. case found of
        None \<Rightarrow> ret () | Some t \<Rightarrow> log_attachment c t f added))"

text \<open>\<open>create\<close>; the path is the one \<open>upload_path\<close> gives for the stored name.\<close>

definition upload_file :: "caller \<Rightarrow> upload \<Rightarrow> string \<Rightarrow> nat \<Rightarrow> string \<Rightarrow> file_row arcop" where
  "upload_file c u type_name i path =
     thenc (member_gate c)
     (bindc (asks (\<lambda>v. v)) (\<lambda>v.
      bindc (lift_res (validate_file_upload u)) (\<lambda>mime.
      bindc (lift_res (content_type_of (arc_forum v) type_name)) (\<lambda>ct.
      thenc (lift_res (validate_target v (caller_ten c) ct i))
      (if \<not> can_access_target v (caller_user c) (caller_ten c) ct i then raise_exc (PermissionDenied ''You do not have permission to attach files to this object.'')
       else thenc (lift_res (check_storage (arc_ledger v) (caller_ten c) (of_nat (upload_size u) / (1024 * 1024))))
         (bindc (at_base new_pk) (\<lambda>n.
          let f = \<lparr>file_id = n, file_tenant = caller_ten c, file_type = ct, file_object = i, file_path = path, original_name = upload_name u,
                   mime_type = mime, size_bytes = upload_size u, uploaded_by = caller_user c\<rparr>
          in thenc (update (\<lambda>v. v\<lparr>arc_files := f # arc_files v, stored_files := path # stored_files v\<rparr>))
             (thenc (log_if_ticket c f True) (ret f)))))))))"

definition destroy_file :: "caller \<Rightarrow> nat \<Rightarrow> unit arcop" where
  "destroy_file c i = bindc (file_object_of c i) (\<lambda>f.
     thenc (log_if_ticket c f False)
       (update (\<lambda>v. v\<lparr>stored_files := filter (\<lambda>p. p \<noteq> file_path f) (stored_files v), arc_files := filter (\<lambda>x. file_id x \<noteq> i) (arc_files v)\<rparr>)))"

section \<open>Serving \<open>/media/\<close> (\<open>media_views.py\<close>)\<close>

text \<open>\<open>posixpath.normpath\<close>\<close>

fun norm_comps :: "bool \<Rightarrow> string list \<Rightarrow> string list \<Rightarrow> string list" where
  "norm_comps rooted new [] = new"
| "norm_comps rooted new (c # cs) =
     (if c = [] \<or> c = ''.'' then norm_comps rooted new cs
      else if c \<noteq> ''..'' \<or> (\<not> rooted \<and> new = []) \<or> (new \<noteq> [] \<and> last new = ''..'') then norm_comps rooted (new @ [c]) cs
      else if new \<noteq> [] then norm_comps rooted (butlast new) cs
      else norm_comps rooted new cs)"

definition normpath :: "string \<Rightarrow> string" where
  "normpath path =
     (if path = [] then ''.''
      else let rooted = startswith path ''/'';
               slashes = (if startswith path ''//'' \<and> \<not> startswith path ''///'' then ''//'' else if rooted then ''/'' else []);
               n = slashes @ join ''/'' (norm_comps rooted [] (split_on (CHR ''/'') path))
           in if n = [] then ''.'' else n)"

definition PUBLIC_PREFIXES :: "string list" where "PUBLIC_PREFIXES = [''tenants/logos/'']"

definition is_member_user :: "archive \<Rightarrow> user \<Rightarrow> tenant_id \<Rightarrow> bool" where
  "is_member_user v u ten \<longleftrightarrow> active_membership v u ten \<noteq> None"

definition is_tenant_manager :: "archive \<Rightarrow> user \<Rightarrow> tenant_id \<Rightarrow> bool" where
  "is_tenant_manager v u ten \<longleftrightarrow> (case active_membership v u ten of None \<Rightarrow> False | Some m \<Rightarrow> level_of (arc_desk v) m \<le> 20)"

text \<open>\<open>tenant_context\<close>: the tenant of the attachment is bound for the check.\<close>

definition bind_tenant :: "tenant_id \<Rightarrow> archive \<Rightarrow> archive" where
  "bind_tenant ten v = v\<lparr>arc_forum := (arc_forum v)\<lparr>forum_desk := (arc_desk v)\<lparr>base := (base (arc_desk v))\<lparr>current_tenant := Some ten\<rparr>\<rparr>\<rparr>\<rparr>"

definition attachment_path_authorized :: "archive \<Rightarrow> user \<Rightarrow> string \<Rightarrow> tenant_id \<Rightarrow> bool" where
  "attachment_path_authorized v u path ten =
     (if \<not> is_member_user v u ten then False
      else (case first_row (\<lambda>f. file_path f = path) (arc_files v) of
          None \<Rightarrow> True
        | Some f \<Rightarrow> can_access_target (bind_tenant (file_tenant f) v) u (file_tenant f) (file_type f) (file_object f)))"

definition export_path_authorized :: "archive \<Rightarrow> user \<Rightarrow> string \<Rightarrow> bool" where
  "export_path_authorized v u path =
     (case first_row (\<lambda>j. export_file j = path) (arc_exports v) of
        None \<Rightarrow> True
      | Some j \<Rightarrow> (case export_tenant j of
          None \<Rightarrow> False
        | Some ten \<Rightarrow> is_member_user v u ten \<and> (requested_by j = Some (user_id u) \<or> is_tenant_manager v u ten)))"

definition knowledge_path_authorized :: "archive \<Rightarrow> user \<Rightarrow> string \<Rightarrow> bool" where
  "knowledge_path_authorized v u path =
     (case first_row (\<lambda>a. art_file a = Some path) (arc_articles v) of
        None \<Rightarrow> False
      | Some a \<Rightarrow>
          if \<not> is_member_user v u (art_tenant a) then False
          else if is_tenant_manager v u (art_tenant a) then True
          else if art_status a \<noteq> KbPublished \<and> \<not> Knowledge.is_author u a then False
          else if art_groups a = [] then True
          else if Knowledge.is_author u a then True
          else list_ex (\<lambda>g. group_id g \<in> set (art_groups a) \<and> user_id u \<in> set (group_members g)) (arc_groups v))"

text \<open>\<open>uuid.UUID(s)\<close>: braces, prefixes and dashes are dropped, the rest are 32 hexadecimal digits.\<close>

definition uuid_value :: "string \<Rightarrow> nat option" where
  "uuid_value s = (let h = filter (\<lambda>c. c \<noteq> CHR ''-'') (strip_by (\<lambda>c. c \<in> set ''{}'') (py_replace ''uuid:'' [] (py_replace ''urn:'' [] s)))
     in if length h = 32 \<and> list_all hex_digit h then uuid_of (lower h) else None)"

definition email_path_authorized :: "archive \<Rightarrow> user \<Rightarrow> string \<Rightarrow> bool res" where
  "email_path_authorized v u key =
     (case uuid_value key of
        None \<Rightarrow> Inl (ValidationError ''is not a valid UUID'')
      | Some i \<Rightarrow> Inr (case first_row (\<lambda>e. ie_id e = i) (inbound_emails (arc_desk v)) of
          None \<Rightarrow> True
        | Some e \<Rightarrow> (case ie_tenant e of None \<Rightarrow> False | Some t \<Rightarrow> is_member_user v u (tenant_id t))))"

definition is_authorized :: "archive \<Rightarrow> user \<Rightarrow> string \<Rightarrow> bool res" where
  "is_authorized v u path =
     (let parts = split_on (CHR ''/'') path
      in if length parts \<ge> 2 \<and> parts ! 0 = ''tenants''
         then Inr (if parts ! 1 = ''knowledge'' then knowledge_path_authorized v u path
               else (case uuid_value (parts ! 1) of
                   None \<Rightarrow> True
                 | Some ten \<Rightarrow> if length parts \<ge> 3 \<and> parts ! 2 = ''attachments'' then attachment_path_authorized v u path ten
                               else is_member_user v u ten))
         else if length parts \<ge> 2 \<and> parts ! 0 = ''exports'' then Inr (export_path_authorized v u path)
         else if length parts \<ge> 2 \<and> parts ! 0 = ''inbound_emails'' then email_path_authorized v u (parts ! 1)
         else Inr True)"

datatype media_answer = NotFound | Forbidden string | Served string

definition serve :: "archive \<Rightarrow> string \<Rightarrow> media_answer" where
  "serve v path = (if path \<in> set (stored_files v) then Served path else NotFound)"

definition serve_protected_media :: "archive \<Rightarrow> user option \<Rightarrow> string \<Rightarrow> media_answer res" where
  "serve_protected_media v who path =
     (let n = normpath path
      in if startswith n ''..'' \<or> startswith n ''/'' \<or> n = ''.'' then Inr NotFound
         else if list_ex (startswith n) PUBLIC_PREFIXES then Inr (serve v n)
         else (case who of
             None \<Rightarrow> Inr (Forbidden ''Authentication required.'')
           | Some u \<Rightarrow> bind_res (is_authorized v u n) (\<lambda>granted. Inr (if granted then serve v n else Forbidden ''You do not have access to this file.''))))"

end
