(* ===== verification/Media_Laws.thy ===== *)
theory Media_Laws
  imports Media Knowledge_Laws
begin

text \<open>
  What the serving of files guarantees: no path leaves the storage, without a
  login only the logos are served, a tenant's files go to its members, the files of the
  knowledge base to those who see the article in their list, attachments to those
  who may download them.
\<close>

section \<open>Paths\<close>

definition plain :: "string list \<Rightarrow> bool" where
  "plain = list_all (\<lambda>c. c \<notin> {[], ''.'', ''..''})"

definition climbing :: "bool \<Rightarrow> string list \<Rightarrow> bool" where
  "climbing rooted xs \<longleftrightarrow> (\<exists>k ns. xs = replicate k ''..'' @ ns \<and> plain ns \<and> (rooted \<longrightarrow> k = 0))"

lemma climbing_up: "xs = replicate k ''..'' \<Longrightarrow> climbing rooted xs \<or> rooted"
  unfolding climbing_def plain_def by (metis append_Nil2 list.pred_inject(1))

lemma climbing_step:
  assumes "climbing rooted new" "new \<noteq> []"
  shows "last new = ''..'' \<Longrightarrow> climbing rooted (new @ [''..'']) \<or> rooted"
    and "last new \<noteq> ''..'' \<Longrightarrow> climbing rooted (butlast new)"
proof -
  from assms obtain k ns where new: "new = replicate k ''..'' @ ns" "plain ns" "rooted \<longrightarrow> k = 0" by (auto simp: climbing_def)
  show "climbing rooted (new @ [''..'']) \<or> rooted" if "last new = ''..''"
  proof (cases "ns = []")
    case True
    then have "new @ [''..''] = replicate (Suc k) ''..''" using new(1) by (simp add: replicate_append_same)
    then show ?thesis using climbing_up by blast
  next
    case False
    then have "last ns = ''..''" using that new(1) by simp
    moreover have "last ns \<in> set ns" using False by simp
    ultimately show ?thesis using new(2) by (auto simp: plain_def list_all_iff)
  qed
  show "climbing rooted (butlast new)" if "last new \<noteq> ''..''"
  proof (cases "ns = []")
    case True
    then have "last new = ''..''" using new(1) assms(2) by (cases k) (auto simp: last_replicate)
    with that show ?thesis by simp
  next
    case False
    then have "butlast new = replicate k ''..'' @ butlast ns" using new(1) by (simp add: butlast_append)
    moreover have "plain (butlast ns)" using new(2) by (auto simp: plain_def list_all_iff dest: in_set_butlastD)
    ultimately show ?thesis using new(3) by (auto simp: climbing_def)
  qed
qed

lemma rooted_plain: "climbing True new \<Longrightarrow> new \<noteq> [] \<Longrightarrow> last new \<noteq> ''..''"
proof -
  assume "climbing True new" "new \<noteq> []"
  then have "plain new" "last new \<in> set new" by (auto simp: climbing_def)
  then show ?thesis by (auto simp: plain_def list_all_iff)
qed

lemma climbing_snoc: "climbing rooted new \<Longrightarrow> c \<notin> {[], ''.'', ''..''} \<Longrightarrow> climbing rooted (new @ [c])"
proof -
  assume "climbing rooted new" and c: "c \<notin> {[], ''.'', ''..''}"
  then obtain k ns where "new = replicate k ''..'' @ ns" "plain ns" "rooted \<longrightarrow> k = 0" by (auto simp: climbing_def)
  then have "new @ [c] = replicate k ''..'' @ (ns @ [c])" "plain (ns @ [c])" "rooted \<longrightarrow> k = 0" using c by (auto simp: plain_def)
  then show ?thesis unfolding climbing_def by blast
qed

lemma norm_climbing: "climbing rooted new \<Longrightarrow> climbing rooted (norm_comps rooted new cs)"
proof (induction rooted new cs rule: norm_comps.induct)
  case (2 rooted new c cs)
  show ?case
  proof (cases "c = [] \<or> c = ''.''")
    case True
    with 2 show ?thesis by simp
  next
    case proper: False
    show ?thesis
    proof (cases "c = ''..''")
      case False
      with proper 2 show ?thesis by (simp add: climbing_snoc)
    next
      case up: True
      show ?thesis
      proof (cases "new = []")
        case True
        have "climbing False [''..'']" unfolding climbing_def by (rule exI [of _ 1]) (simp add: plain_def)
        with True up 2 show ?thesis by (cases rooted) simp_all
      next
        case False
        then show ?thesis
          using up 2 climbing_step [OF 2(5) False] rooted_plain [OF _ False] by (cases "last new = ''..''"; cases rooted) auto
      qed
    qed
  qed
qed simp

lemma norm_members: "set (norm_comps rooted new cs) \<subseteq> set new \<union> set cs"
  by (induction rooted new cs rule: norm_comps.induct) (auto dest: in_set_butlastD split: if_splits)

lemma split_no_sep: "c \<in> set (split_on x s) \<Longrightarrow> x \<notin> set c"
  by (induction s arbitrary: c) (auto split: if_splits list.splits)

lemma split_plain: "x \<notin> set a \<Longrightarrow> split_on x (a @ x # s) = a # split_on x s"
  by (induction a) (auto split: list.splits)

lemma split_single: "x \<notin> set a \<Longrightarrow> split_on x a = [a]"
  by (induction a) auto

lemma split_join: "xs \<noteq> [] \<Longrightarrow> \<forall>c \<in> set xs. x \<notin> set c \<Longrightarrow> split_on x (join [x] xs) = xs"
proof (induction "[x]" xs rule: join.induct)
  case (3 y z ys)
  then show ?case by (simp add: split_plain)
qed (auto simp: split_single)

lemma accepted_path:
  assumes "\<not> startswith (normpath path) ''..''" "\<not> startswith (normpath path) ''/''" "normpath path \<noteq> ''.''"
  shows "plain (split_on (CHR ''/'') (normpath path))"
proof -
  have ne: "path \<noteq> []" using assms(3) by (auto simp: normpath_def)
  have slash: "\<not> startswith path ''/''"
  proof
    assume s: "startswith path ''/''"
    then have "startswith (normpath path) ''/''" using ne by (auto simp: normpath_def Let_def)
    with assms(2) show False by simp
  qed
  then have no2: "\<not> startswith path ''//''" by (cases path rule: list.exhaust; cases "tl path") auto
  let ?xs = "norm_comps False [] (split_on (CHR ''/'') path)"
  have n: "normpath path = (if join ''/'' ?xs = [] then ''.'' else join ''/'' ?xs)" using ne slash no2 by (simp add: normpath_def Let_def)
  have "climbing False []" by (auto simp: climbing_def plain_def)
  then have "climbing False ?xs" by (rule norm_climbing)
  then obtain k ns where xs: "?xs = replicate k ''..'' @ ns" "plain ns" unfolding climbing_def by blast
  have path: "normpath path = join ''/'' ?xs" "join ''/'' ?xs \<noteq> []" using n assms(3) by (auto split: if_splits)
  have "k = 0"
  proof (rule ccontr)
    assume "k \<noteq> 0"
    then obtain rest where "?xs = ''..'' # rest" using xs(1) by (cases k) auto
    then have "startswith (join ''/'' ?xs) ''..''" by (cases rest) auto
    with assms(1) path(1) show False by simp
  qed
  then have "plain ?xs" using xs by simp
  moreover have "?xs \<noteq> []" using path(2) by auto
  moreover have "\<forall>c \<in> set ?xs. CHR ''/'' \<notin> set c" using norm_members [of False "[]"] split_no_sep by fastforce
  ultimately show ?thesis using path(1) split_join [of ?xs "CHR ''/''"] by simp
qed

section \<open>Who gets which file\<close>

lemma logo_parts: "startswith p ''tenants/logos/'' \<Longrightarrow> \<exists>rest. split_on (CHR ''/'') p = ''tenants'' # ''logos'' # rest"
proof -
  assume "startswith p ''tenants/logos/''"
  then obtain t where "p = ''tenants'' @ CHR ''/'' # (''logos'' @ CHR ''/'' # t)" by (auto simp: startswith_iff)
  then have "split_on (CHR ''/'') p = ''tenants'' # ''logos'' # split_on (CHR ''/'') t" by (simp only: split_plain) simp
  then show ?thesis by blast
qed

lemma no_uuid: "uuid_value ''logos'' = None" "uuid_value ''knowledge'' = None"
  by code_simp+

lemma served_cases:
  assumes "serve_protected_media v who path = Inr (Served p)"
  shows "p = normpath path" "p \<in> set (stored_files v)" "plain (split_on (CHR ''/'') p)"
    "startswith p ''tenants/logos/'' \<or> (\<exists>u. who = Some u \<and> is_authorized v u p = Inr True)"
proof -
  show p: "p = normpath path" and "p \<in> set (stored_files v)"
    using assms by (auto simp: serve_protected_media_def serve_def bind_res_eq_Inr Let_def split: if_splits option.splits)
  show "plain (split_on (CHR ''/'') p)"
    unfolding p using assms by (intro accepted_path) (auto simp: serve_protected_media_def Let_def split: if_splits)
  show "startswith p ''tenants/logos/'' \<or> (\<exists>u. who = Some u \<and> is_authorized v u p = Inr True)"
    unfolding p using assms by (auto simp: serve_protected_media_def serve_def bind_res_eq_Inr PUBLIC_PREFIXES_def Let_def split: if_splits option.splits)
qed

text \<open>
  C39: whatever path is asked for, with whatever dots and slashes, what is served is
  a stored file under a path without dot components; and a file below the
  directory of a tenant goes only to an active member of that tenant, an
  attachment among them only to somebody who may reach the row it hangs on.
\<close>

theorem media_isolated:
  assumes "serve_protected_media v who path = Inr (Served p)"
    and "split_on (CHR ''/'') p = ''tenants'' # key # rest" "uuid_value key = Some ten"
  shows "plain (''tenants'' # key # rest) \<and> p \<in> set (stored_files v) \<and> (\<exists>u. who = Some u \<and> is_member_user v u ten \<and>
    (\<forall>f others. rest = ''attachments'' # others \<and> first_row (\<lambda>f. file_path f = p) (arc_files v) = Some f
       \<longrightarrow> can_access_target (bind_tenant (file_tenant f) v) u (file_tenant f) (file_type f) (file_object f)))"
proof -
  note served = served_cases [OF assms(1)]
  have key: "key \<noteq> ''logos''" "key \<noteq> ''knowledge''" using assms(3) no_uuid by auto
  have "\<not> startswith p ''tenants/logos/''"
  proof
    assume "startswith p ''tenants/logos/''"
    from logo_parts [OF this] key assms(2) show False by simp
  qed
  then obtain u where u: "who = Some u" "is_authorized v u p = Inr True" using served(4) by blast
  have "(if rest \<noteq> [] \<and> hd rest = ''attachments'' then attachment_path_authorized v u p ten else is_member_user v u ten)"
    using u(2) assms(2,3) key(2) by (cases rest) (auto simp: is_authorized_def Let_def split: if_splits)
  then have "is_member_user v u ten \<and> (\<forall>f others. rest = ''attachments'' # others \<and> first_row (\<lambda>f. file_path f = p) (arc_files v) = Some f
       \<longrightarrow> can_access_target (bind_tenant (file_tenant f) v) u (file_tenant f) (file_type f) (file_object f))"
    by (auto simp: attachment_path_authorized_def split: if_splits option.splits)
  with u(1) served(2,3) assms(2) show ?thesis by auto
qed

text \<open>Without a login only the logos are served.\<close>

lemma anonymous_sees_logos: "serve_protected_media v None path = Inr (Served p) \<Longrightarrow> startswith p ''tenants/logos/''"
  using served_cases(4) by fastforce

text \<open>
  for a member who is no superuser, the file of an article is served exactly when
  the article is in the member's list: drafts, restricted groups, authors and
  managers are treated alike on both ways.
\<close>

theorem knowledge_files_as_listed:
  assumes "first_row (\<lambda>a. art_file a = Some path) (arc_articles v) = Some a"
    and "current_tenant (base (arc_desk v)) = Some (art_tenant a)" "caller_ten c = art_tenant a"
    and "\<not> is_superuser c" "is_member_user v (caller_user c) (art_tenant a)"
  shows "knowledge_path_authorized v (caller_user c) path \<longleftrightarrow> a \<in> set (visible_articles (library_of v) c)"
proof -
  have stored: "a \<in> set (arc_articles v)" using assms(1) by (auto dest: first_row_SomeD)
  have manager: "admin_or_manager (library_of v) c = is_tenant_manager v (caller_user c) (art_tenant a)"
    using assms(3,4) by (auto simp: admin_or_manager_def is_tenant_manager_def active_membership_def library_of_def split: option.split)
  have "a \<in> set (tenant_articles (library_of v))" using stored assms(2) by (simp add: tenant_articles_def scoped_def library_of_def)
  moreover have "group_gate (library_of v) u a \<longleftrightarrow> art_groups a = [] \<or> Knowledge.is_author u a
      \<or> list_ex (\<lambda>g. group_id g \<in> set (art_groups a) \<and> user_id u \<in> set (group_members g)) (arc_groups v)" for u
    by (auto simp: group_gate_def library_of_def)
  ultimately show ?thesis
    using assms(1,5) manager by (auto simp: knowledge_path_authorized_def visible_articles_def)
qed

text \<open>An attachment row is downloaded by the same rule on both ways.\<close>

lemma media_as_download:
  assumes "bound_tenant v = Some ten" "file_tenant f = ten" "is_member_user v u ten" "first_row (\<lambda>f. file_path f = path) (arc_files v) = Some f"
  shows "attachment_path_authorized v u path ten = can_access_target v u ten (file_type f) (file_object f)"
proof -
  have "bind_tenant ten v = v" using assms(1) by (simp add: bind_tenant_def bound_tenant_def)
  then show ?thesis using assms by (simp add: attachment_path_authorized_def)
qed

text \<open>The list shows a member his own uploads also where \<open>download\<close> refuses them.\<close>

lemma own_upload_listed:
  assumes "f \<in> set (tenant_files v)" "uploaded_by f = caller_user c" "is_member_user v (caller_user c) (caller_ten c)"
  shows "f \<in> set (listed_files v c)"
  using assms by (auto simp: listed_files_def is_member_user_def Let_def split: option.splits)

text \<open>Only the types of the list are accepted, up to 25 megabytes, never an empty file.\<close>

lemma accepted_uploads:
  "validate_file_upload f = Inr m \<longleftrightarrow> 0 < upload_size f \<and> upload_size f \<le> 26214400 \<and> detected_mime f = Some m \<and> m \<in> set ALLOWED_MIME_TYPES"
  by (auto simp: validate_file_upload_def MAX_FILE_SIZE_BYTES_def split: option.splits)

section \<open>A file of a ticket and a file of an article\<close>

definition own_path :: string where "own_path = ''tenants/00000000-0000-0000-0000-000000000001/attachments/a.pdf''"

definition demo_archive :: archive where
  "demo_archive = \<lparr>arc_forum = demo_forum\<lparr>content_types := [((''tickets'', ''ticket''), TicketCT)]\<rparr>, arc_articles = [(Knowledge.new_article 3 1 demo_user)\<lparr>art_status := KbPublished, art_file := Some ''tenants/knowledge/f.pdf''\<rparr>],
     arc_groups = [], arc_messages = [], arc_participants = [],
     arc_files = [\<lparr>file_id = 20, file_tenant = 1, file_type = TicketCT, file_object = 10, file_path = own_path, original_name = ''a.pdf'',
       mime_type = ''application/pdf'', size_bytes = 5, uploaded_by = demo_user\<rparr>], arc_exports = [],
     arc_ledger = \<lparr>plans = [], subscriptions = [], invoices = [], usages = [], processed = [], next_key = 1\<rparr>,
     stored_files = [own_path, ''tenants/logos/l.png'', ''tenants/knowledge/f.pdf'']\<rparr>"

definition stranger :: user where
  "stranger = \<lparr>user_id = 9, first_name = ''Eve'', last_name = ''X'', email = ''eve@other''\<rparr>"

lemma demo_served:
  "serve_protected_media demo_archive (Some demo_user) ''tenants/x/../00000000-0000-0000-0000-000000000001/.//attachments/a.pdf'' = Inr (Served own_path)"
  "serve_protected_media demo_archive (Some stranger) own_path = Inr (Forbidden ''You do not have access to this file.'')"
  "serve_protected_media demo_archive None ''tenants/logos/../knowledge/f.pdf'' = Inr (Forbidden ''Authentication required.'')"
  "serve_protected_media demo_archive None ''tenants/logos/l.png'' = Inr (Served ''tenants/logos/l.png'')"
  "serve_protected_media demo_archive (Some demo_user) ''../etc/passwd'' = Inr NotFound"
  by code_simp+

theorem media_isolated_witness:
  "serve_protected_media demo_archive (Some demo_user) ''tenants/x/../00000000-0000-0000-0000-000000000001/.//attachments/a.pdf'' = Inr (Served own_path)
   \<and> is_member_user demo_archive demo_user 1"
proof -
  have "split_on (CHR ''/'') own_path = ''tenants'' # ''00000000-0000-0000-0000-000000000001'' # [''attachments'', ''a.pdf'']" "uuid_value ''00000000-0000-0000-0000-000000000001'' = Some 1"
    by code_simp+
  from media_isolated [OF demo_served(1) this] demo_served(1) show ?thesis by simp
qed

theorem knowledge_files_as_listed_witness:
  "knowledge_path_authorized demo_archive demo_user ''tenants/knowledge/f.pdf'' \<and> \<not> is_superuser agent_caller"
proof -
  let ?a = "(Knowledge.new_article 3 1 demo_user)\<lparr>art_status := KbPublished, art_file := Some ''tenants/knowledge/f.pdf''\<rparr>"
  have row: "first_row (\<lambda>a. art_file a = Some ''tenants/knowledge/f.pdf'') (arc_articles demo_archive) = Some ?a"
    by (simp add: demo_archive_def)
  have "current_tenant (base (arc_desk demo_archive)) = Some (art_tenant ?a)" "caller_ten agent_caller = art_tenant ?a"
    "\<not> is_superuser agent_caller" "is_member_user demo_archive (caller_user agent_caller) (art_tenant ?a)"
    by code_simp+
  note agrees = knowledge_files_as_listed [OF row this]
  have "?a \<in> set (visible_articles (library_of demo_archive) agent_caller)"
    by (simp add: visible_articles_def tenant_articles_def scoped_def library_of_def demo_archive_def demo_forum_def demo_desk_def demo_store_def
        group_gate_def Knowledge.new_article_def)
  then have "knowledge_path_authorized demo_archive (caller_user agent_caller) ''tenants/knowledge/f.pdf''" using agrees by blast
  then show ?thesis by (simp add: agent_caller_def)
qed

end
