(* ===== verification/Accounts.thy ===== *)
theory Accounts
  imports Crm_Reminders Ticket_Links Billing Api_Keys
begin

text \<open>
  Accounts (\<open>apps/accounts/views.py\<close>, \<open>serializers.py\<close>): the members an administrator
  creates and deactivates, invitations and their acceptance, groups of users,
  registration, passwords and the end of a session.  The strength of a password
  (\<open>validate_password\<close>) is a parameter, the random token of an invitation an argument;
  a stored password is the text it was set from, which is what \<open>check_password\<close>
  compares.  The format of an email address is not checked, and a profile is looked up
  whatever tenant the context has.
\<close>

section \<open>Rows\<close>

record invitation =
  inv_id :: nat
  inv_tenant :: tenant
  inv_email :: string
  inv_role :: role
  inv_token :: string
  inv_by :: user
  accepted_at :: "instant option"
  expires_at :: instant

record people_group =
  pg_id :: nat
  pg_tenant :: tenant_id
  pg_name :: string
  pg_members :: "user_id list"

record staff =
  people_desk :: desk
  staff_ledger :: ledger
  profiles :: "(user_id \<times> tenant_id) list"
  invitations :: "invitation list"
  people_groups :: "people_group list"
  inactive_accounts :: "user_id list"
  passwords :: "(user_id \<times> string) list"
  invite_mails :: "(nat \<times> string) list"
  verify_mails :: "user_id list"

type_synonym 'a staffop = "(staff, 'a) cmd"

abbreviation staff_base :: "staff \<Rightarrow> store" where
  "staff_base v \<equiv> base (people_desk v)"

definition in_staff :: "'a act \<Rightarrow> 'a staffop" where
  "in_staff c = (\<lambda>v. case c (people_desk v) of (r, d') \<Rightarrow> (r, v\<lparr>people_desk := d'\<rparr>))"

lemma run_in_staff [cmd_simps]: "in_staff c v = (fst (c (people_desk v)), v\<lparr>people_desk := snd (c (people_desk v))\<rparr>)"
  by (simp add: in_staff_def split: prod.split)

definition is_expired :: "instant \<Rightarrow> invitation \<Rightarrow> bool" where
  "is_expired now x \<longleftrightarrow> now > expires_at x"

definition is_accepted :: "invitation \<Rightarrow> bool" where
  "is_accepted x \<longleftrightarrow> accepted_at x \<noteq> None"

section \<open>Users and their memberships\<close>

text \<open>Django's \<open>normalize_email\<close>: the domain in lower case.\<close>

definition normalize_email :: "string \<Rightarrow> string" where
  "normalize_email s =
     (if CHR ''@'' \<notin> set s then s
      else let domain = rev (takeWhile (\<lambda>c. c \<noteq> CHR ''@'') (rev s)) in take (length s - length domain) s @ lower domain)"

definition insert_user :: "string \<Rightarrow> string \<Rightarrow> string \<Rightarrow> string \<Rightarrow> user staffop" where
  "insert_user mail password given_name surname =
     bindc (asks (\<lambda>v. list_ex (\<lambda>u. email u = mail) (users (staff_base v)))) (\<lambda>taken.
     if taken then raise_exc (DatabaseError ''email'')
     else bindc (in_staff fresh_pk) (\<lambda>i.
       let u = \<lparr>user_id = i, first_name = given_name, last_name = surname, email = mail\<rparr>
       in thenc (update (\<lambda>v. v\<lparr>people_desk := (people_desk v)\<lparr>base := (staff_base v)\<lparr>users := u # users (staff_base v)\<rparr>\<rparr>,
            passwords := (i, password) # passwords v\<rparr>)) (ret u)))"

definition create_user :: "string \<Rightarrow> string \<Rightarrow> string \<Rightarrow> string \<Rightarrow> user staffop" where
  "create_user mail password given_name surname =
     (if mail = [] then raise_exc (ValueError ''Users must have an email address.'')
      else insert_user (normalize_email mail) password given_name surname)"

definition has_membership :: "staff \<Rightarrow> user \<Rightarrow> tenant_id \<Rightarrow> bool" where
  "has_membership v u ten \<longleftrightarrow> list_ex (\<lambda>m. user_id (member_user m) = user_id u \<and> member_tenant m = ten) (memberships (staff_base v))"

definition new_membership :: "user \<Rightarrow> tenant_id \<Rightarrow> role \<Rightarrow> membership" where
  "new_membership u ten r = \<lparr>member_user = u, member_tenant = ten, member_role = r, member_active = True, temporary_role = None,
     temporary_role_expires_at = None, temporary_codenames = []\<rparr>"

text \<open>The receiver of a new membership makes the member's profile, once.\<close>

definition create_profile_on_membership :: "user \<Rightarrow> tenant_id \<Rightarrow> unit staffop" where
  "create_profile_on_membership u ten = bindc (asks (\<lambda>v. (user_id u, ten) \<in> set (profiles v))) (\<lambda>there.
     if there then ret ()
     else thenc (update (\<lambda>v. v\<lparr>profiles := (user_id u, ten) # profiles v\<rparr>))
       (in_staff (broadcast_live_event ten ''profile.created'' (JObj [(''user_id'', jpk (user_id u))]))))"

text \<open>\<open>TenantMembership.objects.create\<close>; a user has one membership per tenant.\<close>

definition add_membership :: "user \<Rightarrow> tenant_id \<Rightarrow> role \<Rightarrow> unit staffop" where
  "add_membership u ten r = bindc (asks (\<lambda>v. has_membership v u ten)) (\<lambda>taken.
     if taken then raise_exc (DatabaseError ''unique_together'')
     else thenc (in_staff (update (\<lambda>d. d\<lparr>base := (base d)\<lparr>memberships := new_membership u ten r # memberships (base d)\<rparr>\<rparr>)))
       (thenc (create_profile_on_membership u ten)
         (in_staff (bindc (asks (\<lambda>d. membership_event d (new_membership u ten r))) (broadcast_live_event ten ''membership.created'')))))"

definition manager_gate :: "caller \<Rightarrow> unit staffop" where
  "manager_gate c = bindc (asks (\<lambda>v. is_tenant_admin_or_manager (people_desk v) (api_of c))) (\<lambda>granted.
     if granted then ret () else raise_exc (PermissionDenied ''manager''))"

text \<open>The level of the caller's effective role, when it has a membership.\<close>

definition actor_level :: "staff \<Rightarrow> caller \<Rightarrow> nat option" where
  "actor_level v c = map_option (level_of (people_desk v)) (membership_of (people_desk v) (user_id (caller_user c)) (caller_ten c))"

definition outranks :: "staff \<Rightarrow> caller \<Rightarrow> role \<Rightarrow> bool" where
  "outranks v c r \<longleftrightarrow> (case actor_level v c of None \<Rightarrow> False | Some l \<Rightarrow> hierarchy_level r < l)"

definition tenant_role :: "staff \<Rightarrow> tenant_id \<Rightarrow> nat \<Rightarrow> role option" where
  "tenant_role v ten i = first_row (\<lambda>r. role_id r = i \<and> role_tenant r = ten) (roles (people_desk v))"

record user_body =
  ub_email :: string
  ub_password :: string
  ub_first :: string
  ub_last :: string
  ub_role :: "nat option"

text \<open>\<open>UserViewSet.create_user\<close>\<close>

definition create_user_action :: "caller \<Rightarrow> user_body \<Rightarrow> response staffop" where
  "create_user_action c b =
     thenc (manager_gate c)
     (let mail = strip (ub_email b)
      in if mail = [] \<or> ub_password b = [] then ret (Response 400 ''Email and password are required.'')
         else (case ub_role b of
             None \<Rightarrow> ret (Response 400 ''Role is required.'')
           | Some i \<Rightarrow> bindc (asks (\<lambda>v. v)) (\<lambda>v. case tenant_role v (caller_ten c) i of
               None \<Rightarrow> ret (Response 400 ''Invalid role.'')
             | Some r \<Rightarrow>
                 if outranks v c r then ret (Response 403 ''You cannot assign a role higher than your own.'')
                 else (case first_row (\<lambda>u. email u = mail) (users (staff_base v)) of
                     Some u \<Rightarrow>
                       if has_membership v u (caller_ten c) then ret (Response 400 ''A user with this email is already a member of this tenant.'')
                       else thenc (add_membership u (caller_ten c) r) (ret (Response 201 []))
                   | None \<Rightarrow> bindc (create_user mail (ub_password b) (strip (ub_first b)) (strip (ub_last b))) (\<lambda>u.
                       thenc (add_membership u (caller_ten c) r) (ret (Response 201 [])))))))"

text \<open>The \<open>create\<close> of the framework: the email is read-only in the serializer, so the new row has none.\<close>

definition plain_create :: "caller \<Rightarrow> string \<Rightarrow> string \<Rightarrow> user staffop" where
  "plain_create c given_name surname = thenc (manager_gate c) (insert_user [] [] (strip given_name) (strip surname))"

text \<open>\<open>get_queryset\<close>: the active members of the request's tenant, for any authenticated user.\<close>

definition tenant_users :: "staff \<Rightarrow> tenant_id \<Rightarrow> user list" where
  "tenant_users v ten = filter (\<lambda>u. list_ex (\<lambda>m. user_id (member_user m) = user_id u \<and> member_tenant m = ten \<and> member_active m)
     (memberships (staff_base v))) (users (staff_base v))"

definition destroy_user :: "caller \<Rightarrow> user_id \<Rightarrow> unit staffop" where
  "destroy_user c i =
     thenc (manager_gate c)
     (bindc (asks (\<lambda>v. first_row (\<lambda>u. user_id u = i) (tenant_users v (caller_ten c)))) (\<lambda>found. case found of
        None \<Rightarrow> raise_exc (DoesNotExist ''User'')
      | Some u \<Rightarrow> in_staff (deactivate_memberships u (caller_ten c))))"

section \<open>Invitations\<close>

definition INVITATION_EXPIRY_HOURS :: int where "INVITATION_EXPIRY_HOURS = 72"

definition invitation_end :: "instant \<Rightarrow> instant" where
  "invitation_end now = now + INVITATION_EXPIRY_HOURS * 60 * minute_us"

text \<open>\<open>InvitationSerializer.validate\<close>: it deletes the expired invitations of the address on its way.\<close>

definition open_invitation :: "tenant_id \<Rightarrow> string \<Rightarrow> invitation \<Rightarrow> bool" where
  "open_invitation ten mail x \<longleftrightarrow> tenant_id (inv_tenant x) = ten \<and> lower (inv_email x) = mail \<and> accepted_at x = None"

definition validate_invitation :: "tenant_id \<Rightarrow> string \<Rightarrow> unit staffop" where
  "validate_invitation ten address =
     (let mail = lower (strip address)
      in if mail = [] then ret ()
         else bindc (asks (\<lambda>v. list_ex (\<lambda>m. member_tenant m = ten \<and> lower (email (member_user m)) = mail \<and> member_active m)
                (memberships (staff_base v)))) (\<lambda>member.
           if member then raise_exc (ValidationError ''This email is already a member of this tenant.'')
           else thenc (update (\<lambda>v. v\<lparr>invitations := filter (\<lambda>x. \<not> (open_invitation ten mail x \<and> expires_at x < clock (staff_base v))) (invitations v)\<rparr>))
             (bindc (asks (\<lambda>v. list_ex (\<lambda>x. open_invitation ten mail x \<and> expires_at x \<ge> clock (staff_base v)) (invitations v))) (\<lambda>pending.
              if pending then raise_exc (ValidationError ''A pending invitation already exists for this email address.'') else ret ()))))"

definition send_invitation_email :: "invitation \<Rightarrow> unit staffop" where
  "send_invitation_email x = update (\<lambda>v. v\<lparr>invite_mails := invite_mails v @ [(inv_id x, inv_email x)]\<rparr>)"

definition create_invitation :: "caller \<Rightarrow> string \<Rightarrow> nat \<Rightarrow> string \<Rightarrow> invitation staffop" where
  "create_invitation c address role_key token =
     thenc (manager_gate c)
     (bindc (asks (\<lambda>v. tenant_role v (caller_ten c) role_key)) (\<lambda>found. case found of
        None \<Rightarrow> raise_exc (ValidationError ''role'')
      | Some r \<Rightarrow> if strip address = [] then raise_exc (ValidationError ''email'') else thenc (validate_invitation (caller_ten c) address)
          (bindc (asks (\<lambda>v. v)) (\<lambda>v.
           thenc (lift_res (check_can_add_user (staff_ledger v) (staff_base v) (caller_ten c)))
           (if outranks v c r then raise_exc (PermissionDenied ''You cannot invite users with a higher role than your own.'')
            else if list_ex (\<lambda>x. inv_token x = token) (invitations v) then raise_exc (DatabaseError ''token'')
            else bindc (in_staff fresh_pk) (\<lambda>i.
              let x = \<lparr>inv_id = i, inv_tenant = caller_tenant c, inv_email = strip address, inv_role = r, inv_token = token, inv_by = caller_user c,
                       accepted_at = None, expires_at = invitation_end (clock (staff_base v))\<rparr>
              in thenc (update (\<lambda>v. v\<lparr>invitations := x # invitations v\<rparr>)) (thenc (send_invitation_email x) (ret x))))))))"

definition invitation_object :: "caller \<Rightarrow> nat \<Rightarrow> invitation staffop" where
  "invitation_object c i = bindc (asks (\<lambda>v. first_row (\<lambda>x. inv_id x = i \<and> tenant_id (inv_tenant x) = caller_ten c) (invitations v))) (\<lambda>found. case found of
     None \<Rightarrow> raise_exc (DoesNotExist ''Invitation'') | Some x \<Rightarrow> ret x)"

definition resend_invitation :: "caller \<Rightarrow> nat \<Rightarrow> string \<Rightarrow> response staffop" where
  "resend_invitation c i token =
     thenc (manager_gate c) (bindc (invitation_object c i) (\<lambda>x.
     if is_accepted x then ret (Response 400 ''Cannot resend an accepted invitation.'')
     else bindc (in_staff now_of) (\<lambda>now.
       bindc (asks (\<lambda>v. list_ex (\<lambda>y. inv_token y = token \<and> inv_id y \<noteq> i) (invitations v))) (\<lambda>taken.
       if taken then raise_exc (DatabaseError ''token'')
       else thenc (update (\<lambda>v. v\<lparr>invitations := map (\<lambda>y. if inv_id y = i then y\<lparr>inv_token := token, expires_at := invitation_end now\<rparr> else y) (invitations v)\<rparr>))
         (thenc (send_invitation_email x) (ret (Response 200 [])))))))"

definition destroy_invitation :: "caller \<Rightarrow> nat \<Rightarrow> unit staffop" where
  "destroy_invitation c i =
     thenc (manager_gate c) (bindc (invitation_object c i) (\<lambda>x.
     if is_accepted x then raise_exc (ValidationError ''Cannot delete an accepted invitation.'')
     else update (\<lambda>v. v\<lparr>invitations := filter (\<lambda>y. inv_id y \<noteq> i) (invitations v)\<rparr>)))"

text \<open>\<open>UserCreateSerializer\<close>; the names and the email are required.\<close>

definition register_user :: "(string \<Rightarrow> bool) \<Rightarrow> user_body \<Rightarrow> user staffop" where
  "register_user strong b =
     bindc (asks (\<lambda>v. list_ex (\<lambda>u. email u = strip (ub_email b)) (users (staff_base v)))) (\<lambda>taken.
     if strip (ub_email b) = [] \<or> taken then raise_exc (ValidationError ''email'')
     else if strip (ub_first b) = [] \<or> strip (ub_last b) = [] then raise_exc (ValidationError ''name'')
     else if length (strip (ub_password b)) < 8 \<or> \<not> strong (strip (ub_password b)) then raise_exc (ValidationError ''password'')
     else create_user (strip (ub_email b)) (strip (ub_password b)) (strip (ub_first b)) (strip (ub_last b)))"

text \<open>\<open>AuthViewSet.accept_invitation\<close> for the signed-in user, if any, else with the data of a registration.\<close>

definition join_tenant :: "invitation \<Rightarrow> user \<Rightarrow> response staffop" where
  "join_tenant x u =
     (if lower (email u) \<noteq> lower (inv_email x) then ret (Response 403 ''Invitation email does not match your account.'')
      else bindc (asks (\<lambda>v. has_membership v u (tenant_id (inv_tenant x)))) (\<lambda>member.
        if member then ret (Response 400 ''You are already a member of this tenant.'')
        else thenc (add_membership u (tenant_id (inv_tenant x)) (inv_role x))
          (bindc (in_staff now_of) (\<lambda>now.
           thenc (update (\<lambda>v. v\<lparr>invitations := map (\<lambda>y. if inv_id y = inv_id x then y\<lparr>accepted_at := Some now\<rparr> else y) (invitations v)\<rparr>))
             (ret (Response 200 []))))))"

definition accept_invitation :: "(string \<Rightarrow> bool) \<Rightarrow> user option \<Rightarrow> string \<Rightarrow> user_body \<Rightarrow> response staffop" where
  "accept_invitation strong who token b =
     (if token = [] then ret (Response 400 ''Invitation token is required.'')
      else bindc (asks (\<lambda>v. (clock (staff_base v), first_row (\<lambda>x. inv_token x = token) (invitations v)))) (\<lambda>(now, found). case found of
          None \<Rightarrow> ret (Response 404 ''Invalid invitation token.'')
        | Some x \<Rightarrow>
            if is_accepted x then ret (Response 400 ''Invitation has already been accepted.'')
            else if is_expired now x then ret (Response 400 ''Invitation has expired.'')
            else (case who of
                Some u \<Rightarrow> join_tenant x u
              | None \<Rightarrow> bindc (register_user strong b) (join_tenant x))))"

section \<open>Groups\<close>

definition group_conflict :: "staff \<Rightarrow> tenant_id \<Rightarrow> nat option \<Rightarrow> user_id list \<Rightarrow> bool" where
  "group_conflict v ten self ids \<longleftrightarrow>
     list_ex (\<lambda>g. pg_tenant g = ten \<and> Some (pg_id g) \<noteq> self \<and> list_ex (\<lambda>i. i \<in> set (pg_members g)) ids) (people_groups v)"

definition active_ids :: "staff \<Rightarrow> tenant_id \<Rightarrow> user_id list" where
  "active_ids v ten = map user_id (tenant_users v ten)"

text \<open>The validation of \<open>member_ids\<close>: active members of the tenant, in no other group.\<close>

definition validate_member_ids :: "staff \<Rightarrow> tenant_id \<Rightarrow> nat option \<Rightarrow> user_id list \<Rightarrow> unit res" where
  "validate_member_ids v ten self ids =
     (if list_ex (\<lambda>i. i \<notin> set (active_ids v ten)) ids then Inl (ValidationError ''member_ids'')
      else if group_conflict v ten self ids then Inl (ValidationError ''A user can only belong to one group at a time.'')
      else Inr ())"

definition create_group :: "caller \<Rightarrow> string \<Rightarrow> user_id list \<Rightarrow> unit staffop" where
  "create_group c name ids =
     thenc (manager_gate c)
     (bindc (asks (\<lambda>v. v)) (\<lambda>v.
      thenc (lift_res (validate_member_ids v (caller_ten c) None ids))
      (if list_ex (\<lambda>g. pg_tenant g = caller_ten c \<and> pg_name g = name) (people_groups v) then raise_exc (DatabaseError ''unique_together'')
       else bindc (in_staff fresh_pk) (\<lambda>i.
         update (\<lambda>v. v\<lparr>people_groups := \<lparr>pg_id = i, pg_tenant = caller_ten c, pg_name = name, pg_members = remdups ids\<rparr> # people_groups v\<rparr>)))))"

definition group_object :: "caller \<Rightarrow> nat \<Rightarrow> people_group staffop" where
  "group_object c i = bindc (asks (\<lambda>v. first_row (\<lambda>g. pg_id g = i \<and> pg_tenant g = caller_ten c) (people_groups v))) (\<lambda>found. case found of
     None \<Rightarrow> raise_exc (DoesNotExist ''UserGroup'') | Some g \<Rightarrow> ret g)"

definition set_members :: "nat \<Rightarrow> (user_id list \<Rightarrow> user_id list) \<Rightarrow> unit staffop" where
  "set_members i f = update (\<lambda>v. v\<lparr>people_groups := map (\<lambda>g. if pg_id g = i then g\<lparr>pg_members := f (pg_members g)\<rparr> else g) (people_groups v)\<rparr>)"

text \<open>\<open>PUT\<close> or \<open>PATCH\<close> with \<open>member_ids\<close>\<close>

definition update_group :: "caller \<Rightarrow> nat \<Rightarrow> user_id list \<Rightarrow> unit staffop" where
  "update_group c i ids =
     thenc (manager_gate c)
     (bindc (group_object c i) (\<lambda>g.
      bindc (asks (\<lambda>v. v)) (\<lambda>v.
      thenc (lift_res (validate_member_ids v (caller_ten c) (Some i) ids)) (set_members i (\<lambda>_. remdups ids)))))"

definition add_members :: "caller \<Rightarrow> nat \<Rightarrow> user_id list \<Rightarrow> response staffop" where
  "add_members c i ids =
     thenc (manager_gate c)
     (bindc (group_object c i) (\<lambda>g.
      if ids = [] then ret (Response 400 ''user_ids must be a non-empty list.'')
      else bindc (asks (\<lambda>v. v)) (\<lambda>v.
        let eligible = filter (\<lambda>u. u \<in> set ids) (active_ids v (caller_ten c))
        in if group_conflict v (caller_ten c) (Some i) eligible then ret (Response 400 ''A user can only belong to one group at a time.'')
           else thenc (set_members i (\<lambda>ms. ms @ filter (\<lambda>u. u \<notin> set ms) (remdups eligible))) (ret (Response 200 [])))))"

definition remove_members :: "caller \<Rightarrow> nat \<Rightarrow> user_id list \<Rightarrow> response staffop" where
  "remove_members c i ids =
     thenc (manager_gate c)
     (bindc (group_object c i) (\<lambda>g.
      if ids = [] then ret (Response 400 ''user_ids must be a non-empty list.'')
      else thenc (set_members i (filter (\<lambda>u. u \<notin> set ids))) (ret (Response 200 []))))"

definition destroy_group :: "caller \<Rightarrow> nat \<Rightarrow> unit staffop" where
  "destroy_group c i = thenc (manager_gate c) (bindc (group_object c i) (\<lambda>g.
     update (\<lambda>v. v\<lparr>people_groups := filter (\<lambda>x. pg_id x \<noteq> i) (people_groups v)\<rparr>)))"

section \<open>Registration, passwords, sign-out\<close>

definition register :: "(string \<Rightarrow> bool) \<Rightarrow> user_body \<Rightarrow> user staffop" where
  "register strong b = bindc (register_user strong b) (\<lambda>u.
     thenc (update (\<lambda>v. v\<lparr>inactive_accounts := user_id u # inactive_accounts v, verify_mails := verify_mails v @ [user_id u]\<rparr>)) (ret u))"

definition change_password :: "(string \<Rightarrow> bool) \<Rightarrow> user \<Rightarrow> string \<Rightarrow> string \<Rightarrow> string \<Rightarrow> response staffop" where
  "change_password strong u current fresh again =
     (if current = [] \<or> fresh = [] then ret (Response 400 ''Current password and new password are required.'')
      else if fresh \<noteq> again then ret (Response 400 ''New passwords do not match.'')
      else if \<not> strong fresh then ret (Response 400 ''password'')
      else bindc (asks (\<lambda>v. map_of (passwords v) (user_id u))) (\<lambda>stored.
        if stored \<noteq> Some current then ret (Response 400 ''Current password is incorrect.'')
        else thenc (update (\<lambda>v. v\<lparr>passwords := (user_id u, fresh) # filter (\<lambda>p. fst p \<noteq> user_id u) (passwords v)\<rparr>)) (ret (Response 200 []))))"

text \<open>\<open>logout\<close>: \<open>valid\<close> is the outcome of blacklisting the token; the agent is set offline first, in the tenant of the context.\<close>

definition logout :: "user \<Rightarrow> string \<Rightarrow> bool \<Rightarrow> response staffop" where
  "logout u refresh valid =
     (if refresh = [] then ret (Response 400 ''Refresh token is required.'')
      else thenc (update (\<lambda>v. v\<lparr>people_desk := (people_desk v)\<lparr>availabilities := map (\<lambda>a. if user_id (av_user a) = user_id u \<and> current_tenant (staff_base v) = Some (av_tenant a) then a\<lparr>av_status := Offline\<rparr> else a)
             (availabilities (people_desk v))\<rparr>\<rparr>))
        (ret (if valid then Response 200 [] else Response 400 ''Invalid or already blacklisted token.'')))"

end
