(* ===== verification/Accounts_Laws.thy ===== *)
theory Accounts_Laws
  imports Accounts
begin

text \<open>
  What the accounts endpoints keep: an invitation is used once, by its addressee
  and in time; a user is in one group of a tenant at most; nobody creates or
  invites a member above himself.
\<close>

section \<open>The tables of invitations and groups\<close>

definition groups_ok :: "people_group list \<Rightarrow> bool" where
  "groups_ok gs \<longleftrightarrow> distinct (map pg_id gs) \<and> (\<forall>g \<in> set gs. \<forall>h \<in> set gs. pg_tenant g = pg_tenant h \<and> pg_id g \<noteq> pg_id h
     \<longrightarrow> set (pg_members g) \<inter> set (pg_members h) = {})"

definition staff_ok :: "staff \<Rightarrow> bool" where
  "staff_ok v \<longleftrightarrow> distinct (map inv_id (invitations v)) \<and> distinct (map inv_token (invitations v))
     \<and> list_all (\<lambda>x. inv_id x < next_pk (staff_base v)) (invitations v)
     \<and> list_all (\<lambda>g. pg_id g < next_pk (staff_base v)) (people_groups v) \<and> groups_ok (people_groups v)"

definition used :: "staff \<Rightarrow> string \<Rightarrow> bool" where
  "used v token \<longleftrightarrow> list_ex (\<lambda>x. inv_token x = token \<and> is_accepted x) (invitations v)"

definition staff_kept :: "staff \<Rightarrow> staff \<Rightarrow> bool" where
  "staff_kept v v' \<longleftrightarrow> (staff_ok v \<longrightarrow> staff_ok v' \<and> next_pk (staff_base v) \<le> next_pk (staff_base v') \<and> (\<forall>t. used v t \<longrightarrow> used v' t))"

interpretation staffs: step_law staff_kept
  by unfold_locales (auto simp: staff_kept_def)

lemma same_tables_kept:
  assumes "invitations v' = invitations v" "people_groups v' = people_groups v" "next_pk (staff_base v) \<le> next_pk (staff_base v')"
  shows "staff_kept v v'"
  using assms by (auto simp: staff_kept_def staff_ok_def used_def list_all_iff intro: less_le_trans)

lemma in_staff_kept:
  assumes "\<And>d. next_pk (base d) \<le> next_pk (base (snd (q d)))"
  shows "obeys staff_kept (in_staff q)"
  unfolding obeys_def using assms by (auto simp: cmd_simps intro!: same_tables_kept)

lemma desk_kept: "obeys staff_kept (in_staff fresh_pk)" "obeys staff_kept (in_staff now_of)" "obeys staff_kept (in_staff (deactivate_memberships u ten))"
  by (rule in_staff_kept; simp add: cmd_simps deactivate_memberships_def)+

lemma manager_gate_kept: "obeys staff_kept (manager_gate c)" "obeys staff_kept (invitation_object c i)" "obeys staff_kept (group_object c i)"
  unfolding manager_gate_def invitation_object_def group_object_def
  by (intro staffs.obeys_bind staffs.obeys_asks staffs.obeys_if staffs.obeys_option staffs.obeys_ret staffs.obeys_raise)+

lemma side_staff_kept:
  "obeys staff_kept (update (\<lambda>v. v\<lparr>passwords := f1 v\<rparr>))" "obeys staff_kept (update (\<lambda>v. v\<lparr>inactive_accounts := f2 v, verify_mails := f3 v\<rparr>))"
  "obeys staff_kept (send_invitation_email x)"
  "obeys staff_kept (update (\<lambda>v. v\<lparr>people_desk := (people_desk v)\<lparr>base := (staff_base v)\<lparr>users := f4 v\<rparr>\<rparr>, passwords := f5 v\<rparr>))"
  "obeys staff_kept (update (\<lambda>v. v\<lparr>people_desk := (people_desk v)\<lparr>availabilities := f6 v\<rparr>\<rparr>))"
  by (auto simp: obeys_def cmd_simps send_invitation_email_def intro!: same_tables_kept)

lemma insert_user_kept: "obeys staff_kept (insert_user mail password a b)"
  unfolding insert_user_def Let_def
  by (intro staffs.obeys_bind staffs.obeys_asks staffs.obeys_if staffs.obeys_raise staffs.obeys_then staffs.obeys_ret desk_kept side_staff_kept)

lemma create_user_kept: "obeys staff_kept (create_user mail password a b)"
  unfolding create_user_def by (intro staffs.obeys_if staffs.obeys_raise insert_user_kept)

lemma membership_parts_kept: "obeys staff_kept (update (\<lambda>v. v\<lparr>profiles := f1 v\<rparr>))" "obeys staff_kept (in_staff (broadcast_live_event ten event f2))"
  "obeys staff_kept (in_staff (update (\<lambda>d. d\<lparr>base := (base d)\<lparr>memberships := f3 d\<rparr>\<rparr>)))"
  "obeys staff_kept (in_staff (bindc (asks f4) (broadcast_live_event ten event)))"
  by (auto simp: obeys_def cmd_simps intro!: same_tables_kept)

lemma add_membership_kept: "obeys staff_kept (add_membership u ten r)"
  unfolding add_membership_def create_profile_on_membership_def
  by (intro staffs.obeys_bind staffs.obeys_asks staffs.obeys_if staffs.obeys_raise staffs.obeys_then staffs.obeys_ret membership_parts_kept)

lemma register_user_kept: "obeys staff_kept (register_user strong b)"
  unfolding register_user_def
  by (intro staffs.obeys_bind staffs.obeys_asks staffs.obeys_if staffs.obeys_raise create_user_kept)

lemmas staff_basics = staffs.obeys_bind staffs.obeys_asks staffs.obeys_if staffs.obeys_raise staffs.obeys_then staffs.obeys_ret staffs.obeys_option
  staffs.obeys_lift desk_kept manager_gate_kept side_staff_kept insert_user_kept create_user_kept add_membership_kept register_user_kept

section \<open>Changes of the invitations\<close>

text \<open>Rows are removed only while they are open.\<close>

lemma filter_invitations_kept:
  assumes "\<And>v x. is_accepted x \<Longrightarrow> p v x"
  shows "obeys staff_kept (update (\<lambda>v. v\<lparr>invitations := filter (p v) (invitations v)\<rparr>))"
  unfolding obeys_def
  using assms by (auto simp: cmd_simps staff_kept_def staff_ok_def used_def list_all_iff list_ex_iff distinct_map intro: inj_on_subset)

lemma map_invitations_kept:
  assumes "\<And>x. inv_id (f x) = inv_id x \<and> inv_token (f x) = inv_token x \<and> (is_accepted x \<longrightarrow> is_accepted (f x))"
  shows "obeys staff_kept (update (\<lambda>v. v\<lparr>invitations := map f (invitations v)\<rparr>))"
proof -
  have "map inv_id (map f xs) = map inv_id xs" "map inv_token (map f xs) = map inv_token xs" for xs using assms by simp_all
  then show ?thesis
    unfolding obeys_def using assms by (auto simp: cmd_simps staff_kept_def staff_ok_def used_def list_all_iff list_ex_iff simp del: map_map)
qed

lemma validate_invitation_kept: "obeys staff_kept (validate_invitation ten address)"
  unfolding validate_invitation_def Let_def
  by (intro staff_basics filter_invitations_kept) (auto simp: open_invitation_def is_accepted_def)

lemma destroy_invitation_kept: "obeys staff_kept (destroy_invitation c i)"
proof -
  have "staff_kept v (v\<lparr>invitations := filter (\<lambda>y. inv_id y \<noteq> i) (invitations v)\<rparr>)"
    if "first_row (\<lambda>x. inv_id x = i \<and> tenant_id (inv_tenant x) = caller_ten c) (invitations v) = Some x" "\<not> is_accepted x" for v x
  proof -
    have x: "x \<in> set (invitations v)" "inv_id x = i" using that(1) by (auto dest: first_row_SomeD)
    have "inv_id y \<noteq> i" if "staff_ok v" "y \<in> set (invitations v)" "is_accepted y" for y
      using that x \<open>\<not> is_accepted x\<close> by (auto simp: staff_ok_def distinct_map inj_on_def)
    then show ?thesis
      by (auto simp: staff_kept_def staff_ok_def used_def list_all_iff list_ex_iff distinct_map intro: inj_on_subset)
  qed
  then have "obeys staff_kept (bindc (invitation_object c i) (\<lambda>x. if is_accepted x then raise_exc (ValidationError ''Cannot delete an accepted invitation.'')
     else update (\<lambda>v. v\<lparr>invitations := filter (\<lambda>y. inv_id y \<noteq> i) (invitations v)\<rparr>)))"
    by (auto simp: obeys_def invitation_object_def cmd_simps staffs.step_refl split: option.split)
  then show ?thesis unfolding destroy_invitation_def by (intro staffs.obeys_then manager_gate_kept)
qed

lemma new_invitation_kept:
  assumes "\<not> list_ex (\<lambda>y. inv_token y = inv_token x) (invitations v)" "inv_id x = next_pk (staff_base v)"
    and "invitations v' = x # invitations v" "people_groups v' = people_groups v" "next_pk (staff_base v') = next_pk (staff_base v) + 1"
  shows "staff_kept v v'"
  using assms by (auto simp: staff_kept_def staff_ok_def used_def list_all_iff list_ex_iff)

lemma create_invitation_kept: "obeys staff_kept (create_invitation c address role_key token)"
proof -
  have "staff_kept v (snd (bindc (in_staff fresh_pk) (\<lambda>i.
      let x = \<lparr>inv_id = i, inv_tenant = caller_tenant c, inv_email = strip address, inv_role = r, inv_token = token, inv_by = caller_user c,
               accepted_at = None, expires_at = invitation_end (clock (staff_base v))\<rparr>
      in thenc (update (\<lambda>v. v\<lparr>invitations := x # invitations v\<rparr>)) (thenc (send_invitation_email x) (ret x))) v))"
    if "\<not> list_ex (\<lambda>x. inv_token x = token) (invitations v)" for v r
    using that by (intro new_invitation_kept) (auto simp: cmd_simps Let_def send_invitation_email_def)
  then have inner: "obeys staff_kept (bindc (asks (\<lambda>v. v)) (\<lambda>v.
           thenc (lift_res (check_can_add_user (staff_ledger v) (staff_base v) (caller_ten c)))
           (if outranks v c r then raise_exc (PermissionDenied ''You cannot invite users with a higher role than your own.'')
            else if list_ex (\<lambda>x. inv_token x = token) (invitations v) then raise_exc (DatabaseError ''token'')
            else bindc (in_staff fresh_pk) (\<lambda>i.
              let x = \<lparr>inv_id = i, inv_tenant = caller_tenant c, inv_email = strip address, inv_role = r, inv_token = token, inv_by = caller_user c,
                       accepted_at = None, expires_at = invitation_end (clock (staff_base v))\<rparr>
              in thenc (update (\<lambda>v. v\<lparr>invitations := x # invitations v\<rparr>)) (thenc (send_invitation_email x) (ret x))))))" for r
    by (auto simp: obeys_def run_bind run_asks run_then run_lift run_raise staffs.step_refl split: sum.split)
  show ?thesis
    unfolding create_invitation_def
    by (rule staffs.obeys_then [OF manager_gate_kept(1)], rule staffs.obeys_bind [OF staffs.obeys_asks], rule staffs.obeys_option [OF staffs.obeys_raise],
        rule staffs.obeys_if [OF staffs.obeys_raise], rule staffs.obeys_then [OF validate_invitation_kept inner])
qed

lemma new_token_kept:
  assumes "first_row (\<lambda>x. inv_id x = i \<and> tenant_id (inv_tenant x) = ten) (invitations v) = Some x" "\<not> is_accepted x"
    and "\<not> list_ex (\<lambda>y. inv_token y = token \<and> inv_id y \<noteq> i) (invitations v)"
  shows "staff_kept v (v\<lparr>invitations := map (\<lambda>y. if inv_id y = i then y\<lparr>inv_token := token, expires_at := e\<rparr> else y) (invitations v)\<rparr>)"
proof -
  let ?f = "\<lambda>y. if inv_id y = i then y\<lparr>inv_token := token, expires_at := e\<rparr> else y"
  have x: "x \<in> set (invitations v)" "inv_id x = i" using assms(1) by (auto dest: first_row_SomeD)
  have ids: "map inv_id (map ?f xs) = map inv_id xs" for xs by (induction xs) auto
  have "staff_ok (v\<lparr>invitations := map ?f (invitations v)\<rparr>) \<and> (\<forall>t. used v t \<longrightarrow> used (v\<lparr>invitations := map ?f (invitations v)\<rparr>) t)" if ok: "staff_ok v"
  proof -
    have only: "y = x" if "y \<in> set (invitations v)" "inv_id y = i" for y
      using ok x that by (auto simp: staff_ok_def distinct_map inj_on_def)
    have tokens: "distinct (map inv_token (map ?f (invitations v)))"
      unfolding map_map distinct_map o_def
    proof
      show "distinct (invitations v)" using ok by (auto simp: staff_ok_def distinct_map)
      show "inj_on (\<lambda>y. inv_token (?f y)) (set (invitations v))"
        using ok assms(3) only by (auto simp: inj_on_def staff_ok_def distinct_map list_ex_iff)
    qed
    have "used (v\<lparr>invitations := map ?f (invitations v)\<rparr>) t" if "used v t" for t
    proof -
      obtain y where y: "y \<in> set (invitations v)" "inv_token y = t" "is_accepted y"
        using \<open>used v t\<close> by (auto simp: used_def list_ex_iff)
      then have "inv_id y \<noteq> i" using only assms(2) by auto
      with y show ?thesis by (force simp: used_def list_ex_iff)
    qed
    moreover have "list_all (\<lambda>x. inv_id x < next_pk (staff_base v)) (map ?f (invitations v))" using ok by (auto simp: staff_ok_def list_all_iff)
    moreover have "distinct (map inv_id (map ?f (invitations v)))" unfolding ids using ok by (simp add: staff_ok_def)
    ultimately show ?thesis using ok tokens unfolding staff_ok_def by simp
  qed
  then show ?thesis by (simp add: staff_kept_def)
qed

lemma resend_kept: "obeys staff_kept (resend_invitation c i token)"
proof -
  have "staff_kept v (v\<lparr>invitations := map (\<lambda>y. if inv_id y = i then y\<lparr>inv_token := token, expires_at := e\<rparr> else y) (invitations v),
      invite_mails := ms\<rparr>)"
    if "first_row (\<lambda>x. inv_id x = i \<and> tenant_id (inv_tenant x) = caller_ten c) (invitations v) = Some x" "\<not> is_accepted x"
      "\<not> list_ex (\<lambda>y. inv_token y = token \<and> inv_id y \<noteq> i) (invitations v)" for v x e ms
    by (rule staffs.step_trans [OF new_token_kept [OF that, where e = e] same_tables_kept]) simp_all
  then have "obeys staff_kept (bindc (invitation_object c i) (\<lambda>x.
     if is_accepted x then ret (Response 400 ''Cannot resend an accepted invitation.'')
     else bindc (in_staff now_of) (\<lambda>now.
       bindc (asks (\<lambda>v. list_ex (\<lambda>y. inv_token y = token \<and> inv_id y \<noteq> i) (invitations v))) (\<lambda>taken.
       if taken then raise_exc (DatabaseError ''token'')
       else thenc (update (\<lambda>v. v\<lparr>invitations := map (\<lambda>y. if inv_id y = i then y\<lparr>inv_token := token, expires_at := invitation_end now\<rparr> else y) (invitations v)\<rparr>))
         (thenc (send_invitation_email x) (ret (Response 200 [])))))))"
    by (auto simp: obeys_def invitation_object_def send_invitation_email_def cmd_simps staffs.step_refl split: option.split)
  then show ?thesis unfolding resend_invitation_def by (intro staffs.obeys_then manager_gate_kept)
qed

lemma join_kept: "obeys staff_kept (join_tenant x u)"
  unfolding join_tenant_def
  by (intro staff_basics map_invitations_kept) (simp add: is_accepted_def)

lemma accept_kept: "obeys staff_kept (accept_invitation strong who token b)"
  unfolding accept_invitation_def
  by (intro staffs.obeys_if staffs.obeys_ret staffs.obeys_bind staffs.obeys_asks staffs.obeys_prod staffs.obeys_option register_user_kept join_kept)

section \<open>Changes of the groups\<close>

lemma set_members_kept:
  assumes "g \<in> set (people_groups v)" "pg_id g = i" "set (f (pg_members g)) \<subseteq> set (pg_members g) \<union> set ids"
    and "\<not> group_conflict v (pg_tenant g) (Some i) ids"
  shows "staff_kept v (snd (set_members i f v))"
proof -
  let ?f = "\<lambda>g. if pg_id g = i then g\<lparr>pg_members := f (pg_members g)\<rparr> else g"
  have ids: "map pg_id (map ?f gs) = map pg_id gs" for gs by (induction gs) auto
  have "groups_ok (map ?f (people_groups v))" if ok: "groups_ok (people_groups v)"
  proof -
    have only: "h = g" if "h \<in> set (people_groups v)" "pg_id h = i" for h
      using ok assms(1,2) that by (auto simp: groups_ok_def distinct_map inj_on_def)
    have apart: "set (f (pg_members g)) \<inter> set (pg_members h) = {}" if "h \<in> set (people_groups v)" "pg_tenant h = pg_tenant g" "pg_id h \<noteq> i" for h
    proof -
      have "set (pg_members g) \<inter> set (pg_members h) = {}" using ok assms(1,2) that by (auto simp: groups_ok_def)
      moreover have "set ids \<inter> set (pg_members h) = {}" using assms(4) that by (auto simp: group_conflict_def list_ex_iff)
      ultimately show ?thesis using assms(3) by blast
    qed
    have "set (pg_members (?f a)) \<inter> set (pg_members (?f b)) = {}"
      if ab: "a \<in> set (people_groups v)" "b \<in> set (people_groups v)" "pg_tenant a = pg_tenant b" "pg_id a \<noteq> pg_id b" for a b
    proof (cases "pg_id a = i")
      case True
      with only ab have "a = g" "pg_id b \<noteq> i" by auto
      with True ab apart [of b] show ?thesis by simp
    next
      case False
      show ?thesis
      proof (cases "pg_id b = i")
        case True
        with only ab have "b = g" by auto
        with True False ab apart [of a] show ?thesis by (simp add: Int_commute)
      qed (use False ok ab in \<open>auto simp: groups_ok_def\<close>)
    qed
    then have "set (pg_members a) \<inter> set (pg_members b) = {}"
      if "a \<in> set (map ?f (people_groups v))" "b \<in> set (map ?f (people_groups v))" "pg_tenant a = pg_tenant b" "pg_id a \<noteq> pg_id b" for a b
      using that by fastforce
    moreover have "distinct (map pg_id (map ?f (people_groups v)))" using ok unfolding ids groups_ok_def by blast
    ultimately show ?thesis unfolding groups_ok_def by blast
  qed
  moreover have "list_all (\<lambda>g. pg_id g < n) (map ?f gs) = list_all (\<lambda>g. pg_id g < n) gs" for n gs by (induction gs) auto
  ultimately show ?thesis
    by (auto simp: staff_kept_def staff_ok_def used_def set_members_def cmd_simps simp del: list.pred_map)
qed

lemma group_change_kept:
  assumes "\<And>v g. g \<in> set (people_groups v) \<Longrightarrow> pg_id g = i \<Longrightarrow> pg_tenant g = caller_ten c \<Longrightarrow> staff_kept v (snd (q g v))"
  shows "obeys staff_kept (thenc (manager_gate c) (bindc (group_object c i) q))"
proof (rule staffs.obeys_then [OF manager_gate_kept(1)])
  show "obeys staff_kept (bindc (group_object c i) q)"
    unfolding obeys_def group_object_def
    using assms by (auto simp: cmd_simps staffs.step_refl dest!: first_row_SomeD split: option.split)
qed

lemma update_group_kept: "obeys staff_kept (update_group c i ids)"
  unfolding update_group_def
proof (rule group_change_kept)
  fix v :: staff and g assume "g \<in> set (people_groups v)" "pg_id g = i" "pg_tenant g = caller_ten c"
  then show "staff_kept v (snd (bindc (asks (\<lambda>v. v)) (\<lambda>v. thenc (lift_res (validate_member_ids v (caller_ten c) (Some i) ids)) (set_members i (\<lambda>_. remdups ids))) v))"
    using set_members_kept [of g v i "\<lambda>_. remdups ids" ids]
    by (auto simp: cmd_simps validate_member_ids_def staffs.step_refl)
qed

lemma add_members_kept: "obeys staff_kept (add_members c i ids)"
  unfolding add_members_def
proof (rule group_change_kept)
  fix v :: staff and g assume g: "g \<in> set (people_groups v)" "pg_id g = i" "pg_tenant g = caller_ten c"
  let ?e = "filter (\<lambda>u. u \<in> set ids) (active_ids v (caller_ten c))"
  have "staff_kept v (snd (set_members i (\<lambda>ms. ms @ filter (\<lambda>u. u \<notin> set ms) (remdups ?e)) v))" if "\<not> group_conflict v (caller_ten c) (Some i) ?e"
    by (rule set_members_kept [OF g(1,2), where ids = ?e]) (use g that in auto)
  then show "staff_kept v (snd ((if ids = [] then ret (Response 400 ''user_ids must be a non-empty list.'')
      else bindc (asks (\<lambda>v. v)) (\<lambda>v.
        let eligible = filter (\<lambda>u. u \<in> set ids) (active_ids v (caller_ten c))
        in if group_conflict v (caller_ten c) (Some i) eligible then ret (Response 400 ''A user can only belong to one group at a time.'')
           else thenc (set_members i (\<lambda>ms. ms @ filter (\<lambda>u. u \<notin> set ms) (remdups eligible))) (ret (Response 200 [])))) v))"
    by (simp add: run_ret run_bind run_asks run_then Let_def staffs.step_refl set_members_def run_update)
qed

lemma remove_members_kept: "obeys staff_kept (remove_members c i ids)"
  unfolding remove_members_def
proof (rule group_change_kept)
  fix v :: staff and g assume g: "g \<in> set (people_groups v)" "pg_id g = i"
  have "staff_kept v (snd (set_members i (filter (\<lambda>u. u \<notin> set ids)) v))"
    by (rule set_members_kept [OF g, where ids = "[]"]) (auto simp: group_conflict_def list_ex_iff)
  then show "staff_kept v (snd ((if ids = [] then ret (Response 400 ''user_ids must be a non-empty list.'')
      else thenc (set_members i (filter (\<lambda>u. u \<notin> set ids))) (ret (Response 200 []))) v))"
    by (simp add: run_ret run_then staffs.step_refl set_members_def run_update)
qed

lemma destroy_group_kept: "obeys staff_kept (destroy_group c i)"
  unfolding destroy_group_def
proof (rule group_change_kept)
  fix v :: staff and g
  show "staff_kept v (snd (update (\<lambda>v. v\<lparr>people_groups := filter (\<lambda>x. pg_id x \<noteq> i) (people_groups v)\<rparr>) v))"
    by (auto simp: cmd_simps staff_kept_def staff_ok_def used_def groups_ok_def list_all_iff distinct_map intro: inj_on_subset)
qed

lemma new_group_kept:
  assumes "\<not> group_conflict v (pg_tenant g) None (pg_members g)" "pg_id g = next_pk (staff_base v)"
    and "people_groups v' = g # people_groups v" "invitations v' = invitations v" "next_pk (staff_base v') = next_pk (staff_base v) + 1"
  shows "staff_kept v v'"
proof -
  have apart: "set (pg_members g) \<inter> set (pg_members h) = {}" if "h \<in> set (people_groups v)" "pg_tenant h = pg_tenant g" for h
    using assms(1) that by (auto simp: group_conflict_def list_ex_iff)
  then have "groups_ok (g # people_groups v)" if "groups_ok (people_groups v)" "\<forall>h \<in> set (people_groups v). pg_id h < pg_id g"
    using that apart unfolding groups_ok_def by (auto; blast)
  then show ?thesis using assms(2-) by (auto simp: staff_kept_def staff_ok_def used_def list_all_iff)
qed

lemma create_group_kept: "obeys staff_kept (create_group c name ids)"
  unfolding create_group_def
proof (rule staffs.obeys_then [OF manager_gate_kept(1)])
  have "staff_kept v (snd (bindc (in_staff fresh_pk) (\<lambda>i.
         update (\<lambda>v. v\<lparr>people_groups := \<lparr>pg_id = i, pg_tenant = caller_ten c, pg_name = name, pg_members = remdups ids\<rparr> # people_groups v\<rparr>)) v))"
    if "\<not> group_conflict v (caller_ten c) None ids" for v
    by (rule new_group_kept [where g = "\<lparr>pg_id = next_pk (staff_base v), pg_tenant = caller_ten c, pg_name = name, pg_members = remdups ids\<rparr>"])
      (use that in \<open>auto simp: cmd_simps group_conflict_def list_ex_iff\<close>)
  then show "obeys staff_kept (bindc (asks (\<lambda>v. v)) (\<lambda>v.
      thenc (lift_res (validate_member_ids v (caller_ten c) None ids))
      (if list_ex (\<lambda>g. pg_tenant g = caller_ten c \<and> pg_name g = name) (people_groups v) then raise_exc (DatabaseError ''unique_together'')
       else bindc (in_staff fresh_pk) (\<lambda>i.
         update (\<lambda>v. v\<lparr>people_groups := \<lparr>pg_id = i, pg_tenant = caller_ten c, pg_name = name, pg_members = remdups ids\<rparr> # people_groups v\<rparr>)))))"
    by (auto simp: obeys_def run_bind run_asks run_then run_lift run_raise validate_member_ids_def staffs.step_refl)
qed

section \<open>Runs\<close>

lemma create_user_action_kept: "obeys staff_kept (create_user_action c b)"
  unfolding create_user_action_def Let_def
  by (intro staffs.obeys_then staffs.obeys_if staffs.obeys_ret staffs.obeys_option staffs.obeys_bind staffs.obeys_asks
      manager_gate_kept add_membership_kept create_user_kept)

lemma plain_create_kept: "obeys staff_kept (plain_create c a b)"
  unfolding plain_create_def by (intro staffs.obeys_then manager_gate_kept insert_user_kept)

lemma destroy_user_kept: "obeys staff_kept (destroy_user c i)"
  unfolding destroy_user_def
  by (intro staffs.obeys_then staffs.obeys_bind staffs.obeys_asks staffs.obeys_option staffs.obeys_raise manager_gate_kept desk_kept)

lemma register_kept: "obeys staff_kept (register strong b)"
  unfolding register_def by (intro staffs.obeys_bind staffs.obeys_then staffs.obeys_ret register_user_kept side_staff_kept)

lemma change_password_kept: "obeys staff_kept (change_password strong u current fresh again)"
  unfolding change_password_def
  by (intro staffs.obeys_if staffs.obeys_bind staffs.obeys_asks staffs.obeys_then staffs.obeys_ret side_staff_kept)

lemma logout_kept: "obeys staff_kept (logout u refresh valid)"
  unfolding logout_def by (intro staffs.obeys_if staffs.obeys_then staffs.obeys_ret side_staff_kept)

text \<open>One request to the accounts, or any change the rest of the application makes to its own tables.\<close>

inductive staff_step :: "staff \<Rightarrow> staff \<Rightarrow> bool" where
  creates: "staff_step v (snd (create_user_action c b v))"
| inserts: "staff_step v (snd (plain_create c given_name surname v))"
| deactivates: "staff_step v (snd (destroy_user c i v))"
| invites: "staff_step v (snd (create_invitation c address role_key token v))"
| resends: "staff_step v (snd (resend_invitation c i token v))"
| revokes: "staff_step v (snd (destroy_invitation c i v))"
| accepts: "staff_step v (snd (accept_invitation strong who token b v))"
| groups: "staff_step v (snd (create_group c name ids v))"
| regroups: "staff_step v (snd (update_group c i ids v))"
| adds: "staff_step v (snd (add_members c i ids v))"
| removes: "staff_step v (snd (remove_members c i ids v))"
| ungroups: "staff_step v (snd (destroy_group c i v))"
| registers: "staff_step v (snd (register strong b v))"
| renews: "staff_step v (snd (change_password strong u current fresh again v))"
| leaves: "staff_step v (snd (logout u refresh valid v))"
| elsewhere: "next_pk (staff_base v) \<le> next_pk (base d) \<Longrightarrow> staff_step v (v\<lparr>people_desk := d, staff_ledger := l\<rparr>)"

abbreviation staff_run :: "staff \<Rightarrow> staff \<Rightarrow> bool" where
  "staff_run \<equiv> staff_step\<^sup>*\<^sup>*"

lemmas staff_requests_kept = create_user_action_kept plain_create_kept destroy_user_kept create_invitation_kept resend_kept destroy_invitation_kept
  accept_kept create_group_kept update_group_kept add_members_kept remove_members_kept destroy_group_kept register_kept change_password_kept logout_kept

lemma staff_step_kept: "staff_step v v' \<Longrightarrow> staff_kept v v'"
  by (induction rule: staff_step.induct) (simp_all add: staff_requests_kept [unfolded obeys_def, rule_format] same_tables_kept)

lemma staff_run_kept: "staff_run v v' \<Longrightarrow> staff_kept v v'"
  by (induction rule: rtranclp_induct) (auto intro: staffs.step_refl staffs.step_trans staff_step_kept)

section \<open>Acceptance\<close>

lemma register_tables:
  "register_user strong b v = (Inr u, w) \<Longrightarrow> invitations w = invitations v \<and> memberships (staff_base w) = memberships (staff_base v)"
  by (auto simp: register_user_def create_user_def insert_user_def cmd_simps Let_def split: if_splits)

lemma add_membership_tables:
  assumes "add_membership u ten r v = (x, w)" "\<not> has_membership v u ten"
  shows "x = Inr () \<and> invitations w = invitations v \<and> memberships (staff_base w) = new_membership u ten r # memberships (staff_base v)"
  using assms by (auto simp: add_membership_def create_profile_on_membership_def cmd_simps split: if_splits)

lemma joined_tenant:
  assumes "join_tenant x u v = (Inr (Response 200 []), v')"
  shows "lower (email u) = lower (inv_email x)" "\<not> has_membership v u (tenant_id (inv_tenant x))"
    "new_membership u (tenant_id (inv_tenant x)) (inv_role x) \<in> set (memberships (staff_base v'))"
    "x \<in> set (invitations v) \<Longrightarrow> used v' (inv_token x)"
proof -
  show fresh: "lower (email u) = lower (inv_email x)" "\<not> has_membership v u (tenant_id (inv_tenant x))"
    using assms by (auto simp: join_tenant_def cmd_simps split: if_splits)
  obtain w where w: "add_membership u (tenant_id (inv_tenant x)) (inv_role x) v = (Inr (), w)" "invitations w = invitations v"
    "memberships (staff_base w) = new_membership u (tenant_id (inv_tenant x)) (inv_role x) # memberships (staff_base v)"
    using add_membership_tables [OF _ fresh(2)] by (metis surj_pair)
  then have "v' = w\<lparr>invitations := map (\<lambda>y. if inv_id y = inv_id x then y\<lparr>accepted_at := Some (clock (staff_base w))\<rparr> else y) (invitations v)\<rparr>"
    using assms fresh by (simp add: join_tenant_def cmd_simps)
  then show "new_membership u (tenant_id (inv_tenant x)) (inv_role x) \<in> set (memberships (staff_base v'))"
    "x \<in> set (invitations v) \<Longrightarrow> used v' (inv_token x)"
    unfolding used_def list_ex_iff
    using w by (auto simp: is_accepted_def intro!: bexI [of _ "x\<lparr>accepted_at := Some (clock (staff_base w))\<rparr>"])
qed

lemma accepted:
  assumes "accept_invitation strong who token b v = (Inr (Response 200 []), v')"
  shows "token \<noteq> [] \<and> used v' token \<and> (\<exists>x \<in> set (invitations v). inv_token x = token \<and> \<not> is_accepted x \<and> clock (staff_base v) \<le> expires_at x
    \<and> (\<exists>u. lower (email u) = lower (inv_email x) \<and> \<not> has_membership v u (tenant_id (inv_tenant x))
        \<and> new_membership u (tenant_id (inv_tenant x)) (inv_role x) \<in> set (memberships (staff_base v'))))"
proof -
  have t: "token \<noteq> []" using assms by (auto simp: accept_invitation_def cmd_simps)
  obtain x where x: "first_row (\<lambda>x. inv_token x = token) (invitations v) = Some x"
    using assms t by (cases "first_row (\<lambda>x. inv_token x = token) (invitations v)") (auto simp: accept_invitation_def run_bind run_asks run_ret)
  have ok: "\<not> is_accepted x" "\<not> is_expired (clock (staff_base v)) x"
    using assms t x by (auto simp: accept_invitation_def run_bind run_asks run_ret split: if_splits)
  have goes: "(case who of Some u \<Rightarrow> join_tenant x u | None \<Rightarrow> bindc (register_user strong b) (join_tenant x)) v = (Inr (Response 200 []), v')"
    using assms t x ok by (simp add: accept_invitation_def run_bind run_asks)
  have "\<exists>u w. join_tenant x u w = (Inr (Response 200 []), v') \<and> invitations w = invitations v \<and> memberships (staff_base w) = memberships (staff_base v)"
  proof (cases who)
    case None
    then obtain u w where "register_user strong b v = (Inr u, w)" "join_tenant x u w = (Inr (Response 200 []), v')"
      using goes by (auto simp: run_bind split: sum.splits prod.splits)
    then show ?thesis using register_tables by blast
  next
    case (Some u)
    then have "join_tenant x u v = (Inr (Response 200 []), v')" using goes by simp
    then show ?thesis by blast
  qed
  then obtain u w where j: "join_tenant x u w = (Inr (Response 200 []), v')"
    and w: "invitations w = invitations v" "memberships (staff_base w) = memberships (staff_base v)" by blast
  have "x \<in> set (invitations v)" "inv_token x = token" using x by (auto dest: first_row_SomeD)
  moreover from this have "used v' token" using joined_tenant(4) [OF j] w by auto
  moreover have "has_membership w u i = has_membership v u i" for i using w by (simp add: has_membership_def)
  ultimately show ?thesis using joined_tenant(1-3) [OF j] ok t by (auto simp: is_expired_def not_less)
qed

lemma accept_used:
  assumes "staff_ok v" "used v token" "token \<noteq> []"
  shows "fst (accept_invitation strong who token b v) = Inr (Response 400 ''Invitation has already been accepted.'')"
proof -
  obtain y where y: "y \<in> set (invitations v)" "inv_token y = token" "is_accepted y" using assms(2) by (auto simp: used_def list_ex_iff)
  obtain x where x: "first_row (\<lambda>x. inv_token x = token) (invitations v) = Some x"
    using y by (cases "first_row (\<lambda>x. inv_token x = token) (invitations v)") (auto simp: first_row_eq_None)
  then have "x \<in> set (invitations v)" "inv_token x = token" by (auto dest: first_row_SomeD)
  with y assms(1) have "x = y" by (auto simp: staff_ok_def distinct_map inj_on_def)
  with x y assms(3) show ?thesis by (simp add: accept_invitation_def run_bind run_asks run_ret)
qed

section \<open>The properties\<close>

text \<open>
  C40: An invitation is used once, in time and by its addressee: a successful acceptance was of a row that
  carries the token, was not accepted and not expired; it adds a membership in the
  invitation's tenant and role for a user of the invited address who had none; and after
  any further requests the same token is refused as accepted, whoever presents it.
\<close>

theorem invitation_used_once:
  assumes "staff_ok v" "accept_invitation strong who token b v = (Inr (Response 200 []), v')" "staff_run v' v''"
  shows "(\<exists>x \<in> set (invitations v). inv_token x = token \<and> \<not> is_accepted x \<and> clock (staff_base v) \<le> expires_at x
      \<and> (\<exists>u. lower (email u) = lower (inv_email x) \<and> \<not> has_membership v u (tenant_id (inv_tenant x))
        \<and> new_membership u (tenant_id (inv_tenant x)) (inv_role x) \<in> set (memberships (staff_base v'))))
    \<and> fst (accept_invitation strong' who' token b' v'') = Inr (Response 400 ''Invitation has already been accepted.'')"
proof -
  have step: "staff_step v v'" using staff_step.accepts [of v strong who token b] assms(2) by simp
  then have "staff_run v v''" using assms(3) by (rule converse_rtranclp_into_rtranclp)
  then have "staff_ok v''" using staff_run_kept assms(1) by (auto simp: staff_kept_def)
  moreover have "used v'' token"
    using staff_run_kept [OF assms(3)] staff_step_kept [OF step] accepted [OF assms(2)] assms(1) by (auto simp: staff_kept_def)
  ultimately show ?thesis using accepted [OF assms(2)] accept_used by blast
qed

text \<open>
  Whatever requests are made, no user is in two groups of a tenant.
\<close>

theorem one_group_per_user:
  assumes "staff_ok v" "staff_run v v'" "g \<in> set (people_groups v')" "h \<in> set (people_groups v')" "pg_tenant g = pg_tenant h"
    and "i \<in> set (pg_members g)" "i \<in> set (pg_members h)"
  shows "g = h"
proof -
  have "groups_ok (people_groups v')" using staff_run_kept [OF assms(2)] assms(1) by (auto simp: staff_kept_def staff_ok_def)
  then have "pg_id g = pg_id h" "inj_on pg_id (set (people_groups v'))"
    using assms(3-) by (auto simp: groups_ok_def distinct_map)
  then show ?thesis using assms(3,4) by (auto dest: inj_onD)
qed

text \<open>Nobody creates or invites a member above himself.\<close>

lemma created_below:
  assumes "create_user_action c b v = (Inr (Response 201 []), v')" "actor_level v c = Some l"
  shows "\<exists>i r. ub_role b = Some i \<and> tenant_role v (caller_ten c) i = Some r \<and> l \<le> hierarchy_level r"
  using assms by (auto simp: create_user_action_def manager_gate_def outranks_def Let_def run_bind run_asks run_then run_ret run_raise not_less split: if_splits option.splits)

lemma validated_desk: "validate_invitation ten address v = (x, w) \<Longrightarrow> people_desk w = people_desk v"
  by (auto simp: validate_invitation_def Let_def cmd_simps split: if_splits)

lemma invited_below:
  assumes "create_invitation c address role_key token v = (Inr x, v')" "actor_level v c = Some l"
  shows "inv_tenant x = caller_tenant c \<and> l \<le> hierarchy_level (inv_role x)"
proof -
  have same: "actor_level w c = Some l" if "validate_invitation (caller_ten c) address v = (y, w)" for w y
    using validated_desk [OF that] assms(2) by (simp add: actor_level_def)
  show ?thesis
    using assms by (auto simp: create_invitation_def manager_gate_def outranks_def Let_def run_bind run_asks run_then run_ret run_raise run_lift
        run_update send_invitation_email_def not_less split: if_splits option.splits sum.splits prod.splits dest: same)
qed

section \<open>A small staff\<close>

definition admin_person :: user where
  "admin_person = \<lparr>user_id = 8, first_name = ''Bo'', last_name = ''M'', email = ''bo@acme''\<rparr>"

definition demo_staff :: staff where
  "demo_staff = \<lparr>people_desk = demo_desk\<lparr>base := (base demo_desk)\<lparr>users := [demo_user, admin_person],
       memberships := [demo_member demo_user (demo_role 2 ''manager'' 20 []), demo_member admin_person (demo_role 1 ''admin'' 10 [])]\<rparr>,
       roles := [demo_role 1 ''admin'' 10 [], demo_role 2 ''manager'' 20 [], demo_role 3 ''agent'' 30 []]\<rparr>,
     staff_ledger = \<lparr>plans = [], subscriptions = [], invoices = [], usages = [], processed = [], next_key = 1\<rparr>,
     profiles = [], invitations = [\<lparr>inv_id = 20, inv_tenant = demo_tenant, inv_email = ''Cy@acme'', inv_role = demo_role 3 ''agent'' 30 [],
       inv_token = ''tok'', inv_by = demo_user, accepted_at = None, expires_at = 2000\<rparr>],
     people_groups = [\<lparr>pg_id = 21, pg_tenant = 1, pg_name = ''day'', pg_members = [7]\<rparr>, \<lparr>pg_id = 22, pg_tenant = 1, pg_name = ''night'', pg_members = []\<rparr>],
     inactive_accounts = [], passwords = [], invite_mails = [], verify_mails = []\<rparr>"

definition manager_caller :: caller where
  "manager_caller = \<lparr>caller_user = demo_user, is_superuser = False, caller_tenant = demo_tenant, caller_request = None\<rparr>"

definition newcomer :: "string \<Rightarrow> user_body" where
  "newcomer mail = \<lparr>ub_email = mail, ub_password = ''longenough'', ub_first = ''Cy'', ub_last = ''N'', ub_role = Some 3\<rparr>"

definition any_password :: "string \<Rightarrow> bool" where
  "any_password _ = True"

lemma demo_staff_ok: "staff_ok demo_staff"
  by (simp add: staff_ok_def groups_ok_def demo_staff_def demo_desk_def demo_store_def)

lemma demo_accepted: "fst (accept_invitation any_password None ''tok'' (newcomer ''cy@acme'') demo_staff) = Inr (Response 200 [])"
  by code_simp

theorem invitation_used_once_witness:
  "\<exists>v'. accept_invitation any_password None ''tok'' (newcomer ''cy@acme'') demo_staff = (Inr (Response 200 []), v')
     \<and> fst (accept_invitation any_password (Some demo_user) ''tok'' (newcomer []) v') = Inr (Response 400 ''Invitation has already been accepted.'')"
proof -
  obtain v' where v': "accept_invitation any_password None ''tok'' (newcomer ''cy@acme'') demo_staff = (Inr (Response 200 []), v')"
    using demo_accepted by (metis prod.collapse)
  show ?thesis
    using v' invitation_used_once [OF demo_staff_ok v' rtranclp.rtrancl_refl, of any_password "Some demo_user" "newcomer []"] by blast
qed

definition regrouped :: staff where
  "regrouped = snd (create_group manager_caller ''on call'' [8] demo_staff)"

lemma regrouped_rows: "map (\<lambda>g. (pg_id g, pg_tenant g, pg_members g)) (people_groups regrouped) = [(100, 1, [8]), (21, 1, [7]), (22, 1, [])]"
  by code_simp

theorem one_group_per_user_witness:
  "\<exists>g h. g \<in> set (people_groups regrouped) \<and> h \<in> set (people_groups regrouped) \<and> 8 \<in> set (pg_members g) \<and> 8 \<in> set (pg_members h) \<and> g = h"
proof -
  have run: "staff_run demo_staff regrouped" unfolding regrouped_def by (rule r_into_rtranclp) (rule staff_step.groups)
  have "(100, 1, [8]) \<in> set (map (\<lambda>g. (pg_id g, pg_tenant g, pg_members g)) (people_groups regrouped))" by (simp add: regrouped_rows)
  then obtain g where g: "g \<in> set (people_groups regrouped)" "[8] = pg_members g" by auto
  then have m: "8 \<in> set (pg_members g)" by (metis list.set_intros(1))
  show ?thesis using g m one_group_per_user [OF demo_staff_ok run g(1) g(1) refl m m] by blast
qed

lemma second_group_refused:
  "fst (add_members manager_caller 22 [7] demo_staff) = Inr (Response 400 ''A user can only belong to one group at a time.'')"
  by code_simp

text \<open>What the checks leave open.\<close>

lemma manager_deactivates_admin:
  "map (\<lambda>m. (user_id (member_user m), member_active m)) (memberships (staff_base (snd (destroy_user manager_caller 8 demo_staff)))) = [(7, True), (8, False)]"
  by code_simp

lemma mismatch_leaves_account:
  "let (x, v) = accept_invitation any_password None ''tok'' (newcomer ''eve@acme'') demo_staff
   in x = Inr (Response 403 ''Invitation email does not match your account.'') \<and> map email (users (staff_base v)) = [''eve@acme'', ''ada@acme'', ''bo@acme'']
     \<and> inactive_accounts v = [] \<and> verify_mails v = []"
  by code_simp

lemma created_beyond_plan:
  "check_can_add_user (staff_ledger demo_staff) (staff_base demo_staff) 1 = Inl (PermissionDenied ''plan'')
     \<and> fst (create_user_action manager_caller (newcomer ''cy@acme'') demo_staff) = Inr (Response 201 [])"
  by code_simp

lemma blank_address_once:
  "let v = snd (plain_create manager_caller ''Di'' ''O'' demo_staff)
   in map email (users (staff_base v)) = [[], ''ada@acme'', ''bo@acme''] \<and> fst (plain_create manager_caller ''El'' ''P'' v) = Inl (DatabaseError ''email'')"
  by code_simp

lemma former_member_cannot_rejoin:
  "let v = snd (destroy_user manager_caller 8 demo_staff); w = v\<lparr>invitations := map (\<lambda>x. x\<lparr>inv_email := ''bo@acme''\<rparr>) (invitations v)\<rparr>
   in fst (accept_invitation any_password (Some admin_person) ''tok'' (newcomer []) w) = Inr (Response 400 ''You are already a member of this tenant.'')
     \<and> fst (validate_invitation 1 ''bo@acme'' v) = Inr ()"
  by code_simp

end
