(* ===== verification/Spec2Isabelle.thy ===== *)
theory Spec2Isabelle
  imports Sla_Clock_Laws Ticket_Wait Ticket_Effects Kanban_Columns Ticket_Links Access_Laws Agents_Laws Email_Text_Laws Hub_Queue Email_Pipeline_Laws Ticket_Tasks_Laws Ticket_Reminders Talk_Laws Crm_Alerts Comment_Laws Billing_Laws Ticket_Requests Api_Key_Laws Knowledge_Laws Media_Laws Accounts_Laws
begin

text \<open>
  \<^bold>\<open>The Kanzan CRM.\<close>  A Django application for customer support, in which many
  tenants share one database: tickets with service-level clocks and escalation,
  email in and out, an inbox in front of the tickets, kanban boards, internal
  messaging, comments with mentions, CRM reminders and deals, agents with a
  capacity, custom fields, API keys and a subscription to a plan.  This library
  models its server code under \<open>src/apps\<close> (paths below are relative to it) and
  proves what makes its parts correct.

  \<^bold>\<open>How the parts interact.\<close>  Saving a ticket is the centre.  An endpoint
  (\<open>tickets/views.py\<close>) checks the caller and calls a service
  (\<open>tickets/services.py\<close>), which changes the instance and saves it; the save
  (\<open>tickets/models.py\<close>) fires receivers (\<open>tickets/signals.py\<close>) that stamp times, open
  and close SLA pauses, move the kanban card, write the audit trail, and save the
  ticket again.  Emails become tickets or replies (\<open>inbound_email\<close>), or are parked
  in the inbox (\<open>inbox_hub\<close>) until an agent takes them; agents (\<open>agents\<close>) are chosen by load; periodic tasks
  (\<open>tickets/tasks.py\<close>, \<open>inbox_hub/tasks.py\<close>, \<open>crm/tasks.py\<close>) sweep the tables; notices
  (\<open>notifications\<close>), live events (\<open>tenants/live.py\<close>) and mails report all of it.

  \<^bold>\<open>How code becomes definitions.\<close>  A table is the list of its rows in the order of
  its default manager, a model is a \<^bold>\<open>record\<close>, an enumeration a \<^bold>\<open>datatype\<close>.  Code that
  touches the database is a command (\<open>Effects\<close>): from a state to a result, which is
  a value or the exception the code raises, and a state; an exception keeps
  the writes made before it, \<open>atomic_on\<close> undoes them but for what is already
  queued.  The state grows with the applications:
  \<open>store\<close> (\<open>Crm_Data\<close>: the ticketing core) is inside \<open>desk\<close> (\<open>Desk\<close>: agents, inbox,
  emails, notices), which is inside \<open>forum\<close> (comments), inside \<open>office\<close> (the ticket
  endpoints), and beside these in \<open>talk\<close> (messaging), \<open>crm\<close> (reminders and
  activities), \<open>ledger\<close> (billing), \<open>catalogue\<close> (custom fields) and \<open>vault\<close> (API keys); a command of the inner
  state is lifted to the outer one.  A foreign key of a ticket is the related row as the instance
  caches it, so a stale instance is visible as such.  Instants are microseconds, dates are days,
  strings are ASCII, JSON is \<open>json\<close> (\<open>Pydata\<close>).  Code outside the repository is a
  parameter: the zone database, \<open>re.search\<close> of a stored pattern, the sending of a
  mail or a request, the digest of a key, Stripe.

  \<^bold>\<open>Theories\<close> (the model; the laws follow).
  \<^item> \<open>Prelude\<close>, \<open>Pydata\<close>, \<open>Tenancy\<close>, \<open>Effects\<close>: results, queries, JSON and strings, tenant
    settings, commands.
  \<^item> \<open>Sla_Clock\<close>: \<open>tickets/sla.py\<close>, function by function.
  \<^item> \<open>Crm_Data\<close>: the rows of the core.  \<open>Ticket_Save\<close>: \<open>Ticket.save\<close> and its receivers.
    \<open>Ticket_Workflow\<close>, \<open>Ticket_Actions\<close>, \<open>Ticket_Combine\<close>: \<open>tickets/services.py\<close>.
    \<open>Ticket_Links\<close>: links and their cycles.  \<open>Ticket_Tasks\<close>: \<open>tickets/tasks.py\<close>.  \<open>Ticket_Mail\<close>:
    \<open>tickets/email_service.py\<close> and \<open>webhook_service.py\<close>.
  \<^item> \<open>Ticket_Views\<close>, \<open>Ticket_Endpoints\<close>: \<open>TicketViewSet\<close> with the serializers of its bodies.
  \<^item> \<open>Kanban_Board\<close>: \<open>kanban/services.py\<close>.
  \<^item> \<open>Desk\<close>: the rows around the core, and \<open>notifications/services.py\<close>.  \<open>Access\<close>: permissions and
    visibility (\<open>accounts\<close>, \<open>tickets/access.py\<close>, \<open>inbox_hub/access.py\<close>).  \<open>Agents\<close>: \<open>agents\<close>.
  \<^item> \<open>Email_Text\<close>, \<open>Email_Tickets\<close>, \<open>Email_Pipeline\<close>: \<open>inbound_email\<close>.
  \<^item> \<open>Hub\<close>, \<open>Hub_Services\<close>: \<open>inbox_hub\<close>.
  \<^item> \<open>Talk\<close>: \<open>messaging\<close>.  \<open>Comment_Threads\<close>: \<open>comments\<close>.
  \<^item> \<open>Crm_Reminders\<close>, \<open>Crm_Scores\<close>: \<open>crm\<close>.
  \<^item> \<open>Custom_Fields\<close>: \<open>custom_fields\<close>.  \<open>Billing\<close>: \<open>billing\<close>.  \<open>Api_Keys\<close>: \<open>api_keys\<close>.
  \<^item> \<open>Knowledge\<close>: \<open>knowledge\<close>, over the state \<open>library\<close>.
  \<^item> \<open>Media\<close>: \<open>attachments\<close>, over the state \<open>archive\<close>.
  \<^item> \<open>Accounts\<close>: \<open>accounts/views.py\<close> and its serializers, over the state \<open>staff\<close>.

  \<^bold>\<open>Laws.\<close>
  \<^item> Interfaces.  \<open>step_law\<close> (\<open>Effects\<close>) is the contract of an operation: a reflexive and
    transitive relation between states; each component interprets it for its
    invariant.  \<open>log_law\<close> and \<open>write_law\<close> (\<open>Ticket_Frame\<close>, \<open>Ticket_Trail\<close>) extend it with the
    writes of a save, so that one proof per relation covers every service; \<open>Desk_Laws\<close>
    does the same for the desk.  Their interpretations carry the audit trail, the
    belongings of a ticket, the marks of the escalation rules, the emails, the
    conversations, the reminders, the comments, the subscriptions and the keys.
  \<^item> \<open>Sla_Clock_Laws\<close>: the clock against the set of business microseconds.
  \<^item> \<open>Ticket_Lifecycle\<close>, \<open>Ticket_Nesting\<close>, \<open>Ticket_Wait\<close>, \<open>Ticket_Safety\<close>, \<open>Ticket_Moves\<close>, \<open>Ticket_Effects\<close>:
    the stamps of a ticket against its status, how deep saves nest, waiting and
    resuming, what no run of services changes, merge and split.
  \<^item> \<open>Kanban_Laws\<close>, \<open>Kanban_Columns\<close>: a move refines the move in a list; columns and statuses.
  \<^item> \<open>Access_Laws\<close>, \<open>Agents_Laws\<close>, \<open>Ticket_Requests\<close>, \<open>Api_Key_Laws\<close>: who reaches and changes what.
  \<^item> \<open>Email_Text_Laws\<close>, \<open>Email_Pipeline_Laws\<close>, \<open>Hub_Laws\<close>, \<open>Hub_Queue\<close>: the thread of a mail found again,
    every email settled, the life of a parked email, the backlog and the sweep.
  \<^item> \<open>Ticket_Tasks_Laws\<close>, \<open>Ticket_Reminders\<close>, \<open>Crm_Laws\<close>, \<open>Crm_Alerts\<close>: rules that fire once,
    reminders once a day, alerts once per time.
  \<^item> \<open>Talk_Laws\<close>, \<open>Talk_Notices\<close>, \<open>Comment_Laws\<close>: the shape of conversations and threads, who is
    told of a message.
  \<^item> \<open>Custom_Field_Laws\<close>, \<open>Billing_Laws\<close>: typed values, one subscription per tenant.
  \<^item> \<open>Knowledge_Laws\<close>: what agents cannot do to articles, and the loop that finds a slug.
  \<^item> \<open>Media_Laws\<close>: which file is served to whom, and that no path leaves the storage.
  \<^item> \<open>Accounts_Laws\<close>: an invitation is used once, groups stay apart, nobody makes a member above himself.

  \<^bold>\<open>Bounds and fuel.\<close>  The loops of the clock run at most \<open>loop_limit\<close> = 8760 times, as in
  the source, and the laws show when that is enough.  Nested saves carry Python's
  recursion limit as fuel (\<open>recursion_limit\<close> = 100); \<open>nested_saves_bounded\<close> shows that the
  services need two levels, \<open>unwritten_pausing_status_recurses\<close> that one kind of save has no end.  The
  attempts of a task are its \<open>max_retries\<close> and those of a webhook the source's four; the search of a
  comment thread takes as many rounds as there are comments.  Every other recursion is structural
  or has a measure.

  \<^bold>\<open>Not modelled.\<close>
  \<^item> Words: log lines, subjects and bodies of notices and mails, presentation fields of
    the serializers, the payloads of some live events, pages and templates.
  \<^item> The database: most unique constraints and length checks, locks and races
    between requests (operations follow each other), collation, the order of
    equal rows and of sets.  The clock stands still within an operation, and floats are exact.
  \<^item> Deferred work: callbacks of a request that are queued for the commit stay in the queue until
    \<open>run_on_commit\<close>.  The receiver of custom fields runs with the ticket endpoints only; the events
    of contacts are left out, and the profile of a new member is made by the accounts endpoints only.
  \<^item> Sockets, the SMTP and IMAP clients, the telephone exchange, the sign-in pages,
    query-string filters and pagination, malformed primary keys, static files, administration pages,
    analytics queries.
\<close>

end
